(* ===== verification/XEOS_Base.thy ===== *)
theory XEOS_Base
  imports Main "HOL-Library.Word" "HOL-Library.Monad_Syntax"
begin

text \<open>
  Shared vocabulary of the development.

  The kernel is compiled for two targets, selected by the macro __LP64__: i386 (32-bit pointers)
  and x86-64 (64-bit pointers).  Every definition whose C code depends on the target takes an
  argument of type arch.  A C pointer is a 64-bit word; a cast of an integer to a pointer keeps the
  bits a pointer of the target has (ptr_of).

  Fixed width integers are words of that width; their arithmetic wraps as in C.  An operation
  whose C code may have undefined behaviour (an access outside an object, a null dereference)
  returns an option, and None stands for the undefined case.
\<close>

unbundle bit_operations_syntax

type_synonym u8 = "8 word"
type_synonym u16 = "16 word"
type_synonym u32 = "32 word"
type_synonym u64 = "64 word"

datatype arch = I386 | X86_64

definition ptr_of :: "arch \<Rightarrow> u64 \<Rightarrow> u64" where
  "ptr_of A x = (case A of I386 \<Rightarrow> x AND 0xFFFFFFFF | X86_64 \<Rightarrow> x)"

definition ptr_bits :: "arch \<Rightarrow> nat" where
  "ptr_bits A = (case A of I386 \<Rightarrow> 32 | X86_64 \<Rightarrow> 64)"

abbreviation page_size :: nat where
  "page_size \<equiv> 4096"

text \<open>A call of a variadic print function: the format string and the arguments.\<close>

datatype out_arg = OutNum u64 | OutStr string

type_synonym out_call = "string \<times> out_arg list"

named_theorems pte_simps \<open>unfolding rules for page table entries\<close>
named_theorems io_simps \<open>unfolding rules for port access traces\<close>


section \<open>Ranges of the machine integers\<close>

lemma unat_u8: "unat (x :: u8) < 256" using unsigned_less [where ?'b = 8, where ?'a = nat, of x] by simp
lemma unat_u16: "unat (x :: u16) < 65536" using unsigned_less [where ?'b = 16, where ?'a = nat, of x] by simp
lemma unat_u32: "unat (x :: u32) < 4294967296" using unsigned_less [where ?'b = 32, where ?'a = nat, of x] by simp
lemma unat_u64: "unat (x :: u64) < 18446744073709551616" using unsigned_less [where ?'b = 64, where ?'a = nat, of x] by simp

lemma unat_mod_u8 [simp]: "unat (x :: u8) mod 256 = unat x" using unat_u8 [of x] by simp
lemma unat_mod_u16 [simp]: "unat (x :: u16) mod 65536 = unat x" using unat_u16 [of x] by simp
lemma unat_mod_u32 [simp]: "unat (x :: u32) mod 4294967296 = unat x" using unat_u32 [of x] by simp
lemma unat_mod_u64 [simp]: "unat (x :: u64) mod 18446744073709551616 = unat x" using unat_u64 [of x] by simp

lemma unat_of_nat_u8: "n < 256 \<Longrightarrow> unat (of_nat n :: u8) = n" by (simp add: unat_of_nat)
lemma unat_of_nat_u32: "n < 4294967296 \<Longrightarrow> unat (of_nat n :: u32) = n" by (simp add: unat_of_nat)
lemma unat_of_nat_u64: "n < 18446744073709551616 \<Longrightarrow> unat (of_nat n :: u64) = n" by (simp add: unat_of_nat)

lemma unat_add_u64:
  "unat (x :: u64) + unat y < 18446744073709551616 \<Longrightarrow> unat (x + y) = unat x + unat y"
  by (simp add: unat_word_ariths)

lemma unat_add_u32:
  "unat (x :: u32) + unat y < 4294967296 \<Longrightarrow> unat (x + y) = unat x + unat y"
  by (simp add: unat_word_ariths)


section \<open>Pointers\<close>

lemma ptr_of_X86_64 [simp]: "ptr_of X86_64 x = x"
  by (simp add: ptr_of_def)

lemma mask32_eq: "(0xFFFFFFFF :: u64) = mask 32"
  by (simp add: mask_eq_exp_minus_1)

lemma unat_ptr_of: "unat (ptr_of A x) = unat x mod 2 ^ ptr_bits A"
proof (cases A)
  case I386
  then show ?thesis
    by (simp add: ptr_of_def ptr_bits_def mask32_eq unat_mod take_bit_eq_mod
        flip: take_bit_eq_mask)
next
  case X86_64
  have "unat x < 2 ^ 64" using unat_u64 [of x] by simp
  then show ?thesis using X86_64 by (simp add: ptr_bits_def)
qed

lemma ptr_of_fits: "unat x < 2 ^ ptr_bits A \<Longrightarrow> ptr_of A x = x"
  by (rule word_unat_eq_iff [THEN iffD2]) (simp add: unat_ptr_of)

lemma ptr_bits_dvd: "(2::nat) ^ ptr_bits A dvd 18446744073709551616"
proof -
  have "(2::nat) ^ ptr_bits A dvd 2 ^ 64"
    by (rule le_imp_power_dvd) (simp add: ptr_bits_def split: arch.splits)
  then show ?thesis by simp
qed

lemma ptr_of_add: "ptr_of A (ptr_of A x + y) = ptr_of A (x + y)"
  by (rule word_unat_eq_iff [THEN iffD2])
     (simp add: unat_ptr_of unat_word_ariths mod_mod_cancel [OF ptr_bits_dvd] mod_add_left_eq)

lemma ptr_of_add' [simp]: "ptr_of A (y + ptr_of A x) = ptr_of A (x + y)"
  using ptr_of_add [of A x y] by (simp add: add.commute)

lemma ptr_of_idem [simp]: "ptr_of A (ptr_of A x) = ptr_of A x"
  using ptr_of_add [of A x 0] by simp

lemma ptr_of_0 [simp]: "ptr_of A 0 = 0"
  by (simp add: ptr_of_def split: arch.splits)


section \<open>Lists\<close>

lemma count_list_update:
  "i < length xs \<Longrightarrow> count_list (xs[i := v]) a + (if xs ! i = a then 1 else 0) =
     count_list xs a + (if v = a then 1 else 0)"
proof (induction xs arbitrary: i)
  case (Cons x xs)
  show ?case
  proof (cases i)
    case (Suc j)
    then show ?thesis using Cons.IH [of j] Cons.prems by (auto split: if_splits)
  qed simp
qed simp

lemma count_list_pos: "i < length xs \<Longrightarrow> xs ! i = a \<Longrightarrow> 0 < count_list xs a"
  by (metis count_list_0_iff gr0I nth_mem)

lemma filter_upt_Cons:
  "i < n \<Longrightarrow> filter P [i..<n] = (if P i then i # filter P [Suc i..<n] else filter P [Suc i..<n])"
  by (simp add: upt_conv_Cons)

lemma filter_hdD: "filter P xs = y # ys \<Longrightarrow> P y \<and> y \<in> set xs"
  by (metis list.set_intros(1) mem_Collect_eq set_filter)

end
