(* ===== verification/XEOS_Bytes.thy ===== *)
theory XEOS_Bytes
  imports XEOS_Base
begin

text \<open>
  Byte addressed memory, as the kernel reads and writes it through casted pointers.

  A memory maps addresses (natural numbers, the unsigned value of a pointer) to bytes.  Both
  targets are little endian: rd_le and wr_le read and write an n-byte integer, and rdW and wrW are
  the accesses of the widths the code uses.  The locale cell_array is the interface the page table
  code relies on: reading back a cell that was written, and framing of all others.
\<close>

type_synonym bytes = "nat \<Rightarrow> u8"

primrec rd_le :: "nat \<Rightarrow> bytes \<Rightarrow> nat \<Rightarrow> nat" where
  "rd_le 0 m a = 0"
| "rd_le (Suc n) m a = unat (m a) + 256 * rd_le n m (Suc a)"

primrec wr_le :: "nat \<Rightarrow> bytes \<Rightarrow> nat \<Rightarrow> nat \<Rightarrow> bytes" where
  "wr_le 0 m a v = m"
| "wr_le (Suc n) m a v = wr_le n (m(a := of_nat v)) (Suc a) (v div 256)"

definition rd16 :: "bytes \<Rightarrow> nat \<Rightarrow> u16" where "rd16 m a = of_nat (rd_le 2 m a)"
definition rd32 :: "bytes \<Rightarrow> nat \<Rightarrow> u32" where "rd32 m a = of_nat (rd_le 4 m a)"
definition rd64 :: "bytes \<Rightarrow> nat \<Rightarrow> u64" where "rd64 m a = of_nat (rd_le 8 m a)"

definition wr16 :: "bytes \<Rightarrow> nat \<Rightarrow> u16 \<Rightarrow> bytes" where "wr16 m a v = wr_le 2 m a (unat v)"
definition wr32 :: "bytes \<Rightarrow> nat \<Rightarrow> u32 \<Rightarrow> bytes" where "wr32 m a v = wr_le 4 m a (unat v)"
definition wr64 :: "bytes \<Rightarrow> nat \<Rightarrow> u64 \<Rightarrow> bytes" where "wr64 m a v = wr_le 8 m a (unat v)"

text \<open>memset on a memory area: the bytes of the area get the value, all others are kept.\<close>

definition mem_fill :: "bytes \<Rightarrow> nat \<Rightarrow> u8 \<Rightarrow> nat \<Rightarrow> bytes" where
  "mem_fill m a v n = (\<lambda>b. if a \<le> b \<and> b < a + n then v else m b)"


section \<open>Laws of multi-byte accesses\<close>

lemma rd_le_cong: "(\<And>b. a \<le> b \<Longrightarrow> b < a + n \<Longrightarrow> m b = m' b) \<Longrightarrow> rd_le n m a = rd_le n m' a"
proof (induction n arbitrary: a)
  case (Suc n)
  have "rd_le n m (Suc a) = rd_le n m' (Suc a)" by (rule Suc.IH) (simp add: Suc.prems)
  then show ?case by (simp add: Suc.prems)
qed simp

lemma wr_le_frame: "b < a \<or> a + n \<le> b \<Longrightarrow> wr_le n m a v b = m b"
  by (induction n arbitrary: a m v) auto

lemma rd_le_bound: "rd_le n m a < 256 ^ n"
proof (induction n arbitrary: a)
  case (Suc n)
  have "unat (m a) < 256" using unsigned_less [of "m a"] by simp
  then show ?case using Suc.IH [of "Suc a"] by simp
qed simp

lemma rd_wr_le_same: "rd_le n (wr_le n m a v) a = v mod 256 ^ n"
proof (induction n arbitrary: a m v)
  case (Suc n)
  have "unat (of_nat v :: u8) = v mod 256" by (simp add: unat_of_nat)
  then show ?case
    by (simp add: Suc.IH wr_le_frame mod_mult2_eq)
qed simp

lemma rd_wr_le_other:
  "a + k \<le> b \<or> b + n \<le> a \<Longrightarrow> rd_le n (wr_le k m a v) b = rd_le n m b"
  by (rule rd_le_cong) (auto intro: wr_le_frame)

lemma rd32_wr32_same [simp]: "rd32 (wr32 m a v) a = v"
  by (simp add: rd32_def wr32_def rd_wr_le_same)

lemma rd64_wr64_same [simp]: "rd64 (wr64 m a v) a = v"
  by (simp add: rd64_def wr64_def rd_wr_le_same)

lemma wr32_frame: "b < a \<or> a + 4 \<le> b \<Longrightarrow> wr32 m a v b = m b"
  by (simp add: wr32_def wr_le_frame)

lemma wr64_frame: "b < a \<or> a + 8 \<le> b \<Longrightarrow> wr64 m a v b = m b"
  by (simp add: wr64_def wr_le_frame)

lemma rd16_wr16_same [simp]: "rd16 (wr16 m a v) a = v"
  by (simp add: rd16_def wr16_def rd_wr_le_same)

lemma mem_fill_in [simp]: "a \<le> b \<Longrightarrow> b < a + n \<Longrightarrow> mem_fill m a v n b = v"
  by (simp add: mem_fill_def)

lemma mem_fill_out: "b < a \<or> a + n \<le> b \<Longrightarrow> mem_fill m a v n b = m b"
  by (auto simp: mem_fill_def)

lemma rd_le_zero: "(\<And>b. a \<le> b \<Longrightarrow> b < a + n \<Longrightarrow> m b = 0) \<Longrightarrow> rd_le n m a = 0"
  by (induction n arbitrary: a) auto

lemma rd_le_mem_fill_out:
  "b + k \<le> a \<or> a + n \<le> b \<Longrightarrow> rd_le k (mem_fill m a v n) b = rd_le k m b"
  by (rule rd_le_cong) (auto intro: mem_fill_out)


text \<open>The accesses written out, for evaluation on concrete memories.\<close>

lemma rd_le_pos: "0 < n \<Longrightarrow> rd_le n m a = unat (m a) + 256 * rd_le (n - 1) m (a + 1)"
  by (cases n) simp_all

lemma plus_small_numeral:
  "a + 3 = Suc (Suc (Suc a))"
  "a + 4 = Suc (Suc (Suc (Suc a)))"
  "a + 5 = Suc (Suc (Suc (Suc (Suc a))))"
  "a + 6 = Suc (Suc (Suc (Suc (Suc (Suc a)))))"
  "a + 7 = Suc (Suc (Suc (Suc (Suc (Suc (Suc a))))))"
  by simp_all

lemma rd32_bytes:
  "rd32 m a = of_nat (unat (m a) + 256 * (unat (m (a + 1)) + 256 * (unat (m (a + 2)) +
     256 * unat (m (a + 3)))))"
  unfolding rd32_def by (intro arg_cong [where f = of_nat]) (simp add: rd_le_pos plus_small_numeral)

lemma rd64_bytes:
  "rd64 m a = of_nat (unat (m a) + 256 * (unat (m (a + 1)) + 256 * (unat (m (a + 2)) +
     256 * (unat (m (a + 3)) + 256 * (unat (m (a + 4)) + 256 * (unat (m (a + 5)) +
     256 * (unat (m (a + 6)) + 256 * unat (m (a + 7)))))))))"
  unfolding rd64_def by (intro arg_cong [where f = of_nat]) (simp add: rd_le_pos plus_small_numeral)


section \<open>Arrays of cells\<close>

locale cell_array =
  fixes rd :: "bytes \<Rightarrow> nat \<Rightarrow> 'w"
    and wr :: "bytes \<Rightarrow> nat \<Rightarrow> 'w \<Rightarrow> bytes"
    and sz :: nat
  assumes sz_pos: "0 < sz"
    and rd_wr: "rd (wr m a v) a = v"
    and wr_frame: "b < a \<or> a + sz \<le> b \<Longrightarrow> wr m a v b = m b"
    and rd_cong: "(\<And>b. a \<le> b \<Longrightarrow> b < a + sz \<Longrightarrow> m b = m' b) \<Longrightarrow> rd m a = rd m' a"
begin

lemma rd_wr_other: "a + sz \<le> b \<or> b + sz \<le> a \<Longrightarrow> rd (wr m a v) b = rd m b"
  by (rule rd_cong) (auto intro: wr_frame)

definition fill :: "nat \<Rightarrow> (nat \<Rightarrow> 'w) \<Rightarrow> nat \<Rightarrow> bytes \<Rightarrow> bytes" where
  "fill base f n m = fold (\<lambda>i m. wr m (base + i * sz) (f i)) [0..<n] m"

lemma fill_0 [simp]: "fill base f 0 m = m"
  by (simp add: fill_def)

lemma fill_Suc: "fill base f (Suc n) m = wr (fill base f n m) (base + n * sz) (f n)"
  by (simp add: fill_def)

lemma fill_frame: "b < base \<or> base + n * sz \<le> b \<Longrightarrow> fill base f n m b = m b"
  by (induction n) (auto simp: fill_Suc wr_frame algebra_simps)

lemma rd_fill: "j < n \<Longrightarrow> rd (fill base f n m) (base + j * sz) = f j"
proof (induction n)
  case (Suc n)
  show ?case
  proof (cases "j = n")
    case True then show ?thesis by (simp add: fill_Suc rd_wr)
  next
    case False
    then have "Suc j * sz \<le> n * sz" using Suc.prems by (intro mult_le_mono1) simp
    then have "base + j * sz + sz \<le> base + n * sz" by simp
    then show ?thesis using False Suc by (simp add: fill_Suc rd_wr_other)
  qed
qed simp

end

interpretation cells32: cell_array rd32 wr32 4
  by unfold_locales
    (simp_all add: wr32_frame, auto simp: rd32_def intro!: arg_cong [where f = of_nat] rd_le_cong)

interpretation cells64: cell_array rd64 wr64 8
  by unfold_locales
    (simp_all add: wr64_frame, auto simp: rd64_def intro!: arg_cong [where f = of_nat] rd_le_cong)

end
