(* ===== verification/XEOS_Info.thy ===== *)
theory XEOS_Info
  imports XEOS_Bytes
begin

text \<open>
  The informations the second stage bootloader hands to the kernel (source/core/xeos/info): the
  BIOS memory map.  The map is an array of packed 20-byte entries in memory; the entry accessors
  read it through the address the memory object holds.  A reference is an option, None is NULL.
  The addresses of the kernel image are symbols of the linker script and are arguments of the
  definitions that use them.
\<close>

record info_memory =
  im_base :: u32
  im_length :: u32

text \<open>Values of XEOS_Info_MemoryEntryType (an int in C).\<close>

definition MemoryEntryTypeUnknown :: u32 where "MemoryEntryTypeUnknown = 0"
definition MemoryEntryTypeUsable :: u32 where "MemoryEntryTypeUsable = 1"
definition MemoryEntryTypeReserved :: u32 where "MemoryEntryTypeReserved = 2"
definition MemoryEntryTypeACPIReclaimable :: u32 where "MemoryEntryTypeACPIReclaimable = 3"
definition MemoryEntryTypeACPINVS :: u32 where "MemoryEntryTypeACPINVS = 4"
definition MemoryEntryTypeBad :: u32 where "MemoryEntryTypeBad = 5"

lemmas memory_entry_types =
  MemoryEntryTypeUnknown_def MemoryEntryTypeUsable_def MemoryEntryTypeReserved_def
  MemoryEntryTypeACPIReclaimable_def MemoryEntryTypeACPINVS_def MemoryEntryTypeBad_def

text \<open>sizeof( struct __XEOS_Info_MemoryEntry ): address, length and type, packed.\<close>

abbreviation entry_size :: nat where
  "entry_size \<equiv> 20"

definition MemoryGetNumberOfEntries :: "info_memory option \<Rightarrow> u32" where
  "MemoryGetNumberOfEntries memory =
     (case memory of None \<Rightarrow> 0 | Some im \<Rightarrow> im_length im div of_nat entry_size)"

definition MemoryGetEntryAtIndex :: "info_memory option \<Rightarrow> u32 \<Rightarrow> nat option" where
  "MemoryGetEntryAtIndex memory index =
     (case memory of
        None \<Rightarrow> None
      | Some im \<Rightarrow>
          if MemoryGetNumberOfEntries memory \<le> index then None
          else Some (unat (im_base im) + unat index * entry_size))"

definition MemoryEntryGetAddress :: "bytes \<Rightarrow> nat option \<Rightarrow> u64" where
  "MemoryEntryGetAddress m entry = (case entry of None \<Rightarrow> 0 | Some p \<Rightarrow> rd64 m p)"

definition MemoryEntryGetLength :: "bytes \<Rightarrow> nat option \<Rightarrow> u64" where
  "MemoryEntryGetLength m entry = (case entry of None \<Rightarrow> 0 | Some p \<Rightarrow> rd64 m (p + 8))"

definition MemoryEntryGetType :: "bytes \<Rightarrow> nat option \<Rightarrow> u32" where
  "MemoryEntryGetType m entry =
     (case entry of
        None \<Rightarrow> MemoryEntryTypeUnknown
      | Some p \<Rightarrow>
          let t = rd32 m (p + 16) in
          if t = MemoryEntryTypeUsable then t
          else if t = MemoryEntryTypeReserved then t
          else if t = MemoryEntryTypeACPIReclaimable then t
          else if t = MemoryEntryTypeACPINVS then t
          else if t = MemoryEntryTypeBad then t
          else MemoryEntryTypeUnknown)"

definition MemoryGetTotalBytes :: "bytes \<Rightarrow> info_memory option \<Rightarrow> u64" where
  "MemoryGetTotalBytes m memory =
     (case memory of
        None \<Rightarrow> 0
      | Some im \<Rightarrow>
          let n = MemoryGetNumberOfEntries memory in
          if n = 0 then 0
          else
            let entry = MemoryGetEntryAtIndex memory (n - 1);
                bytes = MemoryEntryGetAddress m entry
            in bytes + MemoryEntryGetLength m entry)"


section \<open>The table the accessors read\<close>

text \<open>
  entries_at states that the memory object describes a given list of (address, length, type)
  triples; the loops of the kernel see the table only through it.
\<close>

record mem_entry =
  me_address :: u64
  me_length :: u64
  me_type :: u32

definition entry_of :: "bytes \<Rightarrow> info_memory \<Rightarrow> nat \<Rightarrow> mem_entry" where
  "entry_of m im i =
     (let e = MemoryGetEntryAtIndex (Some im) (of_nat i) in
      \<lparr> me_address = MemoryEntryGetAddress m e,
        me_length = MemoryEntryGetLength m e,
        me_type = MemoryEntryGetType m e \<rparr>)"

definition entries :: "bytes \<Rightarrow> info_memory \<Rightarrow> mem_entry list" where
  "entries m im = map (entry_of m im) [0..<unat (MemoryGetNumberOfEntries (Some im))]"

definition put_entry :: "bytes \<Rightarrow> nat \<Rightarrow> mem_entry \<Rightarrow> bytes" where
  "put_entry m p e = wr32 (wr64 (wr64 m p (me_address e)) (p + 8) (me_length e)) (p + 16) (me_type e)"

lemma length_entries: "length (entries m im) = unat (MemoryGetNumberOfEntries (Some im))"
  by (simp add: entries_def)

lemma number_of_entries: "unat (MemoryGetNumberOfEntries (Some im)) = unat (im_length im) div 20"
  by (simp add: MemoryGetNumberOfEntries_def unat_div)

lemma entry_type_range: "unat (MemoryEntryGetType m e) \<le> 5"
  by (auto simp: MemoryEntryGetType_def Let_def memory_entry_types split: option.splits)

lemma entry_index:
  assumes "i < unat (MemoryGetNumberOfEntries (Some im))"
  shows "MemoryGetEntryAtIndex (Some im) (of_nat i) = Some (unat (im_base im) + i * 20)"
proof -
  have "i < 2 ^ 32"
    using assms unat_u32 [of "MemoryGetNumberOfEntries (Some im)"] by simp
  then have "unat (of_nat i :: u32) = i" by (simp add: unat_of_nat)
  then show ?thesis
    using assms by (simp add: MemoryGetEntryAtIndex_def word_le_nat_alt)
qed

lemma total_bytes_last:
  assumes "entries m im \<noteq> []"
  shows "MemoryGetTotalBytes m (Some im) =
           me_address (last (entries m im)) + me_length (last (entries m im))"
proof -
  let ?n = "MemoryGetNumberOfEntries (Some im)"
  have pos: "0 < unat ?n" using assms by (simp add: entries_def)
  have "last (entries m im) = entry_of m im (unat ?n - 1)"
    using pos by (simp add: entries_def last_map)
  moreover have "of_nat (unat ?n - 1) = ?n - 1"
    using pos by (simp add: of_nat_diff)
  moreover have "?n \<noteq> 0" using pos by auto
  ultimately show ?thesis
    by (simp add: MemoryGetTotalBytes_def entry_of_def Let_def)
qed

end
