(* ===== verification/XEOS_Mem.thy ===== *)
theory XEOS_Mem
  imports XEOS_Info
begin

text \<open>
  The physical page allocator (source/core/xeos/mem).

  A zone describes one region of the BIOS memory map.  Its C structure ends in a flexible array
  with one byte per page, 1 for a free page and 0 for a used one; the structures are linked through
  their next members.  The model keeps the chain as a list of records (z_self is the address of the
  structure, the chain follows the order of the list), and a reference to a zone is its position in
  the chain (None is NULL).  Every access to the page map is checked against its length: an access
  outside of it is undefined behaviour, and the operation is then None.
\<close>

record zone =
  z_self :: u64
  z_type :: u32
  z_base :: u64
  z_length :: u64
  z_pageCount :: u64
  z_freePageCount :: u64
  z_pages :: "u8 list"

record mem_state =
  mm_zones :: "zone list"
  mm_count :: u32

text \<open>sizeof( struct __XEOS_Mem_Zone ), and the values at boot.\<close>

definition sizeof_zone :: "arch \<Rightarrow> u64" where
  "sizeof_zone A = (case A of I386 \<Rightarrow> 40 | X86_64 \<Rightarrow> 48)"

definition mem_boot :: mem_state where
  "mem_boot = \<lparr> mm_zones = [], mm_count = 0 \<rparr>"


section \<open>Accessors\<close>

definition zone_deref :: "mem_state \<Rightarrow> nat option \<Rightarrow> zone option" where
  "zone_deref st r =
     (case r of None \<Rightarrow> None
      | Some k \<Rightarrow> if k < length (mm_zones st) then Some (mm_zones st ! k) else None)"

definition ZoneGetAddress :: "mem_state \<Rightarrow> nat option \<Rightarrow> u64" where
  "ZoneGetAddress st r = (case zone_deref st r of None \<Rightarrow> 0 | Some z \<Rightarrow> z_base z)"

definition ZoneGetLength :: "mem_state \<Rightarrow> nat option \<Rightarrow> u64" where
  "ZoneGetLength st r = (case zone_deref st r of None \<Rightarrow> 0 | Some z \<Rightarrow> z_length z)"

definition ZoneGetPageCount :: "mem_state \<Rightarrow> nat option \<Rightarrow> u64" where
  "ZoneGetPageCount st r = (case zone_deref st r of None \<Rightarrow> 0 | Some z \<Rightarrow> z_pageCount z)"

definition ZoneGetFreePageCount :: "mem_state \<Rightarrow> nat option \<Rightarrow> u64" where
  "ZoneGetFreePageCount st r = (case zone_deref st r of None \<Rightarrow> 0 | Some z \<Rightarrow> z_freePageCount z)"

definition ZoneGetPages :: "arch \<Rightarrow> mem_state \<Rightarrow> nat option \<Rightarrow> u64" where
  "ZoneGetPages A st r =
     (case zone_deref st r of None \<Rightarrow> 0 | Some z \<Rightarrow> ptr_of A (z_self z + sizeof_zone A))"

definition ZoneGetType :: "mem_state \<Rightarrow> nat option \<Rightarrow> u32" where
  "ZoneGetType st r = (case zone_deref st r of None \<Rightarrow> MemoryEntryTypeUnknown | Some z \<Rightarrow> z_type z)"

definition ZoneGetNext :: "mem_state \<Rightarrow> nat option \<Rightarrow> nat option" where
  "ZoneGetNext st r =
     (case r of None \<Rightarrow> None
      | Some k \<Rightarrow> if Suc k < length (mm_zones st) then Some (Suc k) else None)"

definition GetNumberOfZones :: "mem_state \<Rightarrow> u32" where
  "GetNumberOfZones st = mm_count st"

fun zone_walk :: "zone list \<Rightarrow> nat \<Rightarrow> u32 \<Rightarrow> nat option" where
  "zone_walk [] k index = None"
| "zone_walk (z # zs) k index = (if index = 0 then Some k else zone_walk zs (Suc k) (index - 1))"

definition GetZoneAtIndex :: "mem_state \<Rightarrow> u32 \<Rightarrow> nat option" where
  "GetZoneAtIndex st index =
     (if mm_count st \<le> index then None else zone_walk (mm_zones st) 0 index)"

fun sum_lengths :: "zone list \<Rightarrow> u64 \<Rightarrow> u64" where
  "sum_lengths [] bytes = bytes"
| "sum_lengths (z # zs) bytes = sum_lengths zs (bytes + z_length z)"

text \<open>The zones a loop from GetZoneAtIndex( 0 ) along next visits.\<close>

definition chain :: "mem_state \<Rightarrow> zone list" where
  "chain st = (case GetZoneAtIndex st 0 of None \<Rightarrow> [] | Some k \<Rightarrow> drop k (mm_zones st))"

definition GetTotalBytes :: "mem_state \<Rightarrow> u64" where
  "GetTotalBytes st = sum_lengths (chain st) 0"


section \<open>Page maps\<close>

definition page_get :: "zone \<Rightarrow> nat \<Rightarrow> u8 option" where
  "page_get z i = (if i < length (z_pages z) then Some (z_pages z ! i) else None)"

definition page_put :: "zone \<Rightarrow> nat \<Rightarrow> u8 \<Rightarrow> zone option" where
  "page_put z i v =
     (if i < length (z_pages z) then Some (z\<lparr>z_pages := (z_pages z)[i := v]\<rparr>) else None)"

text \<open>System_Atomic_CompareAndSwap8 on a byte of the page map: the swap and whether it was made.\<close>

definition page_cas :: "u8 \<Rightarrow> u8 \<Rightarrow> zone \<Rightarrow> nat \<Rightarrow> (bool \<times> zone) option" where
  "page_cas old new z i = do {
     v \<leftarrow> page_get z i;
     if v = old then do { z1 \<leftarrow> page_put z i new; Some (True, z1) } else Some (False, z)
   }"

definition free_dec :: "zone \<Rightarrow> zone" where
  "free_dec z = z\<lparr>z_freePageCount := z_freePageCount z - 1\<rparr>"

definition free_inc :: "zone \<Rightarrow> zone" where
  "free_inc z = z\<lparr>z_freePageCount := z_freePageCount z + 1\<rparr>"


section \<open>Allocation\<close>

text \<open>The loop of XEOS_Mem_AllocPage over the pages of one zone.\<close>

fun alloc_scan :: "arch \<Rightarrow> nat list \<Rightarrow> u64 \<Rightarrow> zone \<Rightarrow> (zone \<times> u64 option) option" where
  "alloc_scan A [] address z = Some (z, None)"
| "alloc_scan A (i # is) address z = do {
     p \<leftarrow> page_get z i;
     (hit, z1) \<leftarrow> (if p = 1 then page_cas 1 0 z i else Some (False, z));
     if hit then Some (free_dec z1, Some address)
     else alloc_scan A is (ptr_of A (address + 0x1000)) z1
   }"

fun alloc_zones :: "arch \<Rightarrow> zone list \<Rightarrow> (zone list \<times> u64) option" where
  "alloc_zones A [] = Some ([], 0)"
| "alloc_zones A (z # zs) =
     (if z_type z \<noteq> MemoryEntryTypeUsable then do {
        (zs1, a) \<leftarrow> alloc_zones A zs; Some (z # zs1, a) }
      else if z_freePageCount z = 0 then do {
        (zs1, a) \<leftarrow> alloc_zones A zs; Some (z # zs1, a) }
      else do {
        (z1, r) \<leftarrow> alloc_scan A [0..<unat (z_pageCount z)] (z_base z) z;
        case r of
          Some a \<Rightarrow> Some (z1 # zs, a)
        | None \<Rightarrow> do { (zs1, a) \<leftarrow> alloc_zones A zs; Some (z1 # zs1, a) }
      })"

text \<open>The chain is entered at GetZoneAtIndex( 0 ); set_chain puts back what a loop over it changed.\<close>

definition set_chain :: "mem_state \<Rightarrow> zone list \<Rightarrow> mem_state" where
  "set_chain st zs =
     (case GetZoneAtIndex st 0 of None \<Rightarrow> st
      | Some k \<Rightarrow> st\<lparr>mm_zones := take k (mm_zones st) @ zs\<rparr>)"

definition AllocPage :: "arch \<Rightarrow> mem_state \<Rightarrow> (mem_state \<times> u64) option" where
  "AllocPage A st = do { (zs, a) \<leftarrow> alloc_zones A (chain st); Some (set_chain st zs, a) }"

text \<open>
  XEOS_Mem_AllocPages: from each free page on, the inner loop takes pages one by one until n are
  taken; when a page is not free it gives the pages taken so far back.
\<close>

fun give_back :: "zone \<Rightarrow> nat \<Rightarrow> nat list \<Rightarrow> zone option" where
  "give_back z i [] = Some z"
| "give_back z i (k # ks) = do { z1 \<leftarrow> page_put z (i + k) 1; give_back (free_inc z1) i ks }"

fun take_run :: "zone \<Rightarrow> nat \<Rightarrow> nat list \<Rightarrow> bool \<Rightarrow> (zone \<times> bool) option" where
  "take_run z i [] hasPages = Some (z, hasPages)"
| "take_run z i (j # js) hasPages = do {
     (ok, z1) \<leftarrow> page_cas 1 0 z (i + j);
     if \<not> ok then do { z2 \<leftarrow> give_back z1 i [0..<j]; Some (z2, False) }
     else take_run (free_dec z1) i js True
   }"

fun allocs_scan :: "arch \<Rightarrow> nat \<Rightarrow> nat list \<Rightarrow> u64 \<Rightarrow> zone \<Rightarrow> (zone \<times> u64 option) option" where
  "allocs_scan A n [] address z = Some (z, None)"
| "allocs_scan A n (i # is) address z = do {
     p \<leftarrow> page_get z i;
     (z1, hasPages) \<leftarrow> (if p = 1 then take_run z i [0..<n] False else Some (z, False));
     if hasPages then Some (z1, Some address)
     else allocs_scan A n is (ptr_of A (address + 0x1000)) z1
   }"

fun allocs_zones :: "arch \<Rightarrow> nat \<Rightarrow> zone list \<Rightarrow> (zone list \<times> u64) option" where
  "allocs_zones A n [] = Some ([], 0)"
| "allocs_zones A n (z # zs) =
     (if z_type z \<noteq> MemoryEntryTypeUsable then do {
        (zs1, a) \<leftarrow> allocs_zones A n zs; Some (z # zs1, a) }
      else if z_freePageCount z = 0 then do {
        (zs1, a) \<leftarrow> allocs_zones A n zs; Some (z # zs1, a) }
      else do {
        (z1, r) \<leftarrow> allocs_scan A n [0..<unat (z_pageCount z)] (z_base z) z;
        case r of
          Some a \<Rightarrow> Some (z1 # zs, a)
        | None \<Rightarrow> do { (zs1, a) \<leftarrow> allocs_zones A n zs; Some (z1 # zs1, a) }
      })"

definition AllocPages :: "arch \<Rightarrow> u32 \<Rightarrow> mem_state \<Rightarrow> (mem_state \<times> u64) option" where
  "AllocPages A n st = do {
     (zs, a) \<leftarrow> allocs_zones A (unat n) (chain st); Some (set_chain st zs, a) }"


section \<open>Release\<close>

fun free_zones :: "nat \<Rightarrow> u64 \<Rightarrow> zone list \<Rightarrow> zone list option" where
  "free_zones n page [] = Some []"
| "free_zones n page (z # zs) =
     (if page > z_base z + z_length z then do { zs1 \<leftarrow> free_zones n page zs; Some (z # zs1) }
      else do {
        z1 \<leftarrow> give_back z (unat ((page - z_base z) div 0x1000)) [0..<n];
        Some (z1 # zs)
      })"

definition FreePage :: "mem_state \<Rightarrow> u64 \<Rightarrow> mem_state option" where
  "FreePage st page =
     (if page AND 0xFFF \<noteq> 0 then Some st
      else do { zs \<leftarrow> free_zones 1 page (chain st); Some (set_chain st zs) })"

definition FreePages :: "mem_state \<Rightarrow> u64 \<Rightarrow> u32 \<Rightarrow> mem_state option" where
  "FreePages st page n =
     (if page AND 0xFFF \<noteq> 0 then Some st
      else do { zs \<leftarrow> free_zones (unat n) page (chain st); Some (set_chain st zs) })"

end
