(* ===== verification/XEOS_MemSpec.thy ===== *)
theory XEOS_MemSpec
  imports XEOS_Mem
begin

text \<open>
  What the page allocator promises.

  The abstract state is the list of the free page slots, in the order of the zones and of the pages
  in a zone (free_slots); AllocPage takes its head.  The invariant mem_ok ties the counters of the
  zones to their page maps.
\<close>

section \<open>Invariant and abstraction\<close>

definition zone_ok :: "arch \<Rightarrow> zone \<Rightarrow> bool" where
  "zone_ok A z \<longleftrightarrow>
     length (z_pages z) = unat (z_pageCount z) \<and> set (z_pages z) \<subseteq> {0, 1} \<and>
     unat (z_freePageCount z) = count_list (z_pages z) 1 \<and> ptr_of A (z_base z) = z_base z"

definition mem_ok :: "arch \<Rightarrow> mem_state \<Rightarrow> bool" where
  "mem_ok A st \<longleftrightarrow>
     unat (mm_count st) = length (mm_zones st) \<and> (\<forall>z \<in> set (mm_zones st). zone_ok A z)"

definition zone_slots :: "zone \<Rightarrow> nat list" where
  "zone_slots z =
     (if z_type z = MemoryEntryTypeUsable
      then filter (\<lambda>i. z_pages z ! i = 1) [0..<length (z_pages z)] else [])"

fun slots :: "zone list \<Rightarrow> (nat \<times> nat) list" where
  "slots [] = []"
| "slots (z # zs) = map (Pair 0) (zone_slots z) @ map (apfst Suc) (slots zs)"

definition free_slots :: "mem_state \<Rightarrow> (nat \<times> nat) list" where
  "free_slots st = slots (mm_zones st)"

definition page_addr :: "arch \<Rightarrow> zone \<Rightarrow> nat \<Rightarrow> u64" where
  "page_addr A z i = ptr_of A (z_base z + of_nat i * 0x1000)"

definition slot_addr :: "arch \<Rightarrow> mem_state \<Rightarrow> nat \<times> nat \<Rightarrow> u64" where
  "slot_addr A st s = page_addr A (mm_zones st ! fst s) (snd s)"

definition use_page :: "zone \<Rightarrow> nat \<Rightarrow> zone" where
  "use_page z i = free_dec (z\<lparr>z_pages := (z_pages z)[i := 0]\<rparr>)"

definition use_slot :: "mem_state \<Rightarrow> nat \<times> nat \<Rightarrow> mem_state" where
  "use_slot st s =
     st\<lparr>mm_zones := (mm_zones st)[fst s := use_page (mm_zones st ! fst s) (snd s)]\<rparr>"


section \<open>The chain\<close>

lemma chain_ok: "mem_ok A st \<Longrightarrow> chain st = mm_zones st"
  by (cases "mm_zones st") (auto simp: chain_def mem_ok_def GetZoneAtIndex_def word_le_nat_alt)

lemma set_chain_ok:
  "mem_ok A st \<Longrightarrow> length zs = length (mm_zones st) \<Longrightarrow> set_chain st zs = st\<lparr>mm_zones := zs\<rparr>"
  by (cases "mm_zones st")
     (auto simp: set_chain_def mem_ok_def GetZoneAtIndex_def word_le_nat_alt)


section \<open>AllocPage\<close>

lemma page_addr_next:
  "ptr_of A (page_addr A z i + 0x1000) = page_addr A z (Suc i)"
  by (simp add: page_addr_def algebra_simps)

lemma page_addr_0: "zone_ok A z \<Longrightarrow> page_addr A z 0 = z_base z"
  by (simp add: page_addr_def zone_ok_def)

lemma alloc_scan_eq:
  assumes "n = length (z_pages z)"
  shows "alloc_scan A [i..<n] (page_addr A z i) z =
           Some (case filter (\<lambda>j. z_pages z ! j = 1) [i..<n] of
                   [] \<Rightarrow> (z, None)
                 | j # js \<Rightarrow> (use_page z j, Some (page_addr A z j)))"
proof (induction "n - i" arbitrary: i)
  case (Suc d)
  then have i: "i < n" by simp
  have "alloc_scan A [Suc i..<n] (page_addr A z (Suc i)) z =
      Some (case filter (\<lambda>j. z_pages z ! j = 1) [Suc i..<n] of
              [] \<Rightarrow> (z, None) | j # js \<Rightarrow> (use_page z j, Some (page_addr A z j)))"
    using Suc by simp
  then show ?case
    using i assms
    by (simp add: upt_conv_Cons page_get_def page_cas_def page_put_def use_page_def page_addr_next)
qed (simp add: assms)

lemma no_free_page:
  assumes "zone_ok A z" "z_freePageCount z = 0"
  shows "zone_slots z = []"
proof -
  have "count_list (z_pages z) 1 = 0" using assms by (simp add: zone_ok_def)
  then have "1 \<notin> set (z_pages z)" by (simp add: count_list_0_iff)
  then show ?thesis by (metis (mono_tags, lifting) zone_slots_def filter_empty_conv atLeastLessThan_iff nth_mem set_upt)
qed

lemma alloc_zones_eq:
  assumes "\<forall>z \<in> set zs. zone_ok A z"
  shows "alloc_zones A zs =
           Some (case slots zs of
                   [] \<Rightarrow> (zs, 0)
                 | (k, i) # ss \<Rightarrow> (zs[k := use_page (zs ! k) i], page_addr A (zs ! k) i))"
  using assms
proof (induction zs)
  case (Cons z zs)
  have ok: "zone_ok A z" using Cons.prems by simp
  have IH: "alloc_zones A zs = Some (case slots zs of [] \<Rightarrow> (zs, 0)
      | (k, i) # ss \<Rightarrow> (zs[k := use_page (zs ! k) i], page_addr A (zs ! k) i))"
    using Cons by simp
  have skip: "?case"
    if "alloc_zones A (z # zs) = do { (zs1, a) \<leftarrow> alloc_zones A zs; Some (z # zs1, a) }"
      "zone_slots z = []"
    unfolding that(1) by (cases "slots zs") (simp_all add: that(2) IH split: prod.splits)
  show ?case
  proof (cases "z_type z \<noteq> MemoryEntryTypeUsable \<or> z_freePageCount z = 0")
    case True
    then show ?thesis
      by (intro skip) (auto simp: zone_slots_def dest: no_free_page [OF ok])
  next
    case False
    have scan: "alloc_scan A [0..<unat (z_pageCount z)] (z_base z) z =
        Some (case zone_slots z of [] \<Rightarrow> (z, None)
              | j # js \<Rightarrow> (use_page z j, Some (page_addr A z j)))"
      using alloc_scan_eq [of "length (z_pages z)" z A 0] False page_addr_0 [OF ok] ok
      by (simp add: zone_slots_def zone_ok_def)
    then show ?thesis
      using False skip by (cases "zone_slots z") (simp_all del: slots.simps, simp add: Cons.prems)
  qed
qed simp

lemma slots_iff:
  "(k, i) \<in> set (slots zs) \<longleftrightarrow>
     k < length zs \<and> z_type (zs ! k) = MemoryEntryTypeUsable \<and>
     i < length (z_pages (zs ! k)) \<and> z_pages (zs ! k) ! i = 1"
proof (induction zs arbitrary: k)
  case (Cons z zs)
  have "(k, i) \<in> apfst Suc ` S \<longleftrightarrow> (\<exists>k'. k = Suc k' \<and> (k', i) \<in> S)" for S :: "(nat \<times> nat) set"
    by force
  then show ?case by (cases k) (auto simp: zone_slots_def Cons.IH)
qed simp

text \<open>Using the first free page of a zone removes the first slot of the zone.\<close>

lemma zone_slots_use:
  assumes "zone_slots z = j # js"
  shows "zone_slots (use_page z j) = js"
proof -
  let ?P = "\<lambda>i. z_pages z ! i = 1" and ?n = "length (z_pages z)"
  have u: "z_type z = MemoryEntryTypeUsable" and f: "filter ?P [0..<?n] = j # js"
    using assms by (auto simp: zone_slots_def split: if_splits)
  have j: "j < ?n" using filter_hdD [OF f] by simp
  have "distinct (j # js)" by (metis distinct_filter distinct_upt f)
  then have "j \<notin> set js" by simp
  have "filter (\<lambda>i. (z_pages z)[j := 0] ! i = 1) [0..<?n] =
        filter (\<lambda>i. i \<noteq> j) (filter ?P [0..<?n])"
    using j by (auto simp: nth_list_update filter_filter intro!: filter_cong split: if_splits)
  also have "\<dots> = js" using f \<open>j \<notin> set js\<close> by (auto intro: filter_True)
  finally show ?thesis using u by (simp add: zone_slots_def use_page_def free_dec_def)
qed

lemma slots_use:
  "slots zs = (k, i) # ss \<Longrightarrow> slots (zs[k := use_page (zs ! k) i]) = ss"
proof (induction zs arbitrary: k ss)
  case (Cons z zs)
  show ?case
  proof (cases "zone_slots z")
    case Nil
    then obtain k' ss' where "slots zs = (k', i) # ss'" "k = Suc k'" "ss = map (apfst Suc) ss'"
      using Cons.prems by auto
    then show ?thesis using Cons.IH Nil by simp
  next
    case (Cons j js)
    then show ?thesis using Cons.prems zone_slots_use [OF Cons] by auto
  qed
qed simp

lemma zone_ok_use:
  assumes "zone_ok A z" "i < length (z_pages z)" "z_pages z ! i = 1"
  shows "zone_ok A (use_page z i)"
proof -
  have pos: "0 < unat (z_freePageCount z)"
    using assms count_list_pos [of i "z_pages z" 1] by (simp add: zone_ok_def)
  then have "unat (z_freePageCount z - 1) = unat (z_freePageCount z) - 1"
    by (intro unat_minus_one) auto
  moreover have "count_list ((z_pages z)[i := 0]) 1 + 1 = count_list (z_pages z) 1"
    using count_list_update [of i "z_pages z" 0 1] assms by simp
  moreover have "set ((z_pages z)[i := 0]) \<subseteq> {0, 1}"
    using assms set_update_subset_insert [of "z_pages z" i 0] by (auto simp: zone_ok_def)
  ultimately show ?thesis
    using assms by (simp add: zone_ok_def use_page_def free_dec_def)
qed

lemma mem_ok_use:
  assumes "mem_ok A st" "s \<in> set (free_slots st)"
  shows "mem_ok A (use_slot st s)"
  using assms zone_ok_use
  by (cases s) (auto simp: mem_ok_def use_slot_def free_slots_def slots_iff
      dest!: set_update_subset_insert [THEN subsetD])

lemma AllocPage_eq:
  assumes "mem_ok A st"
  shows "AllocPage A st =
           Some (case free_slots st of
                   [] \<Rightarrow> (st, 0)
                 | s # ss \<Rightarrow> (use_slot st s, slot_addr A st s))"
proof -
  have "\<forall>z \<in> set (mm_zones st). zone_ok A z" using assms by (simp add: mem_ok_def)
  from alloc_zones_eq [OF this] show ?thesis
    using assms
    by (auto simp: AllocPage_def chain_ok set_chain_ok free_slots_def use_slot_def slot_addr_def
        split: list.splits prod.splits)
qed

end
