(* ===== verification/XEOS_MemRuns.thy ===== *)
theory XEOS_MemRuns
  imports XEOS_MemSpec
begin

text \<open>
  Runs of pages: XEOS_Mem_AllocPages and XEOS_Mem_FreePages against a reference that looks for the
  first run of n free pages.  find_run is None when the search meets free pages up to the end of
  the page map with fewer than n of them: the code then reads behind the page map.
\<close>

section \<open>Ranges of a page map\<close>

definition set_range :: "u8 \<Rightarrow> nat \<Rightarrow> nat \<Rightarrow> u8 list \<Rightarrow> u8 list" where
  "set_range v a n ps = map (\<lambda>k. if a \<le> k \<and> k < a + n then v else ps ! k) [0..<length ps]"

definition use_run :: "zone \<Rightarrow> nat \<Rightarrow> nat \<Rightarrow> zone" where
  "use_run z i n = z\<lparr>z_pages := set_range 0 i n (z_pages z),
                     z_freePageCount := z_freePageCount z - of_nat n\<rparr>"

definition release_run :: "zone \<Rightarrow> nat \<Rightarrow> nat \<Rightarrow> zone" where
  "release_run z i n = z\<lparr>z_pages := set_range 1 i n (z_pages z),
                         z_freePageCount := z_freePageCount z + of_nat n\<rparr>"

definition run_free :: "zone \<Rightarrow> nat \<Rightarrow> nat \<Rightarrow> bool" where
  "run_free z i n \<longleftrightarrow> i + n \<le> length (z_pages z) \<and> (\<forall>j \<in> {i..<i + n}. z_pages z ! j = 1)"

definition overrun :: "zone \<Rightarrow> nat \<Rightarrow> nat \<Rightarrow> bool" where
  "overrun z i n \<longleftrightarrow>
     i < length (z_pages z) \<and> length (z_pages z) < i + n \<and>
     (\<forall>j \<in> {i..<length (z_pages z)}. z_pages z ! j = 1)"

lemma length_set_range [simp]: "length (set_range v a n ps) = length ps"
  by (simp add: set_range_def)

lemma nth_set_range:
  "k < length ps \<Longrightarrow> set_range v a n ps ! k = (if a \<le> k \<and> k < a + n then v else ps ! k)"
  by (simp add: set_range_def)

lemma set_range_0 [simp]: "set_range v a 0 ps = ps"
  by (rule nth_equalityI) (auto simp: nth_set_range)

lemma set_range_Suc: "(set_range v a n ps)[a + n := v] = set_range v a (Suc n) ps"
  by (cases "a + n < length ps"; rule nth_equalityI) (auto simp: nth_set_range nth_list_update)

lemma set_range_first: "set_range v (Suc a) n (ps[a := v]) = set_range v a (Suc n) ps"
  by (cases "a < length ps"; rule nth_equalityI) (auto simp: nth_set_range nth_list_update)

lemma set_range_undo:
  "(\<And>k. a \<le> k \<Longrightarrow> k < a + n \<Longrightarrow> k < length ps \<Longrightarrow> ps ! k = v) \<Longrightarrow>
     set_range v a n (set_range w a n ps) = ps"
  by (rule nth_equalityI) (auto simp: nth_set_range)

lemma use_run_0 [simp]: "use_run z i 0 = z"
  by (simp add: use_run_def)

lemma use_run_Suc: "use_page (use_run z i n) (i + n) = use_run z i (Suc n)"
  by (simp add: use_run_def use_page_def free_dec_def set_range_Suc algebra_simps)

lemma use_run_1: "i < length (z_pages z) \<Longrightarrow> use_run z i 1 = use_page z i"
  using use_run_Suc [of z i 0] by simp

lemma release_use_run:
  "run_free z i n \<Longrightarrow> release_run (use_run z i n) i n = z"
  by (simp add: release_run_def use_run_def run_free_def set_range_undo)

lemma give_back_from:
  "i + n \<le> length (z_pages z) \<Longrightarrow>
   give_back z i [k..<n] =
     Some (z\<lparr>z_pages := set_range 1 (i + k) (n - k) (z_pages z),
             z_freePageCount := z_freePageCount z + of_nat (n - k)\<rparr>)"
proof (induction "n - k" arbitrary: k z)
  case (Suc d)
  then have k: "k < n" and d: "d = n - Suc k" by auto
  define z1 where "z1 = free_inc (z\<lparr>z_pages := (z_pages z)[i + k := 1]\<rparr>)"
  have "i + n \<le> length (z_pages z1)" using Suc.prems by (simp add: z1_def free_inc_def)
  note IH = Suc.hyps(1) [OF d this]
  have "n - k = Suc (n - Suc k)" using k by simp
  moreover have "give_back z i [k..<n] = give_back z1 i [Suc k..<n]"
    using k Suc.prems by (simp add: upt_conv_Cons page_put_def z1_def)
  ultimately show ?case
    unfolding IH by (simp add: z1_def free_inc_def set_range_first)
qed simp

lemma give_back_release:
  "i + n \<le> length (z_pages z) \<Longrightarrow> give_back z i [0..<n] = Some (release_run z i n)"
  by (simp add: give_back_from release_run_def)

lemma give_back_outside:
  assumes "length (z_pages z) < i + n" "k < n"
  shows "give_back z i [k..<n] = None"
  using assms
proof (induction "n - k" arbitrary: k z)
  case (Suc d)
  have split: "[k..<n] = k # [Suc k..<n]" using Suc.prems(2) by (rule upt_conv_Cons)
  show ?case
  proof (cases "i + k < length (z_pages z)")
    case True
    define z1 where "z1 = free_inc (z\<lparr>z_pages := (z_pages z)[i + k := 1]\<rparr>)"
    have "length (z_pages z1) < i + n" using Suc.prems(1) by (simp add: z1_def free_inc_def)
    moreover have "Suc k < n" "d = n - Suc k" using True Suc.prems Suc.hyps(2) by linarith+
    ultimately have "give_back z1 i [Suc k..<n] = None" using Suc.hyps(1) by blast
    then show ?thesis using True unfolding split by (simp add: page_put_def z1_def)
  next
    case False
    then show ?thesis unfolding split by (simp add: page_put_def)
  qed
qed simp


section \<open>Taking a run\<close>

lemma run_free_mono: "run_free z i n \<Longrightarrow> j \<le> n \<Longrightarrow> run_free z i j"
  by (auto simp: run_free_def)

lemma give_back_use: "run_free z i j \<Longrightarrow> give_back (use_run z i j) i [0..<j] = Some z"
  by (simp add: give_back_release release_use_run run_free_def use_run_def)
     (simp add: release_run_def set_range_undo)

lemma take_run_from:
  assumes "run_free z i j" "j \<le> n"
  shows "take_run (use_run z i j) i [j..<n] h =
           (if run_free z i n then Some (use_run z i n, h \<or> j < n)
            else if \<exists>k. j \<le> k \<and> k < n \<and> i + k = length (z_pages z) \<and> run_free z i k then None
            else Some (z, False))"
  using assms
proof (induction "n - j" arbitrary: j h)
  case (Suc d)
  then have j: "j < n" and d: "d = n - Suc j" by auto
  let ?z = "use_run z i j"
  have len: "length (z_pages ?z) = length (z_pages z)" by (simp add: use_run_def)
  consider "i + j = length (z_pages z)" | "i + j < length (z_pages z)" "z_pages z ! (i + j) \<noteq> 1"
    | "i + j < length (z_pages z)" "z_pages z ! (i + j) = 1"
    using Suc.prems by (fastforce simp: run_free_def)
  then show ?case
  proof cases
    case 1
    then have "\<not> run_free z i n" using j by (simp add: run_free_def)
    then show ?thesis
      using 1 j len Suc.prems by (auto simp: upt_conv_Cons page_cas_def page_get_def)
  next
    case 2
    have "page_cas 1 0 ?z (i + j) = Some (False, ?z)"
      using 2 len by (simp add: page_cas_def page_get_def use_run_def nth_set_range)
    moreover have "\<not> run_free z i n" using 2 j by (auto simp: run_free_def)
    moreover have "\<not> run_free z i k" if "j \<le> k" "i + k = length (z_pages z)" for k
      using that 2 by (auto simp: run_free_def)
    ultimately show ?thesis
      using j give_back_use [OF Suc.prems(1)] by (auto simp: upt_conv_Cons)
  next
    case 3
    have "page_cas 1 0 ?z (i + j) = Some (True, ?z\<lparr>z_pages := (z_pages ?z)[i + j := 0]\<rparr>)"
      using 3 len by (simp add: page_cas_def page_get_def page_put_def use_run_def nth_set_range)
    then have "take_run ?z i [j..<n] h = take_run (use_run z i (Suc j)) i [Suc j..<n] True"
      using j by (simp add: upt_conv_Cons flip: use_run_Suc use_page_def)
    moreover have rf: "run_free z i (Suc j)"
      using Suc.prems(1) 3 by (auto simp: run_free_def less_Suc_eq)
    moreover have "(\<exists>k. j \<le> k \<and> k < n \<and> i + k = length (z_pages z) \<and> run_free z i k) \<longleftrightarrow>
        (\<exists>k. Suc j \<le> k \<and> k < n \<and> i + k = length (z_pages z) \<and> run_free z i k)"
      using 3 by (metis Suc_leI le_neq_implies_less less_irrefl_nat Suc_leD)
    ultimately show ?thesis
      using Suc.hyps(1) [OF d rf] j by simp
  qed
qed simp

lemma take_run_eq:
  "i < length (z_pages z) \<Longrightarrow> z_pages z ! i = 1 \<Longrightarrow>
   take_run z i [0..<n] False =
     (if run_free z i n then Some (use_run z i n, 0 < n)
      else if overrun z i n then None else Some (z, False))"
proof -
  assume i: "i < length (z_pages z)" "z_pages z ! i = 1"
  have rf: "run_free z i 0" using i by (simp add: run_free_def)
  have "(\<exists>k < n. i + k = length (z_pages z) \<and> run_free z i k) = overrun z i n" (is "?L = ?R")
  proof
    assume ?R
    then show ?L
      by (intro exI [of _ "length (z_pages z) - i"]) (auto simp: overrun_def run_free_def)
  qed (use i in \<open>auto simp: overrun_def run_free_def\<close>)
  then show ?thesis using take_run_from [OF rf, of n False] by simp
qed


section \<open>AllocPages\<close>

text \<open>The reference search: the first run of n free pages of a zone, and of the chain.\<close>

fun find_run :: "nat \<Rightarrow> zone \<Rightarrow> nat list \<Rightarrow> nat option option" where
  "find_run n z [] = Some None"
| "find_run n z (i # is) =
     (if z_pages z ! i = 1 \<and> overrun z i n then None
      else if 0 < n \<and> run_free z i n then Some (Some i)
      else find_run n z is)"

fun find_run_zones :: "nat \<Rightarrow> zone list \<Rightarrow> (nat \<times> nat) option option" where
  "find_run_zones n [] = Some None"
| "find_run_zones n (z # zs) =
     (if z_type z \<noteq> MemoryEntryTypeUsable
      then map_option (map_option (apfst Suc)) (find_run_zones n zs)
      else case find_run n z [0..<length (z_pages z)] of
             None \<Rightarrow> None
           | Some (Some i) \<Rightarrow> Some (Some (0, i))
           | Some None \<Rightarrow> map_option (map_option (apfst Suc)) (find_run_zones n zs))"

lemma allocs_scan_eq:
  assumes "len = length (z_pages z)"
  shows "allocs_scan A n [i..<len] (page_addr A z i) z =
           map_option (\<lambda>r. case r of None \<Rightarrow> (z, None)
                              | Some j \<Rightarrow> (use_run z j n, Some (page_addr A z j)))
             (find_run n z [i..<len])"
proof (induction "len - i" arbitrary: i)
  case (Suc d)
  then have i: "i < len" and d: "d = len - Suc i" by auto
  have split: "[i..<len] = i # [Suc i..<len]" using i by (rule upt_conv_Cons)
  have get: "page_get z i = Some (z_pages z ! i)" using i assms by (simp add: page_get_def)
  have excl: "\<not> (run_free z i n \<and> overrun z i n)" by (auto simp: run_free_def overrun_def)
  note IH = Suc.hyps(1) [OF d]
  show ?case
  proof (cases "z_pages z ! i = 1")
    case True
    then show ?thesis
      using excl take_run_eq [of i z n, OF i [unfolded assms] True] IH
      unfolding split by (cases "n = 0") (auto simp: get page_addr_next overrun_def run_free_def)
  next
    case False
    then have "(0 < n \<and> run_free z i n) = False" by (auto simp: run_free_def)
    then show ?thesis using False unfolding split by (simp only: find_run.simps) (simp add: get page_addr_next IH)
  qed
qed simp

lemma find_run_no_free:
  "\<forall>i \<in> set is. i < length (z_pages z) \<and> z_pages z ! i \<noteq> 1 \<Longrightarrow> find_run n z is = Some None"
  by (induction "is") (auto simp: run_free_def)

lemma allocs_zones_eq:
  assumes "\<forall>z \<in> set zs. zone_ok A z"
  shows "allocs_zones A n zs =
           map_option (\<lambda>r. case r of None \<Rightarrow> (zs, 0)
                 | Some (k, i) \<Rightarrow> (zs[k := use_run (zs ! k) i n], page_addr A (zs ! k) i))
             (find_run_zones n zs)"
  using assms
proof (induction zs)
  case (Cons z zs)
  let ?res = "\<lambda>zs r. case r of None \<Rightarrow> (zs, 0)
                 | Some (k, i) \<Rightarrow> (zs[k := use_run (zs ! k) i n], page_addr A (zs ! k) i)"
  have ok: "zone_ok A z" using Cons.prems by simp
  have IH: "allocs_zones A n zs = map_option (?res zs) (find_run_zones n zs)"
    using Cons by simp
  have skip: "do { (zs1, a) \<leftarrow> allocs_zones A n zs; Some (z # zs1, a) } =
      map_option (?res (z # zs)) (map_option (map_option (apfst Suc)) (find_run_zones n zs))"
    unfolding IH by (cases "find_run_zones n zs") (auto split: option.splits)
  have scan: "allocs_scan A n [0..<unat (z_pageCount z)] (z_base z) z =
        map_option (\<lambda>r. case r of None \<Rightarrow> (z, None)
                           | Some j \<Rightarrow> (use_run z j n, Some (page_addr A z j)))
          (find_run n z [0..<length (z_pages z)])"
    using allocs_scan_eq [of "length (z_pages z)" z A n 0] page_addr_0 [OF ok] ok
    by (simp add: zone_ok_def)
  consider "z_type z \<noteq> MemoryEntryTypeUsable"
    | "z_type z = MemoryEntryTypeUsable" "z_freePageCount z = 0"
    | "z_type z = MemoryEntryTypeUsable" "z_freePageCount z \<noteq> 0" by blast
  then show ?case
  proof cases
    case 1 then show ?thesis using skip by simp
  next
    case 2
    then have "zone_slots z = []" using no_free_page [OF ok] by simp
    then have "find_run n z [0..<length (z_pages z)] = Some None"
      using 2 by (intro find_run_no_free) (auto simp: zone_slots_def filter_empty_conv)
    then show ?thesis using 2 skip by simp
  next
    case 3
    then show ?thesis
      using scan skip
      by (cases "find_run n z [0..<length (z_pages z)]") (auto split: option.splits)
  qed
qed simp

definition use_slots :: "mem_state \<Rightarrow> nat \<times> nat \<Rightarrow> nat \<Rightarrow> mem_state" where
  "use_slots st s n =
     st\<lparr>mm_zones := (mm_zones st)[fst s := use_run (mm_zones st ! fst s) (snd s) n]\<rparr>"

lemma AllocPages_eq:
  assumes "mem_ok A st"
  shows "AllocPages A n st =
           map_option (\<lambda>r. case r of None \<Rightarrow> (st, 0)
                 | Some s \<Rightarrow> (use_slots st s (unat n), slot_addr A st s))
             (find_run_zones (unat n) (mm_zones st))"
proof -
  have "\<forall>z \<in> set (mm_zones st). zone_ok A z" using assms by (simp add: mem_ok_def)
  from allocs_zones_eq [OF this] show ?thesis
    using assms
    by (cases "find_run_zones (unat n) (mm_zones st)")
       (auto simp: AllocPages_def chain_ok set_chain_ok use_slots_def slot_addr_def
        split: option.splits prod.splits)
qed

end
