(* ===== verification/XEOS_MemFree.thy ===== *)
theory XEOS_MemFree
  imports XEOS_MemRuns
begin

text \<open>
  Releasing pages, the interface of a source of single pages and its instance, and the properties
  of the page allocator.

  zone_geom is what the BIOS map gives for a zone that lies on page boundaries inside the address
  space; separated states that each zone starts behind the end of the zones before it.
\<close>

section \<open>FreePage and FreePages\<close>

definition zone_geom :: "arch \<Rightarrow> zone \<Rightarrow> bool" where
  "zone_geom A z \<longleftrightarrow>
     unat (z_base z) mod page_size = 0 \<and>
     unat (z_base z) + unat (z_length z) < 2 ^ ptr_bits A \<and>
     length (z_pages z) * page_size \<le> unat (z_length z)"

definition zone_end :: "zone \<Rightarrow> nat" where
  "zone_end z = unat (z_base z) + unat (z_length z)"

definition separated :: "zone list \<Rightarrow> bool" where
  "separated zs \<longleftrightarrow> sorted_wrt (\<lambda>z z'. zone_end z < unat (z_base z')) zs"

definition mem_geom :: "arch \<Rightarrow> mem_state \<Rightarrow> bool" where
  "mem_geom A st \<longleftrightarrow>
     (\<forall>z \<in> set (mm_zones st). zone_geom A z) \<and> separated (mm_zones st)"

definition release_slots :: "mem_state \<Rightarrow> nat \<times> nat \<Rightarrow> nat \<Rightarrow> mem_state" where
  "release_slots st s n =
     st\<lparr>mm_zones := (mm_zones st)[fst s := release_run (mm_zones st ! fst s) (snd s) n]\<rparr>"

lemma ptr_bits_le: "(2::nat) ^ ptr_bits A \<le> 18446744073709551616"
  by (cases A) (simp_all add: ptr_bits_def)

lemma unat_page_addr:
  assumes "zone_geom A z" "i \<le> length (z_pages z)"
  shows "unat (page_addr A z i) = unat (z_base z) + i * page_size"
proof -
  have i: "i * page_size \<le> unat (z_length z)"
    using assms by (auto simp: zone_geom_def intro: order_trans [OF mult_le_mono1])
  then have lt: "unat (z_base z) + i * page_size < 2 ^ ptr_bits A"
    using assms(1) by (simp add: zone_geom_def)
  then have "unat (z_base z) + i * page_size < 18446744073709551616"
    using ptr_bits_le [of A] by simp
  then have "unat (z_base z + of_nat i * 0x1000) = unat (z_base z) + i * page_size"
    by (simp add: unat_word_ariths unat_of_nat)
  then show ?thesis using lt by (simp add: page_addr_def unat_ptr_of)
qed

lemma aligned_and: "(w :: u64) AND 0xFFF = 0 \<longleftrightarrow> unat w mod page_size = 0"
proof -
  have "w AND 0xFFF = take_bit 12 w" by (simp add: take_bit_eq_mask mask_eq_exp_minus_1)
  moreover have "unat (take_bit 12 w) = unat w mod 4096" by (simp add: take_bit_eq_mod unat_mod)
  ultimately show ?thesis by (metis unsigned_0 unat_eq_zero)
qed

lemma page_addr_aligned:
  assumes "zone_geom A z" "i \<le> length (z_pages z)"
  shows "page_addr A z i AND 0xFFF = 0"
  using assms unat_page_addr [OF assms] by (simp add: aligned_and zone_geom_def mod_add_eq)

lemma page_index:
  assumes "zone_geom A z" "i \<le> length (z_pages z)"
  shows "unat ((page_addr A z i - z_base z) div 0x1000) = i"
proof -
  have "z_base z \<le> page_addr A z i"
    using unat_page_addr [OF assms] by (simp add: word_le_nat_alt)
  then have "unat (page_addr A z i - z_base z) = i * page_size"
    using unat_page_addr [OF assms] by (simp add: unat_sub)
  then show ?thesis by (simp add: unat_div)
qed

lemma unat_zone_end: "zone_geom A z \<Longrightarrow> unat (z_base z + z_length z) = zone_end z"
  using ptr_bits_le [of A] by (simp add: zone_geom_def zone_end_def unat_add_u64)

lemma free_zones_eq:
  assumes "\<forall>z \<in> set zs. zone_geom A z" "separated zs"
    and "k < length zs" "i < length (z_pages (zs ! k))" "i + n \<le> length (z_pages (zs ! k))"
  shows "free_zones n (page_addr A (zs ! k) i) zs = Some (zs[k := release_run (zs ! k) i n])"
  using assms
proof (induction zs arbitrary: k)
  case (Cons z zs)
  let ?z = "(z # zs) ! k"
  have gz: "zone_geom A z" and g: "zone_geom A ?z" using Cons.prems(1,3) by (auto simp: nth_Cons')
  have addr: "unat (page_addr A ?z i) = unat (z_base ?z) + i * page_size"
    using unat_page_addr [OF g] Cons.prems(4) by simp
  show ?case
  proof (cases k)
    case 0
    have "Suc i * page_size \<le> unat (z_length z)"
      using Cons.prems(4) gz 0
      by (auto simp: zone_geom_def intro: order_trans [OF mult_le_mono1 [of "Suc i"]])
    then have "\<not> page_addr A z i > z_base z + z_length z"
      using addr 0 unat_zone_end [OF gz] by (simp add: word_less_nat_alt zone_end_def)
    then show ?thesis
      using 0 Cons.prems(4,5) page_index [OF gz, of i] by (simp add: give_back_release)
  next
    case (Suc k')
    then have "zone_end z < unat (z_base ?z)"
      using Cons.prems(2,3) by (auto simp: separated_def)
    then have "page_addr A ?z i > z_base z + z_length z"
      using addr unat_zone_end [OF gz] by (simp add: word_less_nat_alt)
    then show ?thesis
      using Suc Cons.prems Cons.IH [of k'] by (simp add: separated_def)
  qed
qed simp

lemma FreePages_eq:
  assumes "mem_ok A st" "mem_geom A st" "k < length (mm_zones st)"
    and "i < length (z_pages (mm_zones st ! k))" "i + unat n \<le> length (z_pages (mm_zones st ! k))"
  shows "FreePages st (slot_addr A st (k, i)) n = Some (release_slots st (k, i) (unat n))"
proof -
  have "zone_geom A (mm_zones st ! k)" using assms(2,3) by (simp add: mem_geom_def)
  then have "slot_addr A st (k, i) AND 0xFFF = 0"
    using assms(4) page_addr_aligned by (simp add: slot_addr_def)
  moreover have "free_zones (unat n) (slot_addr A st (k, i)) (mm_zones st) =
      Some ((mm_zones st)[k := release_run (mm_zones st ! k) i (unat n)])"
    using free_zones_eq assms by (simp add: mem_geom_def slot_addr_def)
  ultimately show ?thesis
    using assms(1) by (simp add: FreePages_def chain_ok set_chain_ok release_slots_def)
qed

lemma FreePage_1: "FreePage st page = FreePages st page 1"
  by (simp add: FreePage_def FreePages_def)


section \<open>The interface of a source of single pages\<close>

text \<open>
  A source hands out items one at a time and knows in which order it will do so.  Clients that take
  several items rely on nothing else.
\<close>

locale page_source =
  fixes ok :: "'s \<Rightarrow> bool"
    and avail :: "'s \<Rightarrow> 'p list"
    and get :: "'s \<Rightarrow> ('s \<times> 'p option) option"
  assumes get_nil: "ok s \<Longrightarrow> avail s = [] \<Longrightarrow> get s = Some (s, None)"
    and get_cons: "ok s \<Longrightarrow> avail s = p # ps \<Longrightarrow>
      \<exists>s'. get s = Some (s', Some p) \<and> ok s' \<and> avail s' = ps"
begin

primrec get_many :: "nat \<Rightarrow> 's \<Rightarrow> ('s \<times> 'p option list) option" where
  "get_many 0 s = Some (s, [])"
| "get_many (Suc n) s = do { (s1, p) \<leftarrow> get s; (s2, ps) \<leftarrow> get_many n s1; Some (s2, p # ps) }"

lemma get_many_avail:
  "ok s \<Longrightarrow> \<exists>s'. get_many n s =
      Some (s', map Some (take n (avail s)) @ replicate (n - length (avail s)) None) \<and>
      ok s' \<and> avail s' = drop n (avail s)"
proof (induction n arbitrary: s)
  case (Suc n)
  show ?case
  proof (cases "avail s")
    case Nil
    then show ?thesis using Suc get_nil [of s] by fastforce
  next
    case (Cons p ps)
    then obtain s' where "get s = Some (s', Some p)" "ok s'" "avail s' = ps"
      using get_cons Suc.prems by blast
    then show ?thesis using Suc.IH [of s'] Cons by fastforce
  qed
qed simp

end

text \<open>
  AllocPage is such a source, of the addresses of the free pages, as long as page 0 is not one of
  them: it reports that there is no page by the address 0.
\<close>

definition free_addrs :: "arch \<Rightarrow> mem_state \<Rightarrow> u64 list" where
  "free_addrs A st = map (slot_addr A st) (free_slots st)"

definition pool_ok :: "arch \<Rightarrow> mem_state \<Rightarrow> bool" where
  "pool_ok A st \<longleftrightarrow> mem_ok A st \<and> 0 \<notin> set (free_addrs A st)"

definition alloc_opt :: "arch \<Rightarrow> mem_state \<Rightarrow> (mem_state \<times> u64 option) option" where
  "alloc_opt A st = map_option (\<lambda>(st', a). (st', if a = 0 then None else Some a)) (AllocPage A st)"

lemma slot_addr_use: "s' \<in> set (free_slots st) \<Longrightarrow> slot_addr A (use_slot st s) s' = slot_addr A st s'"
  by (cases "fst s < length (mm_zones st)")
     (simp_all add: slot_addr_def use_slot_def page_addr_def nth_list_update use_page_def free_dec_def
        not_less list_update_beyond)

lemma free_slots_use:
  "free_slots st = s # ss \<Longrightarrow> free_slots (use_slot st s) = ss"
  by (cases s) (simp add: free_slots_def use_slot_def slots_use)

lemma free_addrs_use:
  "free_slots st = s # ss \<Longrightarrow> free_addrs A (use_slot st s) = map (slot_addr A st) ss"
  by (simp add: free_addrs_def free_slots_use slot_addr_use)

interpretation pages: page_source "pool_ok A" "free_addrs A" "alloc_opt A" for A
proof unfold_locales
  fix st p ps
  assume ok: "pool_ok A st" and av: "free_addrs A st = p # ps"
  then obtain s ss where s: "free_slots st = s # ss" and p: "p = slot_addr A st s"
    and ps: "ps = map (slot_addr A st) ss" by (auto simp: free_addrs_def)
  have "p \<noteq> 0" using ok av by (simp add: pool_ok_def)
  have "mem_ok A (use_slot st s)" using ok s mem_ok_use by (simp add: pool_ok_def)
  then show "\<exists>st'. alloc_opt A st = Some (st', Some p) \<and> pool_ok A st' \<and> free_addrs A st' = ps"
    using ok av s p ps \<open>p \<noteq> 0\<close>
    by (auto simp: alloc_opt_def pool_ok_def AllocPage_eq free_addrs_use)
qed (simp add: alloc_opt_def pool_ok_def AllocPage_eq free_addrs_def)

text \<open>Distinct slots have distinct addresses when the zones are separated.\<close>

lemma distinct_slots: "distinct (slots zs)"
proof (induction zs)
  case (Cons z zs)
  then show ?case
    by (auto simp: zone_slots_def distinct_map inj_on_def)
qed simp

lemma slot_addr_inj:
  assumes "mem_geom A st" "(k, i) \<in> set (free_slots st)" "(k', i') \<in> set (free_slots st)"
    and "slot_addr A st (k, i) = slot_addr A st (k', i')"
  shows "(k, i) = (k', i')"
proof -
  let ?z = "mm_zones st ! k" and ?z' = "mm_zones st ! k'"
  have k: "k < length (mm_zones st)" "i < length (z_pages ?z)"
    and k': "k' < length (mm_zones st)" "i' < length (z_pages ?z')"
    using assms(2,3) by (simp_all add: free_slots_def slots_iff)
  have g: "zone_geom A ?z" "zone_geom A ?z'" using k k' assms(1) by (auto simp: mem_geom_def)
  have eq: "unat (z_base ?z) + i * page_size = unat (z_base ?z') + i' * page_size"
    using assms(4) k k' unat_page_addr [OF g(1), of i] unat_page_addr [OF g(2), of i']
    by (simp add: slot_addr_def)
  have lt: "i * page_size < unat (z_length ?z)" "i' * page_size < unat (z_length ?z')"
    using g k k' by (auto simp: zone_geom_def intro: less_le_trans [OF mult_less_mono1])
  have sep: "unat (z_base (mm_zones st ! a)) + unat (z_length (mm_zones st ! a)) <
      unat (z_base (mm_zones st ! b))" if "a < b" "b < length (mm_zones st)" for a b
    using assms(1) that
    by (auto simp: mem_geom_def separated_def zone_end_def sorted_wrt_iff_nth_less)
  have "k = k'" using sep [of k k'] sep [of k' k] k k' eq lt by (cases k k' rule: linorder_cases) auto
  then show ?thesis using eq by simp
qed

lemma distinct_free_addrs: "mem_geom A st \<Longrightarrow> distinct (free_addrs A st)"
  using distinct_slots [of "mm_zones st"] slot_addr_inj
  by (auto simp: free_addrs_def distinct_map free_slots_def inj_on_def)

end
