(* ===== verification/XEOS_MemInit.thy ===== *)
theory XEOS_MemInit
  imports XEOS_MemFree
begin

text \<open>
  XEOS_Mem_Initialize: the memory zones are built from the BIOS memory map, behind the kernel image
  or in the first large enough usable region.  The output handler is a variadic print function or
  NULL; the model collects the calls it gets (format string and arguments).  The address of the end
  of the kernel image is a linker symbol and an argument.
\<close>

definition uintptr_max :: "arch \<Rightarrow> u64" where
  "uintptr_max A = (case A of I386 \<Rightarrow> 0xFFFFFFFF | X86_64 \<Rightarrow> 0xFFFFFFFFFFFFFFFF)"

section \<open>Finding a place for the zones\<close>

definition region_type_name :: "u32 \<Rightarrow> out_call list" where
  "region_type_name t =
     (if t = MemoryEntryTypeUnknown then [(''Unknown:  '', [])]
      else if t = MemoryEntryTypeUsable then [(''Usable:   '', [])]
      else if t = MemoryEntryTypeReserved then [(''Reserved: '', [])]
      else if t = MemoryEntryTypeACPIReclaimable then [(''ACPI:     '', [])]
      else if t = MemoryEntryTypeACPINVS then [(''ACPI NVS: '', [])]
      else if t = MemoryEntryTypeBad then [(''Bad:      '', [])]
      else [])"

definition region_lines :: "mem_entry \<Rightarrow> out_call list" where
  "region_lines e =
     [(''%016#llX -> %016#llX - '', [OutNum (me_address e), OutNum ((me_address e + me_length e) - 1)])] @
     region_type_name (me_type e) @
     [if 0x100000 \<le> me_length e then (''%9llu MB'' @ [CHR 0x0A], [OutNum (me_length e div 1024 div 1024)])
      else (''%9llu B'' @ [CHR 0x0A], [OutNum (me_length e)])]"

definition align_up :: "arch \<Rightarrow> u64 \<Rightarrow> u64" where
  "align_up A start =
     (if start AND 0xFFF \<noteq> 0 then (start AND (uintptr_max A - 0xFFF)) + 0x1000 else start)"

fun find_place :: "arch \<Rightarrow> bool \<Rightarrow> u64 \<Rightarrow> u64 \<Rightarrow> mem_entry list \<Rightarrow> u64 \<Rightarrow> out_call list \<Rightarrow>
    u64 \<times> out_call list" where
  "find_place A handler kernelEnd zonesMemory [] zonesAddress out = (zonesAddress, out)"
| "find_place A handler kernelEnd zonesMemory (e # es) zonesAddress out =
     (let memoryLength = me_length e;
          memoryEnd = (me_address e + memoryLength) - 1;
          out1 = (if handler then out @ region_lines e else out);
          memoryStart = align_up A (me_address e)
      in if handler \<and> memoryLength = 0
         then find_place A handler kernelEnd zonesMemory es zonesAddress out
         else if me_type e \<noteq> MemoryEntryTypeUsable
         then find_place A handler kernelEnd zonesMemory es zonesAddress out1
         else if memoryLength < zonesMemory
         then find_place A handler kernelEnd zonesMemory es zonesAddress out1
         else if 0x300000000 \<le> memoryStart \<or> 0x300000000 \<le> memoryStart + zonesMemory
         then (zonesAddress, out1)
         else if kernelEnd < memoryStart
         then (memoryStart, out1)
         else if kernelEnd < memoryEnd \<and> zonesMemory \<le> memoryEnd - kernelEnd
         then find_place A handler kernelEnd zonesMemory es (kernelEnd + 1) out1
         else find_place A handler kernelEnd zonesMemory es zonesAddress out1)"


section \<open>Building the zones\<close>

text \<open>The loop over the pages of a zone; the page map and the counter start out cleared.\<close>

primrec init_pages :: "bool \<Rightarrow> u64 \<Rightarrow> nat \<Rightarrow> u64 \<Rightarrow> u8 list \<times> u64" where
  "init_pages usable limit 0 pageAddress = ([], 0)"
| "init_pages usable limit (Suc n) pageAddress =
     (let (ps, free) = init_pages usable limit n (pageAddress + 0x1000) in
      if usable \<and> limit \<le> pageAddress then (1 # ps, free + 1) else (0 # ps, free))"

definition init_zone :: "arch \<Rightarrow> u64 \<Rightarrow> mem_entry \<Rightarrow> u64 \<Rightarrow> zone" where
  "init_zone A zonesMemory e zonesAddress =
     (let pageCount = (if 0x1000 < me_length e then me_length e div 0x1000 else 0);
          base = ptr_of A (me_address e);
          (ps, free) = init_pages (me_type e = MemoryEntryTypeUsable) (zonesAddress + zonesMemory)
                         (unat pageCount) base
      in \<lparr> z_self = ptr_of A zonesAddress, z_type = me_type e, z_base = base,
           z_length = me_length e, z_pageCount = pageCount, z_freePageCount = free, z_pages = ps \<rparr>)"

fun build_zones :: "arch \<Rightarrow> u64 \<Rightarrow> mem_entry list \<Rightarrow> u64 \<Rightarrow> zone list \<times> u64" where
  "build_zones A zonesMemory [] zonesAddress = ([], zonesAddress)"
| "build_zones A zonesMemory (e # es) zonesAddress =
     (let z = init_zone A zonesMemory e zonesAddress;
          (zs, end) = build_zones A zonesMemory es (zonesAddress + sizeof_zone A + z_pageCount z)
      in (z # zs, end))"


section \<open>XEOS_Mem_Initialize\<close>

definition entry_list :: "bytes \<Rightarrow> info_memory option \<Rightarrow> mem_entry list" where
  "entry_list m memory = (case memory of None \<Rightarrow> [] | Some im \<Rightarrow> entries m im)"

definition zones_memory :: "arch \<Rightarrow> bytes \<Rightarrow> info_memory option \<Rightarrow> u64" where
  "zones_memory A m memory =
     ptr_of A (ucast (MemoryGetNumberOfEntries memory) * sizeof_zone A) +
     MemoryGetTotalBytes m memory div 0x1000"

definition kernel_last :: "u64 \<Rightarrow> u64" where
  "kernel_last kernelEnd = (kernelEnd AND (0xFFFFFFFFFFFFFFFF - 0x0FFF)) + 0x1000 - 1"

definition Mem_Initialize :: "arch \<Rightarrow> u64 \<Rightarrow> info_memory option \<Rightarrow> bool \<Rightarrow> bytes \<times> mem_state \<Rightarrow>
    (bytes \<times> mem_state) \<times> out_call list" where
  "Mem_Initialize A kernelEnd memory handler s =
     (let (m, st) = s;
          zonesMemory = zones_memory A m memory;
          (zonesAddress, out) =
            find_place A handler (kernel_last kernelEnd) zonesMemory (entry_list m memory) 0 []
      in if 0 < zonesAddress then
           let m1 = mem_fill m (unat (ptr_of A zonesAddress)) 0 (unat (ptr_of A zonesMemory));
               zs = fst (build_zones A zonesMemory (entry_list m1 memory) zonesAddress)
           in ((m1, \<lparr> mm_zones = zs, mm_count = of_nat (length zs) \<rparr>), out)
         else (s, out))"


section \<open>What initialisation builds\<close>

lemma find_place_result:
  assumes "find_place A handler ke zm es za0 out = (za, out')"
  shows "za = za0 \<or>
    (\<exists>e \<in> set es. me_type e = MemoryEntryTypeUsable \<and> zm \<le> me_length e \<and>
       ((za = align_up A (me_address e) \<and> ke < za \<and> za < 0x300000000 \<and> za + zm < 0x300000000) \<or>
        (za = ke + 1 \<and> ke < me_address e + me_length e - 1 \<and>
         zm \<le> me_address e + me_length e - 1 - ke)))"
  using assms
proof (induction es arbitrary: za0 out)
  case (Cons e es)
  then show ?case
    by (simp add: Let_def not_le not_less split: if_splits) blast+
qed simp

lemma init_pages_props:
  "init_pages u lim n pa = (ps, f) \<Longrightarrow>
     length ps = n \<and> set ps \<subseteq> {0, 1} \<and> f = of_nat (count_list ps 1) \<and>
     (\<forall>j < n. ps ! j = 1 \<longleftrightarrow> u \<and> lim \<le> pa + of_nat j * 0x1000)"
proof (induction n arbitrary: pa ps f)
  case (Suc n)
  obtain ps' f' where r: "init_pages u lim n (pa + 0x1000) = (ps', f')" by fastforce
  have step: "pa + of_nat (Suc j) * 0x1000 = pa + 0x1000 + of_nat j * 0x1000" for j
    by (simp add: algebra_simps)
  have ps: "ps = (if u \<and> lim \<le> pa then 1 else 0) # ps'"
    and f: "f = (if u \<and> lim \<le> pa then f' + 1 else f')"
    using Suc.prems r by (auto split: if_splits)
  have "ps ! j = 1 \<longleftrightarrow> u \<and> lim \<le> pa + of_nat j * 0x1000" if "j < Suc n" for j
    using that Suc.IH [OF r] ps by (cases j) (auto simp: step simp del: of_nat_Suc)
  then show ?case using Suc.IH [OF r] ps f by (auto simp: add.commute)
qed simp

lemma init_zone_props:
  assumes "z = init_zone A zm e za"
  shows "zone_ok A z" "z_type z = me_type e" "z_length z = me_length e"
    "z_base z = ptr_of A (me_address e)" "z_self z = ptr_of A za"
    "unat (z_pageCount z) * 4096 \<le> unat (me_length e)"
    "\<And>j. j < length (z_pages z) \<Longrightarrow> z_pages z ! j = 1 \<longleftrightarrow>
       me_type e = MemoryEntryTypeUsable \<and> za + zm \<le> z_base z + of_nat j * 0x1000"
proof -
  let ?pc = "if 0x1000 < me_length e then me_length e div 0x1000 else 0"
  obtain ps f where r: "init_pages (me_type e = MemoryEntryTypeUsable) (za + zm) (unat ?pc)
      (ptr_of A (me_address e)) = (ps, f)" by fastforce
  have z: "z = \<lparr> z_self = ptr_of A za, z_type = me_type e, z_base = ptr_of A (me_address e),
      z_length = me_length e, z_pageCount = ?pc, z_freePageCount = f, z_pages = ps \<rparr>"
    using assms r by (simp add: init_zone_def Let_def)
  note P = init_pages_props [OF r]
  have "count_list ps 1 \<le> unat ?pc" using P count_le_length [of ps 1] by simp
  then have "count_list ps 1 < 18446744073709551616" using unat_u64 [of ?pc] by linarith
  then have "unat f = count_list ps 1" using P by (simp add: unat_of_nat_u64)
  then show "zone_ok A z" using P z by (simp add: zone_ok_def)
  show "unat (z_pageCount z) * 4096 \<le> unat (me_length e)"
    using z by (simp add: unat_div)
  show "\<And>j. j < length (z_pages z) \<Longrightarrow> z_pages z ! j = 1 \<longleftrightarrow>
       me_type e = MemoryEntryTypeUsable \<and> za + zm \<le> z_base z + of_nat j * 0x1000"
    using P z by simp
qed (use assms in \<open>auto simp: init_zone_def Let_def split: prod.splits\<close>)

lemma build_zones_map:
  assumes "build_zones A zm es za = (zs, end)"
  shows "length zs = length es \<and> (\<forall>z \<in> set zs. zone_ok A z) \<and>
    map z_type zs = map me_type es \<and> map z_length zs = map me_length es \<and>
    map z_base zs = map (\<lambda>e. ptr_of A (me_address e)) es \<and>
    (\<forall>z \<in> set zs. length (z_pages z) * 4096 \<le> unat (z_length z))"
  using assms
proof (induction es arbitrary: za zs)
  case (Cons e es)
  let ?z = "init_zone A zm e za"
  obtain zs' where b: "build_zones A zm es (za + sizeof_zone A + z_pageCount ?z) = (zs', end)"
    and zs: "zs = ?z # zs'"
    using Cons.prems by (auto simp: Let_def split: prod.splits)
  note Z = init_zone_props [of ?z A zm e za, OF refl]
  have "length (z_pages ?z) = unat (z_pageCount ?z)" using Z(1) by (simp add: zone_ok_def)
  then show ?case
    using Cons.IH [OF b] zs Z(1-4,6) by simp
qed simp

text \<open>The size of the table: the structures and one byte per page.\<close>

definition table_size :: "arch \<Rightarrow> zone list \<Rightarrow> nat" where
  "table_size A zs = (\<Sum>z\<leftarrow>zs. unat (sizeof_zone A) + length (z_pages z))"

lemma build_zones_table:
  assumes "build_zones A zm es za = (zs, end)"
    and "unat za + table_size A zs + unat zm < 18446744073709551616"
  shows "unat end = unat za + table_size A zs \<and>
    (\<forall>k < length zs. \<exists>za'. unat za' = unat za + table_size A (take k zs) \<and>
       zs ! k = init_zone A zm (es ! k) za')"
  using assms
proof (induction es arbitrary: za zs)
  case Nil
  then show ?case by (simp add: table_size_def)
next
  case (Cons e es)
  let ?z = "init_zone A zm e za" and ?za = "za + sizeof_zone A + z_pageCount (init_zone A zm e za)"
  obtain zs' where zs': "build_zones A zm es ?za = (zs', end)" and zs: "zs = ?z # zs'"
    using Cons.prems(1) by (auto simp: Let_def split: prod.splits)
  have len: "length (z_pages ?z) = unat (z_pageCount ?z)"
    using init_zone_props(1) [of ?z A zm e za] by (simp add: zone_ok_def)
  have bound: "unat za + unat (sizeof_zone A) + unat (z_pageCount ?z) + table_size A zs' + unat zm
      < 18446744073709551616"
    using Cons.prems(2) zs len by (simp add: table_size_def)
  then have za: "unat ?za = unat za + unat (sizeof_zone A) + length (z_pages ?z)"
    by (simp add: unat_add_u64 len)
  then have "unat ?za + table_size A zs' + unat zm < 18446744073709551616" using bound len by simp
  note IH = Cons.IH [OF zs' this]
  have "\<exists>za'. unat za' = unat za + table_size A (take k zs) \<and> zs ! k = init_zone A zm ((e # es) ! k) za'"
    if "k < length zs" for k
    using IH that za zs by (cases k) (auto simp: table_size_def add.assoc)
  then show ?case using IH za zs by (simp add: table_size_def)
qed


section \<open>The table fits\<close>

definition entry_end :: "mem_entry \<Rightarrow> nat" where
  "entry_end e = unat (me_address e) + unat (me_length e)"

text \<open>A BIOS map in ascending order, without overlaps, inside the address space of the target.\<close>

definition good_map :: "arch \<Rightarrow> mem_entry list \<Rightarrow> bool" where
  "good_map A es \<longleftrightarrow>
     sorted_wrt (\<lambda>e e'. entry_end e \<le> unat (me_address e')) es \<and>
     (\<forall>e \<in> set es. entry_end e < 2 ^ ptr_bits A) \<and> length es * 48 < 4294967296"

lemma sum_pages_le:
  "sorted_wrt (\<lambda>e e'. entry_end e \<le> unat (me_address e')) es \<Longrightarrow> es \<noteq> [] \<Longrightarrow>
     (\<Sum>e\<leftarrow>es. unat (me_length e) div 4096) * 4096 + unat (me_address (hd es)) \<le> entry_end (last es)"
proof (induction es)
  case (Cons e es)
  show ?case
  proof (cases es)
    case Nil
    then show ?thesis by (simp add: entry_end_def)
  next
    case (Cons e' es')
    then have "entry_end e \<le> unat (me_address (hd es))" using Cons.prems(1) by simp
    then have "unat (me_length e) div 4096 * 4096 + unat (me_address e) \<le> unat (me_address (hd es))"
      using div_times_less_eq_dividend [of "unat (me_length e)" 4096] by (simp add: entry_end_def)
    then show ?thesis using Cons Cons.IH Cons.prems(1) by simp
  qed
qed simp

lemma good_map_unat:
  "good_map A es \<Longrightarrow> e \<in> set es \<Longrightarrow> unat (me_address e + me_length e) = entry_end e"
  using ptr_bits_le [of A] by (auto simp: good_map_def entry_end_def intro!: unat_add_u64)

lemma good_map_base: "good_map A es \<Longrightarrow> e \<in> set es \<Longrightarrow> ptr_of A (me_address e) = me_address e"
  by (rule ptr_of_fits) (auto simp: good_map_def entry_end_def)

lemma unat_zones_memory:
  assumes "good_map A (entries m im)" "entries m im \<noteq> []"
  shows "unat (zones_memory A m (Some im)) =
    length (entries m im) * unat (sizeof_zone A) + entry_end (last (entries m im)) div 4096"
proof -
  let ?es = "entries m im"
  have n: "unat (MemoryGetNumberOfEntries (Some im)) = length ?es" by (simp add: length_entries)
  have size: "unat (sizeof_zone A) \<le> 48" by (cases A) (simp_all add: sizeof_zone_def)
  then have small: "length ?es * unat (sizeof_zone A) < 4294967296"
    using assms(1) mult_le_mono2 [OF size, of "length ?es"] unfolding good_map_def by linarith
  then have "unat (ucast (MemoryGetNumberOfEntries (Some im)) * sizeof_zone A) =
      length ?es * unat (sizeof_zone A)"
    by (simp add: unat_word_ariths unsigned_ucast_eq n take_bit_eq_mod mod_mult_left_eq)
  moreover have "(4294967296::nat) \<le> 2 ^ ptr_bits A" by (cases A) (simp_all add: ptr_bits_def)
  ultimately have a: "unat (ptr_of A (ucast (MemoryGetNumberOfEntries (Some im)) * sizeof_zone A)) =
      length ?es * unat (sizeof_zone A)"
    using small by (simp add: unat_ptr_of)
  have b: "unat (MemoryGetTotalBytes m (Some im) div 0x1000) = entry_end (last ?es) div 4096"
    using assms by (simp add: total_bytes_last unat_div good_map_unat)
  have "entry_end (last ?es) div 4096 < 4503599627370496"
    using unat_u64 [of "me_address (last ?es) + me_length (last ?es)"]
      good_map_unat [OF assms(1), of "last ?es"] assms(2) by simp
  then show ?thesis using small by (simp add: zones_memory_def unat_add_u64 a b)
qed

lemma table_size_le:
  assumes "good_map A (entries m im)" "entries m im \<noteq> []"
    and "build_zones A zm (entries m im) za = (zs, end)"
  shows "table_size A zs \<le> unat (zones_memory A m (Some im))"
proof -
  let ?es = "entries m im"
  note B = build_zones_map [OF assms(3)]
  have "length (z_pages z) \<le> unat (z_length z) div 4096" if "z \<in> set zs" for z
  proof -
    have "length (z_pages z) * 4096 \<le> unat (z_length z)" using B that by blast
    then show ?thesis using div_le_mono [of "length (z_pages z) * 4096" "unat (z_length z)" 4096] by simp
  qed
  then have "table_size A zs \<le> (\<Sum>z\<leftarrow>zs. unat (sizeof_zone A) + unat (z_length z) div 4096)"
    unfolding table_size_def by (intro sum_list_mono) simp
  also have "\<dots> = length zs * unat (sizeof_zone A) + (\<Sum>l\<leftarrow>map z_length zs. unat l div 4096)"
    by (simp add: sum_list_addf sum_list_triv o_def)
  also have "\<dots> = length ?es * unat (sizeof_zone A) + (\<Sum>e\<leftarrow>?es. unat (me_length e) div 4096)"
    using B by (simp add: o_def)
  also have "(\<Sum>e\<leftarrow>?es. unat (me_length e) div 4096) \<le> entry_end (last ?es) div 4096"
  proof -
    have "(\<Sum>e\<leftarrow>?es. unat (me_length e) div 4096) * 4096 \<le> entry_end (last ?es)"
      using sum_pages_le [of ?es] assms(1,2) by (simp add: good_map_def)
    then have "(\<Sum>e\<leftarrow>?es. unat (me_length e) div 4096) * 4096 div 4096 \<le> entry_end (last ?es) div 4096"
      by (rule div_le_mono)
    then show ?thesis by simp
  qed
  finally show ?thesis using unat_zones_memory [OF assms(1,2)] by simp
qed


section \<open>Properties\<close>

definition zones_address :: "arch \<Rightarrow> u64 \<Rightarrow> bytes \<Rightarrow> info_memory option \<Rightarrow> bool \<Rightarrow> u64" where
  "zones_address A kernelEnd m memory handler =
     fst (find_place A handler (kernel_last kernelEnd) (zones_memory A m memory) (entry_list m memory) 0 [])"

lemma rd32_fill_out: "b + 4 \<le> a \<Longrightarrow> rd32 (mem_fill m a v n) b = rd32 m b"
  by (simp add: rd32_def rd_le_mem_fill_out)

lemma rd64_fill_out: "b + 8 \<le> a \<Longrightarrow> rd64 (mem_fill m a v n) b = rd64 m b"
  by (simp add: rd64_def rd_le_mem_fill_out)

lemma entries_after_fill:
  assumes "unat (im_base im) + unat (im_length im) \<le> a"
  shows "entries (mem_fill m a v n) im = entries m im"
proof -
  have "entry_of (mem_fill m a v n) im i = entry_of m im i"
    if "i < unat (MemoryGetNumberOfEntries (Some im))" for i
  proof -
    have "Suc i \<le> unat (im_length im) div 20" using that by (simp add: number_of_entries)
    then have "Suc i * 20 \<le> unat (im_length im)"
      using order_trans [OF mult_le_mono1 [of "Suc i" _ 20] div_times_less_eq_dividend] by blast
    then have "unat (im_base im) + i * 20 + 20 \<le> a" using assms by simp
    then show ?thesis
      unfolding entry_of_def entry_index [OF that]
      by (simp add: MemoryEntryGetAddress_def MemoryEntryGetLength_def MemoryEntryGetType_def
          rd32_fill_out rd64_fill_out)
  qed
  then show ?thesis by (simp add: entries_def)
qed

lemma zones_address_place:
  assumes "zones_address A ke m (Some im) h = za"
  obtains out where "find_place A h (kernel_last ke) (zones_memory A m (Some im)) (entries m im) 0 [] = (za, out)"
proof (rule that)
  show "find_place A h (kernel_last ke) (zones_memory A m (Some im)) (entries m im) 0 [] =
      (za, snd (find_place A h (kernel_last ke) (zones_memory A m (Some im)) (entries m im) 0 []))"
    using assms by (simp add: zones_address_def entry_list_def prod_eq_iff)
qed

lemma Mem_Initialize_eq:
  assumes "zones_address A ke m (Some im) h = za" "0 < za"
    and "unat (im_base im) + unat (im_length im) \<le> unat (ptr_of A za)"
  obtains m' st' out "end" where
    "Mem_Initialize A ke (Some im) h (m, st) = ((m', st'), out)"
    "build_zones A (zones_memory A m (Some im)) (entries m im) za = (mm_zones st', end)"
    "mm_count st' = of_nat (length (mm_zones st'))"
proof -
  obtain zs "end" where b: "build_zones A (zones_memory A m (Some im)) (entries m im) za = (zs, end)"
    by fastforce
  obtain out where f: "find_place A h (kernel_last ke) (zones_memory A m (Some im)) (entries m im) 0 [] = (za, out)"
    using zones_address_place [OF assms(1)] .
  show ?thesis
    using assms(2,3) b f
    by (intro that [of _ "\<lparr> mm_zones = zs, mm_count = of_nat (length zs) \<rparr>"])
       (auto simp: Mem_Initialize_def Let_def entry_list_def entries_after_fill split: prod.splits)
qed

lemma sum_lengths_eq: "sum_lengths zs b = b + sum_list (map z_length zs)"
  by (induction zs arbitrary: b) (simp_all add: algebra_simps)

lemma Initialize_result:
  assumes "zones_address A ke m (Some im) h = za" "0 < za"
    and "unat (im_base im) + unat (im_length im) \<le> unat (ptr_of A za)"
  shows "\<exists>m' st' out. Mem_Initialize A ke (Some im) h (m, st) = ((m', st'), out) \<and> mem_ok A st' \<and>
     map z_type (mm_zones st') = map me_type (entries m im) \<and>
     map z_length (mm_zones st') = map me_length (entries m im) \<and>
     map z_base (mm_zones st') = map (\<lambda>e. ptr_of A (me_address e)) (entries m im) \<and>
     GetTotalBytes st' = sum_list (map me_length (entries m im))"
proof -
  obtain m' st' out "end" where I: "Mem_Initialize A ke (Some im) h (m, st) = ((m', st'), out)"
    and b: "build_zones A (zones_memory A m (Some im)) (entries m im) za = (mm_zones st', end)"
    and c: "mm_count st' = of_nat (length (mm_zones st'))"
    using Mem_Initialize_eq [OF assms] .
  note B = build_zones_map [OF b]
  have "length (mm_zones st') = unat (MemoryGetNumberOfEntries (Some im))"
    using B by (simp add: length_entries)
  then have ok: "mem_ok A st'" using B c by (simp add: mem_ok_def)
  have "GetTotalBytes st' = sum_list (map me_length (entries m im))"
    using B by (simp add: GetTotalBytes_def chain_ok [OF ok] sum_lengths_eq)
  then show ?thesis using I ok B by blast
qed

text \<open>
  C15. XEOS_Mem_Initialize, when it finds a place behind the BIOS table: it leaves a consistent
  memory with one zone for each entry of the table, in order, with the type, length and address of
  the entry; XEOS_Mem_GetTotalBytes then is the sum of the lengths.
\<close>

theorem Mem_Initialize_zones:
  assumes "zones_address A ke m (Some im) h = za" "0 < za"
    and "unat (im_base im) + unat (im_length im) \<le> unat (ptr_of A za)"
  shows "\<exists>m' st' out. Mem_Initialize A ke (Some im) h (m, st) = ((m', st'), out) \<and> mem_ok A st' \<and>
     map z_type (mm_zones st') = map me_type (entries m im) \<and>
     map z_length (mm_zones st') = map me_length (entries m im) \<and>
     map z_base (mm_zones st') = map (\<lambda>e. ptr_of A (me_address e)) (entries m im) \<and>
     GetTotalBytes st' = sum_list (map me_length (entries m im))"
  by (rule Initialize_result [OF assms])

lemma zones_behind_kernel:
  assumes "zones_address A ke m (Some im) h = za" "0 < za" "kernel_last ke < 0x300000000"
  shows "kernel_last ke < za" "unat za \<le> 0x300000000" "entries m im \<noteq> []"
proof -
  let ?es = "entries m im"
  obtain out where f: "find_place A h (kernel_last ke) (zones_memory A m (Some im)) ?es 0 [] = (za, out)"
    using zones_address_place [OF assms(1)] .
  obtain e where "e \<in> set ?es" and za: "kernel_last ke < za \<and> za < 0x300000000 \<or> za = kernel_last ke + 1"
    using find_place_result [OF f] assms(2) by auto
  then show "kernel_last ke < za" "unat za \<le> 0x300000000" "?es \<noteq> []"
    using assms(3) by (auto simp: word_less_nat_alt unat_word_ariths)
qed

lemma zones_memory_small:
  assumes "good_map A (entries m im)" "entries m im \<noteq> []"
  shows "unat (zones_memory A m (Some im)) < 4294967296 + 4503599627370496"
proof -
  let ?es = "entries m im"
  have "length ?es * unat (sizeof_zone A) < 4294967296"
    using assms(1) mult_le_mono2 [of "unat (sizeof_zone A)" 48 "length ?es"]
    by (cases A) (simp_all add: good_map_def sizeof_zone_def)
  moreover have "entry_end (last ?es) div 4096 < 4503599627370496"
    using unat_u64 [of "me_address (last ?es) + me_length (last ?es)"]
      good_map_unat [OF assms(1), of "last ?es"] assms(2) by simp
  ultimately show ?thesis using unat_zones_memory [OF assms] by simp
qed

lemma free_slot_behind:
  assumes "good_map A (entries m im)" "entries m im \<noteq> []" "unat za \<le> 0x300000000"
    and b: "build_zones A (zones_memory A m (Some im)) (entries m im) za = (mm_zones st', end)"
    and s: "(k, i) \<in> set (free_slots st')"
  shows "unat za + unat (zones_memory A m (Some im)) \<le> unat (slot_addr A st' (k, i))"
proof -
  let ?es = "entries m im" and ?zm = "zones_memory A m (Some im)" and ?zs = "mm_zones st'"
  note B = build_zones_map [OF b]
  have fits: "table_size A ?zs \<le> unat ?zm" by (rule table_size_le [OF assms(1,2) b])
  note zm = zones_memory_small [OF assms(1,2)]
  have T: "\<forall>k < length ?zs. \<exists>a. unat a = unat za + table_size A (take k ?zs) \<and> ?zs ! k = init_zone A ?zm (?es ! k) a"
    using build_zones_table [OF b] fits zm assms(3) by auto
  have k: "k < length ?zs" "i < length (z_pages (?zs ! k))" "z_pages (?zs ! k) ! i = 1"
    using s by (auto simp: free_slots_def slots_iff)
  obtain a where a: "unat a = unat za + table_size A (take k ?zs)" "?zs ! k = init_zone A ?zm (?es ! k) a"
    using T k(1) by blast
  have mem: "?es ! k \<in> set ?es" "?zs ! k \<in> set ?zs" using k B by auto
  note Z = init_zone_props [OF a(2)]
  have base: "z_base (?zs ! k) = me_address (?es ! k)" using Z(4) good_map_base [OF assms(1) mem(1)] by simp
  have "length (z_pages (?zs ! k)) * 4096 \<le> unat (me_length (?es ! k))"
    using B mem(2) Z(3) by metis
  then have lt: "unat (z_base (?zs ! k)) + i * 4096 < 2 ^ ptr_bits A"
    using base k(2) assms(1) mem(1) by (auto simp: good_map_def entry_end_def)
  then have "unat (z_base (?zs ! k) + of_nat i * 0x1000) = unat (z_base (?zs ! k)) + i * 4096"
    using ptr_bits_le [of A] by (simp add: unat_word_ariths unat_of_nat)
  then have slot: "unat (slot_addr A st' (k, i)) = unat (z_base (?zs ! k) + of_nat i * 0x1000)"
    using lt by (simp add: slot_addr_def page_addr_def unat_ptr_of)
  have "table_size A (take k ?zs) \<le> table_size A ?zs"
    unfolding table_size_def by (subst (2) append_take_drop_id [of k, symmetric]) (simp only: map_append sum_list_append le_add1)
  then have "unat (a + ?zm) = unat a + unat ?zm" using a(1) fits zm assms(3) by (intro unat_add_u64) linarith
  moreover have "a + ?zm \<le> z_base (?zs ! k) + of_nat i * 0x1000" using Z(7) k by blast
  ultimately show ?thesis using slot a(1) by (simp add: word_le_nat_alt)
qed

lemma Initialize_protected:
  assumes "zones_address A ke m (Some im) h = za" "0 < za"
    and "unat (im_base im) + unat (im_length im) \<le> unat (ptr_of A za)"
    and "good_map A (entries m im)" "kernel_last ke < 0x300000000"
    and "Mem_Initialize A ke (Some im) h (m, st) = ((m', st'), out)"
  shows "kernel_last ke < za" "table_size A (mm_zones st') \<le> unat (zones_memory A m (Some im))"
    "\<forall>s \<in> set (free_slots st'). unat za + unat (zones_memory A m (Some im)) \<le> unat (slot_addr A st' s)"
proof -
  note za = zones_behind_kernel [OF assms(1,2,5)]
  obtain "end" where b: "build_zones A (zones_memory A m (Some im)) (entries m im) za = (mm_zones st', end)"
    using Mem_Initialize_eq [OF assms(1-3), of st] assms(6) by auto
  show "kernel_last ke < za" by (rule za(1))
  show "table_size A (mm_zones st') \<le> unat (zones_memory A m (Some im))" by (rule table_size_le [OF assms(4) za(3) b])
  show "\<forall>s \<in> set (free_slots st'). unat za + unat (zones_memory A m (Some im)) \<le> unat (slot_addr A st' s)"
    using free_slot_behind [OF assms(4) za(3,2) b] by auto
qed

text \<open>
  C4. XEOS_Mem_Initialize never offers a page that holds the kernel or the zone table: for an
  ascending BIOS map the zones lie behind the kernel image, fit in the memory reserved for them, and
  every free page starts behind the reserved memory.
\<close>

theorem Mem_Initialize_protects:
  assumes "zones_address A ke m (Some im) h = za" "0 < za"
    and "unat (im_base im) + unat (im_length im) \<le> unat (ptr_of A za)"
    and "good_map A (entries m im)" "kernel_last ke < 0x300000000"
  shows "\<exists>m' st' out. Mem_Initialize A ke (Some im) h (m, st) = ((m', st'), out) \<and>
     kernel_last ke < za \<and> table_size A (mm_zones st') \<le> unat (zones_memory A m (Some im)) \<and>
     (\<forall>s \<in> set (free_slots st').
        unat za + unat (zones_memory A m (Some im)) \<le> unat (slot_addr A st' s))"
proof -
  obtain m' st' out where "Mem_Initialize A ke (Some im) h (m, st) = ((m', st'), out)" by (metis surj_pair)
  then show ?thesis using Initialize_protected [OF assms] by blast
qed


text \<open>A BIOS map of two entries at 0x500: 640 KB reserved, then 16 MB usable from 1 MB on.\<close>

definition example_table :: bytes where
  "example_table = (\<lambda>a.
     if a = 0x50A then 0x0A else if a = 0x510 then 2
     else if a = 0x516 then 0x10 else if a = 0x51F then 1 else if a = 0x524 then 1 else 0)"

definition example_info :: info_memory where
  "example_info = \<lparr> im_base = 0x500, im_length = 40 \<rparr>"

lemma example_entries:
  "entries example_table example_info =
     [\<lparr> me_address = 0, me_length = 0xA0000, me_type = 2 \<rparr>,
      \<lparr> me_address = 0x100000, me_length = 0x1000000, me_type = 1 \<rparr>]"
proof -
  have n: "unat (MemoryGetNumberOfEntries (Some example_info)) = 2"
    by (simp add: number_of_entries example_info_def)
  have e: "MemoryGetEntryAtIndex (Some example_info) (of_nat i) = Some (0x500 + i * 20)" if "i < 2" for i
    using entry_index [of i example_info] that n by (simp add: example_info_def)
  have "entry_of example_table example_info 0 = \<lparr> me_address = 0, me_length = 0xA0000, me_type = 2 \<rparr>"
    using e [of 0]
    by (simp add: entry_of_def MemoryEntryGetAddress_def MemoryEntryGetLength_def
        MemoryEntryGetType_def rd64_bytes rd32_bytes example_table_def memory_entry_types Let_def)
  moreover have "entry_of example_table example_info 1 =
      \<lparr> me_address = 0x100000, me_length = 0x1000000, me_type = 1 \<rparr>"
    using e [of 1]
    by (simp add: entry_of_def MemoryEntryGetAddress_def MemoryEntryGetLength_def
        MemoryEntryGetType_def rd64_bytes rd32_bytes example_table_def memory_entry_types Let_def)
  ultimately show ?thesis by (simp add: entries_def n upt_rec)
qed

lemma example_zones_memory: "zones_memory X86_64 example_table (Some example_info) = 0x1160"
proof -
  have "MemoryGetTotalBytes example_table (Some example_info) = 0x1100000"
    by (simp add: total_bytes_last example_entries)
  then show ?thesis
    by (simp add: zones_memory_def MemoryGetNumberOfEntries_def example_info_def sizeof_zone_def)
qed

lemma example_zones_address:
  "zones_address X86_64 0x234567 example_table (Some example_info) h = 0x235000"
  by (simp add: zones_address_def entry_list_def example_entries example_zones_memory
      kernel_last_def align_up_def MemoryEntryTypeUsable_def Let_def)

lemma example_good_map: "good_map X86_64 (entries example_table example_info)"
  by (simp add: example_entries good_map_def entry_end_def ptr_bits_def)

theorem Mem_Initialize_zones_witness:
  "\<exists>m' st' out. Mem_Initialize X86_64 0x234567 (Some example_info) True (example_table, mem_boot) =
       ((m', st'), out) \<and> mem_ok X86_64 st' \<and> map z_type (mm_zones st') = [2, 1] \<and>
     map z_base (mm_zones st') = [0, 0x100000] \<and> GetTotalBytes st' = 0x10A0000"
  using Mem_Initialize_zones [OF example_zones_address, of True mem_boot]
  by (auto simp: example_info_def example_entries [unfolded example_info_def])

theorem Mem_Initialize_protects_witness:
  "\<exists>m' st' out. Mem_Initialize X86_64 0x234567 (Some example_info) True (example_table, mem_boot) =
       ((m', st'), out) \<and> (\<forall>s \<in> set (free_slots st'). 0x236160 \<le> unat (slot_addr X86_64 st' s))"
  using Mem_Initialize_protects [OF example_zones_address _ _ example_good_map, of True mem_boot]
  by (auto simp: example_zones_memory kernel_last_def, auto simp: example_info_def)

end
