(* ===== verification/XEOS_MemProps.thy ===== *)
theory XEOS_MemProps
  imports XEOS_MemFree
begin

text \<open>
  The properties of the page allocator, each with an instance on a small concrete memory.
\<close>

section \<open>What the searches find\<close>

lemma find_run_hit:
  assumes "find_run n z is = Some (Some i)" "sorted_wrt (<) is"
  shows "i \<in> set is \<and> 0 < n \<and> run_free z i n \<and> (\<forall>j \<in> set is. run_free z j n \<longrightarrow> i \<le> j)"
  using assms by (induction "is") (auto split: if_splits)

lemma find_run_miss: "find_run n z is = Some None \<Longrightarrow> 0 < n \<Longrightarrow> j \<in> set is \<Longrightarrow> \<not> run_free z j n"
  by (induction "is") (auto split: if_splits)

lemma find_run_undef:
  "find_run n z is = None \<Longrightarrow> \<exists>i \<in> set is. overrun z i n"
  by (induction "is") (auto split: if_splits)

lemma run_free_in: "0 < n \<Longrightarrow> run_free z j n \<Longrightarrow> j \<in> set [0..<length (z_pages z)]"
  by (auto simp: run_free_def)

definition usable_run :: "mem_state \<Rightarrow> nat \<Rightarrow> nat \<Rightarrow> nat \<Rightarrow> bool" where
  "usable_run st k i n \<longleftrightarrow>
     k < length (mm_zones st) \<and> z_type (mm_zones st ! k) = MemoryEntryTypeUsable \<and>
     run_free (mm_zones st ! k) i n"

lemma find_run_zones_hit:
  assumes "find_run_zones n zs = Some (Some (k, i))"
  shows "0 < n \<and> k < length zs \<and> z_type (zs ! k) = MemoryEntryTypeUsable \<and> run_free (zs ! k) i n \<and>
    (\<forall>k' i'. k' < length zs \<longrightarrow> z_type (zs ! k') = MemoryEntryTypeUsable \<longrightarrow> run_free (zs ! k') i' n \<longrightarrow>
       k < k' \<or> k = k' \<and> i \<le> i')"
  using assms
proof (induction zs arbitrary: k)
  case (Cons z zs)
  let ?is = "[0..<length (z_pages z)]"
  have sw: "sorted_wrt (<) ?is" by simp
  have rec: ?case
    if zs: "find_run_zones n zs = Some (Some (k - 1, i))" and "0 < k"
      and none: "z_type z = MemoryEntryTypeUsable \<Longrightarrow> find_run n z ?is = Some None"
  proof -
    note IH = Cons.IH [OF zs]
    have "\<not> run_free z i' n" if "z_type z = MemoryEntryTypeUsable" for i'
      using find_run_miss [OF none [OF that], of i'] run_free_in [of n z i'] IH by blast
    moreover obtain k0 where "k = Suc k0" using \<open>0 < k\<close> gr0_conv_Suc by blast
    ultimately show ?thesis using IH by (auto simp: less_Suc_eq_0_disj)
  qed
  show ?case
  proof (cases "z_type z = MemoryEntryTypeUsable")
    case False
    then show ?thesis using Cons.prems by (intro rec) auto
  next
    case True
    consider j where "find_run n z ?is = Some (Some j)" | "find_run n z ?is = Some None"
      using Cons.prems True by (auto split: option.splits)
    then show ?thesis
    proof cases
      case 1
      then have "k = 0" "i = j" using Cons.prems True by auto
      then show ?thesis
        using True find_run_hit [OF 1 sw] run_free_in [of n z]
        by (auto simp: nth_Cons' split: if_splits)
    next
      case 2
      then show ?thesis using Cons.prems True by (intro rec) auto
    qed
  qed
qed simp

lemma find_run_zones_miss:
  "find_run_zones n zs = Some None \<Longrightarrow> 0 < n \<Longrightarrow> k < length zs \<Longrightarrow>
   z_type (zs ! k) = MemoryEntryTypeUsable \<Longrightarrow> \<not> run_free (zs ! k) i n"
proof (induction zs arbitrary: k)
  case (Cons z zs)
  then show ?case
    using find_run_miss [of n z "[0..<length (z_pages z)]" i] run_free_in [of n z i]
    by (cases k) (auto split: if_splits option.splits)
qed simp

lemma find_run_zones_undef:
  "find_run_zones n zs = None \<Longrightarrow>
   \<exists>z \<in> set zs. z_type z = MemoryEntryTypeUsable \<and> (\<exists>i. overrun z i n)"
proof (induction zs)
  case (Cons z zs)
  then show ?case
    using find_run_undef [of n z "[0..<length (z_pages z)]"]
    by (auto split: if_splits option.splits)
qed simp

text \<open>
  The page at which the search ends: the first page of a run, or a page from which on all pages up to
  the end of the page map are free but fewer than n.
\<close>

definition zone_stop :: "nat \<Rightarrow> zone \<Rightarrow> nat \<Rightarrow> bool" where
  "zone_stop n z i \<longleftrightarrow> overrun z i n \<or> 0 < n \<and> run_free z i n"

lemma zone_stop_in: "zone_stop n z i \<Longrightarrow> i < length (z_pages z)"
  by (auto simp: zone_stop_def overrun_def run_free_def)

lemma find_run_find: "find_run n z is =
  (case find (zone_stop n z) is of None \<Rightarrow> Some None | Some i \<Rightarrow> if overrun z i n then None else Some (Some i))"
proof (induction "is")
  case (Cons i js)
  have "overrun z i n \<Longrightarrow> z_pages z ! i = 1" by (simp add: overrun_def)
  then show ?case using Cons by (auto simp: zone_stop_def)
qed simp

lemma find_upt:
  "find P [0..<m] = None \<longleftrightarrow> (\<forall>i<m. \<not> P i)"
  "find P [0..<m] = Some i \<longleftrightarrow> i < m \<and> P i \<and> (\<forall>j<i. \<not> P j)"
  by (auto simp: find_None_iff find_Some_iff)

definition stops :: "nat \<Rightarrow> zone list \<Rightarrow> nat \<Rightarrow> nat \<Rightarrow> bool" where
  "stops n zs k i \<longleftrightarrow> k < length zs \<and> z_type (zs ! k) = MemoryEntryTypeUsable \<and> zone_stop n (zs ! k) i"

definition first_stop :: "nat \<Rightarrow> zone list \<Rightarrow> nat \<Rightarrow> nat \<Rightarrow> bool" where
  "first_stop n zs k i \<longleftrightarrow> stops n zs k i \<and> (\<forall>k' i'. stops n zs k' i' \<longrightarrow> k < k' \<or> k = k' \<and> i \<le> i')"

lemma stops_Cons:
  "stops n (z # zs) 0 i = (z_type z = MemoryEntryTypeUsable \<and> zone_stop n z i)"
  "stops n (z # zs) (Suc k) i = stops n zs k i"
  by (simp_all add: stops_def)

lemma first_stop_here:
  assumes "z_type z = MemoryEntryTypeUsable" "find (zone_stop n z) [0..<length (z_pages z)] = Some i"
  shows "first_stop n (z # zs) 0 i"
proof -
  have i: "zone_stop n z i" "\<forall>j<i. \<not> zone_stop n z j" using assms(2) by (simp_all add: find_upt)
  have "0 < k' \<or> i \<le> i'" if "stops n (z # zs) k' i'" for k' i'
    using that i(2) by (cases k') (auto simp: stops_Cons not_less)
  then show ?thesis using i(1) assms(1) by (auto simp: first_stop_def stops_Cons)
qed

lemma first_stop_later:
  assumes "\<forall>i. \<not> stops n (z # zs) 0 i"
  shows "first_stop n (z # zs) (Suc k) i = first_stop n zs k i"
proof -
  have "(\<forall>k' i'. stops n (z # zs) k' i' \<longrightarrow> Suc k < k' \<or> Suc k = k' \<and> i \<le> i') =
      (\<forall>k' i'. stops n zs k' i' \<longrightarrow> k < k' \<or> k = k' \<and> i \<le> i')" (is "?L = ?R")
  proof
    assume ?L
    then show ?R using stops_Cons(2) by fastforce
  next
    assume R: ?R
    show ?L
    proof (intro allI impI)
      fix k' i' assume "stops n (z # zs) k' i'"
      then show "Suc k < k' \<or> Suc k = k' \<and> i \<le> i'"
        using R assms by (cases k') (auto simp: stops_Cons)
    qed
  qed
  then show ?thesis by (simp add: first_stop_def stops_Cons)
qed

lemma first_stop_unique: "first_stop n zs k i \<Longrightarrow> first_stop n zs k' i' \<Longrightarrow> k = k' \<and> i = i'"
proof -
  assume "first_stop n zs k i" "first_stop n zs k' i'"
  then have "k < k' \<or> k = k' \<and> i \<le> i'" "k' < k \<or> k' = k \<and> i' \<le> i" by (simp_all add: first_stop_def)
  then show ?thesis by auto
qed

lemma find_run_zones_stop:
  "find_run_zones n zs = Some None \<and> (\<forall>k i. \<not> stops n zs k i) \<or>
   (\<exists>k i. first_stop n zs k i \<and> find_run_zones n zs = (if overrun (zs ! k) i n then None else Some (Some (k, i))))"
proof (induction zs)
  case (Cons z zs)
  show ?case
  proof (cases "z_type z = MemoryEntryTypeUsable \<and> find (zone_stop n z) [0..<length (z_pages z)] \<noteq> None")
    case True
    then obtain i where i: "find (zone_stop n z) [0..<length (z_pages z)] = Some i" by auto
    have "find_run_zones n (z # zs) = (if overrun z i n then None else Some (Some (0, i)))"
      using True i by (simp add: find_run_find)
    then show ?thesis using first_stop_here [of z n i zs] True i by (intro disjI2 exI [of _ 0] exI [of _ i]) simp
  next
    case False
    have here: "\<forall>i. \<not> stops n (z # zs) 0 i"
    proof
      fix i
      show "\<not> stops n (z # zs) 0 i"
        using False zone_stop_in [of n z i] by (auto simp: stops_Cons find_upt)
    qed
    have eq: "find_run_zones n (z # zs) = map_option (map_option (apfst Suc)) (find_run_zones n zs)"
      using False by (auto simp: find_run_find)
    from Cons show ?thesis
    proof (elim disjE conjE exE)
      assume "find_run_zones n zs = Some None" "\<forall>k i. \<not> stops n zs k i"
      moreover have "\<not> stops n (z # zs) k i" for k i
        using here calculation(2) by (cases k) (auto simp: stops_Cons)
      ultimately show ?thesis unfolding eq by simp
    next
      fix k i assume "first_stop n zs k i" "find_run_zones n zs = (if overrun (zs ! k) i n then None else Some (Some (k, i)))"
      then show ?thesis
        unfolding eq using first_stop_later [OF here, of k i] by (intro disjI2 exI [of _ "Suc k"] exI [of _ i]) simp
    qed
  qed
qed (simp add: stops_def)

lemma find_run_zones_0: "find_run_zones 0 zs = Some None"
proof (induction zs)
  case (Cons z zs)
  have "find_run 0 z is = Some None" for "is" by (induction "is") (auto simp: overrun_def)
  then show ?case using Cons by simp
qed simp

lemma count_set_range_0:
  assumes "i + n \<le> length ps" "\<forall>j \<in> {i..<i + n}. ps ! j = 1"
  shows "count_list (set_range 0 i n ps) 1 + n = count_list ps 1"
  using assms
proof (induction n)
  case (Suc n)
  have "set_range 0 i n ps ! (i + n) = 1" using Suc.prems by (simp add: nth_set_range)
  then show ?case
    using Suc count_list_update [of "i + n" "set_range 0 i n ps" 0 1] by (simp add: set_range_Suc)
qed simp

lemma set_range_values: "set ps \<subseteq> {0, 1} \<Longrightarrow> set (set_range 0 i n ps) \<subseteq> {0, 1}"
proof
  fix x assume ps: "set ps \<subseteq> {0, 1}" and "x \<in> set (set_range 0 i n ps)"
  then obtain k where "k < length ps" "x = 0 \<or> x = ps ! k" by (auto simp: set_range_def split: if_splits)
  then show "x \<in> {0, 1}" using ps nth_mem [of k ps] by blast
qed

lemma zone_ok_use_run:
  assumes "zone_ok A z" "run_free z i n"
  shows "zone_ok A (use_run z i n)"
proof -
  have cnt: "count_list (set_range 0 i n (z_pages z)) 1 + n = count_list (z_pages z) 1"
    using assms(2) by (intro count_set_range_0) (auto simp: run_free_def)
  then have "n \<le> unat (z_freePageCount z)" using assms(1) by (simp add: zone_ok_def)
  moreover from this have "unat (of_nat n :: u64) = n"
    using unat_u64 [of "z_freePageCount z"] by (intro unat_of_nat_u64) simp
  ultimately have "unat (z_freePageCount z - of_nat n) = unat (z_freePageCount z) - n"
    by (simp add: unat_sub word_le_nat_alt)
  moreover have "set (set_range 0 i n (z_pages z)) \<subseteq> {0, 1}"
    using assms(1) by (intro set_range_values) (simp add: zone_ok_def)
  ultimately show ?thesis
    using assms(1) cnt by (simp add: zone_ok_def use_run_def)
qed


section \<open>A small memory\<close>

text \<open>Two usable zones: four pages at 1 MB, of which the middle two are free, and two at 2 MB.\<close>

definition example_mem :: mem_state where
  "example_mem =
     \<lparr> mm_zones =
         [\<lparr> z_self = 0x200000, z_type = 1, z_base = 0x100000, z_length = 0x4000,
            z_pageCount = 4, z_freePageCount = 2, z_pages = [0, 1, 1, 0] \<rparr>,
          \<lparr> z_self = 0x200034, z_type = 1, z_base = 0x300000, z_length = 0x2000,
            z_pageCount = 2, z_freePageCount = 1, z_pages = [1, 0] \<rparr>],
       mm_count = 2 \<rparr>"

lemma example_mem_ok: "mem_ok X86_64 example_mem"
  by (simp add: mem_ok_def example_mem_def zone_ok_def)

lemma example_mem_geom: "mem_geom X86_64 example_mem"
  by (simp add: mem_geom_def example_mem_def zone_geom_def separated_def zone_end_def ptr_bits_def)

lemma example_mem_slots: "free_slots example_mem = [(0, 1), (0, 2), (1, 0)]"
  by (simp add: free_slots_def example_mem_def zone_slots_def MemoryEntryTypeUsable_def upt_rec)

lemma example_mem_base [simp]:
  "z_base (mm_zones example_mem ! 0) = 0x100000" "z_base (mm_zones example_mem ! Suc 0) = 0x300000"
  by (simp_all add: example_mem_def)

lemma example_mem_addrs: "free_addrs X86_64 example_mem = [0x101000, 0x102000, 0x300000]"
  by (simp add: free_addrs_def example_mem_slots slot_addr_def page_addr_def)

lemma example_mem_pool: "pool_ok X86_64 example_mem"
  using example_mem_ok by (simp add: pool_ok_def example_mem_addrs)

text \<open>Two zones of two pages, the second one at the end of the first.\<close>

definition example_low :: zone where
  "example_low = \<lparr> z_self = 0x400000, z_type = 1, z_base = 0x100000, z_length = 0x2000,
     z_pageCount = 2, z_freePageCount = 0, z_pages = [0, 0] \<rparr>"

definition example_high :: zone where
  "example_high = \<lparr> z_self = 0x400032, z_type = 1, z_base = 0x102000, z_length = 0x2000,
     z_pageCount = 2, z_freePageCount = 1, z_pages = [0, 1] \<rparr>"

lemma slots_same:
  "zone_slots z = zone_slots (zs ! k) \<Longrightarrow> k < length zs \<Longrightarrow> slots (zs[k := z]) = slots zs"
proof (induction zs arbitrary: k)
  case (Cons z' zs)
  then show ?case by (cases k) simp_all
qed simp

lemma release_free_page:
  assumes "i < length (z_pages z)" "z_pages z ! i = 1"
  shows "release_run z i 1 = free_inc z"
proof -
  have "(z_pages z)[i := 1] = z_pages z" using assms by (metis list_update_id)
  then show ?thesis
    using set_range_Suc [of 1 i 0 "z_pages z"] by (simp add: release_run_def free_inc_def)
qed

lemma mem_geom_update:
  assumes "mem_geom A st" "k < length (mm_zones st)"
    and "z_base z = z_base (mm_zones st ! k)" "z_length z = z_length (mm_zones st ! k)"
    and "length (z_pages z) = length (z_pages (mm_zones st ! k))"
  shows "mem_geom A (st\<lparr>mm_zones := (mm_zones st)[k := z]\<rparr>)"
proof -
  have "zone_geom A (mm_zones st ! k)" using assms(1,2) by (simp add: mem_geom_def)
  then have "zone_geom A z" using assms(3-) by (simp add: zone_geom_def)
  then have "\<forall>z' \<in> set ((mm_zones st)[k := z]). zone_geom A z'"
    using assms(1) set_update_subset_insert [of "mm_zones st" k z] by (auto simp: mem_geom_def)
  moreover have "separated ((mm_zones st)[k := z])"
    using assms by (auto simp: mem_geom_def separated_def sorted_wrt_iff_nth_less zone_end_def nth_list_update)
  ultimately show ?thesis by (simp add: mem_geom_def)
qed

lemma AllocPages_result:
  assumes "mem_ok A st" "AllocPages A n st = Some (st', a)"
  obtains "find_run_zones (unat n) (mm_zones st) = Some None" "a = 0" "st' = st"
  | k i where "find_run_zones (unat n) (mm_zones st) = Some (Some (k, i))"
      "usable_run st k i (unat n)" "0 < n" "a = slot_addr A st (k, i)"
      "st' = use_slots st (k, i) (unat n)" "mem_ok A st'"
proof -
  obtain r where r: "find_run_zones (unat n) (mm_zones st) = Some r"
    using assms by (auto simp: AllocPages_eq)
  show ?thesis
  proof (cases r)
    case None
    then show ?thesis using that(1) r assms by (simp add: AllocPages_eq)
  next
    case (Some s)
    obtain k i where s: "s = (k, i)" by (cases s)
    have eqs: "st' = use_slots st (k, i) (unat n)" "a = slot_addr A st (k, i)"
      using r s Some assms by (auto simp: AllocPages_eq)
    have hit: "0 < n" "usable_run st k i (unat n)"
      using find_run_zones_hit [of "unat n" "mm_zones st" k i] r s Some
      by (auto simp: usable_run_def word_less_nat_alt)
    then have "zone_ok A (use_run (mm_zones st ! k) i (unat n))"
      using assms(1) by (intro zone_ok_use_run) (auto simp: mem_ok_def usable_run_def)
    then have "mem_ok A st'"
      using assms(1) by (auto simp: eqs mem_ok_def use_slots_def
          dest!: set_update_subset_insert [THEN subsetD])
    then show ?thesis using that(2) eqs hit r s Some by blast
  qed
qed


section \<open>Properties\<close>

text \<open>
  C1. XEOS_Mem_AllocPage: in a consistent memory it is always defined, keeps the memory consistent,
  returns the address of the first free page of the usable zones (NULL and no change when there
  is none) and removes exactly this page from the free pages.
\<close>

theorem AllocPage_takes_first_free:
  assumes "mem_ok A st"
  shows "\<exists>st' a. AllocPage A st = Some (st', a) \<and> mem_ok A st' \<and>
           free_slots st' = tl (free_slots st) \<and>
           (if free_slots st = [] then a = 0 \<and> st' = st
            else a = slot_addr A st (hd (free_slots st)))"
proof (cases "free_slots st")
  case Nil
  then show ?thesis using assms by (simp add: AllocPage_eq)
next
  case (Cons s ss)
  then show ?thesis using assms by (simp add: AllocPage_eq mem_ok_use free_slots_use)
qed

theorem AllocPage_takes_first_free_witness:
  "\<exists>st' a. AllocPage X86_64 example_mem = Some (st', a) \<and> mem_ok X86_64 st' \<and>
     free_slots st' = [(0, 2), (1, 0)] \<and> a = 0x101000"
  using AllocPage_takes_first_free [OF example_mem_ok]
  by (simp add: example_mem_slots slot_addr_def page_addr_def)

text \<open>
  C17. Any number of successive calls of XEOS_Mem_AllocPage hands out pairwise distinct page
  addresses, in the order of the zones, and NULL once all free pages are gone.
\<close>

theorem AllocPage_many_distinct:
  assumes "pool_ok A st" "mem_geom A st"
  shows "\<exists>st'. pages.get_many A n st =
            Some (st', map Some (take n (free_addrs A st)) @ replicate (n - length (free_addrs A st)) None) \<and>
          pool_ok A st' \<and> free_addrs A st' = drop n (free_addrs A st) \<and>
          distinct (take n (free_addrs A st)) \<and>
          (\<forall>a \<in> set (take n (free_addrs A st)). a AND 0xFFF = 0)"
proof -
  have "s AND 0xFFF = 0" if "s \<in> set (free_addrs A st)" for s
    using that assms(2) page_addr_aligned
    by (auto simp: free_addrs_def free_slots_def slots_iff slot_addr_def mem_geom_def)
  then show ?thesis
    using pages.get_many_avail [OF assms(1), of n] distinct_free_addrs [OF assms(2)]
    by (auto dest: in_set_takeD)
qed

theorem AllocPage_many_distinct_witness:
  "\<exists>st'. pages.get_many X86_64 4 example_mem =
     Some (st', [Some 0x101000, Some 0x102000, Some 0x300000, None])"
  using AllocPage_many_distinct [OF example_mem_pool example_mem_geom, of 4]
  by (auto simp: example_mem_addrs)

text \<open>
  C2. XEOS_Mem_AllocPages, in every well-formed memory, looks for the first page, in the order of the
  zones and pages, at which a run of n free pages of a usable zone starts, or from which on all pages
  of the zone are free but fewer than n.  In the first case it gives the address of the run and
  exactly these pages become used.  In the second it reads behind the page map (its result is not
  defined): the inner loop has no bound check.  If there is no such page it gives NULL and the memory
  is unchanged: every page taken on the way was given back.
\<close>

theorem AllocPages_first_run:
  assumes "mem_ok A st"
  shows "(\<forall>k i. \<not> stops (unat n) (mm_zones st) k i) \<and> AllocPages A n st = Some (st, 0) \<or>
    (\<exists>k i. first_stop (unat n) (mm_zones st) k i \<and>
       (if overrun (mm_zones st ! k) i (unat n) then AllocPages A n st = None
        else 0 < n \<and> usable_run st k i (unat n) \<and>
          AllocPages A n st = Some (use_slots st (k, i) (unat n), slot_addr A st (k, i)) \<and>
          mem_ok A (use_slots st (k, i) (unat n))))"
  using find_run_zones_stop [of "unat n" "mm_zones st"]
proof (elim disjE conjE exE)
  assume "find_run_zones (unat n) (mm_zones st) = Some None" "\<forall>k i. \<not> stops (unat n) (mm_zones st) k i"
  then show ?thesis using AllocPages_eq [OF assms, of n] by simp
next
  fix k i assume stop: "first_stop (unat n) (mm_zones st) k i"
    and eq: "find_run_zones (unat n) (mm_zones st) = (if overrun (mm_zones st ! k) i (unat n) then None else Some (Some (k, i)))"
  show ?thesis
  proof (cases "overrun (mm_zones st ! k) i (unat n)")
    case True
    then show ?thesis using stop eq AllocPages_eq [OF assms, of n] by (intro disjI2 exI [of _ k] exI [of _ i]) simp
  next
    case False
    then have "AllocPages A n st = Some (use_slots st (k, i) (unat n), slot_addr A st (k, i))"
      using eq AllocPages_eq [OF assms, of n] by simp
    from assms this have "0 < n \<and> usable_run st k i (unat n) \<and> mem_ok A (use_slots st (k, i) (unat n))"
      by (cases rule: AllocPages_result) (use eq False in auto)
    then show ?thesis
      using stop False \<open>AllocPages A n st = _\<close> by (intro disjI2 exI [of _ k] exI [of _ i]) simp
  qed
qed

theorem AllocPages_first_run_witness:
  "AllocPages X86_64 2 example_mem = Some (use_slots example_mem (0, 1) 2, 0x101000)"
proof -
  have "stops (unat (2 :: u32)) (mm_zones example_mem) 0 1"
    by (simp add: stops_def zone_stop_def run_free_def example_mem_def MemoryEntryTypeUsable_def atLeastLessThan_upt upt_rec)
  moreover have "\<not> stops (unat (2 :: u32)) (mm_zones example_mem) 0 0"
    by (simp add: stops_def zone_stop_def run_free_def overrun_def example_mem_def atLeastLessThan_upt upt_rec)
  ultimately have stop: "first_stop (unat (2 :: u32)) (mm_zones example_mem) 0 1"
    unfolding first_stop_def by (metis One_nat_def Suc_leI gr0I)
  have o: "\<not> overrun (mm_zones example_mem ! 0) 1 (unat (2 :: u32))" by (simp add: example_mem_def overrun_def)
  show ?thesis
    using AllocPages_first_run [of X86_64 example_mem 2, OF example_mem_ok]
  proof (elim disjE exE conjE)
    fix k i assume "first_stop (unat (2 :: u32)) (mm_zones example_mem) k i"
    from first_stop_unique [OF stop this] have "k = 0" "i = 1" by simp_all
    moreover assume "if overrun (mm_zones example_mem ! k) i (unat (2 :: u32)) then AllocPages X86_64 2 example_mem = None
      else 0 < (2 :: u32) \<and> usable_run example_mem k i (unat (2 :: u32)) \<and> AllocPages X86_64 2 example_mem =
        Some (use_slots example_mem (k, i) (unat (2 :: u32)), slot_addr X86_64 example_mem (k, i)) \<and>
        mem_ok X86_64 (use_slots example_mem (k, i) (unat (2 :: u32)))"
    ultimately show ?thesis using o by (simp add: slot_addr_def page_addr_def)
  qed (use stop in \<open>auto simp: first_stop_def\<close>)
qed

text \<open>
  XEOS_Mem_AllocPages never reads behind a page map, so that it always returns, when the last
  page of every usable zone is in use.
\<close>

theorem AllocPages_defined:
  assumes "mem_ok A st"
    and "\<forall>z \<in> set (mm_zones st). z_type z = MemoryEntryTypeUsable \<longrightarrow> z_pages z \<noteq> [] \<longrightarrow> last (z_pages z) \<noteq> 1"
  shows "AllocPages A n st \<noteq> None"
proof
  assume "AllocPages A n st = None"
  then have "find_run_zones (unat n) (mm_zones st) = None" using assms(1) by (auto simp: AllocPages_eq)
  then obtain z i where z: "z \<in> set (mm_zones st)" "z_type z = MemoryEntryTypeUsable"
    and o: "overrun z i (unat n)" using find_run_zones_undef by blast
  then have len: "i \<le> length (z_pages z) - 1" "length (z_pages z) - 1 < length (z_pages z)"
    by (auto simp: overrun_def)
  then have "z_pages z ! (length (z_pages z) - 1) = 1"
    using o by (simp only: overrun_def atLeastLessThan_iff)
  moreover have "z_pages z \<noteq> []" using len by auto
  ultimately show False using assms(2) z by (auto simp: last_conv_nth)
qed

theorem AllocPages_defined_witness: "AllocPages X86_64 3 example_mem \<noteq> None"
  by (rule AllocPages_defined [OF example_mem_ok]) (simp add: example_mem_def)

text \<open>
  A usable zone in which only the last page is free makes XEOS_Mem_AllocPages read behind the
  page map for every n > 1: the inner loop has no bound check.
\<close>

theorem AllocPages_reads_behind_map:
  assumes "mem_ok A st" "mm_zones st = z # zs" "z_type z = MemoryEntryTypeUsable"
    and "z_pages z = replicate m 0 @ [1]" "1 < n"
  shows "AllocPages A n st = None"
proof -
  have pre: "find_run (unat n) z (is @ [m]) = None" if "set is \<subseteq> {..<m}" for "is"
    using that assms(4,5)
    by (induction "is") (auto simp: overrun_def run_free_def nth_append word_less_nat_alt)
  have "find_run (unat n) z [0..<length (z_pages z)] = None"
    using pre [of "[0..<m]"] assms(4) by (simp add: subset_eq)
  then show ?thesis using assms by (simp add: AllocPages_eq)
qed

theorem AllocPages_reads_behind_map_witness:
  "AllocPages X86_64 2 \<lparr> mm_zones = [example_high], mm_count = 1 \<rparr> = None"
  using AllocPages_reads_behind_map [of X86_64 "\<lparr> mm_zones = [example_high], mm_count = 1 \<rparr>"
      example_high "[]" 1 2]
  by (simp add: example_high_def mem_ok_def zone_ok_def MemoryEntryTypeUsable_def)

text \<open>
  C16. XEOS_Mem_FreePages undoes XEOS_Mem_AllocPages: in a memory whose zones are page aligned and
  separated, freeing the pages at the returned address gives the memory before the allocation.
\<close>

theorem AllocPages_FreePages:
  assumes "mem_ok A st" "mem_geom A st" "AllocPages A n st = Some (st', a)" "a \<noteq> 0"
  shows "FreePages st' a n = Some st"
proof -
  obtain k i where u: "usable_run st k i (unat n)" and n: "0 < n"
    and a: "a = slot_addr A st (k, i)" and st': "st' = use_slots st (k, i) (unat n)"
    and ok: "mem_ok A st'"
    using assms(1,3)
  proof (cases rule: AllocPages_result)
    case 1
    then show ?thesis using assms(4) by simp
  qed
  let ?z = "mm_zones st ! k"
  have k: "k < length (mm_zones st)" and rf: "run_free ?z i (unat n)"
    using u by (simp_all add: usable_run_def)
  have geom: "mem_geom A st'"
    unfolding st' use_slots_def using assms(2) k by (simp add: use_run_def mem_geom_update)
  have k': "mm_zones st' ! k = use_run ?z i (unat n)" "k < length (mm_zones st')"
    using k st' by (simp_all add: use_slots_def)
  have "slot_addr A st' (k, i) = a"
    using a k' by (simp add: slot_addr_def page_addr_def use_run_def)
  moreover have "FreePages st' (slot_addr A st' (k, i)) n = Some (release_slots st' (k, i) (unat n))"
    using ok geom k' rf n
    by (intro FreePages_eq) (auto simp: use_run_def run_free_def word_less_nat_alt)
  moreover have "release_slots st' (k, i) (unat n) = st"
    using st' k release_use_run [OF rf] by (simp add: release_slots_def use_slots_def)
  ultimately show ?thesis by simp
qed

theorem AllocPages_FreePages_witness:
  "\<exists>st'. AllocPages X86_64 2 example_mem = Some (st', 0x101000) \<and> FreePages st' 0x101000 2 = Some example_mem"
proof -
  have "find_run_zones (unat (2 :: u32)) (mm_zones example_mem) = Some (Some (0, 1))"
    by (simp add: example_mem_def MemoryEntryTypeUsable_def upt_rec overrun_def run_free_def atLeastLessThan_upt)
  then have "AllocPages X86_64 2 example_mem = Some (use_slots example_mem (0, 1) 2, 0x101000)"
    by (simp add: AllocPages_eq example_mem_ok slot_addr_def page_addr_def)
  from this AllocPages_FreePages [OF example_mem_ok example_mem_geom this] show ?thesis by simp
qed

text \<open>
  C36. XEOS_Mem_FreePage gives a page at the start of a zone to the zone that ends at this address:
  its test is page > base + length, so that the page index is the page count of the earlier zone and
  the write lands behind its page map.
\<close>

theorem FreePage_adjacent_zone:
  assumes "mem_ok A st" "mm_zones st = z # z' # zs" "zone_geom A z" "zone_geom A z'"
    and "unat (z_base z') = zone_end z" "length (z_pages z) * 4096 = unat (z_length z)"
  shows "FreePage st (z_base z') = None"
proof -
  have al: "z_base z' AND 0xFFF = 0" using assms(4) by (simp add: aligned_and zone_geom_def)
  have "\<not> z_base z' > z_base z + z_length z"
    using assms(5) unat_zone_end [OF assms(3)] by (simp add: word_less_nat_alt)
  moreover have "z_base z' = page_addr A z (length (z_pages z))"
    using assms(5,6) unat_page_addr [OF assms(3), of "length (z_pages z)"]
    by (simp add: word_unat_eq_iff zone_end_def)
  then have "unat ((z_base z' - z_base z) div 0x1000) = length (z_pages z)"
    using page_index [OF assms(3), of "length (z_pages z)"] by simp
  ultimately show ?thesis
    using al assms(1,2) by (simp add: FreePage_def chain_ok page_put_def)
qed

theorem FreePage_adjacent_zone_witness:
  "FreePage \<lparr> mm_zones = [example_low, example_high], mm_count = 2 \<rparr> 0x102000 = None"
  using FreePage_adjacent_zone [of X86_64 "\<lparr> mm_zones = [example_low, example_high], mm_count = 2 \<rparr>"
      example_low example_high "[]"]
  by (simp add: example_low_def example_high_def mem_ok_def zone_ok_def zone_geom_def zone_end_def
      ptr_bits_def)

text \<open>
  Freeing a page that is already free is not detected: the page map does not change and the
  free page counter of the zone goes up by one, so that the memory is no longer consistent.
\<close>

theorem FreePage_double_free:
  assumes "mem_ok A st" "mem_geom A st" "s \<in> set (free_slots st)"
  shows "\<exists>st'. FreePage st (slot_addr A st s) = Some st' \<and> free_slots st' = free_slots st \<and>
           z_freePageCount (mm_zones st' ! fst s) = z_freePageCount (mm_zones st ! fst s) + 1 \<and>
           \<not> mem_ok A st'"
proof -
  obtain k i where s: "s = (k, i)" by (cases s)
  let ?z = "mm_zones st ! k"
  have k: "k < length (mm_zones st)" "i < length (z_pages ?z)" "z_pages ?z ! i = 1"
    using assms(3) s by (auto simp: free_slots_def slots_iff)
  let ?st' = "st\<lparr>mm_zones := (mm_zones st)[k := free_inc ?z]\<rparr>"
  have free: "FreePage st (slot_addr A st s) = Some ?st'"
    using FreePages_eq [of A st k i 1] assms k s release_free_page [of i ?z]
    by (simp add: FreePage_1 release_slots_def)
  have "zone_slots (free_inc ?z) = zone_slots ?z" by (simp add: zone_slots_def free_inc_def)
  then have fs: "free_slots ?st' = free_slots st" using k slots_same by (simp add: free_slots_def)
  have "\<not> mem_ok A ?st'"
  proof
    assume "mem_ok A ?st'"
    then have "zone_ok A (free_inc ?z)" using k set_update_memI by (force simp: mem_ok_def)
    moreover have "zone_ok A ?z" using assms(1) k by (simp add: mem_ok_def)
    ultimately have "unat (z_freePageCount ?z + 1) = unat (z_freePageCount ?z)"
      by (simp add: zone_ok_def free_inc_def)
    then show False by (simp add: word_unat_eq_iff [symmetric])
  qed
  then show ?thesis using free fs k s by (auto simp: free_inc_def)
qed

theorem FreePage_double_free_witness:
  "\<exists>st'. FreePage example_mem (slot_addr X86_64 example_mem (0, 1)) = Some st' \<and>
     free_slots st' = free_slots example_mem \<and> \<not> mem_ok X86_64 st'"
  using FreePage_double_free [OF example_mem_ok example_mem_geom, of "(0, 1)"]
  by (auto simp: example_mem_slots)

end
