(* ===== verification/XEOS_CPU.thy ===== *)
theory XEOS_CPU
  imports XEOS_Base
begin

text \<open>
  The control registers of the processor and the operations on them (source/core/xeos/hal/cpu).
  The accessors of the registers are one instruction each; the operations that switch paging and
  physical address extension on and off are C code over them.
\<close>

record cpu =
  cr0 :: u32
  cr3 :: u32
  cr4 :: u32

definition CPU_GetCR0 :: "cpu \<Rightarrow> u32" where "CPU_GetCR0 c = cr0 c"
definition CPU_GetCR3 :: "cpu \<Rightarrow> u32" where "CPU_GetCR3 c = cr3 c"
definition CPU_GetCR4 :: "cpu \<Rightarrow> u32" where "CPU_GetCR4 c = cr4 c"
definition CPU_SetCR0 :: "u32 \<Rightarrow> cpu \<Rightarrow> cpu" where "CPU_SetCR0 v c = c\<lparr>cr0 := v\<rparr>"
definition CPU_SetCR3 :: "u32 \<Rightarrow> cpu \<Rightarrow> cpu" where "CPU_SetCR3 v c = c\<lparr>cr3 := v\<rparr>"
definition CPU_SetCR4 :: "u32 \<Rightarrow> cpu \<Rightarrow> cpu" where "CPU_SetCR4 v c = c\<lparr>cr4 := v\<rparr>"

definition CPU_EnablePaging :: "cpu \<Rightarrow> cpu" where
  "CPU_EnablePaging c =
     (let v = (ucast (CPU_GetCR0 c) :: u64) AND 0x00000000FFFFFFFF
      in CPU_SetCR0 (ucast (v OR push_bit 31 1)) c)"

definition CPU_DisablePaging :: "cpu \<Rightarrow> cpu" where
  "CPU_DisablePaging c =
     (let v = (ucast (CPU_GetCR0 c) :: u64) AND 0x00000000FFFFFFFF
      in CPU_SetCR0 (ucast (v AND NOT (push_bit 31 1))) c)"

definition CPU_PagingEnabled :: "cpu \<Rightarrow> bool" where
  "CPU_PagingEnabled c =
     (let v = (ucast (CPU_GetCR0 c) :: u64) AND 0x00000000FFFFFFFF
      in (v AND push_bit 31 1) \<noteq> 0)"

definition CPU_EnablePAE :: "cpu \<Rightarrow> cpu" where
  "CPU_EnablePAE c =
     (let v = (ucast (CPU_GetCR4 c) :: u64) AND 0x00000000FFFFFFFF
      in CPU_SetCR4 (ucast (v OR push_bit 5 1)) c)"

definition CPU_DisablePAE :: "cpu \<Rightarrow> cpu" where
  "CPU_DisablePAE c =
     (let v = (ucast (CPU_GetCR4 c) :: u64) AND 0x00000000FFFFFFFF
      in CPU_SetCR4 (ucast (v AND NOT (push_bit 5 1))) c)"

definition CPU_PAEEnabled :: "cpu \<Rightarrow> bool" where
  "CPU_PAEEnabled c =
     (let v = (ucast (CPU_GetCR4 c) :: u64) AND 0x00000000FFFFFFFF
      in (v AND push_bit 5 1) \<noteq> 0)"


section \<open>Switching\<close>

lemma mask32_ucast: "(ucast (v :: u32) :: u64) AND 0xFFFFFFFF = ucast v"
  by (rule bit_word_eqI) (auto simp: bit_simps mask32_eq dest: bit_imp_le_length)

lemma ucast32_ucast64 [simp]: "ucast (ucast (v :: u32) :: u64) = v"
  by (rule bit_word_eqI) (auto simp: bit_simps)

lemma and_push_bit_iff: "(x :: u64) AND push_bit n 1 \<noteq> 0 \<longleftrightarrow> bit x n"
proof -
  have "x AND push_bit n 1 = (if bit x n then push_bit n 1 else 0)"
    by (rule bit_word_eqI) (auto simp: bit_simps)
  moreover have "n < 64" if "bit x n" using that bit_imp_le_length by fastforce
  ultimately show ?thesis by (auto simp: bit_eq_iff bit_simps)
qed

lemma PagingEnabled_bit: "CPU_PagingEnabled c \<longleftrightarrow> bit (cr0 c) 31"
  unfolding CPU_PagingEnabled_def Let_def mask32_ucast and_push_bit_iff by (simp add: bit_simps CPU_GetCR0_def)

lemma PAEEnabled_bit: "CPU_PAEEnabled c \<longleftrightarrow> bit (cr4 c) 5"
  unfolding CPU_PAEEnabled_def Let_def mask32_ucast and_push_bit_iff by (simp add: bit_simps CPU_GetCR4_def)

lemma cpu_switches:
  "CPU_PagingEnabled (CPU_EnablePaging c)" "\<not> CPU_PagingEnabled (CPU_DisablePaging c)"
  "CPU_PAEEnabled (CPU_EnablePAE c)" "\<not> CPU_PAEEnabled (CPU_DisablePAE c)"
  by (simp_all add: PagingEnabled_bit PAEEnabled_bit CPU_EnablePaging_def CPU_DisablePaging_def
      CPU_EnablePAE_def CPU_DisablePAE_def CPU_SetCR0_def CPU_SetCR4_def bit_simps Let_def)

lemma cpu_switches_other [simp]:
  "cr3 (CPU_EnablePaging c) = cr3 c" "cr3 (CPU_DisablePaging c) = cr3 c"
  "cr4 (CPU_EnablePaging c) = cr4 c" "cr4 (CPU_DisablePaging c) = cr4 c"
  "cr0 (CPU_EnablePAE c) = cr0 c" "cr0 (CPU_DisablePAE c) = cr0 c"
  "cr3 (CPU_EnablePAE c) = cr3 c" "cr3 (CPU_DisablePAE c) = cr3 c"
  "cr0 (CPU_SetCR3 v c) = cr0 c" "cr4 (CPU_SetCR3 v c) = cr4 c" "cr3 (CPU_SetCR3 v c) = v"
  by (simp_all add: CPU_EnablePaging_def CPU_DisablePaging_def CPU_EnablePAE_def
      CPU_DisablePAE_def CPU_SetCR0_def CPU_SetCR4_def CPU_SetCR3_def Let_def)

end
