(* ===== verification/XEOS_VM.thy ===== *)
theory XEOS_VM
  imports XEOS_MemInit XEOS_CPU
begin

text \<open>
  Page tables and the system map (source/core/xeos/vm).

  The four levels of tables (PT, PDT, PDPT, PML4T) are 4096-byte areas of memory.  An entry is read
  and written through its address: as 64 bits on x86-64 and on i386 with physical address extension,
  as 32 bits on i386 without.  Null and misaligned references are ignored, as in the code.
\<close>

definition MapTypeUnknown :: u32 where "MapTypeUnknown = 0"
definition MapType32 :: u32 where "MapType32 = 1"
definition MapType32PAE :: u32 where "MapType32PAE = 2"
definition MapType64 :: u32 where "MapType64 = 3"

definition FlagPresent :: u32 where "FlagPresent = push_bit 0 1"
definition FlagWriteable :: u32 where "FlagWriteable = push_bit 1 1"

lemmas map_types = MapTypeUnknown_def MapType32_def MapType32PAE_def MapType64_def


section \<open>Access to an entry\<close>

definition ent_get :: "bool \<Rightarrow> bytes \<Rightarrow> u64 \<Rightarrow> u64" where
  "ent_get wide m obj = (if wide then rd64 m (unat obj) else ucast (rd32 m (unat obj)))"

definition ent_put :: "bool \<Rightarrow> u64 \<Rightarrow> u64 \<Rightarrow> bytes \<Rightarrow> bytes" where
  "ent_put wide obj v m = (if wide then wr64 m (unat obj) v else wr32 m (unat obj) (ucast v))"

definition ent_max :: "bool \<Rightarrow> u64" where
  "ent_max wide = (if wide then 0xFFFFFFFFFFFFFFFF else 0xFFFFFFFF)"

definition ent_wide :: "arch \<Rightarrow> cpu \<Rightarrow> bool" where
  "ent_wide A c = (case A of X86_64 \<Rightarrow> True | I386 \<Rightarrow> CPU_PAEEnabled c)"

definition entry_clear :: "bool \<Rightarrow> u64 \<Rightarrow> bytes \<Rightarrow> bytes" where
  "entry_clear wide obj m = (if obj = 0 then m else ent_put wide obj 0 m)"

definition entry_get_flag :: "bool \<Rightarrow> u64 \<Rightarrow> u32 \<Rightarrow> bytes \<Rightarrow> bool" where
  "entry_get_flag wide obj flag m =
     (if obj = 0 then False else (ent_get wide m obj AND ucast flag) \<noteq> 0)"

definition entry_set_flag :: "bool \<Rightarrow> u64 \<Rightarrow> u32 \<Rightarrow> bool \<Rightarrow> bytes \<Rightarrow> bytes" where
  "entry_set_flag wide obj flag value m =
     (if obj = 0 then m
      else let m1 = ent_put wide obj (ent_get wide m obj AND (ent_max wide - ucast flag)) m
           in ent_put wide obj (ent_get wide m1 obj OR (if value then ucast flag else 0)) m1)"

definition entry_set_link :: "bool \<Rightarrow> u64 \<Rightarrow> u64 \<Rightarrow> bytes \<Rightarrow> bytes" where
  "entry_set_link wide obj address m =
     (if obj = 0 then m
      else if address AND 0xFFF \<noteq> 0 then m
      else let m1 = ent_put wide obj (ent_get wide m obj AND 0xFFF) m
           in ent_put wide obj (ent_get wide m1 obj OR address) m1)"

definition entry_get_link :: "bool \<Rightarrow> u64 \<Rightarrow> bytes \<Rightarrow> u64" where
  "entry_get_link wide obj m =
     (if obj = 0 then 0 else ent_get wide m obj AND (ent_max wide - 0xFFF))"

definition table_clear :: "u64 \<Rightarrow> bytes \<Rightarrow> bytes" where
  "table_clear obj m =
     (if obj = 0 then m else if obj AND 0xFFF \<noteq> 0 then m else mem_fill m (unat obj) 0 0x1000)"


section \<open>The operations of the four levels\<close>

definition PTClear :: "u64 \<Rightarrow> bytes \<Rightarrow> bytes" where "PTClear = table_clear"
definition PDTClear :: "u64 \<Rightarrow> bytes \<Rightarrow> bytes" where "PDTClear = table_clear"
definition PDPTClear :: "u64 \<Rightarrow> bytes \<Rightarrow> bytes" where "PDPTClear = table_clear"
definition PML4TClear :: "u64 \<Rightarrow> bytes \<Rightarrow> bytes" where "PML4TClear = table_clear"

definition PTEntryClear :: "arch \<Rightarrow> cpu \<Rightarrow> u64 \<Rightarrow> bytes \<Rightarrow> bytes" where
  "PTEntryClear A c = entry_clear (ent_wide A c)"
definition PDTEntryClear :: "arch \<Rightarrow> cpu \<Rightarrow> u64 \<Rightarrow> bytes \<Rightarrow> bytes" where
  "PDTEntryClear A c = entry_clear (ent_wide A c)"
definition PDPTEntryClear :: "u64 \<Rightarrow> bytes \<Rightarrow> bytes" where
  "PDPTEntryClear = entry_clear True"
definition PML4TEntryClear :: "u64 \<Rightarrow> bytes \<Rightarrow> bytes" where
  "PML4TEntryClear = entry_clear True"

definition PTEntryGetFlag :: "arch \<Rightarrow> cpu \<Rightarrow> u64 \<Rightarrow> u32 \<Rightarrow> bytes \<Rightarrow> bool" where
  "PTEntryGetFlag A c = entry_get_flag (ent_wide A c)"
definition PDTEntryGetFlag :: "arch \<Rightarrow> cpu \<Rightarrow> u64 \<Rightarrow> u32 \<Rightarrow> bytes \<Rightarrow> bool" where
  "PDTEntryGetFlag A c = entry_get_flag (ent_wide A c)"
definition PDPTEntryGetFlag :: "arch \<Rightarrow> cpu \<Rightarrow> u64 \<Rightarrow> u32 \<Rightarrow> bytes \<Rightarrow> bool" where
  "PDPTEntryGetFlag A c = entry_get_flag (ent_wide A c)"
definition PML4TEntryGetFlag :: "arch \<Rightarrow> cpu \<Rightarrow> u64 \<Rightarrow> u32 \<Rightarrow> bytes \<Rightarrow> bool" where
  "PML4TEntryGetFlag A c = entry_get_flag (ent_wide A c)"

definition PTEntrySetFlag :: "arch \<Rightarrow> cpu \<Rightarrow> u64 \<Rightarrow> u32 \<Rightarrow> bool \<Rightarrow> bytes \<Rightarrow> bytes" where
  "PTEntrySetFlag A c = entry_set_flag (ent_wide A c)"
definition PDTEntrySetFlag :: "arch \<Rightarrow> cpu \<Rightarrow> u64 \<Rightarrow> u32 \<Rightarrow> bool \<Rightarrow> bytes \<Rightarrow> bytes" where
  "PDTEntrySetFlag A c = entry_set_flag (ent_wide A c)"
definition PDPTEntrySetFlag :: "arch \<Rightarrow> cpu \<Rightarrow> u64 \<Rightarrow> u32 \<Rightarrow> bool \<Rightarrow> bytes \<Rightarrow> bytes" where
  "PDPTEntrySetFlag A c = entry_set_flag (ent_wide A c)"
definition PML4TEntrySetFlag :: "arch \<Rightarrow> cpu \<Rightarrow> u64 \<Rightarrow> u32 \<Rightarrow> bool \<Rightarrow> bytes \<Rightarrow> bytes" where
  "PML4TEntrySetFlag A c = entry_set_flag (ent_wide A c)"

definition PTEntrySetAddress :: "arch \<Rightarrow> cpu \<Rightarrow> u64 \<Rightarrow> u64 \<Rightarrow> bytes \<Rightarrow> bytes" where
  "PTEntrySetAddress A c = entry_set_link (ent_wide A c)"
definition PDTEntrySetPT :: "arch \<Rightarrow> cpu \<Rightarrow> u64 \<Rightarrow> u64 \<Rightarrow> bytes \<Rightarrow> bytes" where
  "PDTEntrySetPT A c = entry_set_link (ent_wide A c)"
definition PDPTEntrySetPDT :: "arch \<Rightarrow> cpu \<Rightarrow> u64 \<Rightarrow> u64 \<Rightarrow> bytes \<Rightarrow> bytes" where
  "PDPTEntrySetPDT A c = entry_set_link (ent_wide A c)"
definition PML4TEntrySetPDPT :: "arch \<Rightarrow> cpu \<Rightarrow> u64 \<Rightarrow> u64 \<Rightarrow> bytes \<Rightarrow> bytes" where
  "PML4TEntrySetPDPT A c = entry_set_link (ent_wide A c)"

definition PTEntryGetAddress :: "arch \<Rightarrow> cpu \<Rightarrow> u64 \<Rightarrow> bytes \<Rightarrow> u64" where
  "PTEntryGetAddress A c = entry_get_link (ent_wide A c)"
definition PDTEntryGetPT :: "arch \<Rightarrow> cpu \<Rightarrow> u64 \<Rightarrow> bytes \<Rightarrow> u64" where
  "PDTEntryGetPT A c obj m = ptr_of A (entry_get_link (ent_wide A c) obj m)"
definition PDPTEntryGetPDT :: "arch \<Rightarrow> cpu \<Rightarrow> u64 \<Rightarrow> bytes \<Rightarrow> u64" where
  "PDPTEntryGetPDT A c obj m = ptr_of A (entry_get_link (ent_wide A c) obj m)"
definition PML4TEntryGetPDPT :: "arch \<Rightarrow> cpu \<Rightarrow> u64 \<Rightarrow> bytes \<Rightarrow> u64" where
  "PML4TEntryGetPDPT A c obj m = ptr_of A (entry_get_link (ent_wide A c) obj m)"

text \<open>The entry of an index: 512 entries of 8 bytes, or 1024 of 4 bytes without PAE.\<close>

definition PTGetEntryAtIndex :: "arch \<Rightarrow> cpu \<Rightarrow> u64 \<Rightarrow> u32 \<Rightarrow> u64" where
  "PTGetEntryAtIndex A c obj i =
     (if obj = 0 then 0
      else if obj AND 0xFFF \<noteq> 0 then 0
      else if CPU_PAEEnabled c then (if 512 \<le> i then 0 else ptr_of A (obj + ucast i * 8))
      else if 1024 \<le> i then 0
      else ptr_of A (obj + ucast i * 4))"

definition PDTGetEntryAtIndex :: "arch \<Rightarrow> cpu \<Rightarrow> u64 \<Rightarrow> u32 \<Rightarrow> u64" where
  "PDTGetEntryAtIndex A c obj i =
     (if obj = 0 then 0
      else if obj AND 0xFFF \<noteq> 0 then 0
      else if CPU_PAEEnabled c then (if 512 \<le> i then 0 else ptr_of A (obj + ucast i * 8))
      else if 1024 \<le> i then 0
      else ptr_of A (obj + ucast i * 4))"

definition PDPTGetEntryAtIndex :: "arch \<Rightarrow> cpu \<Rightarrow> u64 \<Rightarrow> u32 \<Rightarrow> u64" where
  "PDPTGetEntryAtIndex A c obj i =
     (if obj = 0 then 0
      else if obj AND 0xFFF \<noteq> 0 then 0
      else if CPU_PAEEnabled c \<and> 512 \<le> i then 0
      else if 4 \<le> i then 0
      else ptr_of A (obj + ucast i * 8))"

definition PML4TGetEntryAtIndex :: "arch \<Rightarrow> u64 \<Rightarrow> u32 \<Rightarrow> u64" where
  "PML4TGetEntryAtIndex A obj i =
     (if obj = 0 then 0
      else if obj AND 0xFFF \<noteq> 0 then 0
      else if 512 \<le> i then 0
      else ptr_of A (obj + ucast i * 8))"


section \<open>The system map\<close>

record memory_map =
  mp_ptCount :: u64
  mp_pdtCount :: u64
  mp_pdptCount :: u64
  mp_pml4tCount :: u64
  mp_length :: u64
  mp_base :: u64
  mp_type :: u32
  mp_cr3 :: u32

definition map_boot :: memory_map where
  "map_boot = \<lparr> mp_ptCount = 0, mp_pdtCount = 0, mp_pdptCount = 0, mp_pml4tCount = 0,
     mp_length = 0, mp_base = 0, mp_type = MapTypeUnknown, mp_cr3 = 0 \<rparr>"

definition MemoryMapGetAddress :: "memory_map \<Rightarrow> u64" where "MemoryMapGetAddress o1 = mp_base o1"
definition MemoryMapGetLength :: "memory_map \<Rightarrow> u64" where "MemoryMapGetLength o1 = mp_length o1"
definition MemoryMapGetType :: "memory_map \<Rightarrow> u32" where "MemoryMapGetType o1 = mp_type o1"
definition MemoryMapGetCR3 :: "memory_map \<Rightarrow> u32" where "MemoryMapGetCR3 o1 = mp_cr3 o1"
definition MemoryMapGetPTCount :: "memory_map \<Rightarrow> u64" where "MemoryMapGetPTCount o1 = mp_ptCount o1"
definition MemoryMapGetPDTCount :: "memory_map \<Rightarrow> u64" where "MemoryMapGetPDTCount o1 = mp_pdtCount o1"
definition MemoryMapGetPDPTCount :: "memory_map \<Rightarrow> u64" where "MemoryMapGetPDPTCount o1 = mp_pdptCount o1"
definition MemoryMapGetPML4TCount :: "memory_map \<Rightarrow> u64" where "MemoryMapGetPML4TCount o1 = mp_pml4tCount o1"

definition MemoryMapSetAddress :: "u64 \<Rightarrow> memory_map \<Rightarrow> memory_map" where
  "MemoryMapSetAddress v o1 = o1\<lparr>mp_base := v\<rparr>"
definition MemoryMapSetLength :: "u64 \<Rightarrow> memory_map \<Rightarrow> memory_map" where
  "MemoryMapSetLength v o1 = o1\<lparr>mp_length := v\<rparr>"
definition MemoryMapSetType :: "u32 \<Rightarrow> memory_map \<Rightarrow> memory_map" where
  "MemoryMapSetType v o1 = o1\<lparr>mp_type := v\<rparr>"
definition MemoryMapSetCR3 :: "u32 \<Rightarrow> memory_map \<Rightarrow> memory_map" where
  "MemoryMapSetCR3 v o1 = o1\<lparr>mp_cr3 := v\<rparr>"
definition MemoryMapSetPTCount :: "u64 \<Rightarrow> memory_map \<Rightarrow> memory_map" where
  "MemoryMapSetPTCount v o1 = o1\<lparr>mp_ptCount := v\<rparr>"
definition MemoryMapSetPDTCount :: "u64 \<Rightarrow> memory_map \<Rightarrow> memory_map" where
  "MemoryMapSetPDTCount v o1 = o1\<lparr>mp_pdtCount := v\<rparr>"
definition MemoryMapSetPDPTCount :: "u64 \<Rightarrow> memory_map \<Rightarrow> memory_map" where
  "MemoryMapSetPDPTCount v o1 = o1\<lparr>mp_pdptCount := v\<rparr>"
definition MemoryMapSetPML4TCount :: "u64 \<Rightarrow> memory_map \<Rightarrow> memory_map" where
  "MemoryMapSetPML4TCount v o1 = o1\<lparr>mp_pml4tCount := v\<rparr>"

end
