(* ===== verification/XEOS_VMInit.thy ===== *)
theory XEOS_VMInit
  imports XEOS_VM
begin

text \<open>
  XEOS_VM_SystemMapInitialize: the identity map of the physical memory is built in one area of
  pages from the page allocator - all page tables first, then the tables of each higher level - and
  its top table goes to CR3.  The definitions follow the sections of the function: the paging mode,
  the table counts, the loop of each level, and the whole.
\<close>

record vm_state =
  vs_cpu :: cpu
  vs_mem :: mem_state
  vs_map :: memory_map
  vs_bytes :: bytes
  vs_out :: "out_call list"

definition say :: "bool \<Rightarrow> out_call \<Rightarrow> vm_state \<Rightarrow> vm_state" where
  "say handler call s = (if handler then s\<lparr>vs_out := vs_out s @ [call]\<rparr> else s)"

definition nl :: string where "nl = [CHR 0x0A]"


section \<open>Paging mode and table counts\<close>

definition select_type :: "arch \<Rightarrow> u64 \<Rightarrow> cpu \<Rightarrow> u32 \<times> cpu" where
  "select_type A totalMemoryBytes c =
     (let type = (case A of X86_64 \<Rightarrow> MapType64
                  | I386 \<Rightarrow> if CPU_PAEEnabled c then MapType32PAE else MapType32)
      in if type = MapType32PAE \<and> totalMemoryBytes < 0x100000000
         then (MapType32, CPU_DisablePAE c)
         else (type, c))"

record layout =
  ly_ptEntriesCount :: u64
  ly_ptEntriesPerPT :: u64
  ly_ptCount :: u64
  ly_pdtCount :: u64
  ly_pdptCount :: u64
  ly_pml4tCount :: u64

text \<open>The number of tables of 512 entries each for n entries.\<close>

definition table_count :: "u64 \<Rightarrow> u64" where
  "table_count n =
     (if 0x200 < n
      then (let q = n div 0x200; q1 = (if q = 0 then 1 else q)
            in q1 + (if n mod 0x200 = 0 then 0 else 1))
      else 1)"

definition map_layout :: "u32 \<Rightarrow> u64 \<Rightarrow> layout" where
  "map_layout type totalMemoryBytes =
     (let entries = totalMemoryBytes div 0x1000 + (if totalMemoryBytes mod 0x1000 = 0 then 0 else 1);
          perPT = (if type = MapType32 then 0x400 else 0x200);
          ptCount = entries div perPT + (if entries mod perPT = 0 then 0 else 1);
          pdtCount = (if type = MapType32 then 1 else table_count ptCount);
          pdptCount = (if type = MapType32 then 0
                       else if type = MapType32PAE then 1 else table_count pdtCount);
          pml4tCount = (if type = MapType32 \<or> type = MapType32PAE then 0 else 1)
      in \<lparr> ly_ptEntriesCount = entries, ly_ptEntriesPerPT = perPT, ly_ptCount = ptCount,
           ly_pdtCount = pdtCount, ly_pdptCount = pdptCount, ly_pml4tCount = pml4tCount \<rparr>)"

definition map_memory :: "layout \<Rightarrow> u64" where
  "map_memory l = ly_ptCount l * 0x1000 + ly_pdtCount l * 0x1000 + ly_pdptCount l * 0x1000 +
     ly_pml4tCount l * 0x1000"

definition size_lines :: "u64 \<Rightarrow> out_call" where
  "size_lines n =
     (if 0x100000 \<le> n then ('' (%llu MB)'' @ nl, [OutNum (n div 0x400 div 0x400)]) else (nl, []))"

definition layout_lines :: "bool \<Rightarrow> u32 \<Rightarrow> u64 \<Rightarrow> layout \<Rightarrow> vm_state \<Rightarrow> vm_state" where
  "layout_lines h type totalMemoryBytes l s = fold (say h)
     [(''Memory map type:         %s'' @ nl,
        [OutStr (if type = MapType32 then ''i386''
                 else if type = MapType32PAE then ''i386 PAE'' else ''x86-64'')]),
      (''Total memory:            %llu B'', [OutNum totalMemoryBytes]),
      size_lines totalMemoryBytes,
      (''PTE/PT/PDT/PDPT/PML4T:   %llu/%llu/%llu/%llu/%llu'' @ nl,
        [OutNum (ly_ptEntriesCount l), OutNum (ly_ptCount l), OutNum (ly_pdtCount l),
         OutNum (ly_pdptCount l), OutNum (ly_pml4tCount l)]),
      (''PTE per PT:              %llu'' @ nl, [OutNum (ly_ptEntriesPerPT l)]),
      (''System map memory use:   %llu B'', [OutNum (map_memory l)]),
      size_lines (map_memory l)] s"


section \<open>Page tables\<close>

text \<open>The loop over the zones that sets the flags of one entry, and whether a zone was found.\<close>

fun pt_zones :: "arch \<Rightarrow> cpu \<Rightarrow> u64 \<Rightarrow> u64 \<Rightarrow> u64 \<Rightarrow> zone list \<Rightarrow> bool \<Rightarrow> bytes \<Rightarrow> bytes \<times> bool" where
  "pt_zones A c limit address ptEntry [] found m = (m, found)"
| "pt_zones A c limit address ptEntry (z # zs) found m =
     (if z_base z \<le> address \<and> address - z_base z < z_length z
      then let m1 = (if z_type z = MemoryEntryTypeUsable
                     then PTEntrySetFlag A c ptEntry FlagWriteable True m else m);
               m2 = (if address < limit then PTEntrySetFlag A c ptEntry FlagPresent True m1 else m1)
           in pt_zones A c limit address ptEntry zs True m2
      else pt_zones A c limit address ptEntry zs found m)"

definition pt_entry :: "arch \<Rightarrow> cpu \<Rightarrow> u64 \<Rightarrow> u64 \<Rightarrow> zone list \<Rightarrow> u64 \<Rightarrow> nat \<Rightarrow> bytes \<times> u64 \<Rightarrow> bytes \<times> u64" where
  "pt_entry A c totalBytes limit zs pt j st =
     (let (m, address) = st;
          ptEntry = PTGetEntryAtIndex A c pt (of_nat j)
      in if totalBytes \<le> address then (m, address)
         else let m1 = PTEntrySetAddress A c ptEntry address m;
                  (m2, found) = pt_zones A c limit address ptEntry zs False m1;
                  m3 = (if found then m2 else PTEntrySetFlag A c ptEntry FlagPresent True m2)
              in (m3, address + 0x1000))"

definition pt_table :: "arch \<Rightarrow> cpu \<Rightarrow> u64 \<Rightarrow> u64 \<Rightarrow> zone list \<Rightarrow> nat \<Rightarrow> nat \<Rightarrow> bytes \<times> u64 \<times> u64 \<Rightarrow>
    bytes \<times> u64 \<times> u64" where
  "pt_table A c totalBytes limit zs perPT i st =
     (let (m, address, p) = st;
          (m1, address1) = fold (pt_entry A c totalBytes limit zs p) [0..<perPT] (PTClear p m, address)
      in (m1, address1, ptr_of A (p + 0x1000)))"

definition pt_tables :: "arch \<Rightarrow> cpu \<Rightarrow> u64 \<Rightarrow> u64 \<Rightarrow> zone list \<Rightarrow> nat \<Rightarrow> nat \<Rightarrow> bytes \<times> u64 \<times> u64 \<Rightarrow>
    bytes \<times> u64 \<times> u64" where
  "pt_tables A c totalBytes limit zs perPT n st = fold (pt_table A c totalBytes limit zs perPT) [0..<n] st"


section \<open>Directories\<close>

text \<open>
  The loops of the three upper levels: table i gets a link to each table of the level below, as
  long as there is one.  The state is the memory and the address of the next table to link.
\<close>

fun pdt_entries :: "arch \<Rightarrow> cpu \<Rightarrow> u64 \<Rightarrow> u64 \<Rightarrow> nat \<Rightarrow> u64 \<Rightarrow> nat list \<Rightarrow> bytes \<times> u64 \<Rightarrow> bytes \<times> u64" where
  "pdt_entries A c perPT ptCount i pdt [] (m, pt) = (m, pt)"
| "pdt_entries A c perPT ptCount i pdt (j # js) (m, pt) =
     (if ptCount \<le> of_nat i * perPT + of_nat j then (m, pt)
      else let pdtEntry = PDTGetEntryAtIndex A c pdt (of_nat j);
               m1 = PDTEntrySetPT A c pdtEntry pt m;
               m2 = PDTEntrySetFlag A c pdtEntry FlagPresent True m1;
               m3 = PDTEntrySetFlag A c pdtEntry FlagWriteable True m2
           in pdt_entries A c perPT ptCount i pdt js (m3, ptr_of A (pt + 0x1000)))"

definition pdt_tables :: "arch \<Rightarrow> cpu \<Rightarrow> u64 \<Rightarrow> u64 \<Rightarrow> nat \<Rightarrow> bytes \<times> u64 \<times> u64 \<Rightarrow> bytes \<times> u64 \<times> u64" where
  "pdt_tables A c perPT ptCount n st =
     fold (\<lambda>i (m, pt, p).
             let (m1, pt1) = pdt_entries A c perPT ptCount i p [0..<unat perPT] (PDTClear p m, pt)
             in (m1, pt1, ptr_of A (p + 0x1000))) [0..<n] st"

fun pdpt_entries :: "arch \<Rightarrow> cpu \<Rightarrow> u32 \<Rightarrow> u64 \<Rightarrow> u64 \<Rightarrow> nat \<Rightarrow> u64 \<Rightarrow> nat list \<Rightarrow> bytes \<times> u64 \<Rightarrow> bytes \<times> u64" where
  "pdpt_entries A c type perPT pdtCount i pdpt [] (m, pdt) = (m, pdt)"
| "pdpt_entries A c type perPT pdtCount i pdpt (j # js) (m, pdt) =
     (if pdtCount \<le> of_nat i * perPT + of_nat j then (m, pdt)
      else let pdptEntry = PDPTGetEntryAtIndex A c pdpt (of_nat j);
               m1 = PDPTEntrySetPDT A c pdptEntry pdt m;
               m2 = PDPTEntrySetFlag A c pdptEntry FlagPresent True m1;
               m3 = (if type = MapType64
                     then PDPTEntrySetFlag A c pdptEntry FlagWriteable True m2 else m2)
           in pdpt_entries A c type perPT pdtCount i pdpt js (m3, ptr_of A (pdt + 0x1000)))"

definition pdpt_tables :: "arch \<Rightarrow> cpu \<Rightarrow> u32 \<Rightarrow> u64 \<Rightarrow> u64 \<Rightarrow> nat \<Rightarrow> bytes \<times> u64 \<times> u64 \<Rightarrow> bytes \<times> u64 \<times> u64" where
  "pdpt_tables A c type perPT pdtCount n st =
     fold (\<lambda>i (m, pdt, p).
             let (m1, pdt1) = pdpt_entries A c type perPT pdtCount i p [0..<unat perPT] (PDPTClear p m, pdt)
             in (m1, pdt1, ptr_of A (p + 0x1000))) [0..<n] st"

fun pml4t_entries :: "arch \<Rightarrow> cpu \<Rightarrow> u64 \<Rightarrow> u64 \<Rightarrow> nat \<Rightarrow> u64 \<Rightarrow> nat list \<Rightarrow> bytes \<times> u64 \<Rightarrow> bytes \<times> u64" where
  "pml4t_entries A c perPT pdptCount i pml4t [] (m, pdpt) = (m, pdpt)"
| "pml4t_entries A c perPT pdptCount i pml4t (j # js) (m, pdpt) =
     (if pdptCount \<le> of_nat i * perPT + of_nat j then (m, pdpt)
      else let pml4tEntry = PML4TGetEntryAtIndex A pml4t (of_nat j);
               m1 = PML4TEntrySetPDPT A c pml4tEntry pdpt m;
               m2 = PML4TEntrySetFlag A c pml4tEntry FlagPresent True m1;
               m3 = PML4TEntrySetFlag A c pml4tEntry FlagWriteable True m2
           in pml4t_entries A c perPT pdptCount i pml4t js (m3, ptr_of A (pdpt + 0x1000)))"

definition pml4t_tables :: "arch \<Rightarrow> cpu \<Rightarrow> u64 \<Rightarrow> u64 \<Rightarrow> nat \<Rightarrow> bytes \<times> u64 \<times> u64 \<Rightarrow> bytes \<times> u64 \<times> u64" where
  "pml4t_tables A c perPT pdptCount n st =
     fold (\<lambda>i (m, pdpt, p).
             let (m1, pdpt1) = pml4t_entries A c perPT pdptCount i p [0..<unat perPT] (PML4TClear p m, pdpt)
             in (m1, pdpt1, ptr_of A (p + 0x1000))) [0..<n] st"


section \<open>XEOS_VM_SystemMapInitialize\<close>

definition store_map :: "u64 \<Rightarrow> u32 \<Rightarrow> layout \<Rightarrow> memory_map \<Rightarrow> memory_map" where
  "store_map base type l sm =
     MemoryMapSetPML4TCount (ly_pml4tCount l) (MemoryMapSetPDPTCount (ly_pdptCount l)
       (MemoryMapSetPDTCount (ly_pdtCount l) (MemoryMapSetPTCount (ly_ptCount l)
         (MemoryMapSetType type (MemoryMapSetLength (map_memory l) (MemoryMapSetAddress base sm))))))"

definition set_cr3 :: "u64 \<Rightarrow> vm_state \<Rightarrow> vm_state" where
  "set_cr3 tbl s = s\<lparr>vs_cpu := CPU_SetCR3 (ucast tbl) (vs_cpu s),
                    vs_map := MemoryMapSetCR3 (ucast tbl) (vs_map s)\<rparr>"

definition range_line :: "u64 \<Rightarrow> u64 \<Rightarrow> out_call" where
  "range_line a p = (''%016#lX -> %016#lX'' @ nl, [OutNum a, OutNum (p - 1)])"

text \<open>The part of the function that builds the tables at the allocated address.\<close>

definition build_map :: "arch \<Rightarrow> bool \<Rightarrow> u32 \<Rightarrow> u64 \<Rightarrow> layout \<Rightarrow> u64 \<Rightarrow> vm_state \<Rightarrow> vm_state" where
  "build_map A h type totalBytes l base s =
     (let c = vs_cpu s;
          perPT = ly_ptEntriesPerPT l;
          s1 = say h (''Initializing PTs:        '', []) s;
          (m1, address, p1) = pt_tables A c totalBytes (base + map_memory l) (chain (vs_mem s)) (unat perPT)
                                (unat (ly_ptCount l)) (vs_bytes s, 0, base);
          s2 = fold (say h)
                 [range_line base p1,
                  (''Addresses mapped:        %016#llX -> %016#llX'' @ nl, [OutNum 0, OutNum (address - 1)]),
                  (if type = MapType32 then ''Initializing PDT:        ''
                   else ''Initializing PDTs:       '', [])] (s1\<lparr>vs_bytes := m1\<rparr>);
          (m2, pdt, p2) = pdt_tables A c perPT (ly_ptCount l) (unat (ly_pdtCount l)) (m1, base, p1);
          s3 = say h (range_line pdt p2) (s2\<lparr>vs_bytes := m2\<rparr>)
      in if type = MapType32
         then set_cr3 pdt (say h (''Updating CR3 with PDT:   %016#lX'' @ nl, [OutNum pdt]) s3)
         else
           let s4 = say h (if type = MapType32PAE then ''Initializing PDPT:       ''
                           else ''Initializing PDPTs:      '', []) s3;
               (m3, pdpt, p3) = pdpt_tables A c type perPT (ly_pdtCount l) (unat (ly_pdptCount l)) (m2, pdt, p2);
               s5 = say h (range_line pdpt p3) (s4\<lparr>vs_bytes := m3\<rparr>)
           in if type = MapType32PAE
              then set_cr3 pdpt (say h (''Updating CR3 with PDPT:  %016#lX'' @ nl, [OutNum pdpt]) s5)
              else
                let s6 = say h (''Initializing PML4T:      '', []) s5;
                    (m4, pml4t, p4) = pml4t_tables A c perPT (ly_pdptCount l) (unat (ly_pml4tCount l)) (m3, pdpt, p3);
                    s7 = fold (say h)
                           [range_line pml4t p4,
                            (''Updating CR3 with PML4T: %016#lX'' @ nl, [OutNum pml4t])] (s6\<lparr>vs_bytes := m4\<rparr>)
                in set_cr3 pml4t s7)"

definition SystemMapInitialize :: "arch \<Rightarrow> bool \<Rightarrow> vm_state \<Rightarrow> vm_state option" where
  "SystemMapInitialize A h s =
     (if MemoryMapGetAddress (vs_map s) \<noteq> 0 then Some s
      else
        let c0 = (if A = I386 then CPU_DisablePaging (vs_cpu s) else vs_cpu s);
            totalBytes = GetTotalBytes (vs_mem s);
            (type, c) = select_type A totalBytes c0;
            l = map_layout type totalBytes;
            s1 = layout_lines h type totalBytes l (s\<lparr>vs_cpu := c\<rparr>)
        in do {
          (mem, base) \<leftarrow> AllocPages A (ucast (map_memory l div 0x1000)) (vs_mem s1);
          let s2 = s1\<lparr>vs_mem := mem\<rparr>;
          let s3 = (if 0 < base
             then build_map A h type totalBytes l base
                    ((say h (''System map area:         %016#llX -> %016#llX'' @ nl,
                             [OutNum base, OutNum (base + map_memory l - 1)]) s2)
                     \<lparr>vs_map := store_map base type l (vs_map s2)\<rparr>)
             else s2);
          Some (if A = I386 then s3\<lparr>vs_cpu := CPU_EnablePaging (vs_cpu s3)\<rparr> else s3)
        })"

end
