(* ===== verification/XEOS_VMTables.thy ===== *)
theory XEOS_VMTables
  imports XEOS_VMInit
begin

text \<open>
  What the loops over the tables of one level write.  An entry is a cell of 8 or 4 bytes; the
  locale table_level is the contract of the entry operations of a level - on a cleared entry they
  store the link with its flags and touch nothing else - and its lemmas give the contents of all
  tables the loops of that level build.
\<close>

section \<open>Cells\<close>

definition esz :: "bool \<Rightarrow> nat" where
  "esz w = (if w then 8 else 4)"

definition cget :: "bool \<Rightarrow> bytes \<Rightarrow> nat \<Rightarrow> u64" where
  "cget w m a = (if w then rd64 m a else ucast (rd32 m a))"

definition cput :: "bool \<Rightarrow> nat \<Rightarrow> u64 \<Rightarrow> bytes \<Rightarrow> bytes" where
  "cput w a v m = (if w then wr64 m a v else wr32 m a (ucast v))"

text \<open>A value that an entry can hold.\<close>

definition fits :: "bool \<Rightarrow> u64 \<Rightarrow> bool" where
  "fits w v \<longleftrightarrow> w \<or> v AND 0xFFFFFFFF = v"

lemma ent_get_cget: "ent_get w m obj = cget w m (unat obj)"
  by (simp add: ent_get_def cget_def)

lemma ent_put_cput: "ent_put w obj v m = cput w (unat obj) v m"
  by (simp add: ent_put_def cput_def)

lemma ucast_back: "fits False v \<Longrightarrow> ucast (ucast v :: u32) = v"
proof -
  have "ucast (ucast v :: u32) = v AND 0xFFFFFFFF"
    by (rule bit_word_eqI) (auto simp: bit_simps mask32_eq)
  then show "fits False v \<Longrightarrow> ucast (ucast v :: u32) = v" by (simp add: fits_def)
qed

lemma cget_cput_same: "fits w v \<Longrightarrow> cget w (cput w a v m) a = v"
  by (cases w) (simp_all add: cget_def cput_def ucast_back)

lemma cget_cput_other:
  "a + esz w \<le> b \<or> b + esz w \<le> a \<Longrightarrow> cget w (cput w a v m) b = cget w m b"
  by (cases w) (simp_all add: cget_def cput_def esz_def cells64.rd_wr_other cells32.rd_wr_other)

lemma cput_frame: "b < a \<or> a + esz w \<le> b \<Longrightarrow> cput w a v m b = m b"
  by (cases w) (simp_all add: cput_def esz_def wr64_frame wr32_frame)

lemma cget_cong: "(\<And>b. a \<le> b \<Longrightarrow> b < a + esz w \<Longrightarrow> m b = m' b) \<Longrightarrow> cget w m a = cget w m' a"
  using cells64.rd_cong [of a m m'] cells32.rd_cong [of a m m'] by (cases w) (simp_all add: cget_def esz_def)

lemma wr_le_at:
  "wr_le n m a v b = (if a \<le> b \<and> b < a + n then of_nat (v div 256 ^ (b - a)) else m b)"
proof (induction n arbitrary: m a v b)
  case (Suc n)
  consider "b < a" | "b = a" | k where "b = Suc (a + k)" by (metis less_imp_Suc_add not_less_iff_gr_or_eq)
  then show ?case by cases (simp_all add: Suc div_mult2_eq)
qed auto

lemma wr_le_overwrite: "wr_le n (wr_le n m a u) a v = wr_le n m a v"
  by (rule ext) (simp add: wr_le_at)

lemma cput_cput: "cput w a v (cput w a u m) = cput w a v m"
  by (simp add: cput_def wr64_def wr32_def wr_le_overwrite)

lemma cget_zero: "(\<And>b. a \<le> b \<Longrightarrow> b < a + esz w \<Longrightarrow> m b = 0) \<Longrightarrow> cget w m a = 0"
  by (cases w) (simp_all add: cget_def esz_def rd64_def rd32_def rd_le_zero)


section \<open>Entry operations on cells\<close>

lemma fits_or: "fits w a \<Longrightarrow> fits w b \<Longrightarrow> fits w (a OR b)"
  by (auto simp: fits_def bit.conj_disj_distrib2)

lemma fits_small: "fits w 0" "fits w 1" "fits w 2"
  by (simp_all add: fits_def)

lemma ent_max_bit: "bit (ent_max w) n \<longleftrightarrow> n < (if w then 64 else 32)"
proof -
  have "ent_max w = mask (if w then 64 else 32)"
    by (simp add: ent_max_def mask_eq_exp_minus_1)
  then show ?thesis by (auto simp: bit_simps)
qed

lemma fits_bit: "fits w v \<Longrightarrow> bit v n \<Longrightarrow> bit (ent_max w) n"
  by (cases w) (auto simp: fits_def ent_max_bit mask32_eq bit_simps dest: bit_imp_le_length
      dest!: arg_cong [where f = "\<lambda>x. bit x n"])

lemma flag_mask:
  "ent_max w - 1 = ent_max w AND NOT 1" "ent_max w - 2 = ent_max w AND NOT 2"
  by (cases w; simp add: ent_max_def)+

lemma set_flag_value:
  assumes "fits w v" "f = 1 \<or> f = 2"
  shows "(v AND (ent_max w - f)) OR f = v OR f" "fits w (v AND (ent_max w - f))"
proof -
  have f: "ent_max w - f = ent_max w AND NOT f" using assms(2) flag_mask by blast
  have "(v AND (ent_max w AND NOT f)) OR f = (v AND ent_max w) OR f"
    by (rule bit_word_eqI) (auto simp: bit_simps)
  moreover have vm: "v AND ent_max w = v"
    using fits_bit [OF assms(1)] by (intro bit_word_eqI) (auto simp: bit_simps)
  ultimately show "(v AND (ent_max w - f)) OR f = v OR f" using f by simp
  have "v AND (ent_max w AND NOT f) = v AND NOT f"
    using vm by (metis and.assoc)
  moreover have "fits w (v AND NOT f)"
  proof -
    have "(v AND NOT f) AND 0xFFFFFFFF = (v AND 0xFFFFFFFF) AND NOT f"
      by (rule bit_word_eqI) (auto simp: bit_simps)
    then show ?thesis using assms(1) by (auto simp: fits_def)
  qed
  ultimately show "fits w (v AND (ent_max w - f))" using f by simp
qed

lemma entry_set_flag_cput:
  assumes "obj \<noteq> 0" "fits w v" "flag = FlagPresent \<or> flag = FlagWriteable"
  shows "entry_set_flag w obj flag True (cput w (unat obj) v m) =
           cput w (unat obj) (v OR ucast flag) m"
proof -
  have f: "(ucast flag :: u64) = 1 \<or> (ucast flag :: u64) = 2"
    using assms(3) by (auto simp: FlagPresent_def FlagWriteable_def)
  show ?thesis
    using assms set_flag_value [OF assms(2) f] f
    by (simp add: entry_set_flag_def ent_get_cget ent_put_cput cget_cput_same cput_cput Let_def)
qed

lemma entry_set_link_zero:
  assumes "obj \<noteq> 0" "cget w m (unat obj) = 0" "a AND 0xFFF = 0"
  shows "entry_set_link w obj a m = cput w (unat obj) a m"
  using assms fits_small
  by (simp add: entry_set_link_def ent_get_cget ent_put_cput cget_cput_same cput_cput Let_def)


section \<open>The loops of one level\<close>

text \<open>
  The common shape of the loops: E p j x stores the link x in entry j of the table at p, nxt moves
  to the next link, cnt is the number of links.
\<close>

fun link_entries :: "(nat \<Rightarrow> u64 \<Rightarrow> bytes \<Rightarrow> bytes) \<Rightarrow> (u64 \<Rightarrow> u64) \<Rightarrow> u64 \<Rightarrow> u64 \<Rightarrow> nat \<Rightarrow>
    nat list \<Rightarrow> bytes \<times> u64 \<Rightarrow> bytes \<times> u64" where
  "link_entries E nxt perPT cnt i [] (m, x) = (m, x)"
| "link_entries E nxt perPT cnt i (j # js) (m, x) =
     (if cnt \<le> of_nat i * perPT + of_nat j then (m, x)
      else link_entries E nxt perPT cnt i js (E j x m, nxt x))"

definition link_table :: "arch \<Rightarrow> (u64 \<Rightarrow> nat \<Rightarrow> u64 \<Rightarrow> bytes \<Rightarrow> bytes) \<Rightarrow> (u64 \<Rightarrow> u64) \<Rightarrow> u64 \<Rightarrow> u64 \<Rightarrow>
    nat \<Rightarrow> bytes \<times> u64 \<times> u64 \<Rightarrow> bytes \<times> u64 \<times> u64" where
  "link_table A E nxt perPT cnt i st =
     (let (m, x, p) = st;
          (m1, x1) = link_entries (E p) nxt perPT cnt i [0..<unat perPT] (table_clear p m, x)
      in (m1, x1, ptr_of A (p + 0x1000)))"

definition link_tables :: "arch \<Rightarrow> (u64 \<Rightarrow> nat \<Rightarrow> u64 \<Rightarrow> bytes \<Rightarrow> bytes) \<Rightarrow> (u64 \<Rightarrow> u64) \<Rightarrow> u64 \<Rightarrow> u64 \<Rightarrow>
    nat \<Rightarrow> bytes \<times> u64 \<times> u64 \<Rightarrow> bytes \<times> u64 \<times> u64" where
  "link_tables A E nxt perPT cnt n st = fold (link_table A E nxt perPT cnt) [0..<n] st"

lemma link_tables_Suc:
  "link_tables A E nxt perPT cnt (Suc n) st =
     link_table A E nxt perPT cnt n (link_tables A E nxt perPT cnt n st)"
  by (simp add: link_tables_def)

definition table_at :: "u64 \<Rightarrow> bool" where
  "table_at p \<longleftrightarrow> p \<noteq> 0 \<and> unat p mod 4096 = 0 \<and> unat p + 4096 < 4294967296"

text \<open>The contents of a table: entry j holds G j.\<close>

definition holds :: "bool \<Rightarrow> nat \<Rightarrow> bytes \<Rightarrow> nat \<Rightarrow> (nat \<Rightarrow> u64) \<Rightarrow> bool" where
  "holds w epp m a G \<longleftrightarrow> (\<forall>j < epp. cget w m (a + j * esz w) = G j)"

lemma table_clear_eq: "table_at p \<Longrightarrow> table_clear p m = mem_fill m (unat p) 0 0x1000"
  by (simp add: table_clear_def table_at_def aligned_and)

locale table_level =
  fixes w :: bool
    and epp :: nat
    and E :: "u64 \<Rightarrow> nat \<Rightarrow> u64 \<Rightarrow> bytes \<Rightarrow> bytes"
    and nxt :: "u64 \<Rightarrow> u64"
    and lim :: nat
    and live :: "nat \<Rightarrow> bool"
    and V :: "u64 \<Rightarrow> u64"
  assumes epp: "epp * esz w = 4096"
    and nxt: "unat x + 4096 < lim \<Longrightarrow> nxt x = x + 0x1000"
    and lim: "lim \<le> 18446744073709551616"
    and V: "unat x < lim \<Longrightarrow> fits w (V x)"
    and E: "table_at p \<Longrightarrow> j < epp \<Longrightarrow> unat x mod 4096 = 0 \<Longrightarrow> unat x < lim \<Longrightarrow>
      cget w m (unat p + j * esz w) = 0 \<Longrightarrow>
      E p j x m = (if live j then cput w (unat p + j * esz w) (V x) m else m)"
begin

lemma epp_bounds: "0 < epp" "epp \<le> 1024"
  using epp by (auto simp: esz_def split: if_splits)

text \<open>The link of position q, when the first is X; the entry of a position without one is empty.\<close>

definition entry :: "u64 \<Rightarrow> nat \<Rightarrow> nat \<Rightarrow> nat \<Rightarrow> u64" where
  "entry X cnt i j = (if i * epp + j < cnt \<and> live j then V (X + of_nat (i * epp + j) * 0x1000) else 0)"

lemma cell_in: "j < epp \<Longrightarrow> j * esz w + esz w \<le> 4096"
  using mult_le_mono1 [of "Suc j" epp "esz w"] epp by simp

lemma cells_apart: "j \<noteq> k \<Longrightarrow> a + j * esz w + esz w \<le> a + k * esz w \<or> a + k * esz w + esz w \<le> a + j * esz w"
  using mult_le_mono1 [of "Suc j" k "esz w"] mult_le_mono1 [of "Suc k" j "esz w"]
  by (cases "j < k") auto

lemma link_addr:
  fixes X :: u64
  assumes "unat X mod 4096 = 0" "unat X + q * 4096 < lim"
  shows "unat (X + of_nat q * 0x1000) = unat X + q * 4096" "unat (X + of_nat q * 0x1000) mod 4096 = 0"
proof -
  have "unat X + q * 4096 < 18446744073709551616" using assms(2) lim by linarith
  then show *: "unat (X + of_nat q * 0x1000) = unat X + q * 4096"
    by (simp add: unat_word_ariths unat_of_nat)
  show "unat (X + of_nat q * 0x1000) mod 4096 = 0" using assms(1) * by simp
qed

lemma row_step:
  assumes "holds w epp m (unat p) (\<lambda>j. if j < k then entry X cnt i j else 0)" "k < epp" "fits w v"
    "entry X cnt i k = (if live k then v else 0)"
  shows "holds w epp (if live k then cput w (unat p + k * esz w) v m else m) (unat p) (\<lambda>j. if j < Suc k then entry X cnt i j else 0)"
    (is "holds w epp ?m _ _")
  unfolding holds_def
proof (intro allI impI)
  fix j assume j: "j < epp"
  have zero: "cget w m (unat p + k * esz w) = 0" using assms(1,2) by (simp add: holds_def)
  show "cget w ?m (unat p + j * esz w) = (if j < Suc k then entry X cnt i j else 0)"
  proof (cases "j = k")
    case True
    then show ?thesis using assms(3,4) zero by (simp add: cget_cput_same)
  next
    case False
    then have "cget w ?m (unat p + j * esz w) = cget w m (unat p + j * esz w)"
      using cget_cput_other [OF cells_apart [of k j "unat p"]] by simp
    then show ?thesis using assms(1) j False by (simp add: holds_def less_Suc_eq)
  qed
qed

lemma row:
  assumes "table_at p" "unat X mod 4096 = 0" "unat X + cnt * 4096 < lim"
    and "k \<le> epp" "i * epp + k \<le> cnt" "cnt < 18446744073709551616" "i * epp + epp < 18446744073709551616"
    and "holds w epp m (unat p) (\<lambda>j. if j < k then entry X cnt i j else 0)"
  shows "\<exists>m'. link_entries (E p) nxt (of_nat epp) (of_nat cnt) i [k..<epp] (m, X + of_nat (i * epp + k) * 0x1000) =
             (m', X + of_nat (min cnt (i * epp + epp)) * 0x1000) \<and>
           holds w epp m' (unat p) (entry X cnt i) \<and>
           (\<forall>b. b < unat p \<or> unat p + 4096 \<le> b \<longrightarrow> m' b = m b)"
  using assms(4,5,8)
proof (induction "epp - k" arbitrary: k m)
  case 0
  then have "k = epp" by simp
  then show ?case using 0 by (auto simp: holds_def min_def)
next
  case (Suc d)
  then have k: "k < epp" and d: "d = epp - Suc k" by auto
  let ?q = "i * epp + k" and ?c = "unat p + k * esz w"
  have split: "[k..<epp] = k # [Suc k..<epp]" using k by (rule upt_conv_Cons)
  have "unat (of_nat i * of_nat epp + of_nat k :: u64) = ?q"
    using assms(7) k by (simp add: unat_of_nat flip: of_nat_mult of_nat_add)
  then have cond: "of_nat cnt \<le> (of_nat i * of_nat epp + of_nat k :: u64) \<longleftrightarrow> cnt \<le> ?q"
    using assms(6) by (simp add: word_le_nat_alt unat_of_nat)
  show ?case
  proof (cases "cnt \<le> ?q")
    case True
    then have "cnt = ?q" using Suc.prems(2) by simp
    then show ?thesis
      unfolding split using True cond Suc.prems(3) k
      by (auto simp: holds_def entry_def min_def)
  next
    case False
    let ?x = "X + of_nat ?q * 0x1000"
    let ?m = "if live k then cput w ?c (V ?x) m else m"
    have lt: "unat X + ?q * 4096 < lim" "unat X + ?q * 4096 + 4096 < lim \<or> unat X + Suc ?q * 4096 = unat X + cnt * 4096"
      using assms(3) False mult_le_mono1 [of "Suc ?q" cnt 4096] by auto
    have lt2: "unat ?x + 4096 < lim"
      using assms(3) False mult_le_mono1 [of "Suc ?q" cnt 4096] link_addr [OF assms(2) lt(1)] by simp
    have zero: "cget w m ?c = 0" using Suc.prems(3) k by (simp add: holds_def)
    have e: "E p k ?x m = ?m"
      using E [OF assms(1) k link_addr(2) [OF assms(2) lt(1)] _ zero] lt2 by simp
    have n: "nxt ?x = X + of_nat (i * epp + Suc k) * 0x1000"
      using nxt [OF lt2] by (simp add: algebra_simps)
    have fit: "fits w (V ?x)" using V lt2 by simp
    have ek: "entry X cnt i k = (if live k then V ?x else 0)" using False by (simp add: entry_def)
    have "holds w epp ?m (unat p) (\<lambda>j. if j < Suc k then entry X cnt i j else 0)"
      by (rule row_step [OF Suc.prems(3) k fit ek])
    from Suc.hyps(1) [OF d _ _ this] k False
    obtain m' where m': "link_entries (E p) nxt (of_nat epp) (of_nat cnt) i [Suc k..<epp]
          (?m, X + of_nat (i * epp + Suc k) * 0x1000) = (m', X + of_nat (min cnt (i * epp + epp)) * 0x1000)"
      "holds w epp m' (unat p) (entry X cnt i)"
      "\<forall>b. b < unat p \<or> unat p + 4096 \<le> b \<longrightarrow> m' b = ?m b" by auto
    have "?m b = m b" if "b < unat p \<or> unat p + 4096 \<le> b" for b
      using that cell_in [OF k] by (auto intro!: cput_frame)
    then show ?thesis
      unfolding split using m' e n cond False by (intro exI [of _ m']) simp
  qed
qed

lemma cleared: "table_at p \<Longrightarrow> holds w epp (table_clear p m) (unat p) (\<lambda>j. 0)"
  using cell_in by (fastforce simp: holds_def table_clear_eq intro!: cget_zero)

lemma table_clear_frame:
  "table_at p \<Longrightarrow> b < unat p \<or> unat p + 4096 \<le> b \<Longrightarrow> table_clear p m b = m b"
  by (simp add: table_clear_eq mem_fill_out)

lemma ptr_next:
  fixes P :: u64
  assumes "unat P + Suc n * 4096 < 4294967296"
  shows "ptr_of A (P + of_nat n * 0x1000 + 0x1000) = P + of_nat (Suc n) * 0x1000"
proof -
  have "unat (P + of_nat (Suc n) * 0x1000) = unat P + Suc n * 4096"
    using assms by (simp add: unat_word_ariths unat_of_nat del: of_nat_Suc)
  moreover have "(4294967296::nat) \<le> 2 ^ ptr_bits A" by (cases A) (simp_all add: ptr_bits_def)
  ultimately have "ptr_of A (P + of_nat (Suc n) * 0x1000) = P + of_nat (Suc n) * 0x1000"
    using assms by (intro ptr_of_fits) linarith
  then show ?thesis by (simp add: algebra_simps)
qed

lemma table_addr:
  assumes "P \<noteq> 0" "unat P mod 4096 = 0" "unat P + Suc n * 4096 < 4294967296"
  shows "table_at (P + of_nat n * 0x1000)" "unat (P + of_nat n * 0x1000) = unat P + n * 4096"
proof -
  show u: "unat (P + of_nat n * 0x1000) = unat P + n * 4096"
    using assms(3) by (simp add: unat_word_ariths unat_of_nat)
  have "unat P \<noteq> 0" using assms(1) by (simp add: unat_eq_zero)
  then have "P + of_nat n * 0x1000 \<noteq> 0" using u by (metis add_is_0 unsigned_0)
  then show "table_at (P + of_nat n * 0x1000)" using assms u by (simp add: table_at_def)
qed

theorem tables:
  assumes "P \<noteq> 0" "unat P mod 4096 = 0" "unat P + n * 4096 < 4294967296"
    and "unat X mod 4096 = 0" "unat X + cnt * 4096 < lim"
    and "\<forall>i < n. i * epp \<le> cnt" "cnt < 4503599627370496"
  shows "\<exists>m'. link_tables A E nxt (of_nat epp) (of_nat cnt) n (m, X, P) =
             (m', X + of_nat (min cnt (n * epp)) * 0x1000, P + of_nat n * 0x1000) \<and>
           (\<forall>i < n. holds w epp m' (unat P + i * 4096) (entry X cnt i)) \<and>
           (\<forall>b. b < unat P \<or> unat P + n * 4096 \<le> b \<longrightarrow> m' b = m b)"
  using assms(3,6)
proof (induction n)
  case 0
  then show ?case by (simp add: link_tables_def)
next
  case (Suc n)
  then obtain m1 where m1: "link_tables A E nxt (of_nat epp) (of_nat cnt) n (m, X, P) =
        (m1, X + of_nat (min cnt (n * epp)) * 0x1000, P + of_nat n * 0x1000)"
    and h1: "\<forall>i < n. holds w epp m1 (unat P + i * 4096) (entry X cnt i)"
    and f1: "\<forall>b. b < unat P \<or> unat P + n * 4096 \<le> b \<longrightarrow> m1 b = m b"
    by auto
  let ?p = "P + of_nat n * 0x1000"
  have p: "table_at ?p" "unat ?p = unat P + n * 4096" 
    by (fact table_addr [OF assms(1,2) Suc.prems(1)])+
  have le: "n * epp \<le> cnt" using Suc.prems(2) by simp
  have c0: "holds w epp (table_clear ?p m1) (unat ?p) (\<lambda>j. if j < 0 then entry X cnt n j else 0)"
    using cleared [OF p(1)] by simp
  have b0: "0 \<le> epp" "n * epp + 0 \<le> cnt" "cnt < 18446744073709551616" "n * epp + epp < 18446744073709551616"
    using le assms(7) epp_bounds by linarith+
  note R = row [OF p(1) assms(4,5) b0 c0]
  obtain m2 where m2: "link_entries (E ?p) nxt (of_nat epp) (of_nat cnt) n [0..<epp]
        (table_clear ?p m1, X + of_nat (n * epp) * 0x1000) =
        (m2, X + of_nat (min cnt (n * epp + epp)) * 0x1000)"
    and h2: "holds w epp m2 (unat ?p) (entry X cnt n)"
    and f2: "\<forall>b. b < unat ?p \<or> unat ?p + 4096 \<le> b \<longrightarrow> m2 b = table_clear ?p m1 b"
    using R unfolding add_0_right by blast
  have ue: "unat (of_nat epp :: u64) = epp" using epp_bounds by (simp add: unat_of_nat)
  have mn: "min cnt (n * epp) = n * epp" "Suc n * epp = n * epp + epp" using le by simp_all
  have step: "link_tables A E nxt (of_nat epp) (of_nat cnt) (Suc n) (m, X, P) =
      (m2, X + of_nat (min cnt (Suc n * epp)) * 0x1000, P + of_nat (Suc n) * 0x1000)"
    unfolding link_tables_Suc m1 link_table_def Let_def prod.case ue mn m2
    by (simp only: prod.case ptr_next [OF Suc.prems(1)])
  have same: "m2 b = m1 b" if "b < unat P + n * 4096 \<or> unat P + Suc n * 4096 \<le> b" for b
    using f2 table_clear_frame [OF p(1)] p(2) that by (auto simp: algebra_simps)
  have "holds w epp m2 (unat P + i * 4096) (entry X cnt i)" if i: "i < Suc n" for i
  proof (cases "i = n")
    case True then show ?thesis using h2 p(2) by simp
  next
    case False
    then have i': "i < n" and i: "Suc i * 4096 \<le> n * 4096" using i by (simp_all only: mult_le_mono1 Suc_leI less_Suc_eq) auto
    have "cget w m2 (unat P + i * 4096 + j * esz w) = cget w m1 (unat P + i * 4096 + j * esz w)"
      if "j < epp" for j
      using i cell_in [OF that] same by (intro cget_cong) simp
    then show ?thesis using h1 False i' by (simp add: holds_def)
  qed
  moreover have "m2 b = m b" if "b < unat P \<or> unat P + Suc n * 4096 \<le> b" for b
    using that same [of b] f1 by auto
  ultimately show ?case using step by blast
qed

end

end
