(* ===== verification/XEOS_VMLevels.thy ===== *)
theory XEOS_VMLevels
  imports XEOS_VMTables
begin

text \<open>
  The four levels as instances of table_level, with 8-byte entries (x86-64, and i386 with PAE) and
  with 4-byte entries (i386 without).  The contract of a level only depends on whether PAE is on, so
  the instances are stated for a processor on which it was switched on or off.
\<close>

section \<open>The operations on one entry\<close>

definition pt_op :: "arch \<Rightarrow> cpu \<Rightarrow> u64 \<Rightarrow> zone list \<Rightarrow> u64 \<Rightarrow> nat \<Rightarrow> u64 \<Rightarrow> bytes \<Rightarrow> bytes" where
  "pt_op A c limit zs p j address m =
     (let e = PTGetEntryAtIndex A c p (of_nat j);
          (m1, found) = pt_zones A c limit address e zs False (PTEntrySetAddress A c e address m)
      in if found then m1 else PTEntrySetFlag A c e FlagPresent True m1)"

definition pdt_op :: "arch \<Rightarrow> cpu \<Rightarrow> u64 \<Rightarrow> nat \<Rightarrow> u64 \<Rightarrow> bytes \<Rightarrow> bytes" where
  "pdt_op A c p j x m =
     (let e = PDTGetEntryAtIndex A c p (of_nat j)
      in PDTEntrySetFlag A c e FlagWriteable True
           (PDTEntrySetFlag A c e FlagPresent True (PDTEntrySetPT A c e x m)))"

definition pdpt_op :: "arch \<Rightarrow> cpu \<Rightarrow> u32 \<Rightarrow> u64 \<Rightarrow> nat \<Rightarrow> u64 \<Rightarrow> bytes \<Rightarrow> bytes" where
  "pdpt_op A c type p j x m =
     (let e = PDPTGetEntryAtIndex A c p (of_nat j);
          m1 = PDPTEntrySetFlag A c e FlagPresent True (PDPTEntrySetPDT A c e x m)
      in if type = MapType64 then PDPTEntrySetFlag A c e FlagWriteable True m1 else m1)"

definition pml4t_op :: "arch \<Rightarrow> cpu \<Rightarrow> u64 \<Rightarrow> nat \<Rightarrow> u64 \<Rightarrow> bytes \<Rightarrow> bytes" where
  "pml4t_op A c p j x m =
     (let e = PML4TGetEntryAtIndex A p (of_nat j)
      in PML4TEntrySetFlag A c e FlagWriteable True
           (PML4TEntrySetFlag A c e FlagPresent True (PML4TEntrySetPDPT A c e x m)))"

lemma pdt_entries_link:
  "pdt_entries A c perPT cnt i p js (m, x) =
     link_entries (pdt_op A c p) (\<lambda>x. ptr_of A (x + 0x1000)) perPT cnt i js (m, x)"
  by (induction js arbitrary: m x) (simp_all add: pdt_op_def Let_def)

lemma pdpt_entries_link:
  "pdpt_entries A c type perPT cnt i p js (m, x) =
     link_entries (pdpt_op A c type p) (\<lambda>x. ptr_of A (x + 0x1000)) perPT cnt i js (m, x)"
  by (induction js arbitrary: m x) (simp_all add: pdpt_op_def Let_def)

lemma pml4t_entries_link:
  "pml4t_entries A c perPT cnt i p js (m, x) =
     link_entries (pml4t_op A c p) (\<lambda>x. ptr_of A (x + 0x1000)) perPT cnt i js (m, x)"
  by (induction js arbitrary: m x) (simp_all add: pml4t_op_def Let_def)

lemma pdt_tables_link:
  "pdt_tables A c perPT cnt n st =
     link_tables A (pdt_op A c) (\<lambda>x. ptr_of A (x + 0x1000)) perPT cnt n st"
  unfolding pdt_tables_def link_tables_def
  by (intro fold_cong) (simp_all add: fun_eq_iff link_table_def pdt_entries_link PDTClear_def)

lemma pdpt_tables_link:
  "pdpt_tables A c type perPT cnt n st =
     link_tables A (pdpt_op A c type) (\<lambda>x. ptr_of A (x + 0x1000)) perPT cnt n st"
  unfolding pdpt_tables_def link_tables_def
  by (intro fold_cong) (simp_all add: fun_eq_iff link_table_def pdpt_entries_link PDPTClear_def)

lemma pml4t_tables_link:
  "pml4t_tables A c perPT cnt n st =
     link_tables A (pml4t_op A c) (\<lambda>x. ptr_of A (x + 0x1000)) perPT cnt n st"
  unfolding pml4t_tables_def link_tables_def
  by (intro fold_cong) (simp_all add: fun_eq_iff link_table_def pml4t_entries_link PML4TClear_def)


section \<open>The address of an entry\<close>

lemma table_at_ptr:
  assumes "table_at p" "j * k < 4096"
  shows "unat (ptr_of A (p + of_nat j * of_nat k)) = unat p + j * k" "ptr_of A (p + of_nat j * of_nat k) \<noteq> 0"
proof -
  have "unat (p + of_nat (j * k)) = unat p + j * k"
    using assms by (simp add: unat_word_ariths unat_of_nat table_at_def del: of_nat_mult)
  moreover have "(4294967296::nat) \<le> 2 ^ ptr_bits A" by (cases A) (simp_all add: ptr_bits_def)
  ultimately show u: "unat (ptr_of A (p + of_nat j * of_nat k)) = unat p + j * k"
    using assms by (simp add: unat_ptr_of table_at_def)
  have "0 < unat p" using assms(1) by (simp add: table_at_def word_greater_zero_iff flip: word_less_nat_alt unat_gt_0)
  then show "ptr_of A (p + of_nat j * of_nat k) \<noteq> 0" using u by (metis add_is_0 gr_implies_not0 unsigned_0)
qed

lemma table_at_guards: "table_at p \<Longrightarrow> p \<noteq> 0 \<and> p AND 0xFFF = 0"
  by (simp add: table_at_def aligned_and)

lemma index_u32: "j < 1024 \<Longrightarrow> (of_nat n \<le> (of_nat j :: u32) \<longleftrightarrow> n \<le> j)" if "n \<le> 1024"
  using that by (simp add: word_le_nat_alt unat_of_nat)

lemma ucast_index: "j < 1024 \<Longrightarrow> (ucast (of_nat j :: u32) :: u64) = of_nat j"
  by (simp add: word_unat_eq_iff unsigned_ucast_eq unat_of_nat take_bit_eq_mod)

lemma PTGetEntryAtIndex_ok:
  assumes "table_at p" "CPU_PAEEnabled c = w" "j * esz w < 4096"
  shows "unat (PTGetEntryAtIndex A c p (of_nat j)) = unat p + j * esz w" "PTGetEntryAtIndex A c p (of_nat j) \<noteq> 0"
    "PDTGetEntryAtIndex A c p (of_nat j) = PTGetEntryAtIndex A c p (of_nat j)"
proof -
  have j: "j < 1024" "w \<Longrightarrow> j < 512" using assms(3) by (auto simp: esz_def split: if_splits)
  have "PTGetEntryAtIndex A c p (of_nat j) = ptr_of A (p + of_nat j * of_nat (esz w))"
    using assms(1,2) table_at_guards [OF assms(1)] j index_u32 [of 512 j] index_u32 [of 1024 j]
    by (cases w) (simp_all add: PTGetEntryAtIndex_def ucast_index esz_def)
  then show "unat (PTGetEntryAtIndex A c p (of_nat j)) = unat p + j * esz w" "PTGetEntryAtIndex A c p (of_nat j) \<noteq> 0"
    using table_at_ptr [OF assms(1,3)] by simp_all
qed (simp add: PTGetEntryAtIndex_def PDTGetEntryAtIndex_def)

lemma PDPTGetEntryAtIndex_ok:
  assumes "table_at p" "j < 512"
  shows "j < 4 \<Longrightarrow> unat (PDPTGetEntryAtIndex A c p (of_nat j)) = unat p + j * 8"
    "PDPTGetEntryAtIndex A c p (of_nat j) = 0 \<longleftrightarrow> \<not> j < 4"
proof -
  have "PDPTGetEntryAtIndex A c p (of_nat j) = (if j < 4 then ptr_of A (p + of_nat j * of_nat 8) else 0)"
    using assms(2) table_at_guards [OF assms(1)] index_u32 [of 512 j] index_u32 [of 4 j]
    by (simp add: PDPTGetEntryAtIndex_def ucast_index)
  then show "j < 4 \<Longrightarrow> unat (PDPTGetEntryAtIndex A c p (of_nat j)) = unat p + j * 8"
    "PDPTGetEntryAtIndex A c p (of_nat j) = 0 \<longleftrightarrow> \<not> j < 4"
    using table_at_ptr [OF assms(1), of j 8] assms(2) by auto
qed

lemma PML4TGetEntryAtIndex_ok:
  assumes "table_at p" "j < 512"
  shows "unat (PML4TGetEntryAtIndex A p (of_nat j)) = unat p + j * 8" "PML4TGetEntryAtIndex A p (of_nat j) \<noteq> 0"
proof -
  have "PML4TGetEntryAtIndex A p (of_nat j) = ptr_of A (p + of_nat j * of_nat 8)"
    using assms(2) table_at_guards [OF assms(1)] index_u32 [of 512 j]
    by (simp add: PML4TGetEntryAtIndex_def ucast_index)
  then show "unat (PML4TGetEntryAtIndex A p (of_nat j)) = unat p + j * 8" "PML4TGetEntryAtIndex A p (of_nat j) \<noteq> 0"
    using table_at_ptr [OF assms(1), of j 8] assms(2) by auto
qed


section \<open>The value of a page table entry\<close>

definition zone_hit :: "u64 \<Rightarrow> zone \<Rightarrow> bool" where
  "zone_hit a z \<longleftrightarrow> z_base z \<le> a \<and> a - z_base z < z_length z"

text \<open>
  A page is writeable when a usable zone contains it, and present when a zone contains it and it
  lies below the end of the system map, or when no zone contains it.
\<close>

definition page_writeable :: "zone list \<Rightarrow> u64 \<Rightarrow> bool" where
  "page_writeable zs a = list_ex (\<lambda>z. zone_hit a z \<and> z_type z = MemoryEntryTypeUsable) zs"

definition page_present :: "u64 \<Rightarrow> zone list \<Rightarrow> u64 \<Rightarrow> bool" where
  "page_present limit zs a = (list_ex (zone_hit a) zs \<longrightarrow> a < limit)"

fun zone_flags :: "u64 \<Rightarrow> u64 \<Rightarrow> zone list \<Rightarrow> u64 \<Rightarrow> u64" where
  "zone_flags limit a [] v = v"
| "zone_flags limit a (z # zs) v =
     (if zone_hit a z
      then let v1 = (if z_type z = MemoryEntryTypeUsable then v OR 2 else v);
               v2 = (if a < limit then v1 OR 1 else v1)
           in zone_flags limit a zs v2
      else zone_flags limit a zs v)"

definition pte_value :: "u64 \<Rightarrow> zone list \<Rightarrow> u64 \<Rightarrow> u64" where
  "pte_value limit zs a =
     (let v = zone_flags limit a zs a in if list_ex (zone_hit a) zs then v else v OR 1)"

lemma flag_values: "(ucast FlagPresent :: u64) = 1" "(ucast FlagWriteable :: u64) = 2"
  by (simp_all add: FlagPresent_def FlagWriteable_def)

lemma bit_or_flags:
  "bit (v OR (1 :: u64)) n \<longleftrightarrow> bit v n \<or> n = 0" "bit (v OR (2 :: u64)) n \<longleftrightarrow> bit v n \<or> n = 1"
proof -
  have "(2 :: u64) = push_bit 1 1" by simp
  then have "bit (2 :: u64) n \<longleftrightarrow> n = 1" by (auto simp: bit_simps simp del: push_bit_of_1)
  then show "bit (v OR (2 :: u64)) n \<longleftrightarrow> bit v n \<or> n = 1" by (simp add: bit_or_iff)
qed (auto simp: bit_simps)

lemma zone_flags_bit:
  "bit (zone_flags limit a zs v) n \<longleftrightarrow>
     bit v n \<or> n = 1 \<and> page_writeable zs a \<or> n = 0 \<and> list_ex (zone_hit a) zs \<and> a < limit"
  by (induction zs arbitrary: v) (auto simp: page_writeable_def bit_or_flags Let_def)

lemma pte_value_bit:
  "bit (pte_value limit zs a) n \<longleftrightarrow>
     bit a n \<or> n = 1 \<and> page_writeable zs a \<or> n = 0 \<and> page_present limit zs a"
  by (auto simp: pte_value_def zone_flags_bit bit_or_flags page_present_def Let_def)

lemma fits_iff_bits: "fits w v \<longleftrightarrow> (\<forall>n. bit v n \<longrightarrow> w \<or> n < 32)"
proof -
  have "v AND 0xFFFFFFFF = v \<longleftrightarrow> (\<forall>n. bit v n \<longrightarrow> n < 32)"
    using bit_imp_le_length [of v] by (auto simp: bit_eq_iff bit_simps mask32_eq)
  then show ?thesis by (auto simp: fits_def)
qed

lemma fits_small_addr: "w \<or> unat a < 4294967296 \<Longrightarrow> fits w a"
proof -
  have "take_bit 32 a = a" if "unat a < 4294967296"
    using that by (simp add: word_unat_eq_iff unsigned_take_bit_eq take_bit_eq_mod unat_mod)
  then show "w \<or> unat a < 4294967296 \<Longrightarrow> fits w a" by (auto simp: fits_def mask32_eq take_bit_eq_mask)
qed

lemma fits_pte: "fits w a \<Longrightarrow> fits w (pte_value limit zs a)"
  by (auto simp: fits_iff_bits pte_value_bit)

lemma pt_zones_cput:
  assumes "obj \<noteq> 0" "fits (ent_wide A c) v"
  shows "pt_zones A c limit a obj zs found (cput (ent_wide A c) (unat obj) v m) =
           (cput (ent_wide A c) (unat obj) (zone_flags limit a zs v) m, found \<or> list_ex (zone_hit a) zs)"
  using assms(2)
proof (induction zs arbitrary: v found)
  case (Cons z zs)
  have fl: "PTEntrySetFlag A c obj f True (cput (ent_wide A c) (unat obj) u m) =
      cput (ent_wide A c) (unat obj) (u OR ucast f) m"
    if "fits (ent_wide A c) u" "f = FlagPresent \<or> f = FlagWriteable" for u f
    using entry_set_flag_cput [OF assms(1) that] by (simp add: PTEntrySetFlag_def)
  have fo: "fits (ent_wide A c) (u OR 1)" "fits (ent_wide A c) (u OR 2)" if "fits (ent_wide A c) u" for u
    using that by (simp_all add: fits_or fits_small)
  show ?case
    using Cons.prems by (auto simp: Cons.IH zone_hit_def fl fo flag_values Let_def)
qed simp

lemma pt_op_value:
  assumes p: "table_at p" and c: "CPU_PAEEnabled c = w" "ent_wide A c = w" and j: "j * esz w < 4096"
    and a: "unat a mod 4096 = 0" "w \<or> unat a < 4294967296"
    and z: "cget w m (unat p + j * esz w) = 0"
  shows "pt_op A c limit zs p j a m = cput w (unat p + j * esz w) (pte_value limit zs a) m"
proof -
  let ?e = "PTGetEntryAtIndex A c p (of_nat j)"
  note e = PTGetEntryAtIndex_ok [OF p c(1) j, of A]
  have fa: "fits w a" using fits_small_addr a(2) by blast
  have link: "PTEntrySetAddress A c ?e a m = cput w (unat ?e) a m"
    using entry_set_link_zero [OF e(2)] z a(1) e(1) by (simp add: PTEntrySetAddress_def c(2) aligned_and)
  have "fits w (zone_flags limit a zs a)"
    using fa by (auto simp: fits_iff_bits zone_flags_bit)
  then show ?thesis
    using entry_set_flag_cput [OF e(2), of w "zone_flags limit a zs a" FlagPresent m]
      pt_zones_cput [OF e(2), of A c a limit a zs False m] fa
    by (simp add: pt_op_def link c(2) PTEntrySetFlag_def pte_value_def flag_values e(1) Let_def)
qed


section \<open>The instances\<close>

lemma ent_wide_pae: "ent_wide A (CPU_EnablePAE c)" "\<not> ent_wide I386 (CPU_DisablePAE c)"
  by (simp_all add: ent_wide_def cpu_switches split: arch.splits)

lemma index_bytes: "j < 512 \<Longrightarrow> j * esz True < 4096" "j < 1024 \<Longrightarrow> j * esz False < 4096"
  by (simp_all add: esz_def)

lemma ptr_next_ok: "unat x + 4096 < 4294967296 \<Longrightarrow> ptr_of A (x + 0x1000) = x + 0x1000"
proof -
  assume x: "unat x + 4096 < 4294967296"
  then have "unat (x + 0x1000) = unat x + 4096" by (simp add: unat_word_ariths)
  moreover have "(4294967296::nat) \<le> 2 ^ ptr_bits A" by (cases A) (simp_all add: ptr_bits_def)
  ultimately show ?thesis using x by (intro ptr_of_fits) linarith
qed

lemma link_op:
  assumes "obj \<noteq> 0" "unat obj = a" "unat x mod 4096 = 0" "fits w x" "cget w m a = 0"
  shows "entry_set_flag w obj FlagPresent True (entry_set_link w obj x m) = cput w a (x OR 1) m"
    "entry_set_flag w obj FlagWriteable True (entry_set_flag w obj FlagPresent True (entry_set_link w obj x m)) =
       cput w a (x OR 3) m"
proof -
  have l: "entry_set_link w obj x m = cput w (unat obj) x m"
    using assms by (intro entry_set_link_zero) (simp_all add: aligned_and)
  have "x OR 1 OR 2 = x OR 3" by (rule bit_word_eqI) (auto simp: bit_simps simp flip: or.assoc)
  then show "entry_set_flag w obj FlagPresent True (entry_set_link w obj x m) = cput w a (x OR 1) m"
    "entry_set_flag w obj FlagWriteable True (entry_set_flag w obj FlagPresent True (entry_set_link w obj x m)) =
       cput w a (x OR 3) m"
    unfolding l assms(2) [symmetric] using assms(1,4)
    by (simp_all add: entry_set_flag_cput flag_values fits_or fits_small or.assoc)
qed

interpretation pt64: table_level True 512 "pt_op A (CPU_EnablePAE c) limit zs" "\<lambda>x. x + 0x1000"
  18446744073709551616 "\<lambda>_. True" "pte_value limit zs" for A c limit zs
proof unfold_locales
  show "fits True (pte_value limit zs x)" for x by (simp add: fits_def)
  show "pt_op A (CPU_EnablePAE c) limit zs p j x m =
      (if True then cput True (unat p + j * esz True) (pte_value limit zs x) m else m)"
    if "table_at p" "j < 512" "unat x mod 4096 = 0" "cget True m (unat p + j * esz True) = 0" for p j x m
    using pt_op_value [OF that(1), of "CPU_EnablePAE c" True A j x m limit zs] that ent_wide_pae(1) [of A c]
      index_bytes(1) [OF that(2)]
    by (simp add: cpu_switches)
qed (simp_all add: esz_def)

interpretation pt32: table_level False 1024 "pt_op I386 (CPU_DisablePAE c) limit zs" "\<lambda>x. x + 0x1000"
  4294967296 "\<lambda>_. True" "pte_value limit zs" for c limit zs
proof unfold_locales
  show "fits False (pte_value limit zs x)" if "unat x < 4294967296" for x
    using that by (simp add: fits_pte fits_small_addr)
  show "pt_op I386 (CPU_DisablePAE c) limit zs p j x m =
      (if True then cput False (unat p + j * esz False) (pte_value limit zs x) m else m)"
    if "table_at p" "j < 1024" "unat x mod 4096 = 0" "unat x < 4294967296"
      "cget False m (unat p + j * esz False) = 0" for p j x m
    using pt_op_value [OF that(1), of "CPU_DisablePAE c" False I386 j x m limit zs] that ent_wide_pae(2) [of c]
      index_bytes(2) [OF that(2)]
    by (simp add: cpu_switches)
qed (simp_all add: esz_def)

interpretation pdt64: table_level True 512 "pdt_op A (CPU_EnablePAE c)" "\<lambda>x. ptr_of A (x + 0x1000)"
  4294967296 "\<lambda>_. True" "\<lambda>x. x OR 3" for A c
proof unfold_locales
  show "pdt_op A (CPU_EnablePAE c) p j x m =
      (if True then cput True (unat p + j * esz True) (x OR 3) m else m)"
    if "table_at p" "j < 512" "unat x mod 4096 = 0" "cget True m (unat p + j * esz True) = 0" for p j x m
    using PTGetEntryAtIndex_ok [OF that(1), of "CPU_EnablePAE c" True j A] that index_bytes(1) [OF that(2)]
      ent_wide_pae(1) [of A c]
    by (simp add: pdt_op_def Let_def PDTEntrySetFlag_def PDTEntrySetPT_def cpu_switches link_op(2) fits_def)
qed (simp_all add: esz_def ptr_next_ok fits_def)

interpretation pdt32: table_level False 1024 "pdt_op I386 (CPU_DisablePAE c)" "\<lambda>x. ptr_of I386 (x + 0x1000)"
  4294967296 "\<lambda>_. True" "\<lambda>x. x OR 3" for c
proof unfold_locales
  show "fits False (x OR 3)" if "unat x < 4294967296" for x :: u64
    using that by (intro fits_or fits_small_addr) simp_all
  show "pdt_op I386 (CPU_DisablePAE c) p j x m =
      (if True then cput False (unat p + j * esz False) (x OR 3) m else m)"
    if "table_at p" "j < 1024" "unat x mod 4096 = 0" "unat x < 4294967296"
      "cget False m (unat p + j * esz False) = 0" for p j x m
    using PTGetEntryAtIndex_ok [OF that(1), of "CPU_DisablePAE c" False j I386] that index_bytes(2) [OF that(2)]
      ent_wide_pae(2) [of c]
    by (simp add: pdt_op_def Let_def PDTEntrySetFlag_def PDTEntrySetPT_def cpu_switches link_op(2) fits_small_addr)
qed (simp_all add: esz_def ptr_next_ok)

interpretation pdpt64: table_level True 512 "pdpt_op A (CPU_EnablePAE c) MapType64" "\<lambda>x. ptr_of A (x + 0x1000)"
  4294967296 "\<lambda>j. j < 4" "\<lambda>x. x OR 3" for A c
proof unfold_locales
  show "pdpt_op A (CPU_EnablePAE c) MapType64 p j x m =
      (if j < 4 then cput True (unat p + j * esz True) (x OR 3) m else m)"
    if "table_at p" "j < 512" "unat x mod 4096 = 0" "cget True m (unat p + j * esz True) = 0" for p j x m
  proof (cases "j < 4")
    case True
    then show ?thesis
      using PDPTGetEntryAtIndex_ok [OF that(1,2), of A "CPU_EnablePAE c"] that ent_wide_pae(1) [of A c]
      by (simp add: pdpt_op_def Let_def PDPTEntrySetFlag_def PDPTEntrySetPDT_def link_op(2) fits_def esz_def)
  next
    case False
    then show ?thesis
      using PDPTGetEntryAtIndex_ok(2) [OF that(1,2), of A "CPU_EnablePAE c"]
      by (simp add: pdpt_op_def PDPTEntrySetFlag_def PDPTEntrySetPDT_def entry_set_flag_def entry_set_link_def Let_def)
  qed
qed (simp_all add: esz_def ptr_next_ok fits_def)

interpretation pml4t64: table_level True 512 "pml4t_op A (CPU_EnablePAE c)" "\<lambda>x. ptr_of A (x + 0x1000)"
  4294967296 "\<lambda>_. True" "\<lambda>x. x OR 3" for A c
proof unfold_locales
  show "pml4t_op A (CPU_EnablePAE c) p j x m =
      (if True then cput True (unat p + j * esz True) (x OR 3) m else m)"
    if "table_at p" "j < 512" "unat x mod 4096 = 0" "cget True m (unat p + j * esz True) = 0" for p j x m
    using PML4TGetEntryAtIndex_ok [OF that(1,2), of A] that ent_wide_pae(1) [of A c]
    by (simp add: pml4t_op_def Let_def PML4TEntrySetFlag_def PML4TEntrySetPDPT_def link_op(2) fits_def esz_def)
qed (simp_all add: esz_def ptr_next_ok fits_def)

end
