(* ===== verification/XEOS_VMWalk.thy ===== *)
theory XEOS_VMWalk
  imports XEOS_VMLevels
begin

text \<open>
  The hardware view of the system map.  walk is the page walk of the processor (Intel SDM, volume 3,
  chapter 4): from the top table in CR3, each level selects an entry by the next bits of the
  virtual address, fails when the entry is not present, and goes on at the frame of the entry; the
  access is writeable when every entry on the way is.  The lemmas connect it to the tables that the
  loops of XEOS_VM_SystemMapInitialize leave in memory.
\<close>

definition frame_mask :: "bool \<Rightarrow> u64" where
  "frame_mask w = (if w then 0x000FFFFFFFFFF000 else 0xFFFFF000)"

definition frame :: "bool \<Rightarrow> u64 \<Rightarrow> nat" where
  "frame w e = unat (e AND frame_mask w)"

primrec walk :: "bool \<Rightarrow> nat \<Rightarrow> nat \<Rightarrow> bytes \<Rightarrow> nat \<Rightarrow> nat \<Rightarrow> (nat \<times> bool) option" where
  "walk w bits 0 m table va = Some (table + va mod 4096, True)"
| "walk w bits (Suc l) m table va =
     (let e = cget w m (table + (va div (4096 * 2 ^ (bits * l)) mod 2 ^ bits) * esz w)
      in if bit e 0
         then map_option (\<lambda>(pa, wr). (pa, wr \<and> bit e 1)) (walk w bits l m (frame w e) va)
         else None)"


section \<open>Entries and frames\<close>

lemma mod4096_bit: "unat (a :: u64) mod 4096 = 0 \<Longrightarrow> n < 12 \<Longrightarrow> \<not> bit a n"
proof -
  assume a: "unat a mod 4096 = 0" and n: "n < 12"
  have "take_bit 12 (unat a) = 0" using a by (simp add: take_bit_eq_mod)
  then have "\<not> bit (take_bit 12 (unat a)) n" by simp
  then show ?thesis using n by (simp add: bit_take_bit_iff bit_unsigned_iff)
qed

lemma lt_pow_bit: "unat (a :: u64) < 2 ^ k \<Longrightarrow> k \<le> n \<Longrightarrow> \<not> bit a n"
proof -
  assume a: "unat a < 2 ^ k" and n: "k \<le> n"
  have "take_bit k (unat a) = unat a" using a by (simp add: take_bit_nat_eq_self)
  then have "bit (unat a) n \<Longrightarrow> n < k" by (metis bit_take_bit_iff)
  then show ?thesis using n by (auto simp: bit_unsigned_iff)
qed

lemma frame_mask_bit: "bit (frame_mask w) n \<longleftrightarrow> 12 \<le> n \<and> n < (if w then 52 else 32)"
proof -
  have "frame_mask w = push_bit 12 (mask (if w then 40 else 20))"
    by (simp add: frame_mask_def mask_eq_exp_minus_1 push_bit_eq_mult)
  then show ?thesis by (auto simp: bit_simps)
qed

lemma frame_eq:
  assumes "\<And>n. 12 \<le> n \<Longrightarrow> bit v n = bit (a :: u64) n" "unat a mod 4096 = 0"
    and "unat a < (if w then 4503599627370496 else 4294967296)"
  shows "frame w v = unat a"
proof -
  have hi: "bit a n \<Longrightarrow> n < (if w then 52 else 32)" for n
    using assms(3) lt_pow_bit [of a 52 n] lt_pow_bit [of a 32 n]
    by (cases w; cases "n < 52"; cases "n < 32") simp_all
  have lo: "bit a n \<Longrightarrow> 12 \<le> n" for n
    using mod4096_bit [OF assms(2), of n] not_less by blast
  have "v AND frame_mask w = a"
  proof (rule bit_word_eqI)
    fix n :: nat
    show "bit (v AND frame_mask w) n = bit a n"
      using assms(1) [of n] hi [of n] lo [of n] by (auto simp: bit_and_iff frame_mask_bit)
  qed
  then show ?thesis by (simp add: frame_def)
qed

lemma bit_3: "bit (3 :: u64) n \<longleftrightarrow> n < 2"
proof -
  have m: "(3 :: u64) = mask 2" by (simp add: mask_eq_exp_minus_1)
  show ?thesis unfolding m by (auto simp only: bit_mask_iff possible_bit_word) simp_all
qed

lemma frame_link:
  assumes "unat (a :: u64) mod 4096 = 0" "unat a < 4294967296"
  shows "frame w (a OR 3) = unat a" "bit (a OR 3) 0" "bit (a OR 3) (Suc 0)"
proof -
  have "bit (a OR 3) n = bit a n" if "12 \<le> n" for n
    using that by (simp only: bit_or_iff bit_3) simp
  then show "frame w (a OR 3) = unat a" using assms by (intro frame_eq) auto
qed (simp_all only: bit_or_iff bit_3, simp_all)

lemma frame_pte:
  assumes "unat a mod 4096 = 0" "unat a < (if w then 4503599627370496 else 4294967296)"
  shows "frame w (pte_value limit zs a) = unat a"
    "bit (pte_value limit zs a) 0 \<longleftrightarrow> page_present limit zs a"
    "bit (pte_value limit zs a) (Suc 0) \<longleftrightarrow> page_writeable zs a"
  using assms mod4096_bit [OF assms(1), of 0] mod4096_bit [OF assms(1), of 1]
  by (auto simp: pte_value_bit intro!: frame_eq)


section \<open>The page table loop\<close>

lemma holds_frame:
  assumes "holds w epp m a G" "epp * esz w = 4096"
    and "\<And>b. a \<le> b \<Longrightarrow> b < a + 4096 \<Longrightarrow> m' b = m b"
  shows "holds w epp m' a G"
  unfolding holds_def
proof (intro allI impI)
  fix j assume j: "j < epp"
  have "Suc j * esz w \<le> 4096" using j assms(2) mult_le_mono1 [of "Suc j" epp "esz w"] by simp
  then have "cget w m' (a + j * esz w) = cget w m (a + j * esz w)"
    using assms(3) by (intro cget_cong) simp
  then show "cget w m' (a + j * esz w) = G j" using assms(1) j by (simp add: holds_def)
qed

lemma pt_fold_done:
  "totalBytes \<le> x \<Longrightarrow> fold (pt_entry A c totalBytes limit zs p) js (m, x) = (m, x)"
  by (induction js) (simp_all add: pt_entry_def)

lemma pt_entry_op:
  "\<not> totalBytes \<le> x \<Longrightarrow> pt_entry A c totalBytes limit zs p k (m, x) =
     (pt_op A c limit zs p k x m, x + 0x1000)"
  by (simp add: pt_entry_def pt_op_def Let_def split_beta)

text \<open>The number of pages, rounded up.\<close>

definition pages_up :: "u64 \<Rightarrow> nat" where
  "pages_up t = unat t div 4096 + (if unat t mod 4096 = 0 then 0 else 1)"

lemma round_up_le: "(t :: nat) \<le> q * 4096 \<longleftrightarrow> t div 4096 + (if t mod 4096 = 0 then 0 else 1) \<le> q"
proof -
  define d r where "d = t div 4096" and "r = t mod 4096"
  have "t = d * 4096 + r" "r < 4096" unfolding d_def r_def by simp_all
  then have "t \<le> q * 4096 \<longleftrightarrow> d + (if r = 0 then 0 else 1) \<le> q" by (cases "d + 1 \<le> q") auto
  then show ?thesis by (simp add: d_def r_def)
qed

lemma pages_up_le: "q < 4503599627370496 \<Longrightarrow> t \<le> of_nat q * 0x1000 \<longleftrightarrow> pages_up t \<le> q"
proof -
  assume q: "q < 4503599627370496"
  then have "unat (of_nat q * 0x1000 :: u64) = q * 4096" by (simp add: unat_word_ariths unat_of_nat)
  then have "t \<le> of_nat q * 0x1000 \<longleftrightarrow> unat t \<le> q * 4096" by (simp add: word_le_nat_alt)
  also have "\<dots> \<longleftrightarrow> pages_up t \<le> q" unfolding pages_up_def by (rule round_up_le)
  finally show ?thesis .
qed

lemma pages_up_bound: "pages_up t \<le> 4503599627370496"
  using unat_u64 [of t] round_up_le [of "unat t" 4503599627370496] by (simp add: pages_up_def)

lemma pt_row_link:
  assumes "k \<le> epp" "epp \<le> 1024" "i * epp + epp < 4503599627370496" "pages_up t < 4503599627370496"
    and "q = min (pages_up t) (i * epp + k)"
  shows "fold (pt_entry A c t limit zs p) [k..<epp] (m, of_nat q * 0x1000) =
    link_entries (pt_op A c limit zs p) (\<lambda>x. x + 0x1000) (of_nat epp) (of_nat (pages_up t)) i [k..<epp]
      (m, of_nat q * 0x1000)"
  using assms(1,5)
proof (induction "epp - k" arbitrary: k m q)
  case (Suc d)
  then have k: "k < epp" and d: "d = epp - Suc k" by auto
  have split: "[k..<epp] = k # [Suc k..<epp]" using k by (rule upt_conv_Cons)
  have lt: "i * epp + k < 4503599627370496" using assms(3) k by simp
  have "unat (of_nat i * of_nat epp + of_nat k :: u64) = i * epp + k"
    using lt by (simp add: unat_of_nat flip: of_nat_mult of_nat_add)
  then have cond: "of_nat (pages_up t) \<le> (of_nat i * of_nat epp + of_nat k :: u64) \<longleftrightarrow> pages_up t \<le> i * epp + k"
    using assms(4) by (simp add: word_le_nat_alt unat_of_nat)
  have q: "t \<le> of_nat q * 0x1000 \<longleftrightarrow> pages_up t \<le> q"
    using pages_up_le [of q t] Suc.prems(2) lt by simp
  show ?case
  proof (cases "pages_up t \<le> i * epp + k")
    case True
    then have "t \<le> of_nat q * 0x1000" using q Suc.prems(2) by simp
    then have "fold (pt_entry A c t limit zs p) [k..<epp] (m, of_nat q * 0x1000) = (m, of_nat q * 0x1000)"
      by (rule pt_fold_done)
    then show ?thesis unfolding split using True cond by simp
  next
    case False
    then have qk: "q = i * epp + k" "\<not> t \<le> of_nat q * 0x1000" using Suc.prems(2) q by auto
    have next_q: "(of_nat q * 0x1000 :: u64) + 0x1000 = of_nat (Suc q) * 0x1000"
      by (simp add: algebra_simps)
    let ?m = "pt_op A c limit zs p k (of_nat q * 0x1000) m"
    have e: "pt_entry A c t limit zs p k (m, of_nat q * 0x1000) = (?m, of_nat (Suc q) * 0x1000)"
      using pt_entry_op [OF qk(2)] next_q by simp
    have "Suc q = min (pages_up t) (i * epp + Suc k)" using False qk(1) by simp
    note IH = Suc.hyps(1) [OF d Suc_leI [OF k] this, of ?m]
    have "fold (pt_entry A c t limit zs p) (k # [Suc k..<epp]) (m, of_nat q * 0x1000) =
        fold (pt_entry A c t limit zs p) [Suc k..<epp] (?m, of_nat (Suc q) * 0x1000)"
      by (simp only: fold_simps e)
    also note IH
    also have "link_entries (pt_op A c limit zs p) (\<lambda>x. x + 0x1000) (of_nat epp) (of_nat (pages_up t)) i [Suc k..<epp]
          (?m, of_nat (Suc q) * 0x1000) =
        link_entries (pt_op A c limit zs p) (\<lambda>x. x + 0x1000) (of_nat epp) (of_nat (pages_up t)) i (k # [Suc k..<epp])
          (m, of_nat q * 0x1000)"
      unfolding link_entries.simps using False cond next_q by (simp add: add.commute)
    finally show ?thesis unfolding split .
  qed
qed simp

lemma pt_table_link:
  assumes "epp \<le> 1024" "n * epp + epp < 4503599627370496" "pages_up t < 4503599627370496"
  shows "pt_table A c t limit zs epp n (m, of_nat (min (pages_up t) (n * epp)) * 0x1000, p) =
    link_table A (pt_op A c limit zs) (\<lambda>x. x + 0x1000) (of_nat epp) (of_nat (pages_up t)) n
      (m, of_nat (min (pages_up t) (n * epp)) * 0x1000, p)"
proof -
  have "unat (of_nat epp :: u64) = epp" using assms(1) by (simp add: unat_of_nat)
  then show ?thesis
    using pt_row_link [of 0 epp n t "min (pages_up t) (n * epp)" A c limit zs p "table_clear p m"] assms
    by (simp add: pt_table_def link_table_def PTClear_def)
qed

context table_level
begin

lemma pt_tables_link:
  assumes "E = pt_op A c limit zs" "nxt = (\<lambda>x. x + 0x1000)"
    and "P \<noteq> 0" "unat P mod 4096 = 0" "unat P + n * 4096 < 4294967296"
    and "pages_up t * 4096 < lim" "\<forall>i < n. i * epp \<le> pages_up t" "pages_up t < 1099511627776"
  shows "pt_tables A c t limit zs epp n (m, 0, P) =
    link_tables A E nxt (of_nat epp) (of_nat (pages_up t)) n (m, 0, P)"
  using assms(5,7)
proof (induction n)
  case 0
  then show ?case by (simp add: pt_tables_def link_tables_def)
next
  case (Suc n)
  obtain m1 where m1: "link_tables A E nxt (of_nat epp) (of_nat (pages_up t)) n (m, 0, P) =
      (m1, 0 + of_nat (min (pages_up t) (n * epp)) * 0x1000, P + of_nat n * 0x1000)"
    using tables [OF assms(3,4), of n 0 "pages_up t"] Suc.prems assms(6,8) by force
  have "n * epp + epp < 4503599627370496" using Suc.prems(2) epp_bounds assms(8) by fastforce
  then have "pt_table A c t limit zs epp n (m1, of_nat (min (pages_up t) (n * epp)) * 0x1000, P + of_nat n * 0x1000) =
      link_table A E nxt (of_nat epp) (of_nat (pages_up t)) n
        (m1, of_nat (min (pages_up t) (n * epp)) * 0x1000, P + of_nat n * 0x1000)"
    using pt_table_link [of epp n t A c limit zs m1] epp_bounds assms(1,2,8) by simp
  moreover have "pt_tables A c t limit zs epp n (m, 0, P) =
      link_tables A E nxt (of_nat epp) (of_nat (pages_up t)) n (m, 0, P)"
    using Suc by simp
  ultimately show ?case
    using m1 by (simp add: link_tables_Suc) (simp add: pt_tables_def)
qed

end

end
