(* ===== verification/XEOS_VMMap.thy ===== *)
theory XEOS_VMMap
  imports XEOS_VMWalk
begin

text \<open>
  The x86-64 system map: the table counts of the layout, the contents of all tables after
  XEOS_VM_SystemMapInitialize, and what the processor sees through them.
\<close>

section \<open>Layout\<close>

definition cdiv :: "nat \<Rightarrow> nat" where
  "cdiv n = n div 512 + (if n mod 512 = 0 then 0 else 1)"

lemma cdiv_le: "n \<le> q * 512 \<longleftrightarrow> cdiv n \<le> q"
proof -
  define d r where "d = n div 512" and "r = n mod 512"
  have "n = d * 512 + r" "r < 512" unfolding d_def r_def by simp_all
  then have "n \<le> q * 512 \<longleftrightarrow> d + (if r = 0 then 0 else 1) \<le> q" by (cases "d + 1 \<le> q") auto
  then show ?thesis by (simp add: cdiv_def d_def r_def)
qed

lemma cdiv_mult: "n \<le> cdiv n * 512" "i < cdiv n \<Longrightarrow> i * 512 < n"
  using cdiv_le [of n "cdiv n"] cdiv_le [of n i] by auto

lemma cdiv_index: "q < n \<Longrightarrow> q div 512 < cdiv n"
  using cdiv_mult(1) [of n] by (intro less_mult_imp_div_less) simp

lemma max_cdiv: "i < max 1 (cdiv n) \<Longrightarrow> i * 512 \<le> n"
  using cdiv_mult(2) [of i n] by (cases "i = 0") (auto simp: less_max_iff_disj)

lemma unat_ceil:
  "1 < unat k \<Longrightarrow> unat ((x :: u64) div k + (if x mod k = 0 then 0 else 1)) =
     unat x div unat k + (if unat x mod unat k = 0 then 0 else 1)"
proof -
  assume k: "1 < unat k"
  have z: "x mod k = 0 \<longleftrightarrow> unat x mod unat k = 0" by (simp add: unat_mod flip: unat_eq_zero)
  have "unat x div unat k \<le> unat x div 2" using k by (intro div_le_mono2) simp_all
  then have "unat (x div k) + 1 < 18446744073709551616" using unat_u64 [of x] by (simp add: unat_div)
  then show ?thesis using z by (auto simp: unat_add_u64 unat_div)
qed

lemma unat_table_count: "unat (table_count n) = max 1 (cdiv (unat n))"
proof (cases "0x200 < n")
  case True
  then have n: "512 < unat n" by (simp add: word_less_nat_alt)
  then have "1 \<le> unat n div 512" by (simp add: div_greater_zero_iff)
  moreover have "unat (n div 0x200) = unat n div 512" by (simp add: unat_div)
  ultimately have "n div 0x200 \<noteq> 0" by (metis not_one_le_zero unsigned_0)
  then show ?thesis
    using True unat_ceil [of "0x200" n] \<open>1 \<le> unat n div 512\<close>
    by (simp add: table_count_def cdiv_def Let_def max_def)
next
  case False
  then have "unat n \<le> 512" by (simp add: word_less_nat_alt)
  then have "cdiv (unat n) \<le> 1" using cdiv_le [of "unat n" 1] by simp
  then show ?thesis using False by (simp add: table_count_def)
qed

definition pt_n :: "u64 \<Rightarrow> nat" where "pt_n t = cdiv (pages_up t)"
definition pdt_n :: "u64 \<Rightarrow> nat" where "pdt_n t = max 1 (cdiv (pt_n t))"
definition pdpt_n :: "u64 \<Rightarrow> nat" where "pdpt_n t = max 1 (cdiv (pdt_n t))"

lemma layout64:
  "ly_ptEntriesPerPT (map_layout MapType64 t) = 0x200"
  "unat (ly_ptEntriesCount (map_layout MapType64 t)) = pages_up t"
  "unat (ly_ptCount (map_layout MapType64 t)) = pt_n t"
  "unat (ly_pdtCount (map_layout MapType64 t)) = pdt_n t"
  "unat (ly_pdptCount (map_layout MapType64 t)) = pdpt_n t"
  "unat (ly_pml4tCount (map_layout MapType64 t)) = 1"
proof -
  show e: "unat (ly_ptEntriesCount (map_layout MapType64 t)) = pages_up t"
    using unat_ceil [of "0x1000" t] by (simp add: map_layout_def map_types pages_up_def Let_def)
  show p: "unat (ly_ptCount (map_layout MapType64 t)) = pt_n t"
    using unat_ceil [of "0x200" "ly_ptEntriesCount (map_layout MapType64 t)"] e
    by (simp add: map_layout_def map_types pt_n_def cdiv_def Let_def)
  show d: "unat (ly_pdtCount (map_layout MapType64 t)) = pdt_n t"
    using unat_table_count [of "ly_ptCount (map_layout MapType64 t)"] p
    by (simp add: map_layout_def map_types pdt_n_def Let_def)
  show "unat (ly_pdptCount (map_layout MapType64 t)) = pdpt_n t"
    using unat_table_count [of "ly_pdtCount (map_layout MapType64 t)"] d
    by (simp add: map_layout_def map_types pdpt_n_def Let_def)
qed (simp_all add: map_layout_def map_types Let_def)

lemma cdiv_small: "n \<le> 4503599627370496 \<Longrightarrow> cdiv n \<le> 8796093022208"
  using cdiv_le [of n 8796093022208] by simp

lemma table_bounds:
  "pt_n t \<le> 8796093022208" "pdt_n t \<le> 8796093022208" "pdpt_n t \<le> 8796093022208"
  using pages_up_bound [of t] cdiv_small [of "pages_up t"] cdiv_small [of "pt_n t"] cdiv_small [of "pdt_n t"]
  by (simp_all add: pt_n_def pdt_n_def pdpt_n_def)

lemma unat_map_memory64:
  "unat (map_memory (map_layout MapType64 t)) = (pt_n t + pdt_n t + pdpt_n t + 1) * 4096"
  using table_bounds [of t]
  by (simp add: map_memory_def unat_word_ariths layout64)


section \<open>The tables in memory\<close>

lemma say_simps [simp]:
  "vs_bytes (say h x s) = vs_bytes s" "vs_cpu (say h x s) = vs_cpu s" "vs_mem (say h x s) = vs_mem s"
  "vs_map (say h x s) = vs_map s"
  by (simp_all add: say_def)

lemma say_all_fields:
  "vs_bytes (fold (say h) xs s) = vs_bytes s \<and> vs_cpu (fold (say h) xs s) = vs_cpu s \<and>
   vs_mem (fold (say h) xs s) = vs_mem s \<and> vs_map (fold (say h) xs s) = vs_map s"
  by (induction xs arbitrary: s) simp_all

lemma say_all [simp]:
  "vs_bytes (fold (say h) xs s) = vs_bytes s" "vs_cpu (fold (say h) xs s) = vs_cpu s"
  "vs_mem (fold (say h) xs s) = vs_mem s" "vs_map (fold (say h) xs s) = vs_map s"
  using say_all_fields [of h xs s] by blast+

lemma layout_lines_fields:
  "vs_bytes (layout_lines h ty t l s) = vs_bytes s \<and> vs_cpu (layout_lines h ty t l s) = vs_cpu s \<and>
   vs_mem (layout_lines h ty t l s) = vs_mem s \<and> vs_map (layout_lines h ty t l s) = vs_map s"
  by (subst (1 2 3 4) layout_lines_def) (rule say_all_fields)

lemmas layout_lines_simps [simp] =
  layout_lines_fields [THEN conjunct1]
  layout_lines_fields [THEN conjunct2, THEN conjunct1]
  layout_lines_fields [THEN conjunct2, THEN conjunct2, THEN conjunct1]
  layout_lines_fields [THEN conjunct2, THEN conjunct2, THEN conjunct2]

lemma ent_wide_cong: "CPU_PAEEnabled c = CPU_PAEEnabled c' \<Longrightarrow> ent_wide A c = ent_wide A c'"
  by (simp add: ent_wide_def split: arch.splits)

lemma pt_zones_cong:
  "CPU_PAEEnabled c = CPU_PAEEnabled c' \<Longrightarrow> pt_zones A c = pt_zones A c'"
proof -
  assume "CPU_PAEEnabled c = CPU_PAEEnabled c'"
  then have "ent_wide A c = ent_wide A c'" by (rule ent_wide_cong)
  then have "PTEntrySetFlag A c = PTEntrySetFlag A c'" by (simp add: PTEntrySetFlag_def)
  then have "pt_zones A c limit a e zs f m = pt_zones A c' limit a e zs f m" for limit a e zs f m
    by (induction zs arbitrary: f m) simp_all
  then show ?thesis by (simp add: fun_eq_iff)
qed

lemma ops_cong:
  assumes "CPU_PAEEnabled c = CPU_PAEEnabled c'"
  shows "pt_op A c = pt_op A c'" "pdt_op A c = pdt_op A c'" "pdpt_op A c = pdpt_op A c'"
    "pml4t_op A c = pml4t_op A c'"
proof -
  have eqs: "PTGetEntryAtIndex A c = PTGetEntryAtIndex A c'" "PDTGetEntryAtIndex A c = PDTGetEntryAtIndex A c'"
    "PDPTGetEntryAtIndex A c = PDPTGetEntryAtIndex A c'"
    "PTEntrySetFlag A c = PTEntrySetFlag A c'" "PDTEntrySetFlag A c = PDTEntrySetFlag A c'"
    "PDPTEntrySetFlag A c = PDPTEntrySetFlag A c'" "PML4TEntrySetFlag A c = PML4TEntrySetFlag A c'"
    "PTEntrySetAddress A c = PTEntrySetAddress A c'" "PDTEntrySetPT A c = PDTEntrySetPT A c'"
    "PDPTEntrySetPDT A c = PDPTEntrySetPDT A c'" "PML4TEntrySetPDPT A c = PML4TEntrySetPDPT A c'"
    using ent_wide_cong [OF assms, of A] assms
    by (simp_all add: fun_eq_iff PTGetEntryAtIndex_def
      PDTGetEntryAtIndex_def PDPTGetEntryAtIndex_def PTEntrySetFlag_def PDTEntrySetFlag_def
      PDPTEntrySetFlag_def PML4TEntrySetFlag_def PTEntrySetAddress_def PDTEntrySetPT_def
      PDPTEntrySetPDT_def PML4TEntrySetPDPT_def)
  note eqs = eqs pt_zones_cong [OF assms, of A]
  show "pt_op A c = pt_op A c'" "pdt_op A c = pdt_op A c'" "pdpt_op A c = pdpt_op A c'"
    "pml4t_op A c = pml4t_op A c'"
    unfolding pt_op_def [abs_def] pdt_op_def [abs_def] pdpt_op_def [abs_def] pml4t_op_def [abs_def] eqs
    by (rule refl)+
qed

lemma build_map64_parts:
  assumes "pt_tables A (vs_cpu s) t (base + map_memory l) (chain (vs_mem s)) (unat (ly_ptEntriesPerPT l))
             (unat (ly_ptCount l)) (vs_bytes s, 0, base) = (m1, a1, p1)"
    and "pdt_tables A (vs_cpu s) (ly_ptEntriesPerPT l) (ly_ptCount l) (unat (ly_pdtCount l)) (m1, base, p1) = (m2, x2, p2)"
    and "pdpt_tables A (vs_cpu s) MapType64 (ly_ptEntriesPerPT l) (ly_pdtCount l) (unat (ly_pdptCount l)) (m2, x2, p2) = (m3, x3, p3)"
    and "pml4t_tables A (vs_cpu s) (ly_ptEntriesPerPT l) (ly_pdptCount l) (unat (ly_pml4tCount l)) (m3, x3, p3) = (m4, x4, p4)"
  shows "vs_bytes (build_map A h MapType64 t l base s) = m4"
    "vs_cpu (build_map A h MapType64 t l base s) = CPU_SetCR3 (ucast x4) (vs_cpu s)"
    "vs_mem (build_map A h MapType64 t l base s) = vs_mem s"
    "vs_map (build_map A h MapType64 t l base s) = MemoryMapSetCR3 (ucast x4) (vs_map s)"
  using assms by (simp_all add: build_map_def map_types set_cr3_def)


text \<open>The four regions of the system map and what their tables hold.\<close>

definition map64_tables :: "u64 \<Rightarrow> u64 \<Rightarrow> zone list \<Rightarrow> u64 \<Rightarrow> bytes \<Rightarrow> bool" where
  "map64_tables t limit zs base m \<longleftrightarrow>
     (let a = pt_n t; b = pdt_n t; c = pdpt_n t; S = unat base in
      (\<forall>i < a. holds True 512 m (S + i * 4096)
         (\<lambda>j. if i * 512 + j < pages_up t then pte_value limit zs (of_nat (i * 512 + j) * 0x1000) else 0)) \<and>
      (\<forall>i < b. holds True 512 m (S + (a + i) * 4096)
         (\<lambda>j. if i * 512 + j < a then (base + of_nat (i * 512 + j) * 0x1000) OR 3 else 0)) \<and>
      (\<forall>i < c. holds True 512 m (S + (a + b + i) * 4096)
         (\<lambda>j. if i * 512 + j < b \<and> j < 4 then (base + of_nat a * 0x1000 + of_nat (i * 512 + j) * 0x1000) OR 3 else 0)) \<and>
      holds True 512 m (S + (a + b + c) * 4096)
         (\<lambda>j. if j < c then (base + of_nat (a + b) * 0x1000 + of_nat j * 0x1000) OR 3 else 0))"

lemma holds_keep:
  assumes "holds True 512 m a G" "\<forall>b. b < lo \<or> hi \<le> b \<longrightarrow> m' b = m b" "a + 4096 \<le> lo"
  shows "holds True 512 m' a G"
  using assms by (intro holds_frame [OF assms(1)]) (auto simp: esz_def)

lemma word_eq_of_nat: "unat (x :: u64) = n \<Longrightarrow> x = of_nat n"
  by auto

lemma table_links:
  fixes base :: u64
  assumes "unat base + (k + n) * 4096 < 4294967296" "unat base mod 4096 = 0" "base \<noteq> 0"
  shows "unat (base + of_nat k * 0x1000) = unat base + k * 4096" "base + of_nat k * 0x1000 \<noteq> 0"
    "unat (base + of_nat k * 0x1000) mod 4096 = 0"
proof -
  have lt: "unat base + k * 4096 < 4294967296" using assms(1) by (simp add: add_mult_distrib)
  show u: "unat (base + of_nat k * 0x1000) = unat base + k * 4096"
    using lt by (simp add: unat_word_ariths unat_of_nat)
  show "base + of_nat k * 0x1000 \<noteq> 0"
    using u assms(3) by (metis add_is_0 unsigned_0 unat_eq_zero)
  show "unat (base + of_nat k * 0x1000) mod 4096 = 0" using u assms(2) by simp
qed

text \<open>What the loop of each level leaves in memory.\<close>

lemma level_pt:
  assumes "CPU_PAEEnabled c" "P \<noteq> 0" "unat P mod 4096 = 0" "unat P + n * 4096 < 4294967296"
    and "\<forall>i < n. i * 512 \<le> pages_up t" "pages_up t \<le> n * 512"
  shows "\<exists>m' x. pt_tables A c t limit zs 512 n (m, 0, P) = (m', x, P + of_nat n * 0x1000) \<and>
    (\<forall>i < n. holds True 512 m' (unat P + i * 4096)
       (\<lambda>j. if i * 512 + j < pages_up t then pte_value limit zs (of_nat (i * 512 + j) * 0x1000) else 0)) \<and>
    (\<forall>b. b < unat P \<or> unat P + n * 4096 \<le> b \<longrightarrow> m' b = m b)"
proof -
  have N: "pages_up t < 1099511627776" using assms(4,6) by simp
  have ops: "pt_op A (CPU_EnablePAE c) limit zs = pt_op A c limit zs"
    using ops_cong [of "CPU_EnablePAE c" c A] assms(1) by (simp add: cpu_switches)
  have z: "unat (0 :: u64) mod 4096 = 0" "unat (0 :: u64) + pages_up t * 4096 < 18446744073709551616"
    "pages_up t < 4503599627370496" "pages_up t * 4096 < 18446744073709551616"
    using N by simp_all
  note T = pt64.tables [OF assms(2-4) z(1,2) assms(5) z(3), of A A c limit zs m]
  note L = pt64.pt_tables_link [OF ops refl assms(2-4) z(4) assms(5) N, of m]
  show ?thesis using T unfolding pt64.entry_def [abs_def] ops L [unfolded ops, symmetric] add_0 if_True simp_thms by blast
qed

lemma level_pdt:
  fixes X P :: u64
  assumes "CPU_PAEEnabled c" "P \<noteq> 0" "unat P mod 4096 = 0" "unat P + n * 4096 < 4294967296"
    and "unat X mod 4096 = 0" "unat X + cnt * 4096 < 4294967296" "\<forall>i < n. i * 512 \<le> cnt" "cnt \<le> n * 512"
  shows "\<exists>m'. pdt_tables A c (of_nat 512) (of_nat cnt) n (m, X, P) =
      (m', X + of_nat cnt * 0x1000, P + of_nat n * 0x1000) \<and>
    (\<forall>i < n. holds True 512 m' (unat P + i * 4096)
       (\<lambda>j. if i * 512 + j < cnt then (X + of_nat (i * 512 + j) * 0x1000) OR 3 else 0)) \<and>
    (\<forall>b. b < unat P \<or> unat P + n * 4096 \<le> b \<longrightarrow> m' b = m b)"
proof -
  have "cnt < 4503599627370496" using assms(6) by simp
  note T = pdt64.tables [OF assms(2-7) this, of A A c m]
  have "pdt_op A (CPU_EnablePAE c) = pdt_op A c" using ops_cong [of "CPU_EnablePAE c" c A] assms(1) by (simp add: cpu_switches)
  then show ?thesis
    using T assms(8) unfolding pdt64.entry_def [abs_def] by (simp add: pdt_tables_link min_def)
qed

lemma level_pdpt:
  fixes X P :: u64
  assumes "CPU_PAEEnabled c" "P \<noteq> 0" "unat P mod 4096 = 0" "unat P + n * 4096 < 4294967296"
    and "unat X mod 4096 = 0" "unat X + cnt * 4096 < 4294967296" "\<forall>i < n. i * 512 \<le> cnt" "cnt \<le> n * 512"
  shows "\<exists>m'. pdpt_tables A c MapType64 (of_nat 512) (of_nat cnt) n (m, X, P) =
      (m', X + of_nat cnt * 0x1000, P + of_nat n * 0x1000) \<and>
    (\<forall>i < n. holds True 512 m' (unat P + i * 4096)
       (\<lambda>j. if i * 512 + j < cnt \<and> j < 4 then (X + of_nat (i * 512 + j) * 0x1000) OR 3 else 0)) \<and>
    (\<forall>b. b < unat P \<or> unat P + n * 4096 \<le> b \<longrightarrow> m' b = m b)"
proof -
  have "cnt < 4503599627370496" using assms(6) by simp
  note T = pdpt64.tables [OF assms(2-7) this, of A A c m]
  have "pdpt_op A (CPU_EnablePAE c) = pdpt_op A c" using ops_cong [of "CPU_EnablePAE c" c A] assms(1) by (simp add: cpu_switches)
  then show ?thesis
    using T assms(8) unfolding pdpt64.entry_def [abs_def] by (simp add: pdpt_tables_link min_def)
qed

lemma level_pml4t:
  fixes X P :: u64
  assumes "CPU_PAEEnabled c" "P \<noteq> 0" "unat P mod 4096 = 0" "unat P + n * 4096 < 4294967296"
    and "unat X mod 4096 = 0" "unat X + cnt * 4096 < 4294967296" "\<forall>i < n. i * 512 \<le> cnt" "cnt \<le> n * 512"
  shows "\<exists>m'. pml4t_tables A c (of_nat 512) (of_nat cnt) n (m, X, P) =
      (m', X + of_nat cnt * 0x1000, P + of_nat n * 0x1000) \<and>
    (\<forall>i < n. holds True 512 m' (unat P + i * 4096)
       (\<lambda>j. if i * 512 + j < cnt then (X + of_nat (i * 512 + j) * 0x1000) OR 3 else 0)) \<and>
    (\<forall>b. b < unat P \<or> unat P + n * 4096 \<le> b \<longrightarrow> m' b = m b)"
proof -
  have "cnt < 4503599627370496" using assms(6) by simp
  note T = pml4t64.tables [OF assms(2-7) this, of A A c m]
  have "pml4t_op A (CPU_EnablePAE c) = pml4t_op A c" using ops_cong [of "CPU_EnablePAE c" c A] assms(1) by (simp add: cpu_switches)
  then show ?thesis
    using T assms(8) unfolding pml4t64.entry_def [abs_def] by (simp add: pml4t_tables_link min_def)
qed

text \<open>The numbers of tables of each level that the levels above and below need.\<close>

lemma counts64:
  "\<forall>i < pt_n t. i * 512 \<le> pages_up t" "pages_up t \<le> pt_n t * 512"
  "\<forall>i < pdt_n t. i * 512 \<le> pt_n t" "pt_n t \<le> pdt_n t * 512"
  "\<forall>i < pdpt_n t. i * 512 \<le> pdt_n t" "pdt_n t \<le> pdpt_n t * 512"
  "pt_n t < 1048576 \<Longrightarrow> pdpt_n t \<le> 512"
proof -
  show "\<forall>i < pt_n t. i * 512 \<le> pages_up t" "pages_up t \<le> pt_n t * 512"
    using cdiv_mult(1) [of "pages_up t"] cdiv_mult(2) [of _ "pages_up t"] by (auto simp: pt_n_def intro: less_imp_le)
  show "\<forall>i < pdt_n t. i * 512 \<le> pt_n t" "pt_n t \<le> pdt_n t * 512"
    using max_cdiv [of _ "pt_n t"] cdiv_mult(1) [of "pt_n t"] by (auto simp: pdt_n_def)
  show "\<forall>i < pdpt_n t. i * 512 \<le> pdt_n t" "pdt_n t \<le> pdpt_n t * 512"
    using max_cdiv [of _ "pdt_n t"] cdiv_mult(1) [of "pdt_n t"] by (auto simp: pdpt_n_def)
  show "pdpt_n t \<le> 512" if "pt_n t < 1048576"
  proof -
    have "cdiv (pt_n t) \<le> 2048" using cdiv_le [of "pt_n t" 2048] that by simp
    then have "pdt_n t \<le> 512 * 512" by (simp add: pdt_n_def)
    then have "cdiv (pdt_n t) \<le> 512" using cdiv_le [of "pdt_n t" 512] by blast
    then show ?thesis by (simp add: pdpt_n_def)
  qed
qed

text \<open>Consecutive tables stay what they are when memory only changes outside of them.\<close>

lemma holds_tables_frame:
  assumes "\<forall>i < n. holds True 512 m (S + (k + i) * 4096) (G i)"
    and "\<And>x. S + k * 4096 \<le> x \<Longrightarrow> x < S + (k + n) * 4096 \<Longrightarrow> m' x = m x"
  shows "\<forall>i < n. holds True 512 m' (S + (k + i) * 4096) (G i)"
proof (intro allI impI)
  fix i assume i: "i < n"
  have "S + (k + i) * 4096 + 4096 \<le> S + (k + n) * 4096" "S + k * 4096 \<le> S + (k + i) * 4096"
    using mult_le_mono1 [of "k + Suc i" "k + n" 4096] i by simp_all
  then show "holds True 512 m' (S + (k + i) * 4096) (G i)"
    using assms(2) by (intro holds_frame [OF assms(1) [rule_format, OF i]]) (simp_all add: esz_def)
qed

lemma build_map64_tables:
  assumes pae: "CPU_PAEEnabled (vs_cpu s)"
    and b: "base \<noteq> 0" "unat base mod 4096 = 0"
    and fit: "unat base + (pt_n t + pdt_n t + pdpt_n t + 1) * 4096 < 4294967296"
  shows "map64_tables t (base + map_memory (map_layout MapType64 t)) (chain (vs_mem s)) base
           (vs_bytes (build_map X86_64 h MapType64 t (map_layout MapType64 t) base s)) \<and>
         vs_cpu (build_map X86_64 h MapType64 t (map_layout MapType64 t) base s) =
           CPU_SetCR3 (of_nat (unat base + (pt_n t + pdt_n t + pdpt_n t) * 4096)) (vs_cpu s)"
proof -
  let ?A = X86_64 and ?l = "map_layout MapType64 t" and ?c = "vs_cpu s" and ?S = "unat base"
  let ?a = "pt_n t" and ?b = "pdt_n t" and ?d = "pdpt_n t" and ?N = "pages_up t"
  let ?lim = "base + map_memory ?l" and ?zs = "chain (vs_mem s)"
  let ?p1 = "base + of_nat ?a * 0x1000" and ?p2 = "base + of_nat (?a + ?b) * 0x1000"
  let ?p3 = "base + of_nat (?a + ?b + ?d) * 0x1000"
  note ops = ops_cong [of "CPU_EnablePAE ?c" ?c ?A] pae
  have ops: "pt_op ?A (CPU_EnablePAE ?c) = pt_op ?A ?c" "pdt_op ?A (CPU_EnablePAE ?c) = pdt_op ?A ?c"
    "pdpt_op ?A (CPU_EnablePAE ?c) = pdpt_op ?A ?c" "pml4t_op ?A (CPU_EnablePAE ?c) = pml4t_op ?A ?c"
    using ops_cong [of "CPU_EnablePAE ?c" ?c ?A] pae by (simp_all add: cpu_switches)
  have lay: "ly_ptEntriesPerPT ?l = of_nat 512" "ly_ptCount ?l = of_nat ?a" "ly_pdtCount ?l = of_nat ?b"
    "ly_pdptCount ?l = of_nat ?d"
    using layout64 [of t] by (simp_all add: word_eq_of_nat)
  have small: "?a < 1048576" "?b < 1048576" "?d < 1048576" using fit by simp_all
  have p1: "unat ?p1 = ?S + ?a * 4096" "?p1 \<noteq> 0" "unat ?p1 mod 4096 = 0"
    using table_links [of base ?a "?b + ?d + 1"] fit b by (simp_all add: algebra_simps)
  have p2: "unat ?p2 = ?S + (?a + ?b) * 4096" "?p2 \<noteq> 0" "unat ?p2 mod 4096 = 0"
    using table_links [of base "?a + ?b" "?d + 1"] fit b by (simp_all add: algebra_simps)
  have p3: "unat ?p3 = ?S + (?a + ?b + ?d) * 4096" "?p3 \<noteq> 0" "unat ?p3 mod 4096 = 0"
    using table_links [of base "?a + ?b + ?d" 1] fit b by (simp_all add: algebra_simps)
  note n = counts64 [of t]
  obtain m1 x1 where L1: "pt_tables ?A ?c t ?lim ?zs 512 ?a (vs_bytes s, 0, base) = (m1, x1, ?p1)"
    and H1: "\<forall>i < ?a. holds True 512 m1 (?S + i * 4096)
       (\<lambda>j. if i * 512 + j < ?N then pte_value ?lim ?zs (of_nat (i * 512 + j) * 0x1000) else 0)"
    using level_pt [OF pae b _ n(1,2), of ?A ?lim ?zs "vs_bytes s"] fit by auto
  obtain m2 where L2: "pdt_tables ?A ?c (of_nat 512) (of_nat ?a) ?b (m1, base, ?p1) = (m2, ?p1, ?p1 + of_nat ?b * 0x1000)"
    and H2: "\<forall>i < ?b. holds True 512 m2 (?S + (?a + i) * 4096)
       (\<lambda>j. if i * 512 + j < ?a then (base + of_nat (i * 512 + j) * 0x1000) OR 3 else 0)"
    and F2: "\<forall>x. x < ?S + ?a * 4096 \<or> ?S + (?a + ?b) * 4096 \<le> x \<longrightarrow> m2 x = m1 x"
    using level_pdt [OF pae p1(2,3) _ b(2) _ n(3,4), of ?A m1] fit p1(1)
    by (auto simp: algebra_simps)
  have n2: "?p1 + of_nat ?b * 0x1000 = ?p2" by (simp add: algebra_simps)
  obtain m3 where L3: "pdpt_tables ?A ?c MapType64 (of_nat 512) (of_nat ?b) ?d (m2, ?p1, ?p2) = (m3, ?p2, ?p2 + of_nat ?d * 0x1000)"
    and H3: "\<forall>i < ?d. holds True 512 m3 (?S + (?a + ?b + i) * 4096)
       (\<lambda>j. if i * 512 + j < ?b \<and> j < 4 then (?p1 + of_nat (i * 512 + j) * 0x1000) OR 3 else 0)"
    and F3: "\<forall>x. x < ?S + (?a + ?b) * 4096 \<or> ?S + (?a + ?b + ?d) * 4096 \<le> x \<longrightarrow> m3 x = m2 x"
    using level_pdpt [OF pae p2(2,3) _ p1(3) _ n(5,6), of ?A m2] fit p1(1) p2(1)
    by (auto simp: algebra_simps)
  have n3: "?p2 + of_nat ?d * 0x1000 = ?p3" by (simp add: algebra_simps)
  have q: "unat ?p3 + 1 * 4096 < 4294967296" "unat ?p2 + ?d * 4096 < 4294967296" "\<forall>i < 1. i * 512 \<le> ?d" "?d \<le> 1 * 512"
    using fit p2(1) p3(1) n(7) small(1) by (simp_all add: algebra_simps)
  obtain m4 where L4: "pml4t_tables ?A ?c (of_nat 512) (of_nat ?d) 1 (m3, ?p2, ?p3) = (m4, ?p2 + of_nat ?d * 0x1000, ?p3 + of_nat 1 * 0x1000)"
    and H4': "\<forall>i < 1. holds True 512 m4 (unat ?p3 + i * 4096)
       (\<lambda>j. if i * 512 + j < ?d then (?p2 + of_nat (i * 512 + j) * 0x1000) OR 3 else 0)"
    and F4': "\<forall>x. x < unat ?p3 \<or> unat ?p3 + 1 * 4096 \<le> x \<longrightarrow> m4 x = m3 x"
    using level_pml4t [OF pae p3(2,3) q(1) p2(3) q(2-4), of ?A m3] by blast
  have H4: "holds True 512 m4 (?S + (?a + ?b + ?d) * 4096)
       (\<lambda>j. if j < ?d then (?p2 + of_nat j * 0x1000) OR 3 else 0)"
    using H4' [rule_format, of 0] unfolding p3(1) mult_zero_left add_0_left add_0_right by simp
  have F4: "\<forall>x. x < ?S + (?a + ?b + ?d) * 4096 \<longrightarrow> m4 x = m3 x"
    using F4' p3(1) by simp
  have perPT: "unat (ly_ptEntriesPerPT ?l) = 512" by (simp add: layout64)
  have M1: "pt_tables ?A ?c t ?lim ?zs (unat (ly_ptEntriesPerPT ?l)) (unat (ly_ptCount ?l)) (vs_bytes s, 0, base) =
      (m1, x1, ?p1)"
    unfolding perPT layout64(3) by (rule L1)
  have M2: "pdt_tables ?A ?c (ly_ptEntriesPerPT ?l) (ly_ptCount ?l) (unat (ly_pdtCount ?l)) (m1, base, ?p1) = (m2, ?p1, ?p2)"
    unfolding layout64(4) unfolding lay by (rule L2 [unfolded n2])
  have M3: "pdpt_tables ?A ?c MapType64 (ly_ptEntriesPerPT ?l) (ly_pdtCount ?l) (unat (ly_pdptCount ?l)) (m2, ?p1, ?p2) = (m3, ?p2, ?p3)"
    unfolding layout64(5) unfolding lay by (rule L3 [unfolded n3])
  have M4: "pml4t_tables ?A ?c (ly_ptEntriesPerPT ?l) (ly_pdptCount ?l) (unat (ly_pml4tCount ?l)) (m3, ?p2, ?p3) =
      (m4, ?p3, ?p3 + of_nat 1 * 0x1000)"
    unfolding layout64(6) unfolding lay by (rule L4 [unfolded n3])
  note parts = build_map64_parts [OF M1 M2 M3 M4, of h]
  have up: "?S + ?a * 4096 \<le> ?S + (?a + ?b) * 4096" "?S + (?a + ?b) * 4096 \<le> ?S + (?a + ?b + ?d) * 4096"
    using mult_le_mono1 [of ?a "?a + ?b" 4096] mult_le_mono1 [of "?a + ?b" "?a + ?b + ?d" 4096] by simp_all
  note K3 = holds_tables_frame [OF H3, of m4]
  note K2 = holds_tables_frame [OF H2, of m4]
  note K1 = holds_tables_frame [where k = 0, unfolded add_0_left, OF H1, of m4]
  have K: "m4 x = m3 x" if "x < ?S + (?a + ?b + ?d) * 4096" for x using F4 that by blast
  have K': "m4 x = m2 x" if "x < ?S + (?a + ?b) * 4096" for x using F3 K [of x] that up by simp
  have K'': "m4 x = m1 x" if "x < ?S + ?a * 4096" for x using F2 K' [of x] that up by simp
  have cr3: "(ucast ?p3 :: u32) = of_nat (?S + (?a + ?b + ?d) * 4096)"
    unfolding p3(1) [symmetric] by simp
  show ?thesis
    unfolding parts cr3 map64_tables_def Let_def by (intro conjI K1 K2 K3 H4 refl K K' K'')
qed

end
