(* ===== verification/XEOS_VMProps.thy ===== *)
theory XEOS_VMProps
  imports XEOS_VMMap XEOS_MemProps
begin

text \<open>
  The properties of the system map on x86-64: what the processor translates through the tables
  XEOS_VM_SystemMapInitialize builds, and where the map ends.
\<close>

section \<open>The walk through the tables\<close>

lemma holds_cell: "holds w epp m a G \<Longrightarrow> j < epp \<Longrightarrow> cget w m (a + j * esz w) = G j"
  by (simp add: holds_def)

lemma va_indices:
  assumes "q = va div (4096 :: nat)"
  shows "va div (4096 * 2 ^ (9 * 0)) mod 2 ^ 9 = q mod 512"
    "va div (4096 * 2 ^ (9 * 1)) mod 2 ^ 9 = q div 512 mod 512"
    "va div (4096 * 2 ^ (9 * 2)) mod 2 ^ 9 = q div 512 div 512 mod 512"
    "va div (4096 * 2 ^ (9 * 3)) mod 2 ^ 9 = q div 512 div 512 div 512 mod 512"
  using assms by (simp_all add: div_mult2_eq [symmetric])

definition map64_at :: "u64 \<Rightarrow> u64 \<Rightarrow> zone list \<Rightarrow> u64 \<Rightarrow> bytes \<Rightarrow> nat \<Rightarrow> nat \<Rightarrow> bool" where
  "map64_at t limit zs base m va q \<longleftrightarrow>
     map64_tables t limit zs base m \<and> base \<noteq> 0 \<and> unat base mod 4096 = 0 \<and>
     unat base + (pt_n t + pdt_n t + pdpt_n t + 1) * 4096 < 4294967296 \<and>
     q = va div 4096 \<and> va < 281474976710656"

lemma map64_atD:
  assumes "map64_at t limit zs base m va q"
  shows "map64_tables t limit zs base m" "unat base mod 4096 = 0"
    "unat base + (pt_n t + pdt_n t + pdpt_n t + 1) * 4096 < 4294967296"
    "q = va div 4096" "va < 281474976710656"
  using assms by (simp_all add: map64_at_def)

text \<open>One level of the walk, when the entry is a link or empty.\<close>

lemma walk_link:
  assumes "va div (4096 * 2 ^ (9 * l)) mod 2 ^ 9 = k"
    and "cget True m (x + k * esz True) = (if c then v else 0)"
    and "c \<Longrightarrow> frame True v = y \<and> bit v 0 \<and> bit v (Suc 0)"
  shows "walk True 9 (Suc l) m x va = (if c then walk True 9 l m y va else None)"
proof -
  have "map_option (\<lambda>(pa, wr). (pa, wr \<and> True)) r = r" for r :: "(nat \<times> bool) option"
    by (cases r) auto
  then show ?thesis using assms(3) unfolding walk.simps(2) assms(1,2) by (simp add: Let_def)
qed

lemma walk1:
  assumes at: "map64_at t limit zs base m va q" and "q div 512 < pt_n t"
  shows "walk True 9 1 m (unat base + q div 512 * 4096) va =
    (if q < pages_up t \<and> page_present limit zs (of_nat q * 0x1000)
     then Some (va, page_writeable zs (of_nat q * 0x1000)) else None)"
proof -
  have "holds True 512 m (unat base + q div 512 * 4096)
      (\<lambda>j. if q div 512 * 512 + j < pages_up t then pte_value limit zs (of_nat (q div 512 * 512 + j) * 0x1000) else 0)"
    using map64_atD(1) [OF at] assms(2) unfolding map64_tables_def Let_def by blast
  from holds_cell [OF this, of "q mod 512"]
  have cell: "cget True m (unat base + q div 512 * 4096 + q mod 512 * esz True) =
      (if q < pages_up t then pte_value limit zs (of_nat q * 0x1000) else 0)"
    by simp
  have q: "q = va div 4096" by (rule map64_atD(4) [OF at])
  have "q < 68719476736" using q map64_atD(5) [OF at] by (simp add: div_less_iff_less_mult)
  then have u: "unat (of_nat q * 0x1000 :: u64) = q * 4096" by (simp add: unat_word_ariths unat_of_nat)
  then have f: "frame True (pte_value limit zs (of_nat q * 0x1000)) = q * 4096"
    "bit (pte_value limit zs (of_nat q * 0x1000)) 0 = page_present limit zs (of_nat q * 0x1000)"
    "bit (pte_value limit zs (of_nat q * 0x1000)) (Suc 0) = page_writeable zs (of_nat q * 0x1000)"
    using frame_pte [of "of_nat q * 0x1000" True limit zs] \<open>q < 68719476736\<close> by simp_all
  have "q * 4096 + va mod 4096 = va" using q by simp
  then show ?thesis
    using cell f va_indices(1) [OF q] by (simp add: Let_def)
qed

lemma link64:
  assumes at: "map64_at t limit zs base m va q" and "k + n < pt_n t + pdt_n t + pdpt_n t + 1"
  shows "frame True ((base + of_nat k * 0x1000 + of_nat n * 0x1000) OR 3) = unat base + (k + n) * 4096"
    "bit ((base + of_nat k * 0x1000 + of_nat n * 0x1000) OR 3) 0"
    "bit ((base + of_nat k * 0x1000 + of_nat n * 0x1000) OR 3) (Suc 0)"
proof -
  let ?x = "base + of_nat k * 0x1000 + of_nat n * 0x1000"
  have x: "?x = base + of_nat (k + n) * 0x1000" by (simp add: algebra_simps)
  have "(k + n) * 4096 \<le> (pt_n t + pdt_n t + pdpt_n t + 1) * 4096" using assms(2) by (intro mult_le_mono1) simp
  then have lt: "unat base + (k + n) * 4096 < 4294967296" using map64_atD(3) [OF at] by linarith
  then have u: "unat ?x = unat base + (k + n) * 4096" using x by (simp add: unat_word_ariths unat_of_nat)
  have "unat ?x mod 4096 = 0" "unat ?x < 4294967296"
    unfolding u using lt by (simp_all only: mod_mult_self1 map64_atD(2) [OF at])
  from frame_link(1) [OF this, of True] frame_link(2,3) [OF this] u
  show "frame True (?x OR 3) = unat base + (k + n) * 4096" "bit (?x OR 3) 0" "bit (?x OR 3) (Suc 0)"
    by simp_all
qed

lemma walk2:
  assumes at: "map64_at t limit zs base m va q" and "q div 512 div 512 < pdt_n t"
  shows "walk True 9 2 m (unat base + (pt_n t + q div 512 div 512) * 4096) va =
    (if q div 512 < pt_n t then walk True 9 1 m (unat base + q div 512 * 4096) va else None)"
proof -
  let ?i = "q div 512 div 512"
  have "holds True 512 m (unat base + (pt_n t + ?i) * 4096)
      (\<lambda>j. if ?i * 512 + j < pt_n t then (base + of_nat (?i * 512 + j) * 0x1000) OR 3 else 0)"
    using map64_atD(1) [OF at] assms(2) unfolding map64_tables_def Let_def by blast
  from holds_cell [OF this, of "q div 512 mod 512"]
  have cell: "cget True m (unat base + (pt_n t + ?i) * 4096 + q div 512 mod 512 * esz True) =
      (if q div 512 < pt_n t then (base + of_nat (q div 512) * 0x1000) OR 3 else 0)"
    by simp
  have two: "walk True 9 2 m x va = walk True 9 (Suc 1) m x va" for x by (simp add: numeral_2_eq_2)
  show ?thesis
    unfolding two
    using link64 [OF at, where k = 0 and n = "q div 512"]
    by (intro walk_link [OF va_indices(2) [OF map64_atD(4) [OF at]] cell]) simp
qed

lemma walk3:
  assumes at: "map64_at t limit zs base m va q" and "q div 512 div 512 div 512 < pdpt_n t"
  shows "walk True 9 3 m (unat base + (pt_n t + pdt_n t + q div 512 div 512 div 512) * 4096) va =
    (if q div 512 div 512 < pdt_n t \<and> q div 512 div 512 mod 512 < 4
     then walk True 9 2 m (unat base + (pt_n t + q div 512 div 512) * 4096) va else None)"
proof -
  let ?i = "q div 512 div 512 div 512"
  have "holds True 512 m (unat base + (pt_n t + pdt_n t + ?i) * 4096)
      (\<lambda>j. if ?i * 512 + j < pdt_n t \<and> j < 4
           then (base + of_nat (pt_n t) * 0x1000 + of_nat (?i * 512 + j) * 0x1000) OR 3 else 0)"
    using map64_atD(1) [OF at] assms(2) unfolding map64_tables_def Let_def by blast
  from holds_cell [OF this, of "q div 512 div 512 mod 512"]
  have cell: "cget True m (unat base + (pt_n t + pdt_n t + ?i) * 4096 + q div 512 div 512 mod 512 * esz True) =
      (if q div 512 div 512 < pdt_n t \<and> q div 512 div 512 mod 512 < 4
       then (base + of_nat (pt_n t) * 0x1000 + of_nat (q div 512 div 512) * 0x1000) OR 3 else 0)"
    by simp
  have three: "walk True 9 3 m x va = walk True 9 (Suc 2) m x va" for x by (simp add: numeral_3_eq_3 numeral_2_eq_2)
  show ?thesis
    unfolding three
    using link64 [OF at, where k = "pt_n t" and n = "q div 512 div 512"]
    by (intro walk_link [OF va_indices(3) [OF map64_atD(4) [OF at]] cell]) simp
qed

lemma walk4:
  assumes at: "map64_at t limit zs base m va q"
  shows "walk True 9 4 m (unat base + (pt_n t + pdt_n t + pdpt_n t) * 4096) va =
    (if q div 512 div 512 div 512 < pdpt_n t
     then walk True 9 3 m (unat base + (pt_n t + pdt_n t + q div 512 div 512 div 512) * 4096) va else None)"
proof -
  let ?i = "q div 512 div 512 div 512"
  have "?i < 512" using map64_atD(4,5) [OF at] by (simp add: div_less_iff_less_mult)
  then have im: "?i mod 512 = ?i" by simp
  have "holds True 512 m (unat base + (pt_n t + pdt_n t + pdpt_n t) * 4096)
      (\<lambda>j. if j < pdpt_n t then (base + of_nat (pt_n t + pdt_n t) * 0x1000 + of_nat j * 0x1000) OR 3 else 0)"
    using map64_atD(1) [OF at] unfolding map64_tables_def Let_def by blast
  from holds_cell [OF this \<open>?i < 512\<close>]
  have cell: "cget True m (unat base + (pt_n t + pdt_n t + pdpt_n t) * 4096 + ?i * esz True) =
      (if ?i < pdpt_n t then (base + of_nat (pt_n t + pdt_n t) * 0x1000 + of_nat ?i * 0x1000) OR 3 else 0)" .
  have four: "walk True 9 4 m x va = walk True 9 (Suc 3) m x va" for x
  proof -
    have "(4 :: nat) = Suc 3" by simp
    then show ?thesis by (rule arg_cong)
  qed
  show ?thesis
    unfolding four
    using link64 [OF at, where k = "pt_n t + pdt_n t" and n = ?i]
    by (intro walk_link [OF va_indices(4) [OF map64_atD(4) [OF at], unfolded im] cell]) simp
qed

lemma walk_chain:
  assumes "w4 = (if c3 then w3 else None)" "c3 \<Longrightarrow> w3 = (if c2 \<and> k then w2 else None)"
    and "c2 \<Longrightarrow> w2 = (if c1 then w1 else None)" "c1 \<Longrightarrow> w1 = (if c0 \<and> p then y else None)"
    and "c0 \<Longrightarrow> c1" "c1 \<Longrightarrow> c2" "c2 \<Longrightarrow> c3"
  shows "w4 = (if c0 \<and> k \<and> p then y else None)"
  using assms by (cases c0; cases c3; cases c2; cases c1; simp)

lemma walk64:
  assumes at: "map64_at t limit zs base m va q"
  shows "walk True 9 4 m (unat base + (pt_n t + pdt_n t + pdpt_n t) * 4096) va =
    (if q < pages_up t \<and> q div 262144 mod 512 < 4 \<and> page_present limit zs (of_nat q * 0x1000)
     then Some (va, page_writeable zs (of_nat q * 0x1000)) else None)"
proof -
  have 1: "q < pages_up t \<Longrightarrow> q div 512 < pt_n t" unfolding pt_n_def by (rule cdiv_index)
  have 2: "q div 512 < pt_n t \<Longrightarrow> q div 512 div 512 < pdt_n t"
    using cdiv_index [of "q div 512" "pt_n t"] by (simp add: pdt_n_def)
  have 3: "q div 512 div 512 < pdt_n t \<Longrightarrow> q div 512 div 512 div 512 < pdpt_n t"
    using cdiv_index [of "q div 512 div 512" "pdt_n t"] by (simp add: pdpt_n_def)
  have d: "q div 262144 = q div 512 div 512" by (simp add: div_mult2_eq [symmetric])
  show ?thesis
    unfolding d by (rule walk_chain [OF walk4 [OF at] walk3 [OF at] walk2 [OF at] walk1 [OF at] 1 2 3])
qed


section \<open>XEOS_VM_SystemMapInitialize\<close>

lemma say_update [simp]: "vs_mem (s\<lparr>vs_map := x\<rparr>) = vs_mem s" "vs_cpu (s\<lparr>vs_map := x\<rparr>) = vs_cpu s"
  by simp_all

lemma store_map_base: "mp_base (store_map base ty l sm) = base"
  by (simp add: store_map_def MemoryMapSetAddress_def MemoryMapSetLength_def MemoryMapSetType_def
      MemoryMapSetPTCount_def MemoryMapSetPDTCount_def MemoryMapSetPDPTCount_def MemoryMapSetPML4TCount_def)

lemma build_map64_other:
  "vs_mem (build_map A h MapType64 t l base s) = vs_mem s"
  "mp_base (vs_map (build_map A h MapType64 t l base s)) = mp_base (vs_map s)"
  by (simp_all add: build_map_def map_types set_cr3_def MemoryMapSetCR3_def Let_def split_beta)

definition map64_pages :: "u64 \<Rightarrow> u32" where
  "map64_pages t = ucast (map_memory (map_layout MapType64 t) div 0x1000)"

definition map64_end :: "u64 \<Rightarrow> u64 \<Rightarrow> u64" where
  "map64_end base t = base + map_memory (map_layout MapType64 t)"

text \<open>The page number of an address, as the address of the page.\<close>

definition page_of :: "nat \<Rightarrow> u64" where
  "page_of va = of_nat (va div 4096) * 0x1000"

lemma SystemMapInitialize64:
  assumes "MemoryMapGetAddress (vs_map s) = 0" "CPU_PAEEnabled (vs_cpu s)" "t = GetTotalBytes (vs_mem s)"
    and "AllocPages X86_64 (map64_pages t) (vs_mem s) = Some (mem', base)" "base \<noteq> 0" "unat base mod 4096 = 0"
    and "unat base + unat (map_memory (map_layout MapType64 t)) < 4294967296"
  obtains s' where "SystemMapInitialize X86_64 h s = Some s'" "vs_mem s' = mem'"
    "MemoryMapGetAddress (vs_map s') = base"
    "\<And>va. va < 281474976710656 \<Longrightarrow> walk True 9 4 (vs_bytes s') (unat (cr3 (vs_cpu s'))) va =
       (if va div 4096 < pages_up t \<and> va div 4096 div 262144 mod 512 < 4 \<and>
           page_present (map64_end base t) (chain mem') (page_of va)
        then Some (va, page_writeable (chain mem') (page_of va)) else None)"
proof -
  let ?l = "map_layout MapType64 t"
  have ty: "select_type X86_64 t (vs_cpu s) = (MapType64, vs_cpu s)" by (simp add: select_type_def map_types)
  define s1 where "s1 = (say h (''System map area:         %016#llX -> %016#llX'' @ nl,
      [OutNum base, OutNum (base + map_memory ?l - 1)])
      ((layout_lines h MapType64 t ?l (s\<lparr>vs_cpu := vs_cpu s\<rparr>))\<lparr>vs_mem := mem'\<rparr>))
      \<lparr>vs_map := store_map base MapType64 ?l (vs_map s)\<rparr>"
  define s' where "s' = build_map X86_64 h MapType64 t ?l base s1"
  have s1: "vs_mem s1 = mem'" "vs_cpu s1 = vs_cpu s" "mp_base (vs_map s1) = base"
    by (simp_all add: s1_def store_map_base)
  have base0: "0 < base" using assms(5) by (simp add: word_greater_zero_iff)
  have "SystemMapInitialize X86_64 h s = Some s'"
    unfolding SystemMapInitialize_def s'_def s1_def
    using assms(1,4) base0 by (simp add: assms(3) [symmetric] ty map64_pages_def Let_def)
  moreover have "vs_mem s' = mem'" "MemoryMapGetAddress (vs_map s') = base"
    by (simp_all add: s'_def build_map64_other s1 MemoryMapGetAddress_def)
  moreover
  have fit: "unat base + (pt_n t + pdt_n t + pdpt_n t + 1) * 4096 < 4294967296"
    using assms(7) by (simp only: unat_map_memory64)
  have pae: "CPU_PAEEnabled (vs_cpu s1)" using assms(2) s1 by simp
  note T = build_map64_tables [OF pae assms(5,6) fit, of h]
  have tabs: "map64_tables t (map64_end base t) (chain mem') base (vs_bytes s')"
    and cpu: "vs_cpu s' = CPU_SetCR3 (of_nat (unat base + (pt_n t + pdt_n t + pdpt_n t) * 4096)) (vs_cpu s)"
    using T by (simp_all add: s'_def s1 map64_end_def)
  have cr3: "unat (cr3 (vs_cpu s')) = unat base + (pt_n t + pdt_n t + pdpt_n t) * 4096"
  proof -
    have "unat base + (pt_n t + pdt_n t + pdpt_n t) * 4096 < 4294967296" using fit by simp
    then show ?thesis unfolding cpu cpu_switches_other by (rule unat_of_nat_u32)
  qed
  have "walk True 9 4 (vs_bytes s') (unat (cr3 (vs_cpu s'))) va =
       (if va div 4096 < pages_up t \<and> va div 4096 div 262144 mod 512 < 4 \<and>
           page_present (map64_end base t) (chain mem') (page_of va)
        then Some (va, page_writeable (chain mem') (page_of va)) else None)" if "va < 281474976710656" for va
    unfolding cr3 page_of_def
    by (rule walk64) (use tabs assms(5,6) fit that in \<open>simp add: map64_at_def\<close>)
  ultimately show ?thesis using that by blast
qed

text \<open>
  C3. XEOS_VM_SystemMapInitialize on x86-64 with at most 4 GB of memory builds an identity map: the
  page walk of the processor maps every address of the memory that is present to itself - writeable
  when it lies in a usable zone - and no address behind the memory is mapped.
\<close>

theorem SystemMapInitialize_identity64:
  assumes "MemoryMapGetAddress (vs_map s) = 0" "CPU_PAEEnabled (vs_cpu s)" "t = GetTotalBytes (vs_mem s)"
    and "AllocPages X86_64 (map64_pages t) (vs_mem s) = Some (mem', base)" "base \<noteq> 0" "unat base mod 4096 = 0"
    and "unat base + unat (map_memory (map_layout MapType64 t)) < 4294967296"
    and "unat t \<le> 4294967296" "va < 281474976710656"
  shows "\<exists>s'. SystemMapInitialize X86_64 h s = Some s' \<and> vs_mem s' = mem' \<and>
     MemoryMapGetAddress (vs_map s') = base \<and>
     walk True 9 4 (vs_bytes s') (unat (cr3 (vs_cpu s'))) va =
       (if va div 4096 < pages_up t \<and> page_present (map64_end base t) (chain mem') (page_of va)
        then Some (va, page_writeable (chain mem') (page_of va)) else None)"
proof -
  have "pages_up t \<le> 1048576" using assms(8) round_up_le [of "unat t" 1048576] by (simp add: pages_up_def)
  then have "va div 4096 < pages_up t \<Longrightarrow> va div 4096 div 262144 mod 512 < 4"
    by (simp add: div_less_iff_less_mult mod_less_eq_dividend [THEN le_less_trans])
  moreover obtain s' where "SystemMapInitialize X86_64 h s = Some s'" "vs_mem s' = mem'"
    "MemoryMapGetAddress (vs_map s') = base"
    "walk True 9 4 (vs_bytes s') (unat (cr3 (vs_cpu s'))) va =
       (if va div 4096 < pages_up t \<and> va div 4096 div 262144 mod 512 < 4 \<and>
           page_present (map64_end base t) (chain mem') (page_of va)
        then Some (va, page_writeable (chain mem') (page_of va)) else None)"
    using SystemMapInitialize64 [OF assms(1-7)] assms(9) by metis
  ultimately show ?thesis by auto
qed

text \<open>
  C37. On x86-64 with more than 4 GB of memory the part from 4 GB to 512 GB is not mapped at all:
  XEOS_VM_PDPTGetEntryAtIndex returns NULL for every index from 4 on, so that the pointers to the
  page directories of these addresses are never stored.
\<close>

theorem SystemMapInitialize_above_4GB:
  assumes "MemoryMapGetAddress (vs_map s) = 0" "CPU_PAEEnabled (vs_cpu s)" "t = GetTotalBytes (vs_mem s)"
    and "AllocPages X86_64 (map64_pages t) (vs_mem s) = Some (mem', base)" "base \<noteq> 0" "unat base mod 4096 = 0"
    and "unat base + unat (map_memory (map_layout MapType64 t)) < 4294967296"
    and "4294967296 \<le> va" "va < 549755813888"
  shows "\<exists>s'. SystemMapInitialize X86_64 h s = Some s' \<and>
     walk True 9 4 (vs_bytes s') (unat (cr3 (vs_cpu s'))) va = None"
proof -
  have "va div 4096 div 262144 = va div 1073741824" by (simp add: div_mult2_eq [symmetric])
  moreover have "4 \<le> va div 1073741824" "va div 1073741824 < 512"
    using assms(8,9) div_le_mono [OF assms(8), of 1073741824] by (simp_all add: div_less_iff_less_mult)
  ultimately have n4: "\<not> va div 4096 div 262144 mod 512 < 4" by simp
  have va: "va < 281474976710656" using assms(9) by simp
  moreover obtain s' where "SystemMapInitialize X86_64 h s = Some s'"
    "walk True 9 4 (vs_bytes s') (unat (cr3 (vs_cpu s'))) va =
       (if va div 4096 < pages_up t \<and> va div 4096 div 262144 mod 512 < 4 \<and>
           page_present (map64_end base t) (chain mem') (page_of va)
        then Some (va, page_writeable (chain mem') (page_of va)) else None)"
    using SystemMapInitialize64 [OF assms(1-7)] va by metis
  ultimately show ?thesis using n4 by simp
qed

text \<open>
  The system map is built only once: when it has an address, XEOS_VM_SystemMapInitialize
  changes nothing.
\<close>

theorem SystemMapInitialize_once:
  assumes "MemoryMapGetAddress (vs_map s) \<noteq> 0"
  shows "SystemMapInitialize A h s = Some s"
  using assms by (simp add: SystemMapInitialize_def)


section \<open>A small machine\<close>

text \<open>One usable zone of eight free pages at 1 MB.\<close>

definition example_vm_mem :: mem_state where
  "example_vm_mem =
     \<lparr> mm_zones = [\<lparr> z_self = 0x200000, z_type = 1, z_base = 0x100000, z_length = 0x8000,
         z_pageCount = 8, z_freePageCount = 8, z_pages = [1, 1, 1, 1, 1, 1, 1, 1] \<rparr>],
       mm_count = 1 \<rparr>"

definition example_vm :: vm_state where
  "example_vm = \<lparr> vs_cpu = \<lparr> cr0 = 0, cr3 = 0, cr4 = 0x20 \<rparr>, vs_mem = example_vm_mem,
     vs_map = map_boot, vs_bytes = (\<lambda>_. 0), vs_out = [] \<rparr>"

lemma example_vm_total: "GetTotalBytes example_vm_mem = 0x8000"
  by (simp add: GetTotalBytes_def chain_def GetZoneAtIndex_def example_vm_mem_def)

lemma example_vm_pages: "map64_pages 0x8000 = 4"
  by (simp add: map64_pages_def map_memory_def map_layout_def map_types table_count_def Let_def)

lemma example_vm_ok: "mem_ok X86_64 example_vm_mem"
  by (simp add: mem_ok_def example_vm_mem_def zone_ok_def)

lemma example_vm_alloc:
  "AllocPages X86_64 4 example_vm_mem = Some (use_slots example_vm_mem (0, 0) 4, 0x100000)"
proof -
  have "find_run_zones (unat (4 :: u32)) (mm_zones example_vm_mem) = Some (Some (0, 0))"
    by (simp add: example_vm_mem_def MemoryEntryTypeUsable_def upt_rec overrun_def run_free_def atLeastLessThan_upt)
  then show ?thesis
    by (simp add: AllocPages_eq example_vm_ok slot_addr_def page_addr_def) (simp add: example_vm_mem_def)
qed

lemma example_vm_chain:
  "chain (use_slots example_vm_mem (0, 0) 4) = mm_zones (use_slots example_vm_mem (0, 0) 4)"
  by (simp add: chain_def GetZoneAtIndex_def use_slots_def example_vm_mem_def)

text \<open>The first page has no zone: it is present and read-only.\<close>

theorem SystemMapInitialize_identity64_witness:
  "\<exists>s'. SystemMapInitialize X86_64 True example_vm = Some s' \<and>
     walk True 9 4 (vs_bytes s') (unat (cr3 (vs_cpu s'))) 0x1234 = Some (0x1234, False) \<and>
     MemoryMapGetAddress (vs_map s') = 0x100000"
proof -
  have 1: "MemoryMapGetAddress (vs_map example_vm) = 0"
    by (simp add: example_vm_def map_boot_def MemoryMapGetAddress_def)
  have 2: "CPU_PAEEnabled (vs_cpu example_vm)"
    by (simp add: example_vm_def CPU_PAEEnabled_def CPU_GetCR4_def)
  have 3: "0x8000 = GetTotalBytes (vs_mem example_vm)" by (simp add: example_vm_def example_vm_total)
  have 4: "AllocPages X86_64 (map64_pages 0x8000) (vs_mem example_vm) =
      Some (use_slots example_vm_mem (0, 0) 4, 0x100000)"
    by (simp add: example_vm_pages example_vm_alloc) (simp add: example_vm_def example_vm_alloc)
  have 5: "unat (0x100000 :: u64) + unat (map_memory (map_layout MapType64 0x8000)) < 4294967296"
    by (simp add: map_memory_def map_layout_def map_types table_count_def Let_def)
  have 6: "page_of 0x1234 = 0x1000" by (simp add: page_of_def)
  have 7: "\<not> list_ex (zone_hit 0x1000) (mm_zones (use_slots example_vm_mem (0, 0) 4))"
    by (simp add: use_slots_def use_run_def example_vm_mem_def zone_hit_def)
  then have "page_present l (mm_zones (use_slots example_vm_mem (0, 0) 4)) 0x1000"
    "\<not> page_writeable (mm_zones (use_slots example_vm_mem (0, 0) 4)) 0x1000" for l
    by (auto simp: page_present_def page_writeable_def list_ex_iff)
  moreover have "pages_up 0x8000 = 8" by (simp add: pages_up_def)
  ultimately show ?thesis
    using SystemMapInitialize_identity64 [OF 1 2 3 4 _ _ 5, of "0x1234" True]
    by (simp add: 6 example_vm_chain) blast
qed

text \<open>A machine with 32 MB of usable memory at 1 MB and a reserved zone of 8 GB at 4 GB.\<close>

definition example_big_mem :: mem_state where
  "example_big_mem =
     \<lparr> mm_zones = [\<lparr> z_self = 0x200000, z_type = 1, z_base = 0x100000, z_length = 0x2000000,
         z_pageCount = 0x2000, z_freePageCount = 0x2000, z_pages = replicate 0x2000 1 \<rparr>,
       \<lparr> z_self = 0x280000, z_type = 2, z_base = 0x100000000, z_length = 0x200000000,
         z_pageCount = 0, z_freePageCount = 0, z_pages = [] \<rparr>],
       mm_count = 2 \<rparr>"

lemma count_list_replicate_same: "count_list (replicate n a) a = n"
  by (induction n) simp_all

lemma example_big_ok: "mem_ok X86_64 example_big_mem"
  by (simp add: mem_ok_def example_big_mem_def zone_ok_def count_list_replicate_same)

lemma example_big_total: "GetTotalBytes example_big_mem = 0x202000000"
  by (simp add: GetTotalBytes_def chain_def GetZoneAtIndex_def example_big_mem_def)

lemma example_big_map: "map_memory (map_layout MapType64 0x202000000) = 0x101B000"
  by (simp add: map_memory_def map_layout_def map_types table_count_def Let_def)

lemma example_big_alloc:
  "AllocPages X86_64 0x101B example_big_mem = Some (use_slots example_big_mem (0, 0) 0x101B, 0x100000)"
proof -
  let ?z = "mm_zones example_big_mem ! 0"
  have z: "mm_zones example_big_mem = ?z # tl (mm_zones example_big_mem)" "z_type ?z = MemoryEntryTypeUsable"
    "z_pages ?z = replicate 0x2000 1"
    by (simp_all add: example_big_mem_def MemoryEntryTypeUsable_def)
  have rf: "run_free ?z 0 0x101B" "\<not> overrun ?z 0 0x101B" by (simp_all add: z(3) run_free_def overrun_def)
  have "[0..<length (z_pages ?z)] = 0 # [Suc 0..<length (z_pages ?z)]"
    by (rule upt_conv_Cons) (simp add: z(3))
  then have "find_run 0x101B ?z [0..<length (z_pages ?z)] = Some (Some 0)" using rf by simp
  then have "find_run_zones 0x101B (?z # tl (mm_zones example_big_mem)) = Some (Some (0, 0))"
    using z(2) by simp
  then have "find_run_zones (unat (0x101B :: u32)) (mm_zones example_big_mem) = Some (Some (0, 0))"
    unfolding z(1) [symmetric] by simp
  then show ?thesis
    by (simp add: AllocPages_eq example_big_ok slot_addr_def page_addr_def) (simp add: example_big_mem_def)
qed

theorem SystemMapInitialize_above_4GB_witness:
  "\<exists>s'. SystemMapInitialize X86_64 False (example_vm\<lparr>vs_mem := example_big_mem\<rparr>) = Some s' \<and>
     walk True 9 4 (vs_bytes s') (unat (cr3 (vs_cpu s'))) 0x100000000 = None"
proof (rule SystemMapInitialize_above_4GB [where t = "0x202000000" and base = "0x100000"])
  show "MemoryMapGetAddress (vs_map (example_vm\<lparr>vs_mem := example_big_mem\<rparr>)) = 0"
    by (simp add: example_vm_def map_boot_def MemoryMapGetAddress_def)
  show "CPU_PAEEnabled (vs_cpu (example_vm\<lparr>vs_mem := example_big_mem\<rparr>))"
    by (simp add: example_vm_def CPU_PAEEnabled_def CPU_GetCR4_def)
  show "AllocPages X86_64 (map64_pages 0x202000000) (vs_mem (example_vm\<lparr>vs_mem := example_big_mem\<rparr>)) =
      Some (use_slots example_big_mem (0, 0) 0x101B, 0x100000)"
    using example_big_alloc by (simp add: map64_pages_def example_big_map)
qed (simp_all add: example_big_total example_big_map)

theorem SystemMapInitialize_once_witness:
  "SystemMapInitialize I386 True (example_vm\<lparr>vs_map := MemoryMapSetAddress 0x100000 map_boot\<rparr>) =
     Some (example_vm\<lparr>vs_map := MemoryMapSetAddress 0x100000 map_boot\<rparr>)"
  by (rule SystemMapInitialize_once) (simp add: MemoryMapGetAddress_def MemoryMapSetAddress_def)


section \<open>Entries\<close>

lemma fits_and: "fits w b \<Longrightarrow> fits w (a AND b)"
  by (auto simp: fits_iff_bits bit_and_iff)

lemma fits_cget: "fits w (cget w m a)"
proof (cases w)
  case False
  have "bit (ucast (rd32 m a) :: u64) n \<Longrightarrow> n < 32" for n
    using bit_imp_le_length [of "rd32 m a" n] by (simp add: bit_ucast_iff)
  then show ?thesis using False by (auto simp: fits_iff_bits cget_def)
qed (simp add: fits_def)

lemma entry_set_link_cput:
  assumes "obj \<noteq> 0" "a AND 0xFFF = 0" "fits w a"
  shows "entry_set_link w obj a m = cput w (unat obj) ((cget w m (unat obj) AND 0xFFF) OR a) m"
proof -
  have "fits w (cget w m (unat obj) AND 0xFFF)"
    using fits_and [of w "cget w m (unat obj)" "0xFFF"] fits_cget by (metis and.commute)
  then show ?thesis
    using assms by (simp add: entry_set_link_def ent_get_cget ent_put_cput cget_cput_same cput_cput Let_def)
qed

lemma bit_0xFFF: "bit (0xFFF :: u64) n \<longleftrightarrow> n < 12"
proof -
  have m: "(0xFFF :: u64) = mask 12" by (simp add: mask_eq_exp_minus_1)
  show ?thesis unfolding m by (auto simp only: bit_mask_iff possible_bit_word) simp_all
qed

lemma bit_link_mask: "bit (ent_max w - 0xFFF) n \<longleftrightarrow> 12 \<le> n \<and> n < (if w then 64 else 32)"
proof -
  have "ent_max w - 0xFFF = push_bit 12 (mask (if w then 52 else 20))"
    by (simp add: ent_max_def mask_eq_exp_minus_1 push_bit_eq_mult)
  then show ?thesis by (auto simp: bit_simps)
qed

text \<open>The link and the flags of an entry are different bits.\<close>

lemma aligned_low: "a AND 0xFFF = 0 \<Longrightarrow> n < 12 \<Longrightarrow> \<not> bit (a :: u64) n"
  by (metis bit_0xFFF bit_0_eq bit_and_iff bot_apply bot_bool_def)

lemma link_bits:
  assumes "a AND 0xFFF = 0" "fits w a"
  shows "((v AND 0xFFF) OR a) AND (ent_max w - 0xFFF) = a"
proof (rule bit_word_eqI)
  fix n :: nat
  have "bit (((v AND 0xFFF) OR a) AND (ent_max w - 0xFFF)) n
      \<longleftrightarrow> ((bit v n \<and> n < 12) \<or> bit a n) \<and> 12 \<le> n \<and> n < (if w then 64 else 32)"
    by (simp only: bit_and_iff bit_or_iff bit_0xFFF bit_link_mask)
  moreover have "n < (if w then 64 else 32)" if "bit a n"
    using that assms(2) bit_imp_le_length [of a n] by (auto simp: fits_iff_bits)
  ultimately show "bit (((v AND 0xFFF) OR a) AND (ent_max w - 0xFFF)) n = bit a n"
    using aligned_low [OF assms(1), of n] by linarith
qed

lemma flag_bits:
  assumes "a AND 0xFFF = 0" "flag < 0x1000"
  shows "((v AND 0xFFF) OR a) AND ucast (flag :: u32) = v AND (ucast flag :: u64)"
proof (rule bit_word_eqI)
  fix n :: nat
  have "unat (ucast flag :: u64) < 2 ^ 12"
    using assms(2) by (simp add: word_less_nat_alt unsigned_ucast_eq take_bit_eq_mod)
  then have "\<not> bit (ucast flag :: u64) n" if "12 \<le> n" using lt_pow_bit that by blast
  moreover have "bit (((v AND 0xFFF) OR a) AND ucast flag) n \<longleftrightarrow> ((bit v n \<and> n < 12) \<or> bit a n) \<and> bit (ucast flag :: u64) n"
    by (simp only: bit_and_iff bit_or_iff bit_0xFFF)
  moreover have "bit (v AND ucast flag) n \<longleftrightarrow> bit v n \<and> bit (ucast flag :: u64) n"
    by (simp only: bit_and_iff)
  ultimately show "bit (((v AND 0xFFF) OR a) AND ucast flag) n = bit (v AND ucast flag) n"
    using aligned_low [OF assms(1), of n] by linarith
qed

text \<open>
  C18. A page table entry keeps its address and its flags apart, at both entry sizes: after
  XEOS_VM_PTEntrySetAddress with an aligned address that fits the entry,
  XEOS_VM_PTEntryGetAddress returns this address and XEOS_VM_PTEntryGetFlag is unchanged for
  every flag in the low 12 bits.
\<close>

theorem PTEntry_address_flags:
  assumes "obj \<noteq> 0" "a AND 0xFFF = 0" "fits (ent_wide A c) a" "flag < 0x1000"
  shows "PTEntryGetAddress A c obj (PTEntrySetAddress A c obj a m) = a \<and>
     PTEntryGetFlag A c obj flag (PTEntrySetAddress A c obj a m) = PTEntryGetFlag A c obj flag m"
proof -
  let ?w = "ent_wide A c" and ?v = "cget (ent_wide A c) m (unat obj)"
  let ?e = "(?v AND 0xFFF) OR a"
  have fit: "fits ?w ?e" using fits_and [of ?w ?v "0xFFF"] fits_cget assms(3) by (metis and.commute fits_or)
  have set: "PTEntrySetAddress A c obj a m = cput ?w (unat obj) ?e m"
    unfolding PTEntrySetAddress_def by (rule entry_set_link_cput [OF assms(1-3)])
  have "PTEntryGetAddress A c obj (PTEntrySetAddress A c obj a m) = a"
    using assms(1) link_bits [OF assms(2,3)]
    by (simp add: set PTEntryGetAddress_def entry_get_link_def ent_get_cget cget_cput_same [OF fit])
  moreover have "PTEntryGetFlag A c obj flag (PTEntrySetAddress A c obj a m) = PTEntryGetFlag A c obj flag m"
    using flag_bits [OF assms(2,4)]
    by (simp add: set PTEntryGetFlag_def entry_get_flag_def ent_get_cget cget_cput_same [OF fit])
  ultimately show ?thesis by blast
qed

theorem PTEntry_address_flags_witness:
  "PTEntryGetAddress I386 \<lparr> cr0 = 0, cr3 = 0, cr4 = 0 \<rparr> 0x2004
     (PTEntrySetAddress I386 \<lparr> cr0 = 0, cr3 = 0, cr4 = 0 \<rparr> 0x2004 0x7000 (\<lambda>_. 0)) = 0x7000"
proof -
  have "\<not> ent_wide I386 \<lparr> cr0 = 0, cr3 = 0, cr4 = 0 \<rparr>"
    by (simp add: ent_wide_def CPU_PAEEnabled_def CPU_GetCR4_def)
  then have "fits (ent_wide I386 \<lparr> cr0 = 0, cr3 = 0, cr4 = 0 \<rparr>) 0x7000" by (simp add: fits_def)
  then show ?thesis
    using PTEntry_address_flags [of "0x2004" "0x7000" I386 "\<lparr> cr0 = 0, cr3 = 0, cr4 = 0 \<rparr>" 1] by simp
qed

end
