(* ===== verification/XEOS_MemoryStart.thy ===== *)
theory XEOS_MemoryStart
  imports XEOS_MemInit XEOS_MemProps XEOS_VMProps
begin

text \<open>
  The part of the main function that sets up memory (source/core/xeos/XEOS_Main.c): the physical
  allocator is initialised from the BIOS map, and the system map is built in pages that it gives
  out.
\<close>

definition memory_start :: "arch \<Rightarrow> u64 \<Rightarrow> info_memory option \<Rightarrow> bool \<Rightarrow> vm_state \<Rightarrow> vm_state option" where
  "memory_start A kernelEnd memory handler s =
     (let ((m, st), out) = Mem_Initialize A kernelEnd memory handler (vs_bytes s, vs_mem s)
      in SystemMapInitialize A handler (s\<lparr>vs_bytes := m, vs_mem := st, vs_out := vs_out s @ out\<rparr>))"


section \<open>The pages of the system map\<close>

lemma page_aligned:
  assumes "unat (b :: u64) mod 4096 = 0"
  shows "unat (b + of_nat i * 0x1000) mod 4096 = 0"
proof -
  have dvd: "(4096 :: nat) dvd 18446744073709551616" by simp
  have "unat (of_nat i * 0x1000 :: u64) mod 4096 = 0"
    by (simp add: unat_word_ariths mod_mod_cancel [OF dvd])
  then have "(unat b + unat (of_nat i * 0x1000 :: u64)) mod 4096 = 0"
    using assms by (simp add: mod_eq_0_iff_dvd dvd_add)
  then show ?thesis by (simp add: unat_word_ariths(1) mod_mod_cancel [OF dvd])
qed

lemma use_slots_map:
  "k < length (mm_zones st) \<Longrightarrow> (\<And>z. f (use_run z i n) = f z) \<Longrightarrow> map f (mm_zones (use_slots st (k, i) n)) = map f (mm_zones st)"
  by (simp add: use_slots_def map_update) (metis list_update_id map_update)

text \<open>Pages of the allocator are free, aligned if the zones are, and leave the zones where they are.\<close>

lemma AllocPages_zones:
  assumes "mem_ok A st" "AllocPages A n st = Some (st', a)" "a \<noteq> 0"
  obtains k i where "(k, i) \<in> set (free_slots st)" "a = slot_addr A st (k, i)" "mem_ok A st'" "k < length (mm_zones st)"
    "map z_type (mm_zones st') = map z_type (mm_zones st)" "map z_base (mm_zones st') = map z_base (mm_zones st)"
    "map z_length (mm_zones st') = map z_length (mm_zones st)"
  using assms(1,2)
proof (cases rule: AllocPages_result)
  case 1
  then show ?thesis using assms(3) by simp
next
  case (2 k i)
  note hit = find_run_zones_hit [OF 2(1)]
  then have "z_pages (mm_zones st ! k) ! i = 1" "i < length (z_pages (mm_zones st ! k))"
    by (auto simp: run_free_def)
  then have "(k, i) \<in> set (free_slots st)" using hit by (simp add: free_slots_def slots_iff)
  then show ?thesis
    using that [of k i] 2(4-6) hit by (simp add: use_slots_map use_run_def)
qed

text \<open>A page of a usable entry of the BIOS map that lies in the tables' reach is mapped writeable.\<close>

lemma page_of_start:
  assumes "va < 281474976710656"
  shows "unat (page_of va) = va div 4096 * 4096"
proof -
  have lt: "va div 4096 * 4096 < 18446744073709551616"
    using assms div_times_less_eq_dividend [of va 4096] by linarith
  have "page_of va = of_nat (va div 4096 * 4096)" by (simp add: page_of_def)
  then show ?thesis using unat_of_nat_u64 [OF lt] by (rule ssubst)
qed

lemma usable_page:
  assumes "good_map A es" "\<forall>e \<in> set es. unat (me_address e) mod 4096 = 0" "e \<in> set es" "me_type e = MemoryEntryTypeUsable"
    and "unat (me_address e) \<le> va" "va < entry_end e" "va < 281474976710656"
    and "map z_type zs = map me_type es" "map z_length zs = map me_length es" "map z_base zs = map (\<lambda>e. ptr_of A (me_address e)) es"
  shows "page_writeable zs (page_of va)"
proof -
  obtain k where k: "k < length es" "es ! k = e" using assms(3) by (auto simp: in_set_conv_nth)
  have len: "length zs = length es" using assms(8) by (metis length_map)
  have z: "z_type (zs ! k) = MemoryEntryTypeUsable" "z_length (zs ! k) = me_length e" "z_base (zs ! k) = me_address e"
    using assms(4,8-10) k len good_map_base [OF assms(1,3)] by (metis nth_map)+
  have "unat (me_address e) = unat (me_address e) div 4096 * 4096" using assms(2,3) by auto
  also have "\<dots> \<le> va div 4096 * 4096" using div_le_mono [OF assms(5), of 4096] by simp
  finally have low: "unat (me_address e) \<le> unat (page_of va)" by (simp add: page_of_start [OF assms(7)])
  have "unat (page_of va) \<le> va" by (simp add: page_of_start [OF assms(7)])
  then have "unat (page_of va) - unat (me_address e) < unat (me_length e)"
    using low assms(6) by (simp add: entry_end_def)
  then have "zone_hit (page_of va) (zs ! k)"
    using low by (simp add: zone_hit_def z word_le_nat_alt word_less_nat_alt unat_sub)
  then show ?thesis unfolding page_writeable_def list_ex_iff using z(1) k(1) len by (auto intro!: bexI [of _ "zs ! k"])
qed

lemma map_memory_aligned: "unat (map_memory l) mod 4096 = 0"
proof -
  have "map_memory l = 0 + of_nat (unat (ly_ptCount l + ly_pdtCount l + ly_pdptCount l + ly_pml4tCount l)) * 0x1000"
    by (simp add: map_memory_def algebra_simps)
  then show ?thesis using page_aligned [of 0] by (simp only: unat_0 mod_0)
qed

text \<open>
  What the walk of the processor gives for an address of a usable entry, once the tables are built:
  the address itself below the end of the tables if its page starts below the total of memory, and
  otherwise nothing.
\<close>

lemma usable_walk:
  assumes "unat base + unat (map_memory (map_layout MapType64 t)) < 4294967296" "unat base mod 4096 = 0"
    and "page_writeable zs (page_of va)" "va < 281474976710656" "unat t \<le> 4294967296"
  shows "(if va div 4096 < pages_up t \<and> va div 4096 div 262144 mod 512 < 4 \<and> page_present (map64_end base t) zs (page_of va)
      then Some (va, page_writeable zs (page_of va)) else None) =
    (if va < unat base + unat (map_memory (map_layout MapType64 t)) \<and> va div 4096 * 4096 < unat t then Some (va, True) else None)"
proof -
  have below: "va div 4096 < pages_up t \<longleftrightarrow> va div 4096 * 4096 < unat t"
    using round_up_le [of "unat t" "va div 4096"] by (simp add: pages_up_def not_less [symmetric])
  have small: "va div 4096 div 262144 mod 512 < 4" if "va div 4096 * 4096 < unat t"
  proof -
    have "va div 4096 < 1048576" using that assms(5) by linarith
    then show ?thesis by (simp add: div_less_iff_less_mult mod_less_eq_dividend [THEN le_less_trans])
  qed
  define l where "l = unat base + unat (map_memory (map_layout MapType64 t))"
  have "l mod 4096 = 0" using assms(2) map_memory_aligned by (simp add: l_def mod_eq_0_iff_dvd dvd_add)
  then obtain q where q: "l = q * 4096" by (metis dvd_def mod_eq_0_iff_dvd mult.commute)
  have "va div 4096 * 4096 < l \<longleftrightarrow> va < l" unfolding q by (simp add: div_less_iff_less_mult)
  moreover have "unat (map64_end base t) = l"
    unfolding map64_end_def l_def by (rule unat_add_u64) (use assms(1) in linarith)
  ultimately have "page_of va < map64_end base t \<longleftrightarrow> va < l"
    by (simp add: word_less_nat_alt page_of_start [OF assms(4)])
  moreover have "list_ex (zone_hit (page_of va)) zs" using assms(3) by (auto simp: page_writeable_def list_ex_iff)
  ultimately show ?thesis using assms(3) small below by (auto simp: page_present_def simp flip: l_def)
qed

lemma memory_start_map:
  assumes za: "zones_address X86_64 ke (vs_bytes s) (Some im) h = za" "0 < za"
      "unat (im_base im) + unat (im_length im) \<le> unat za"
    and good: "good_map X86_64 (entries (vs_bytes s) im)" "kernel_last ke < 0x300000000"
      "\<forall>e \<in> set (entries (vs_bytes s) im). unat (me_address e) mod 4096 = 0"
    and cpu: "MemoryMapGetAddress (vs_map s) = 0" "CPU_PAEEnabled (vs_cpu s)"
    and total: "t = sum_list (map me_length (entries (vs_bytes s) im))" "unat t \<le> 4294967296"
    and I: "Mem_Initialize X86_64 ke (Some im) h (vs_bytes s, vs_mem s) = ((m, st), out)"
    and alloc: "AllocPages X86_64 (map64_pages t) st = Some (mem', base)" "base \<noteq> 0"
      "unat base + unat (map_memory (map_layout MapType64 t)) < 4294967296"
  obtains s' where "memory_start X86_64 ke (Some im) h s = Some s'"
    "unat za + unat (zones_memory X86_64 (vs_bytes s) (Some im)) \<le> unat base"
    "\<And>e va. e \<in> set (entries (vs_bytes s) im) \<Longrightarrow> me_type e = MemoryEntryTypeUsable \<Longrightarrow> unat (me_address e) \<le> va \<Longrightarrow>
       va < entry_end e \<Longrightarrow> va < 281474976710656 \<Longrightarrow> walk True 9 4 (vs_bytes s') (unat (cr3 (vs_cpu s'))) va =
         (if va < unat base + unat (map_memory (map_layout MapType64 t)) \<and> va div 4096 * 4096 < unat t then Some (va, True) else None)"
proof -
  let ?es = "entries (vs_bytes s) im"
  define s1 where "s1 = s\<lparr>vs_bytes := m, vs_mem := st, vs_out := vs_out s @ out\<rparr>"
  have za': "unat (im_base im) + unat (im_length im) \<le> unat (ptr_of X86_64 za)" using za(3) by simp
  have R: "mem_ok X86_64 st" "map z_type (mm_zones st) = map me_type ?es" "map z_length (mm_zones st) = map me_length ?es"
    "map z_base (mm_zones st) = map (\<lambda>e. ptr_of X86_64 (me_address e)) ?es" "GetTotalBytes st = t"
  proof -
    note Initialize_result [OF za(1,2) za', of "vs_mem s", unfolded I prod.inject, folded total(1)]
    then show "mem_ok X86_64 st" "map z_type (mm_zones st) = map me_type ?es" "map z_length (mm_zones st) = map me_length ?es"
      "map z_base (mm_zones st) = map (\<lambda>e. ptr_of X86_64 (me_address e)) ?es" "GetTotalBytes st = t" by blast+
  qed
  note protected = Initialize_protected [OF za(1,2) za' good(1,2) I]
  obtain k i where A: "(k, i) \<in> set (free_slots st)" "base = slot_addr X86_64 st (k, i)" "mem_ok X86_64 mem'" "k < length (mm_zones st)"
    "map z_type (mm_zones mem') = map me_type ?es" "map z_base (mm_zones mem') = map (\<lambda>e. ptr_of X86_64 (me_address e)) ?es"
    "map z_length (mm_zones mem') = map me_length ?es"
    using AllocPages_zones [OF R(1) alloc(1,2)] unfolding R(2-4) by blast
  have behind: "unat za + unat (zones_memory X86_64 (vs_bytes s) (Some im)) \<le> unat base" using protected(3) A(1,2) by blast
  have "z_base (mm_zones st ! k) = me_address (?es ! k)" "k < length ?es"
    using arg_cong [OF R(4), of length] arg_cong [OF R(4), of "\<lambda>xs. xs ! k"] A(4) by simp_all
  then have aligned: "unat base mod 4096 = 0"
    using good(3) by (simp add: A(2) slot_addr_def page_addr_def page_aligned)
  then obtain s' where s': "SystemMapInitialize X86_64 h s1 = Some s'"
    "\<And>va. va < 281474976710656 \<Longrightarrow> walk True 9 4 (vs_bytes s') (unat (cr3 (vs_cpu s'))) va =
       (if va div 4096 < pages_up t \<and> va div 4096 div 262144 mod 512 < 4 \<and>
           page_present (map64_end base t) (chain mem') (page_of va)
        then Some (va, page_writeable (chain mem') (page_of va)) else None)"
    using SystemMapInitialize64 [of s1 t mem' base h] cpu alloc R(5) by (simp add: s1_def) blast
  have "walk True 9 4 (vs_bytes s') (unat (cr3 (vs_cpu s'))) va =
      (if va < unat base + unat (map_memory (map_layout MapType64 t)) \<and> va div 4096 * 4096 < unat t then Some (va, True) else None)"
    if e: "e \<in> set ?es" "me_type e = MemoryEntryTypeUsable" "unat (me_address e) \<le> va" "va < entry_end e"
      and small: "va < 281474976710656" for e va
  proof -
    have "page_writeable (chain mem') (page_of va)"
      unfolding chain_ok [OF A(3)] by (rule usable_page [OF good(1,3) e small A(5,7,6)])
    from usable_walk [OF alloc(3) aligned this small total(2)] show ?thesis unfolding s'(2) [OF small] .
  qed
  then show ?thesis using that [of s'] s'(1) behind I by (simp add: memory_start_def s1_def)
qed

text \<open>
  C5. After the allocator and the system map are initialised from an ascending BIOS map with entries
  at page boundaries and at most 4 GB of memory, on x86-64, the tables lie behind the zone table,
  which lies behind the kernel; and the walk of the processor gives for an address of usable memory
  the address itself, writeable, if the address lies below the end of the tables and its page starts
  below the sum of the lengths of all entries; every other address of usable memory is not present.
  The code takes the sum for the end of memory: when the BIOS map has holes, the zones and the tables
  themselves may lie behind the sum, and then they are not present.
\<close>

theorem memory_start_maps:
  assumes "zones_address X86_64 ke (vs_bytes s) (Some im) h = za" "0 < za"
      "unat (im_base im) + unat (im_length im) \<le> unat za"
    and "good_map X86_64 (entries (vs_bytes s) im)" "kernel_last ke < 0x300000000"
      "\<forall>e \<in> set (entries (vs_bytes s) im). unat (me_address e) mod 4096 = 0"
    and "MemoryMapGetAddress (vs_map s) = 0" "CPU_PAEEnabled (vs_cpu s)"
    and "t = sum_list (map me_length (entries (vs_bytes s) im))" "unat t \<le> 4294967296"
    and "Mem_Initialize X86_64 ke (Some im) h (vs_bytes s, vs_mem s) = ((m, st), out)"
    and "AllocPages X86_64 (map64_pages t) st = Some (mem', base)" "base \<noteq> 0"
      "unat base + unat (map_memory (map_layout MapType64 t)) < 4294967296"
  shows "\<exists>s'. memory_start X86_64 ke (Some im) h s = Some s' \<and> kernel_last ke < za \<and>
    unat za + unat (zones_memory X86_64 (vs_bytes s) (Some im)) \<le> unat base \<and>
    (\<forall>e \<in> set (entries (vs_bytes s) im). \<forall>va. me_type e = MemoryEntryTypeUsable \<and> unat (me_address e) \<le> va \<and>
       va < entry_end e \<and> va < 281474976710656 \<longrightarrow>
       walk True 9 4 (vs_bytes s') (unat (cr3 (vs_cpu s'))) va =
         (if va < unat base + unat (map_memory (map_layout MapType64 t)) \<and> va div 4096 * 4096 < unat t then Some (va, True) else None))"
proof -
  have "kernel_last ke < za" by (rule zones_behind_kernel(1) [OF assms(1,2,5)])
  then show ?thesis using memory_start_map [OF assms] by metis
qed


text \<open>The machine of the example, with its BIOS map and the kernel up to 0x234567.\<close>

definition memory_boot :: vm_state where
  "memory_boot = \<lparr> vs_cpu = \<lparr> cr0 = 0, cr3 = 0, cr4 = 0x20 \<rparr>, vs_mem = mem_boot, vs_map = map_boot,
     vs_bytes = example_table, vs_out = [] \<rparr>"

lemma init_zone_pageCount:
  "z_pageCount (init_zone A zm e za) = (if 0x1000 < me_length e then me_length e div 0x1000 else 0)"
  by (simp add: init_zone_def Let_def split: prod.split)

lemma find_run_skip:
  "\<forall>j \<in> set is. z_pages z ! j \<noteq> 1 \<Longrightarrow> find_run n z (is @ js) = find_run n z js"
proof (induction "is")
  case (Cons i "is")
  then have "\<not> (0 < n \<and> run_free z i n)" by (auto simp: run_free_def)
  then show ?case using Cons by auto
qed simp

lemma example_run:
  assumes "Mem_Initialize X86_64 0x234567 (Some example_info) h (example_table, mem_boot) = ((m, st), out)"
  shows "AllocPages X86_64 12 st = Some (use_slots st (1, 311) 12, 0x237000)"
proof -
  let ?e1 = "\<lparr>me_address = 0, me_length = 0xA0000, me_type = 2\<rparr>" and ?e2 = "\<lparr>me_address = 0x100000, me_length = 0x1000000, me_type = 1\<rparr>"
  have place: "0 < (0x235000 :: u64)" "unat (im_base example_info) + unat (im_length example_info) \<le> unat (ptr_of X86_64 0x235000)"
    by (simp_all add: example_info_def)
  obtain "end" where "build_zones X86_64 0x1160 [?e1, ?e2] 0x235000 = (mm_zones st, end)"
    using Mem_Initialize_eq [OF example_zones_address place, of h mem_boot] assms
    by (simp add: example_zones_memory example_entries) blast
  then have zs: "mm_zones st = [init_zone X86_64 0x1160 ?e1 0x235000, init_zone X86_64 0x1160 ?e2 0x2350D0]"
    by (simp add: Let_def init_zone_pageCount sizeof_zone_def)
  define z where "z = init_zone X86_64 0x1160 ?e2 0x2350D0"
  note Z = init_zone_props [OF z_def]
  have "length (z_pages z) = unat (z_pageCount z)" using Z(1) by (simp add: zone_ok_def)
  then have len: "length (z_pages z) = 4096" by (simp add: z_def init_zone_pageCount)
  have page: "z_pages z ! j = 1 \<longleftrightarrow> 311 \<le> j" if "j < 4096" for j
  proof -
    have "unat (0x100000 + of_nat j * 0x1000 :: u64) = 0x100000 + j * 0x1000"
      using that by (simp add: unat_word_ariths unat_of_nat)
    then show ?thesis using Z(7) [of j] that len Z(4) by (auto simp: MemoryEntryTypeUsable_def word_le_nat_alt)
  qed
  define N where "N = length (z_pages z)"
  have N: "311 < N" "N = 4096" using len by (simp_all add: N_def)
  then have len311: "311 + (N - 311) = N" by linarith
  have split: "[0..<N] = [0..<311] @ 311 # [Suc 311..<N]"
    using upt_add_eq_append [of 0 311 "N - 311", OF le0] unfolding len311 upt_conv_Cons [OF N(1)] .
  have "run_free z 311 12" "\<not> overrun z 311 12" using page len by (auto simp: run_free_def overrun_def)
  then have "find_run 12 z (311 # [Suc 311..<N]) = Some (Some 311)" by simp
  moreover have "find_run 12 z ([0..<311] @ 311 # [Suc 311..<N]) = find_run 12 z (311 # [Suc 311..<N])"
    using page by (intro find_run_skip ballI) (simp only: set_upt atLeastLessThan_iff, simp)
  ultimately have "find_run 12 z [0..<N] = Some (Some 311)" by (simp only: split)
  then have "find_run_zones (unat (12 :: u32)) (mm_zones st) = Some (Some (1, 311))"
    using init_zone_props(2) [OF refl, of X86_64 "0x1160" ?e1 "0x235000"] Z(2)
    by (simp add: zs MemoryEntryTypeUsable_def flip: z_def N_def)
  moreover have "mem_ok X86_64 st"
    using Initialize_result [OF example_zones_address place, of h mem_boot] assms by auto
  moreover have "slot_addr X86_64 st (1, 311) = 0x237000"
    using Z(4) by (simp add: slot_addr_def page_addr_def zs flip: z_def)
  ultimately show ?thesis by (simp add: AllocPages_eq)
qed

theorem memory_start_maps_witness:
  "\<exists>s'. memory_start X86_64 0x234567 (Some example_info) True memory_boot = Some s' \<and>
    walk True 9 4 (vs_bytes s') (unat (cr3 (vs_cpu s'))) 0x234560 = Some (0x234560, True) \<and>
    walk True 9 4 (vs_bytes s') (unat (cr3 (vs_cpu s'))) 0x300000 = None"
proof -
  obtain m st out where I: "Mem_Initialize X86_64 0x234567 (Some example_info) True (vs_bytes memory_boot, vs_mem memory_boot) = ((m, st), out)"
    by (metis surj_pair)
  have bytes: "vs_bytes memory_boot = example_table" "vs_mem memory_boot = mem_boot" by (simp_all add: memory_boot_def)
  have layout: "map64_pages 0x10A0000 = 12" "unat (map_memory (map_layout MapType64 0x10A0000)) = 0xC000"
    by (simp_all add: map64_pages_def map_memory_def map_layout_def map_types table_count_def Let_def)
  have run: "AllocPages X86_64 (map64_pages 0x10A0000) st = Some (use_slots st (1, 311) 12, 0x237000)"
    using example_run [of True m st out] I by (simp add: bytes layout)
  have total: "0x10A0000 = sum_list (map me_length (entries (vs_bytes memory_boot) example_info))"
    by (simp add: bytes example_entries)
  have "zones_address X86_64 0x234567 (vs_bytes memory_boot) (Some example_info) True = 0x235000"
    "good_map X86_64 (entries (vs_bytes memory_boot) example_info)"
    by (simp_all add: bytes example_zones_address example_good_map)
  note main = memory_start_maps [OF this(1) _ _ this(2) _ _ _ _ total _ I run]
  have "MemoryMapGetAddress (vs_map memory_boot) = 0" "CPU_PAEEnabled (vs_cpu memory_boot)"
    by (simp_all add: memory_boot_def map_boot_def MemoryMapGetAddress_def CPU_PAEEnabled_def CPU_GetCR4_def)
  then show ?thesis
    using main by (simp add: bytes example_entries layout kernel_last_def entry_end_def MemoryEntryTypeUsable_def)
      (auto simp: example_info_def)
qed

end
