(* ===== verification/XEOS_String.thy ===== *)
theory XEOS_String
  imports XEOS_Bytes
begin

text \<open>
  The string functions of the C library the kernel is linked with (source/lib/c99/string).

  Strings and areas live in byte memory; a pointer is the address of its first byte and NULL is
  address 0.  A function whose loop ends only at a terminator is a partial function: None means that
  it never returns.  The C versions of memchr, memcpy, memset and strlen work on words of the size
  of long, which the macro __LP64__ makes 8 instead of 4 bytes: these take the flag lp64.
\<close>

definition long_size :: "bool \<Rightarrow> nat" where
  "long_size lp64 = (if lp64 then 8 else 4)"

text \<open>p & -sizeof( long ) clears the low bits of an address.\<close>

definition long_floor :: "bool \<Rightarrow> nat \<Rightarrow> nat" where
  "long_floor lp64 p = p - p mod long_size lp64"

definition rd_long :: "bool \<Rightarrow> bytes \<Rightarrow> nat \<Rightarrow> u64" where
  "rd_long lp64 m a = of_nat (rd_le (long_size lp64) m a)"

definition wr_long :: "bool \<Rightarrow> bytes \<Rightarrow> nat \<Rightarrow> u64 \<Rightarrow> bytes" where
  "wr_long lp64 m a v = wr_le (long_size lp64) m a (unat v)"


section \<open>Length\<close>

text \<open>The test for a zero byte in a word, and the byte that is zero.\<close>

definition has_zero :: "bool \<Rightarrow> u64 \<Rightarrow> bool" where
  "has_zero lp64 l =
     (if lp64 then ((l - 0x0101010101010101) AND (NOT l AND 0x8080808080808080)) \<noteq> 0
      else let k = (ucast l :: u32) in ((k - 0x01010101) AND (NOT k AND 0x80808080)) \<noteq> 0)"

definition zero_byte :: "bool \<Rightarrow> u64 \<Rightarrow> nat option" where
  "zero_byte lp64 l =
     (if l AND 0x000000FF = 0 then Some 0
      else if l AND 0x0000FF00 = 0 then Some 1
      else if l AND 0x00FF0000 = 0 then Some 2
      else if l AND 0xFF000000 = 0 then Some 3
      else if \<not> lp64 then None
      else if l AND 0x000000FF00000000 = 0 then Some 4
      else if l AND 0x0000FF0000000000 = 0 then Some 5
      else if l AND 0x00FF000000000000 = 0 then Some 6
      else if l AND 0xFF00000000000000 = 0 then Some 7
      else None)"

partial_function (option) strlen_longs :: "bool \<Rightarrow> bytes \<Rightarrow> nat \<Rightarrow> nat \<Rightarrow> nat option" where
  "strlen_longs lp64 m s lp =
     (if \<not> has_zero lp64 (rd_long lp64 m lp) then strlen_longs lp64 m s (lp + long_size lp64)
      else case zero_byte lp64 (rd_long lp64 m lp) of
             Some k \<Rightarrow> Some ((lp - s) + k)
           | None \<Rightarrow> strlen_longs lp64 m s (lp + long_size lp64))"

partial_function (option) strlen_bytes :: "bool \<Rightarrow> bytes \<Rightarrow> nat \<Rightarrow> nat \<Rightarrow> nat option" where
  "strlen_bytes lp64 m s cp =
     (if long_floor lp64 cp < cp
      then if m cp = 0 then Some (cp - s) else strlen_bytes lp64 m s (cp + 1)
      else strlen_longs lp64 m s cp)"

definition strlen :: "bool \<Rightarrow> bytes \<Rightarrow> nat \<Rightarrow> nat option" where
  "strlen lp64 m s = strlen_bytes lp64 m s s"


section \<open>Search in a string\<close>

partial_function (option) strchr :: "bytes \<Rightarrow> nat \<Rightarrow> u32 \<Rightarrow> nat option" where
  "strchr m s c =
     (if m s \<noteq> 0 then (if m s = ucast c then Some s else strchr m (s + 1) c)
      else if c = 0 then Some s else Some 0)"

fun strrchr_back :: "bytes \<Rightarrow> nat \<Rightarrow> u32 \<Rightarrow> nat \<Rightarrow> nat" where
  "strrchr_back m s c p =
     (if s \<le> p then (if m p = ucast c then p
                     else if p = 0 then 0 else strrchr_back m s c (p - 1))
      else 0)"

definition strrchr :: "bool \<Rightarrow> bytes \<Rightarrow> nat \<Rightarrow> u32 \<Rightarrow> nat option" where
  "strrchr lp64 m s c = map_option (\<lambda>n. strrchr_back m s c (s + n)) (strlen lp64 m s)"

text \<open>The inner loop of strspn, strcspn and strpbrk: is a character in the string at p2?\<close>

partial_function (option) in_string :: "bytes \<Rightarrow> u8 \<Rightarrow> nat \<Rightarrow> bool option" where
  "in_string m x p2 =
     (if m p2 \<noteq> 0 then (if x = m p2 then Some True else in_string m x (p2 + 1)) else Some False)"

partial_function (option) strspn_loop :: "bytes \<Rightarrow> nat \<Rightarrow> nat \<Rightarrow> nat \<Rightarrow> nat option" where
  "strspn_loop m s1 s2 p1 =
     (if m p1 \<noteq> 0
      then do { hit \<leftarrow> in_string m (m p1) s2;
                if \<not> hit then Some (p1 - s1) else strspn_loop m s1 s2 (p1 + 1) }
      else Some (p1 - s1))"

definition strspn :: "bytes \<Rightarrow> nat \<Rightarrow> nat \<Rightarrow> nat option" where
  "strspn m s1 s2 = strspn_loop m s1 s2 s1"

partial_function (option) strcspn_loop :: "bytes \<Rightarrow> nat \<Rightarrow> nat \<Rightarrow> nat \<Rightarrow> nat option" where
  "strcspn_loop m s1 s2 p1 =
     (if m p1 \<noteq> 0
      then do { hit \<leftarrow> in_string m (m p1) s2;
                if hit then Some (p1 - s1) else strcspn_loop m s1 s2 (p1 + 1) }
      else Some (p1 - s1))"

definition strcspn :: "bytes \<Rightarrow> nat \<Rightarrow> nat \<Rightarrow> nat option" where
  "strcspn m s1 s2 = strcspn_loop m s1 s2 s1"

partial_function (option) strpbrk_loop :: "bytes \<Rightarrow> nat \<Rightarrow> nat \<Rightarrow> nat option" where
  "strpbrk_loop m s2 p1 =
     (if m p1 \<noteq> 0
      then do { hit \<leftarrow> in_string m (m p1) s2;
                if hit then Some p1 else strpbrk_loop m s2 (p1 + 1) }
      else Some 0)"

definition strpbrk :: "bytes \<Rightarrow> nat \<Rightarrow> nat \<Rightarrow> nat option" where
  "strpbrk m s1 s2 = strpbrk_loop m s2 s1"

text \<open>strstr: the inner loop runs along both strings while they agree.\<close>

partial_function (option) strstr_match :: "bytes \<Rightarrow> nat \<Rightarrow> nat \<Rightarrow> bool option" where
  "strstr_match m p2 p3 =
     (if m p3 \<noteq> 0 \<and> m p2 = m p3 then strstr_match m (p2 + 1) (p3 + 1) else Some (m p3 = 0))"

partial_function (option) strstr_loop :: "bytes \<Rightarrow> nat \<Rightarrow> nat \<Rightarrow> nat option" where
  "strstr_loop m s2 p1 =
     (if m p1 \<noteq> 0
      then do { hit \<leftarrow> (if m p1 = m s2 then strstr_match m p1 s2 else Some False);
                if hit then Some p1 else strstr_loop m s2 (p1 + 1) }
      else Some 0)"

definition strstr :: "bytes \<Rightarrow> nat \<Rightarrow> nat \<Rightarrow> nat option" where
  "strstr m s1 s2 = (if m s2 = 0 then Some s1 else strstr_loop m s2 s1)"


section \<open>Comparison\<close>

partial_function (option) strcmp :: "bytes \<Rightarrow> nat \<Rightarrow> nat \<Rightarrow> int option" where
  "strcmp m p1 p2 =
     (if m p1 \<noteq> 0
      then if m p1 < m p2 then Some (-1)
           else if m p2 < m p1 then Some 1
           else strcmp m (p1 + 1) (p2 + 1)
      else if m p2 = 0 then Some 0 else Some (-1))"

definition strcoll :: "bytes \<Rightarrow> nat \<Rightarrow> nat \<Rightarrow> int option" where
  "strcoll m s1 s2 = strcmp m s1 s2"

primrec strncmp :: "bytes \<Rightarrow> nat \<Rightarrow> nat \<Rightarrow> nat \<Rightarrow> int" where
  "strncmp m p1 p2 0 = 0"
| "strncmp m p1 p2 (Suc n) =
     (if m p1 < m p2 then -1
      else if m p2 < m p1 then 1
      else if m p1 = 0 then 0
      else strncmp m (p1 + 1) (p2 + 1) n)"

primrec memcmp :: "bytes \<Rightarrow> nat \<Rightarrow> nat \<Rightarrow> nat \<Rightarrow> int" where
  "memcmp m p1 p2 0 = 0"
| "memcmp m p1 p2 (Suc n) =
     (if m p1 < m p2 then -1 else if m p2 < m p1 then 1 else memcmp m (p1 + 1) (p2 + 1) n)"


section \<open>Copying strings\<close>

partial_function (option) strcpy_loop :: "bytes \<Rightarrow> nat \<Rightarrow> nat \<Rightarrow> bytes option" where
  "strcpy_loop m p s2 = (let m1 = m(p := m s2)
     in if m s2 \<noteq> 0 then strcpy_loop m1 (p + 1) (s2 + 1) else Some m1)"

definition strcpy :: "bytes \<Rightarrow> nat \<Rightarrow> nat \<Rightarrow> (bytes \<times> nat) option" where
  "strcpy m s1 s2 = map_option (\<lambda>m1. (m1, s1)) (strcpy_loop m s1 s2)"

partial_function (option) string_end :: "bytes \<Rightarrow> nat \<Rightarrow> nat option" where
  "string_end m p = (if m p \<noteq> 0 then string_end m (p + 1) else Some p)"

definition strcat :: "bytes \<Rightarrow> nat \<Rightarrow> nat \<Rightarrow> (bytes \<times> nat) option" where
  "strcat m s1 s2 = do { p \<leftarrow> string_end m s1; m1 \<leftarrow> strcpy_loop m p s2; Some (m1, s1) }"

primrec strncat_loop :: "bytes \<Rightarrow> nat \<Rightarrow> nat \<Rightarrow> nat \<Rightarrow> bytes" where
  "strncat_loop m p s2 0 = m(p := 0)"
| "strncat_loop m p s2 (Suc n) =
     (if m s2 \<noteq> 0 then strncat_loop (m(p := m s2)) (p + 1) (s2 + 1) n else m(p := 0))"

definition strncat :: "bytes \<Rightarrow> nat \<Rightarrow> nat \<Rightarrow> nat \<Rightarrow> (bytes \<times> nat) option" where
  "strncat m s1 s2 n = do { p \<leftarrow> string_end m s1; Some (strncat_loop m p s2 n, s1) }"

primrec zero_rest :: "bytes \<Rightarrow> nat \<Rightarrow> nat \<Rightarrow> bytes" where
  "zero_rest m p 0 = m"
| "zero_rest m p (Suc n) = zero_rest (m(p := 0)) (p + 1) n"

text \<open>The second loop starts with the index and the pointer of the terminator.\<close>

primrec strncpy_loop :: "bytes \<Rightarrow> nat \<Rightarrow> nat \<Rightarrow> nat \<Rightarrow> bytes" where
  "strncpy_loop m p s2 0 = m"
| "strncpy_loop m p s2 (Suc n) =
     (let m1 = m(p := m s2)
      in if m1 s2 = 0 then zero_rest m1 p (Suc n) else strncpy_loop m1 (p + 1) (s2 + 1) n)"

definition strncpy :: "bytes \<Rightarrow> nat \<Rightarrow> nat \<Rightarrow> nat \<Rightarrow> bytes \<times> nat" where
  "strncpy m s1 s2 n = (strncpy_loop m s1 s2 n, s1)"


section \<open>Areas\<close>

definition memmove :: "bytes \<Rightarrow> nat \<Rightarrow> nat \<Rightarrow> nat \<Rightarrow> bytes \<times> nat" where
  "memmove m s1 s2 n =
     (if s1 \<le> s2 then fold (\<lambda>i m. m(s1 + i := m (s2 + i))) [0..<n] m
      else if n \<noteq> 0 then fold (\<lambda>i m. m(s1 + i := m (s2 + i))) (rev [0..<n]) m
      else m, s1)"

text \<open>memset: byte by byte up to an aligned address, 16 and 8 words at a time, words, bytes.\<close>

primrec set_bytes :: "u8 \<Rightarrow> nat \<Rightarrow> nat \<Rightarrow> bytes \<Rightarrow> bytes" where
  "set_bytes c 0 cp m = m"
| "set_bytes c (Suc n) cp m = set_bytes c n (cp + 1) (m(cp := c))"

definition set_longs :: "bool \<Rightarrow> u64 \<Rightarrow> nat \<Rightarrow> nat \<Rightarrow> bytes \<Rightarrow> bytes" where
  "set_longs lp64 l k lp m = fold (\<lambda>i m. wr_long lp64 m (lp + i * long_size lp64) l) [0..<k] m"

function memset_blocks :: "bool \<Rightarrow> u64 \<Rightarrow> nat \<Rightarrow> nat \<times> nat \<times> bytes \<Rightarrow> nat \<times> nat \<times> bytes" where
  "memset_blocks lp64 l k (n, lp, m) =
     (if 0 < k \<and> long_size lp64 * k < n
      then memset_blocks lp64 l k (n - long_size lp64 * k, lp + long_size lp64 * k, set_longs lp64 l k lp m)
      else (n, lp, m))"
  by pat_completeness auto
termination by (relation "measure (\<lambda>(_, _, _, n, _, _). n)") (auto simp: long_size_def)

primrec memset_head :: "bool \<Rightarrow> u8 \<Rightarrow> nat \<Rightarrow> nat \<Rightarrow> bytes \<Rightarrow> nat \<times> nat \<times> bytes" where
  "memset_head lp64 c 0 cp m = (0, cp, m)"
| "memset_head lp64 c (Suc n) cp m =
     (if long_floor lp64 cp < cp then memset_head lp64 c n (cp + 1) (m(cp := c)) else (Suc n, cp, m))"

definition long_of_byte :: "bool \<Rightarrow> u8 \<Rightarrow> u64" where
  "long_of_byte lp64 c =
     (let l = push_bit 24 (ucast c) OR push_bit 16 (ucast c) OR push_bit 8 (ucast c) OR ucast c
      in if lp64 then push_bit 32 l OR l else l)"

definition memset :: "bool \<Rightarrow> bytes \<Rightarrow> nat \<Rightarrow> u32 \<Rightarrow> nat \<Rightarrow> bytes \<times> nat" where
  "memset lp64 m s c n =
     (if s = 0 \<or> n = 0 then (m, s)
      else let c8 = (ucast c :: u8);
               l = long_of_byte lp64 c8;
               (n1, p1, m1) = memset_blocks lp64 l 1
                 (memset_blocks lp64 l 8 (memset_blocks lp64 l 16 (memset_head lp64 c8 n s m)))
           in (set_bytes c8 n1 p1 m1, s))"

text \<open>memchr: the word loop tests for a zero byte in the exclusive or with the character.\<close>

primrec chr_bytes :: "u8 \<Rightarrow> bytes \<Rightarrow> nat \<Rightarrow> nat \<Rightarrow> nat" where
  "chr_bytes c m 0 cp = 0"
| "chr_bytes c m (Suc n) cp = (if m cp = c then cp else chr_bytes c m n (cp + 1))"

function chr_longs :: "bool \<Rightarrow> u8 \<Rightarrow> bytes \<Rightarrow> nat \<Rightarrow> nat \<Rightarrow> nat" where
  "chr_longs lp64 c m n lp =
     (if long_size lp64 < n
      then let l = rd_long lp64 m lp;
               magic = (if lp64 then 0x0101010101010101 else 0x01010101) * ucast c;
               lp1 = lp + long_size lp64
           in if \<not> has_zero lp64 (l XOR magic) then chr_longs lp64 c m (n - long_size lp64) lp1
              else case zero_byte lp64 (l XOR long_of_byte lp64 c) of
                     Some k \<Rightarrow> lp1 - (long_size lp64 - k)
                   | None \<Rightarrow> chr_longs lp64 c m (n - long_size lp64) lp1
      else chr_bytes c m n lp)"
  by pat_completeness auto
termination by (relation "measure (\<lambda>(_, _, _, n, _). n)") (auto simp: long_size_def)

primrec chr_head :: "bool \<Rightarrow> u8 \<Rightarrow> bytes \<Rightarrow> nat \<Rightarrow> nat \<Rightarrow> nat" where
  "chr_head lp64 c m 0 cp = chr_longs lp64 c m 0 cp"
| "chr_head lp64 c m (Suc n) cp =
     (if long_floor lp64 cp < cp
      then if m cp = c then cp else chr_head lp64 c m n (cp + 1)
      else chr_longs lp64 c m (Suc n) cp)"

definition memchr :: "bool \<Rightarrow> bytes \<Rightarrow> nat \<Rightarrow> u32 \<Rightarrow> nat \<Rightarrow> nat" where
  "memchr lp64 m s c n = (if s = 0 \<or> n = 0 then 0 else chr_head lp64 (ucast c) m n s)"

declare memset_blocks.simps [simp del] chr_longs.simps [simp del] strrchr_back.simps [simp del]

end
