(* ===== verification/XEOS_StringWords.thy ===== *)
theory XEOS_StringWords
  imports XEOS_String
begin

text \<open>
  Words as bytes, for the word loops of the string functions: the bits of a word read from memory
  are the bits of its bytes, the test for a zero byte misses none, and the byte the masks select is
  the first zero byte.
\<close>

lemma bit_low_nat: "b < 256 \<Longrightarrow> k < 8 \<Longrightarrow> bit (b + 256 * R :: nat) k = bit b k"
proof -
  assume "b < 256" "k < 8"
  moreover have "bit (take_bit 8 (b + 256 * R)) k \<longleftrightarrow> k < 8 \<and> bit (b + 256 * R) k" by (rule bit_take_bit_iff)
  ultimately show ?thesis by (simp add: take_bit_eq_mod)
qed

lemma bit_high_nat: "b < 256 \<Longrightarrow> bit (b + 256 * R :: nat) (8 + k) = bit R k"
proof -
  assume "b < 256"
  moreover have "bit (drop_bit 8 (b + 256 * R)) k \<longleftrightarrow> bit (b + 256 * R) (8 + k)" by (simp add: bit_drop_bit_eq)
  ultimately show ?thesis by (simp add: drop_bit_eq_div)
qed

lemma bit_low_int: "0 \<le> b \<Longrightarrow> b < 256 \<Longrightarrow> k < 8 \<Longrightarrow> bit (b + 256 * R :: int) k = bit b k"
proof -
  assume "0 \<le> b" "b < 256" "k < 8"
  moreover have "bit (take_bit 8 (b + 256 * R)) k \<longleftrightarrow> k < 8 \<and> bit (b + 256 * R) k" by (rule bit_take_bit_iff)
  ultimately show ?thesis by (simp add: take_bit_eq_mod)
qed

lemma bit_high_int: "0 \<le> b \<Longrightarrow> b < 256 \<Longrightarrow> bit (b + 256 * R :: int) (8 + k) = bit R k"
proof -
  assume "0 \<le> b" "b < 256"
  moreover have "bit (drop_bit 8 (b + 256 * R)) k \<longleftrightarrow> bit (b + 256 * R) (8 + k)" by (simp add: bit_drop_bit_eq)
  ultimately show ?thesis by (simp add: drop_bit_eq_div)
qed

lemma bit_rd_le: "i < n \<Longrightarrow> j < 8 \<Longrightarrow> bit (rd_le n m a) (8 * i + j) = bit (m (a + i)) j"
proof (induction n arbitrary: a i)
  case (Suc n)
  have b: "unat (m a) < 256" by (rule unat_u8)
  show ?case
  proof (cases i)
    case 0
    then show ?thesis using Suc.prems by (simp add: bit_low_nat [OF b] bit_unsigned_iff)
  next
    case (Suc k)
    then have "bit (rd_le (Suc n) m a) (8 + (8 * k + j)) = bit (rd_le n m (Suc a)) (8 * k + j)"
      by (simp only: rd_le.simps bit_high_nat [OF b])
    then show ?thesis using Suc.IH [of k "Suc a"] Suc.prems Suc by (simp add: add.assoc)
  qed
qed simp

primrec ones :: "nat \<Rightarrow> int" where
  "ones 0 = 0"
| "ones (Suc n) = 1 + 256 * ones n"

lemma sub_ones_bit:
  "i < n \<Longrightarrow> \<forall>j<i. m (a + j) \<noteq> 0 \<Longrightarrow> m (a + i) = 0 \<Longrightarrow> bit (int (rd_le n m a) - ones n) (8 * i + 7)"
proof (induction n arbitrary: a i)
  case (Suc n)
  show ?case
  proof (cases i)
    case 0
    have "int (rd_le (Suc n) m a) - ones (Suc n) = 255 + 256 * (int (rd_le n m (Suc a)) - ones n - 1)"
      using 0 Suc.prems by simp
    then have "bit (int (rd_le (Suc n) m a) - ones (Suc n)) 7 = bit (255 :: int) 7"
      by (simp only: bit_low_int)
    then show ?thesis using 0 by simp
  next
    case (Suc k)
    have "m a \<noteq> 0" using Suc.prems(2) Suc by force
    then have "0 < unat (m a)" by (simp add: unat_gt_0)
    then have b: "0 \<le> int (unat (m a)) - 1" "int (unat (m a)) - 1 < 256"
      using unat_u8 [of "m a"] by linarith+
    have "int (rd_le (Suc n) m a) - ones (Suc n) = (int (unat (m a)) - 1) + 256 * (int (rd_le n m (Suc a)) - ones n)"
      by simp
    then have "bit (int (rd_le (Suc n) m a) - ones (Suc n)) (8 + (8 * k + 7)) =
        bit (int (rd_le n m (Suc a)) - ones n) (8 * k + 7)"
      by (simp only: bit_high_int [OF b])
    moreover have "bit (int (rd_le n m (Suc a)) - ones n) (8 * k + 7)"
      using Suc.prems Suc by (intro Suc.IH) auto
    ultimately show ?thesis using Suc by (simp add: add.assoc)
  qed
qed simp


lemma bit_of_nat_u64: "bit (of_nat n :: u64) k \<longleftrightarrow> k < 64 \<and> bit n k"
  using bit_word_of_int_iff [of "int n" k, where 'a = 64] by (simp add: bit_of_nat_iff)

lemma bit_of_nat_u32: "bit (of_nat n :: u32) k \<longleftrightarrow> k < 32 \<and> bit n k"
  using bit_word_of_int_iff [of "int n" k, where 'a = 32] by (simp add: bit_of_nat_iff)

lemma long_size_cases: "long_size lp64 = 8 \<and> lp64 \<or> long_size lp64 = 4 \<and> \<not> lp64"
  by (simp add: long_size_def)

lemma bit_rd_long:
  "i < long_size lp64 \<Longrightarrow> j < 8 \<Longrightarrow> bit (rd_long lp64 m a) (8 * i + j) = bit (m (a + i)) j"
  by (auto simp: rd_long_def bit_of_nat_u64 bit_rd_le long_size_def split: if_splits)

lemma bit_high_byte: "k = 8 * i + 7 \<Longrightarrow> i < 8 \<Longrightarrow> bit (0x8080808080808080 :: u64) k"
proof -
  assume k: "k = 8 * i + 7" "i < 8"
  have "i \<in> {0, 1, 2, 3, 4, 5, 6, 7}" using k(2) by auto
  then show ?thesis unfolding k(1) by auto
qed

lemma bit_high_byte32: "k = 8 * i + 7 \<Longrightarrow> i < 4 \<Longrightarrow> bit (0x80808080 :: u32) k"
proof -
  assume k: "k = 8 * i + 7" "i < 4"
  have "i \<in> {0, 1, 2, 3}" using k(2) by auto
  then show ?thesis unfolding k(1) by auto
qed

lemma ones_numeral: "ones 8 = 0x0101010101010101" "ones 4 = 0x01010101"
  by (simp_all add: eval_nat_numeral)

text \<open>A word with a zero byte passes the test.\<close>

lemma has_zero_complete:
  assumes "i < long_size lp64" "\<forall>j<i. m (a + j) \<noteq> 0" "m (a + i) = 0"
  shows "has_zero lp64 (rd_long lp64 m a)"
proof -
  let ?n = "rd_le (long_size lp64) m a" and ?k = "8 * i + 7"
  have s: "bit (int ?n - ones (long_size lp64)) ?k" using assms by (rule sub_ones_bit)
  have z: "\<not> bit ?n ?k" using bit_rd_le [of i "long_size lp64" 7 m a] assms by simp
  show ?thesis
  proof (cases lp64)
    case True
    have "(of_nat ?n :: u64) - 0x0101010101010101 = word_of_int (int ?n - ones 8)"
      by (simp add: ones_numeral)
    moreover have "bit (word_of_int (int ?n - ones 8) :: u64) ?k"
      unfolding bit_word_of_int_iff using s True assms(1) by (simp add: long_size_def)
    ultimately have "bit ((of_nat ?n :: u64) - 0x0101010101010101) ?k" by (simp only:)
    moreover have "bit (NOT (of_nat ?n :: u64)) ?k"
      using z True assms(1) by (simp add: bit_not_iff bit_of_nat_u64 long_size_def)
    moreover have "bit (0x8080808080808080 :: u64) ?k"
      using True assms(1) by (intro bit_high_byte [OF refl]) (simp add: long_size_def)
    ultimately have "bit ((of_nat ?n - 0x0101010101010101) AND (NOT (of_nat ?n :: u64) AND 0x8080808080808080)) ?k"
      by (simp only: bit_and_iff)
    then show ?thesis using True unfolding has_zero_def rd_long_def by (metis bit_0_eq bot_apply bot_bool_def)
  next
    case False
    have u: "ucast (of_nat ?n :: u64) = (of_nat ?n :: u32)"
      by (rule bit_word_eqI) (simp add: bit_ucast_iff bit_of_nat_u64 bit_of_nat_u32)
    have "(of_nat ?n :: u32) - 0x01010101 = word_of_int (int ?n - ones 4)"
      by (simp add: ones_numeral)
    moreover have "bit (word_of_int (int ?n - ones 4) :: u32) ?k"
      unfolding bit_word_of_int_iff using s False assms(1) by (simp add: long_size_def)
    ultimately have "bit ((of_nat ?n :: u32) - 0x01010101) ?k" by (simp only:)
    moreover have "bit (NOT (of_nat ?n :: u32)) ?k"
      using z False assms(1) by (simp add: bit_not_iff bit_of_nat_u32 long_size_def)
    moreover have "bit (0x80808080 :: u32) ?k"
      using False assms(1) by (intro bit_high_byte32 [OF refl]) (simp add: long_size_def)
    ultimately have "bit ((of_nat ?n - 0x01010101) AND (NOT (of_nat ?n :: u32) AND 0x80808080)) ?k"
      by (simp only: bit_and_iff)
    then show ?thesis using False unfolding has_zero_def rd_long_def Let_def u by (metis bit_0_eq bot_apply bot_bool_def)
  qed
qed


lemma byte_zero_iff:
  assumes "i < long_size lp64" "k = 8 * i" "x = push_bit k (mask 8)"
  shows "rd_long lp64 m a AND x = 0 \<longleftrightarrow> m (a + i) = 0"
proof
  assume z: "rd_long lp64 m a AND x = 0"
  show "m (a + i) = 0"
  proof (rule bit_word_eqI)
    fix j :: nat assume "j < LENGTH(8)"
    then have j: "j < 8" by simp
    have i: "i < 8" using assms(1) by (auto simp: long_size_def split: if_splits)
    have "\<not> bit (rd_long lp64 m a AND x) (8 * i + j)" unfolding z by simp
    moreover have "bit x (8 * i + j)" using j i by (simp add: assms bit_push_bit_iff bit_mask_iff)
    ultimately show "bit (m (a + i)) j = bit 0 j" using bit_rd_long [OF assms(1) j, of m a] by (simp add: bit_and_iff)
  qed
next
  assume z: "m (a + i) = 0"
  show "rd_long lp64 m a AND x = 0"
  proof (rule bit_word_eqI)
    fix n :: nat
    have "\<not> (bit (rd_long lp64 m a) n \<and> bit x n)"
    proof
      assume b: "bit (rd_long lp64 m a) n \<and> bit x n"
      then have n: "8 * i \<le> n" "n - 8 * i < 8" by (auto simp: assms bit_push_bit_iff bit_mask_iff)
      then have "bit (rd_long lp64 m a) (8 * i + (n - 8 * i)) = bit (m (a + i)) (n - 8 * i)"
        by (intro bit_rd_long assms(1)) simp
      then show False using b n z by simp
    qed
    then show "bit (rd_long lp64 m a AND x) n = bit 0 n" by (simp add: bit_and_iff)
  qed
qed

lemma byte_zero:
  "rd_long lp64 m a AND 0xFF = 0 \<longleftrightarrow> m a = 0"
  "rd_long lp64 m a AND 0xFF00 = 0 \<longleftrightarrow> m (a + 1) = 0"
  "rd_long lp64 m a AND 0xFF0000 = 0 \<longleftrightarrow> m (a + 2) = 0"
  "rd_long lp64 m a AND 0xFF000000 = 0 \<longleftrightarrow> m (a + 3) = 0"
  using byte_zero_iff [of 0 lp64 0 "0xFF"] byte_zero_iff [of 1 lp64 8 "0xFF00"]
    byte_zero_iff [of 2 lp64 16 "0xFF0000"] byte_zero_iff [of 3 lp64 24 "0xFF000000"] long_size_cases [of lp64]
  by (auto simp: mask_eq_exp_minus_1)

lemma byte_zero64:
  "rd_long True m a AND 0xFF00000000 = 0 \<longleftrightarrow> m (a + 4) = 0"
  "rd_long True m a AND 0xFF0000000000 = 0 \<longleftrightarrow> m (a + 5) = 0"
  "rd_long True m a AND 0xFF000000000000 = 0 \<longleftrightarrow> m (a + 6) = 0"
  "rd_long True m a AND 0xFF00000000000000 = 0 \<longleftrightarrow> m (a + 7) = 0"
  using byte_zero_iff [of 4 True 32 "0xFF00000000"] byte_zero_iff [of 5 True 40 "0xFF0000000000"]
    byte_zero_iff [of 6 True 48 "0xFF000000000000"] byte_zero_iff [of 7 True 56 "0xFF00000000000000"]
  by (simp_all add: mask_eq_exp_minus_1 long_size_def)

lemma upt_4_8: "[0..<4::nat] = [0, 1, 2, 3]" "[0..<8::nat] = [0, 1, 2, 3, 4, 5, 6, 7]"
  by (simp_all add: upt_rec)

lemma zero_byte_find: "zero_byte lp64 (rd_long lp64 m a) = find (\<lambda>i. m (a + i) = 0) [0..<long_size lp64]"
proof (cases lp64)
  case True
  then have w: "lp64 = True" "long_size True = 8" by (simp_all add: long_size_def)
  show ?thesis unfolding zero_byte_def w upt_4_8 byte_zero byte_zero64 find.simps add_0_right by simp
next
  case False
  then have w: "lp64 = False" "long_size False = 4" by (simp_all add: long_size_def)
  show ?thesis unfolding zero_byte_def w upt_4_8 byte_zero find.simps add_0_right by simp
qed

text \<open>The skip test never changes the result.\<close>

lemma zero_test_find:
  "(if \<not> has_zero lp64 (rd_long lp64 m a) then X
    else case zero_byte lp64 (rd_long lp64 m a) of Some k \<Rightarrow> f k | None \<Rightarrow> X) =
   (case find (\<lambda>i. m (a + i) = 0) [0..<long_size lp64] of Some k \<Rightarrow> f k | None \<Rightarrow> X)"
proof (cases "find (\<lambda>i. m (a + i) = 0) [0..<long_size lp64]")
  case (Some k)
  then have "k < long_size lp64" "m (a + k) = 0" "\<forall>j<k. m (a + j) \<noteq> 0"
    by (auto simp: find_Some_iff)
  then have "has_zero lp64 (rd_long lp64 m a)" by (intro has_zero_complete)
  then show ?thesis by (simp add: zero_byte_find Some)
qed (simp add: zero_byte_find)

lemma rd_le_const: "rd_le n (\<lambda>_. c) a = unat c * nat (ones n)" for c :: u8
proof (induction n arbitrary: a)
  case (Suc n)
  have "0 \<le> ones n" by (induction n) auto
  then show ?case using Suc by (simp add: nat_add_distrib nat_mult_distrib algebra_simps)
qed simp

lemma magic_eq: "(if lp64 then 0x0101010101010101 else 0x01010101) * ucast c = rd_long lp64 (\<lambda>_. c) a"
proof -
  have "(of_nat (unat c) :: u64) = ucast c" by simp
  then show ?thesis
    using long_size_cases [of lp64] by (auto simp: rd_long_def rd_le_const ones_numeral mult.commute)
qed

lemma nat_byte_cases: "n < 64 \<Longrightarrow> \<exists>i j. n = 8 * i + j \<and> i < 8 \<and> j < (8 :: nat)"
  by (intro exI [of _ "n div 8"] exI [of _ "n mod 8"]) auto

lemma bit_u8: "bit (c :: u8) j \<Longrightarrow> j < 8"
  using bit_imp_le_length [of c j] by simp

lemma rd_long_high: "long_size lp64 \<le> i \<Longrightarrow> \<not> bit (rd_long lp64 m a) (8 * i + j)"
proof -
  assume i: "long_size lp64 \<le> i"
  have "rd_le (long_size lp64) m a < 2 ^ (8 * long_size lp64)"
    using rd_le_bound [of "long_size lp64" m a] by (simp add: power_mult)
  also have "\<dots> \<le> 2 ^ (8 * i + j)" using i by simp
  finally have "\<not> bit (rd_le (long_size lp64) m a) (8 * i + j)" by (simp add: bit_iff_odd)
  then show ?thesis by (simp add: rd_long_def bit_of_nat_u64)
qed

lemma rd_long_eqI:
  assumes "\<And>i j. i < long_size lp64 \<Longrightarrow> j < 8 \<Longrightarrow> bit x (8 * i + j) = bit (m (a + i)) j"
    and "\<And>i j. long_size lp64 \<le> i \<Longrightarrow> i < 8 \<Longrightarrow> j < 8 \<Longrightarrow> \<not> bit x (8 * i + j)"
  shows "x = rd_long lp64 m a"
proof (rule bit_word_eqI)
  fix n :: nat assume "n < LENGTH(64)"
  then obtain i j where "n = 8 * i + j" "i < 8" "j < 8" using nat_byte_cases by fastforce
  then show "bit x n = bit (rd_long lp64 m a) n"
    using assms [of i j] bit_rd_long [of i lp64 j m a] rd_long_high [of lp64 i m a j] by (cases "i < long_size lp64") auto
qed

lemma bit_byte_at:
  assumes "i < 8" "j < 8"
  shows "bit (push_bit (8 * q) (ucast (c :: u8) :: u64)) (8 * i + j) \<longleftrightarrow> i = q \<and> bit c j"
proof (cases "i = q")
  case True
  then show ?thesis using assms by (simp add: bit_push_bit_iff bit_ucast_iff)
next
  case False
  then have "8 * i + j < 8 * q \<or> 8 \<le> 8 * i + j - 8 * q" using assms by linarith
  then have "\<not> (8 * q \<le> 8 * i + j \<and> bit c (8 * i + j - 8 * q))" using bit_u8 [of c "8 * i + j - 8 * q"] by linarith
  then show ?thesis using False by (simp add: bit_push_bit_iff bit_ucast_iff)
qed

lemma long_of_byte_or:
  "long_of_byte lp64 c =
     (let b = (\<lambda>q. push_bit (8 * q) (ucast c :: u64)); l = b 3 OR b 2 OR b 1 OR b 0
      in if lp64 then (b 7 OR b 6 OR b 5 OR b 4) OR l else l)"
  by (simp add: long_of_byte_def Let_def push_bit_or)

lemma long_of_byte_eq: "long_of_byte lp64 c = rd_long lp64 (\<lambda>_. c) a"
proof (rule rd_long_eqI)
  fix i j :: nat assume i: "i < long_size lp64" and j: "j < 8"
  then have "i < 8" by (auto simp: long_size_def split: if_splits)
  moreover have "i \<in> (if lp64 then {0, 1, 2, 3, 4, 5, 6, 7} else {0, 1, 2, 3})" using i by (auto simp: long_size_def)
  ultimately show "bit (long_of_byte lp64 c) (8 * i + j) = bit c j"
    unfolding long_of_byte_or Let_def using j by (cases lp64) (simp_all only: bit_or_iff bit_byte_at if_True if_False, auto)
next
  fix i j :: nat assume i: "long_size lp64 \<le> i" "i < 8" and j: "j < 8"
  then have "\<not> lp64" "4 \<le> i" by (auto simp: long_size_def split: if_splits)
  then show "\<not> bit (long_of_byte lp64 c) (8 * i + j)"
    unfolding long_of_byte_or Let_def using j i(2) by (simp_all only: bit_or_iff bit_byte_at if_False, auto)
qed

lemma rd_long_xor: "rd_long lp64 m a XOR rd_long lp64 (\<lambda>_. c) b = rd_long lp64 (\<lambda>d. m d XOR c) a"
  by (rule rd_long_eqI) (simp_all add: bit_xor_iff bit_rd_long rd_long_high)

end
