(* ===== verification/XEOS_StringSpec.thy ===== *)
theory XEOS_StringSpec
  imports XEOS_StringWords
begin

text \<open>
  What the string functions compute.  cstr relates an address to the characters of the terminated
  string that starts there, and the search, comparison and copy functions are described by list
  functions of the characters; mem_copy and mem_fill describe the functions on areas.
\<close>

section \<open>Strings in memory\<close>

fun cstr :: "bytes \<Rightarrow> nat \<Rightarrow> u8 list \<Rightarrow> bool" where
  "cstr m s [] = (m s = 0)"
| "cstr m s (x # xs) = (x \<noteq> 0 \<and> m s = x \<and> cstr m (s + 1) xs)"

lemma cstr_nth: "cstr m s xs \<Longrightarrow> i < length xs \<Longrightarrow> m (s + i) = xs ! i \<and> xs ! i \<noteq> 0"
proof (induction xs arbitrary: s i)
  case (Cons x xs)
  then show ?case using Cons.IH [of "Suc s" "i - 1"] by (cases i) auto
qed simp

lemma cstr_end: "cstr m s xs \<Longrightarrow> m (s + length xs) = 0"
proof (induction xs arbitrary: s)
  case (Cons x xs)
  then show ?case using Cons.IH [of "Suc s"] by simp
qed simp

lemma cstr_drop: "cstr m s xs \<Longrightarrow> n \<le> length xs \<Longrightarrow> cstr m (s + n) (drop n xs)"
proof (induction xs arbitrary: s n)
  case (Cons x xs)
  then show ?case using Cons.IH [of "Suc s" "n - 1"] by (cases n) auto
qed simp

lemma cstr_cong:
  "cstr m s xs \<Longrightarrow> (\<And>b. s \<le> b \<Longrightarrow> b \<le> s + length xs \<Longrightarrow> m' b = m b) \<Longrightarrow> cstr m' s xs"
proof (induction xs arbitrary: s)
  case (Cons x xs)
  have "cstr m' (s + 1) xs" using Cons.prems by (intro Cons.IH) auto
  then show ?case using Cons.prems(1) Cons.prems(2) [of s] by simp
qed simp

lemma cstr_append: "cstr m s (xs @ ys) \<longleftrightarrow> (\<forall>i<length xs. m (s + i) = xs ! i \<and> xs ! i \<noteq> 0) \<and> cstr m (s + length xs) ys"
proof (induction xs arbitrary: s)
  case (Cons x xs)
  show ?case by (simp add: Cons.IH All_less_Suc2) auto
qed simp

lemma cstr_zero_iff: "cstr m s xs \<Longrightarrow> m s = 0 \<longleftrightarrow> xs = []"
  by (cases xs) auto

lemma cstr_length_find:
  assumes "cstr m a xs"
  shows "find (\<lambda>i. m (a + i) = 0) [0..<w] = (if length xs < w then Some (length xs) else None)"
proof (cases "length xs < w")
  case True
  then show ?thesis
    using cstr_nth [OF assms] cstr_end [OF assms] by (auto simp: find_Some_iff intro!: exI [of _ "length xs"])
next
  case False
  then show ?thesis using cstr_nth [OF assms] by (auto simp: find_None_iff)
qed

lemma long_size_pos [simp]: "0 < long_size lp64"
  by (simp add: long_size_def)

lemma strlen_longs_cstr:
  "cstr m lp xs \<Longrightarrow> s \<le> lp \<Longrightarrow> strlen_longs lp64 m s lp = Some (lp - s + length xs)"
proof (induction "length xs" arbitrary: lp xs rule: less_induct)
  case less
  let ?w = "long_size lp64"
  show ?case
  proof (cases "length xs < ?w")
    case True
    then show ?thesis
      by (subst strlen_longs.simps) (simp only: zero_test_find cstr_length_find [OF less.prems(1)], simp)
  next
    case False
    have "strlen_longs lp64 m s (lp + ?w) = Some (lp + ?w - s + length (drop ?w xs))"
      using False less.prems long_size_pos [of lp64]
      by (intro less.hyps cstr_drop) (simp_all del: long_size_pos)
    then show ?thesis
      using False less.prems(2) by (subst strlen_longs.simps) (simp only: zero_test_find cstr_length_find [OF less.prems(1)], simp)
  qed
qed

lemma strlen_bytes_cstr:
  "cstr m cp xs \<Longrightarrow> s \<le> cp \<Longrightarrow> strlen_bytes lp64 m s cp = Some (cp - s + length xs)"
proof (induction xs arbitrary: cp)
  case Nil
  then show ?case using strlen_longs_cstr [of m cp "[]"] by (simp add: strlen_bytes.simps)
next
  case (Cons x xs)
  then have "strlen_bytes lp64 m s (cp + 1) = Some (cp + 1 - s + length xs)" by simp
  then show ?case using Cons.prems strlen_longs_cstr [OF Cons.prems]
    by (subst strlen_bytes.simps) (auto simp: Suc_diff_le)
qed

lemma strlen_cstr: "cstr m s xs \<Longrightarrow> strlen lp64 m s = Some (length xs)"
  by (simp add: strlen_def strlen_bytes_cstr)


section \<open>Search\<close>

lemma strchr_cstr:
  "cstr m s xs \<Longrightarrow> strchr m s c =
     Some (if ucast c \<in> set xs then s + length (takeWhile (\<lambda>x. x \<noteq> ucast c) xs)
           else if c = 0 then s + length xs else 0)"
proof (induction xs arbitrary: s)
  case Nil then show ?case by (simp add: strchr.simps)
next
  case (Cons x xs)
  then show ?case by (subst strchr.simps) auto
qed

lemma strrchr_back_hit:
  "s \<le> p \<Longrightarrow> m p = ucast c \<Longrightarrow> \<forall>q. p < q \<and> q \<le> p + k \<longrightarrow> m q \<noteq> ucast c \<Longrightarrow> strrchr_back m s c (p + k) = p"
proof (induction k)
  case (Suc k)
  then have "strrchr_back m s c (p + k) = p" by auto
  then show ?case using Suc.prems by (subst strrchr_back.simps) simp
qed (simp add: strrchr_back.simps)

lemma strrchr_back_none:
  "\<forall>q. s \<le> q \<and> q \<le> s + k \<longrightarrow> m q \<noteq> ucast c \<Longrightarrow> strrchr_back m s c (s + k) = 0"
proof (induction k)
  case 0
  then have "s \<noteq> 0 \<Longrightarrow> strrchr_back m s c (s - 1) = 0" by (subst strrchr_back.simps) auto
  then show ?case using 0 by (subst strrchr_back.simps) auto
next
  case (Suc k)
  then have "strrchr_back m s c (s + k) = 0" by auto
  then show ?case using Suc.prems by (subst strrchr_back.simps) simp
qed

lemma in_string_cstr: "cstr m p2 ys \<Longrightarrow> in_string m x p2 = Some (x \<in> set ys)"
proof (induction ys arbitrary: p2)
  case Nil then show ?case by (simp add: in_string.simps)
next
  case (Cons y ys)
  then show ?case by (subst in_string.simps) auto
qed

lemma strspn_cstr:
  assumes "cstr m s2 ys"
  shows "cstr m p1 xs \<Longrightarrow> s1 \<le> p1 \<Longrightarrow>
    strspn_loop m s1 s2 p1 = Some (p1 - s1 + length (takeWhile (\<lambda>x. x \<in> set ys) xs))"
proof (induction xs arbitrary: p1)
  case Nil then show ?case by (simp add: strspn_loop.simps)
next
  case (Cons x xs)
  then show ?case by (subst strspn_loop.simps) (auto simp: in_string_cstr [OF assms] Suc_diff_le)
qed

lemma strcspn_cstr:
  assumes "cstr m s2 ys"
  shows "cstr m p1 xs \<Longrightarrow> s1 \<le> p1 \<Longrightarrow>
    strcspn_loop m s1 s2 p1 = Some (p1 - s1 + length (takeWhile (\<lambda>x. x \<notin> set ys) xs))"
proof (induction xs arbitrary: p1)
  case Nil then show ?case by (simp add: strcspn_loop.simps)
next
  case (Cons x xs)
  then show ?case by (subst strcspn_loop.simps) (auto simp: in_string_cstr [OF assms] Suc_diff_le)
qed

lemma strpbrk_cstr:
  assumes "cstr m s2 ys"
  shows "cstr m p1 xs \<Longrightarrow> strpbrk_loop m s2 p1 =
    Some (if set xs \<inter> set ys = {} then 0 else p1 + length (takeWhile (\<lambda>x. x \<notin> set ys) xs))"
proof (induction xs arbitrary: p1)
  case Nil then show ?case by (simp add: strpbrk_loop.simps)
next
  case (Cons x xs)
  then show ?case by (subst strpbrk_loop.simps) (auto simp: in_string_cstr [OF assms])
qed

lemma strstr_match_cstr:
  "cstr m p2 xs \<Longrightarrow> cstr m p3 ys \<Longrightarrow> strstr_match m p2 p3 = Some (take (length ys) xs = ys)"
proof (induction ys arbitrary: p2 p3 xs)
  case Nil then show ?case by (simp add: strstr_match.simps)
next
  case (Cons y ys)
  show ?case
  proof (cases xs)
    case Nil then show ?thesis using Cons.prems by (subst strstr_match.simps) auto
  next
    case (Cons x xs')
    then show ?thesis using Cons.prems Cons.IH [of "p2 + 1" xs' "p3 + 1"] by (subst strstr_match.simps) auto
  qed
qed

lemma find_upt_Suc: "find P [0..<Suc n] = (if P 0 then Some 0 else map_option Suc (find (\<lambda>i. P (Suc i)) [0..<n]))"
proof -
  have "find Q (map Suc xs) = map_option Suc (find (\<lambda>i. Q (Suc i)) xs)" for Q xs by (induction xs) auto
  moreover have "[0..<Suc n] = 0 # map Suc [0..<n]" by (subst upt_rec) (simp add: map_Suc_upt del: upt_Suc)
  ultimately show ?thesis by (simp only: find.simps)
qed

definition first_at :: "u8 list \<Rightarrow> u8 list \<Rightarrow> nat option" where
  "first_at ys xs = find (\<lambda>k. take (length ys) (drop k xs) = ys) [0..<Suc (length xs)]"

lemma first_at_Cons:
  "first_at ys (x # xs) = (if take (length ys) (x # xs) = ys then Some 0 else map_option Suc (first_at ys xs))"
  by (simp only: first_at_def length_Cons find_upt_Suc [of _ "Suc (length xs)"] drop_0 drop_Suc_Cons)

lemma strstr_loop_cstr:
  assumes "cstr m s2 ys" "ys \<noteq> []"
  shows "cstr m p1 xs \<Longrightarrow> strstr_loop m s2 p1 = Some (case first_at ys xs of Some k \<Rightarrow> p1 + k | None \<Rightarrow> 0)"
proof (induction xs arbitrary: p1)
  case Nil
  then show ?case using assms by (simp add: strstr_loop.simps first_at_def)
next
  case (Cons x xs)
  have "m p1 \<noteq> m s2 \<Longrightarrow> take (length ys) (x # xs) \<noteq> ys" using assms Cons.prems by (cases ys) auto
  then show ?case
    using Cons strstr_match_cstr [OF Cons.prems assms(1)]
    by (subst strstr_loop.simps) (auto simp: first_at_Cons split: option.splits)
qed

lemma strstr_cstr:
  "cstr m s1 xs \<Longrightarrow> cstr m s2 ys \<Longrightarrow>
   strstr m s1 s2 = Some (case first_at ys xs of Some k \<Rightarrow> s1 + k | None \<Rightarrow> 0)"
  by (cases "ys = []") (auto simp: strstr_def strstr_loop_cstr cstr_zero_iff first_at_def upt_rec)


section \<open>Comparison\<close>

text \<open>The sign of the comparison of two lists of characters.\<close>

definition list_cmp :: "u8 list \<Rightarrow> u8 list \<Rightarrow> int" where
  "list_cmp xs ys = (if xs = ys then 0 else if ord_class.lexordp xs ys then -1 else 1)"

lemma list_cmp_simps:
  "list_cmp [] [] = 0" "list_cmp [] (y # ys) = -1" "list_cmp (x # xs) [] = 1"
  "list_cmp (x # xs) (y # ys) = (if x < y then -1 else if y < x then 1 else list_cmp xs ys)"
  by (auto simp: list_cmp_def)

lemma strcmp_cstr: "cstr m p1 xs \<Longrightarrow> cstr m p2 ys \<Longrightarrow> strcmp m p1 p2 = Some (list_cmp xs ys)"
proof (induction xs arbitrary: p1 p2 ys)
  case Nil
  then show ?case by (cases ys) (simp_all add: strcmp.simps list_cmp_simps)
next
  case (Cons x xs)
  show ?case
  proof (cases ys)
    case Nil
    then show ?thesis using Cons.prems by (subst strcmp.simps) (auto simp: list_cmp_simps word_gt_0)
  next
    case (Cons y ys')
    then show ?thesis using Cons.IH [of "p1 + 1" "p2 + 1" ys'] Cons.prems
      by (subst strcmp.simps) (auto simp: list_cmp_simps)
  qed
qed

lemma strncmp_cstr: "cstr m p1 xs \<Longrightarrow> cstr m p2 ys \<Longrightarrow> strncmp m p1 p2 n = list_cmp (take n xs) (take n ys)"
proof (induction n arbitrary: p1 p2 xs ys)
  case (Suc n)
  show ?case
  proof (cases xs)
    case Nil
    then show ?thesis using Suc.prems by (cases ys) (auto simp: list_cmp_simps word_gt_0)
  next
    case (Cons x xs')
    then show ?thesis using Suc.prems Suc.IH [of "Suc p1" xs' "Suc p2"] by (cases ys) (auto simp: list_cmp_simps word_gt_0)
  qed
qed (simp add: list_cmp_simps)

lemma memcmp_area: "memcmp m p1 p2 n = list_cmp (map m [p1..<p1 + n]) (map m [p2..<p2 + n])"
proof (induction n arbitrary: p1 p2)
  case (Suc n)
  have "[p..<p + Suc n] = p # [Suc p..<Suc p + n]" for p by (simp add: upt_conv_Cons del: upt_Suc)
  then show ?case using Suc.IH [of "Suc p1" "Suc p2"] by (simp add: list_cmp_simps del: upt_Suc)
qed (simp add: list_cmp_simps)


section \<open>Copies of areas\<close>

definition mem_copy :: "bytes \<Rightarrow> nat \<Rightarrow> nat \<Rightarrow> nat \<Rightarrow> bytes" where
  "mem_copy m d s n = (\<lambda>b. if d \<le> b \<and> b < d + n then m (s + (b - d)) else m b)"

lemma mem_copy_0 [simp]: "mem_copy m d s 0 = m"
  by (rule ext) (auto simp: mem_copy_def)

lemma mem_fill_0 [simp]: "mem_fill m a c 0 = m"
  by (rule ext) (auto simp: mem_fill_def)

lemma mem_fill_step: "mem_fill (m(a := c)) (Suc a) c n = mem_fill m a c (Suc n)"
  by (rule ext) (auto simp: mem_fill_def)

lemma mem_copy_out: "b < d \<or> d + n \<le> b \<Longrightarrow> mem_copy m d s n b = m b"
  by (auto simp: mem_copy_def)

lemma mem_copy_in: "i < n \<Longrightarrow> mem_copy m d s n (d + i) = m (s + i)"
  by (simp add: mem_copy_def)

text \<open>Copying in two parts, the lower part first.\<close>

lemma mem_copy_add:
  "d \<le> s \<or> s + (i + n) \<le> d \<Longrightarrow> mem_copy (mem_copy m d s i) (d + i) (s + i) n = mem_copy m d s (i + n)"
  by (rule ext) (auto simp: mem_copy_def intro!: arg_cong [where f = m])

lemma mem_copy_1: "mem_copy m d s (Suc 0) = m(d := m s)"
  by (rule ext) (auto simp: mem_copy_def)

lemma mem_copy_forward:
  "d \<le> s \<or> s + Suc n \<le> d \<Longrightarrow> mem_copy (m(d := m s)) (Suc d) (Suc s) n = mem_copy m d s (Suc n)"
  using mem_copy_add [of d s "Suc 0" n m] by (simp add: mem_copy_1)

lemma cstr_update: "cstr m s xs \<Longrightarrow> p < s \<or> s + length xs < p \<Longrightarrow> cstr (m(p := v)) s xs"
  by (erule cstr_cong) auto

lemma strcpy_loop_cstr:
  "cstr m s ys \<Longrightarrow> d \<le> s \<or> s + length ys < d \<Longrightarrow> strcpy_loop m d s = Some (mem_copy m d s (Suc (length ys)))"
proof (induction ys arbitrary: m d s)
  case Nil
  then show ?case using mem_copy_1 [of m d s] by (subst strcpy_loop.simps) (simp add: Let_def)
next
  case (Cons y ys)
  have "strcpy_loop (m(d := m s)) (d + 1) (s + 1) = Some (mem_copy (m(d := m s)) (d + 1) (s + 1) (Suc (length ys)))"
    using Cons.prems by (intro Cons.IH cstr_update) auto
  moreover have "mem_copy (m(d := m s)) (Suc d) (Suc s) (Suc (length ys)) = mem_copy m d s (Suc (Suc (length ys)))"
    using Cons.prems by (intro mem_copy_forward) auto
  ultimately show ?case using Cons.prems by (subst strcpy_loop.simps) (simp add: Let_def)
qed

lemma cstr_mem_copy: "cstr m s ys \<Longrightarrow> cstr (mem_copy m d s (Suc (length ys))) d ys"
proof -
  assume c: "cstr m s ys"
  have "cstr (\<lambda>b. m (s + (b - d))) d ys" using c
  proof (induction ys arbitrary: s d)
    case (Cons y ys)
    have "cstr (\<lambda>b. m (Suc s + (b - Suc d))) (Suc d) ys" using Cons.IH [of "Suc s" "Suc d"] Cons.prems by simp
    then have "cstr (\<lambda>b. m (s + (b - d))) (Suc d) ys"
      by (rule cstr_cong) (auto intro!: arg_cong [where f = m])
    then show ?case using Cons.prems by simp
  qed simp
  then show ?thesis by (rule cstr_cong) (auto simp: mem_copy_def)
qed

lemma string_end_cstr: "cstr m p xs \<Longrightarrow> string_end m p = Some (p + length xs)"
proof (induction xs arbitrary: p)
  case Nil then show ?case by (simp add: string_end.simps)
next
  case (Cons x xs)
  then show ?case using Cons.IH [of "Suc p"] by (subst string_end.simps) simp
qed

lemma strncat_loop_cstr:
  "cstr m s ys \<Longrightarrow> d \<le> s \<or> s + length ys < d \<Longrightarrow> k = min n (length ys) \<Longrightarrow>
   strncat_loop m d s n = (mem_copy m d s k)(d + k := 0)"
proof (induction n arbitrary: m d s ys k)
  case 0
  then show ?case by simp
next
  case (Suc n)
  show ?case
  proof (cases ys)
    case Nil
    then show ?thesis using Suc.prems by simp
  next
    case (Cons y ys')
    have "strncat_loop (m(d := m s)) (Suc d) (Suc s) n =
        (mem_copy (m(d := m s)) (Suc d) (Suc s) (min n (length ys')))(Suc d + min n (length ys') := 0)"
      using Suc.prems Cons by (intro Suc.IH [of _ _ ys'] cstr_update) auto
    moreover have "mem_copy (m(d := m s)) (Suc d) (Suc s) (min n (length ys')) = mem_copy m d s k"
      using Suc.prems Cons by (subst mem_copy_forward) auto
    ultimately show ?thesis using Suc.prems Cons by simp
  qed
qed

lemma zero_rest_eq: "zero_rest m p n = mem_fill m p 0 n"
proof (induction n arbitrary: m p)
  case (Suc n)
  then show ?case by (simp only: zero_rest.simps set_bytes.simps mem_fill_step flip: Suc_eq_plus1)
qed simp

lemma strncpy_loop_cstr:
  "cstr m s ys \<Longrightarrow> d \<le> s \<or> s + length ys < d \<Longrightarrow> k = min n (length ys) \<Longrightarrow>
   strncpy_loop m d s n = mem_fill (mem_copy m d s k) (d + k) 0 (n - k)"
proof (induction n arbitrary: m d s ys k)
  case 0
  then show ?case by simp
next
  case (Suc n)
  show ?case
  proof (cases ys)
    case Nil
    then show ?thesis using Suc.prems by (auto simp: zero_rest_eq Let_def mem_fill_def)
  next
    case (Cons y ys')
    have "strncpy_loop (m(d := m s)) (Suc d) (Suc s) n =
        mem_fill (mem_copy (m(d := m s)) (Suc d) (Suc s) (min n (length ys'))) (Suc d + min n (length ys')) 0
          (n - min n (length ys'))"
      using Suc.prems Cons by (intro Suc.IH [of _ _ ys'] cstr_update) auto
    moreover have "mem_copy (m(d := m s)) (Suc d) (Suc s) (min n (length ys')) = mem_copy m d s k"
      using Suc.prems Cons by (subst mem_copy_forward) auto
    ultimately show ?thesis using Suc.prems Cons by (simp add: Let_def)
  qed
qed

lemma memmove_up: "s1 \<le> s2 \<Longrightarrow> fold (\<lambda>i m. m(s1 + i := m (s2 + i))) [0..<n] m = mem_copy m s1 s2 n"
proof (induction n)
  case (Suc n)
  then show ?case by (auto simp: mem_copy_def fun_eq_iff not_less less_Suc_eq)
qed simp

lemma memmove_down:
  "s2 < s1 \<Longrightarrow> k \<le> n \<Longrightarrow> fold (\<lambda>i m. m(s1 + i := m (s2 + i))) (rev [k..<n]) m = mem_copy m (s1 + k) (s2 + k) (n - k)"
proof (induction "n - k" arbitrary: k)
  case (Suc d)
  then have "fold (\<lambda>i m. m(s1 + i := m (s2 + i))) (rev [Suc k..<n]) m = mem_copy m (s1 + Suc k) (s2 + Suc k) (n - Suc k)"
    by (intro Suc.hyps) auto
  moreover have "[k..<n] = k # [Suc k..<n]" using Suc.hyps(2) by (intro upt_conv_Cons) simp
  ultimately show ?case using Suc by (auto simp: mem_copy_def fun_eq_iff Suc_diff_le intro!: arg_cong [where f = m])
qed simp

lemma memmove_eq: "memmove m s1 s2 n = (mem_copy m s1 s2 n, s1)"
  using memmove_up [of s1 s2 n m] memmove_down [of s2 s1 0 n m] by (auto simp: memmove_def)


section \<open>Words\<close>

lemma wr_le_rd_le: "wr_le n m a (rd_le n m' b) = (\<lambda>x. if a \<le> x \<and> x < a + n then m' (b + (x - a)) else m x)"
proof (induction n arbitrary: m a b)
  case (Suc n)
  have "(of_nat (unat (m' b) + 256 * rd_le n m' (Suc b)) :: u8) = m' b"
    by (rule word_unat_eq_iff [THEN iffD2], subst unat_of_nat) simp
  moreover have "(unat (m' b) + 256 * rd_le n m' (Suc b)) div 256 = rd_le n m' (Suc b)"
    using unat_u8 [of "m' b"] by simp
  ultimately show ?case by (auto simp: Suc.IH fun_eq_iff intro!: arg_cong [where f = m'])
qed (auto simp: fun_eq_iff)

lemma unat_rd_long: "unat (rd_long lp64 m a) = rd_le (long_size lp64) m a"
proof -
  have "rd_le (long_size lp64) m a < 256 ^ 8"
    using rd_le_bound [of "long_size lp64" m a] power_increasing [of "long_size lp64" 8 "256 :: nat"]
    by (auto simp: long_size_def split: if_splits)
  then show ?thesis by (simp add: rd_long_def unat_of_nat)
qed

lemma wr_long_byte: "wr_long lp64 m a (long_of_byte lp64 c) = mem_fill m a c (long_size lp64)"
  by (simp only: wr_long_def long_of_byte_eq [of lp64 c 0] unat_rd_long wr_le_rd_le mem_fill_def)

lemma mem_fill_add: "mem_fill (mem_fill m a c i) (a + i) c n = mem_fill m a c (i + n)"
  by (auto simp: mem_fill_def fun_eq_iff)

lemma set_longs_eq: "set_longs lp64 (long_of_byte lp64 c) k lp m = mem_fill m lp c (long_size lp64 * k)"
proof (induction k)
  case (Suc k)
  have "set_longs lp64 (long_of_byte lp64 c) (Suc k) lp m =
      mem_fill (set_longs lp64 (long_of_byte lp64 c) k lp m) (lp + long_size lp64 * k) c (long_size lp64)"
    by (simp add: set_longs_def wr_long_byte mult.commute)
  then show ?case by (simp add: Suc mem_fill_add add.commute)
qed (simp add: set_longs_def)

text \<open>Each loop of memset leaves an area to fill: filling it always gives the same memory.\<close>

lemma memset_blocks_fill:
  "memset_blocks lp64 (long_of_byte lp64 c) k (n, lp, m) = (n', lp', m') \<Longrightarrow> mem_fill m' lp' c n' = mem_fill m lp c n"
proof (induction n arbitrary: lp m rule: less_induct)
  case (less n)
  let ?k = "long_size lp64 * k"
  show ?case
  proof (cases "0 < k \<and> ?k < n")
    case True
    then have "memset_blocks lp64 (long_of_byte lp64 c) k (n - ?k, lp + ?k, mem_fill m lp c ?k) = (n', lp', m')"
      using less.prems by (subst (asm) memset_blocks.simps) (simp add: set_longs_eq)
    then have "mem_fill m' lp' c n' = mem_fill (mem_fill m lp c ?k) (lp + ?k) c (n - ?k)"
      using True by (intro less.IH) auto
    then show ?thesis using True by (simp add: mem_fill_add)
  next
    case False
    then show ?thesis using less.prems by (subst (asm) memset_blocks.simps) auto
  qed
qed

lemma memset_head_fill:
  "memset_head lp64 c n cp m = (n', cp', m') \<Longrightarrow> mem_fill m' cp' c n' = mem_fill m cp c n"
proof (induction n arbitrary: cp m)
  case (Suc n)
  show ?case
  proof (cases "long_floor lp64 cp < cp")
    case True
    then have "mem_fill m' cp' c n' = mem_fill (m(cp := c)) (cp + 1) c n"
      using Suc.prems by (intro Suc.IH) (simp only: memset_head.simps if_True)
    then show ?thesis by (simp only: mem_fill_step flip: Suc_eq_plus1)
  next
    case False
    then show ?thesis using Suc.prems by simp
  qed
qed simp

lemma set_bytes_fill: "set_bytes c n cp m = mem_fill m cp c n"
proof (induction n arbitrary: cp m)
  case (Suc n)
  then show ?case by (simp only: zero_rest.simps set_bytes.simps mem_fill_step flip: Suc_eq_plus1)
qed simp

lemma memset_eq: "s \<noteq> 0 \<Longrightarrow> memset lp64 m s c n = (mem_fill m s (ucast c) n, s)"
proof -
  assume s: "s \<noteq> 0"
  let ?l = "long_of_byte lp64 (ucast c)"
  obtain n1 p1 m1 where 1: "memset_head lp64 (ucast c) n s m = (n1, p1, m1)" by (metis prod_cases3)
  obtain n2 p2 m2 where 2: "memset_blocks lp64 ?l 16 (n1, p1, m1) = (n2, p2, m2)" by (metis prod_cases3)
  obtain n3 p3 m3 where 3: "memset_blocks lp64 ?l 8 (n2, p2, m2) = (n3, p3, m3)" by (metis prod_cases3)
  obtain n4 p4 m4 where 4: "memset_blocks lp64 ?l 1 (n3, p3, m3) = (n4, p4, m4)" by (metis prod_cases3)
  have "memset lp64 m s c n = (if n = 0 then (m, s) else (set_bytes (ucast c) n4 p4 m4, s))"
    using s by (simp only: memset_def Let_def 1 2 3 4 split) simp
  then show ?thesis
    using memset_head_fill [OF 1] memset_blocks_fill [OF 2] memset_blocks_fill [OF 3] memset_blocks_fill [OF 4]
    by (simp add: set_bytes_fill)
qed

lemma find_upt_add:
  "find P [0..<a + b] = (case find P [0..<a] of Some i \<Rightarrow> Some i | None \<Rightarrow> map_option ((+) a) (find (\<lambda>i. P (a + i)) [0..<b]))"
proof -
  have app: "find P (xs @ ys) = (case find P xs of Some i \<Rightarrow> Some i | None \<Rightarrow> find P ys)" for xs ys
    by (induction xs) auto
  have fm: "find P (map f xs) = map_option f (find (\<lambda>i. P (f i)) xs)" for f :: "nat \<Rightarrow> nat" and xs
    by (induction xs) auto
  have "map ((+) a) [0..<b] = map (\<lambda>i. i + a) [0..<b]" by (simp add: add.commute)
  then have "[0..<a + b] = [0..<a] @ map ((+) a) [0..<b]"
    by (simp only: map_add_upt upt_add_eq_append [OF le0] add.left_neutral add.commute [of b])
  then show ?thesis by (simp only: app fm)
qed

definition mem_find :: "bytes \<Rightarrow> nat \<Rightarrow> u8 \<Rightarrow> nat \<Rightarrow> nat" where
  "mem_find m s c n = (case find (\<lambda>i. m (s + i) = c) [0..<n] of Some i \<Rightarrow> s + i | None \<Rightarrow> 0)"

lemma mem_find_add:
  "mem_find m s c (a + b) = (case find (\<lambda>i. m (s + i) = c) [0..<a] of Some i \<Rightarrow> s + i | None \<Rightarrow> mem_find m (s + a) c b)"
  by (auto simp: mem_find_def find_upt_add add.assoc split: option.splits)

lemma mem_find_Suc: "mem_find m s c (Suc n) = (if m s = c then s else mem_find m (Suc s) c n)"
  using mem_find_add [of m s c 1 n] by simp

lemma chr_bytes_find: "chr_bytes c m n cp = mem_find m cp c n"
  by (induction n arbitrary: cp) (simp_all add: mem_find_Suc mem_find_def [of _ _ _ 0])

lemma xor_eq_0_iff: "(a :: u8) XOR b = 0 \<longleftrightarrow> a = b"
  by (auto simp: bit_eq_iff bit_xor_iff)

lemma chr_longs_find: "chr_longs lp64 c m n lp = mem_find m lp c n"
proof (induction n arbitrary: lp rule: less_induct)
  case (less n)
  let ?w = "long_size lp64"
  show ?case
  proof (cases "?w < n")
    case True
    have X: "chr_longs lp64 c m (n - ?w) (lp + ?w) = mem_find m (lp + ?w) c (n - ?w)"
      using True by (intro less.IH) (simp add: long_size_def)
    have "chr_longs lp64 c m n lp = (case find (\<lambda>i. m (lp + i) XOR c = 0) [0..<?w] of
        Some k \<Rightarrow> lp + ?w - (?w - k) | None \<Rightarrow> mem_find m (lp + ?w) c (n - ?w))"
      using True by (subst chr_longs.simps)
        (simp only: if_True Let_def magic_eq [of lp64 c 0] long_of_byte_eq [of lp64 c 0] rd_long_xor zero_test_find X)
    also have "\<dots> = (case find (\<lambda>i. m (lp + i) = c) [0..<?w] of
        Some k \<Rightarrow> lp + k | None \<Rightarrow> mem_find m (lp + ?w) c (n - ?w))"
      unfolding xor_eq_0_iff
    proof (cases "find (\<lambda>i. m (lp + i) = c) [0..<?w]")
      case (Some k)
      then have "k < ?w" by (auto simp: find_Some_iff)
      then show "(case find (\<lambda>i. m (lp + i) = c) [0..<?w] of
          Some k \<Rightarrow> lp + ?w - (?w - k) | None \<Rightarrow> mem_find m (lp + ?w) c (n - ?w)) =
        (case find (\<lambda>i. m (lp + i) = c) [0..<?w] of
          Some k \<Rightarrow> lp + k | None \<Rightarrow> mem_find m (lp + ?w) c (n - ?w))"
        using Some by simp
    qed simp
    finally show ?thesis using True mem_find_add [of m lp c ?w "n - ?w"] by simp
  next
    case False
    then show ?thesis by (subst chr_longs.simps) (simp add: chr_bytes_find)
  qed
qed

lemma chr_head_find: "chr_head lp64 c m n cp = mem_find m cp c n"
  by (induction n arbitrary: cp) (simp_all add: chr_longs_find mem_find_Suc)

lemma memchr_eq: "s \<noteq> 0 \<Longrightarrow> memchr lp64 m s c n = mem_find m s (ucast c) n"
  by (simp add: memchr_def chr_head_find mem_find_def)

end
