(* ===== verification/XEOS_MemCopy.thy ===== *)
theory XEOS_MemCopy
  imports XEOS_StringSpec
begin

text \<open>
  memcpy (source/lib/c99/string/memcpy.c).  The source is read from an aligned address on; when the
  destination is aligned too, whole words are copied, otherwise each word of the destination is put
  together from two words of the source.
\<close>

primrec cpy_bytes :: "nat \<Rightarrow> nat \<Rightarrow> nat \<Rightarrow> bytes \<Rightarrow> bytes" where
  "cpy_bytes 0 cp1 cp2 m = m"
| "cpy_bytes (Suc n) cp1 cp2 m = cpy_bytes n (cp1 + 1) (cp2 + 1) (m(cp1 := m cp2))"

primrec cpy_head :: "bool \<Rightarrow> nat \<Rightarrow> nat \<Rightarrow> nat \<Rightarrow> bytes \<Rightarrow> nat \<times> nat \<times> nat \<times> bytes" where
  "cpy_head lp64 0 cp1 cp2 m = (0, cp1, cp2, m)"
| "cpy_head lp64 (Suc n) cp1 cp2 m =
     (if long_floor lp64 cp2 < cp2 then cpy_head lp64 n (cp1 + 1) (cp2 + 1) (m(cp1 := m cp2))
      else (Suc n, cp1, cp2, m))"

definition copy_longs :: "bool \<Rightarrow> nat \<Rightarrow> nat \<Rightarrow> nat \<Rightarrow> bytes \<Rightarrow> bytes" where
  "copy_longs lp64 k lp1 lp2 m =
     fold (\<lambda>i m. wr_long lp64 m (lp1 + i * long_size lp64) (rd_long lp64 m (lp2 + i * long_size lp64))) [0..<k] m"

text \<open>The loops that copy k words at a time.\<close>

function cpy_blocks :: "bool \<Rightarrow> nat \<Rightarrow> nat \<times> nat \<times> nat \<times> bytes \<Rightarrow> nat \<times> nat \<times> nat \<times> bytes" where
  "cpy_blocks lp64 k (n, lp1, lp2, m) =
     (if 0 < k \<and> long_size lp64 * k \<le> n
      then cpy_blocks lp64 k (n - long_size lp64 * k, lp1 + long_size lp64 * k, lp2 + long_size lp64 * k,
             copy_longs lp64 k lp1 lp2 m)
      else (n, lp1, lp2, m))"
  by pat_completeness auto
termination by (relation "measure (\<lambda>(_, _, n, _). n)") (auto simp: long_size_def)

text \<open>
  The loop of the misaligned case: eight words are read to l1, shifted to l2, and combined.  The
  last argument is l2[ 0 ], the bytes that are still to be written.
\<close>

function shift_blocks :: "bool \<Rightarrow> nat \<Rightarrow> nat \<times> nat \<times> nat \<times> bytes \<times> u64 \<Rightarrow> nat \<times> nat \<times> nat \<times> bytes \<times> u64" where
  "shift_blocks lp64 diff (n, lp1, lp2, m, rest) =
     (let w = long_size lp64; ls = 8 * (w - diff); rs = 8 * diff
      in if w * 8 < n
         then let l1 = map (\<lambda>i. rd_long lp64 m (lp2 + i * w)) [0..<8];
                  l2 = drop_bit rs (l1 ! 7) # map (drop_bit rs) (take 7 l1);
                  m1 = fold (\<lambda>i m. wr_long lp64 m (lp1 + i * w) (push_bit ls (l1 ! i) OR l2 ! i)) [0..<8] m
              in shift_blocks lp64 diff (n - w * 8, lp1 + w * 8, lp2 + w * 8, m1, l2 ! 0)
         else (n, lp1, lp2, m, rest))"
  by pat_completeness auto
termination by (relation "measure (\<lambda>(_, _, n, _). n)") (auto simp: long_size_def)

text \<open>Bytes of a word, the lowest first: by shifts of the word, or one shift for each byte.\<close>

definition put_bytes :: "u64 \<Rightarrow> nat \<Rightarrow> nat \<Rightarrow> bytes \<Rightarrow> bytes" where
  "put_bytes l k cp1 m = fold (\<lambda>i m. m(cp1 + i := ucast (drop_bit (i * 8) l AND 0xFF))) [0..<k] m"

primrec drain_bytes :: "nat \<Rightarrow> u64 \<Rightarrow> nat \<Rightarrow> bytes \<Rightarrow> bytes" where
  "drain_bytes 0 l cp1 m = m"
| "drain_bytes (Suc k) l cp1 m = drain_bytes k (drop_bit 8 l) (cp1 + 1) (m(cp1 := ucast (l AND 0xFF)))"

definition cpy_misaligned :: "bool \<Rightarrow> nat \<Rightarrow> nat \<Rightarrow> nat \<Rightarrow> bytes \<Rightarrow> bytes" where
  "cpy_misaligned lp64 n cp1 lp2 m =
     (let w = long_size lp64
      in if w * 9 \<le> n
         then let diff = w - (cp1 - long_floor lp64 cp1);
                  l = rd_long lp64 m lp2;
                  (n1, lp1, cp2, m1, rest) =
                    shift_blocks lp64 diff (n - w, cp1 + diff, lp2 + w, put_bytes l diff cp1 m, drop_bit (diff * 8) l);
                  m2 = drain_bytes (w - diff) rest lp1 m1
              in cpy_bytes n1 (lp1 + (w - diff)) cp2 m2
         else cpy_bytes n cp1 lp2 m)"

definition memcpy :: "bool \<Rightarrow> bytes \<Rightarrow> nat \<Rightarrow> nat \<Rightarrow> nat \<Rightarrow> bytes \<times> nat" where
  "memcpy lp64 m s1 s2 n =
     (if s1 = 0 \<or> s2 = 0 \<or> n = 0 then (m, s1)
      else let (n1, lp1, lp2, m1) = cpy_head lp64 n s1 s2 m
           in if long_floor lp64 lp1 = lp1
              then let (n2, cp1, cp2, m2) =
                         cpy_blocks lp64 1 (cpy_blocks lp64 8 (cpy_blocks lp64 16 (n1, lp1, lp2, m1)))
                   in (cpy_bytes n2 cp1 cp2 m2, s1)
              else (cpy_misaligned lp64 n1 lp1 lp2 m1, s1))"

declare cpy_blocks.simps [simp del] shift_blocks.simps [simp del]


section \<open>Word copies\<close>

definition apart :: "nat \<Rightarrow> nat \<Rightarrow> nat \<Rightarrow> bool" where
  "apart d s n = (d + n \<le> s \<or> s + n \<le> d)"

lemma apart_le: "apart d s n \<Longrightarrow> k \<le> n \<Longrightarrow> apart d s k"
  by (auto simp: apart_def)

lemma apart_shift: "apart d s (i + n) \<Longrightarrow> apart (d + i) (s + i) n"
  by (auto simp: apart_def)

lemma apart_copy: "apart d s (i + n) \<Longrightarrow> mem_copy (mem_copy m d s i) (d + i) (s + i) n = mem_copy m d s (i + n)"
  by (rule mem_copy_add) (auto simp: apart_def)

lemma cpy_bytes_copy: "apart cp1 cp2 n \<Longrightarrow> cpy_bytes n cp1 cp2 m = mem_copy m cp1 cp2 n"
proof (induction n arbitrary: cp1 cp2 m)
  case (Suc n)
  have "apart (Suc cp1) (Suc cp2) n" using apart_shift [of cp1 cp2 1 n] Suc.prems by simp
  then have "cpy_bytes (Suc n) cp1 cp2 m = mem_copy (m(cp1 := m cp2)) (Suc cp1) (Suc cp2) n"
    using Suc.IH [of "Suc cp1" "Suc cp2"] by simp
  then show ?case using Suc.prems by (simp only: mem_copy_forward apart_def) (subst mem_copy_forward, auto)
qed simp

lemma cpy_head_copy:
  "cpy_head lp64 n cp1 cp2 m = (n', cp1', cp2', m') \<Longrightarrow> apart cp1 cp2 n \<Longrightarrow>
   mem_copy m' cp1' cp2' n' = mem_copy m cp1 cp2 n \<and> apart cp1' cp2' n' \<and> n' \<le> n \<and>
   (n' = 0 \<or> long_floor lp64 cp2' = cp2') \<and> int cp1' - int cp2' = int cp1 - int cp2"
proof (induction n arbitrary: cp1 cp2 m)
  case (Suc n)
  show ?case
  proof (cases "long_floor lp64 cp2 < cp2")
    case True
    then have 1: "cpy_head lp64 n (cp1 + 1) (cp2 + 1) (m(cp1 := m cp2)) = (n', cp1', cp2', m')"
      using Suc.prems(1) by (simp only: cpy_head.simps if_True)
    have 2: "apart (cp1 + 1) (cp2 + 1) n" using apart_shift [of cp1 cp2 1 n] Suc.prems(2) by simp
    have 3: "mem_copy (m(cp1 := m cp2)) (cp1 + 1) (cp2 + 1) n = mem_copy m cp1 cp2 (Suc n)"
      using Suc.prems(2) by (simp only: apart_def flip: Suc_eq_plus1) (subst mem_copy_forward, auto)
    show ?thesis using Suc.IH [OF 1 2] unfolding 3 by simp
  next
    case False
    then have "long_floor lp64 cp2 = cp2" by (simp add: long_floor_def)
    then show ?thesis using False Suc.prems by auto
  qed
qed simp

lemma wr_rd_long: "wr_long lp64 m d (rd_long lp64 m' s) = (\<lambda>b. if d \<le> b \<and> b < d + long_size lp64 then m' (s + (b - d)) else m b)"
  by (simp only: wr_long_def unat_rd_long wr_le_rd_le)

lemma copy_longs_copy: "apart p1 p2 (long_size lp64 * k) \<Longrightarrow> copy_longs lp64 k p1 p2 m = mem_copy m p1 p2 (long_size lp64 * k)"
proof (induction k)
  case (Suc k)
  let ?w = "long_size lp64"
  have "copy_longs lp64 k p1 p2 m = mem_copy m p1 p2 (?w * k)" using Suc apart_le by simp
  moreover have "copy_longs lp64 (Suc k) p1 p2 m =
      wr_long lp64 (copy_longs lp64 k p1 p2 m) (p1 + ?w * k) (rd_long lp64 (copy_longs lp64 k p1 p2 m) (p2 + ?w * k))"
    by (simp add: copy_longs_def mult.commute)
  ultimately have "copy_longs lp64 (Suc k) p1 p2 m = mem_copy (mem_copy m p1 p2 (?w * k)) (p1 + ?w * k) (p2 + ?w * k) ?w"
    by (simp only: wr_rd_long) (simp only: mem_copy_def)
  then show ?case using apart_copy [of p1 p2 "?w * k" ?w] Suc.prems by (simp add: add.commute)
qed (simp add: copy_longs_def)

lemma cpy_blocks_copy:
  "cpy_blocks lp64 k (n, p1, p2, m) = (n', p1', p2', m') \<Longrightarrow> apart p1 p2 n \<Longrightarrow>
   mem_copy m' p1' p2' n' = mem_copy m p1 p2 n \<and> apart p1' p2' n'"
proof (induction n arbitrary: p1 p2 m rule: less_induct)
  case (less n)
  let ?k = "long_size lp64 * k"
  show ?case
  proof (cases "0 < k \<and> ?k \<le> n")
    case True
    then have n: "n = ?k + (n - ?k)" by simp
    have "copy_longs lp64 k p1 p2 m = mem_copy m p1 p2 ?k"
      using True less.prems(2) by (intro copy_longs_copy) (auto elim: apart_le)
    then have "cpy_blocks lp64 k (n - ?k, p1 + ?k, p2 + ?k, mem_copy m p1 p2 ?k) = (n', p1', p2', m')"
      using less.prems(1) True by (subst (asm) cpy_blocks.simps) simp
    moreover have "apart (p1 + ?k) (p2 + ?k) (n - ?k)" using apart_shift less.prems(2) n by metis
    moreover have "0 < ?k" using True by simp
    then have "n - ?k < n" using True by linarith
    ultimately show ?thesis using less.IH apart_copy [of p1 p2 ?k "n - ?k" m] less.prems(2) n by metis
  next
    case False
    then show ?thesis using less.prems by (subst (asm) cpy_blocks.simps) auto
  qed
qed


section \<open>Bytes of a word\<close>

lemma ucast_and_FF: "ucast (x AND 0xFF :: u64) = (ucast x :: u8)"
proof -
  have "(0xFF :: u64) = mask 8" by (simp add: mask_eq_exp_minus_1)
  then show ?thesis by (intro bit_word_eqI) (simp only: bit_ucast_iff bit_and_iff bit_mask_iff, auto)
qed

lemma byte_of_long: "i < long_size lp64 \<Longrightarrow> ucast (drop_bit (8 * i) (rd_long lp64 m a)) = m (a + i)"
  by (rule bit_word_eqI) (simp add: bit_ucast_iff bit_drop_bit_eq bit_rd_long)

lemma put_bytes_eq:
  "k \<le> long_size lp64 \<Longrightarrow> put_bytes (rd_long lp64 m' a) k cp m = (\<lambda>b. if cp \<le> b \<and> b < cp + k then m' (a + (b - cp)) else m b)"
proof (induction k)
  case (Suc k)
  have "ucast (drop_bit (k * 8) (rd_long lp64 m' a) AND 0xFF) = m' (a + k)"
    using Suc.prems byte_of_long [of k lp64 m' a] by (simp add: ucast_and_FF mult.commute)
  then show ?case using Suc by (auto simp: put_bytes_def fun_eq_iff less_Suc_eq)
qed (auto simp: put_bytes_def fun_eq_iff)

lemma drain_bytes_eq:
  "k + j \<le> long_size lp64 \<Longrightarrow> drain_bytes k (drop_bit (8 * j) (rd_long lp64 m' a)) cp m =
     (\<lambda>b. if cp \<le> b \<and> b < cp + k then m' (a + j + (b - cp)) else m b)"
proof (induction k arbitrary: j cp m)
  case (Suc k)
  have "ucast (drop_bit (8 * j) (rd_long lp64 m' a) AND 0xFF) = m' (a + j)"
    using Suc.prems byte_of_long [of j lp64 m' a] by (simp add: ucast_and_FF)
  moreover have "drop_bit 8 (drop_bit (8 * j) (rd_long lp64 m' a)) = drop_bit (8 * Suc j) (rd_long lp64 m' a)"
    by (simp add: add.commute)
  ultimately have "drain_bytes (Suc k) (drop_bit (8 * j) (rd_long lp64 m' a)) cp m =
      drain_bytes k (drop_bit (8 * Suc j) (rd_long lp64 m' a)) (Suc cp) (m(cp := m' (a + j)))"
    by (simp only: drain_bytes.simps flip: Suc_eq_plus1)
  then show ?case using Suc.IH [of "Suc j" "Suc cp"] Suc.prems
    by (auto simp: fun_eq_iff Suc_diff_le intro!: arg_cong [where f = m'])
qed (auto simp: fun_eq_iff)


section \<open>The whole function\<close>

lemma long_floor_eq: "long_floor lp64 p = p \<longleftrightarrow> p mod long_size lp64 = 0"
  using mod_less_eq_dividend [of p "long_size lp64"] unfolding long_floor_def by linarith

lemma shift_blocks_stop:
  "n \<le> long_size lp64 * 8 \<Longrightarrow> shift_blocks lp64 diff (n, p1, p2, m, rest) = (n, p1, p2, m, rest)"
  by (simp add: shift_blocks.simps Let_def)

lemma cpy_misaligned_copy:
  assumes "apart cp1 lp2 n" "n \<le> long_size lp64 * 9" "cp1 mod long_size lp64 \<noteq> 0"
  shows "cpy_misaligned lp64 n cp1 lp2 m = mem_copy m cp1 lp2 n"
proof (cases "long_size lp64 * 9 \<le> n")
  case False
  then show ?thesis using assms(1) by (simp add: cpy_misaligned_def Let_def cpy_bytes_copy)
next
  case True
  define w where "w = long_size lp64"
  define diff where "diff = w - cp1 mod w"
  have n: "n = w * 9" using True assms(2) by (simp add: w_def)
  have d: "cp1 - long_floor lp64 cp1 = cp1 mod w" "diff \<le> w" "0 < diff"
    using mod_less_eq_dividend [of cp1 w] by (simp_all add: long_floor_def w_def diff_def)
  let ?m1 = "put_bytes (rd_long lp64 m lp2) diff cp1 m"
  let ?m2 = "drain_bytes (w - diff) (drop_bit (diff * 8) (rd_long lp64 m lp2)) (cp1 + diff) ?m1"
  have "cpy_misaligned lp64 n cp1 lp2 m = cpy_bytes (w * 8) (cp1 + w) (lp2 + w) ?m2"
    using True d n by (simp add: cpy_misaligned_def Let_def shift_blocks_stop mult.commute [of 8] flip: w_def diff_def)
  moreover have "?m2 = mem_copy m cp1 lp2 w"
  proof -
    have "?m2 = (\<lambda>b. if cp1 + diff \<le> b \<and> b < cp1 + diff + (w - diff) then m (lp2 + diff + (b - (cp1 + diff))) else ?m1 b)"
      using d(2) by (subst mult.commute, intro drain_bytes_eq) (simp add: w_def)
    moreover have "?m1 = (\<lambda>b. if cp1 \<le> b \<and> b < cp1 + diff then m (lp2 + (b - cp1)) else m b)"
      using d(2) by (intro put_bytes_eq) (simp add: w_def)
    ultimately show ?thesis using d(2) by (simp only: mem_copy_def) (rule ext, auto intro!: arg_cong [where f = m])
  qed
  moreover have "apart cp1 lp2 (w + w * 8)" using assms(1) n by (simp add: mult.commute)
  ultimately show ?thesis
    using cpy_bytes_copy [OF apart_shift] apart_copy [of cp1 lp2 w "w * 8" m] n by (simp add: mult.commute)
qed

lemma memcpy_copy:
  assumes "s1 \<noteq> 0" "s2 \<noteq> 0" "apart s1 s2 n"
    and "s1 mod long_size lp64 = s2 mod long_size lp64 \<or> n \<le> long_size lp64 * 9"
  shows "memcpy lp64 m s1 s2 n = (mem_copy m s1 s2 n, s1)"
proof -
  let ?w = "long_size lp64"
  obtain n1 p1 p2 m1 where h: "cpy_head lp64 n s1 s2 m = (n1, p1, p2, m1)" by (metis prod_cases4)
  have c: "mem_copy m1 p1 p2 n1 = mem_copy m s1 s2 n" "apart p1 p2 n1" "n1 \<le> n"
    "n1 = 0 \<or> long_floor lp64 p2 = p2" "int p1 - int p2 = int s1 - int s2"
    using cpy_head_copy [OF h assms(3)] by auto
  show ?thesis
  proof (cases "long_floor lp64 p1 = p1")
    case True
    obtain n2 q1 q2 m2 where 2: "cpy_blocks lp64 16 (n1, p1, p2, m1) = (n2, q1, q2, m2)" by (metis prod_cases4)
    obtain n3 r1 r2 m3 where 3: "cpy_blocks lp64 8 (n2, q1, q2, m2) = (n3, r1, r2, m3)" by (metis prod_cases4)
    obtain n4 t1 t2 m4 where 4: "cpy_blocks lp64 1 (n3, r1, r2, m3) = (n4, t1, t2, m4)" by (metis prod_cases4)
    have "memcpy lp64 m s1 s2 n = (if n = 0 then (m, s1) else (cpy_bytes n4 t1 t2 m4, s1))"
      using assms(1,2) True by (simp only: memcpy_def h Let_def split 2 3 4) simp
    moreover have "mem_copy m4 t1 t2 n4 = mem_copy m s1 s2 n" "apart t1 t2 n4"
      using cpy_blocks_copy [OF 2] cpy_blocks_copy [OF 3] cpy_blocks_copy [OF 4] c(1,2) by auto
    ultimately show ?thesis by (simp add: cpy_bytes_copy)
  next
    case False
    have "cpy_misaligned lp64 n1 p1 p2 m1 = mem_copy m1 p1 p2 n1"
    proof (cases "n1 = 0")
      case True
      moreover have "0 < long_size lp64 * 9" by simp
      ultimately show ?thesis by (simp add: cpy_misaligned_def Let_def del: long_size_pos)
    next
      case nz: False
      have "p1 mod ?w \<noteq> p2 mod ?w" using False nz c(4) by (simp add: long_floor_eq)
      moreover have "s1 mod ?w = s2 mod ?w \<longleftrightarrow> p1 mod ?w = p2 mod ?w"
        using c(5) by (simp only: nat_mod_eq_iff int_int_eq [symmetric] zmod_int mod_eq_dvd_iff)
      ultimately have "n1 \<le> ?w * 9" using assms(4) c(3) by auto
      then show ?thesis using False c(2) by (intro cpy_misaligned_copy) (simp_all add: long_floor_eq)
    qed
    then show ?thesis using assms(1,2) False h c(1) by (simp add: memcpy_def)
  qed
qed


section \<open>Misaligned copies of more than nine words\<close>

lemma wr_le_byte: "j < n \<Longrightarrow> wr_le n m a v (a + j) = of_nat (v div 256 ^ j)"
proof (induction n arbitrary: j m a v)
  case (Suc n)
  show ?case
  proof (cases j)
    case 0 then show ?thesis by (simp add: wr_le_frame)
  next
    case (Suc k)
    then show ?thesis using Suc.IH [of k _ "Suc a"] Suc.prems by (simp add: div_mult2_eq)
  qed
qed simp

lemma wr_long_byte_at: "j < long_size lp64 \<Longrightarrow> wr_long lp64 m a v (a + j) = ucast (drop_bit (8 * j) v)"
proof -
  assume j: "j < long_size lp64"
  have "unat (drop_bit (8 * j) v) = unat v div 256 ^ j"
    by (simp add: unsigned_drop_bit_eq take_bit_nat_eq_self unat_u64 drop_bit_eq_div [where 'a = nat] power_mult
        del: unsigned_take_bit_eq)
  moreover have "(ucast (drop_bit (8 * j) v) :: u8) = of_nat (unat (drop_bit (8 * j) v))" by simp
  ultimately show ?thesis using j by (simp add: wr_long_def wr_le_byte)
qed

lemma wr_long_below: "b < a \<Longrightarrow> wr_long lp64 m a v b = m b"
  by (simp add: wr_long_def wr_le_frame)

lemma wr_longs_below: "b < a \<Longrightarrow> fold (\<lambda>i m. wr_long lp64 m (a + f i) (v i)) is m b = m b"
  by (induction "is" arbitrary: m) (simp_all add: wr_long_below)

lemma shift_blocks_below:
  "shift_blocks lp64 diff (n, p1, p2, m, rest) = (n', p1', p2', m', rest') \<Longrightarrow> p1 \<le> p1' \<and> (\<forall>b<p1. m' b = m b)"
proof (induction n arbitrary: p1 p2 m rest rule: less_induct)
  case (less n)
  let ?w = "long_size lp64"
  show ?case
  proof (cases "?w * 8 < n")
    case True
    define l1 where "l1 = map (\<lambda>i. rd_long lp64 m (p2 + i * ?w)) [0..<8]"
    define l2 where "l2 = drop_bit (8 * diff) (l1 ! 7) # map (drop_bit (8 * diff)) (take 7 l1)"
    define m1 where "m1 = fold (\<lambda>i m. wr_long lp64 m (p1 + i * ?w) (push_bit (8 * (?w - diff)) (l1 ! i) OR l2 ! i)) [0..<8] m"
    have "shift_blocks lp64 diff (n - ?w * 8, p1 + ?w * 8, p2 + ?w * 8, m1, l2 ! 0) = (n', p1', p2', m', rest')"
      using less.prems True by (subst (asm) shift_blocks.simps) (simp only: Let_def if_True flip: l1_def l2_def m1_def)
    moreover have "n - ?w * 8 < n" using True by simp
    ultimately have "p1 + ?w * 8 \<le> p1' \<and> (\<forall>b<p1 + ?w * 8. m' b = m1 b)" by (rule less.IH [rotated])
    moreover have "\<forall>b<p1. m1 b = m b" by (simp add: m1_def wr_longs_below)
    ultimately show ?thesis by auto
  next
    case False
    then show ?thesis using less.prems by (subst (asm) shift_blocks.simps) (auto simp: Let_def)
  qed
qed

lemma drain_bytes_below: "b < cp \<Longrightarrow> drain_bytes k l cp m b = m b"
  by (induction k arbitrary: l cp m) auto

lemma cpy_bytes_below: "b < cp1 \<Longrightarrow> cpy_bytes n cp1 cp2 m b = m b"
  by (induction n arbitrary: cp1 cp2 m) auto

text \<open>The first bytes of the first combined word come from the last word that was read.\<close>

lemma shift_blocks_first:
  assumes "shift_blocks lp64 diff (n, p1, p2, m, rest) = (n', p1', p2', m', rest')"
    and "long_size lp64 * 8 < n" "j < long_size lp64 - diff"
  shows "m' (p1 + j) = m (p2 + long_size lp64 * 7 + diff + j) \<and> p1 + long_size lp64 * 8 \<le> p1'"
proof -
  let ?w = "long_size lp64"
  define l1 where "l1 = map (\<lambda>i. rd_long lp64 m (p2 + i * ?w)) [0..<8]"
  define l2 where "l2 = drop_bit (8 * diff) (l1 ! 7) # map (drop_bit (8 * diff)) (take 7 l1)"
  define v where "v = (\<lambda>i. push_bit (8 * (?w - diff)) (l1 ! i) OR l2 ! i)"
  define m1 where "m1 = fold (\<lambda>i m. wr_long lp64 m (p1 + i * ?w) (v i)) [0..<8] m"
  have "shift_blocks lp64 diff (n - ?w * 8, p1 + ?w * 8, p2 + ?w * 8, m1, l2 ! 0) = (n', p1', p2', m', rest')"
    using assms(1,2) by (subst (asm) shift_blocks.simps)
      (simp only: Let_def if_True m1_def v_def flip: l1_def l2_def)
  from shift_blocks_below [OF this] have b: "p1 + ?w * 8 \<le> p1'" "\<forall>b<p1 + ?w * 8. m' b = m1 b" by auto
  have j: "j < ?w" using assms(3) by simp
  have "[0..<8::nat] = 0 # [Suc 0..<8]" by (rule upt_conv_Cons) simp
  then have "m1 (p1 + j) = fold (\<lambda>i m. wr_long lp64 m (p1 + i * ?w) (v i)) [Suc 0..<8] (wr_long lp64 m p1 (v 0)) (p1 + j)"
    by (simp add: m1_def del: upt_Suc)
  also have "\<dots> = wr_long lp64 m p1 (v 0) (p1 + j)"
  proof -
    have "\<forall>i \<in> set is. 0 < i \<Longrightarrow> fold (\<lambda>i m. wr_long lp64 m (p1 + i * ?w) (v i)) is m0 (p1 + j) = m0 (p1 + j)" for "is" m0
    proof (induction "is" arbitrary: m0)
      case (Cons i "is")
      then have "?w \<le> i * ?w" by simp
      then have "p1 + j < p1 + i * ?w" using j by linarith
      then show ?case using Cons by (simp add: wr_long_below)
    qed simp
    then show ?thesis by simp
  qed
  also have "\<dots> = ucast (drop_bit (8 * j) (v 0))" using j by (rule wr_long_byte_at)
  also have "\<dots> = m (p2 + ?w * 7 + diff + j)"
  proof (rule bit_word_eqI)
    fix t :: nat assume "t < LENGTH(8)"
    then have t: "t < 8" by simp
    have "8 * j + t < 8 * (?w - diff)" using assms(3) t by simp
    then have "bit (v 0) (8 * j + t) = bit (rd_long lp64 m (p2 + 7 * ?w)) (8 * diff + (8 * j + t))"
      by (simp add: v_def l2_def l1_def bit_or_iff bit_push_bit_iff bit_drop_bit_eq)
    also have "8 * diff + (8 * j + t) = 8 * (diff + j) + t" by simp
    also have "bit (rd_long lp64 m (p2 + 7 * ?w)) (8 * (diff + j) + t) = bit (m (p2 + 7 * ?w + (diff + j))) t"
      using assms(3) t by (intro bit_rd_long) auto
    finally show "bit (ucast (drop_bit (8 * j) (v 0)) :: u8) t = bit (m (p2 + ?w * 7 + diff + j)) t"
      using t by (simp add: bit_ucast_iff bit_drop_bit_eq ac_simps)
  qed
  finally show ?thesis using b j by simp
qed

lemma memcpy_shifted:
  assumes "s1 \<noteq> 0" "s2 \<noteq> 0" "apart s1 s2 n" "s2 mod w = 0" "s1 mod w \<noteq> 0" "w = long_size lp64" "w * 9 < n"
    and "diff = w - s1 mod w" "j < s1 mod w"
  shows "fst (memcpy lp64 m s1 s2 n) (s1 + diff + j) = m (s2 + w * 8 + diff + j)"
proof -
  have fl: "long_floor lp64 s2 = s2" "long_floor lp64 s1 \<noteq> s1" using assms by (simp_all add: long_floor_eq)
  have d: "s1 - long_floor lp64 s1 = s1 mod w" "diff \<le> w" "w - diff = s1 mod w"
    using mod_less_eq_dividend [of s1 w] assms(5,6,8) by (simp_all add: long_floor_def)
  let ?m0 = "put_bytes (rd_long lp64 m s2) diff s1 m"
  have head: "cpy_head lp64 n s1 s2 m = (n, s1, s2, m)" using fl assms(7) by (cases n) auto
  obtain n1 p1 p2 m1 rest where sb: "shift_blocks lp64 diff (n - w, s1 + diff, s2 + w, ?m0, drop_bit (diff * 8) (rd_long lp64 m s2))
      = (n1, p1, p2, m1, rest)" by (metis prod_cases5)
  have eq: "fst (memcpy lp64 m s1 s2 n) = cpy_bytes n1 (p1 + (w - diff)) p2 (drain_bytes (w - diff) rest p1 m1)"
    using assms(1,2,7) fl sb d(1)
    by (simp add: memcpy_def head cpy_misaligned_def Let_def assms(6) [symmetric] assms(8) [symmetric])
  have "m1 (s1 + diff + j) = ?m0 (s2 + w + w * 7 + diff + j) \<and> s1 + diff + w * 8 \<le> p1"
    using shift_blocks_first [OF sb, of j] assms(6,7,9) d(3) by simp
  moreover have "?m0 (s2 + w + w * 7 + diff + j) = m (s2 + w * 8 + diff + j)"
  proof -
    have "diff \<le> long_size lp64" using d(2) assms(6) by simp
    moreover have "diff + j < w" using d assms(9) by simp
    ultimately show ?thesis using assms(3,7) by (auto simp: put_bytes_eq apart_def ac_simps)
  qed
  moreover have "j < w" using assms(9) d(2,3) by simp
  ultimately show ?thesis unfolding eq by (simp add: cpy_bytes_below drain_bytes_below)
qed

end
