(* ===== verification/XEOS_StringProps.thy ===== *)
theory XEOS_StringProps
  imports XEOS_MemCopy
begin

text \<open>
  The properties of the string functions, each with an instance on a memory with two strings.
\<close>

definition example_str :: bytes where
  "example_str = (\<lambda>_. 0)(0x1000 := 0x61, 0x1001 := 0x62, 0x1002 := 0x61, 0x1003 := 0x63,
     0x1010 := 0x61, 0x1011 := 0x63)"

lemma example_strs: "cstr example_str 0x1000 [0x61, 0x62, 0x61, 0x63]" "cstr example_str 0x1010 [0x61, 0x63]"
  by (simp_all add: example_str_def)


section \<open>Length, comparison and search\<close>

text \<open>
  strlen, which tests a whole word at a time, returns the number of characters before the
  terminator, for both sizes of long and any alignment.
\<close>

theorem strlen_length:
  assumes "cstr m s xs"
  shows "strlen lp64 m s = Some (length xs)"
  using assms by (rule strlen_cstr)

theorem strlen_length_witness: "strlen True example_str 0x1001 = Some 3"
  using strlen_length [of example_str "0x1001" "[0x62, 0x61, 0x63]" True] by (simp add: example_str_def)

text \<open>
  strcmp is the sign of the lexicographic order of the strings, as unsigned characters: 0 if
  they are equal, negative if the first comes before the second, positive otherwise.
\<close>

theorem strcmp_order:
  assumes "cstr m p xs" "cstr m q ys"
  shows "\<exists>r. strcmp m p q = Some r \<and> (r = 0 \<longleftrightarrow> xs = ys) \<and>
     (r < 0 \<longleftrightarrow> ord_class.lexordp xs ys) \<and> (0 < r \<longleftrightarrow> ord_class.lexordp ys xs)"
proof -
  have "xs = ys \<Longrightarrow> \<not> ord_class.lexordp xs ys \<and> \<not> ord_class.lexordp ys xs" by (simp add: lexordp_irreflexive')
  moreover have "ord_class.lexordp xs ys \<Longrightarrow> \<not> ord_class.lexordp ys xs" by (meson lexordp_antisym lexordp_irreflexive')
  moreover have "xs \<noteq> ys \<Longrightarrow> ord_class.lexordp xs ys \<or> ord_class.lexordp ys xs" by (meson lexordp_linear)
  ultimately show ?thesis using strcmp_cstr [OF assms] by (auto simp: list_cmp_def)
qed

theorem strcmp_order_witness: "\<exists>r. strcmp example_str 0x1000 0x1010 = Some r \<and> r < 0"
  using strcmp_order [OF example_strs] by auto

lemma takeWhile_first:
  "x \<in> set xs \<Longrightarrow> length (takeWhile (\<lambda>y. y \<noteq> x) xs) < length xs \<and>
     xs ! length (takeWhile (\<lambda>y. y \<noteq> x) xs) = x \<and> (\<forall>k<length (takeWhile (\<lambda>y. y \<noteq> x) xs). xs ! k \<noteq> x)"
  by (induction xs) (auto simp: less_Suc_eq_0_disj)

text \<open>
  strchr and strrchr find the first and the last occurrence of a character of the string, and
  return NULL when there is none.
\<close>

theorem strchr_strrchr:
  assumes "cstr m s xs" "c = ucast x" "x \<noteq> (0 :: u8)"
  shows "if x \<in> set xs
     then \<exists>i j. i < length xs \<and> j < length xs \<and> xs ! i = x \<and> xs ! j = x \<and>
            (\<forall>k<i. xs ! k \<noteq> x) \<and> (\<forall>k<length xs. j < k \<longrightarrow> xs ! k \<noteq> x) \<and>
            strchr m s c = Some (s + i) \<and> strrchr lp64 m s c = Some (s + j)
     else strchr m s c = Some 0 \<and> strrchr lp64 m s c = Some 0"
proof -
  have x: "ucast c = x" unfolding assms(2)
    by (rule bit_word_eqI) (auto simp: bit_ucast_iff dest: bit_u8)
  have c: "c \<noteq> 0" using x assms(3) by auto
  have m: "k < length xs \<Longrightarrow> m (s + k) = xs ! k" for k using cstr_nth [OF assms(1)] by simp
  have e: "m (s + length xs) \<noteq> x" using cstr_end [OF assms(1)] assms(3) by simp
  show ?thesis
  proof (cases "x \<in> set xs")
    case True
    let ?i = "length (takeWhile (\<lambda>y. y \<noteq> x) xs)"
    have i: "?i < length xs" "xs ! ?i = x" "\<forall>k<?i. xs ! k \<noteq> x"
      using takeWhile_first [OF True] by auto
    define j where "j = Max {k. k < length xs \<and> xs ! k = x}"
    have fin: "finite {k. k < length xs \<and> xs ! k = x}" by simp
    have "j \<in> {k. k < length xs \<and> xs ! k = x}" unfolding j_def by (rule Max_in [OF fin]) (use i in auto)
    then have j: "j < length xs" "xs ! j = x" by auto
    have jm: "\<forall>k<length xs. j < k \<longrightarrow> xs ! k \<noteq> x" using Max_ge [OF fin] unfolding j_def by fastforce
    have "strrchr_back m s c (s + j + (length xs - j)) = s + j"
    proof (rule strrchr_back_hit)
      show "\<forall>q. s + j < q \<and> q \<le> s + j + (length xs - j) \<longrightarrow> m q \<noteq> ucast c"
      proof (intro allI impI)
        fix q assume q: "s + j < q \<and> q \<le> s + j + (length xs - j)"
        then have q': "q = s + (q - s)" "j < q - s" "q - s \<le> length xs" using j by auto
        then show "m q \<noteq> ucast c" using jm e m [of "q - s"] x by (cases "q - s = length xs") auto
      qed
    qed (use j m x in auto)
    then have "strrchr lp64 m s c = Some (s + j)" using j by (simp add: strrchr_def strlen_cstr [OF assms(1)])
    moreover have "strchr m s c = Some (s + ?i)" using strchr_cstr [OF assms(1), of c] True x by simp
    ultimately show ?thesis using True i j jm by auto
  next
    case False
    have "strrchr_back m s c (s + length xs) = 0"
    proof (rule strrchr_back_none, intro allI impI)
      fix q assume "s \<le> q \<and> q \<le> s + length xs"
      then have q: "q = s + (q - s)" "q - s \<le> length xs" by auto
      then show "m q \<noteq> ucast c"
      proof (cases "q - s = length xs")
        case True then show ?thesis using e x q by simp
      next
        case nl: False
        then have l: "q - s < length xs" using q(2) by simp
        then have "m q \<in> set xs" using m [OF l] q(1) nth_mem [OF l] by metis
        then show ?thesis using False x by metis
      qed
    qed
    then show ?thesis using False strchr_cstr [OF assms(1), of c] x c by (simp add: strrchr_def strlen_cstr [OF assms(1)])
  qed
qed

theorem strchr_strrchr_witness: "strchr example_str 0x1000 0x7A = Some 0 \<and> strrchr False example_str 0x1000 0x7A = Some 0"
  using strchr_strrchr [OF example_strs(1), of "0x7A" "0x7A" False] by simp

text \<open>
  strspn and strcspn return the length of the longest prefix of characters that are, or are
  not, in the second string, and strpbrk the address of the first character that is.
\<close>

theorem strspn_strcspn:
  assumes "cstr m s1 xs" "cstr m s2 ys"
  shows "strspn m s1 s2 = Some (length (takeWhile (\<lambda>x. x \<in> set ys) xs)) \<and>
     strcspn m s1 s2 = Some (length (takeWhile (\<lambda>x. x \<notin> set ys) xs)) \<and>
     strpbrk m s1 s2 = Some (if set xs \<inter> set ys = {} then 0 else s1 + length (takeWhile (\<lambda>x. x \<notin> set ys) xs))"
  using strspn_cstr [OF assms(2,1)] strcspn_cstr [OF assms(2,1)] strpbrk_cstr [OF assms(2,1)]
  by (simp add: strspn_def strcspn_def strpbrk_def)

theorem strspn_strcspn_witness:
  "strspn example_str 0x1000 0x1010 = Some 1 \<and> strcspn example_str 0x1000 0x1010 = Some 0"
  using strspn_strcspn [OF example_strs] by simp

text \<open>
  strstr returns the address of the first position at which the second string occurs in the
  first, and NULL when it occurs nowhere.
\<close>

theorem strstr_first:
  assumes "cstr m s1 xs" "cstr m s2 ys"
  shows "(\<exists>k. k \<le> length xs \<and> take (length ys) (drop k xs) = ys \<and>
            (\<forall>j<k. take (length ys) (drop j xs) \<noteq> ys) \<and> strstr m s1 s2 = Some (s1 + k)) \<or>
     ((\<nexists>k. k \<le> length xs \<and> take (length ys) (drop k xs) = ys) \<and> strstr m s1 s2 = Some 0)"
proof (cases "first_at ys xs")
  case None
  then have "\<nexists>k. k < Suc (length xs) \<and> take (length ys) (drop k xs) = ys"
    unfolding first_at_def find_None_iff set_upt by simp
  then show ?thesis using strstr_cstr [OF assms] None by (simp add: less_Suc_eq_le)
next
  case (Some k)
  then have "k < Suc (length xs) \<and> take (length ys) (drop k xs) = ys \<and> (\<forall>j<k. take (length ys) (drop j xs) \<noteq> ys)"
    unfolding first_at_def find_Some_iff by (auto simp: nth_append less_Suc_eq simp del: upt_Suc)
  then show ?thesis using strstr_cstr [OF assms] Some by (simp add: less_Suc_eq_le)
qed

theorem strstr_first_witness: "strstr example_str 0x1000 0x1010 = Some 0x1002"
proof -
  have p: "k \<le> 4 \<Longrightarrow> take 2 (drop k [0x61, 0x62, 0x61, 0x63]) = [0x61, 0x63 :: u8] \<longleftrightarrow> k = 2" for k
    by (simp add: le_Suc_eq numeral_eq_Suc) auto
  have l: "length [0x61, 0x62, 0x61, 0x63 :: u8] = 4" "length [0x61, 0x63 :: u8] = 2" by simp_all
  show ?thesis using strstr_first [OF example_strs] unfolding l by (auto simp: p dest!: spec [of _ 2])
qed


section \<open>Copies\<close>

text \<open>
  strcat appends: the destination becomes the concatenation of the two strings, nothing outside
  the appended characters and their terminator changes, and the destination is returned.
\<close>

theorem strcat_appends:
  assumes "cstr m s1 xs" "cstr m s2 ys"
    and "s1 + length xs + length ys < s2 \<or> s2 + length ys < s1"
  shows "\<exists>m'. strcat m s1 s2 = Some (m', s1) \<and> cstr m' s1 (xs @ ys) \<and> cstr m' s2 ys \<and>
     (\<forall>b. b < s1 + length xs \<or> s1 + length xs + length ys < b \<longrightarrow> m' b = m b)"
proof -
  let ?d = "s1 + length xs"
  let ?m = "mem_copy m ?d s2 (Suc (length ys))"
  have "strcpy_loop m ?d s2 = Some ?m" using assms(3) by (intro strcpy_loop_cstr [OF assms(2)]) auto
  then have "strcat m s1 s2 = Some (?m, s1)" by (simp add: strcat_def string_end_cstr [OF assms(1)])
  moreover have "cstr ?m s1 (xs @ ys)"
    using cstr_mem_copy [OF assms(2), of ?d] cstr_nth [OF assms(1)] by (auto simp: cstr_append mem_copy_out)
  moreover have "cstr ?m s2 ys"
    by (rule cstr_cong [OF assms(2)]) (use assms(3) in \<open>auto intro!: mem_copy_out\<close>)
  ultimately show ?thesis by (auto simp: mem_copy_out)
qed

theorem strcat_appends_witness:
  "\<exists>m'. strcat example_str 0x1000 0x1010 = Some (m', 0x1000) \<and> cstr m' 0x1000 [0x61, 0x62, 0x61, 0x63, 0x61, 0x63]"
  using strcat_appends [OF example_strs] by auto

text \<open>
  strcpy copies the characters and the terminator.  strncpy writes exactly n bytes: the first
  n characters, and zeros behind a shorter string; a string of n or more characters is left without
  a terminator.
\<close>

theorem strcpy_strncpy:
  assumes "cstr m s2 ys" "s1 + length ys < s2 \<or> s2 + length ys < s1"
  shows "(\<exists>m'. strcpy m s1 s2 = Some (m', s1) \<and> cstr m' s1 ys \<and>
       (\<forall>b. b < s1 \<or> s1 + length ys < b \<longrightarrow> m' b = m b)) \<and>
     (\<forall>b. fst (strncpy m s1 s2 n) b =
        (if b < s1 \<or> s1 + n \<le> b then m b else if b - s1 < length ys then ys ! (b - s1) else 0))"
proof
  have d: "s1 \<le> s2 \<or> s2 + length ys < s1" using assms(2) by auto
  show "\<exists>m'. strcpy m s1 s2 = Some (m', s1) \<and> cstr m' s1 ys \<and> (\<forall>b. b < s1 \<or> s1 + length ys < b \<longrightarrow> m' b = m b)"
    using cstr_mem_copy [OF assms(1), of s1] by (auto simp: strcpy_def strcpy_loop_cstr [OF assms(1) d] mem_copy_out)
  show "\<forall>b. fst (strncpy m s1 s2 n) b =
      (if b < s1 \<or> s1 + n \<le> b then m b else if b - s1 < length ys then ys ! (b - s1) else 0)"
  proof
    fix b
    have "b - s1 < length ys \<Longrightarrow> m (s2 + (b - s1)) = ys ! (b - s1)" using cstr_nth [OF assms(1)] by simp
    then show "fst (strncpy m s1 s2 n) b =
        (if b < s1 \<or> s1 + n \<le> b then m b else if b - s1 < length ys then ys ! (b - s1) else 0)"
      by (auto simp: strncpy_def strncpy_loop_cstr [OF assms(1) d refl] mem_fill_def mem_copy_def)
  qed
qed

theorem strcpy_strncpy_witness:
  "\<exists>m'. strcpy example_str 0x2000 0x1010 = Some (m', 0x2000) \<and> cstr m' 0x2000 [0x61, 0x63]"
  using strcpy_strncpy [OF example_strs(2), of "0x2000" 0] by auto

text \<open>
  memmove copies n bytes between areas that may overlap: the destination gets the bytes the
  source had before the call, and no other byte changes.
\<close>

theorem memmove_overlap:
  "\<exists>m'. memmove m s1 s2 n = (m', s1) \<and> (\<forall>i<n. m' (s1 + i) = m (s2 + i)) \<and>
     (\<forall>b. b < s1 \<or> s1 + n \<le> b \<longrightarrow> m' b = m b)"
  by (auto simp: memmove_eq mem_copy_in mem_copy_out)

theorem memmove_overlap_witness: "\<exists>m'. memmove example_str 0x1001 0x1000 3 = (m', 0x1001) \<and> m' 0x1002 = 0x62"
proof -
  obtain m' where "memmove example_str 0x1001 0x1000 3 = (m', 0x1001)" "\<forall>i<3. m' (0x1001 + i) = example_str (0x1000 + i)"
    using memmove_overlap [of example_str "0x1001" "0x1000" 3] by auto
  then show ?thesis by (auto dest!: spec [of _ 1] simp: example_str_def)
qed

text \<open>
  memset, which writes up to sixteen words at a time, sets exactly the n bytes of the area to
  the low byte of its argument.
\<close>

theorem memset_fills:
  assumes "s \<noteq> 0"
  shows "\<exists>m'. memset lp64 m s c n = (m', s) \<and> (\<forall>b. m' b = (if s \<le> b \<and> b < s + n then ucast c else m b))"
  using assms by (auto simp: memset_eq mem_fill_def)

theorem memset_fills_witness: "\<exists>m'. memset True example_str 0x1003 0x1FF 300 = (m', 0x1003) \<and> m' 0x1010 = 0xFF"
  using memset_fills [of "0x1003" True example_str "0x1FF" 300] by auto

text \<open>
  memchr, which tests a whole word at a time, returns the address of the first byte of the area
  that equals the low byte of its argument, and NULL when there is none.
\<close>

theorem memchr_first:
  assumes "s \<noteq> 0"
  shows "if \<exists>i<n. m (s + i) = ucast c
     then \<exists>i<n. m (s + i) = ucast c \<and> (\<forall>j<i. m (s + j) \<noteq> ucast c) \<and> memchr lp64 m s c n = s + i
     else memchr lp64 m s c n = 0"
proof (cases "find (\<lambda>i. m (s + i) = ucast c) [0..<n]")
  case None
  then have "\<not> (\<exists>i<n. m (s + i) = ucast c)" by (auto simp: find_None_iff)
  then show ?thesis using assms None by (simp add: memchr_eq mem_find_def)
next
  case (Some i)
  then have "i < n" "m (s + i) = ucast c" "\<forall>j<i. m (s + j) \<noteq> ucast c" by (auto simp: find_Some_iff)
  then show ?thesis using assms Some by (auto simp: memchr_eq mem_find_def)
qed

theorem memchr_first_witness: "memchr True example_str 0x1000 0x7A 0x20 = 0"
proof -
  have "example_str a \<noteq> 0x7A" for a by (simp add: example_str_def)
  then show ?thesis using memchr_first [of "0x1000" "0x20" example_str "0x7A" True] by simp
qed

text \<open>
  C27. memcpy copies n bytes between areas that do not overlap when the two addresses agree modulo
  the size of long, or when at most nine words are copied.
\<close>

theorem memcpy_copies:
  assumes "s1 \<noteq> 0" "s2 \<noteq> 0" "apart s1 s2 n"
    and "s1 mod long_size lp64 = s2 mod long_size lp64 \<or> n \<le> long_size lp64 * 9"
  shows "\<exists>m'. memcpy lp64 m s1 s2 n = (m', s1) \<and> (\<forall>i<n. m' (s1 + i) = m (s2 + i)) \<and>
     (\<forall>b. b < s1 \<or> s1 + n \<le> b \<longrightarrow> m' b = m b)"
  using memcpy_copy [OF assms, of m] by (auto simp: mem_copy_in mem_copy_out)

theorem memcpy_copies_witness:
  "\<exists>m'. memcpy True example_str 0x3003 0x1000 72 = (m', 0x3003) \<and> m' 0x3004 = 0x62"
proof -
  obtain m' where "memcpy True example_str 0x3003 0x1000 72 = (m', 0x3003)"
    "\<forall>i<72. m' (0x3003 + i) = example_str (0x1000 + i)"
    using memcpy_copies [of "0x3003" "0x1000" 72 True example_str] by (auto simp: apart_def long_size_def)
  then show ?thesis by (auto dest!: spec [of _ 1] simp: example_str_def)
qed

text \<open>
  A memcpy of more than nine words from an aligned source to a misaligned destination writes
  wrong bytes: those that complete the first word of the source are overwritten by bytes from eight
  words further on.
\<close>

theorem memcpy_misaligned:
  assumes "s1 \<noteq> 0" "s2 \<noteq> 0" "apart s1 s2 n" "s2 mod w = 0" "s1 mod w \<noteq> 0" "w = long_size lp64" "w * 9 < n"
    and "diff = w - s1 mod w" "j < s1 mod w"
  shows "fst (memcpy lp64 m s1 s2 n) (s1 + diff + j) = m (s2 + w * 8 + diff + j)"
  using assms by (rule memcpy_shifted)

theorem memcpy_misaligned_witness:
  "fst (memcpy True example_str 0x3007 0x1000 73) 0x3008 \<noteq> example_str 0x1001"
proof -
  have "fst (memcpy True example_str 0x3007 0x1000 73) (0x3007 + 1 + 0) = example_str (0x1000 + 8 * 8 + 1 + 0)"
    by (rule memcpy_misaligned) (simp_all add: apart_def long_size_def)
  moreover have "example_str 0x1041 = 0" "example_str 0x1001 = 0x62" by (simp_all add: example_str_def)
  ultimately show ?thesis by simp
qed

end
