(* ===== verification/XEOS_Locale.thy ===== *)
theory XEOS_Locale
  imports XEOS_Base
begin

text \<open>
  Locales and character classes (source/lib/system/locale, source/lib/c99/ctype) and the functions
  of the C library that use them.  The library has a single locale, the default one, and a current
  locale whose parts setlocale replaces.  Characters have type int; a table look-up behind the end
  of a table, or one that never ends, has no result.
\<close>

record ctype =
  ct_upper :: "int list"
  ct_lower :: "int list"
  ct_digit :: "int list"
  ct_space :: "int list"
  ct_cntrl :: "int list"
  ct_punct :: "int list"
  ct_xdigit :: "int list"
  ct_blank :: "int list"
  ct_toupper :: "(int \<times> int) list"
  ct_tolower :: "(int \<times> int) list"
  ct_space_c :: int
  ct_upper_count :: nat
  ct_lower_count :: nat
  ct_digit_count :: nat
  ct_space_count :: nat
  ct_cntrl_count :: nat
  ct_punct_count :: nat
  ct_xdigit_count :: nat
  ct_blank_count :: nat
  ct_toupper_count :: nat
  ct_tolower_count :: nat


section \<open>Character classes\<close>

text \<open>The search loop of the Is functions: count entries, from the first.\<close>

fun table_has :: "int list \<Rightarrow> nat \<Rightarrow> int \<Rightarrow> bool option" where
  "table_has xs 0 c = Some False"
| "table_has [] (Suc n) c = None"
| "table_has (x # xs) (Suc n) c = (if x = c then Some True else table_has xs n c)"

definition CType_IsUpper :: "ctype option \<Rightarrow> int \<Rightarrow> bool option" where
  "CType_IsUpper t c = (case t of None \<Rightarrow> Some False | Some ct \<Rightarrow> table_has (ct_upper ct) (ct_upper_count ct) c)"
definition CType_IsLower :: "ctype option \<Rightarrow> int \<Rightarrow> bool option" where
  "CType_IsLower t c = (case t of None \<Rightarrow> Some False | Some ct \<Rightarrow> table_has (ct_lower ct) (ct_lower_count ct) c)"
definition CType_IsDigit :: "ctype option \<Rightarrow> int \<Rightarrow> bool option" where
  "CType_IsDigit t c = (case t of None \<Rightarrow> Some False | Some ct \<Rightarrow> table_has (ct_digit ct) (ct_digit_count ct) c)"
definition CType_IsSpace :: "ctype option \<Rightarrow> int \<Rightarrow> bool option" where
  "CType_IsSpace t c = (case t of None \<Rightarrow> Some False | Some ct \<Rightarrow> table_has (ct_space ct) (ct_space_count ct) c)"
definition CType_IsControl :: "ctype option \<Rightarrow> int \<Rightarrow> bool option" where
  "CType_IsControl t c = (case t of None \<Rightarrow> Some False | Some ct \<Rightarrow> table_has (ct_cntrl ct) (ct_cntrl_count ct) c)"
definition CType_IsPunct :: "ctype option \<Rightarrow> int \<Rightarrow> bool option" where
  "CType_IsPunct t c = (case t of None \<Rightarrow> Some False | Some ct \<Rightarrow> table_has (ct_punct ct) (ct_punct_count ct) c)"
definition CType_IsXDigit :: "ctype option \<Rightarrow> int \<Rightarrow> bool option" where
  "CType_IsXDigit t c = (case t of None \<Rightarrow> Some False | Some ct \<Rightarrow> table_has (ct_xdigit ct) (ct_xdigit_count ct) c)"
definition CType_IsBlank :: "ctype option \<Rightarrow> int \<Rightarrow> bool option" where
  "CType_IsBlank t c = (case t of None \<Rightarrow> Some False | Some ct \<Rightarrow> table_has (ct_blank ct) (ct_blank_count ct) c)"

text \<open>The C operator for "or": the right operand is evaluated only if the left one is false.\<close>

definition or_else :: "bool option \<Rightarrow> bool option \<Rightarrow> bool option" where
  "or_else a b = do { x \<leftarrow> a; if x then Some True else b }"

definition CType_IsAlpha :: "ctype option \<Rightarrow> int \<Rightarrow> bool option" where
  "CType_IsAlpha t c = (if t = None then Some False else or_else (CType_IsUpper t c) (CType_IsLower t c))"
definition CType_IsAlphaNumeric :: "ctype option \<Rightarrow> int \<Rightarrow> bool option" where
  "CType_IsAlphaNumeric t c = (if t = None then Some False else or_else (CType_IsDigit t c) (CType_IsAlpha t c))"
definition CType_IsGraph :: "ctype option \<Rightarrow> int \<Rightarrow> bool option" where
  "CType_IsGraph t c = (if t = None then Some False else or_else (CType_IsPunct t c) (CType_IsAlphaNumeric t c))"
definition CType_IsPrint :: "ctype option \<Rightarrow> int \<Rightarrow> bool option" where
  "CType_IsPrint t c = (case t of None \<Rightarrow> Some False
     | Some ct \<Rightarrow> or_else (or_else (Some (c = ct_space_c ct)) (CType_IsPunct t c)) (CType_IsAlphaNumeric t c))"
definition CType_IsASCII :: "ctype option \<Rightarrow> int \<Rightarrow> bool" where
  "CType_IsASCII t c = (t \<noteq> None \<and> 0 \<le> c \<and> c \<le> 128)"
definition CType_ToASCII :: "ctype option \<Rightarrow> int \<Rightarrow> int" where
  "CType_ToASCII t c = (if t = None then 0 else c AND 0x7F)"

text \<open>
  The loops of ToLower and ToUpper: the index is never advanced.  keys is the table that is
  searched and vals the table the result is taken from.
\<close>

partial_function (option) case_loop ::
    "(int \<times> int) list \<Rightarrow> (int \<times> int) list \<Rightarrow> nat \<Rightarrow> nat \<Rightarrow> int \<Rightarrow> int option" where
  "case_loop keys vals n i c =
     (if i < n
      then if i < length keys
           then if fst (keys ! i) = c
                then if i < length vals then Some (snd (vals ! i)) else None
                else case_loop keys vals n i c
           else None
      else Some c)"

definition CType_ToLower :: "ctype option \<Rightarrow> int \<Rightarrow> int option" where
  "CType_ToLower t c = (case t of None \<Rightarrow> Some c
     | Some ct \<Rightarrow> case_loop (ct_tolower ct) (ct_tolower ct) (ct_tolower_count ct) 0 c)"
definition CType_ToUpper :: "ctype option \<Rightarrow> int \<Rightarrow> int option" where
  "CType_ToUpper t c = (case t of None \<Rightarrow> Some c
     | Some ct \<Rightarrow> case_loop (ct_toupper ct) (ct_tolower ct) (ct_toupper_count ct) 0 c)"


section \<open>Locales\<close>

record collate =
  co_count :: nat
  co_entries :: "int list"

record messages =
  ms_yesexpr :: string
  ms_noexpr :: string

record monetary =
  mo_int_curr_symbol :: string
  mo_currency_symbol :: string
  mo_mon_decimal_point :: string
  mo_mon_thousands_sep :: string
  mo_positive_sign :: string
  mo_negative_sign :: string
  mo_mon_grouping :: string
  mo_int_frac_digits :: int
  mo_frac_digits :: int
  mo_p_cs_precedes :: int
  mo_p_sep_by_space :: int
  mo_n_cs_precedes :: int
  mo_n_sep_by_space :: int
  mo_p_sign_posn :: int
  mo_n_sign_posn :: int
  mo_int_p_cs_precedes :: int
  mo_int_p_sep_by_space :: int
  mo_int_n_cs_precedes :: int
  mo_int_n_sep_by_space :: int
  mo_int_p_sign_posn :: int
  mo_int_n_sign_posn :: int

record numeric =
  nu_decimal_point :: string
  nu_thousands_sep :: string
  nu_grouping :: string

record time_names =
  tn_abday :: "string list"
  tn_day :: "string list"
  tn_abmon :: "string list"
  tn_mon :: "string list"
  tn_am_pm :: "string list"
  tn_d_t_fmt :: string
  tn_d_fmt :: string
  tn_t_fmt :: string
  tn_t_fmt_ampm :: string

record sys_locale =
  lc_name :: "string option"
  lc_collate :: "collate option"
  lc_ctype :: "ctype option"
  lc_messages :: "messages option"
  lc_monetary :: "monetary option"
  lc_numeric :: "numeric option"
  lc_time :: "time_names option"

definition default_collate :: collate where
  "default_collate = \<lparr> co_count = 128, co_entries = map int [0..<128] \<rparr>"

definition default_ctype :: ctype where
  "default_ctype =
     \<lparr> ct_upper = [0x41, 0x42, 0x43, 0x44, 0x45, 0x46, 0x47, 0x48, 0x49, 0x4A, 0x4B, 0x4C, 0x4D, 0x4E,
         0x4F, 0x50, 0x51, 0x52, 0x53, 0x54, 0x55, 0x56, 0x57, 0x58, 0x59, 0x5A],
       ct_lower = [0x61, 0x62, 0x63, 0x64, 0x65, 0x66, 0x67, 0x68, 0x69, 0x6A, 0x6B, 0x6C, 0x6D, 0x6E,
         0x6F, 0x70, 0x71, 0x72, 0x73, 0x74, 0x75, 0x76, 0x77, 0x78, 0x79, 0x7A],
       ct_digit = [0x30, 0x31, 0x32, 0x33, 0x34, 0x35, 0x36, 0x37, 0x38, 0x39],
       ct_space = [0x09, 0x0A, 0x0B, 0x0C, 0x0D, 0x20],
       ct_cntrl = map int [0..<0x20] @ [0x7F],
       ct_punct = [0x21, 0x22, 0x23, 0x24, 0x25, 0x26, 0x27, 0x28, 0x29, 0x2A, 0x2B, 0x2C, 0x2D, 0x2E, 0x2F,
         0x3A, 0x3B, 0x3C, 0x3D, 0x3E, 0x3F, 0x40, 0x5B, 0x5C, 0x5D, 0x5E, 0x5F, 0x60, 0x7B, 0x7C, 0x7D, 0x7E],
       ct_xdigit = [0x30, 0x31, 0x32, 0x33, 0x34, 0x35, 0x36, 0x38, 0x39,
         0x41, 0x42, 0x43, 0x44, 0x45, 0x46, 0x61, 0x62, 0x63, 0x64, 0x65, 0x66],
       ct_blank = [0x20, 0x09],
       ct_toupper = map (\<lambda>i. (0x61 + int i, 0x41 + int i)) [0..<26],
       ct_tolower = map (\<lambda>i. (0x41 + int i, 0x61 + int i)) [0..<26],
       ct_space_c = 0x20,
       ct_upper_count = 26, ct_lower_count = 26, ct_digit_count = 10, ct_space_count = 6,
       ct_cntrl_count = 33, ct_punct_count = 32, ct_xdigit_count = 21, ct_blank_count = 2,
       ct_toupper_count = 52, ct_tolower_count = 52 \<rparr>"

definition default_messages :: messages where
  "default_messages = \<lparr> ms_yesexpr = ''^[yY]'', ms_noexpr = ''^[nN]'' \<rparr>"

definition default_monetary :: monetary where
  "default_monetary =
     \<lparr> mo_int_curr_symbol = '''', mo_currency_symbol = '''', mo_mon_decimal_point = '''',
       mo_mon_thousands_sep = '''', mo_positive_sign = '''', mo_negative_sign = '''', mo_mon_grouping = ''-1'',
       mo_int_frac_digits = -1, mo_frac_digits = -1, mo_p_cs_precedes = -1, mo_p_sep_by_space = -1,
       mo_n_cs_precedes = -1, mo_n_sep_by_space = -1, mo_p_sign_posn = -1, mo_n_sign_posn = -1,
       mo_int_p_cs_precedes = -1, mo_int_p_sep_by_space = -1, mo_int_n_cs_precedes = -1,
       mo_int_n_sep_by_space = -1, mo_int_p_sign_posn = -1, mo_int_n_sign_posn = -1 \<rparr>"

definition default_numeric :: numeric where
  "default_numeric = \<lparr> nu_decimal_point = ''.'', nu_thousands_sep = '''', nu_grouping = ''-1'' \<rparr>"

definition default_time :: time_names where
  "default_time =
     \<lparr> tn_abday = [''Sun'', ''Mon'', ''Tue'', ''Wed'', ''Thu'', ''Fri'', ''Sat''],
       tn_day = [''Sunday'', ''Monday'', ''Tuesday'', ''Wednesday'', ''Thursday'', ''Friday'', ''Saturday''],
       tn_abmon = [''Jan'', ''Feb'', ''Mar'', ''Apr'', ''May'', ''Jun'', ''Jul'', ''Aug'', ''Sep'', ''Oct'',
         ''Nov'', ''Dev''],
       tn_mon = [''January'', ''February'', ''March'', ''April'', ''May'', ''June'', ''July'', ''August'',
         ''September'', ''October'', ''November'', ''December''],
       tn_am_pm = [''AM'', ''PM''],
       tn_d_t_fmt = ''%a %b %e %H:%M:%S %Y'', tn_d_fmt = ''%m/%d/%y'', tn_t_fmt = ''%H:%M:%S'',
       tn_t_fmt_ampm = ''%I:%M:%S %p'' \<rparr>"

definition DefaultLocale :: sys_locale where
  "DefaultLocale =
     \<lparr> lc_name = Some ''C'', lc_collate = Some default_collate, lc_ctype = Some default_ctype,
       lc_messages = Some default_messages, lc_monetary = Some default_monetary,
       lc_numeric = Some default_numeric, lc_time = Some default_time \<rparr>"

text \<open>The state of the library: the flag and the current locale, and the flag of localeconv.\<close>

record locale_state =
  ls_inited :: bool
  ls_current :: sys_locale
  ls_lconv_update :: bool

definition locale_boot :: locale_state where
  "locale_boot =
     \<lparr> ls_inited = False,
       ls_current = \<lparr> lc_name = None, lc_collate = None, lc_ctype = None, lc_messages = None,
         lc_monetary = None, lc_numeric = None, lc_time = None \<rparr>,
       ls_lconv_update = True \<rparr>"

definition GetDefaultLocale :: sys_locale where "GetDefaultLocale = DefaultLocale"
definition GetCLocale :: sys_locale where "GetCLocale = GetDefaultLocale"
definition GetPOSIXLocale :: sys_locale where "GetPOSIXLocale = GetCLocale"

definition GetLocale :: "string \<Rightarrow> sys_locale" where
  "GetLocale name =
     (if length name = 0 then GetCLocale
      else if name = ''C'' then GetCLocale
      else if name = ''POSIX'' then GetPOSIXLocale
      else GetDefaultLocale)"

definition GetCurrentLocale :: "locale_state \<Rightarrow> locale_state \<times> sys_locale" where
  "GetCurrentLocale s =
     (let s1 = (if \<not> ls_inited s
          then let d = GetDefaultLocale
               in s\<lparr>ls_inited := True,
                    ls_current := (ls_current s)\<lparr>lc_collate := lc_collate d, lc_ctype := lc_ctype d,
                      lc_messages := lc_messages d, lc_monetary := lc_monetary d,
                      lc_numeric := lc_numeric d, lc_time := lc_time d\<rparr>\<rparr>
          else s)
      in (s1, ls_current s1))"

definition GetCType :: "sys_locale option \<Rightarrow> ctype option" where
  "GetCType l = (case l of None \<Rightarrow> None | Some lc \<Rightarrow> lc_ctype lc)"
definition GetCollate :: "sys_locale option \<Rightarrow> collate option" where
  "GetCollate l = (case l of None \<Rightarrow> None | Some lc \<Rightarrow> lc_collate lc)"
definition GetMessages :: "sys_locale option \<Rightarrow> messages option" where
  "GetMessages l = (case l of None \<Rightarrow> None | Some lc \<Rightarrow> lc_messages lc)"
definition GetMonetary :: "sys_locale option \<Rightarrow> monetary option" where
  "GetMonetary l = (case l of None \<Rightarrow> None | Some lc \<Rightarrow> lc_monetary lc)"
definition GetNumeric :: "sys_locale option \<Rightarrow> numeric option" where
  "GetNumeric l = (case l of None \<Rightarrow> None | Some lc \<Rightarrow> lc_numeric lc)"
definition GetTime :: "sys_locale option \<Rightarrow> time_names option" where
  "GetTime l = (case l of None \<Rightarrow> None | Some lc \<Rightarrow> lc_time lc)"

definition LC_ALL :: int where "LC_ALL = 0"
definition LC_COLLATE :: int where "LC_COLLATE = 1"
definition LC_CTYPE :: int where "LC_CTYPE = 2"
definition LC_MONETARY :: int where "LC_MONETARY = 3"
definition LC_NUMERIC :: int where "LC_NUMERIC = 4"
definition LC_TIME :: int where "LC_TIME = 5"
definition LC_MESSAGES :: int where "LC_MESSAGES = 6"

definition SetLocale :: "int \<Rightarrow> string \<Rightarrow> locale_state \<Rightarrow> locale_state \<times> string option" where
  "SetLocale category name s =
     (let (s1, cur) = GetCurrentLocale s;
          new = GetLocale name;
          s2 = (if category = LC_ALL
            then s1\<lparr>ls_current := cur\<lparr>lc_collate := lc_collate new, lc_ctype := lc_ctype new,
                      lc_messages := lc_messages new, lc_monetary := lc_monetary new,
                      lc_numeric := lc_numeric new, lc_time := lc_time new\<rparr>,
                    ls_lconv_update := True\<rparr>
            else if category = LC_COLLATE then s1\<lparr>ls_current := cur\<lparr>lc_collate := lc_collate new\<rparr>\<rparr>
            else if category = LC_CTYPE then s1\<lparr>ls_current := cur\<lparr>lc_ctype := lc_ctype new\<rparr>\<rparr>
            else if category = LC_MESSAGES then s1\<lparr>ls_current := cur\<lparr>lc_messages := lc_messages new\<rparr>\<rparr>
            else if category = LC_MONETARY
            then s1\<lparr>ls_current := cur\<lparr>lc_monetary := lc_monetary new\<rparr>, ls_lconv_update := True\<rparr>
            else if category = LC_NUMERIC
            then s1\<lparr>ls_current := cur\<lparr>lc_numeric := lc_numeric new\<rparr>, ls_lconv_update := True\<rparr>
            else if category = LC_TIME then s1\<lparr>ls_current := cur\<lparr>lc_time := lc_time new\<rparr>\<rparr>
            else s1)
      in (s2, lc_name new))"


section \<open>ctype.h\<close>

text \<open>The functions of ctype.h look the character up in the current locale.\<close>

definition with_ctype :: "(ctype option \<Rightarrow> 'a) \<Rightarrow> locale_state \<Rightarrow> locale_state \<times> 'a" where
  "with_ctype f s = (let (s1, l) = GetCurrentLocale s in (s1, f (GetCType (Some l))))"

definition isalnum where "isalnum c = with_ctype (\<lambda>t. CType_IsAlphaNumeric t c)"
definition isalpha where "isalpha c = with_ctype (\<lambda>t. CType_IsAlpha t c)"
definition isblank where "isblank c = with_ctype (\<lambda>t. CType_IsBlank t c)"
definition iscntrl where "iscntrl c = with_ctype (\<lambda>t. CType_IsControl t c)"
definition isdigit where "isdigit c = with_ctype (\<lambda>t. CType_IsDigit t c)"
definition isgraph where "isgraph c = with_ctype (\<lambda>t. CType_IsGraph t c)"
definition islower where "islower c = with_ctype (\<lambda>t. CType_IsLower t c)"
definition isprint where "isprint c = with_ctype (\<lambda>t. CType_IsPrint t c)"
definition ispunct where "ispunct c = with_ctype (\<lambda>t. CType_IsPunct t c)"
definition isspace where "isspace c = with_ctype (\<lambda>t. CType_IsSpace t c)"
definition isupper where "isupper c = with_ctype (\<lambda>t. CType_IsUpper t c)"
definition isxdigit where "isxdigit c = with_ctype (\<lambda>t. CType_IsXDigit t c)"
definition tolower where "tolower c = with_ctype (\<lambda>t. CType_ToLower t c)"
definition toupper where "toupper c = with_ctype (\<lambda>t. CType_ToUpper t c)"


section \<open>atoi\<close>

text \<open>
  A string is the list of its characters before the terminator: reading at the end gives the
  terminator, and going on behind it is undefined.  Overflow of the int result is undefined too.
\<close>

definition chr_at :: "u8 list \<Rightarrow> u8" where
  "chr_at xs = (case xs of [] \<Rightarrow> 0 | x # _ \<Rightarrow> x)"

fun next_chr :: "u8 list \<Rightarrow> u8 list option" where
  "next_chr [] = None"
| "next_chr (x # xs) = Some xs"

fun atoi_spaces :: "locale_state \<Rightarrow> u8 list \<Rightarrow> (locale_state \<times> u8 list) option" where
  "atoi_spaces ls [] = do { b \<leftarrow> snd (isspace 0 ls); if b then None else Some (fst (isspace 0 ls), []) }"
| "atoi_spaces ls (x # xs) =
     do { b \<leftarrow> snd (isspace (sint x) ls);
          if b then atoi_spaces (fst (isspace (sint x) ls)) xs
          else Some (fst (isspace (sint x) ls), x # xs) }"

definition int32 :: "int \<Rightarrow> int option" where
  "int32 i = (if - 0x80000000 \<le> i \<and> i < 0x80000000 then Some i else None)"

fun atoi_digits :: "locale_state \<Rightarrow> u8 list \<Rightarrow> int \<Rightarrow> (locale_state \<times> int) option" where
  "atoi_digits ls [] n = do { b \<leftarrow> snd (isdigit 0 ls); if b then None else Some (fst (isdigit 0 ls), n) }"
| "atoi_digits ls (x # xs) n =
     do { b \<leftarrow> snd (isdigit (sint x) ls);
          if b then do { n1 \<leftarrow> int32 (n * 10);
                         n2 \<leftarrow> int32 (n1 + (sint x - 0x30));
                         atoi_digits (fst (isdigit (sint x) ls)) xs n2 }
          else Some (fst (isdigit (sint x) ls), n) }"

definition atoi :: "locale_state \<Rightarrow> u8 list \<Rightarrow> (locale_state \<times> int) option" where
  "atoi ls xs = do { (ls1, ys) \<leftarrow> atoi_spaces ls xs; atoi_digits ls1 ys 0 }"

end
