(* ===== verification/XEOS_Printf.thy ===== *)
theory XEOS_Printf
  imports XEOS_Locale
begin

text \<open>
  The formatter behind the print functions of the console (__XEOS_Video_ProcessFormatString).

  The format is the list of its characters before the terminator, and the variadic arguments are a
  list of typed values: fetching an argument of another type, or none, is undefined.  The result
  None stands for undefined behaviour and for a call that never returns.
\<close>

datatype va = VaInt u32 | VaLong u64 | VaPtr u64 | VaStr "u8 list option" | VaIntPtr nat | VaDouble

datatype sign_flag = SignNormal | SignNone | SignAlways
datatype int_length = LengthNormal | Length16 | Length32 | Length64

definition TypeNormal :: u32 where "TypeNormal = 0x00"
definition TypeOctal :: u32 where "TypeOctal = 0x01"
definition TypeHexadecimal :: u32 where "TypeHexadecimal = 0x02"
definition TypePointer :: u32 where "TypePointer = 0x04"
definition TypeUnsigned :: u32 where "TypeUnsigned = 0x08"
definition TypeUppercase :: u32 where "TypeUppercase = 0x10"

lemmas int_types = TypeNormal_def TypeOctal_def TypeHexadecimal_def TypePointer_def TypeUnsigned_def TypeUppercase_def

text \<open>
  The state of the formatter: the rest of the format and of the arguments, the characters given to
  the handler so far, their count, the stores of the conversion n, and the locale.
\<close>

record pf_state =
  pf_fmt :: "u8 list"
  pf_args :: "va list"
  pf_out :: "u8 list"
  pf_count :: int
  pf_stores :: "(nat \<times> int) list"
  pf_ls :: locale_state

text \<open>The local variables of a conversion.\<close>

record pf_spec =
  sp_minimumWidth :: int
  sp_precision :: int
  sp_pad :: u8
  sp_sharp :: bool
  sp_align :: bool
  sp_sign :: sign_flag
  sp_intLength :: int_length
  sp_intType :: u32

definition spec0 :: pf_spec where
  "spec0 = \<lparr> sp_minimumWidth = 0, sp_precision = 1, sp_pad = 0x20, sp_sharp = False, sp_align = False,
     sp_sign = SignNormal, sp_intLength = LengthNormal, sp_intType = TypeNormal \<rparr>"


section \<open>Output and arguments\<close>

text \<open>characterHandler( c ) unless the handler is NULL, and count++.\<close>

definition put :: "bool \<Rightarrow> u8 \<Rightarrow> pf_state \<Rightarrow> pf_state" where
  "put h c s = s\<lparr>pf_out := (if h then pf_out s @ [c] else pf_out s), pf_count := pf_count s + 1\<rparr>"

definition put_all :: "bool \<Rightarrow> u8 list \<Rightarrow> pf_state \<Rightarrow> pf_state" where
  "put_all h cs s = fold (put h) cs s"

definition fmt_next :: "pf_state \<Rightarrow> pf_state option" where
  "fmt_next s = map_option (\<lambda>f. s\<lparr>pf_fmt := f\<rparr>) (next_chr (pf_fmt s))"

fun arg_int :: "pf_state \<Rightarrow> (u32 \<times> pf_state) option" where
  "arg_int s = (case pf_args s of VaInt x # r \<Rightarrow> Some (x, s\<lparr>pf_args := r\<rparr>) | _ \<Rightarrow> None)"
fun arg_long :: "pf_state \<Rightarrow> (u64 \<times> pf_state) option" where
  "arg_long s = (case pf_args s of VaLong x # r \<Rightarrow> Some (x, s\<lparr>pf_args := r\<rparr>) | _ \<Rightarrow> None)"
fun arg_ptr :: "pf_state \<Rightarrow> (u64 \<times> pf_state) option" where
  "arg_ptr s = (case pf_args s of VaPtr x # r \<Rightarrow> Some (x, s\<lparr>pf_args := r\<rparr>) | _ \<Rightarrow> None)"
fun arg_str :: "pf_state \<Rightarrow> (u8 list option \<times> pf_state) option" where
  "arg_str s = (case pf_args s of VaStr x # r \<Rightarrow> Some (x, s\<lparr>pf_args := r\<rparr>) | _ \<Rightarrow> None)"
fun arg_int_ptr :: "pf_state \<Rightarrow> (nat \<times> pf_state) option" where
  "arg_int_ptr s = (case pf_args s of VaIntPtr x # r \<Rightarrow> Some (x, s\<lparr>pf_args := r\<rparr>) | _ \<Rightarrow> None)"
fun arg_double :: "pf_state \<Rightarrow> pf_state option" where
  "arg_double s = (case pf_args s of VaDouble # r \<Rightarrow> Some (s\<lparr>pf_args := r\<rparr>) | _ \<Rightarrow> None)"

text \<open>atoi( format ), and the loop that skips its digits.\<close>

fun skip_digits :: "locale_state \<Rightarrow> u8 list \<Rightarrow> (locale_state \<times> u8 list) option" where
  "skip_digits ls [] = do { b \<leftarrow> snd (isdigit 0 ls); if b then None else Some (fst (isdigit 0 ls), []) }"
| "skip_digits ls (x # xs) =
     do { b \<leftarrow> snd (isdigit (sint x) ls);
          if b then skip_digits (fst (isdigit (sint x) ls)) xs
          else Some (fst (isdigit (sint x) ls), x # xs) }"

definition fmt_number :: "pf_state \<Rightarrow> (int \<times> pf_state) option" where
  "fmt_number s =
     do { (ls1, n) \<leftarrow> atoi (pf_ls s) (pf_fmt s);
          (ls2, f) \<leftarrow> skip_digits ls1 (pf_fmt s);
          Some (n, s\<lparr>pf_fmt := f, pf_ls := ls2\<rparr>) }"


section \<open>Characters and strings\<close>

definition conv_char :: "bool \<Rightarrow> pf_spec \<Rightarrow> pf_state \<Rightarrow> pf_state option" where
  "conv_char h sp s =
     do { (x, s1) \<leftarrow> arg_int s;
          let padding = replicate (nat (sp_minimumWidth sp - 1)) (sp_pad sp);
          let s2 = (if \<not> sp_align sp then put_all h padding s1 else s1);
          let s3 = put h (ucast x) s2;
          Some (if sp_align sp then put_all h padding s3 else s3) }"

text \<open>
  The length is taken before the test for NULL, and with a NULL handler the loop over the
  characters does not advance.
\<close>

definition conv_string :: "arch \<Rightarrow> bool \<Rightarrow> pf_spec \<Rightarrow> pf_state \<Rightarrow> pf_state option" where
  "conv_string A h sp s =
     do { (p, s1) \<leftarrow> arg_str s;
          str \<leftarrow> p;
          let width = nat (sp_minimumWidth sp mod 2 ^ ptr_bits A);
          let padding = replicate (width - length str) (sp_pad sp);
          let s2 = (if \<not> sp_align sp then put_all h padding s1 else s1);
          s3 \<leftarrow> (if str \<noteq> [] \<and> \<not> h then None else Some (put_all h str s2));
          Some (if sp_align sp then put_all h padding s3 else s3) }"


section \<open>Integers\<close>

text \<open>The cases of the switch fall through, so that a conversion sets the flags of those below it.\<close>

definition type_flags :: "u8 \<Rightarrow> u32" where
  "type_flags c =
     (let u = TypeUnsigned; x = u OR TypeHexadecimal; X = x OR TypeUppercase; p = X OR TypePointer; oc = p OR TypeOctal
      in if c = 0x6F then oc else if c = 0x70 then p else if c = 0x58 then X else if c = 0x78 then x
         else if c = 0x75 then u else 0)"

definition main_type :: "u32 \<Rightarrow> u32" where
  "main_type t =
     (if t AND TypeOctal \<noteq> 0 then TypeOctal
      else if t AND TypePointer \<noteq> 0 then TypePointer
      else if t AND TypeHexadecimal \<noteq> 0
      then if t AND TypeUppercase \<noteq> 0 then TypeHexadecimal OR TypeUppercase else TypeHexadecimal
      else t)"

text \<open>The argument of the conversion, with the type and the sharp flag, which a pointer changes.\<close>

definition int_arg :: "arch \<Rightarrow> pf_spec \<Rightarrow> u32 \<Rightarrow> pf_state \<Rightarrow> (u64 \<times> u32 \<times> bool \<times> pf_state) option" where
  "int_arg A sp t s =
     (if sp_intLength sp = Length64
      then do { (x, s1) \<leftarrow> arg_long s; Some (x, t, sp_sharp sp, s1) }
      else if sp_intLength sp = Length16
      then do { (x, s1) \<leftarrow> arg_int s; Some (scast (ucast x :: u16) AND 0xFFFF, t, sp_sharp sp, s1) }
      else if t AND TypePointer \<noteq> 0
      then do { (x, s1) \<leftarrow> arg_ptr s;
                Some (if A = I386 then x AND 0xFFFFFFFF else x, TypeHexadecimal OR TypeUppercase, True, s1) }
      else do { (x, s1) \<leftarrow> arg_int s; Some (scast x AND 0xFFFFFFFF, t, sp_sharp sp, s1) })"

definition put_sign :: "bool \<Rightarrow> sign_flag \<Rightarrow> u32 \<Rightarrow> u64 \<Rightarrow> pf_state \<Rightarrow> u64 \<times> pf_state" where
  "put_sign h sign t n s =
     (if sign \<noteq> SignNone
      then let positive = (if t AND TypeNormal \<noteq> 0 then 0 \<le> sint n else True)
           in if \<not> positive then (- n, put h 0x2D s)
              else if sign = SignAlways then (n, put h 0x2B s)
              else (n, s)
      else (n, s))"

definition put_prefix :: "bool \<Rightarrow> bool \<Rightarrow> u32 \<Rightarrow> u64 \<Rightarrow> pf_state \<Rightarrow> u64 \<times> pf_state" where
  "put_prefix h sharp t n s =
     (if t AND TypeOctal \<noteq> 0 then (8, if sharp \<and> n \<noteq> 0 then put h 0x30 s else s)
      else if t AND TypeHexadecimal \<noteq> 0 then (16, if sharp then put h 0x78 (put h 0x30 s) else s)
      else (10, s))"

text \<open>
  The digits go to a buffer of 30 bytes, each before those already there.  The radix is 8, 10 or
  16; the test 1 < radix only makes the recursion well-founded for all arguments.
\<close>

definition buf_size :: nat where "buf_size = 30"

definition digit_char :: "u32 \<Rightarrow> u64 \<Rightarrow> u8" where
  "digit_char t d =
     (if d < 10 then 0x30 + ucast d
      else if t AND TypeUppercase \<noteq> 0 then 0x41 + ucast (d - 10)
      else 0x61 + ucast (d - 10))"

definition buf_push :: "u8 \<Rightarrow> nat \<Rightarrow> u8 list \<Rightarrow> u8 list option" where
  "buf_push c digits buf =
     (if digits < length buf then Some (c # take digits buf @ drop (digits + 1) buf) else None)"

lemma div_less_word: "0 < n div radix \<Longrightarrow> 1 < radix \<Longrightarrow> unat (n div radix) < unat n" for n radix :: u64
  by (simp add: word_less_nat_alt unat_div_distrib) (metis One_nat_def div_0 div_less_dividend gr0I less_irrefl)

function buf_digits :: "u32 \<Rightarrow> u64 \<Rightarrow> u64 \<Rightarrow> nat \<Rightarrow> u8 list \<Rightarrow> (nat \<times> u8 list) option" where
  "buf_digits t radix n digits buf =
     (case buf_push (digit_char t (n mod radix)) digits buf of
        None \<Rightarrow> None
      | Some buf1 \<Rightarrow>
          if 0 < n div radix \<and> 1 < radix then buf_digits t radix (n div radix) (digits + 1) buf1
          else Some (digits + 1, buf1))"
  by pat_completeness auto
termination
  by (relation "measure (\<lambda>(_, _, n, _, _). unat n)") (simp_all add: div_less_word)

definition buf_pad :: "pf_spec \<Rightarrow> nat \<Rightarrow> u8 list \<Rightarrow> u8 list option" where
  "buf_pad sp digits buf =
     (if int digits < sp_minimumWidth sp
      then let w = nat (sp_minimumWidth sp) - digits
           in if length buf < digits + w then None
              else if sp_align sp
              then Some (take digits buf @ replicate w (sp_pad sp) @ drop (digits + w) buf)
              else Some (replicate w (sp_pad sp) @ take digits buf @ drop (digits + w) buf)
      else Some buf)"

definition buf_text :: "u8 list \<Rightarrow> u8 list option" where
  "buf_text buf = (if 0 \<in> set buf then Some (takeWhile (\<lambda>c. c \<noteq> 0) buf) else None)"

definition conv_int :: "arch \<Rightarrow> bool \<Rightarrow> u8 \<Rightarrow> pf_spec \<Rightarrow> pf_state \<Rightarrow> pf_state option" where
  "conv_int A h c sp s =
     do { let t0 = main_type (sp_intType sp OR type_flags c);
          (n0, t, sharp, s1) \<leftarrow> int_arg A sp t0 s;
          let (n, s2) = put_sign h (sp_sign sp) t n0 s1;
          let (radix, s3) = put_prefix h sharp t n s2;
          (digits, buf) \<leftarrow> buf_digits t radix n 0 (replicate buf_size 0);
          buf1 \<leftarrow> buf_pad sp digits buf;
          text \<leftarrow> buf_text buf1;
          Some (put_all h text s3) }"


section \<open>The switch and the loops\<close>

definition int_convs :: "u8 list" where
  "int_convs = [0x6F, 0x70, 0x58, 0x78, 0x75, 0x64, 0x69]"

definition float_convs :: "u8 list" where
  "float_convs = [0x66, 0x46, 0x61, 0x41, 0x67, 0x47, 0x65, 0x45]"

definition long_length :: "arch \<Rightarrow> int_length \<Rightarrow> int_length" where
  "long_length A l =
     (if l = Length32 \<or> l = Length64 then Length64 else if A = X86_64 then Length64 else Length32)"

text \<open>One pass through the switch: the flag end, the local variables and the state.\<close>

definition pf_step :: "arch \<Rightarrow> bool \<Rightarrow> pf_spec \<Rightarrow> pf_state \<Rightarrow> (bool \<times> pf_spec \<times> pf_state) option" where
  "pf_step A h sp s =
     (let c = chr_at (pf_fmt s);
          continue = (\<lambda>sp1 s1. do { s2 \<leftarrow> fmt_next s1; Some (False, sp1, s2) });
          finish = (\<lambda>s1. do { s2 \<leftarrow> fmt_next s1; Some (True, sp, s2) })
      in if c = 0x6E
         then do { (p, s1) \<leftarrow> arg_int_ptr s;
                   continue sp (s1\<lparr>pf_stores := pf_stores s1 @ [(p, pf_count s1)]\<rparr>) }
         else if c = 0x2D then continue (sp\<lparr>sp_align := True\<rparr>) s
         else if c = 0x2B then continue (sp\<lparr>sp_sign := SignAlways\<rparr>) s
         else if c = 0x20 then continue (sp\<lparr>sp_sign := SignNone\<rparr>) s
         else if c = 0x30 then continue (sp\<lparr>sp_pad := 0x30\<rparr>) s
         else if c = 0x23 then continue (sp\<lparr>sp_sharp := True\<rparr>) s
         else if 0x31 \<le> c \<and> c \<le> 0x39
         then do { (n, s1) \<leftarrow> fmt_number s; Some (False, sp\<lparr>sp_minimumWidth := n\<rparr>, s1) }
         else if c = 0x2A
         then do { (x, s1) \<leftarrow> arg_int s; continue (sp\<lparr>sp_minimumWidth := sint x\<rparr>) s1 }
         else if c = 0x2E
         then do { s1 \<leftarrow> fmt_next s;
                   if chr_at (pf_fmt s1) = 0x2A
                   then do { (x, s2) \<leftarrow> arg_int s1; continue (sp\<lparr>sp_precision := sint x\<rparr>) s2 }
                   else do { d \<leftarrow> snd (isdigit (sint (chr_at (pf_fmt s1))) (pf_ls s1));
                             let s2 = s1\<lparr>pf_ls := fst (isdigit (sint (chr_at (pf_fmt s1))) (pf_ls s1))\<rparr>;
                             if d then do { (n, s3) \<leftarrow> fmt_number s2; Some (False, sp\<lparr>sp_precision := n\<rparr>, s3) }
                             else Some (False, sp\<lparr>sp_precision := 0\<rparr>, s2) } }
         else if c = 0x68 then continue (sp\<lparr>sp_intLength := Length16\<rparr>) s
         else if c = 0x6C then continue (sp\<lparr>sp_intLength := long_length A (sp_intLength sp)\<rparr>) s
         else if c = 0x4C then Some (False, sp, s)
         else if c = 0x63 then do { s1 \<leftarrow> conv_char h sp s; finish s1 }
         else if c = 0x73 then do { s1 \<leftarrow> conv_string A h sp s; finish s1 }
         else if c \<in> set int_convs then do { s1 \<leftarrow> conv_int A h c sp s; finish s1 }
         else if c \<in> set float_convs then do { s1 \<leftarrow> arg_double s; finish s1 }
         else finish s)"

partial_function (option) pf_conv :: "arch \<Rightarrow> bool \<Rightarrow> pf_spec \<Rightarrow> pf_state \<Rightarrow> pf_state option" where
  "pf_conv A h sp s =
     (case pf_step A h sp s of
        None \<Rightarrow> None
      | Some (e, sp1, s1) \<Rightarrow> if e then Some s1 else pf_conv A h sp1 s1)"

partial_function (option) pf_loop :: "arch \<Rightarrow> bool \<Rightarrow> pf_state \<Rightarrow> pf_state option" where
  "pf_loop A h s =
     (case pf_fmt s of
        [] \<Rightarrow> Some s
      | c # f \<Rightarrow>
          if c \<noteq> 0x25 then pf_loop A h (put h c (s\<lparr>pf_fmt := f\<rparr>))
          else if chr_at f = 0x25 then pf_loop A h (put h 0x25 (s\<lparr>pf_fmt := tl f\<rparr>))
          else case pf_conv A h spec0 (s\<lparr>pf_fmt := f\<rparr>) of
                 None \<Rightarrow> None
               | Some s1 \<Rightarrow> pf_loop A h s1)"

definition pf_start :: "locale_state \<Rightarrow> u8 list \<Rightarrow> va list \<Rightarrow> pf_state" where
  "pf_start ls fmt args =
     \<lparr> pf_fmt = fmt, pf_args = args, pf_out = [], pf_count = 0, pf_stores = [], pf_ls = ls \<rparr>"

definition ProcessFormatString :: "arch \<Rightarrow> bool \<Rightarrow> locale_state \<Rightarrow> u8 list \<Rightarrow> va list \<Rightarrow> pf_state option" where
  "ProcessFormatString A h ls fmt args = pf_loop A h (pf_start ls fmt args)"

declare buf_digits.simps [simp del]

end
