(* ===== verification/XEOS_LocaleProps.thy ===== *)
theory XEOS_LocaleProps
  imports XEOS_Locale
begin

text \<open>
  The states of the locale library that calls can reach, the invariant that their current locale is
  the default one, and what the character classes, toupper and atoi compute in them.
\<close>

inductive locale_reach :: "locale_state \<Rightarrow> bool" where
  boot: "locale_reach locale_boot"
| current: "locale_reach s \<Longrightarrow> locale_reach (fst (GetCurrentLocale s))"
| setlocale: "locale_reach s \<Longrightarrow> locale_reach (fst (SetLocale category name s))"

definition default_parts :: "sys_locale \<Rightarrow> bool" where
  "default_parts l \<longleftrightarrow> l = DefaultLocale\<lparr>lc_name := None\<rparr>"

definition locale_ok :: "locale_state \<Rightarrow> bool" where
  "locale_ok s \<longleftrightarrow> (if ls_inited s then default_parts (ls_current s) else ls_current s = ls_current locale_boot)"

lemma GetLocale_default [simp]: "GetLocale name = DefaultLocale"
  by (simp add: GetLocale_def GetCLocale_def GetPOSIXLocale_def GetDefaultLocale_def)

lemma GetCurrentLocale_ok: "locale_ok s \<Longrightarrow> locale_ok (fst (GetCurrentLocale s)) \<and> ls_inited (fst (GetCurrentLocale s)) \<and>
    snd (GetCurrentLocale s) = DefaultLocale\<lparr>lc_name := None\<rparr>"
  by (auto simp: GetCurrentLocale_def locale_ok_def default_parts_def GetDefaultLocale_def locale_boot_def DefaultLocale_def)

lemma SetLocale_ok: "locale_ok s \<Longrightarrow> locale_ok (fst (SetLocale category name s))"
proof -
  assume s: "locale_ok s"
  obtain s1 cur where g: "GetCurrentLocale s = (s1, cur)" by fastforce
  have "ls_inited s1" "default_parts (ls_current s1)" "cur = DefaultLocale\<lparr>lc_name := None\<rparr>"
    using GetCurrentLocale_ok [OF s] g by (simp_all add: locale_ok_def)
  then show ?thesis by (auto simp: SetLocale_def g Let_def locale_ok_def default_parts_def DefaultLocale_def)
qed

lemma reach_ok: "locale_reach s \<Longrightarrow> locale_ok s"
proof (induction rule: locale_reach.induct)
  case boot
  show ?case by (simp add: locale_ok_def locale_boot_def)
qed (simp_all add: GetCurrentLocale_ok SetLocale_ok)

lemma with_ctype_reach:
  assumes "locale_reach s"
  shows "snd (with_ctype f s) = f (Some default_ctype)" "locale_reach (fst (with_ctype f s))"
  using GetCurrentLocale_ok [OF reach_ok [OF assms]] locale_reach.current [OF assms]
  by (auto simp: with_ctype_def GetCType_def DefaultLocale_def split: prod.splits)


section \<open>Character classes\<close>

lemma table_has_all: "n = length xs \<Longrightarrow> table_has xs n c = Some (c \<in> set xs)"
  by (induction xs arbitrary: n) auto

lemma table_has_iff: "n = length xs \<Longrightarrow> c \<in> set xs \<longleftrightarrow> P \<Longrightarrow> table_has xs n c = Some P"
  by (simp add: table_has_all)

lemma range_lists:
  "[0x41, 0x42, 0x43, 0x44, 0x45, 0x46, 0x47, 0x48, 0x49, 0x4A, 0x4B, 0x4C, 0x4D, 0x4E,
    0x4F, 0x50, 0x51, 0x52, 0x53, 0x54, 0x55, 0x56, 0x57, 0x58, 0x59, 0x5A] = [0x41..(0x5A :: int)]"
  "[0x61, 0x62, 0x63, 0x64, 0x65, 0x66, 0x67, 0x68, 0x69, 0x6A, 0x6B, 0x6C, 0x6D, 0x6E,
    0x6F, 0x70, 0x71, 0x72, 0x73, 0x74, 0x75, 0x76, 0x77, 0x78, 0x79, 0x7A] = [0x61..(0x7A :: int)]"
  "[0x30, 0x31, 0x32, 0x33, 0x34, 0x35, 0x36, 0x37, 0x38, 0x39] = [0x30..(0x39 :: int)]"
  "[0x09, 0x0A, 0x0B, 0x0C, 0x0D, 0x20] = [0x09..(0x0D :: int)] @ [0x20]"
  "[0x21, 0x22, 0x23, 0x24, 0x25, 0x26, 0x27, 0x28, 0x29, 0x2A, 0x2B, 0x2C, 0x2D, 0x2E, 0x2F,
    0x3A, 0x3B, 0x3C, 0x3D, 0x3E, 0x3F, 0x40, 0x5B, 0x5C, 0x5D, 0x5E, 0x5F, 0x60, 0x7B, 0x7C, 0x7D, 0x7E] =
    [0x21..(0x2F :: int)] @ [0x3A..0x40] @ [0x5B..0x60] @ [0x7B..0x7E]"
  "[0x30, 0x31, 0x32, 0x33, 0x34, 0x35, 0x36, 0x38, 0x39,
    0x41, 0x42, 0x43, 0x44, 0x45, 0x46, 0x61, 0x62, 0x63, 0x64, 0x65, 0x66] =
    [0x30..(0x36 :: int)] @ [0x38, 0x39] @ [0x41..0x46] @ [0x61..0x66]"
  by (simp_all add: upto_rec_numeral)

lemma int_range_iff: "c \<in> int ` {0..<n} \<longleftrightarrow> 0 \<le> c \<and> c < int n"
  by (auto simp: image_iff intro!: bexI [of _ "nat c"])

lemma default_classes:
  "CType_IsUpper (Some default_ctype) c = Some (0x41 \<le> c \<and> c \<le> 0x5A)"
  "CType_IsLower (Some default_ctype) c = Some (0x61 \<le> c \<and> c \<le> 0x7A)"
  "CType_IsDigit (Some default_ctype) c = Some (0x30 \<le> c \<and> c \<le> 0x39)"
  "CType_IsSpace (Some default_ctype) c = Some (0x09 \<le> c \<and> c \<le> 0x0D \<or> c = 0x20)"
  "CType_IsPunct (Some default_ctype) c =
     Some (0x21 \<le> c \<and> c \<le> 0x2F \<or> 0x3A \<le> c \<and> c \<le> 0x40 \<or> 0x5B \<le> c \<and> c \<le> 0x60 \<or> 0x7B \<le> c \<and> c \<le> 0x7E)"
  "CType_IsXDigit (Some default_ctype) c =
     Some (0x30 \<le> c \<and> c \<le> 0x39 \<and> c \<noteq> 0x37 \<or> 0x41 \<le> c \<and> c \<le> 0x46 \<or> 0x61 \<le> c \<and> c \<le> 0x66)"
  "CType_IsControl (Some default_ctype) c = Some (0 \<le> c \<and> c < 0x20 \<or> c = 0x7F)"
  "CType_IsBlank (Some default_ctype) c = Some (c = 0x20 \<or> c = 0x09)"
  by (simp_all only: CType_IsUpper_def CType_IsLower_def CType_IsDigit_def CType_IsSpace_def CType_IsPunct_def
      CType_IsXDigit_def CType_IsControl_def CType_IsBlank_def default_ctype_def ctype.simps option.simps range_lists)
    (rule table_has_iff; auto simp: int_range_iff simp del: upto_rec_numeral)+


lemma default_unions:
  "CType_IsAlpha (Some default_ctype) c = Some (0x41 \<le> c \<and> c \<le> 0x5A \<or> 0x61 \<le> c \<and> c \<le> 0x7A)"
  "CType_IsAlphaNumeric (Some default_ctype) c =
     Some (0x30 \<le> c \<and> c \<le> 0x39 \<or> 0x41 \<le> c \<and> c \<le> 0x5A \<or> 0x61 \<le> c \<and> c \<le> 0x7A)"
  "CType_IsGraph (Some default_ctype) c = Some (0x21 \<le> c \<and> c \<le> 0x7E)"
  "CType_IsPrint (Some default_ctype) c = Some (0x20 \<le> c \<and> c \<le> 0x7E)"
proof -
  have oe: "or_else (Some P) (Some Q) = Some (P \<or> Q)" for P Q by (simp add: or_else_def)
  show a: "CType_IsAlpha (Some default_ctype) c = Some (0x41 \<le> c \<and> c \<le> 0x5A \<or> 0x61 \<le> c \<and> c \<le> 0x7A)"
    by (simp add: CType_IsAlpha_def default_classes oe)
  show n: "CType_IsAlphaNumeric (Some default_ctype) c =
      Some (0x30 \<le> c \<and> c \<le> 0x39 \<or> 0x41 \<le> c \<and> c \<le> 0x5A \<or> 0x61 \<le> c \<and> c \<le> 0x7A)"
    by (simp add: CType_IsAlphaNumeric_def default_classes oe a)
  show "CType_IsGraph (Some default_ctype) c = Some (0x21 \<le> c \<and> c \<le> 0x7E)"
    by (simp add: CType_IsGraph_def default_classes n oe) linarith
  show "CType_IsPrint (Some default_ctype) c = Some (0x20 \<le> c \<and> c \<le> 0x7E)"
    by (simp add: CType_IsPrint_def default_classes n oe) (simp add: default_ctype_def, linarith)
qed

text \<open>
  C40. In every state that calls of setlocale and of the ctype functions can reach, whatever locale
  was selected, eleven of the twelve character classes are those of the C locale for ASCII.
  isxdigit has a gap: it is false for the digit 7, which its table leaves out.
\<close>

theorem ctype_reachable:
  assumes "locale_reach s"
  shows "snd (isdigit c s) = Some (0x30 \<le> c \<and> c \<le> 0x39) \<and>
     snd (isspace c s) = Some (0x09 \<le> c \<and> c \<le> 0x0D \<or> c = 0x20) \<and>
     snd (isblank c s) = Some (c = 0x09 \<or> c = 0x20) \<and>
     snd (isupper c s) = Some (0x41 \<le> c \<and> c \<le> 0x5A) \<and>
     snd (islower c s) = Some (0x61 \<le> c \<and> c \<le> 0x7A) \<and>
     snd (isalpha c s) = Some (0x41 \<le> c \<and> c \<le> 0x5A \<or> 0x61 \<le> c \<and> c \<le> 0x7A) \<and>
     snd (isalnum c s) = Some (0x30 \<le> c \<and> c \<le> 0x39 \<or> 0x41 \<le> c \<and> c \<le> 0x5A \<or> 0x61 \<le> c \<and> c \<le> 0x7A) \<and>
     snd (isgraph c s) = Some (0x21 \<le> c \<and> c \<le> 0x7E) \<and>
     snd (isprint c s) = Some (0x20 \<le> c \<and> c \<le> 0x7E) \<and>
     snd (iscntrl c s) = Some (0 \<le> c \<and> c < 0x20 \<or> c = 0x7F) \<and>
     snd (ispunct c s) = Some (0x21 \<le> c \<and> c \<le> 0x7E \<and>
       \<not> (0x30 \<le> c \<and> c \<le> 0x39 \<or> 0x41 \<le> c \<and> c \<le> 0x5A \<or> 0x61 \<le> c \<and> c \<le> 0x7A)) \<and>
     snd (isxdigit c s) =
       Some ((0x30 \<le> c \<and> c \<le> 0x39 \<or> 0x41 \<le> c \<and> c \<le> 0x46 \<or> 0x61 \<le> c \<and> c \<le> 0x66) \<and> c \<noteq> 0x37)"
proof -
  have "(0x21 \<le> c \<and> c \<le> 0x2F \<or> 0x3A \<le> c \<and> c \<le> 0x40 \<or> 0x5B \<le> c \<and> c \<le> 0x60 \<or> 0x7B \<le> c \<and> c \<le> 0x7E) \<longleftrightarrow>
      (0x21 \<le> c \<and> c \<le> 0x7E \<and> \<not> (0x30 \<le> c \<and> c \<le> 0x39 \<or> 0x41 \<le> c \<and> c \<le> 0x5A \<or> 0x61 \<le> c \<and> c \<le> 0x7A))"
    by linarith
  moreover have "(0x30 \<le> c \<and> c \<le> 0x39 \<and> c \<noteq> 0x37 \<or> 0x41 \<le> c \<and> c \<le> 0x46 \<or> 0x61 \<le> c \<and> c \<le> 0x66) \<longleftrightarrow>
      (0x30 \<le> c \<and> c \<le> 0x39 \<or> 0x41 \<le> c \<and> c \<le> 0x46 \<or> 0x61 \<le> c \<and> c \<le> 0x66) \<and> c \<noteq> 0x37"
    by auto
  moreover have "(c = 0x20 \<or> c = 0x09) = (c = 0x09 \<or> c = 0x20)" by blast
  ultimately show ?thesis
    unfolding isdigit_def isspace_def isblank_def isupper_def islower_def isalpha_def isalnum_def isgraph_def isprint_def
      iscntrl_def ispunct_def isxdigit_def with_ctype_reach [OF assms] default_classes default_unions by simp
qed

theorem ctype_reachable_witness:
  "snd (isdigit 0x37 (fst (SetLocale LC_CTYPE ''fr_CH'' locale_boot))) = Some True \<and>
   snd (isxdigit 0x37 (fst (SetLocale LC_CTYPE ''fr_CH'' locale_boot))) = Some False"
  using ctype_reachable [OF locale_reach.setlocale [OF locale_reach.boot]] by simp


section \<open>toupper and tolower\<close>

lemma case_loop_stuck:
  assumes "0 < n" "keys \<noteq> []" "fst (keys ! 0) \<noteq> c"
  shows "case_loop keys vals n 0 c = None"
proof (cases "case_loop keys vals n 0 c")
  case (Some y)
  have "keys = keys \<and> n = n \<and> (0 :: nat) = 0 \<and> c = c \<longrightarrow> False"
  proof (rule case_loop.raw_induct [of "\<lambda>k v m i d z. k = keys \<and> m = n \<and> i = 0 \<and> d = c \<longrightarrow> False", OF _ Some])
    fix f k v m i d z
    assume IH: "\<And>k v m i d z. f k v m i d = Some z \<Longrightarrow> k = keys \<and> m = n \<and> i = 0 \<and> d = c \<longrightarrow> False"
      and step: "(if i < m then if i < length k then if fst (k ! i) = d then if i < length v then Some (snd (v ! i)) else None
          else f k v m i d else None else Some d) = Some z"
    show "k = keys \<and> m = n \<and> i = 0 \<and> d = c \<longrightarrow> False"
      using IH [of k v m i d z] step assms by auto
  qed
  then show ?thesis by simp
qed simp

lemma case_loop_first:
  "0 < n \<Longrightarrow> keys \<noteq> [] \<Longrightarrow> vals \<noteq> [] \<Longrightarrow> fst (keys ! 0) = c \<Longrightarrow> case_loop keys vals n 0 c = Some (snd (vals ! 0))"
  by (simp add: case_loop.simps)

lemma upt_26: "[0..<26::nat] = 0 # [Suc 0..<26]"
  by (rule upt_conv_Cons) simp

text \<open>
  C28. toupper and tolower return only for the first entry of their table: the loops do not advance
  their index, so that every other character makes them run forever, and toupper takes its result
  from the wrong table and leaves the letter a as it is.
\<close>

theorem toupper_returns:
  assumes "locale_reach s"
  shows "snd (toupper c s) = (if c = 0x61 then Some 0x61 else None) \<and>
     snd (tolower c s) = (if c = 0x41 then Some 0x61 else None)"
proof -
  have t: "ct_toupper default_ctype \<noteq> []" "fst (ct_toupper default_ctype ! 0) = 0x61" "0 < ct_toupper_count default_ctype"
    "ct_tolower default_ctype \<noteq> []" "ct_tolower default_ctype ! 0 = (0x41, 0x61)" "0 < ct_tolower_count default_ctype"
    by (simp_all add: default_ctype_def upt_26 del: upt_Suc)
  have "CType_ToUpper (Some default_ctype) c = (if c = 0x61 then Some 0x61 else None)"
    using t case_loop_stuck [OF t(3,1)] case_loop_first [OF t(3,1,4)] by (auto simp: CType_ToUpper_def)
  moreover have "CType_ToLower (Some default_ctype) c = (if c = 0x41 then Some 0x61 else None)"
    using t case_loop_stuck [OF t(6,4)] case_loop_first [OF t(6,4,4)] by (auto simp: CType_ToLower_def)
  ultimately show ?thesis by (simp add: toupper_def tolower_def with_ctype_reach [OF assms])
qed

theorem toupper_returns_witness: "snd (toupper 0x62 locale_boot) = None"
  using toupper_returns [OF locale_reach.boot, of "0x62"] by simp


section \<open>atoi\<close>

lemma digit_reach: "locale_reach s \<Longrightarrow> snd (isdigit c s) = Some (0x30 \<le> c \<and> c \<le> 0x39) \<and> locale_reach (fst (isdigit c s))"
  by (simp add: isdigit_def with_ctype_reach default_classes)

lemma space_reach: "locale_reach s \<Longrightarrow> snd (isspace c s) = Some (0x09 \<le> c \<and> c \<le> 0x0D \<or> c = 0x20) \<and> locale_reach (fst (isspace c s))"
  by (simp add: isspace_def with_ctype_reach default_classes)

definition is_digit :: "u8 \<Rightarrow> bool" where "is_digit x \<longleftrightarrow> 0x30 \<le> x \<and> x \<le> 0x39"
definition is_space :: "u8 \<Rightarrow> bool" where "is_space x \<longleftrightarrow> 0x09 \<le> x \<and> x \<le> 0x0D \<or> x = 0x20"
definition digit_value :: "u8 \<Rightarrow> int" where "digit_value x = uint x - 0x30"

text \<open>The value of a list of digits, the most significant first.\<close>

definition decimal :: "int \<Rightarrow> u8 list \<Rightarrow> int" where
  "decimal n ds = fold (\<lambda>d v. v * 10 + digit_value d) ds n"

lemma uint_u8: "0 \<le> uint (x :: u8) \<and> uint x < 256"
  using unsigned_less [where ?'b = 8, where ?'a = int, of x] by simp

lemma sint_u8: "sint (x :: u8) = (if x < 0x80 then uint x else uint x - 256)"
proof -
  have s: "sint x = (uint x + 128) mod 256 - 128"
    by (simp add: sint_uint signed_take_bit_eq_take_bit_shift take_bit_eq_mod)
  have "(u + 128) mod 256 = (if u < 128 then u + 128 else u - 128)" if "0 \<le> u" "u < 256" for u :: int
    using that mod_pos_pos_trivial [of "u + 128" 256] mod_add_self2 [of "u - 128" 256]
      mod_pos_pos_trivial [of "u - 128" 256] by (auto simp: not_less add.commute)
  then have m: "(uint x + 128) mod 256 = (if uint x < 128 then uint x + 128 else uint x - 128)" using uint_u8 by blast
  have l: "x < 0x80 \<longleftrightarrow> uint x < 128" by (simp add: word_less_def)
  show ?thesis unfolding s m l by simp
qed

lemma sint_digit: "0x30 \<le> sint x \<and> sint x \<le> 0x39 \<longleftrightarrow> is_digit x"
  using uint_u8 [of x] by (auto simp: sint_u8 is_digit_def word_le_def word_less_def)

lemma sint_space: "0x09 \<le> sint x \<and> sint x \<le> 0x0D \<or> sint x = 0x20 \<longleftrightarrow> is_space x"
  using uint_u8 [of x] by (auto simp: sint_u8 is_space_def word_le_def word_less_def word_uint_eq_iff)


lemma atoi_spaces_skip:
  "locale_reach ls \<Longrightarrow> list_all is_space sp \<Longrightarrow> xs = [] \<or> \<not> is_space (hd xs) \<Longrightarrow>
   \<exists>ls'. atoi_spaces ls (sp @ xs) = Some (ls', xs) \<and> locale_reach ls'"
proof (induction sp arbitrary: ls)
  case Nil
  have z: "\<not> is_space 0" by (simp add: is_space_def)
  show ?case
  proof (cases xs)
    case Nil
    then show ?thesis using space_reach [OF \<open>locale_reach ls\<close>, of 0] by simp
  next
    case (Cons x ys)
    then show ?thesis using space_reach [OF \<open>locale_reach ls\<close>, of "sint x"] \<open>xs = [] \<or> \<not> is_space (hd xs)\<close>
      by (simp add: sint_space)
  qed
next
  case (Cons x sp)
  then show ?case using space_reach [OF Cons.prems(1), of "sint x"] by (simp add: sint_space)
qed

lemma decimal_mono: "0 \<le> n \<Longrightarrow> list_all is_digit ds \<Longrightarrow> n \<le> decimal n ds"
proof (induction ds arbitrary: n)
  case (Cons d ds)
  have "0 \<le> digit_value d" using Cons.prems(2) by (simp add: is_digit_def digit_value_def word_le_def)
  then have "n * 10 + digit_value d \<le> decimal (n * 10 + digit_value d) ds" using Cons by (intro Cons.IH) simp_all
  then show ?case using \<open>0 \<le> digit_value d\<close> Cons.prems(1) by (simp add: decimal_def)
qed (simp add: decimal_def)

lemma atoi_digits_value:
  "locale_reach ls \<Longrightarrow> list_all is_digit ds \<Longrightarrow> xs = [] \<or> \<not> is_digit (hd xs) \<Longrightarrow> 0 \<le> n \<Longrightarrow>
   decimal n ds < 0x80000000 \<Longrightarrow> \<exists>ls'. atoi_digits ls (ds @ xs) n = Some (ls', decimal n ds) \<and> locale_reach ls'"
proof (induction ds arbitrary: ls n)
  case Nil
  show ?case
  proof (cases xs)
    case Nil
    then show ?thesis using digit_reach [OF \<open>locale_reach ls\<close>, of 0] by (simp add: decimal_def)
  next
    case (Cons x ys)
    then show ?thesis using digit_reach [OF \<open>locale_reach ls\<close>, of "sint x"] \<open>xs = [] \<or> \<not> is_digit (hd xs)\<close>
      by (simp add: sint_digit decimal_def)
  qed
next
  case (Cons d ds)
  let ?n = "n * 10 + digit_value d"
  have d: "is_digit d" "list_all is_digit ds" using Cons.prems(2) by simp_all
  then have v: "0 \<le> digit_value d" "sint d - 0x30 = digit_value d"
    by (auto simp: is_digit_def digit_value_def word_le_def sint_u8 word_less_def)
  have m: "?n \<le> decimal ?n ds" "decimal ?n ds < 0x80000000"
    using decimal_mono [OF _ d(2), of ?n] v(1) Cons.prems(4,5) by (simp_all add: decimal_def)
  have "\<exists>ls'. atoi_digits (fst (isdigit (sint d) ls)) (ds @ xs) ?n = Some (ls', decimal ?n ds) \<and> locale_reach ls'"
    using Cons.prems d v m digit_reach [OF Cons.prems(1)] by (intro Cons.IH) auto
  moreover have "int32 (n * 10) = Some (n * 10)" "int32 ?n = Some ?n"
    using Cons.prems(4) v(1) m by (auto simp: int32_def)
  ultimately show ?case
    using digit_reach [OF Cons.prems(1), of "sint d"] d(1) v(2) by (simp add: sint_digit decimal_def)
qed

text \<open>
  atoi skips white space and returns the value of the digits that follow, as long as it fits an
  int; the first character that is no digit ends the number.
\<close>

theorem atoi_value:
  assumes "locale_reach ls" "list_all is_space sp" "list_all is_digit ds" "xs = [] \<or> \<not> is_digit (hd xs)"
    and "ds = [] \<longrightarrow> xs = [] \<or> \<not> is_space (hd xs)" "decimal 0 ds < 0x80000000"
  shows "\<exists>ls'. atoi ls (sp @ ds @ xs) = Some (ls', decimal 0 ds) \<and> locale_reach ls'"
proof -
  have "ds @ xs = [] \<or> \<not> is_space (hd (ds @ xs))"
    using assms(3,5) by (cases ds) (auto simp: is_digit_def is_space_def word_le_def word_uint_eq_iff)
  then obtain ls1 where "atoi_spaces ls (sp @ ds @ xs) = Some (ls1, ds @ xs)" "locale_reach ls1"
    using atoi_spaces_skip [OF assms(1,2)] by blast
  then show ?thesis using atoi_digits_value [OF _ assms(3,4) _ assms(6)] by (auto simp: atoi_def)
qed

theorem atoi_value_witness: "\<exists>ls'. atoi locale_boot [0x20, 0x34, 0x32, 0x78] = Some (ls', 42)"
  using atoi_value [OF locale_reach.boot, of "[0x20]" "[0x34, 0x32]" "[0x78]"]
  by (auto simp: is_space_def is_digit_def decimal_def digit_value_def)

end
