(* ===== verification/XEOS_PrintfProps.thy ===== *)
theory XEOS_PrintfProps
  imports XEOS_Printf XEOS_LocaleProps
begin

text \<open>
  What the formatter prints: positional numerals in the buffer, padding and its limit, and the
  behaviour of the loops over the format.
\<close>

section \<open>Numerals\<close>

definition digit_nat :: "u32 \<Rightarrow> nat \<Rightarrow> u8" where
  "digit_nat t d = digit_char t (of_nat d)"

fun numeral_of :: "u32 \<Rightarrow> nat \<Rightarrow> nat \<Rightarrow> u8 list" where
  "numeral_of t r n = (if n < r \<or> r < 2 then [digit_nat t n] else numeral_of t r (n div r) @ [digit_nat t (n mod r)])"

declare numeral_of.simps [simp del]

lemma numeral_length: "n < r ^ Suc k \<Longrightarrow> 2 \<le> r \<Longrightarrow> length (numeral_of t r n) \<le> Suc k"
proof (induction k arbitrary: n)
  case 0
  then show ?case by (simp add: numeral_of.simps)
next
  case (Suc k)
  show ?case
  proof (cases "n < r")
    case True then show ?thesis by (simp add: numeral_of.simps)
  next
    case False
    have "n div r < r ^ Suc k" using Suc.prems by (simp add: div_less_iff_less_mult mult.commute)
    then have "length (numeral_of t r (n div r)) \<le> Suc k" using Suc by blast
    then show ?thesis using False Suc.prems(2) by (subst numeral_of.simps) simp
  qed
qed

lemma numeral_of_nonempty: "numeral_of t r n \<noteq> []"
  by (subst numeral_of.simps) simp

lemma numeral_length_64: "8 \<le> r \<Longrightarrow> length (numeral_of t r (unat (n :: u64))) \<le> 22"
proof -
  assume r: "8 \<le> r"
  have "unat n < 8 ^ Suc 21" using unat_u64 [of n] by simp
  also have "8 ^ Suc 21 \<le> r ^ Suc 21" using r by (intro power_mono) auto
  finally show ?thesis using r numeral_length [of "unat n" r 21 t] by simp
qed

lemma buf_digits_numeral:
  assumes "2 \<le> unat radix"
  shows "length ds = digits \<Longrightarrow> digits + length (numeral_of t (unat radix) (unat n)) \<le> k \<Longrightarrow>
     buf_digits t radix n digits (ds @ replicate (k - digits) 0) =
       Some (digits + length (numeral_of t (unat radix) (unat n)),
             numeral_of t (unat radix) (unat n) @ ds @
               replicate (k - (digits + length (numeral_of t (unat radix) (unat n)))) 0)"
proof (induction "unat n" arbitrary: n ds digits rule: less_induct)
  case less
  let ?r = "unat radix" and ?c = "digit_char t (n mod radix)"
  have c: "?c = digit_nat t (unat n mod ?r)"
    by (simp add: digit_nat_def flip: unat_mod_distrib)
  have l: "0 < length (numeral_of t ?r (unat n))" using numeral_of_nonempty by blast
  then have "digits < k" using less.prems by linarith
  then have push: "buf_push ?c digits (ds @ replicate (k - digits) 0) = Some (?c # ds @ replicate (k - Suc digits) 0)"
    using less.prems by (simp add: buf_push_def)
  show ?case
  proof (cases "unat n < ?r")
    case True
    then have "n div radix = 0" by (simp add: word_unat_eq_iff unat_div_distrib)
    then show ?thesis using True push c by (subst buf_digits.simps) (simp add: numeral_of.simps [of t ?r "unat n"])
  next
    case False
    then have num: "numeral_of t ?r (unat n) = numeral_of t ?r (unat n div ?r) @ [?c]"
      using assms c by (subst numeral_of.simps) simp
    have d: "0 < n div radix \<and> 1 < radix"
      using False assms by (simp add: word_less_nat_alt unat_div_distrib div_greater_zero_iff)
    then have "unat (n div radix) < unat n" by (intro div_less_word) auto
    moreover have u: "unat (n div radix) = unat n div ?r" by (simp add: unat_div_distrib)
    ultimately have "buf_digits t radix (n div radix) (Suc digits) ((?c # ds) @ replicate (k - Suc digits) 0) =
       Some (Suc digits + length (numeral_of t ?r (unat n div ?r)),
             numeral_of t ?r (unat n div ?r) @ (?c # ds) @
               replicate (k - (Suc digits + length (numeral_of t ?r (unat n div ?r)))) 0)"
      using less.hyps [of "n div radix" "?c # ds" "Suc digits"] less.prems num by simp
    then show ?thesis using d push num by (subst buf_digits.simps) simp
  qed
qed

lemma digit_char_nonzero: "d < 16 \<Longrightarrow> digit_nat t d \<noteq> 0"
proof -
  assume "d < 16"
  then have "d \<in> {0, 1, 2, 3, 4, 5, 6, 7, 8, 9, 10, 11, 12, 13, 14, 15}"
    unfolding insert_iff empty_iff by presburger
  then show ?thesis by (auto simp: digit_nat_def digit_char_def)
qed

lemma numeral_nonzero: "2 \<le> r \<Longrightarrow> r \<le> 16 \<Longrightarrow> 0 \<notin> set (numeral_of t r n)"
proof (induction t r n rule: numeral_of.induct)
  case (1 t r n)
  show ?case
  proof (cases "n < r")
    case True
    then show ?thesis using 1 digit_char_nonzero [of n t] by (subst numeral_of.simps) simp
  next
    case False
    have "n mod r < r" using 1 by (intro mod_less_divisor) simp
    then have "n mod r < 16" using 1 by linarith
    then show ?thesis using 1 False digit_char_nonzero [of "n mod r" t] by (subst numeral_of.simps) simp
  qed
qed


section \<open>Padding\<close>

definition pad_to :: "pf_spec \<Rightarrow> u8 list \<Rightarrow> u8 list" where
  "pad_to sp ds =
     (let w = replicate (nat (sp_minimumWidth sp) - length ds) (sp_pad sp)
      in if sp_align sp then ds @ w else w @ ds)"

lemma takeWhile_zeros: "0 \<notin> set ds \<Longrightarrow> 0 < k \<Longrightarrow> buf_text (ds @ replicate k 0) = Some ds"
proof -
  assume z: "0 \<notin> set ds" and k: "0 < k"
  have "takeWhile (\<lambda>c. c \<noteq> 0) (ds @ replicate k 0) = ds @ takeWhile (\<lambda>c. c \<noteq> 0) (replicate k 0)"
    using z by (intro takeWhile_append2) auto
  then show ?thesis using k by (cases k) (simp_all add: buf_text_def)
qed

lemma buf_text_full: "0 \<notin> set ds \<Longrightarrow> buf_text ds = None"
  by (simp add: buf_text_def)

lemma buf_pad_text:
  assumes "0 \<notin> set ds" "length ds < 30" "sp_pad sp \<noteq> 0"
  shows "do { b \<leftarrow> buf_pad sp (length ds) (ds @ replicate (30 - length ds) 0); buf_text b } =
     (if sp_minimumWidth sp < 30 then Some (pad_to sp ds) else None)"
proof (cases "int (length ds) < sp_minimumWidth sp")
  case False
  then show ?thesis using assms takeWhile_zeros [of ds "30 - length ds"] by (simp add: buf_pad_def pad_to_def)
next
  case True
  define w where "w = nat (sp_minimumWidth sp) - length ds"
  have w: "length ds + w = nat (sp_minimumWidth sp)" using True by (simp add: w_def)
  show ?thesis
  proof (cases "sp_minimumWidth sp \<le> 30")
    case False
    then have "30 < length ds + w" using w by simp
    then show ?thesis using True False assms(2) by (simp add: buf_pad_def flip: w_def)
  next
    case t30: True
    have l: "length ds + w \<le> 30" using w t30 by simp
    have "buf_pad sp (length ds) (ds @ replicate (30 - length ds) 0) = Some (pad_to sp ds @ replicate (30 - (length ds + w)) 0)"
      using True l assms(2) by (simp add: buf_pad_def pad_to_def flip: w_def)
    moreover have "0 \<notin> set (pad_to sp ds)" using assms(1,3) by (auto simp: pad_to_def Let_def split: if_splits)
    moreover have "30 - (length ds + w) = 0 \<longleftrightarrow> \<not> sp_minimumWidth sp < 30" using l w t30 True by linarith
    ultimately show ?thesis
      using takeWhile_zeros [of "pad_to sp ds" "30 - (length ds + w)"] buf_text_full [of "pad_to sp ds"] by auto
  qed
qed

lemma bind_pad: "do { b \<leftarrow> p; x \<leftarrow> q b; Some (f x) } = map_option f (do { b \<leftarrow> p; q b })"
  by (cases p) (auto split: bind_splits)

lemma put_prefix_radix: "fst (put_prefix h sharp t n s) \<in> {8, 10, 16}"
  by (simp add: put_prefix_def)

text \<open>An integer conversion prints the sign, the prefix and the padded numeral, if it is narrow enough.\<close>

lemma conv_int_text:
  assumes "sp_pad sp \<noteq> 0"
    and "int_arg A sp (main_type (sp_intType sp OR type_flags c)) s = Some (n0, t, sharp, s1)"
    and "put_sign h (sp_sign sp) t n0 s1 = (n, s2)" "put_prefix h sharp t n s2 = (radix, s3)"
  shows "conv_int A h c sp s =
     (if sp_minimumWidth sp < 30 then Some (put_all h (pad_to sp (numeral_of t (unat radix) (unat n))) s3) else None)"
proof -
  have r: "8 \<le> unat radix" "unat radix \<le> 16"
    using put_prefix_radix [of h sharp t n s2] assms(4) by auto
  let ?ds = "numeral_of t (unat radix) (unat n)"
  have l: "length ?ds \<le> 22" using r by (intro numeral_length_64)
  have z: "0 \<notin> set ?ds" using r by (intro numeral_nonzero) auto
  have "buf_digits t radix n 0 (replicate buf_size 0) = Some (length ?ds, ?ds @ replicate (30 - length ?ds) 0)"
    using buf_digits_numeral [of radix "[]" 0 t n 30] r l by (simp add: buf_size_def)
  then have "conv_int A h c sp s = do { b \<leftarrow> buf_pad sp (length ?ds) (?ds @ replicate (30 - length ?ds) 0);
      text \<leftarrow> buf_text b; Some (put_all h text s3) }"
    using assms(2-4) by (simp add: conv_int_def Let_def)
  then show ?thesis using buf_pad_text [OF z _ assms(1)] l by (simp add: bind_pad)
qed


section \<open>The loops\<close>

lemma put_all_eq:
  "put_all h cs s = s\<lparr>pf_out := (if h then pf_out s @ cs else pf_out s), pf_count := pf_count s + int (length cs)\<rparr>"
  by (induction cs arbitrary: s) (simp_all add: put_all_def put_def)

lemma put_eq: "put h c s = put_all h [c] s"
  by (simp add: put_all_def)

lemma put_all_append: "put_all h ds (put_all h cs s) = put_all h (cs @ ds) s"
  by (simp add: put_all_def)

lemma pf_loop_plain:
  "list_all (\<lambda>c. c \<noteq> 0x25) pre \<Longrightarrow> pf_loop A h (s\<lparr>pf_fmt := pre @ rest\<rparr>) = pf_loop A h (put_all h pre (s\<lparr>pf_fmt := rest\<rparr>))"
proof (induction pre arbitrary: s)
  case Nil
  then show ?case by (simp add: put_all_def)
next
  case (Cons c pre)
  have 1: "put h c (s\<lparr>pf_fmt := pre @ rest\<rparr>) = (put h c s)\<lparr>pf_fmt := pre @ rest\<rparr>"
    "(put h c s)\<lparr>pf_fmt := rest\<rparr> = put h c (s\<lparr>pf_fmt := rest\<rparr>)"
    by (cases s; simp add: put_def)+
  have "pf_loop A h (s\<lparr>pf_fmt := (c # pre) @ rest\<rparr>) = pf_loop A h (put h c (s\<lparr>pf_fmt := pre @ rest\<rparr>))"
    using Cons.prems by (subst pf_loop.simps) simp
  also have "\<dots> = pf_loop A h (put_all h pre (put h c (s\<lparr>pf_fmt := rest\<rparr>)))"
    unfolding 1(1) using Cons by (simp add: 1(2))
  finally show ?case by (simp add: put_all_def)
qed

lemma pf_loop_end: "pf_fmt s = [] \<Longrightarrow> pf_loop A h s = Some s"
  by (simp add: pf_loop.simps)

lemma pf_loop_conv:
  "chr_at f \<noteq> 0x25 \<Longrightarrow> pf_fmt s = 0x25 # f \<Longrightarrow>
   pf_loop A h s = (case pf_conv A h spec0 (s\<lparr>pf_fmt := f\<rparr>) of None \<Rightarrow> None | Some s1 \<Rightarrow> pf_loop A h s1)"
  by (subst pf_loop.simps) simp

lemma pf_conv_end: "pf_step A h sp s = Some (True, sp1, s1) \<Longrightarrow> pf_conv A h sp s = Some s1"
  by (simp add: pf_conv.simps)

lemma pf_conv_string:
  assumes "pf_fmt s = 0x73 # f" "pf_args s = VaStr (Some str) # args" "sp_minimumWidth sp = 0"
  shows "pf_conv A True sp s = Some (put_all True str (s\<lparr>pf_fmt := f, pf_args := args\<rparr>))"
proof (rule pf_conv_end)
  have "conv_string A True sp s = Some (put_all True str (s\<lparr>pf_args := args\<rparr>))"
    using assms by (simp add: conv_string_def put_all_def)
  then show "pf_step A True sp s = Some (True, sp, put_all True str (s\<lparr>pf_fmt := f, pf_args := args\<rparr>))"
    using assms(1) by (cases s) (simp add: pf_step_def chr_at_def fmt_next_def put_all_eq)
qed

lemma conv_int_fmt:
  assumes "conv_int A h c sp s = Some s'"
  shows "pf_fmt s' = pf_fmt s"
proof -
  obtain n0 t sharp s1 ds where i: "int_arg A sp (main_type (sp_intType sp OR type_flags c)) s = Some (n0, t, sharp, s1)"
    and s': "s' = put_all h ds (snd (put_prefix h sharp t (fst (put_sign h (sp_sign sp) t n0 s1))
        (snd (put_sign h (sp_sign sp) t n0 s1))))"
    using assms by (auto simp: conv_int_def Let_def bind_eq_Some_conv case_prod_beta)
  have "pf_fmt s1 = pf_fmt s"
    using i by (auto simp: int_arg_def bind_eq_Some_conv split: if_splits list.splits va.splits)
  moreover have "pf_fmt (snd (put_sign h g t n s2)) = pf_fmt s2" for g n s2 by (simp add: put_sign_def put_def)
  moreover have "pf_fmt (snd (put_prefix h sharp t n s2)) = pf_fmt s2" for n s2 by (simp add: put_prefix_def put_def)
  ultimately show ?thesis by (simp add: s' put_all_eq)
qed

lemma pf_conv_int:
  assumes "c \<in> set int_convs" "pf_fmt s = c # f"
  shows "pf_conv A h sp s = map_option (\<lambda>s1. s1\<lparr>pf_fmt := f\<rparr>) (conv_int A h c sp s)"
proof -
  have st: "pf_step A h sp s = do { s1 \<leftarrow> conv_int A h c sp s; s2 \<leftarrow> fmt_next s1; Some (True, sp, s2) }"
    using assms by (auto simp: pf_step_def chr_at_def int_convs_def Let_def)
  show ?thesis
  proof (cases "conv_int A h c sp s")
    case None
    then show ?thesis using st by (simp add: pf_conv.simps)
  next
    case (Some s1)
    then show ?thesis using st conv_int_fmt [OF Some] assms(2) by (simp add: pf_conv.simps fmt_next_def)
  qed
qed


section \<open>Properties\<close>

text \<open>The state after plain output.\<close>

lemma pf_start_plain: "put_all h pre (pf_start ls rest args) = (pf_start ls rest args)\<lparr>pf_out := (if h then pre else []), pf_count := int (length pre)\<rparr>"
  by (simp add: put_all_eq pf_start_def)

lemma pf_start_fmt: "pf_start ls fmt args = (pf_start ls [] args)\<lparr>pf_fmt := fmt\<rparr>"
  by (simp add: pf_start_def)

text \<open>
  Text outside of conversions and the argument of a string conversion are printed as they are,
  in order, and the result is the number of characters.
\<close>

theorem printf_text:
  assumes "list_all (\<lambda>c. c \<noteq> 0x25) pre" "list_all (\<lambda>c. c \<noteq> 0x25) post"
  shows "\<exists>s. ProcessFormatString A True ls (pre @ 0x25 # 0x73 # post) (VaStr (Some str) # args) = Some s \<and>
     pf_out s = pre @ str @ post \<and> pf_count s = int (length (pre @ str @ post)) \<and> pf_args s = args"
proof -
  let ?args = "VaStr (Some str) # args"
  define s1 where "s1 = (pf_start ls (0x25 # 0x73 # post) ?args)\<lparr>pf_out := pre, pf_count := int (length pre)\<rparr>"
  define s2 where "s2 = s1\<lparr>pf_out := pre @ str, pf_count := int (length (pre @ str)), pf_args := args\<rparr>"
  have "ProcessFormatString A True ls (pre @ 0x25 # 0x73 # post) ?args = pf_loop A True s1"
    using pf_loop_plain [OF assms(1), of A True "0x25 # 0x73 # post" "pf_start ls [] ?args"]
    by (simp add: ProcessFormatString_def s1_def pf_start_def put_all_eq)
  also have "\<dots> = pf_loop A True (s2\<lparr>pf_fmt := post @ []\<rparr>)"
    using pf_conv_string [of "s1\<lparr>pf_fmt := 0x73 # post\<rparr>" post str args spec0 A]
    by (simp add: pf_loop_conv [of "0x73 # post"] s1_def s2_def pf_start_def chr_at_def spec0_def put_all_eq)
  also have "\<dots> = Some (put_all True post (s2\<lparr>pf_fmt := []\<rparr>))"
    using pf_loop_plain [OF assms(2), of A True "[]" s2] by (simp add: pf_loop_end put_all_eq)
  finally show ?thesis by (auto simp: s2_def s1_def put_all_eq)
qed

theorem printf_text_witness:
  "\<exists>s. ProcessFormatString X86_64 True locale_boot [0x61, 0x25, 0x73] [VaStr (Some [0x62, 0x63])] = Some s \<and>
     pf_out s = [0x61, 0x62, 0x63]"
  using printf_text [of "[0x61]" "[]" X86_64 locale_boot "[0x62, 0x63]" "[]"] by auto

text \<open>The decimal conversions of an int, with their width.\<close>

lemma decimal_int_arg:
  assumes "c \<in> {0x64, 0x69, 0x75}" "pf_args s = VaInt x # args" "sp_intLength sp = LengthNormal" "sp_intType sp = 0"
    "sp_sign sp = SignNormal"
  shows "\<exists>t. int_arg A sp (main_type (sp_intType sp OR type_flags c)) s = Some (ucast x, t, sp_sharp sp, s\<lparr>pf_args := args\<rparr>) \<and>
     put_sign h (sp_sign sp) t n s' = (n, s') \<and> put_prefix h b t n s' = (10, s') \<and> t AND TypeUppercase = 0"
proof -
  have "(scast x :: u64) AND 0xFFFFFFFF = ucast x"
  proof (rule bit_word_eqI)
    fix n :: nat assume "n < LENGTH(64)"
    then show "bit ((scast x :: u64) AND 0xFFFFFFFF) n = bit (ucast x :: u64) n"
      using bit_imp_le_length [of x n] by (cases "n < 32") (auto simp: bit_simps mask32_eq min_absorb2)
  qed
  moreover have "type_flags c = 0 \<or> type_flags c = TypeUnsigned" using assms(1) by (auto simp: type_flags_def Let_def)
  ultimately show ?thesis using assms(2-5)
    by (auto simp: main_type_def int_arg_def put_sign_def put_prefix_def int_types)
qed

lemma digit_nat_decimal: "d < 10 \<Longrightarrow> digit_nat t d = 0x30 + of_nat d"
proof -
  assume d: "d < 10"
  then have "d \<in> {0, 1, 2, 3, 4, 5, 6, 7, 8, 9}" unfolding insert_iff empty_iff by presburger
  then show ?thesis by (auto simp: digit_nat_def digit_char_def)
qed

lemma numeral_of_10: "numeral_of t 10 n = numeral_of 0 10 n"
  by (induction n rule: less_induct) (subst (1 2) numeral_of.simps, simp add: digit_nat_decimal)


lemma numeral_digits: "list_all is_digit (numeral_of 0 10 n)"
proof (induction n rule: less_induct)
  case (less n)
  have dg: "d < 10 \<Longrightarrow> is_digit (0x30 + of_nat d)" for d :: nat
  proof -
    assume "d < 10"
    then have "d \<in> {0, 1, 2, 3, 4, 5, 6, 7, 8, 9}" unfolding insert_iff empty_iff by presburger
    then show ?thesis by (auto simp: is_digit_def)
  qed
  show ?case
  proof (cases "n < 10")
    case True then show ?thesis by (simp add: numeral_of.simps digit_nat_decimal dg)
  next
    case False
    then show ?thesis using less [of "n div 10"]
      by (subst numeral_of.simps) (simp add: digit_nat_decimal dg)
  qed
qed

lemma numeral_decimal: "decimal 0 (numeral_of 0 10 n) = int n"
proof (induction n rule: less_induct)
  case (less n)
  have dv: "d < 10 \<Longrightarrow> digit_value (0x30 + of_nat d) = int d" for d :: nat
  proof -
    assume "d < 10"
    then have "d \<in> {0, 1, 2, 3, 4, 5, 6, 7, 8, 9}" unfolding insert_iff empty_iff by presburger
    then show ?thesis by (auto simp: digit_value_def)
  qed
  show ?case
  proof (cases "n < 10")
    case True then show ?thesis by (simp add: numeral_of.simps digit_nat_decimal dv decimal_def)
  next
    case False
    then have "decimal 0 (numeral_of 0 10 n) = decimal 0 (numeral_of 0 10 (n div 10)) * 10 + int (n mod 10)"
      by (subst numeral_of.simps) (simp add: digit_nat_decimal dv decimal_def)
    also have "\<dots> = int (n div 10) * 10 + int (n mod 10)" using less [of "n div 10"] False by simp
    also have "\<dots> = int (n div 10 * 10 + n mod 10)" by (simp only: of_nat_add of_nat_mult of_nat_numeral)
    also have "\<dots> = int n" by (simp only: div_mult_mod_eq)
    finally show ?thesis .
  qed
qed

lemma conv_int_decimal:
  assumes "c \<in> {0x64, 0x69, 0x75}" "pf_args s = VaInt x # args" "sp_intLength sp = LengthNormal" "sp_intType sp = 0"
    "sp_sign sp = SignNormal" "sp_pad sp \<noteq> 0"
  shows "conv_int A h c sp s =
     (if sp_minimumWidth sp < 30
      then Some (put_all h (pad_to sp (numeral_of 0 10 (unat x))) (s\<lparr>pf_args := args\<rparr>)) else None)"
proof -
  obtain t where t: "int_arg A sp (main_type (sp_intType sp OR type_flags c)) s = Some (ucast x, t, sp_sharp sp, s\<lparr>pf_args := args\<rparr>)"
    "put_sign h (sp_sign sp) t (ucast x) (s\<lparr>pf_args := args\<rparr>) = (ucast x, s\<lparr>pf_args := args\<rparr>)"
    "put_prefix h (sp_sharp sp) t (ucast x) (s\<lparr>pf_args := args\<rparr>) = (10, s\<lparr>pf_args := args\<rparr>)"
    using decimal_int_arg [OF assms(1-5)] by metis
  have "unat (ucast x :: u64) = unat x"
    using unat_u32 [of x] by (simp add: unsigned_ucast_eq take_bit_eq_mod)
  then show ?thesis using conv_int_text [OF assms(6) t] by (simp add: numeral_of_10 [of t])
qed

lemma printf_decimal:
  assumes "c \<in> {0x64, 0x69, 0x75}"
  shows "ProcessFormatString A True ls [0x25, c] [VaInt x] = Some (put_all True (numeral_of 0 10 (unat x)) (pf_start ls [] []))"
proof -
  let ?s = "(pf_start ls [c] [VaInt x]) :: pf_state"
  have c: "c \<noteq> 0x25" "c \<in> set int_convs" using assms by (auto simp: int_convs_def)
  have "conv_int A True c spec0 ?s = Some (put_all True (numeral_of 0 10 (unat x)) (?s\<lparr>pf_args := []\<rparr>))"
    using conv_int_decimal [OF assms, of ?s x "[]" spec0 A True]
    by (simp add: pf_start_def spec0_def pad_to_def TypeNormal_def)
  then have "pf_conv A True spec0 ?s = Some (put_all True (numeral_of 0 10 (unat x)) (pf_start ls [] []))"
    using pf_conv_int [OF c(2), of ?s "[]" A True spec0] by (simp add: pf_start_def put_all_eq)
  then show ?thesis
    using pf_loop_conv [of "[c]" "pf_start ls [0x25, c] [VaInt x]" A True] c(1)
    by (simp add: ProcessFormatString_def pf_start_def put_all_eq pf_loop_end chr_at_def)
qed

text \<open>
  C35. A decimal conversion of an int and atoi are inverse: what a conversion prints for a number
  below 2 to the power of 31 is read back as this number.
\<close>

theorem printf_atoi:
  assumes "locale_reach ls" "c \<in> {0x64, 0x69, 0x75}" "x < 0x80000000"
  shows "\<exists>s ls'. ProcessFormatString A True ls [0x25, c] [VaInt x] = Some s \<and>
     pf_count s = int (length (pf_out s)) \<and> atoi ls (pf_out s) = Some (ls', uint x)"
proof -
  note printf_decimal [OF assms(2), of A ls x]
  moreover have "uint x < 0x80000000" using assms(3) by (simp add: word_less_def)
  then have "\<exists>ls'. atoi ls ([] @ numeral_of 0 10 (unat x) @ []) = Some (ls', decimal 0 (numeral_of 0 10 (unat x))) \<and> locale_reach ls'"
    using numeral_of_nonempty by (intro atoi_value [OF assms(1)]) (simp_all add: numeral_digits numeral_decimal)
  ultimately show ?thesis by (auto simp: put_all_eq pf_start_def numeral_decimal)
qed

theorem printf_atoi_witness:
  "\<exists>s ls'. ProcessFormatString I386 True locale_boot [0x25, 0x64] [VaInt 42] = Some s \<and>
     atoi locale_boot (pf_out s) = Some (ls', 42)"
  using printf_atoi [OF locale_reach.boot, of "0x64" 42 I386] by fastforce

text \<open>
  The sign of an int is lost: for a negative argument a decimal conversion prints the numeral
  of the argument plus 2 to the power of 32, without a minus sign.
\<close>

theorem printf_negative:
  assumes "c \<in> {0x64, 0x69}" "sint x < 0"
  shows "\<exists>s. ProcessFormatString A True ls [0x25, c] [VaInt x] = Some s \<and> 0x2D \<notin> set (pf_out s) \<and>
     decimal 0 (pf_out s) = sint x + 0x100000000"
proof -
  have "c \<in> {0x64, 0x69, 0x75}" using assms(1) by auto
  note printf_decimal [OF this, of A ls x]
  moreover have "0x2D \<notin> set (numeral_of 0 10 (unat x))"
    using numeral_digits [of "unat x"] by (auto simp: list_all_iff is_digit_def)
  moreover have "int (unat x) = sint x + 0x100000000"
  proof -
    have "sint x = (uint x + 0x80000000) mod 0x100000000 - 0x80000000"
      by (simp add: sint_uint signed_take_bit_eq_take_bit_shift take_bit_eq_mod)
    moreover have "0 \<le> uint x" "uint x < 0x100000000"
      using unsigned_less [where ?'b = 32, where ?'a = int, of x] by simp_all
    ultimately show ?thesis
      using assms(2) mod_pos_pos_trivial [of "uint x + 0x80000000" "0x100000000"]
        mod_pos_pos_trivial [of "uint x - 0x80000000" "0x100000000"] mod_add_self2 [of "uint x - 0x80000000" "0x100000000"]
      by (cases "uint x < 0x80000000") (auto simp: add.commute)
  qed
  ultimately show ?thesis by (auto simp: put_all_eq pf_start_def numeral_decimal)
qed

theorem printf_negative_witness:
  "\<exists>s. ProcessFormatString X86_64 True locale_boot [0x25, 0x64] [VaInt (- 1)] = Some s \<and> decimal 0 (pf_out s) = 0xFFFFFFFF"
  using printf_negative [of "0x64" "- 1" X86_64 locale_boot] by auto


text \<open>
  The width of an integer conversion is limited by the buffer of 30 bytes: with a width below
  30 the numeral is printed, padded on the left to the width; with a width of 30 or more the
  formatter leaves the buffer, which is undefined.
\<close>

theorem printf_width:
  assumes "c \<in> {0x64, 0x69, 0x75}" "ds = numeral_of 0 10 (unat x)"
  shows "ProcessFormatString A True ls [0x25, 0x2A, c] [VaInt w, VaInt x] =
     (if sint w < 30
      then Some (put_all True (replicate (nat (sint w) - length ds) 0x20 @ ds) (pf_start ls [] []))
      else None)"
proof -
  let ?s = "pf_start ls [0x2A, c] [VaInt w, VaInt x]" and ?t = "pf_start ls [c] [VaInt x]"
  let ?sp = "spec0\<lparr>sp_minimumWidth := sint w\<rparr>"
  have c: "c \<in> set int_convs" using assms(1) by (auto simp: int_convs_def)
  have "pf_step A True spec0 ?s = Some (False, ?sp, ?t)"
    by (simp add: pf_step_def pf_start_def chr_at_def fmt_next_def)
  then have 1: "pf_conv A True spec0 ?s = pf_conv A True ?sp ?t"
    by (subst pf_conv.simps) simp
  have 2: "pf_conv A True ?sp ?t = (if sint w < 30
      then Some (put_all True (replicate (nat (sint w) - length ds) 0x20 @ ds) (pf_start ls [] [])) else None)"
    using pf_conv_int [OF c, of ?t "[]" A True ?sp] conv_int_decimal [OF assms(1), of ?t x "[]" ?sp A True]
    by (simp add: pf_start_def spec0_def pad_to_def TypeNormal_def put_all_eq assms(2))
  have "ProcessFormatString A True ls [0x25, 0x2A, c] [VaInt w, VaInt x] =
      (case pf_conv A True spec0 ?s of None \<Rightarrow> None | Some s1 \<Rightarrow> pf_loop A True s1)"
    using pf_loop_conv [of "[0x2A, c]" "pf_start ls [0x25, 0x2A, c] [VaInt w, VaInt x]" A True]
    by (simp add: ProcessFormatString_def pf_start_def chr_at_def)
  then show ?thesis by (simp only: 1 2) (simp add: pf_loop_end put_all_eq pf_start_def)
qed

theorem printf_width_witness:
  "ProcessFormatString X86_64 True locale_boot [0x25, 0x2A, 0x64] [VaInt 30, VaInt 7] = None"
  using printf_width [of "0x64" _ 7 X86_64 locale_boot 30] by simp

lemma pf_conv_L: "chr_at (pf_fmt s) = 0x4C \<Longrightarrow> pf_conv A h sp s = None"
proof (cases "pf_conv A h sp s")
  case (Some y)
  have "chr_at (pf_fmt s) = 0x4C \<longrightarrow> False"
  proof (rule pf_conv.raw_induct [of "\<lambda>A h sp s y. chr_at (pf_fmt s) = 0x4C \<longrightarrow> False", OF _ Some])
    fix f A' h' sp' s' y'
    assume IH: "\<And>A h sp s y. f A h sp s = Some y \<Longrightarrow> chr_at (pf_fmt s) = 0x4C \<longrightarrow> False"
      and st: "(case pf_step A' h' sp' s' of None \<Rightarrow> None | Some (e, sp1, s1) \<Rightarrow> if e then Some s1 else f A' h' sp1 s1) = Some y'"
    show "chr_at (pf_fmt s') = 0x4C \<longrightarrow> False"
    proof
      assume c: "chr_at (pf_fmt s') = 0x4C"
      then have "pf_step A' h' sp' s' = Some (False, sp', s')" by (simp add: pf_step_def)
      then show False using st IH [of A' h' sp' s' y'] c by simp
    qed
  qed
  then show "chr_at (pf_fmt s) = 0x4C \<Longrightarrow> ?thesis" by simp
qed simp

text \<open>
  Two formats have no result: the length modifier L is never passed, so that the loop of the
  conversion runs forever, and a percent sign at the end of the format makes the formatter read
  behind the terminator.
\<close>

theorem printf_no_result:
  assumes "list_all (\<lambda>c. c \<noteq> 0x25) pre"
  shows "ProcessFormatString A h ls (pre @ 0x25 # 0x4C # rest) args = None \<and>
     ProcessFormatString A h ls (pre @ [0x25]) args = None"
proof -
  have "ProcessFormatString A h ls (pre @ 0x25 # f) args =
      pf_loop A h (put_all h pre (pf_start ls (0x25 # f) args))" for f
    using pf_loop_plain [OF assms, of A h "0x25 # f" "pf_start ls [] args"]
    by (simp add: ProcessFormatString_def pf_start_def put_all_eq)
  moreover have "pf_loop A h (put_all h pre (pf_start ls (0x25 # 0x4C # rest) args)) = None"
    using pf_loop_conv [of "0x4C # rest" "put_all h pre (pf_start ls (0x25 # 0x4C # rest) args)" A h]
    by (simp add: pf_start_def put_all_eq chr_at_def pf_conv_L)
  moreover have "pf_loop A h (put_all h pre (pf_start ls [0x25] args)) = None"
    using pf_loop_conv [of "[]" "put_all h pre (pf_start ls [0x25] args)" A h]
    by (simp add: pf_start_def put_all_eq chr_at_def pf_conv.simps pf_step_def int_convs_def float_convs_def fmt_next_def)
  ultimately show ?thesis by simp
qed

theorem printf_no_result_witness:
  "ProcessFormatString X86_64 True locale_boot [0x61, 0x25, 0x4C, 0x64] [VaInt 1] = None"
  using printf_no_result [of "[0x61]" X86_64 True locale_boot "[0x64]" "[VaInt 1]"] by simp



section \<open>The count\<close>

text \<open>The count less the number of characters given to the handler.\<close>

definition surplus :: "pf_state \<Rightarrow> int" where
  "surplus s = pf_count s - int (length (pf_out s))"

lemma put_all_surplus [simp]: "surplus (put_all True cs s) = surplus s"
  by (simp add: surplus_def put_all_eq)

lemma put_surplus [simp]: "surplus (put True c s) = surplus s"
  by (simp add: put_eq)

lemma update_surplus [simp]:
  "surplus (s\<lparr>pf_fmt := f\<rparr>) = surplus s" "surplus (s\<lparr>pf_args := as\<rparr>) = surplus s"
  "surplus (s\<lparr>pf_stores := st\<rparr>) = surplus s" "surplus (s\<lparr>pf_ls := ls\<rparr>) = surplus s"
  by (simp_all add: surplus_def)

lemma arg_surplus:
  "arg_int s = Some (x, s1) \<Longrightarrow> surplus s1 = surplus s"
  "arg_long s = Some (y, s1) \<Longrightarrow> surplus s1 = surplus s"
  "arg_ptr s = Some (y, s1) \<Longrightarrow> surplus s1 = surplus s"
  "arg_str s = Some (p, s1) \<Longrightarrow> surplus s1 = surplus s"
  "arg_int_ptr s = Some (k, s1) \<Longrightarrow> surplus s1 = surplus s"
  "arg_double s = Some s1 \<Longrightarrow> surplus s1 = surplus s"
  by (auto split: list.splits va.splits)

lemma fmt_surplus:
  "fmt_next s = Some s1 \<Longrightarrow> surplus s1 = surplus s"
  "fmt_number s = Some (n, s1) \<Longrightarrow> surplus s1 = surplus s"
  by (auto simp: fmt_next_def fmt_number_def bind_eq_Some_conv)

lemma conv_char_surplus: "conv_char True sp s = Some s1 \<Longrightarrow> surplus s1 = surplus s"
  by (auto simp: conv_char_def bind_eq_Some_conv Let_def dest!: arg_surplus simp del: arg_int.simps)

lemma conv_string_surplus: "conv_string A True sp s = Some s1 \<Longrightarrow> surplus s1 = surplus s"
  by (auto simp: conv_string_def bind_eq_Some_conv Let_def dest!: arg_surplus simp del: arg_str.simps)

lemma conv_int_surplus: "conv_int A True c sp s = Some s' \<Longrightarrow> surplus s' = surplus s"
proof -
  assume a: "conv_int A True c sp s = Some s'"
  obtain n0 t sharp s1 ds where i: "int_arg A sp (main_type (sp_intType sp OR type_flags c)) s = Some (n0, t, sharp, s1)"
    and s': "s' = put_all True ds (snd (put_prefix True sharp t (fst (put_sign True (sp_sign sp) t n0 s1))
        (snd (put_sign True (sp_sign sp) t n0 s1))))"
    using a by (auto simp: conv_int_def Let_def bind_eq_Some_conv case_prod_beta)
  have "surplus s1 = surplus s"
    using i by (auto simp: int_arg_def bind_eq_Some_conv simp del: arg_int.simps arg_long.simps arg_ptr.simps
        dest!: arg_surplus split: if_splits)
  moreover have "surplus (snd (put_sign True g t n s2)) = surplus s2" for g n s2 by (simp add: put_sign_def)
  moreover have "surplus (snd (put_prefix True sharp t n s2)) = surplus s2" for n s2 by (simp add: put_prefix_def)
  ultimately show ?thesis by (simp add: s')
qed

lemmas step_surplus = conv_char_surplus conv_string_surplus conv_int_surplus fmt_surplus arg_surplus

lemma pf_step_surplus: "pf_step A True sp s = Some (e, sp1, s1) \<Longrightarrow> surplus s1 = surplus s"
  unfolding pf_step_def Let_def
  by (auto simp: bind_eq_Some_conv simp del: arg_int.simps arg_int_ptr.simps arg_double.simps
      dest!: step_surplus split: if_split_asm)

lemma pf_conv_surplus: "pf_conv A True sp s = Some s' \<Longrightarrow> surplus s' = surplus s"
proof -
  assume "pf_conv A True sp s = Some s'"
  then have "True \<longrightarrow> surplus s' = surplus s"
  proof (rule pf_conv.raw_induct [of "\<lambda>A h sp s y. h \<longrightarrow> surplus y = surplus s", rotated])
    fix f A h sp s y
    assume IH: "\<And>A h sp s y. f A h sp s = Some y \<Longrightarrow> h \<longrightarrow> surplus y = surplus s"
      and st: "(case pf_step A h sp s of None \<Rightarrow> None | Some (e, sp1, s1) \<Rightarrow> if e then Some s1 else f A h sp1 s1) = Some y"
    show "h \<longrightarrow> surplus y = surplus s"
    proof
      assume h: h
      from st obtain e sp1 s1 where p: "pf_step A h sp s = Some (e, sp1, s1)" by (auto split: option.splits)
      then have "surplus s1 = surplus s" using h pf_step_surplus by simp
      moreover have "if e then y = s1 else f A h sp1 s1 = Some y" using st p by (auto split: if_splits)
      ultimately show "surplus y = surplus s" using IH [of A h sp1 s1 y] h by (cases e) simp_all
    qed
  qed
  then show ?thesis by simp
qed

lemma pf_loop_surplus: "pf_loop A True s = Some s' \<Longrightarrow> surplus s' = surplus s"
proof -
  assume "pf_loop A True s = Some s'"
  then have "True \<longrightarrow> surplus s' = surplus s"
  proof (rule pf_loop.raw_induct [of "\<lambda>A h s y. h \<longrightarrow> surplus y = surplus s", rotated])
    fix f A h s y
    assume IH: "\<And>A h s y. f A h s = Some y \<Longrightarrow> h \<longrightarrow> surplus y = surplus s"
      and st: "(case pf_fmt s of [] \<Rightarrow> Some s | c # g \<Rightarrow>
          if c \<noteq> 0x25 then f A h (put h c (s\<lparr>pf_fmt := g\<rparr>))
          else if chr_at g = 0x25 then f A h (put h 0x25 (s\<lparr>pf_fmt := tl g\<rparr>))
          else case pf_conv A h spec0 (s\<lparr>pf_fmt := g\<rparr>) of None \<Rightarrow> None | Some s1 \<Rightarrow> f A h s1) = Some y"
    show "h \<longrightarrow> surplus y = surplus s"
    proof
      assume h: h
      show "surplus y = surplus s"
      proof (cases "pf_fmt s")
        case Nil then show ?thesis using st by simp
      next
        case (Cons c g)
        then consider "f A h (put h c (s\<lparr>pf_fmt := g\<rparr>)) = Some y" | "f A h (put h 0x25 (s\<lparr>pf_fmt := tl g\<rparr>)) = Some y"
          | s1 where "pf_conv A h spec0 (s\<lparr>pf_fmt := g\<rparr>) = Some s1" "f A h s1 = Some y"
          using st by (auto split: if_splits option.splits)
        then show ?thesis
        proof cases
          case 1 then show ?thesis using IH h by fastforce
        next
          case 2 then show ?thesis using IH h by fastforce
        next
          case 3 then show ?thesis using IH h pf_conv_surplus by fastforce
        qed
      qed
    qed
  qed
  then show ?thesis by simp
qed

text \<open>
  Whenever the formatter returns, its result is the number of characters it has given to the
  handler, for every format and every list of arguments.
\<close>

theorem printf_count:
  assumes "ProcessFormatString A True ls fmt args = Some s"
  shows "pf_count s = int (length (pf_out s))"
  using pf_loop_surplus [of A "pf_start ls fmt args" s] assms
  by (simp add: ProcessFormatString_def surplus_def pf_start_def)

theorem printf_count_witness:
  "\<exists>s. ProcessFormatString X86_64 True locale_boot [0x25, 0x75] [VaInt 10] = Some s \<and> pf_count s = int (length (pf_out s))"
proof -
  have "ProcessFormatString X86_64 True locale_boot [0x25, 0x75] [VaInt 10] =
      Some (put_all True (numeral_of 0 10 (unat (10 :: u32))) (pf_start locale_boot [] []))"
    by (rule printf_decimal) simp
  from this and printf_count [OF this] show ?thesis by blast
qed

end
