(* ===== verification/XEOS_IO.thy ===== *)
theory XEOS_IO
  imports XEOS_Bytes
begin

text \<open>
  Port accesses and the interrupt flag (source/core/xeos/hal/io and the interrupt operations of
  source/core/xeos/hal/cpu).

  The state of a computation that drives hardware is the trace of what it did and the interrupt
  flag of the processor; the records of the drivers extend it.  The hardware is a parameter: a
  device gives the value of a port after a trace of accesses.  The waits of the source are two
  jumps without effect.
\<close>

datatype io_event = PortRead u16 u8 | PortWrite u16 u8 | IntDisable | IntEnable | CpuHalt

type_synonym device = "io_event list \<Rightarrow> u16 \<Rightarrow> u8"

record io =
  io_trace :: "io_event list"
  io_if :: bool

definition IO_PortIn :: "device \<Rightarrow> u16 \<Rightarrow> 'a io_scheme \<Rightarrow> u8 \<times> 'a io_scheme" where
  "IO_PortIn dev port s =
     (dev (io_trace s) port, s\<lparr>io_trace := io_trace s @ [PortRead port (dev (io_trace s) port)]\<rparr>)"

definition IO_PortOut :: "u16 \<Rightarrow> u8 \<Rightarrow> 'a io_scheme \<Rightarrow> 'a io_scheme" where
  "IO_PortOut port value s = s\<lparr>io_trace := io_trace s @ [PortWrite port value]\<rparr>"

definition IO_Wait :: "'a io_scheme \<Rightarrow> 'a io_scheme" where
  "IO_Wait s = s"

definition CPU_InterruptsEnabled :: "'a io_scheme \<Rightarrow> bool" where
  "CPU_InterruptsEnabled s = io_if s"

definition CPU_DisableInterrupts :: "'a io_scheme \<Rightarrow> 'a io_scheme" where
  "CPU_DisableInterrupts s = s\<lparr>io_trace := io_trace s @ [IntDisable], io_if := False\<rparr>"

definition CPU_EnableInterrupts :: "'a io_scheme \<Rightarrow> 'a io_scheme" where
  "CPU_EnableInterrupts s = s\<lparr>io_trace := io_trace s @ [IntEnable], io_if := True\<rparr>"

text \<open>The processor halts with interrupts disabled, so that only a non-maskable one goes on.\<close>

definition CPU_Halt :: "'a io_scheme \<Rightarrow> 'a io_scheme" where
  "CPU_Halt s = (let s1 = CPU_DisableInterrupts s in s1\<lparr>io_trace := io_trace s1 @ [CpuHalt]\<rparr>)"

lemmas [io_simps] = IO_PortIn_def IO_PortOut_def IO_Wait_def CPU_InterruptsEnabled_def
  CPU_DisableInterrupts_def CPU_EnableInterrupts_def CPU_Halt_def

text \<open>The accesses of a trace that write a given set of ports.\<close>

fun port_writes :: "io_event list \<Rightarrow> (u16 \<times> u8) list" where
  "port_writes [] = []"
| "port_writes (PortWrite p v # t) = (p, v) # port_writes t"
| "port_writes (_ # t) = port_writes t"

lemma port_writes_append [simp]: "port_writes (t @ u) = port_writes t @ port_writes u"
  by (induction t rule: port_writes.induct) simp_all


section \<open>Registers behind an address port and a data port\<close>

text \<open>
  Several devices hold their registers behind two ports: a write to the address port selects a
  register by some bits of the value, a write to the data port stores to the selected one.  The
  function gives the selected index and the registers after a trace.
\<close>

fun indexed_regs :: "u16 \<Rightarrow> u16 \<Rightarrow> u8 \<Rightarrow> u8 \<times> (u8 \<Rightarrow> u8) \<Rightarrow> io_event list \<Rightarrow> u8 \<times> (u8 \<Rightarrow> u8)" where
  "indexed_regs pa pd bits r [] = r"
| "indexed_regs pa pd bits r (PortWrite p v # t) =
     indexed_regs pa pd bits
       (if p = pa then (v AND bits, snd r) else if p = pd then (fst r, (snd r)(fst r := v)) else r) t"
| "indexed_regs pa pd bits r (_ # t) = indexed_regs pa pd bits r t"

lemma indexed_regs_append [simp]:
  "indexed_regs pa pd bits r (t @ u) = indexed_regs pa pd bits (indexed_regs pa pd bits r t) u"
  by (induction t arbitrary: r rule: port_writes.induct) simp_all

end
