(* ===== verification/XEOS_Video.thy ===== *)
theory XEOS_Video
  imports XEOS_IO XEOS_Printf
begin

text \<open>
  The text console (source/core/xeos/video): the variables of __XEOS_Video.c, the video memory and
  the operations of the console in the order the code has them.

  Addresses are the unsigned values of pointers: the video memory starts at VIDEO_MEM, and the
  offsets added to it are computed in 32 bits as in the code.  A string argument is the list of its
  characters before the terminator.
\<close>

definition VIDEO_MEM :: nat where "VIDEO_MEM = 0xB8000"
definition VIDEO_COLS :: nat where "VIDEO_COLS = 80"
definition VIDEO_ROWS :: nat where "VIDEO_ROWS = 25"

lemmas video_consts = VIDEO_MEM_def VIDEO_COLS_def VIDEO_ROWS_def

datatype Video_Color = ColorBlack | ColorBlue | ColorGreen | ColorCyan | ColorRed | ColorMagenta | ColorBrown
  | ColorGrayLight | ColorGray | ColorBlueLight | ColorGreenLight | ColorCyanLight | ColorRedLight
  | ColorMagentaLight | ColorBrownLight | ColorWhite

fun color_value :: "Video_Color \<Rightarrow> u8" where
  "color_value ColorBlack = 0x00" | "color_value ColorBlue = 0x01"
| "color_value ColorGreen = 0x02" | "color_value ColorCyan = 0x03"
| "color_value ColorRed = 0x04" | "color_value ColorMagenta = 0x05"
| "color_value ColorBrown = 0x06" | "color_value ColorGrayLight = 0x07"
| "color_value ColorGray = 0x08" | "color_value ColorBlueLight = 0x09"
| "color_value ColorGreenLight = 0x0A" | "color_value ColorCyanLight = 0x0B"
| "color_value ColorRedLight = 0x0C" | "color_value ColorMagentaLight = 0x0D"
| "color_value ColorBrownLight = 0x0E" | "color_value ColorWhite = 0x0F"

record video = io +
  vid_mem :: bytes
  vid_attr :: u8
  vid_x :: u32
  vid_y :: u32
  vid_sticky :: u32

text \<open>The console as the loader leaves it: the initial values of the variables.\<close>

definition video_boot :: "bytes \<Rightarrow> video" where
  "video_boot m = \<lparr> io_trace = [], io_if = False, vid_mem = m,
     vid_attr = push_bit 4 (color_value ColorBlack) OR color_value ColorWhite,
     vid_x = 0, vid_y = 0, vid_sticky = 0 \<rparr>"

definition PromptPart1 :: "u8 list" where "PromptPart1 = [0x5B, 0x20]"
definition PromptPart2 :: "u8 list" where "PromptPart2 = [0x58, 0x45, 0x4F, 0x53]"
definition PromptPart3 :: "u8 list" where "PromptPart3 = [0x20, 0x5D, 0x3E, 0x20]"


section \<open>Cursor and colors\<close>

definition Video_X :: "'a video_scheme \<Rightarrow> u32" where "Video_X v = vid_x v"
definition Video_Y :: "'a video_scheme \<Rightarrow> u32" where "Video_Y v = vid_y v"

definition CRTC_RegisterData :: u16 where "CRTC_RegisterData = 0x03D4"
definition CRTC_RegisterAddress :: u16 where "CRTC_RegisterAddress = 0x03D5"
definition CRTC_CursorLocationHigh :: u8 where "CRTC_CursorLocationHigh = 0x0E"
definition CRTC_CursorLocationLow :: u8 where "CRTC_CursorLocationLow = 0x0F"

lemmas crtc_consts = CRTC_RegisterData_def CRTC_RegisterAddress_def
  CRTC_CursorLocationHigh_def CRTC_CursorLocationLow_def

definition MoveCursor :: "u32 \<Rightarrow> u32 \<Rightarrow> 'a video_scheme \<Rightarrow> 'a video_scheme" where
  "MoveCursor x y v =
     (let v1 = v\<lparr>vid_x := x, vid_y := y\<rparr>;
          x1 = (if x < of_nat (VIDEO_COLS - 1) then x else of_nat (VIDEO_COLS - 1));
          y1 = (if y < of_nat (VIDEO_ROWS - 1) then y else of_nat (VIDEO_ROWS - 1));
          pos = (ucast (x1 + y1 * of_nat VIDEO_COLS) :: u16);
          posH = (ucast (drop_bit 8 pos) :: u8);
          posL = (ucast (pos AND 0x00FF) :: u8)
      in IO_PortOut CRTC_RegisterAddress posL (IO_PortOut CRTC_RegisterData CRTC_CursorLocationLow
           (IO_PortOut CRTC_RegisterAddress posH (IO_PortOut CRTC_RegisterData CRTC_CursorLocationHigh v1))))"

definition Video_SetBG :: "Video_Color \<Rightarrow> 'a video_scheme \<Rightarrow> 'a video_scheme" where
  "Video_SetBG c v = v\<lparr>vid_attr := (vid_attr v AND 0x0F) OR push_bit 4 (color_value c)\<rparr>"

definition Video_SetFG :: "Video_Color \<Rightarrow> 'a video_scheme \<Rightarrow> 'a video_scheme" where
  "Video_SetFG c v = v\<lparr>vid_attr := (vid_attr v AND 0xF0) OR color_value c\<rparr>"

definition SetStickyLines :: "u32 \<Rightarrow> 'a video_scheme \<Rightarrow> 'a video_scheme" where
  "SetStickyLines lines v = (if lines < of_nat VIDEO_ROWS then v\<lparr>vid_sticky := lines\<rparr> else v)"


section \<open>Clearing and scrolling\<close>

primrec clear_cells :: "u16 \<Rightarrow> nat \<Rightarrow> nat \<Rightarrow> bytes \<Rightarrow> bytes" where
  "clear_cells value i 0 m = m"
| "clear_cells value i (Suc k) m = clear_cells value (i + 1) k (wr16 m (VIDEO_MEM + 2 * i) value)"

definition Video_Clear :: "'a video_scheme \<Rightarrow> 'a video_scheme" where
  "Video_Clear v =
     (let value = push_bit 8 (scast (vid_attr v)) OR 0x20;
          v1 = v\<lparr>vid_mem := clear_cells value 0 (VIDEO_COLS * VIDEO_ROWS) (vid_mem v)\<rparr>
      in if Video_X v1 \<noteq> 0 \<or> Video_Y v1 \<noteq> 0 then MoveCursor 0 0 v1 else v1)"

text \<open>
  The loops of Scroll: over the characters from i below the end e, in steps of two, and over the
  bytes that move up by d.
\<close>

function blank_loop :: "u8 \<Rightarrow> nat \<Rightarrow> nat \<Rightarrow> nat \<Rightarrow> bytes \<Rightarrow> bytes" where
  "blank_loop attr mem i e m =
     (if i < e then blank_loop attr mem (i + 2) e (m(mem + i := 0x20, mem + i + 1 := attr)) else m)"
  by pat_completeness auto
termination by (relation "measure (\<lambda>(_, _, i, e, _). e - i)") auto

function move_loop :: "nat \<Rightarrow> nat \<Rightarrow> nat \<Rightarrow> nat \<Rightarrow> bytes \<Rightarrow> bytes" where
  "move_loop mem d i e m =
     (if i < e then move_loop mem d (i + 1) e (m(mem + i := m (mem + i + d))) else m)"
  by pat_completeness auto
termination by (relation "measure (\<lambda>(_, _, i, e, _). e - i)") auto

declare blank_loop.simps [simp del] move_loop.simps [simp del]

definition Scroll :: "u32 \<Rightarrow> 'a video_scheme \<Rightarrow> 'a video_scheme" where
  "Scroll n v =
     (let offset = unat (vid_sticky v * of_nat VIDEO_COLS * 2)
      in if of_nat VIDEO_ROWS \<le> n
         then if vid_sticky v = 0 then Video_Clear v
              else MoveCursor 0 (vid_sticky v)
                     (v\<lparr>vid_mem := blank_loop (vid_attr v) VIDEO_MEM offset (VIDEO_COLS * VIDEO_ROWS * 2) (vid_mem v)\<rparr>)
         else let mem = VIDEO_MEM + offset;
                  moved = VIDEO_COLS * (VIDEO_ROWS - unat n) * 2;
                  m1 = move_loop mem (VIDEO_COLS * 2 * unat n) 0 moved (vid_mem v)
              in v\<lparr>vid_mem := blank_loop (vid_attr v) (mem + moved) 0 (VIDEO_COLS * 2 * unat n) m1\<rparr>)"


section \<open>Printing\<close>

definition Putc :: "u8 \<Rightarrow> bool \<Rightarrow> 'a video_scheme \<Rightarrow> 'a video_scheme" where
  "Putc c updateCursor v =
     (if c = 0 then v
      else
        let v1 = (if vid_x v = of_nat VIDEO_COLS then v\<lparr>vid_x := 0, vid_y := vid_y v + 1\<rparr> else v);
            v2 = (if vid_y v1 = of_nat (VIDEO_ROWS - 1)
                  then let s = Scroll 1 v1 in s\<lparr>vid_y := vid_y s - 1\<rparr> else v1);
            v3 = (if c = 0x0A then v2\<lparr>vid_y := vid_y v2 + 1, vid_x := 0\<rparr>
                  else let mem = VIDEO_MEM + unat (2 * (vid_x v2 + vid_y v2 * of_nat VIDEO_COLS))
                       in v2\<lparr>vid_mem := (vid_mem v2)(mem := c, mem + 1 := vid_attr v2), vid_x := vid_x v2 + 1\<rparr>)
        in if updateCursor then MoveCursor (vid_x v3) (vid_y v3) v3 else v3)"

fun print_loop :: "u8 list \<Rightarrow> int \<Rightarrow> 'a video_scheme \<Rightarrow> int \<times> 'a video_scheme" where
  "print_loop [] n v = (n, v)"
| "print_loop (c # s) n v = (if c = 0 then (n, v) else print_loop s (n + 1) (Putc c False v))"

definition Print :: "u8 list \<Rightarrow> 'a video_scheme \<Rightarrow> int \<times> 'a video_scheme" where
  "Print s v =
     (let (n, v1) = print_loop s 0 v; x = Video_X v1; y = Video_Y v1 in (n, MoveCursor x y v1))"

definition GetPromptLength :: int where
  "GetPromptLength = int (length PromptPart1) + int (length PromptPart2) + int (length PromptPart3)"

definition PrintPrompt :: "'a video_scheme \<Rightarrow> int \<times> 'a video_scheme" where
  "PrintPrompt v =
     (let v1 = (if Video_X v \<noteq> 0 then snd (Print [0x0A] v) else v);
          v2 = snd (Print PromptPart1 (Video_SetFG ColorWhite v1));
          v3 = snd (Print PromptPart2 (Video_SetFG ColorCyanLight v2));
          v4 = snd (Print PromptPart3 (Video_SetFG ColorWhite v3))
      in (GetPromptLength, v4))"

definition Prompt :: "u8 list \<Rightarrow> 'a video_scheme \<Rightarrow> int \<times> 'a video_scheme" where
  "Prompt s v =
     (let (c, v1) = PrintPrompt v; (d, v2) = Print s v1; (e, v3) = Print [0x0A] v2
      in (c + d + e, v3))"

text \<open>
  The formatter calls the handler for each character it produces; it does not look at the console,
  so the characters can be given to the handler after it has returned.  Besides the number of
  characters and the console the result has the final state of the formatter, with the stores of
  the conversion n and the locale.
\<close>

definition CharacterHandler :: "u8 \<Rightarrow> 'a video_scheme \<Rightarrow> 'a video_scheme" where
  "CharacterHandler c v = Putc c False v"

definition VPrintf :: "arch \<Rightarrow> u8 list \<Rightarrow> va list \<Rightarrow> locale_state \<Rightarrow> 'a video_scheme
    \<Rightarrow> (int \<times> pf_state \<times> 'a video_scheme) option" where
  "VPrintf A format ap ls v =
     do { p \<leftarrow> ProcessFormatString A True ls format ap;
          let v1 = fold CharacterHandler (pf_out p) v;
          let x = Video_X v1;
          let y = Video_Y v1;
          Some (pf_count p, p, MoveCursor x y v1) }"

definition Printf :: "arch \<Rightarrow> u8 list \<Rightarrow> va list \<Rightarrow> locale_state \<Rightarrow> 'a video_scheme
    \<Rightarrow> (int \<times> pf_state \<times> 'a video_scheme) option" where
  "Printf A format args ls v = VPrintf A format args ls v"

definition Promptf :: "arch \<Rightarrow> u8 list \<Rightarrow> va list \<Rightarrow> locale_state \<Rightarrow> 'a video_scheme
    \<Rightarrow> (int \<times> pf_state \<times> 'a video_scheme) option" where
  "Promptf A format args ls v =
     do { let (c, v1) = PrintPrompt v;
          (d, p, v2) \<leftarrow> VPrintf A format args ls v1;
          let (e, v3) = Print [0x0A] v2;
          Some (c + d + e, p, v3) }"

end
