(* ===== verification/XEOS_VideoProps.thy ===== *)
theory XEOS_VideoProps
  imports XEOS_Video
begin

text \<open>
  Properties of the console: what the loops over the video memory do to a byte, scrolling in terms
  of the character cells of the screen, the cursor of the CRT controller, and the invariant of all
  states that the operations reach while no line is sticky: the cursor stays on the screen, and
  nothing outside of the screen is written.
\<close>

section \<open>The loops over the video memory\<close>

lemma wr16_lo: "wr16 m a v a = ucast v"
  by (simp add: wr16_def numeral_2_eq_2 of_nat_unat)

lemma wr16_hi: "wr16 m a v (a + 1) = ucast (drop_bit 8 v)"
proof -
  have "unat v div 256 = unat (drop_bit 8 v)" by (simp add: drop_bit_eq_div unat_div_distrib)
  moreover have "wr16 m a v (a + 1) = of_nat (unat v div 256)" by (simp add: wr16_def numeral_2_eq_2)
  ultimately show ?thesis by (simp only: of_nat_unat)
qed

lemma clear_cells_at:
  "clear_cells value i k m b =
     (if VIDEO_MEM + 2 * i \<le> b \<and> b < VIDEO_MEM + 2 * (i + k)
      then if even (b - VIDEO_MEM) then ucast value else ucast (drop_bit 8 value) else m b)"
proof (induction k arbitrary: i m)
  case (Suc k)
  show ?case
  proof (cases "b = VIDEO_MEM + 2 * i \<or> b = VIDEO_MEM + 2 * i + 1")
    case True
    then show ?thesis using wr16_lo wr16_hi [of m "VIDEO_MEM + 2 * i"] by (auto simp: Suc.IH)
  next
    case False
    then have "wr16 m (VIDEO_MEM + 2 * i) value b = m b"
      unfolding wr16_def by (intro wr_le_frame) auto
    then show ?thesis using False by (auto simp: Suc.IH)
  qed
qed auto

lemma blank_loop_at:
  "even (e - i) \<Longrightarrow> i \<le> e \<Longrightarrow> blank_loop attr mem i e m b =
     (if mem + i \<le> b \<and> b < mem + e then if even (b - mem - i) then 0x20 else attr else m b)"
proof (induction attr mem i e m rule: blank_loop.induct)
  case (1 attr mem i e m)
  show ?case
  proof (cases "i < e")
    case True
    with 1(2) have e: "i + 2 \<le> e" "even (e - (i + 2))" by presburger+
    note IH = 1(1) [OF True e(2,1)]
    consider "b < mem + i" | "b = mem + i" | "b = mem + i + 1" | k where "b = mem + i + 2 + k"
      by (metis One_nat_def add_2_eq_Suc' add.right_neutral add_Suc_right le_Suc_ex less_Suc_eq linorder_not_le)
    then show ?thesis
      using e(1) unfolding trans [OF fun_cong [OF trans [OF blank_loop.simps if_P [OF True]]] IH] by cases auto
  next
    case False
    then show ?thesis by (subst blank_loop.simps) auto
  qed
qed

lemma move_loop_at:
  "move_loop mem d i e m b = (if mem + i \<le> b \<and> b < mem + e then m (b + d) else m b)"
proof (induction mem d i e m rule: move_loop.induct)
  case (1 mem d i e m)
  show ?case
  proof (cases "i < e")
    case True
    show ?thesis
      using True unfolding trans [OF fun_cong [OF trans [OF move_loop.simps if_P [OF True]]] 1 [OF True]]
      by (cases "b < mem + i"; cases "b = mem + i") auto
  next
    case False
    then show ?thesis by (subst move_loop.simps) auto
  qed
qed


section \<open>Scrolling\<close>

text \<open>The character cell in row r and column c; rows from 25 on lie behind the screen.\<close>

definition cell_addr :: "nat \<Rightarrow> nat \<Rightarrow> nat" where
  "cell_addr r c = VIDEO_MEM + 2 * (VIDEO_COLS * r + c)"

definition vid_cell :: "'a video_scheme \<Rightarrow> nat \<Rightarrow> nat \<Rightarrow> u8 \<times> u8" where
  "vid_cell v r c = (vid_mem v (cell_addr r c), vid_mem v (cell_addr r c + 1))"

definition on_screen :: "nat \<Rightarrow> bool" where
  "on_screen a \<longleftrightarrow> VIDEO_MEM \<le> a \<and> a < VIDEO_MEM + 2 * (VIDEO_COLS * VIDEO_ROWS)"

lemma sticky_offset: "unat s < 25 \<Longrightarrow> unat (s * of_nat VIDEO_COLS * 2 :: u32) = 160 * unat s"
  by (simp add: video_consts unat_word_ariths)

lemma small_Scroll:
  assumes "unat n < 25" "unat (vid_sticky v) < 25"
  shows "vid_mem (Scroll n v) b =
    (let B = VIDEO_MEM + 160 * unat (vid_sticky v); k = 160 * unat n
     in if B \<le> b \<and> b < B + (4000 - k) then vid_mem v (b + k)
        else if B \<le> b \<and> b < B + 4000 then if even b then 0x20 else vid_attr v
        else vid_mem v b)"
proof -
  have n: "\<not> of_nat VIDEO_ROWS \<le> n"
    using assms(1) by (simp add: video_consts word_le_nat_alt)
  have k: "VIDEO_COLS * (VIDEO_ROWS - unat n) * 2 = 4000 - 160 * unat n"
    "VIDEO_COLS * 2 * unat n = 160 * unat n" "even (160 * unat n - 0)"
    by (simp_all add: video_consts algebra_simps)
  have le: "160 * unat n \<le> 4000" using assms(1) by simp
  show ?thesis
    unfolding Scroll_def Let_def if_not_P [OF n] sticky_offset [OF assms(2)] k(1,2)
    using le by (auto simp: blank_loop_at [OF k(3)] move_loop_at video_consts)
qed

lemma Scroll_at:
  assumes "unat n < 25" "unat (vid_sticky v) < 25" "e < 160"
  shows "vid_mem (Scroll n v) (VIDEO_MEM + 160 * r + e) =
    (let s = unat (vid_sticky v)
     in if r < s \<or> s + 25 \<le> r then vid_mem v (VIDEO_MEM + 160 * r + e)
        else if r + unat n < s + 25 then vid_mem v (VIDEO_MEM + 160 * (r + unat n) + e)
        else if even e then 0x20 else vid_attr v)"
proof -
  define s k where "s = unat (vid_sticky v)" and "k = unat n"
  have k: "k < 25" using assms(1) by (simp add: k_def)
  have iffs: "VIDEO_MEM + 160 * s \<le> VIDEO_MEM + 160 * r + e \<longleftrightarrow> s \<le> r"
    "VIDEO_MEM + 160 * r + e < VIDEO_MEM + 160 * s + (4000 - 160 * k) \<longleftrightarrow> r + k < s + 25"
    "VIDEO_MEM + 160 * r + e < VIDEO_MEM + 160 * s + 4000 \<longleftrightarrow> r < s + 25"
    "even (VIDEO_MEM + 160 * r + e) \<longleftrightarrow> even e"
    "VIDEO_MEM + 160 * r + e + 160 * k = VIDEO_MEM + 160 * (r + k) + e"
    using assms(3) k by (simp_all add: video_consts; linarith)+
  show ?thesis
    unfolding small_Scroll [OF assms(1,2)] Let_def s_def [symmetric] k_def [symmetric] iffs by auto
qed

lemma Scroll_keeps [simp]:
  "unat n < 25 \<Longrightarrow> vid_x (Scroll n v) = vid_x v"
  "unat n < 25 \<Longrightarrow> vid_y (Scroll n v) = vid_y v"
  "unat n < 25 \<Longrightarrow> io_trace (Scroll n v) = io_trace v"
  "vid_attr (Scroll n v) = vid_attr v" "vid_sticky (Scroll n v) = vid_sticky v"
  by (auto simp: Scroll_def Let_def video_consts word_le_nat_alt Video_Clear_def MoveCursor_def io_simps)


section \<open>The cursor stays on the screen\<close>

lemma MoveCursor_keeps [simp]:
  "vid_x (MoveCursor x y v) = x" "vid_y (MoveCursor x y v) = y" "vid_mem (MoveCursor x y v) = vid_mem v"
  "vid_attr (MoveCursor x y v) = vid_attr v" "vid_sticky (MoveCursor x y v) = vid_sticky v"
  by (simp_all add: MoveCursor_def io_simps Let_def)

definition video_ok :: "bytes \<Rightarrow> 'a video_scheme \<Rightarrow> bool" where
  "video_ok m v \<longleftrightarrow> vid_sticky v = 0 \<and> unat (vid_x v) \<le> VIDEO_COLS \<and> unat (vid_y v) < VIDEO_ROWS \<and>
     (unat (vid_y v) = VIDEO_ROWS - 1 \<longrightarrow> unat (vid_x v) < VIDEO_COLS) \<and>
     (\<forall>a. \<not> on_screen a \<longrightarrow> vid_mem v a = m a)"

lemma Clear_keeps [simp]:
  "\<not> on_screen a \<Longrightarrow> vid_mem (Video_Clear v) a = vid_mem v a"
  "vid_sticky (Video_Clear v) = vid_sticky v" "vid_attr (Video_Clear v) = vid_attr v"
  "vid_x (Video_Clear v) = 0" "vid_y (Video_Clear v) = 0"
  by (auto simp: Video_Clear_def Let_def clear_cells_at on_screen_def Video_X_def Video_Y_def)

lemma Clear_ok: "video_ok m v \<Longrightarrow> video_ok m (Video_Clear v)"
  by (simp add: video_ok_def video_consts)

lemma Scroll_frame:
  "vid_sticky v = 0 \<Longrightarrow> \<not> on_screen a \<Longrightarrow> vid_mem (Scroll n v) a = vid_mem v a"
proof (cases "unat n < 25")
  case True
  assume "vid_sticky v = 0" "\<not> on_screen a"
  with True show ?thesis by (auto simp: small_Scroll Let_def on_screen_def video_consts)
next
  case False
  assume "vid_sticky v = 0" "\<not> on_screen a"
  with False show ?thesis by (simp add: Scroll_def video_consts word_le_nat_alt)
qed

lemma Scroll_ok: "video_ok m v \<Longrightarrow> video_ok m (Scroll n v)"
proof (cases "unat n < 25")
  case False
  assume "video_ok m v"
  with False show ?thesis
    by (simp add: Scroll_def video_consts word_le_nat_alt Clear_ok video_ok_def [of m v])
qed (simp add: video_ok_def Scroll_frame)

lemma MoveCursor_ok:
  "video_ok m v \<Longrightarrow> unat x \<le> VIDEO_COLS \<Longrightarrow> unat y < VIDEO_ROWS \<Longrightarrow> (unat y = VIDEO_ROWS - 1 \<Longrightarrow> unat x < VIDEO_COLS) \<Longrightarrow>
    video_ok m (MoveCursor x y v)"
  by (simp add: video_ok_def)

lemma MoveCursor_here_ok: "video_ok m v \<Longrightarrow> video_ok m (MoveCursor (vid_x v) (vid_y v) v)"
  by (simp add: video_ok_def)

text \<open>The three steps of Putc: to the next line, scrolling, and the character.\<close>

lemma u32_unat_eq: "unat x < 4294967295 \<Longrightarrow> unat (x + 1 :: u32) = unat x + 1"
  by (simp add: unat_word_ariths)

lemma u32_pred: "x = 24 \<Longrightarrow> unat (x - 1 :: u32) = 23" by simp

lemma Putc_ok:
  assumes ok: "video_ok m v"
  shows "video_ok m (Putc c u v)"
proof (cases "c = 0")
  case False
  define v1 where "v1 = (if vid_x v = of_nat VIDEO_COLS then v\<lparr>vid_x := 0, vid_y := vid_y v + 1\<rparr> else v)"
  define v2 where "v2 = (if vid_y v1 = of_nat (VIDEO_ROWS - 1)
    then let s = Scroll 1 v1 in s\<lparr>vid_y := vid_y s - 1\<rparr> else v1)"
  define v3 where "v3 = (if c = 0x0A then v2\<lparr>vid_y := vid_y v2 + 1, vid_x := 0\<rparr>
    else v2\<lparr>vid_mem := (vid_mem v2)(VIDEO_MEM + unat (2 * (vid_x v2 + vid_y v2 * of_nat VIDEO_COLS)) := c,
       VIDEO_MEM + unat (2 * (vid_x v2 + vid_y v2 * of_nat VIDEO_COLS)) + 1 := vid_attr v2), vid_x := vid_x v2 + 1\<rparr>)"
  have Putc: "Putc c u v = (if u then MoveCursor (vid_x v3) (vid_y v3) v3 else v3)"
    using False by (simp add: Putc_def Let_def v1_def v2_def v3_def)
  have ok1: "vid_sticky v1 = 0 \<and> unat (vid_x v1) < 80 \<and> unat (vid_y v1) < 25 \<and> (\<forall>a. \<not> on_screen a \<longrightarrow> vid_mem v1 a = m a)"
  proof (cases "vid_x v = 80")
    case True
    with ok show ?thesis by (auto simp: v1_def video_ok_def video_consts u32_unat_eq)
  next
    case False
    then have "unat (vid_x v) \<noteq> unat (80 :: u32)" by (simp only: word_unat_eq_iff not_False_eq_True)
    with ok show ?thesis by (auto simp: v1_def video_ok_def video_consts)
  qed
  have ok2: "vid_sticky v2 = 0 \<and> unat (vid_x v2) < 80 \<and> unat (vid_y v2) < 24 \<and> (\<forall>a. \<not> on_screen a \<longrightarrow> vid_mem v2 a = m a)"
  proof (cases "vid_y v1 = 24")
    case True
    with ok1 show ?thesis by (simp add: v2_def video_consts Let_def Scroll_frame)
  next
    case False
    then have "unat (vid_y v1) \<noteq> unat (24 :: u32)" by (simp only: word_unat_eq_iff not_False_eq_True)
    with ok1 show ?thesis by (auto simp: v2_def video_consts)
  qed
  have ok3: "video_ok m v3"
  proof (cases "c = 0x0A")
    case True
    with ok2 show ?thesis by (simp add: v3_def video_ok_def video_consts u32_unat_eq)
  next
    case False
    have "unat (2 * (vid_x v2 + vid_y v2 * 80)) = 2 * (unat (vid_x v2) + unat (vid_y v2) * 80)"
      using ok2 by (simp add: unat_word_ariths)
    moreover have "unat (vid_x v2) + unat (vid_y v2) * 80 < 80 * 24" using ok2 by linarith
    ultimately show ?thesis
      using False ok2 by (auto simp: v3_def video_ok_def video_consts u32_unat_eq on_screen_def)
  qed
  show ?thesis unfolding Putc using ok3 MoveCursor_here_ok [OF ok3] by simp
qed (simp add: Putc_def ok)


lemma print_loop_ok: "video_ok m v \<Longrightarrow> video_ok m (snd (print_loop s n v))"
  by (induction s n v rule: print_loop.induct) (simp_all add: Putc_ok)

lemma Print_ok: "video_ok m v \<Longrightarrow> video_ok m (snd (Print s v))"
  by (simp add: Print_def case_prod_beta Let_def Video_X_def Video_Y_def MoveCursor_here_ok print_loop_ok)

lemma color_ok:
  "video_ok m (Video_SetFG c v) = video_ok m v" "video_ok m (Video_SetBG c v) = video_ok m v"
  by (simp_all add: video_ok_def Video_SetFG_def Video_SetBG_def)

lemma PrintPrompt_ok: "video_ok m v \<Longrightarrow> video_ok m (snd (PrintPrompt v))"
  by (simp add: PrintPrompt_def Let_def Print_ok color_ok)

lemma Prompt_ok: "video_ok m v \<Longrightarrow> video_ok m (snd (Prompt s v))"
  by (simp add: Prompt_def case_prod_beta Print_ok PrintPrompt_ok)

lemma handler_ok: "video_ok m v \<Longrightarrow> video_ok m (fold CharacterHandler cs v)"
  by (induction cs arbitrary: v) (simp_all add: CharacterHandler_def Putc_ok)

lemma VPrintf_ok: "VPrintf A f ap ls v = Some (n, p, w) \<Longrightarrow> video_ok m v \<Longrightarrow> video_ok m w"
  by (auto simp: VPrintf_def bind_eq_Some_conv Let_def Video_X_def Video_Y_def handler_ok MoveCursor_here_ok)

lemma Promptf_ok: "Promptf A f ap ls v = Some (n, p, w) \<Longrightarrow> video_ok m v \<Longrightarrow> video_ok m w"
  by (auto simp: Promptf_def bind_eq_Some_conv Let_def case_prod_beta
      intro!: Print_ok elim!: VPrintf_ok intro: PrintPrompt_ok)

text \<open>
  The states that clients of the console reach from the boot state, while no line is made sticky.
  MoveCursor is called with a position on the screen, and other drivers add to the trace.
\<close>

inductive video_reach :: "bytes \<Rightarrow> video \<Rightarrow> bool" for m where
  reach_boot: "video_reach m (video_boot m)"
| reach_io: "video_reach m v \<Longrightarrow> video_reach m (v\<lparr>io_trace := t, io_if := b\<rparr>)"
| reach_colors: "video_reach m v \<Longrightarrow> video_reach m (Video_SetFG c (Video_SetBG d v))"
| reach_clear: "video_reach m v \<Longrightarrow> video_reach m (Video_Clear v)"
| reach_scroll: "video_reach m v \<Longrightarrow> video_reach m (Scroll n v)"
| reach_move: "video_reach m v \<Longrightarrow> unat x < VIDEO_COLS \<Longrightarrow> unat y < VIDEO_ROWS \<Longrightarrow> video_reach m (MoveCursor x y v)"
| reach_putc: "video_reach m v \<Longrightarrow> video_reach m (Putc c u v)"
| reach_print: "video_reach m v \<Longrightarrow> video_reach m (snd (Print s v))"
| reach_prompt: "video_reach m v \<Longrightarrow> video_reach m (snd (Prompt s v))"
| reach_printf: "video_reach m v \<Longrightarrow> Printf A f ap ls v = Some (n, p, w) \<Longrightarrow> video_reach m w"
| reach_promptf: "video_reach m v \<Longrightarrow> Promptf A f ap ls v = Some (n, p, w) \<Longrightarrow> video_reach m w"

lemma video_reach_ok: "video_reach m v \<Longrightarrow> video_ok m v"
proof (induction rule: video_reach.induct)
  case reach_boot
  show ?case by (simp add: video_ok_def video_boot_def video_consts)
next
  case (reach_io v t b)
  then show ?case by (simp add: video_ok_def)
next
  case (reach_move v x y)
  then show ?case by (simp add: MoveCursor_ok)
next
  case (reach_printf v A f ap ls n p w)
  then show ?case unfolding Printf_def using VPrintf_ok by blast
next
  case (reach_promptf v A f ap ls n p w)
  then show ?case using Promptf_ok by blast
qed (simp_all add: color_ok Clear_ok Scroll_ok Putc_ok Print_ok Prompt_ok)


section \<open>The cursor of the CRT controller\<close>

text \<open>The position that the writes of a trace have programmed: registers 0x0E and 0x0F.\<close>

definition crtc_cursor :: "io_event list \<Rightarrow> nat" where
  "crtc_cursor t =
     (let r = snd (indexed_regs CRTC_RegisterData CRTC_RegisterAddress 0xFF (0, \<lambda>_. 0) t)
      in 256 * unat (r CRTC_CursorLocationHigh) + unat (r CRTC_CursorLocationLow))"

lemma word16_split: "256 * unat (ucast (drop_bit 8 p) :: u8) + unat (ucast (p AND 0x00FF) :: u8) = unat (p :: u16)"
proof -
  have "p AND 0x00FF = take_bit 8 p" by (simp add: take_bit_eq_mask mask_eq_exp_minus_1)
  then have "unat (p AND 0x00FF) = take_bit 8 (unat p)" by (simp only: unsigned_take_bit_eq)
  then have "unat (p AND 0x00FF) = unat p mod 256" by (simp add: take_bit_eq_mod)
  moreover have "unat (drop_bit 8 p) = unat p div 256" by (simp add: drop_bit_eq_div unat_div_distrib)
  moreover have "unat p div 256 < 256" using unat_u16 [of p] by simp
  ultimately show ?thesis by (simp add: unsigned_ucast_eq take_bit_eq_mod)
qed

lemma MoveCursor_crtc:
  "crtc_cursor (io_trace (MoveCursor x y v)) =
     min (unat x) (VIDEO_COLS - 1) + VIDEO_COLS * min (unat y) (VIDEO_ROWS - 1)"
proof -
  define x1 where "x1 = (if x < 79 then x else 79)"
  define y1 where "y1 = (if y < 24 then y else 24)"
  have "unat x1 = min (unat x) 79" "unat y1 = min (unat y) 24"
    by (auto simp: x1_def y1_def word_less_nat_alt)
  moreover have "unat (x1 + y1 * 80) = unat x1 + 80 * unat y1"
    using calculation by (simp add: unat_word_ariths)
  moreover have "unat (ucast (x1 + y1 * 80) :: u16) = unat (x1 + y1 * 80)"
    using calculation by (simp add: unsigned_ucast_eq take_bit_eq_mod)
  moreover have "crtc_cursor (io_trace (MoveCursor x y v)) = unat (ucast (x1 + y1 * 80) :: u16)"
    unfolding word16_split [of "ucast (x1 + y1 * 80)", symmetric]
    by (simp add: MoveCursor_def crtc_cursor_def io_simps Let_def crtc_consts video_consts x1_def y1_def)
  ultimately show ?thesis by (simp add: video_consts)
qed


section \<open>Printing within a line\<close>

lemma cell_addr_inj: "c < 80 \<Longrightarrow> c' < 80 \<Longrightarrow> cell_addr r c = cell_addr r' c' \<longleftrightarrow> r = r' \<and> c = c'"
proof
  assume c: "c < 80" "c' < 80" and "cell_addr r c = cell_addr r' c'"
  then have "80 * r + c = 80 * r' + c'" by (simp add: cell_addr_def video_consts)
  then have "(80 * r + c) div 80 = (80 * r' + c') div 80" "(80 * r + c) mod 80 = (80 * r' + c') mod 80" by simp_all
  with c show "r = r' \<and> c = c'" by simp
qed simp

lemma cell_addr_parity: "cell_addr r c \<noteq> Suc (cell_addr r' c')" "Suc (cell_addr r' c') \<noteq> cell_addr r c"
proof -
  have "even (cell_addr r c)" "even (cell_addr r' c')" by (simp_all add: cell_addr_def video_consts)
  then show "cell_addr r c \<noteq> Suc (cell_addr r' c')" "Suc (cell_addr r' c') \<noteq> cell_addr r c"
    by (metis even_Suc)+
qed

lemma vid_cell_upd: "c < 80 \<Longrightarrow> c' < 80 \<Longrightarrow>
  vid_cell (v\<lparr>vid_mem := (vid_mem v)(cell_addr r c := x, cell_addr r c + 1 := y), vid_x := z\<rparr>) r' c' =
    (if r = r' \<and> c = c' then (x, y) else vid_cell v r' c')"
  by (auto simp: vid_cell_def cell_addr_inj cell_addr_parity)

lemma Putc_in_line:
  assumes "c \<noteq> 0" "c \<noteq> 0x0A" "unat (vid_x v) < 80" "unat (vid_y v) < 24"
  shows "Putc c False v = v\<lparr>vid_mem := (vid_mem v)(cell_addr (unat (vid_y v)) (unat (vid_x v)) := c,
           cell_addr (unat (vid_y v)) (unat (vid_x v)) + 1 := vid_attr v), vid_x := vid_x v + 1\<rparr>"
proof -
  have "vid_x v \<noteq> 80" "vid_y v \<noteq> 24" using assms(3,4) by auto
  moreover have "unat (2 * (vid_x v + vid_y v * 80)) = 2 * (80 * unat (vid_y v) + unat (vid_x v))"
    using assms(3,4) by (simp add: unat_word_ariths)
  ultimately show ?thesis using assms(1,2) by (simp add: Putc_def video_consts Let_def cell_addr_def)
qed

lemma print_loop_in_line:
  assumes "\<forall>c\<in>set s. c \<noteq> 0 \<and> c \<noteq> 0x0A" "unat (vid_x v) + length s \<le> 80" "unat (vid_y v) < 24"
  shows "let w = snd (print_loop s n v) in
    fst (print_loop s n v) = n + int (length s) \<and> unat (vid_x w) = unat (vid_x v) + length s \<and> vid_y w = vid_y v \<and>
    vid_attr w = vid_attr v \<and>
    (\<forall>r c. c < 80 \<longrightarrow> vid_cell w r c =
       (if r = unat (vid_y v) \<and> unat (vid_x v) \<le> c \<and> c < unat (vid_x v) + length s
        then (s ! (c - unat (vid_x v)), vid_attr v) else vid_cell v r c))"
  using assms
proof (induction s arbitrary: n v)
  case (Cons a s)
  have x: "unat (vid_x v) < 80" "unat (vid_y v) < 24" "a \<noteq> 0" "a \<noteq> 0x0A" using Cons.prems by auto
  note put = Putc_in_line [OF x(3,4,1,2)]
  define w where "w = Putc a False v"
  have w: "unat (vid_x w) = unat (vid_x v) + 1" "vid_y w = vid_y v" "vid_attr w = vid_attr v"
    using x(1) by (simp_all add: w_def put u32_unat_eq)
  have cell: "c < 80 \<Longrightarrow> vid_cell w r c =
      (if unat (vid_y v) = r \<and> unat (vid_x v) = c then (a, vid_attr v) else vid_cell v r c)" for r c
    unfolding w_def put by (rule vid_cell_upd [OF x(1)])
  have "\<forall>c\<in>set s. c \<noteq> 0 \<and> c \<noteq> 0x0A" "unat (vid_x w) + length s \<le> 80" "unat (vid_y w) < 24"
    using Cons.prems by (auto simp: w)
  note IH = Cons.IH [OF this, of "n + 1"]
  have nth: "unat (vid_x v) < c \<Longrightarrow> (a # s) ! (c - unat (vid_x v)) = s ! (c - Suc (unat (vid_x v)))" for c
    by (simp add: nth_Cons' )
  have "print_loop (a # s) n v = print_loop s (n + 1) w" using x(3) by (simp add: w_def)
  then show ?case using IH by (auto simp: Let_def w cell nth)
qed auto


text \<open>Scrolling, cell by cell.\<close>

lemma Scroll_cell:
  assumes "unat n < VIDEO_ROWS" "unat (vid_sticky v) < VIDEO_ROWS" "c < VIDEO_COLS"
  shows "vid_cell (Scroll n v) r c =
    (if r < unat (vid_sticky v) \<or> unat (vid_sticky v) + VIDEO_ROWS \<le> r then vid_cell v r c
     else if r + unat n < unat (vid_sticky v) + VIDEO_ROWS then vid_cell v (r + unat n) c
     else (0x20, vid_attr v))"
proof -
  define d where "d = 2 * c"
  have d: "even d" "d < 160" "d + 1 < 160" using assms(3) by (simp_all add: d_def video_consts; presburger)+
  have a: "cell_addr r c = VIDEO_MEM + 160 * r + d" "VIDEO_MEM + 160 * r + d + 1 = VIDEO_MEM + 160 * r + (d + 1)" for r
    by (simp_all add: cell_addr_def d_def video_consts algebra_simps)
  have n: "unat n < 25" "unat (vid_sticky v) < 25" using assms(1,2) by (simp_all add: video_consts)
  have "vid_cell (Scroll n v) r c =
    (if r < unat (vid_sticky v) \<or> unat (vid_sticky v) + 25 \<le> r then vid_cell v r c
     else if r + unat n < unat (vid_sticky v) + 25 then vid_cell v (r + unat n) c
     else (0x20, vid_attr v))"
    using d(1) unfolding vid_cell_def a Scroll_at [OF n d(2)] Scroll_at [OF n d(3)] Let_def by auto
  then show ?thesis by (simp only: video_consts)
qed


section \<open>Properties\<close>

text \<open>
  C14. In every state that clients of the console reach from boot while no line is sticky, the
  cursor is on the screen, or in column 80, one behind the last, of a line that is not the last; and
  no byte outside of the 4000 bytes of the screen has been written.
\<close>

theorem console_safe:
  assumes "video_reach m v"
  shows "unat (vid_x v) \<le> VIDEO_COLS \<and> unat (vid_y v) < VIDEO_ROWS \<and>
    (unat (vid_y v) = VIDEO_ROWS - 1 \<longrightarrow> unat (vid_x v) < VIDEO_COLS) \<and>
    (\<forall>a. a < VIDEO_MEM \<or> VIDEO_MEM + 4000 \<le> a \<longrightarrow> vid_mem v a = m a)"
  using video_reach_ok [OF assms] by (auto simp: video_ok_def on_screen_def video_consts)

theorem console_safe_witness:
  "vid_mem (snd (Print [0x41] (Putc 0x0A True (video_boot (\<lambda>_. 7))))) 0 = 7"
  using console_safe [OF reach_print [OF reach_putc [OF reach_boot, of "\<lambda>_. 7" "0x0A" True], of "[0x41]"]]
  by (auto simp: video_consts)


text \<open>
  C34. Scrolling by n < 25 rows with s < 25 sticky rows moves the 25 rows behind the sticky ones, and
  not only those on the screen: the s first rows stay, each of the rows s to s + 24 gets the
  characters of the row n below it, or is blanked with the current attribute if it is one of the
  last n of them.  Rows from 25 on lie behind the screen.  So without sticky rows the screen scrolls;
  with them the last rows of the screen get bytes from behind the screen, and rows behind the screen
  are overwritten.
\<close>

theorem scroll_cells:
  assumes "unat n < VIDEO_ROWS" "unat (vid_sticky v) < VIDEO_ROWS" "c < VIDEO_COLS"
  shows "vid_cell (Scroll n v) r c =
    (if r < unat (vid_sticky v) \<or> unat (vid_sticky v) + VIDEO_ROWS \<le> r then vid_cell v r c
     else if r + unat n < unat (vid_sticky v) + VIDEO_ROWS then vid_cell v (r + unat n) c
     else (0x20, vid_attr v)) \<and>
    (on_screen (cell_addr r c) \<longleftrightarrow> r < VIDEO_ROWS)"
proof -
  have "on_screen (cell_addr r c) \<longleftrightarrow> r < VIDEO_ROWS"
    using assms(3) by (auto simp: on_screen_def cell_addr_def video_consts)
  then show ?thesis using Scroll_cell [OF assms] by blast
qed

theorem scroll_cells_witness:
  "vid_cell (Scroll 1 (SetStickyLines 1 (video_boot (\<lambda>_. 0x07)))) 24 0 = (0x07, 0x07) \<and>
   vid_cell (Scroll 1 (SetStickyLines 1 (video_boot (\<lambda>_. 0x07)))) 25 0 = (0x20, 0x0F)"
  using scroll_cells [of 1 "SetStickyLines 1 (video_boot (\<lambda>_. 0x07))" 0 24]
    scroll_cells [of 1 "SetStickyLines 1 (video_boot (\<lambda>_. 0x07))" 0 25]
  by (simp_all add: video_boot_def video_consts SetStickyLines_def vid_cell_def)


text \<open>
  With sticky rows, as the kernel's main function sets them, scrolling leaves the screen: with
  s sticky rows and n at most s, the last row of the screen gets what lies n rows behind it,
  outside of the screen, and the rows that are blanked lie behind the screen as well.
\<close>

theorem scroll_sticky_outside:
  assumes "0 < unat n" "unat n \<le> unat (vid_sticky v)" "unat (vid_sticky v) < VIDEO_ROWS" "c < VIDEO_COLS"
  shows "vid_cell (Scroll n v) (VIDEO_ROWS - 1) c = vid_cell v (VIDEO_ROWS - 1 + unat n) c \<and>
    vid_cell (Scroll n v) (VIDEO_ROWS - 1 + unat (vid_sticky v)) c = (0x20, vid_attr v) \<and>
    \<not> on_screen (cell_addr (VIDEO_ROWS - 1 + unat (vid_sticky v)) c)"
proof -
  have n: "unat n < VIDEO_ROWS" using assms by simp
  show ?thesis
    using assms unfolding Scroll_cell [OF n assms(3,4)]
    by (auto simp: on_screen_def cell_addr_def video_consts)
qed

theorem scroll_sticky_outside_witness:
  "vid_mem (Scroll 1 (SetStickyLines 1 (video_boot (\<lambda>_. 0)))) (VIDEO_MEM + 4000) = 0x20"
  using scroll_sticky_outside [of 1 "SetStickyLines 1 (video_boot (\<lambda>_. 0))" 0]
  by (simp add: video_boot_def video_consts SetStickyLines_def vid_cell_def cell_addr_def)


text \<open>
  Printing a text without control characters that fits in the line of the cursor puts its
  characters with the current attribute into the cells from the cursor on, changes no other cell,
  returns the length of the text and programs the controller with the new position.
\<close>

theorem print_cells:
  assumes "\<forall>c\<in>set s. c \<noteq> 0 \<and> c \<noteq> 0x0A" "unat (vid_x v) + length s \<le> VIDEO_COLS" "unat (vid_y v) < VIDEO_ROWS - 1"
  shows "let w = snd (Print s v); x = unat (vid_x v); y = unat (vid_y v) in
    fst (Print s v) = int (length s) \<and> unat (vid_x w) = x + length s \<and> vid_y w = vid_y v \<and>
    crtc_cursor (io_trace w) = min (x + length s) (VIDEO_COLS - 1) + VIDEO_COLS * y \<and>
    (\<forall>r. \<forall>c<VIDEO_COLS. vid_cell w r c =
       (if r = y \<and> x \<le> c \<and> c < x + length s then (s ! (c - x), vid_attr v) else vid_cell v r c))"
proof -
  have "unat (vid_x v) + length s \<le> 80" "unat (vid_y v) < 24" using assms(2,3) by (simp_all add: video_consts)
  note loop = print_loop_in_line [OF assms(1) this, of 0]
  have cell: "vid_cell (MoveCursor a b w) r c = vid_cell w r c" for a b r c and w :: "'a video_scheme"
    by (simp add: vid_cell_def)
  show ?thesis
    using loop \<open>unat (vid_y v) < 24\<close>
    by (simp add: Print_def case_prod_beta Let_def cell MoveCursor_crtc Video_X_def Video_Y_def video_consts)
qed

theorem print_cells_witness:
  "fst (Print [0x48, 0x69] (video_boot (\<lambda>_. 0))) = 2 \<and> vid_cell (snd (Print [0x48, 0x69] (video_boot (\<lambda>_. 0)))) 0 1 = (0x69, 0x0F)"
  using print_cells [of "[0x48, 0x69]" "video_boot (\<lambda>_. 0)"] by (simp add: video_boot_def video_consts Let_def)

end
