(* ===== verification/XEOS_Time.thy ===== *)
theory XEOS_Time
  imports XEOS_Base "HOL-Library.Signed_Division"
begin

text \<open>
  mktime of source/lib/c99/time, against a calendar that counts the days year by year and month by
  month.  A value of type long is an integer in the range of the target; an operation whose result
  leaves the range is undefined.
\<close>

record tm =
  tm_sec :: int
  tm_min :: int
  tm_hour :: int
  tm_mday :: int
  tm_mon :: int
  tm_year :: int
  tm_wday :: int
  tm_yday :: int
  tm_isdst :: int

definition long_ok :: "arch \<Rightarrow> int \<Rightarrow> bool" where
  "long_ok A x \<longleftrightarrow> - (2 ^ (ptr_bits A - 1)) \<le> x \<and> x < 2 ^ (ptr_bits A - 1)"

definition lng :: "arch \<Rightarrow> int \<Rightarrow> int option" where
  "lng A x = (if long_ok A x then Some x else None)"

definition yearDays :: "int list" where
  "yearDays = [0, 31, 59, 90, 120, 151, 181, 212, 243, 273, 304, 334]"

text \<open>The month and the year that the first lines compute, for every sign of tm_mon.\<close>

definition mktime_month :: "arch \<Rightarrow> tm \<Rightarrow> (int \<times> int) option" where
  "mktime_month A t =
     do { let month = tm_mon t;
          y \<leftarrow> lng A (tm_year t + month sdiv 12);
          year \<leftarrow> lng A (y + 1900);
          let month1 = month smod 12;
          if month1 < 0
          then do { year1 \<leftarrow> lng A (year - 1); Some (month1 + 12, year1) }
          else Some (month1, year) }"

definition mktime :: "arch \<Rightarrow> tm option \<Rightarrow> int option" where
  "mktime A timeptr =
     (case timeptr of
        None \<Rightarrow> Some (- 1)
      | Some t \<Rightarrow>
          do { (month, year) \<leftarrow> mktime_month A t;
               y1 \<leftarrow> lng A (year - 1970);
               y2 \<leftarrow> lng A (y1 * 365);
               y3 \<leftarrow> lng A (y2 + (year - 1969) sdiv 4);
               _ \<leftarrow> lng A (y3 + yearDays ! nat month);
               r0 \<leftarrow> lng A (y2 + yearDays ! nat month);
               year1 \<leftarrow> (if month \<le> 1 then lng A (year - 1) else Some year);
               r1 \<leftarrow> lng A (r0 + (year1 - 1968) sdiv 4);
               r2 \<leftarrow> lng A (r1 - (year1 - 1900) sdiv 100);
               r3 \<leftarrow> lng A (r2 + (year1 - 1600) sdiv 400);
               r4 \<leftarrow> lng A (r3 + tm_mday t);
               r5 \<leftarrow> lng A (r4 - 1);
               r6 \<leftarrow> lng A (r5 * 24);
               r7 \<leftarrow> lng A (r6 + tm_hour t);
               r8 \<leftarrow> lng A (r7 * 60);
               r9 \<leftarrow> lng A (r8 + tm_min t);
               r10 \<leftarrow> lng A (r9 * 60);
               lng A (r10 + tm_sec t) })"


section \<open>The calendar\<close>

definition leap_year :: "nat \<Rightarrow> bool" where
  "leap_year y \<longleftrightarrow> 4 dvd y \<and> (\<not> 100 dvd y \<or> 400 dvd y)"

definition year_length :: "nat \<Rightarrow> nat" where
  "year_length y = (if leap_year y then 366 else 365)"

definition month_length :: "nat \<Rightarrow> nat \<Rightarrow> nat" where
  "month_length y m = (if m = 1 \<and> leap_year y then 29 else [31, 28, 31, 30, 31, 30, 31, 31, 30, 31, 30, 31] ! m)"

primrec days_of_years :: "nat \<Rightarrow> nat" where
  "days_of_years 0 = 0"
| "days_of_years (Suc n) = days_of_years n + year_length (1970 + n)"

primrec days_back :: "nat \<Rightarrow> nat" where
  "days_back 0 = 0"
| "days_back (Suc n) = days_back n + year_length (1969 - n)"

primrec days_of_months :: "nat \<Rightarrow> nat \<Rightarrow> nat" where
  "days_of_months y 0 = 0"
| "days_of_months y (Suc m) = days_of_months y m + month_length y m"

text \<open>
  Seconds from the start of 1970 to a time of a day, negative before; the months and days count from
  zero and one.
\<close>

definition calendar_days :: "nat \<Rightarrow> nat \<Rightarrow> int" where
  "calendar_days y mon = int (days_of_years (y - 1970)) - int (days_back (1970 - y)) + int (days_of_months y mon)"

definition calendar_seconds :: "nat \<Rightarrow> nat \<Rightarrow> int \<Rightarrow> int \<Rightarrow> int \<Rightarrow> int \<Rightarrow> int" where
  "calendar_seconds y mon mday h m s =
     (((calendar_days y mon + mday - 1) * 24 + h) * 60 + m) * 60 + s"

text \<open>The twelve months of a year have the length of the year.\<close>

lemma months_of_year: "days_of_months y 12 = year_length y"
  by (simp add: numeral_eq_Suc month_length_def year_length_def)

lemma month_cases: "m < 12 \<Longrightarrow> m \<in> {0, 1, 2, 3, 4, 5, 6, 7, 8, 9, 10, 11::nat}"
  unfolding insert_iff empty_iff by presburger

lemma days_of_months_table:
  "m < 12 \<Longrightarrow> int (days_of_months y m) = yearDays ! m + (if 1 < m \<and> leap_year y then 1 else 0)"
  by (drule month_cases) (auto simp: numeral_eq_Suc month_length_def yearDays_def)

lemma dvd_shift: "(k::nat) dvd c \<Longrightarrow> k dvd c + n \<longleftrightarrow> k dvd n"
  by (rule dvd_add_right_iff)

lemma leap_year_offset: "leap_year (1970 + n) \<longleftrightarrow> 4 dvd n + 2 \<and> (\<not> 100 dvd n + 70 \<or> 400 dvd n + 370)"
  using dvd_shift [of 4 1968 "n + 2"] dvd_shift [of 100 1900 "n + 70"] dvd_shift [of 400 1600 "n + 370"]
  by (simp add: leap_year_def add.commute)

lemma Suc_div: "Suc m div k = m div k + (if k dvd Suc m then 1 else 0)"
  by (simp add: div_Suc dvd_eq_mod_eq_0)

lemma leap_dvds: "100 dvd n + 70 \<Longrightarrow> 4 dvd n + (2::nat)" "400 dvd n + 370 \<Longrightarrow> 100 dvd n + (70::nat)"
proof -
  assume "100 dvd n + 70"
  then have "4 dvd n + 70" by (rule dvd_trans [rotated]) simp
  then show "4 dvd n + 2" using dvd_shift [of 4 68 "n + 2"] by (simp add: add.commute)
next
  assume "400 dvd n + 370"
  then have "100 dvd n + 370" by (rule dvd_trans [rotated]) simp
  then show "100 dvd n + 70" using dvd_shift [of 100 300 "n + 70"] by (simp add: add.commute)
qed

lemma days_of_years_formula:
  "int (days_of_years (Suc n)) =
     365 * int (Suc n) + int ((n + 2) div 4) - int ((n + 70) div 100) + int ((n + 370) div 400)"
proof (induction n)
  case 0
  show ?case by (simp add: year_length_def leap_year_def)
next
  case (Suc n)
  define A B C where "A = (4 dvd Suc n + 2)" and "B = (100 dvd Suc n + 70)" and "C = (400 dvd Suc n + 370)"
  have ABC: "B \<Longrightarrow> A" "C \<Longrightarrow> B" using leap_dvds [of "Suc n"] by (simp_all only: A_def B_def C_def)
  have "days_of_years (Suc (Suc n)) = days_of_years (Suc n) + year_length (1970 + Suc n)"
    by (rule days_of_years.simps)
  moreover have "year_length (1970 + Suc n) = 365 + (if A \<and> (\<not> B \<or> C) then 1 else 0)"
    unfolding year_length_def leap_year_offset A_def B_def C_def by simp
  moreover have "(Suc n + 2) div 4 = (n + 2) div 4 + (if A then 1 else 0)"
    "(Suc n + 70) div 100 = (n + 70) div 100 + (if B then 1 else 0)"
    "(Suc n + 370) div 400 = (n + 370) div 400 + (if C then 1 else 0)"
    unfolding A_def B_def C_def add_Suc by (rule Suc_div)+
  ultimately show ?case
    using Suc.IH ABC by (cases A; cases B; cases C) (simp_all only: of_nat_add if_True if_False simp_thms, simp_all)
qed

text \<open>
  The number of leap days that mktime adds: those of the years before, and from March on the one of
  the year itself.
\<close>

lemma mktime_leap_days:
  fixes y m :: nat
  assumes "1970 \<le> y" "m < 12"
  defines "z \<equiv> (if m \<le> 1 then int y - 1 else int y)"
  shows "365 * (int y - 1970) + yearDays ! m + (z - 1968) div 4 - (z - 1900) div 100 + (z - 1600) div 400 =
    int (days_of_years (y - 1970) + days_of_months y m)"
proof -
  obtain n where n: "y = 1970 + n" using assms(1) le_Suc_ex by blast
  have shift: "(int k + 1970 - 1968) div 4 = int ((k + 2) div 4)" "(int k + 1970 - 1900) div 100 = int ((k + 70) div 100)"
    "(int k + 1970 - 1600) div 400 = int ((k + 370) div 400)" for k
    by (simp_all add: zdiv_int add.commute)
  show ?thesis
  proof (cases n)
    case 0
    have "m \<le> 1 \<or> 1 < m" by linarith
    with 0 n show ?thesis
      by (auto simp: z_def days_of_months_table [OF assms(2)] leap_year_def)
  next
    case (Suc k)
    have F: "int (days_of_years n) =
      365 * int n + int ((k + 2) div 4) - int ((k + 70) div 100) + int ((k + 370) div 400)"
      using days_of_years_formula [of k] Suc by simp
    have G: "int (days_of_years (Suc n)) =
      365 * int (Suc n) + int ((n + 2) div 4) - int ((n + 70) div 100) + int ((n + 370) div 400)"
      by (rule days_of_years_formula)
    have len: "int (days_of_years (Suc n)) = int (days_of_years n) + 365 + (if leap_year y then 1 else 0)"
      by (simp add: n year_length_def)
    show ?thesis
    proof (cases "m \<le> 1")
      case True
      then have "z = int k + 1970" using n Suc by (simp add: z_def)
      then show ?thesis using True n F shift [of k] by (simp add: days_of_months_table [OF assms(2)])
    next
      case False
      then have "z = int n + 1970" using n by (simp add: z_def)
      then show ?thesis using False n G len shift [of n] by (simp add: days_of_months_table [OF assms(2)])
    qed
  qed
qed


section \<open>mktime and the calendar\<close>

lemma sdiv_pos: "0 \<le> x \<Longrightarrow> 0 < k \<Longrightarrow> x sdiv k = x div (k::int)"
  by (cases "x = 0") (simp_all add: signed_divide_int_def)

lemma smod_pos: "0 \<le> x \<Longrightarrow> 0 < k \<Longrightarrow> x smod k = x mod (k::int)"
  by (cases "x = 0") (simp_all add: signed_modulo_int_def)

lemma sdiv_neg: "x \<le> 0 \<Longrightarrow> 0 < k \<Longrightarrow> x sdiv k = - ((- x) div (k::int))"
  by (cases "x = 0") (simp_all add: signed_divide_int_def)

text \<open>Before 1970, from 1901 on, every fourth year is a leap year.\<close>

lemma leap_year_back: "n < 69 \<Longrightarrow> leap_year (1969 - n) \<longleftrightarrow> (3 + n) mod 4 = 0"
proof -
  assume n: "n < 69"
  define y where "y = 1969 - n"
  have y: "1900 < y" "y < 1970" "n = 1969 - y" using n by (auto simp: y_def)
  then have "\<not> 100 dvd y" by (auto simp: dvd_def)
  moreover have "4 dvd y \<longleftrightarrow> (3 + n) mod 4 = 0" using y by presburger
  ultimately show ?thesis by (simp add: leap_year_def flip: y_def)
qed

lemma days_back_formula: "n \<le> 69 \<Longrightarrow> days_back n = 365 * n + (n + 2) div 4"
proof (induction n)
  case (Suc n)
  then show ?case by (simp add: year_length_def leap_year_back div_Suc)
qed simp

text \<open>
  What mktime adds before 1970: its division truncates, so that a time whose leap years are counted
  up to a year before 1968 that is no leap year is one day late.
\<close>

definition leap_count_year :: "nat \<Rightarrow> nat \<Rightarrow> int" where
  "leap_count_year y m = (if m \<le> 1 then int y - 1 else int y)"

definition days_late :: "nat \<Rightarrow> nat \<Rightarrow> int" where
  "days_late y m = (let z = leap_count_year y m in if z < 1968 \<and> \<not> 4 dvd z then 1 else 0)"

definition mktime_days :: "nat \<Rightarrow> nat \<Rightarrow> int" where
  "mktime_days y m = (let z = leap_count_year y m in
     (int y - 1970) * 365 + yearDays ! m + (z - 1968) sdiv 4 - (z - 1900) sdiv 100 + (z - 1600) sdiv 400)"

lemma mktime_days_after:
  assumes "1970 \<le> y" "m < 12"
  shows "mktime_days y m = calendar_days y m" "days_late y m = 0"
proof -
  have z: "1969 \<le> leap_count_year y m" using assms(1) by (simp add: leap_count_year_def)
  then show "days_late y m = 0" by (simp add: days_late_def Let_def)
  have "(leap_count_year y m - 1968) sdiv 4 = (leap_count_year y m - 1968) div 4"
    "(leap_count_year y m - 1900) sdiv 100 = (leap_count_year y m - 1900) div 100"
    "(leap_count_year y m - 1600) sdiv 400 = (leap_count_year y m - 1600) div 400"
    using z by (simp_all add: sdiv_pos)
  then show "mktime_days y m = calendar_days y m"
    using mktime_leap_days [OF assms] assms(1)
    by (simp add: mktime_days_def calendar_days_def Let_def leap_count_year_def mult.commute)
qed

lemma centuries_before:
  assumes "1901 \<le> y" "y < 1970"
  shows "(leap_count_year y m - 1900) sdiv 100 = 0" "(leap_count_year y m - 1600) sdiv 400 = 0"
  using assms by (simp_all add: leap_count_year_def sdiv_pos)

lemma quarter_steps:
  "(k + 3) div 4 = k div 4 + (if k mod 4 = 0 then 0 else 1 :: nat)" "(k + 4) div 4 = k div 4 + (1 :: nat)"
  by presburger+

lemma mktime_days_before:
  assumes "1901 \<le> y" "y < 1970" "m < 12"
  shows "mktime_days y m = calendar_days y m + days_late y m"
proof -
  define n where "n = 1970 - y"
  have n: "1 \<le> n" "n \<le> 69" "int y = 1970 - int n" using assms by (simp_all add: n_def)
  have leap: "leap_year y \<longleftrightarrow> (n + 2) mod 4 = 0"
  proof -
    obtain k where k: "n = Suc k" using n(1) by (cases n) simp_all
    then have "y = 1969 - k" "k < 69" using assms n_def by simp_all
    then show ?thesis using leap_year_back [of k] k by (simp add: add.commute)
  qed
  have cal: "calendar_days y m = - int (365 * n + (n + 2) div 4) + yearDays ! m + (if 1 < m \<and> leap_year y then 1 else 0)"
    using assms days_of_months_table [OF assms(3), of y] days_back_formula [OF n(2)]
    by (simp add: calendar_days_def flip: n_def)
  define z where "z = leap_count_year y m"
  have "(z - 1968) sdiv 4 = - int ((n + 2) div 4) + (if 1 < m \<and> leap_year y then 1 else 0) + days_late y m"
  proof (cases "m \<le> 1")
    case True
    then have z: "z = 1969 - int n" by (simp add: z_def leap_count_year_def n(3))
    then have "(z - 1968) sdiv 4 = - int ((n - 1) div 4)" using n(1) by (simp add: sdiv_neg zdiv_int of_nat_diff)
    moreover have "4 dvd z \<longleftrightarrow> (n - 1) mod 4 = 0" using z n(1) by presburger
    then have "days_late y m = (if 2 \<le> n \<and> (n - 1) mod 4 \<noteq> 0 then 1 else 0)"
      using z by (auto simp: days_late_def Let_def simp flip: z_def)
    moreover have "(n + 2) div 4 = (n - 1) div 4 + (if (n - 1) mod 4 = 0 then 0 else 1)"
      using quarter_steps(1) [of "n - 1"] n(1) by simp
    ultimately show ?thesis using True n(1) by (cases "n = 1") auto
  next
    case False
    then have z: "z = 1970 - int n" by (simp add: z_def leap_count_year_def n(3))
    have "(z - 1968) sdiv 4 = - int ((n - 2) div 4)"
      using n(1) by (cases "n = 1") (simp_all add: z sdiv_neg sdiv_pos zdiv_int of_nat_diff)
    moreover have "4 dvd z \<longleftrightarrow> (n + 2) mod 4 = 0" using z n(1) by presburger
    then have "days_late y m = (if 3 \<le> n \<and> (n + 2) mod 4 \<noteq> 0 then 1 else 0)"
      using z by (auto simp: days_late_def Let_def simp flip: z_def)
    moreover have "(n + 2) div 4 = (n - 2) div 4 + (if n = 1 then 0 else 1)"
      using quarter_steps(2) [of "n - 2"] n(1) by (cases "n = 1") simp_all
    moreover have "n = 1 \<or> n = 2 \<or> 3 \<le> n" using n(1) by linarith
    ultimately show ?thesis using False leap by auto
  qed
  then show ?thesis
    using centuries_before [OF assms(1,2), of m] by (simp add: mktime_days_def Let_def cal n(3) flip: z_def)
qed

lemma mktime_days_value: "1901 \<le> y \<Longrightarrow> m < 12 \<Longrightarrow> mktime_days y m = calendar_days y m + days_late y m"
  using mktime_days_after [of y m] mktime_days_before [of y m] by (cases "1970 \<le> y") simp_all

lemma floor_of_sdiv:
  "x smod 12 + (if x smod 12 < 0 then 12 else 0) = x mod (12::int) \<and>
   x sdiv 12 - (if x smod 12 < 0 then 1 else 0) = x div 12"
proof (cases "0 \<le> x")
  case True
  then show ?thesis by (simp add: sdiv_pos smod_pos not_less)
next
  case False
  then have d: "x sdiv 12 = - ((- x) div 12)" by (simp add: signed_divide_int_def)
  moreover have "x smod 12 = - ((- x) mod 12)" using False by (simp add: signed_modulo_int_def)
  ultimately show ?thesis by (auto simp: zdiv_zminus1_eq_if zmod_zminus1_eq_if)
qed

lemma lng_Some: "lng A x = Some y \<longleftrightarrow> y = x \<and> long_ok A x"
  by (auto simp: lng_def)

lemma lng_ok: "long_ok A x \<Longrightarrow> lng A x = Some x"
  by (simp add: lng_def)

lemma mktime_month_value:
  "mktime_month A t = Some (m, y) \<Longrightarrow> m = tm_mon t mod 12 \<and> y = tm_year t + 1900 + tm_mon t div 12"
  using floor_of_sdiv [of "tm_mon t"]
  by (auto simp: mktime_month_def Let_def lng_Some bind_eq_Some_conv split: if_splits)

lemma mktime_month_ok:
  assumes "1901 \<le> tm_year t + 1900 + tm_mon t div 12" "long_ok A (tm_year t + 1901 + tm_mon t div 12)"
  shows "mktime_month A t = Some (tm_mon t mod 12, tm_year t + 1900 + tm_mon t div 12)"
proof -
  have K: "2 ^ 31 \<le> (2::int) ^ (ptr_bits A - 1)" by (cases A) (simp_all add: ptr_bits_def)
  have "long_ok A (tm_year t + tm_mon t sdiv 12)" "long_ok A (tm_year t + tm_mon t sdiv 12 + 1900)"
    "long_ok A (tm_year t + tm_mon t sdiv 12 + 1900 - 1)"
    using assms floor_of_sdiv [of "tm_mon t"] K unfolding long_ok_def by (auto split: if_splits)
  then show ?thesis
    using floor_of_sdiv [of "tm_mon t"] by (simp add: mktime_month_def Let_def lng_ok split: if_splits)
qed

text \<open>The value, when every operation is defined.\<close>

lemma mktime_value:
  assumes "mktime A (Some t) = Some r" "tm_mon t mod 12 = int m" "tm_year t + 1900 + tm_mon t div 12 = int y" "1901 \<le> y"
  defines "s \<equiv> calendar_seconds y m (tm_mday t) (tm_hour t) (tm_min t) (tm_sec t) + 86400 * days_late y m"
  shows "r = s \<and> long_ok A s \<and> long_ok A (s - tm_sec t)"
proof -
  have m: "m < 12" using assms(2) pos_mod_bound [of 12 "tm_mon t"] by simp
  define z where "z = leap_count_year y m"
  define D where "D = mktime_days y m"
  have D: "D = (int y - 1970) * 365 + yearDays ! m + (z - 1968) sdiv 4 - (z - 1900) sdiv 100 + (z - 1600) sdiv 400"
    by (simp add: D_def z_def mktime_days_def Let_def)
  have s: "s = (((D + tm_mday t - 1) * 24 + tm_hour t) * 60 + tm_min t) * 60 + tm_sec t"
    using mktime_days_value [OF assms(4) m] by (simp add: s_def calendar_seconds_def D_def)
  have mm: "mktime_month A t = Some p \<Longrightarrow> p = (int m, int y)" for p
    using assms(2,3) by (cases p) (auto dest: mktime_month_value)
  have if_z: "(if m \<le> Suc 0 then lng A (int y - 1) else Some (int y)) = Some x \<Longrightarrow> x = z" for x
    by (auto simp: z_def leap_count_year_def lng_Some split: if_splits)
  from assms(1) have "r = s \<and> long_ok A r \<and> long_ok A (r - tm_sec t)"
    unfolding mktime_def option.case bind_eq_Some_conv split_paired_all s D
    by (elim exE conjE) (drule mm; clarsimp simp: bind_eq_Some_conv lng_Some dest!: if_z simp del: mult_minus_left)
  then show ?thesis by blast
qed

text \<open>Every operation is defined when the value and the value without its seconds fit a long.\<close>

lemma day_seconds_ok:
  assumes "- 25202 \<le> D" "1 \<le> d" "0 \<le> h" "0 \<le> mi" "0 \<le> se"
    "(((D + d - 1) * 24 + h) * 60 + mi) * 60 + se < 2 ^ (ptr_bits A - 1)"
    "- (2 ^ (ptr_bits A - 1)) \<le> (((D + d - 1) * 24 + h) * 60 + mi) * 60"
  shows "long_ok A D" "long_ok A (D + d)" "long_ok A (D + d - 1)" "long_ok A ((D + d - 1) * 24)"
    "long_ok A ((D + d - 1) * 24 + h)" "long_ok A (((D + d - 1) * 24 + h) * 60)" "long_ok A (((D + d - 1) * 24 + h) * 60 + mi)"
    "long_ok A ((((D + d - 1) * 24 + h) * 60 + mi) * 60)" "long_ok A ((((D + d - 1) * 24 + h) * 60 + mi) * 60 + se)"
proof -
  define K where "K = (2::int) ^ (ptr_bits A - 1)"
  have K: "2147483648 \<le> K" by (cases A) (simp_all add: ptr_bits_def K_def)
  have ok: "long_ok A x \<longleftrightarrow> - K \<le> x \<and> x < K" for x by (simp add: long_ok_def K_def)
  define r s v where "r = D + d - 1" and "s = r * 24 + h" and "v = s * 60 + mi"
  have fit: "v * 60 + se < K" "- K \<le> v * 60" using assms(6,7) by (simp_all add: r_def s_def v_def K_def)
  have low: "- 25202 \<le> r" "- 604848 \<le> r * 24" "- 604848 \<le> s" "- 36290880 \<le> s * 60" "- 36290880 \<le> v" "D \<le> r"
    using assms(1-4) by (simp_all add: r_def s_def v_def)
  have up: "v * 60 < K" using fit assms(5) by linarith
  moreover have "v < K" using up K by linarith
  moreover have "s * 60 < K" using \<open>v < K\<close> assms(4) by (simp add: v_def)
  moreover have "s < K" using \<open>s * 60 < K\<close> K by linarith
  moreover have "r * 24 < K" using \<open>s < K\<close> assms(3) by (simp add: s_def)
  moreover have "r + 1 < K" using \<open>r * 24 < K\<close> K by linarith
  moreover have "D + d = r + 1" by (simp add: r_def)
  ultimately show "long_ok A D" "long_ok A (D + d)" "long_ok A (D + d - 1)" "long_ok A ((D + d - 1) * 24)"
    "long_ok A ((D + d - 1) * 24 + h)" "long_ok A (((D + d - 1) * 24 + h) * 60)" "long_ok A (((D + d - 1) * 24 + h) * 60 + mi)"
    "long_ok A ((((D + d - 1) * 24 + h) * 60 + mi) * 60)" "long_ok A ((((D + d - 1) * 24 + h) * 60 + mi) * 60 + se)"
    using low K fit assms(1,5) unfolding r_def [symmetric] s_def [symmetric] v_def [symmetric] ok by linarith+
qed

text \<open>The operations up to the number of days are defined.\<close>

lemma leap_days_bounds:
  fixes y m :: nat
  assumes "1901 \<le> y"
  defines "z \<equiv> leap_count_year y m" and "d \<equiv> int y - 1970"
  shows "- 17 \<le> (z - 1968) sdiv 4" "0 \<le> d \<Longrightarrow> 0 \<le> (z - 1968) sdiv 4" "4 * ((z - 1968) sdiv 4) \<le> d + 69"
    "0 \<le> (z - 1900) sdiv 100" "100 * ((z - 1900) sdiv 100) \<le> d + 70" "0 \<le> (z - 1600) sdiv 400"
    "- 17 \<le> (int y - 1969) sdiv 4" "4 * ((int y - 1969) sdiv 4) \<le> d + 69"
proof -
  have z: "1900 \<le> z" "z \<le> int y" "int y - 1 \<le> z" "- 69 \<le> d" "int y = d + 1970"
    using assms(1) by (simp_all add: z_def leap_count_year_def d_def)
  have b: "(z - 1900) sdiv 100 = (z - 1900) div 100" "(z - 1600) sdiv 400 = (z - 1600) div 400"
    using z by (simp_all add: sdiv_pos)
  show "0 \<le> (z - 1900) sdiv 100" "100 * ((z - 1900) sdiv 100) \<le> d + 70" "0 \<le> (z - 1600) sdiv 400"
    unfolding b using z by (simp_all add: pos_imp_zdiv_nonneg_iff)
  have quarter: "- 17 \<le> x sdiv 4 \<and> (0 \<le> x \<longrightarrow> 0 \<le> x sdiv 4) \<and> 4 * (x sdiv 4) \<le> max 0 x" if "- 68 \<le> x" for x :: int
  proof (cases "0 \<le> x")
    case True
    then show ?thesis using that by (simp add: sdiv_pos pos_imp_zdiv_nonneg_iff) presburger
  qed (use that in \<open>simp add: sdiv_neg; presburger\<close>)
  show "- 17 \<le> (z - 1968) sdiv 4" "0 \<le> d \<Longrightarrow> 0 \<le> (z - 1968) sdiv 4" "4 * ((z - 1968) sdiv 4) \<le> d + 69"
    "- 17 \<le> (int y - 1969) sdiv 4" "4 * ((int y - 1969) sdiv 4) \<le> d + 69"
    using quarter [of "z - 1968"] quarter [of "int y - 1969"] z by auto
qed

lemma mktime_days_ok:
  assumes "1901 \<le> y" "m < 12" "86400 * mktime_days y m < 2 ^ (ptr_bits A - 1)"
  defines "z \<equiv> leap_count_year y m"
  shows "- 25202 \<le> mktime_days y m" "long_ok A (int y + 1)" "long_ok A (int y - 1)" "long_ok A (int y - 1970)"
    "long_ok A ((int y - 1970) * 365)" "long_ok A ((int y - 1970) * 365 + (int y - 1969) sdiv 4)"
    "long_ok A ((int y - 1970) * 365 + (int y - 1969) sdiv 4 + yearDays ! m)" "long_ok A ((int y - 1970) * 365 + yearDays ! m)"
    "long_ok A ((int y - 1970) * 365 + yearDays ! m + (z - 1968) sdiv 4)"
    "long_ok A ((int y - 1970) * 365 + yearDays ! m + (z - 1968) sdiv 4 - (z - 1900) sdiv 100)"
proof -
  define a b c q d u where "a = (z - 1968) sdiv 4" and "b = (z - 1900) sdiv 100" and "c = (z - 1600) sdiv 400"
    and "q = (int y - 1969) sdiv 4" and "d = int y - 1970" and "u = yearDays ! m"
  note quarters = leap_days_bounds(1-6) [OF assms(1), of m, folded z_def, folded a_def b_def c_def d_def]
    leap_days_bounds(7,8) [OF assms(1), folded q_def d_def]
  have u: "0 \<le> u" "u \<le> 334" using month_cases [OF assms(2)] by (auto simp: yearDays_def u_def)
  define D where "D = mktime_days y m"
  have D: "D = d * 365 + u + a - b + c" by (simp add: D_def mktime_days_def Let_def a_def b_def c_def d_def u_def z_def)
  define K where "K = (2::int) ^ (ptr_bits A - 1)"
  have K: "2147483648 \<le> K" by (cases A) (simp_all add: ptr_bits_def K_def)
  have ok: "long_ok A x \<longleftrightarrow> - K \<le> x \<and> x < K" for x by (simp add: long_ok_def K_def)
  have M: "86400 * D < K" using assms(3) by (simp add: D_def K_def)
  have d: "- 69 \<le> d" and y: "int y = d + 1970" using assms(1) by (simp_all add: d_def)
  have "D + D + 60000 < K" using M K by linarith
  then have bounds: "d * 365 + u + a + q < K" "d + 4000 < K" "d * 365 < K" "d * 365 + u < K" "d * 365 + q < K"
    "d * 365 + u + a < K" "d * 365 + q + u < K"
    using quarters u d K unfolding D by linarith+
  show "- 25202 \<le> mktime_days y m" using quarters u d unfolding D_def [symmetric] D by (cases "d < 0") auto
  show "long_ok A (int y + 1)" "long_ok A (int y - 1)" "long_ok A (int y - 1970)"
    "long_ok A ((int y - 1970) * 365)" "long_ok A ((int y - 1970) * 365 + (int y - 1969) sdiv 4)"
    "long_ok A ((int y - 1970) * 365 + (int y - 1969) sdiv 4 + yearDays ! m)" "long_ok A ((int y - 1970) * 365 + yearDays ! m)"
    "long_ok A ((int y - 1970) * 365 + yearDays ! m + (z - 1968) sdiv 4)"
    "long_ok A ((int y - 1970) * 365 + yearDays ! m + (z - 1968) sdiv 4 - (z - 1900) sdiv 100)"
    unfolding ok a_def [symmetric] b_def [symmetric] q_def [symmetric] d_def [symmetric] u_def [symmetric]
    using bounds K d u quarters y by linarith+
qed

lemma mktime_defined:
  assumes "tm_mon t mod 12 = int m" "tm_year t + 1900 + tm_mon t div 12 = int y" "1901 \<le> y"
    "1 \<le> tm_mday t" "0 \<le> tm_hour t" "0 \<le> tm_min t" "0 \<le> tm_sec t"
  defines "s \<equiv> calendar_seconds y m (tm_mday t) (tm_hour t) (tm_min t) (tm_sec t) + 86400 * days_late y m"
  assumes "s < 2 ^ (ptr_bits A - 1)" "- (2 ^ (ptr_bits A - 1)) \<le> s - tm_sec t"
  shows "mktime A (Some t) \<noteq> None"
proof -
  have m: "m < 12" using assms(1) pos_mod_bound [of 12 "tm_mon t"] by simp
  define z where "z = leap_count_year y m"
  define D where "D = mktime_days y m"
  have D: "D = (int y - 1970) * 365 + yearDays ! m + (z - 1968) sdiv 4 - (z - 1900) sdiv 100 + (z - 1600) sdiv 400"
    by (simp add: D_def z_def mktime_days_def Let_def)
  have s: "s = (((D + tm_mday t - 1) * 24 + tm_hour t) * 60 + tm_min t) * 60 + tm_sec t"
    using mktime_days_value [OF assms(3) m] by (simp add: s_def calendar_seconds_def D_def)
  have "86400 * D \<le> s" using assms(4-7) unfolding s by (simp add: algebra_simps)
  then have small: "86400 * D < 2 ^ (ptr_bits A - 1)" using assms(9) by linarith
  note days = mktime_days_ok [OF assms(3) m small [unfolded D_def], folded D_def z_def]
  note day = day_seconds_ok [OF days(1) assms(4-7), of A]
  have later: "tm_year t + 1901 + tm_mon t div 12 = int y + 1" "1901 \<le> tm_year t + 1900 + tm_mon t div 12"
    using assms(2,3) by simp_all
  have "mktime_month A t = Some (int m, int y)"
    using mktime_month_ok [of t A, OF later(2)] days(2) unfolding later(1) assms(1,2) by blast
  moreover have "(if int m \<le> 1 then lng A (int y - 1) else Some (int y)) = Some z"
    using days(3) by (simp add: z_def leap_count_year_def lng_ok)
  moreover have "long_ok A D" "long_ok A (D + tm_mday t)" "long_ok A (D + tm_mday t - 1)"
    "long_ok A ((D + tm_mday t - 1) * 24)" "long_ok A ((D + tm_mday t - 1) * 24 + tm_hour t)"
    "long_ok A (((D + tm_mday t - 1) * 24 + tm_hour t) * 60)"
    "long_ok A (((D + tm_mday t - 1) * 24 + tm_hour t) * 60 + tm_min t)"
    "long_ok A ((((D + tm_mday t - 1) * 24 + tm_hour t) * 60 + tm_min t) * 60)"
    "long_ok A ((((D + tm_mday t - 1) * 24 + tm_hour t) * 60 + tm_min t) * 60 + tm_sec t)"
    using day assms(9,10) unfolding s by simp_all
  ultimately show ?thesis
    using days(4-10) unfolding mktime_def option.case D
    by (simp only: lng_ok bind.bind_lunit prod.case nat_int) simp
qed

lemma mktime_fits:
  assumes "tm_mon t mod 12 = int m" "tm_year t + 1900 + tm_mon t div 12 = int y" "1970 \<le> y"
    "1 \<le> tm_mday t" "0 \<le> tm_hour t" "0 \<le> tm_min t" "0 \<le> tm_sec t"
    "calendar_seconds y m (tm_mday t) (tm_hour t) (tm_min t) (tm_sec t) < 2 ^ (ptr_bits A - 1)"
  shows "mktime A (Some t) = Some (calendar_seconds y m (tm_mday t) (tm_hour t) (tm_min t) (tm_sec t))"
proof -
  let ?s = "calendar_seconds y m (tm_mday t) (tm_hour t) (tm_min t) (tm_sec t)"
  have y: "1901 \<le> y" and m: "m < 12" using assms(3,1) pos_mod_bound [of 12 "tm_mon t"] by simp_all
  have "0 \<le> ?s - tm_sec t" using assms(3-7) by (simp add: calendar_seconds_def calendar_days_def)
  moreover have "- (2 ^ (ptr_bits A - 1)) \<le> (0::int)" by simp
  ultimately have "- (2 ^ (ptr_bits A - 1)) \<le> ?s - tm_sec t" by linarith
  then show ?thesis
    using mktime_defined [OF assms(1,2) y assms(4-7), of A] mktime_value [OF _ assms(1,2) y, of A] assms(8)
      mktime_days_after(2) [OF assms(3) m] by fastforce
qed

text \<open>
  C13. mktime, for a time of a year from 1901 on whose month may have any value, returns the seconds
  that a calendar counts year by year and month by month, negative before 1970 - but a day too many
  before 1968 if the leap years are counted up to a year that is no leap year, because the division
  truncates: 1967-06-01 is one day late.  When the value, or the value without its seconds, does not
  fit a long, the behaviour is undefined, which on i386 happens from 2038-01-19 03:14:08 on.
\<close>

theorem mktime_calendar:
  assumes "tm_mon t mod 12 = int m" "tm_year t + 1900 + tm_mon t div 12 = int y" "1901 \<le> y"
    "1 \<le> tm_mday t" "0 \<le> tm_hour t" "0 \<le> tm_min t" "0 \<le> tm_sec t"
  shows "mktime A (Some t) =
    (let z = (if m \<le> 1 then int y - 1 else int y);
         s = calendar_seconds y m (tm_mday t) (tm_hour t) (tm_min t) (tm_sec t) +
           (if z < 1968 \<and> \<not> 4 dvd z then 86400 else 0)
     in if - (2 ^ (ptr_bits A - 1)) \<le> s - tm_sec t \<and> s < 2 ^ (ptr_bits A - 1) then Some s else None)"
proof -
  define s where "s = calendar_seconds y m (tm_mday t) (tm_hour t) (tm_min t) (tm_sec t) + 86400 * days_late y m"
  have s: "s = calendar_seconds y m (tm_mday t) (tm_hour t) (tm_min t) (tm_sec t) +
      (if (if m \<le> 1 then int y - 1 else int y) < 1968 \<and> \<not> 4 dvd (if m \<le> 1 then int y - 1 else int y) then 86400 else 0)"
    by (simp add: s_def days_late_def leap_count_year_def)
  have "mktime A (Some t) = (if - (2 ^ (ptr_bits A - 1)) \<le> s - tm_sec t \<and> s < 2 ^ (ptr_bits A - 1) then Some s else None)"
  proof (cases "mktime A (Some t)")
    case None
    then show ?thesis using mktime_defined [OF assms, of A] by (auto simp: s_def)
  next
    case (Some r)
    then show ?thesis using mktime_value [OF Some assms(1-3)] by (auto simp: s_def long_ok_def)
  qed
  then show ?thesis by (simp only: s Let_def)
qed

definition tm_2038 :: "int \<Rightarrow> tm" where
  "tm_2038 s = \<lparr> tm_sec = s, tm_min = 14, tm_hour = 3, tm_mday = 19, tm_mon = 0, tm_year = 138,
     tm_wday = 2, tm_yday = 18, tm_isdst = 0 \<rparr>"

text \<open>1967-06-01: 945 days before 1970 by the calendar.\<close>

definition tm_1967 :: tm where
  "tm_1967 = \<lparr> tm_sec = 0, tm_min = 0, tm_hour = 0, tm_mday = 1, tm_mon = 5, tm_year = 67,
     tm_wday = 4, tm_yday = 151, tm_isdst = 0 \<rparr>"

theorem mktime_calendar_witness:
  "mktime I386 (Some (tm_2038 7)) = Some 0x7FFFFFFF \<and> mktime I386 (Some (tm_2038 8)) = None \<and>
   mktime I386 (Some tm_1967) = Some (- 944 * 86400) \<and> calendar_seconds 1967 5 1 0 0 0 = - 945 * 86400"
proof -
  have "days_of_years 68 = 24837"
    using days_of_years_formula [of 67] by simp
  moreover have "calendar_days 1967 5 = - 945"
    using days_of_months_table [of 5 1967] days_back_formula [of 3]
    by (simp add: calendar_days_def leap_year_def yearDays_def)
  ultimately show ?thesis
    using mktime_calendar [of "tm_2038 7" 0 2038 I386] mktime_calendar [of "tm_2038 8" 0 2038 I386]
      mktime_calendar [of tm_1967 5 1967 I386]
    by (simp add: tm_2038_def tm_1967_def calendar_seconds_def calendar_days_def ptr_bits_def)
qed

end
