(* ===== verification/XEOS_Clock.thy ===== *)
theory XEOS_Clock
  imports Complex_Main XEOS_IO XEOS_Time
begin

text \<open>
  The CMOS memory, the real time clock in it and the time of the system (source/core/xeos/hal/cmos,
  hal/nmi, hal/rtc, irq/XEOS_IRQ_RealTimeClock.c and system).

  All operations take the device that answers port reads.  The two loops that wait for the clock
  may run forever, so that the operations with a loop return an option; so do those that may
  overflow a long.
\<close>

definition CMOS_RegisterAddress :: u16 where "CMOS_RegisterAddress = 0x70"
definition CMOS_RegisterData :: u16 where "CMOS_RegisterData = 0x71"

lemmas cmos_consts = CMOS_RegisterAddress_def CMOS_RegisterData_def


section \<open>CMOS and non-maskable interrupts\<close>

text \<open>The counter of the loops has eight bits, as the length has, so that they end.\<close>

primrec cmos_read_loop :: "device \<Rightarrow> nat \<Rightarrow> nat \<Rightarrow> 'a io_scheme \<Rightarrow> u8 list \<times> 'a io_scheme" where
  "cmos_read_loop dev i 0 s = ([], s)"
| "cmos_read_loop dev i (Suc k) s =
     (let s1 = IO_Wait (IO_PortOut CMOS_RegisterAddress (of_nat i) s);
          (value, s2) = IO_PortIn dev CMOS_RegisterData s1;
          (r, s3) = cmos_read_loop dev (i + 1) k s2
      in (value # r, s3))"

definition CMOS_Read :: "device \<Rightarrow> u8 \<Rightarrow> 'a io_scheme \<Rightarrow> u8 list \<times> 'a io_scheme" where
  "CMOS_Read dev len s =
     (let interrupts = CPU_InterruptsEnabled s;
          s1 = (if interrupts then CPU_DisableInterrupts s else s);
          (r, s2) = cmos_read_loop dev 0 (unat len) s1
      in (r, if interrupts then CPU_EnableInterrupts s2 else s2))"

primrec cmos_write_loop :: "nat \<Rightarrow> u8 list \<Rightarrow> 'a io_scheme \<Rightarrow> 'a io_scheme" where
  "cmos_write_loop i [] s = s"
| "cmos_write_loop i (b # bs) s =
     cmos_write_loop (i + 1) bs
       (IO_PortOut CMOS_RegisterData b (IO_Wait (IO_PortOut CMOS_RegisterAddress (of_nat i) s)))"

text \<open>Reading behind the bytes is undefined.\<close>

definition CMOS_Write :: "u8 list \<Rightarrow> u8 \<Rightarrow> 'a io_scheme \<Rightarrow> 'a io_scheme option" where
  "CMOS_Write bs len s =
     (if length bs < unat len then None
      else
        let interrupts = CPU_InterruptsEnabled s;
            s1 = (if interrupts then CPU_DisableInterrupts s else s);
            s2 = cmos_write_loop 0 (take (unat len) bs) s1
        in Some (if interrupts then CPU_EnableInterrupts s2 else s2))"

definition NMI_Disable :: "device \<Rightarrow> 'a io_scheme \<Rightarrow> 'a io_scheme" where
  "NMI_Disable dev s =
     (let (v, s1) = IO_PortIn dev CMOS_RegisterAddress s in IO_PortOut CMOS_RegisterAddress (v OR 0x80) s1)"

definition NMI_Enable :: "device \<Rightarrow> 'a io_scheme \<Rightarrow> 'a io_scheme" where
  "NMI_Enable dev s =
     (let (v, s1) = IO_PortIn dev CMOS_RegisterAddress s in IO_PortOut CMOS_RegisterAddress (v AND 0x7F) s1)"


section \<open>The real time clock\<close>

record DateTime =
  dt_seconds :: u8
  dt_minutes :: u8
  dt_hours :: u8
  dt_weekday :: u8
  dt_dayOfMonth :: u8
  dt_month :: u8
  dt_year :: u8
  dt_century :: u8

datatype RTC_Register = RegSeconds | RegMinutes | RegHours | RegWeekDay | RegDayOfMonth | RegMonth
  | RegYear | RegCentury | RegStatusA | RegStatusB

fun rtc_index :: "RTC_Register \<Rightarrow> u8" where
  "rtc_index RegSeconds = 0x00" | "rtc_index RegMinutes = 0x02" | "rtc_index RegHours = 0x04"
| "rtc_index RegWeekDay = 0x06" | "rtc_index RegDayOfMonth = 0x07" | "rtc_index RegMonth = 0x08"
| "rtc_index RegYear = 0x09" | "rtc_index RegCentury = 0x32" | "rtc_index RegStatusA = 0x0A"
| "rtc_index RegStatusB = 0x0B"

definition RTC_ReadRegister :: "device \<Rightarrow> RTC_Register \<Rightarrow> 'a io_scheme \<Rightarrow> u8 \<times> 'a io_scheme" where
  "RTC_ReadRegister dev r s = IO_PortIn dev CMOS_RegisterData (IO_PortOut CMOS_RegisterAddress (rtc_index r) s)"

definition RTC_UpdateInProgress :: "device \<Rightarrow> 'a io_scheme \<Rightarrow> bool \<times> 'a io_scheme" where
  "RTC_UpdateInProgress dev s =
     (let (v, s1) = IO_PortIn dev CMOS_RegisterData (IO_PortOut CMOS_RegisterAddress 0x0A s) in (v AND 0x80 \<noteq> 0, s1))"

definition RTC_GetRate :: "device \<Rightarrow> 'a io_scheme \<Rightarrow> u8 \<times> 'a io_scheme" where
  "RTC_GetRate dev s =
     (let (v, s1) = IO_PortIn dev CMOS_RegisterData (IO_PortOut CMOS_RegisterAddress 0x0A s) in (v AND 0x0F, s1))"

definition RTC_SetRate :: "device \<Rightarrow> u8 \<Rightarrow> 'a io_scheme \<Rightarrow> 'a io_scheme" where
  "RTC_SetRate dev rate s =
     (let interrupts = CPU_InterruptsEnabled s;
          s1 = (if interrupts then CPU_DisableInterrupts s else s);
          rate1 = rate AND 0x0F;
          (v, s2) = IO_PortIn dev CMOS_RegisterData (IO_PortOut CMOS_RegisterAddress 0x0A s1);
          s3 = IO_PortOut CMOS_RegisterData ((v AND 0xF0) OR rate1) (IO_PortOut CMOS_RegisterAddress 0x0A s2)
      in if interrupts then CPU_EnableInterrupts s3 else s3)"

definition RTC_EnablePeriodicInterrupts :: "device \<Rightarrow> 'a io_scheme \<Rightarrow> 'a io_scheme" where
  "RTC_EnablePeriodicInterrupts dev s =
     (let interrupts = CPU_InterruptsEnabled s;
          s1 = (if interrupts then CPU_DisableInterrupts s else s);
          (v, s2) = IO_PortIn dev CMOS_RegisterData (IO_PortOut CMOS_RegisterAddress 0x0B s1);
          s3 = IO_PortOut CMOS_RegisterData (v OR 0x40) (IO_PortOut CMOS_RegisterAddress 0x0B s2)
      in if interrupts then CPU_EnableInterrupts s3 else s3)"

text \<open>The mask is the complement of 0xBF.\<close>

definition RTC_DisablePeriodicInterrupts :: "device \<Rightarrow> 'a io_scheme \<Rightarrow> 'a io_scheme" where
  "RTC_DisablePeriodicInterrupts dev s =
     (let interrupts = CPU_InterruptsEnabled s;
          s1 = (if interrupts then CPU_DisableInterrupts s else s);
          (v, s2) = IO_PortIn dev CMOS_RegisterData (IO_PortOut CMOS_RegisterAddress 0x0B s1);
          s3 = IO_PortOut CMOS_RegisterData (v AND NOT 0xBF) (IO_PortOut CMOS_RegisterAddress 0x0B s2)
      in if interrupts then CPU_EnableInterrupts s3 else s3)"

text \<open>A DateTimeRef is a pointer: the accessors and the setters test it for NULL.\<close>

definition dt_get :: "(DateTime \<Rightarrow> u8) \<Rightarrow> DateTime option \<Rightarrow> u8" where
  "dt_get f t = (case t of None \<Rightarrow> 0 | Some d \<Rightarrow> f d)"

definition DateTimeGetSeconds :: "DateTime option \<Rightarrow> u8" where "DateTimeGetSeconds = dt_get dt_seconds"
definition DateTimeGetMinutes :: "DateTime option \<Rightarrow> u8" where "DateTimeGetMinutes = dt_get dt_minutes"
definition DateTimeGetHours :: "DateTime option \<Rightarrow> u8" where "DateTimeGetHours = dt_get dt_hours"
definition DateTimeGetWeekday :: "DateTime option \<Rightarrow> u8" where "DateTimeGetWeekday = dt_get dt_weekday"
definition DateTimeGetDayOfMonth :: "DateTime option \<Rightarrow> u8" where "DateTimeGetDayOfMonth = dt_get dt_dayOfMonth"
definition DateTimeGetMonth :: "DateTime option \<Rightarrow> u8" where "DateTimeGetMonth = dt_get dt_month"
definition DateTimeGetYear :: "DateTime option \<Rightarrow> u8" where "DateTimeGetYear = dt_get dt_year"
definition DateTimeGetCentury :: "DateTime option \<Rightarrow> u8" where "DateTimeGetCentury = dt_get dt_century"

lemmas dt_getters = DateTimeGetSeconds_def DateTimeGetMinutes_def DateTimeGetHours_def
  DateTimeGetWeekday_def DateTimeGetDayOfMonth_def DateTimeGetMonth_def DateTimeGetYear_def
  DateTimeGetCentury_def

definition DateTimeSetSeconds :: "u8 \<Rightarrow> DateTime option \<Rightarrow> DateTime option" where
  "DateTimeSetSeconds v t = map_option (\<lambda>d. d\<lparr>dt_seconds := if 59 < v then 0 else v\<rparr>) t"
definition DateTimeSetMinutes :: "u8 \<Rightarrow> DateTime option \<Rightarrow> DateTime option" where
  "DateTimeSetMinutes v t = map_option (\<lambda>d. d\<lparr>dt_minutes := if 59 < v then 0 else v\<rparr>) t"
definition DateTimeSetHours :: "u8 \<Rightarrow> DateTime option \<Rightarrow> DateTime option" where
  "DateTimeSetHours v t = map_option (\<lambda>d. d\<lparr>dt_hours := if 23 < v then 0 else v\<rparr>) t"
definition DateTimeSetWeekday :: "u8 \<Rightarrow> DateTime option \<Rightarrow> DateTime option" where
  "DateTimeSetWeekday v t = map_option (\<lambda>d. d\<lparr>dt_weekday := if 6 < v then 0 else v\<rparr>) t"
definition DateTimeSetDayOfMonth :: "u8 \<Rightarrow> DateTime option \<Rightarrow> DateTime option" where
  "DateTimeSetDayOfMonth v t = map_option (\<lambda>d. d\<lparr>dt_dayOfMonth := if 31 < v then 0 else v\<rparr>) t"
definition DateTimeSetMonth :: "u8 \<Rightarrow> DateTime option \<Rightarrow> DateTime option" where
  "DateTimeSetMonth v t = map_option (\<lambda>d. d\<lparr>dt_month := if 12 < v then 0 else v\<rparr>) t"
definition DateTimeSetYear :: "u8 \<Rightarrow> DateTime option \<Rightarrow> DateTime option" where
  "DateTimeSetYear v t = map_option (\<lambda>d. d\<lparr>dt_year := v\<rparr>) t"
definition DateTimeSetCentury :: "u8 \<Rightarrow> DateTime option \<Rightarrow> DateTime option" where
  "DateTimeSetCentury v t = map_option (\<lambda>d. d\<lparr>dt_century := v\<rparr>) t"


section \<open>Reading the clock\<close>

text \<open>The eight reads, in the order of the source.\<close>

definition rtc_read_all :: "device \<Rightarrow> 'a io_scheme \<Rightarrow> DateTime \<times> 'a io_scheme" where
  "rtc_read_all dev s =
     (let (seconds, s1) = RTC_ReadRegister dev RegSeconds s;
          (minutes, s2) = RTC_ReadRegister dev RegMinutes s1;
          (hours, s3) = RTC_ReadRegister dev RegHours s2;
          (weekday, s4) = RTC_ReadRegister dev RegWeekDay s3;
          (dayOfMonth, s5) = RTC_ReadRegister dev RegDayOfMonth s4;
          (month, s6) = RTC_ReadRegister dev RegMonth s5;
          (year, s7) = RTC_ReadRegister dev RegYear s6;
          (century, s8) = RTC_ReadRegister dev RegCentury s7
      in (\<lparr> dt_seconds = seconds, dt_minutes = minutes, dt_hours = hours, dt_weekday = weekday,
            dt_dayOfMonth = dayOfMonth, dt_month = month, dt_year = year, dt_century = century \<rparr>, s8))"

text \<open>The condition of the loop that reads a second time: every field has changed.\<close>

definition all_differ :: "DateTime \<Rightarrow> DateTime \<Rightarrow> bool" where
  "all_differ d e \<longleftrightarrow> dt_seconds d \<noteq> dt_seconds e \<and> dt_minutes d \<noteq> dt_minutes e \<and> dt_hours d \<noteq> dt_hours e \<and>
     dt_weekday d \<noteq> dt_weekday e \<and> dt_dayOfMonth d \<noteq> dt_dayOfMonth e \<and> dt_month d \<noteq> dt_month e \<and>
     dt_year d \<noteq> dt_year e \<and> dt_century d \<noteq> dt_century e"

partial_function (option) rtc_wait :: "device \<Rightarrow> 'a io_scheme \<Rightarrow> 'a io_scheme option" where
  "rtc_wait dev s =
     (if fst (RTC_UpdateInProgress dev s) then rtc_wait dev (snd (RTC_UpdateInProgress dev s))
      else Some (snd (RTC_UpdateInProgress dev s)))"

partial_function (option) rtc_reread :: "device \<Rightarrow> DateTime \<Rightarrow> 'a io_scheme \<Rightarrow> 'a io_scheme option" where
  "rtc_reread dev d s =
     (if all_differ d (fst (rtc_read_all dev s)) then rtc_reread dev d (snd (rtc_read_all dev s))
      else Some (snd (rtc_read_all dev s)))"

definition bcd_to_bin :: "u8 \<Rightarrow> u8" where
  "bcd_to_bin v = (v AND 0x0F) + (v div 16) * 10"

definition bcd_hours :: "u8 \<Rightarrow> u8" where
  "bcd_hours v = ((v AND 0x0F) + ((v AND 0x70) div 16) * 10) OR (v AND 0x80)"

definition from_bcd :: "DateTime \<Rightarrow> DateTime" where
  "from_bcd d = \<lparr> dt_seconds = bcd_to_bin (dt_seconds d), dt_minutes = bcd_to_bin (dt_minutes d),
     dt_hours = bcd_hours (dt_hours d), dt_weekday = bcd_to_bin (dt_weekday d),
     dt_dayOfMonth = bcd_to_bin (dt_dayOfMonth d), dt_month = bcd_to_bin (dt_month d),
     dt_year = bcd_to_bin (dt_year d), dt_century = bcd_to_bin (dt_century d) \<rparr>"

definition to_24h :: "u8 \<Rightarrow> u8" where
  "to_24h h = ((h AND 0x7F) + 12) mod 24"

definition DateTimeGetSystemTime :: "device \<Rightarrow> 'a io_scheme \<Rightarrow> (DateTime \<times> 'a io_scheme) option" where
  "DateTimeGetSystemTime dev s =
     do { s1 \<leftarrow> rtc_wait dev s;
          let (d, s2) = rtc_read_all dev s1;
          s3 \<leftarrow> rtc_reread dev d s2;
          let (statusB, s4) = RTC_ReadRegister dev RegStatusB s3;
          let d1 = (if statusB AND 0x04 = 0 then from_bcd d else d);
          let d2 = (if statusB AND 0x02 = 0 \<and> dt_hours d1 AND 0x80 \<noteq> 0
                    then d1\<lparr>dt_hours := to_24h (dt_hours d1)\<rparr> else d1);
          Some (d2, s4) }"

text \<open>
  The conversion to a tm.  All fields are set, so that the old contents do not matter; the weekday
  comes from the day of the month, as in the source.
\<close>

definition rtc_leap :: "int \<Rightarrow> bool" where
  "rtc_leap y = (if y mod 4 \<noteq> 0 then False else if y mod 100 \<noteq> 0 then True else if y mod 400 \<noteq> 0 then False else True)"

definition rtc_yday :: "int \<Rightarrow> int \<Rightarrow> int \<Rightarrow> int" where
  "rtc_yday month day fullYear =
     (if month = 1 then day
      else if month = 2 then day + 31
      else
        let d = 31 + (if rtc_leap fullYear then 29 else 28)
        in if month = 3 then d + day
           else if month = 4 then d + day + 31
           else if month = 5 then d + day + 31 + 30
           else if month = 6 then d + day + 31 + 30 + 31
           else if month = 7 then d + day + 31 + 30 + 31 + 30
           else if month = 8 then d + day + 31 + 30 + 31 + 30 + 31
           else if month = 9 then d + day + 31 + 30 + 31 + 30 + 31 + 31
           else if month = 10 then d + day + 31 + 30 + 31 + 30 + 31 + 31 + 30
           else if month = 11 then d + day + 31 + 30 + 31 + 30 + 31 + 31 + 30 + 31
           else if month = 12 then d + day + 31 + 30 + 31 + 30 + 31 + 31 + 30 + 31 + 30
           else d)"

definition DateTimeGetTM :: "DateTime option \<Rightarrow> tm" where
  "DateTimeGetTM t =
     (let month = uint (DateTimeGetMonth t);
          day = uint (DateTimeGetDayOfMonth t);
          century = (if DateTimeGetCentury t = 0 then 19 else uint (DateTimeGetCentury t));
          fullYear = century * 100 + uint (DateTimeGetYear t)
      in \<lparr> tm_sec = uint (DateTimeGetSeconds t), tm_min = uint (DateTimeGetMinutes t),
           tm_hour = uint (DateTimeGetHours t), tm_mday = day,
           tm_mon = (if 0 < month then month - 1 else 0),
           tm_year = (if 1900 < fullYear then fullYear - 1900 else 0),
           tm_wday = day, tm_yday = rtc_yday month day fullYear, tm_isdst = 0 \<rparr>)"


section \<open>The time of the system\<close>

text \<open>
  The variables of XEOS_IRQ_RealTimeClock.c and __XEOS_System.c.  The milliseconds are a double; all
  values that are assigned are multiples of 125/128 below 2000 and exact.
\<close>

record clock = io +
  clk_count :: int
  clk_inited :: bool
  sys_timestamp :: int
  sys_milliseconds :: rat

definition RTC_FREQUENCY :: int where "RTC_FREQUENCY = 1024"

definition clock_boot :: clock where
  "clock_boot = \<lparr> io_trace = [], io_if = False, clk_count = 0, clk_inited = False, sys_timestamp = 0, sys_milliseconds = 0 \<rparr>"

definition rtc_start :: "arch \<Rightarrow> device \<Rightarrow> 'a clock_scheme \<Rightarrow> 'a clock_scheme option" where
  "rtc_start A dev s =
     do { let s1 = s\<lparr>clk_count := 0, clk_inited := True\<rparr>;
          (d, s2) \<leftarrow> DateTimeGetSystemTime dev s1;
          let time = DateTimeGetTM (Some d);
          ts \<leftarrow> mktime A (Some time);
          Some (s2\<lparr>sys_milliseconds := 0, sys_timestamp := ts\<rparr>) }"

definition rtc_tick :: "arch \<Rightarrow> 'a clock_scheme \<Rightarrow> 'a clock_scheme option" where
  "rtc_tick A s =
     (if clk_count s = RTC_FREQUENCY
      then do { ts \<leftarrow> lng A (sys_timestamp s + 1);
                Some (s\<lparr>clk_count := 0, sys_milliseconds := 0, sys_timestamp := ts\<rparr>) }
      else let c = clk_count s + 1
           in Some (s\<lparr>clk_count := c, sys_milliseconds := of_int c / of_int RTC_FREQUENCY * 1000\<rparr>))"

definition IRQ_RealTimeClock :: "arch \<Rightarrow> device \<Rightarrow> 'a clock_scheme \<Rightarrow> 'a clock_scheme option" where
  "IRQ_RealTimeClock A dev s =
     do { s1 \<leftarrow> (if \<not> clk_inited s then rtc_start A dev s else rtc_tick A s);
          Some (snd (IO_PortIn dev CMOS_RegisterData (IO_PortOut CMOS_RegisterAddress 0x0C s1))) }"

definition System_GetTime :: "'a clock_scheme \<Rightarrow> int" where "System_GetTime s = sys_timestamp s"

definition System_GetTimeMilliSeconds :: "'a clock_scheme \<Rightarrow> rat" where
  "System_GetTimeMilliSeconds s = sys_milliseconds s"

end
