(* ===== verification/XEOS_ClockProps.thy ===== *)
theory XEOS_ClockProps
  imports XEOS_Clock
begin

text \<open>
  Properties of the real time clock driver, on a clock that goes on while the code runs.

  The clock is given by two functions.  c has the contents of the CMOS memory at the start, and
  r t i is what the register i shows after the trace t of port accesses.
\<close>

section \<open>The registers behind the ports\<close>

text \<open>The register that is selected after a trace, and the values that were last stored.\<close>

definition cmos_state :: "(u8 \<Rightarrow> u8) \<Rightarrow> io_event list \<Rightarrow> u8 \<times> (u8 \<Rightarrow> u8)" where
  "cmos_state c t = indexed_regs CMOS_RegisterAddress CMOS_RegisterData 0x7F (0, c) t"

text \<open>
  Status register B and the registers from 0x0E on, with the century in 0x32, are ordinary memory.
  Bit 7 of status register A is set while the time is being updated, and can not be written.
\<close>

definition memory_cell :: "u8 \<Rightarrow> bool" where
  "memory_cell i \<longleftrightarrow> i = 0x0B \<or> 0x0E \<le> i \<and> i < 0x80"

definition cmos_settings :: "(u8 \<Rightarrow> u8) \<Rightarrow> io_event list \<Rightarrow> u8 \<Rightarrow> u8" where
  "cmos_settings c t = (snd (cmos_state c t))(0x0A := snd (cmos_state c t) 0x0A AND 0x7F)"

definition cmos_regs :: "(u8 \<Rightarrow> u8) \<Rightarrow> 'a io_scheme \<Rightarrow> u8 \<Rightarrow> u8" where
  "cmos_regs c s = cmos_settings c (io_trace s)"

definition updating :: "(io_event list \<Rightarrow> u8 \<Rightarrow> u8) \<Rightarrow> io_event list \<Rightarrow> bool" where
  "updating r t \<longleftrightarrow> r t 0x0A AND 0x80 \<noteq> 0"

text \<open>The trace after n reads of status register A, and selecting it once more.\<close>

primrec uip_poll :: "device \<Rightarrow> io_event list \<Rightarrow> nat \<Rightarrow> io_event list" where
  "uip_poll dev t 0 = t @ [PortWrite CMOS_RegisterAddress 0x0A]"
| "uip_poll dev t (Suc n) = uip_poll dev t n @
     [PortRead CMOS_RegisterData (dev (uip_poll dev t n) CMOS_RegisterData), PortWrite CMOS_RegisterAddress 0x0A]"

definition cmos_access :: "io_event \<Rightarrow> bool" where
  "cmos_access e \<longleftrightarrow> (case e of PortWrite p v \<Rightarrow> p = CMOS_RegisterAddress | PortRead p v \<Rightarrow> p = CMOS_RegisterData | _ \<Rightarrow> False)"

text \<open>
  What the hardware promises.  The data port shows the selected register; memory keeps what was
  stored; an update ends after some number of reads of the status; and when no update is in progress
  the registers of the time do not change for at least 244 microseconds, which are taken to be
  enough for the 17 accesses that read the eight registers once.
\<close>

definition cmos_device :: "(u8 \<Rightarrow> u8) \<Rightarrow> (io_event list \<Rightarrow> u8 \<Rightarrow> u8) \<Rightarrow> device \<Rightarrow> bool" where
  "cmos_device c r dev \<longleftrightarrow>
     (\<forall>t. dev t CMOS_RegisterData = r t (fst (cmos_state c t))) \<and>
     (\<forall>t i. memory_cell i \<longrightarrow> r t i = snd (cmos_state c t) i) \<and>
     (\<forall>t. r t 0x0A AND 0x7F = snd (cmos_state c t) 0x0A AND 0x7F) \<and>
     (\<forall>t. \<exists>n. \<not> updating r (uip_poll dev t n)) \<and>
     (\<forall>t u i. \<not> updating r t \<and> length u \<le> 17 \<and> list_all cmos_access u \<and> i < 0x0A \<longrightarrow> r (t @ u) i = r t i)"

lemma cmos_deviceD:
  assumes "cmos_device c r dev"
  shows "dev t CMOS_RegisterData = r t (fst (cmos_state c t))" "memory_cell i \<Longrightarrow> r t i = cmos_settings c t i"
    "r t 0x0A AND 0x7F = cmos_settings c t 0x0A" "\<exists>n. \<not> updating r (uip_poll dev t n)"
    "\<not> updating r t \<Longrightarrow> length u \<le> 17 \<Longrightarrow> list_all cmos_access u \<Longrightarrow> i < 0x0A \<Longrightarrow> r (t @ u) i = r t i"
  using assms by (auto simp: cmos_device_def cmos_settings_def memory_cell_def)

lemma read_selected:
  assumes "cmos_device c r dev"
  shows "fst (IO_PortIn dev CMOS_RegisterData (IO_PortOut CMOS_RegisterAddress i s)) =
      r (io_trace s @ [PortWrite CMOS_RegisterAddress i]) (i AND 0x7F)"
    "cmos_regs c (snd (IO_PortIn dev CMOS_RegisterData (IO_PortOut CMOS_RegisterAddress i s))) = cmos_regs c s"
    "io_if (snd (IO_PortIn dev CMOS_RegisterData (IO_PortOut CMOS_RegisterAddress i s))) = io_if s"
  using cmos_deviceD(1) [OF assms, of "io_trace s @ [PortWrite CMOS_RegisterAddress i]"]
  by (simp_all add: cmos_regs_def cmos_settings_def cmos_state_def io_simps cmos_consts)

lemma read_settings:
  assumes "cmos_device c r dev"
  shows "fst (IO_PortIn dev CMOS_RegisterData (IO_PortOut CMOS_RegisterAddress 0x0B s)) = cmos_regs c s 0x0B"
    "fst (IO_PortIn dev CMOS_RegisterData (IO_PortOut CMOS_RegisterAddress 0x0A s)) AND 0x7F = cmos_regs c s 0x0A"
proof -
  let ?t = "io_trace s @ [PortWrite CMOS_RegisterAddress 0x0B]" and ?u = "io_trace s @ [PortWrite CMOS_RegisterAddress 0x0A]"
  have k: "cmos_settings c ?t = cmos_regs c s" "cmos_settings c ?u = cmos_regs c s"
    by (simp_all add: cmos_regs_def cmos_settings_def cmos_state_def cmos_consts)
  show "fst (IO_PortIn dev CMOS_RegisterData (IO_PortOut CMOS_RegisterAddress 0x0B s)) = cmos_regs c s 0x0B"
    using cmos_deviceD(2) [OF assms, of "0x0B" ?t] by (simp add: read_selected [OF assms] memory_cell_def k)
  show "fst (IO_PortIn dev CMOS_RegisterData (IO_PortOut CMOS_RegisterAddress 0x0A s)) AND 0x7F = cmos_regs c s 0x0A"
    using cmos_deviceD(3) [OF assms, of ?u] by (simp add: read_selected [OF assms] k)
qed

lemma write_selected:
  "cmos_regs c (IO_PortOut CMOS_RegisterData v (IO_PortOut CMOS_RegisterAddress i s)) =
     (cmos_regs c s)(i AND 0x7F := if i AND 0x7F = 0x0A then v AND 0x7F else v)"
  "io_if (IO_PortOut CMOS_RegisterData v (IO_PortOut CMOS_RegisterAddress i s)) = io_if s"
  by (auto simp: cmos_regs_def cmos_settings_def cmos_state_def io_simps cmos_consts fun_eq_iff)

lemma interrupts_regs [simp]:
  "cmos_regs c (CPU_DisableInterrupts s) = cmos_regs c s" "cmos_regs c (CPU_EnableInterrupts s) = cmos_regs c s"
  by (simp_all add: cmos_regs_def cmos_settings_def cmos_state_def io_simps)

lemma nibble_join: "(((a::u8) AND 0xF0) OR (b AND 0x0F)) AND 0x0F = b AND 0x0F"
proof -
  have "((0xF0 :: u8) AND 0x0F) = 0" by simp
  then show ?thesis by (simp add: bit.conj_disj_distrib2 and.assoc)
qed

lemma rate_settings: "(((v :: u8) AND 0xF0) OR (rate AND 0x0F)) AND 0x7F = ((v AND 0x7F) AND 0xF0) OR (rate AND 0x0F)"
  by (rule bit_word_eqI) (auto simp: bit_simps numeral_eq_Suc less_Suc_eq bit_numeral_rec)

lemma rtc_registers_set:
  assumes "cmos_device c r dev"
  shows "cmos_regs c (RTC_SetRate dev rate s) = (cmos_regs c s)(0x0A := (cmos_regs c s 0x0A AND 0xF0) OR (rate AND 0x0F))"
    "cmos_regs c (RTC_EnablePeriodicInterrupts dev s) = (cmos_regs c s)(0x0B := cmos_regs c s 0x0B OR 0x40)"
    "cmos_regs c (RTC_DisablePeriodicInterrupts dev s) = (cmos_regs c s)(0x0B := cmos_regs c s 0x0B AND 0x40)"
proof -
  note facts = read_selected(2,3) [OF assms] read_settings [OF assms] write_selected rate_settings
  show "cmos_regs c (RTC_SetRate dev rate s) = (cmos_regs c s)(0x0A := (cmos_regs c s 0x0A AND 0xF0) OR (rate AND 0x0F))"
    by (auto simp: RTC_SetRate_def Let_def case_prod_beta facts)
  show "cmos_regs c (RTC_EnablePeriodicInterrupts dev s) = (cmos_regs c s)(0x0B := cmos_regs c s 0x0B OR 0x40)"
    by (auto simp: RTC_EnablePeriodicInterrupts_def Let_def case_prod_beta facts)
  have mask: "(NOT 0xBF :: u8) = 0x40" by simp
  show "cmos_regs c (RTC_DisablePeriodicInterrupts dev s) = (cmos_regs c s)(0x0B := cmos_regs c s 0x0B AND 0x40)"
    unfolding RTC_DisablePeriodicInterrupts_def mask by (auto simp: Let_def case_prod_beta facts)
qed

lemma rtc_registers_if [simp]:
  "io_if (RTC_SetRate dev rate s) = io_if s" "io_if (RTC_EnablePeriodicInterrupts dev s) = io_if s"
  "io_if (RTC_DisablePeriodicInterrupts dev s) = io_if s"
  by (auto simp: RTC_SetRate_def RTC_EnablePeriodicInterrupts_def RTC_DisablePeriodicInterrupts_def Let_def
      case_prod_beta io_simps)

text \<open>
  On such a clock, setting the rate changes the low half of status register A to the rate and
  nothing else, so that the rate that is read back is the low half of the argument; enabling
  periodic interrupts sets bit 6 of status register B and changes nothing else.  Disabling them
  does not clear this bit but keeps it and clears all others, so that the interrupts stay enabled
  and the clock leaves the 24 hour mode and the binary mode.  All leave the interrupt flag of the
  processor as it was.
\<close>

theorem rtc_set_registers:
  assumes "cmos_device c r dev"
  shows "let s1 = RTC_SetRate dev rate s; s2 = RTC_EnablePeriodicInterrupts dev s; s3 = RTC_DisablePeriodicInterrupts dev s in
    cmos_regs c s1 = (cmos_regs c s)(0x0A := (cmos_regs c s 0x0A AND 0xF0) OR (rate AND 0x0F)) \<and>
    fst (RTC_GetRate dev s1) = rate AND 0x0F \<and> io_if s1 = io_if s \<and>
    cmos_regs c s2 = (cmos_regs c s)(0x0B := cmos_regs c s 0x0B OR 0x40) \<and> io_if s2 = io_if s \<and>
    cmos_regs c s3 = (cmos_regs c s)(0x0B := cmos_regs c s 0x0B AND 0x40) \<and> io_if s3 = io_if s"
proof -
  have low: "v AND 0x0F = (v AND 0x7F) AND 0x0F" for v :: u8 by (simp add: and.assoc)
  have "fst (RTC_GetRate dev s) = cmos_regs c s 0x0A AND 0x0F" for s :: "'a io_scheme"
    by (simp add: RTC_GetRate_def case_prod_beta) (subst low, simp add: read_settings [OF assms])
  then have "fst (RTC_GetRate dev (RTC_SetRate dev rate s)) = rate AND 0x0F"
    by (simp add: rtc_registers_set [OF assms] nibble_join)
  then show ?thesis by (simp add: Let_def rtc_registers_set [OF assms])
qed


section \<open>Reading the time\<close>

definition dt_of_regs :: "(u8 \<Rightarrow> u8) \<Rightarrow> DateTime" where
  "dt_of_regs f = \<lparr> dt_seconds = f 0x00, dt_minutes = f 0x02, dt_hours = f 0x04, dt_weekday = f 0x06,
     dt_dayOfMonth = f 0x07, dt_month = f 0x08, dt_year = f 0x09, dt_century = f 0x32 \<rparr>"

text \<open>The other fields of a state are kept.\<close>

lemma clock_io_keeps [simp]:
  "io.more (IO_PortOut p v s) = io.more s" "io.more (snd (IO_PortIn dev p s)) = io.more s"
  by (cases s; simp add: io_simps)+

text \<open>
  A step that accesses the registers without writing one: it adds accesses to the trace and changes
  nothing else.
\<close>

definition cmos_reads :: "nat \<Rightarrow> 'a io_scheme \<Rightarrow> 'a io_scheme \<Rightarrow> bool" where
  "cmos_reads n s s' \<longleftrightarrow> io.more s' = io.more s \<and>
     (\<exists>u. io_trace s' = io_trace s @ u \<and> length u = n \<and> list_all cmos_access u)"

lemma cmos_reads_refl: "cmos_reads 0 s s"
  by (simp add: cmos_reads_def)

lemma cmos_reads_trans: "cmos_reads m s s1 \<Longrightarrow> cmos_reads n s1 s2 \<Longrightarrow> cmos_reads (m + n) s s2"
  unfolding cmos_reads_def by (elim conjE exE, rule conjI, simp, rule_tac x = "u @ ua" in exI) simp

lemma access_settings: "list_all cmos_access u \<Longrightarrow> cmos_settings c (t @ u) = cmos_settings c t"
proof -
  assume "list_all cmos_access u"
  then have "snd (indexed_regs 0x70 0x71 0x7F x u) = snd x" for x
    by (induction u arbitrary: x rule: port_writes.induct) (auto simp: cmos_access_def cmos_consts split: io_event.splits)
  then show ?thesis by (simp add: cmos_settings_def cmos_state_def cmos_consts)
qed

lemma cmos_reads_settings: "cmos_reads n s s' \<Longrightarrow> cmos_regs c s' = cmos_regs c s"
  by (auto simp: cmos_reads_def cmos_regs_def access_settings)

lemma select_read: "cmos_reads 2 s (snd (IO_PortIn dev CMOS_RegisterData (IO_PortOut CMOS_RegisterAddress i s)))"
  by (simp add: cmos_reads_def) (simp add: io_simps cmos_access_def)

lemma ReadRegister_reads: "cmos_reads 2 s (snd (RTC_ReadRegister dev g s))"
  unfolding RTC_ReadRegister_def by (rule select_read)

lemma read_all_reads: "cmos_reads 16 s (snd (rtc_read_all dev s))"
proof -
  have step: "cmos_reads (k + 2) s (snd (RTC_ReadRegister dev g s1))" if "cmos_reads k s s1" for k g s1
    using cmos_reads_trans [OF that ReadRegister_reads] .
  note steps = step [OF step [OF step [OF step [OF step [OF step [OF step [OF step [OF cmos_reads_refl]]]]]]]]
  show ?thesis using steps [of RegCentury RegYear RegMonth RegDayOfMonth RegWeekDay RegHours RegMinutes RegSeconds]
    by (simp add: rtc_read_all_def Let_def case_prod_beta numeral_eq_Suc)
qed

text \<open>
  Reading a register of the time within the window that follows a moment t at which no update was in
  progress gives what the clock showed at that moment.  The century is memory.
\<close>

definition in_window :: "(io_event list \<Rightarrow> u8 \<Rightarrow> u8) \<Rightarrow> io_event list \<Rightarrow> nat \<Rightarrow> 'a io_scheme \<Rightarrow> bool" where
  "in_window r t n s \<longleftrightarrow> \<not> updating r t \<and> (\<exists>u. io_trace s = t @ u \<and> length u = n \<and> list_all cmos_access u)"

lemma in_window_reads: "in_window r t m s \<Longrightarrow> cmos_reads n s s' \<Longrightarrow> in_window r t (m + n) s'"
  unfolding in_window_def cmos_reads_def by auto

fun time_register :: "RTC_Register \<Rightarrow> bool" where
  "time_register RegStatusA = False"
| "time_register RegStatusB = False"
| "time_register _ = True"

lemma window_register:
  assumes "cmos_device c r dev" "in_window r t n s" "n \<le> 16" "time_register g"
  shows "fst (RTC_ReadRegister dev g s) = r t (rtc_index g)"
proof -
  obtain u where u: "io_trace s = t @ u" "length u = n" "list_all cmos_access u" "\<not> updating r t"
    using assms(2) by (auto simp: in_window_def)
  let ?u = "u @ [PortWrite CMOS_RegisterAddress (rtc_index g)]"
  have acc: "list_all cmos_access ?u" using u(3) by (simp add: cmos_access_def)
  have "r (t @ ?u) (rtc_index g) = r t (rtc_index g)"
  proof (cases "g = RegCentury")
    case True
    then have "memory_cell (rtc_index g)" by (simp add: memory_cell_def)
    then show ?thesis using cmos_deviceD(2) [OF assms(1)] access_settings [OF acc] by metis
  next
    case False
    then have "rtc_index g < 0x0A" using assms(4) by (cases g) simp_all
    then show ?thesis using cmos_deviceD(5) [OF assms(1) u(4) _ acc] u(2) assms(3) by simp
  qed
  moreover have "rtc_index g AND 0x7F = rtc_index g" by (cases g) simp_all
  ultimately show ?thesis by (simp add: RTC_ReadRegister_def read_selected(1) [OF assms(1)] u(1))
qed

lemma window_read_all:
  assumes "cmos_device c r dev" "in_window r t 1 s"
  shows "fst (rtc_read_all dev s) = dt_of_regs (r t)"
proof -
  have step: "in_window r t (n + 2) (snd (RTC_ReadRegister dev g s1))" if "in_window r t n s1" for n g s1
    using in_window_reads [OF that ReadRegister_reads] .
  define w1 where "w1 = snd (RTC_ReadRegister dev RegSeconds s)"
  define w2 where "w2 = snd (RTC_ReadRegister dev RegMinutes w1)"
  define w3 where "w3 = snd (RTC_ReadRegister dev RegHours w2)"
  define w4 where "w4 = snd (RTC_ReadRegister dev RegWeekDay w3)"
  define w5 where "w5 = snd (RTC_ReadRegister dev RegDayOfMonth w4)"
  define w6 where "w6 = snd (RTC_ReadRegister dev RegMonth w5)"
  define w7 where "w7 = snd (RTC_ReadRegister dev RegYear w6)"
  have w: "in_window r t 3 w1" "in_window r t 5 w2" "in_window r t 7 w3" "in_window r t 9 w4" "in_window r t 11 w5"
    "in_window r t 13 w6" "in_window r t 15 w7"
    using step [OF assms(2), of RegSeconds] step [of 3 w1 RegMinutes] step [of 5 w2 RegHours] step [of 7 w3 RegWeekDay]
      step [of 9 w4 RegDayOfMonth] step [of 11 w5 RegMonth] step [of 13 w6 RegYear]
    by (simp_all add: numeral_eq_Suc flip: w1_def w2_def w3_def w4_def w5_def w6_def w7_def)
  note reg = window_register [OF assms(1)]
  have "fst (RTC_ReadRegister dev RegSeconds s) = r t 0x00" "fst (RTC_ReadRegister dev RegMinutes w1) = r t 0x02"
    "fst (RTC_ReadRegister dev RegHours w2) = r t 0x04" "fst (RTC_ReadRegister dev RegWeekDay w3) = r t 0x06"
    "fst (RTC_ReadRegister dev RegDayOfMonth w4) = r t 0x07" "fst (RTC_ReadRegister dev RegMonth w5) = r t 0x08"
    "fst (RTC_ReadRegister dev RegYear w6) = r t 0x09" "fst (RTC_ReadRegister dev RegCentury w7) = r t 0x32"
    by (simp_all add: reg [OF assms(2)] reg [OF w(1)] reg [OF w(2)] reg [OF w(3)] reg [OF w(4)] reg [OF w(5)] reg [OF w(6)] reg [OF w(7)])
  then show ?thesis
    by (simp add: rtc_read_all_def Let_def case_prod_beta dt_of_regs_def flip: w1_def w2_def w3_def w4_def w5_def w6_def w7_def)
qed

text \<open>The wait for the end of an update returns right after a moment at which none is in progress.\<close>

lemma UpdateInProgress_eq:
  assumes "cmos_device c r dev"
  shows "RTC_UpdateInProgress dev s = (updating r (uip_poll dev (io_trace s) 0),
    s\<lparr>io_trace := uip_poll dev (io_trace s) 0 @ [PortRead CMOS_RegisterData (dev (uip_poll dev (io_trace s) 0) CMOS_RegisterData)]\<rparr>)"
proof -
  let ?t = "io_trace s @ [PortWrite CMOS_RegisterAddress 0x0A]"
  have "fst (cmos_state c ?t) = 0x0A" by (simp add: cmos_state_def cmos_consts)
  then have "dev ?t CMOS_RegisterData = r ?t 0x0A" using cmos_deviceD(1) [OF assms, of ?t] by simp
  then show ?thesis by (simp add: RTC_UpdateInProgress_def io_simps updating_def)
qed

lemma uip_poll_shift:
  "uip_poll dev (uip_poll dev t 0 @ [PortRead CMOS_RegisterData (dev (uip_poll dev t 0) CMOS_RegisterData)]) n = uip_poll dev t (Suc n)"
  by (induction n) simp_all

lemma rtc_wait_returns:
  assumes "cmos_device c r dev" "\<not> updating r (uip_poll dev (io_trace s) n)" "\<forall>i < n. updating r (uip_poll dev (io_trace s) i)"
  shows "\<exists>s1 t. rtc_wait dev s = Some s1 \<and> in_window r t 1 s1 \<and> (\<exists>m. cmos_reads m s s1) \<and> (\<exists>u. t = io_trace s @ u)"
  using assms(2,3)
proof (induction n arbitrary: s)
  case 0
  define t where "t = uip_poll dev (io_trace s) 0"
  define s1 where "s1 = s\<lparr>io_trace := t @ [PortRead CMOS_RegisterData (dev t CMOS_RegisterData)]\<rparr>"
  have "rtc_wait dev s = Some s1"
    using 0 by (subst rtc_wait.simps) (simp add: UpdateInProgress_eq [OF assms(1)] s1_def t_def)
  moreover have "in_window r t 1 s1" using 0 by (simp add: in_window_def s1_def t_def cmos_access_def)
  moreover have "cmos_reads 2 s s1" by (cases s) (simp add: cmos_reads_def s1_def t_def cmos_access_def)
  ultimately show ?case by (intro exI [of _ s1] exI [of _ t]) (auto simp: t_def)
next
  case (Suc n)
  define s1 where "s1 = s\<lparr>io_trace := uip_poll dev (io_trace s) 0 @ [PortRead CMOS_RegisterData (dev (uip_poll dev (io_trace s) 0) CMOS_RegisterData)]\<rparr>"
  have poll: "uip_poll dev (io_trace s1) i = uip_poll dev (io_trace s) (Suc i)" for i
    unfolding uip_poll_shift [symmetric] by (simp add: s1_def)
  have "updating r (uip_poll dev (io_trace s) 0)" using Suc.prems(2) by blast
  then have "rtc_wait dev s = rtc_wait dev s1"
    by (subst rtc_wait.simps) (simp add: UpdateInProgress_eq [OF assms(1)] s1_def)
  moreover have "cmos_reads 2 s s1" by (cases s) (simp add: cmos_reads_def s1_def cmos_access_def)
  moreover obtain s2 t where "rtc_wait dev s1 = Some s2" "in_window r t 1 s2" "\<exists>m. cmos_reads m s1 s2" "\<exists>u. t = io_trace s1 @ u"
  proof -
    have "\<not> updating r (uip_poll dev (io_trace s1) n)" using Suc.prems(1) unfolding poll .
    moreover have "\<forall>i < n. updating r (uip_poll dev (io_trace s1) i)"
      using Suc.prems(2) by (auto simp: poll simp del: uip_poll.simps)
    ultimately show ?thesis using Suc.IH [of s1] that by blast
  qed
  ultimately show ?case using cmos_reads_trans
    by (intro exI [of _ s2] exI [of _ t]) (fastforce simp: s1_def)
qed

lemma same_century: "dt_century d = dt_century e \<Longrightarrow> \<not> all_differ d e"
  by (simp add: all_differ_def)

lemma GetSystemTime_eq:
  assumes dev: "cmos_device c r dev"
  shows "\<exists>s' t. DateTimeGetSystemTime dev s =
      Some (let B = cmos_regs c s 0x0B; d = dt_of_regs (r t); d1 = (if B AND 0x04 = 0 then from_bcd d else d)
            in if B AND 0x02 = 0 \<and> dt_hours d1 AND 0x80 \<noteq> 0 then d1\<lparr>dt_hours := to_24h (dt_hours d1)\<rparr> else d1, s') \<and>
    (\<exists>n. cmos_reads n s s') \<and> \<not> updating r t \<and> (\<exists>u w. t = io_trace s @ u \<and> io_trace s' = t @ w) \<and>
    cmos_settings c t = cmos_regs c s"
proof -
  obtain n where "\<not> updating r (uip_poll dev (io_trace s) n)" "\<forall>i < n. updating r (uip_poll dev (io_trace s) i)"
    using cmos_deviceD(4) [OF dev, of "io_trace s"] exists_least_iff [of "\<lambda>n. \<not> updating r (uip_poll dev (io_trace s) n)"] by blast
  from rtc_wait_returns [OF dev this] obtain s1 t m where wait: "rtc_wait dev s = Some s1" "in_window r t 1 s1" "cmos_reads m s s1"
    "\<exists>u. t = io_trace s @ u" by blast
  define d where "d = dt_of_regs (r t)"
  define s2 where "s2 = snd (rtc_read_all dev s1)"
  have r2: "fst (rtc_read_all dev s1) = d" by (simp add: d_def window_read_all [OF dev wait(2)])
  have c2: "cmos_reads (m + 16) s s2" using cmos_reads_trans [OF wait(3) read_all_reads] by (simp add: s2_def)
  define s3 where "s3 = snd (rtc_read_all dev s2)"
  have c3: "cmos_reads (m + 16 + 16) s s3" unfolding s3_def by (rule cmos_reads_trans [OF c2 read_all_reads])
  obtain u where u: "io_trace s1 = t @ u" "list_all cmos_access u" using wait(2) by (auto simp: in_window_def)
  have t: "cmos_settings c t = cmos_regs c s"
    using cmos_reads_settings [OF wait(3), of c] access_settings [OF u(2), of c t] by (simp add: cmos_regs_def u(1))
  have cell: "memory_cell 0x32" "memory_cell 0x0B" by (simp_all add: memory_cell_def)
  have century: "r v 0x32 = r t 0x32" if "cmos_settings c v = cmos_settings c t" for v
    using cmos_deviceD(2) [OF dev cell(1)] that by metis
  have "dt_century (fst (rtc_read_all dev s2)) = r t 0x32"
  proof -
    define w where "w = snd (RTC_ReadRegister dev RegYear (snd (RTC_ReadRegister dev RegMonth (snd (RTC_ReadRegister dev RegDayOfMonth
      (snd (RTC_ReadRegister dev RegWeekDay (snd (RTC_ReadRegister dev RegHours (snd (RTC_ReadRegister dev RegMinutes
      (snd (RTC_ReadRegister dev RegSeconds s2)))))))))))))"
    have "cmos_regs c (snd (RTC_ReadRegister dev g w)) = cmos_regs c w" for g and w :: "'a io_scheme"
      by (rule cmos_reads_settings [OF ReadRegister_reads])
    then have "cmos_regs c w = cmos_regs c s2" by (simp add: w_def)
    also have "\<dots> = cmos_settings c t" using cmos_reads_settings [OF c2] by (simp add: t)
    finally have "cmos_settings c (io_trace w @ [PortWrite CMOS_RegisterAddress 0x32]) = cmos_settings c t"
      using access_settings [of "[PortWrite CMOS_RegisterAddress 0x32]" c "io_trace w"] by (simp add: cmos_access_def cmos_regs_def)
    from century [OF this] have "fst (RTC_ReadRegister dev RegCentury w) = r t 0x32"
      by (simp add: RTC_ReadRegister_def read_selected(1) [OF dev])
    then show ?thesis by (simp add: rtc_read_all_def Let_def case_prod_beta flip: w_def)
  qed
  then have r3: "rtc_reread dev d s2 = Some s3"
    by (subst rtc_reread.simps) (simp add: s3_def same_century d_def dt_of_regs_def)
  have B: "fst (RTC_ReadRegister dev RegStatusB s3) = cmos_regs c s 0x0B"
    using read_settings(1) [OF dev, of s3] cmos_reads_settings [OF c3, of c] by (simp add: RTC_ReadRegister_def)
  define s4 where "s4 = snd (RTC_ReadRegister dev RegStatusB s3)"
  have "cmos_reads (16 + 16 + 2) s1 s4"
    unfolding s4_def s3_def s2_def by (rule cmos_reads_trans [OF cmos_reads_trans [OF read_all_reads read_all_reads] ReadRegister_reads])
  then obtain w where w: "io_trace s4 = io_trace s1 @ w" by (auto simp: cmos_reads_def)
  have c4: "cmos_reads (m + 16 + 16 + 2) s s4" unfolding s4_def by (rule cmos_reads_trans [OF c3 ReadRegister_reads])
  have "\<not> updating r t" using wait(2) by (simp add: in_window_def)
  moreover have "DateTimeGetSystemTime dev s =
      Some (let B = cmos_regs c s 0x0B; d1 = (if B AND 0x04 = 0 then from_bcd d else d)
            in if B AND 0x02 = 0 \<and> dt_hours d1 AND 0x80 \<noteq> 0 then d1\<lparr>dt_hours := to_24h (dt_hours d1)\<rparr> else d1, s4)"
    using r3 by (simp add: DateTimeGetSystemTime_def wait case_prod_beta Let_def r2 B s4_def flip: s2_def)
  ultimately show ?thesis
    using c4 wait(4) w u(1) t by (intro exI [of _ s4] exI [of _ t]) (auto simp: d_def Let_def)
qed


section \<open>The time of day\<close>

text \<open>
  In the 12 hour mode the driver turns noon (12 with the bit for the afternoon) into midnight and
  leaves midnight (12 without the bit) as noon.
\<close>

lemma twelve_hour_mode: "to_24h (bcd_hours 0x92) = 0" "bcd_hours 0x12 = 12" "bcd_hours 0x12 AND 0x80 = 0"
  by (simp_all add: to_24h_def bcd_hours_def)

text \<open>
  A second read of the clock is not repeated unless all eight fields have changed: one that is torn
  between two values is accepted.
\<close>

lemma torn_read_accepted:
  "fst (rtc_read_all dev s) \<noteq> d \<Longrightarrow> dt_century (fst (rtc_read_all dev s)) = dt_century d \<Longrightarrow>
    rtc_reread dev d s = Some (snd (rtc_read_all dev s))"
  by (subst rtc_reread.simps) (simp add: all_differ_def)

text \<open>How a number below 100 is held in a register: in binary, or in two decimal digits.\<close>

definition clock_code :: "u8 \<Rightarrow> nat \<Rightarrow> u8" where
  "clock_code B n = (if B AND 0x04 = 0 then of_nat (16 * (n div 10) + n mod 10) else of_nat n)"

definition clock_shows :: "(u8 \<Rightarrow> u8) \<Rightarrow> nat \<Rightarrow> nat \<Rightarrow> nat \<Rightarrow> nat \<Rightarrow> nat \<Rightarrow> nat \<Rightarrow> bool" where
  "clock_shows f y mon d h mi se \<longleftrightarrow>
     (let c = clock_code (f 0x0B)
      in f 0x00 = c se \<and> f 0x02 = c mi \<and> f 0x04 = c h \<and> f 0x07 = c d \<and> f 0x08 = c mon \<and>
         f 0x09 = c (y mod 100) \<and> f 0x32 = c (y div 100))"

lemma nibbles: "unat ((v :: u8) AND 0x0F) = unat v mod 16" "unat (v div 16) = unat v div 16"
proof -
  have "v AND 0x0F = take_bit 4 v" by (simp add: take_bit_eq_mask mask_eq_exp_minus_1)
  then have "unat (v AND 0x0F) = take_bit 4 (unat v)" by (simp only: unsigned_take_bit_eq)
  then show "unat (v AND 0x0F) = unat v mod 16" by (simp add: take_bit_eq_mod)
  show "unat (v div 16) = unat v div 16" by (simp add: unat_div_distrib)
qed

lemma bcd_number: "n < 100 \<Longrightarrow> unat (of_nat (16 * (n div 10) + n mod 10) :: u8) = 16 * (n div 10) + n mod 10"
  by (rule unat_of_nat_u8) linarith

lemma bcd_roundtrip:
  assumes "n < 100"
  shows "unat (bcd_to_bin (of_nat (16 * (n div 10) + n mod 10))) = n"
proof -
  define v :: u8 where "v = of_nat (16 * (n div 10) + n mod 10)"
  have v: "unat v = 16 * (n div 10) + n mod 10" unfolding v_def by (rule bcd_number [OF assms])
  have "unat (v AND 0x0F) = n mod 10" "unat (v div 16) = n div 10" unfolding nibbles v by simp_all
  moreover have "n mod 10 + n div 10 * 10 < 256" using assms by simp
  ultimately have "unat (bcd_to_bin v) = n mod 10 + n div 10 * 10"
    unfolding bcd_to_bin_def by (simp add: unat_word_ariths)
  then show ?thesis by (simp add: v_def)
qed

lemma hour_cases: "h < 24 \<Longrightarrow> h \<in> {0,1,2,3,4,5,6,7,8,9,10,11,12,13,14,15,16,17,18,19,20,21,22,23::nat}"
  unfolding insert_iff empty_iff by presburger

lemma bcd_hours_roundtrip: "h < 24 \<Longrightarrow> unat (bcd_hours (of_nat (16 * (h div 10) + h mod 10))) = h"
  by (drule hour_cases) (auto simp: bcd_hours_def)

text \<open>The date and time that the driver reads from a clock in 24 hour mode.\<close>

definition dt_is :: "DateTime \<Rightarrow> nat \<Rightarrow> nat \<Rightarrow> nat \<Rightarrow> nat \<Rightarrow> nat \<Rightarrow> nat \<Rightarrow> bool" where
  "dt_is e y mon d h mi se \<longleftrightarrow> unat (dt_seconds e) = se \<and> unat (dt_minutes e) = mi \<and> unat (dt_hours e) = h \<and>
     unat (dt_dayOfMonth e) = d \<and> unat (dt_month e) = mon \<and> unat (dt_year e) = y mod 100 \<and> unat (dt_century e) = y div 100"

lemma decode_shown:
  assumes "clock_shows f y mon d h mi se" "se < 60" "mi < 60" "h < 24" "d < 32" "mon \<le> 12" "y < 10000"
  shows "dt_is (if f 0x0B AND 0x04 = 0 then from_bcd (dt_of_regs f) else dt_of_regs f) y mon d h mi se"
proof (cases "f 0x0B AND 0x04 = 0")
  case True
  then show ?thesis
    using assms bcd_roundtrip bcd_hours_roundtrip
    by (simp add: clock_shows_def clock_code_def Let_def dt_is_def from_bcd_def dt_of_regs_def)
next
  case False
  have small: "n < 100 \<Longrightarrow> unat (of_nat n :: u8) = n" for n by (rule unat_of_nat_u8) simp
  show ?thesis
    using False assms(1-7) small [of se] small [of mi] small [of h] small [of d] small [of mon] small [of "y mod 100"] small [of "y div 100"]
    by (simp add: clock_shows_def clock_code_def Let_def dt_is_def dt_of_regs_def)
qed

lemma GetTM_of_dt:
  assumes "dt_is e y mon d h mi se" "1970 \<le> y" "1 \<le> mon"
  shows "let t = DateTimeGetTM (Some e) in tm_sec t = int se \<and> tm_min t = int mi \<and> tm_hour t = int h \<and>
    tm_mday t = int d \<and> tm_mon t = int mon - 1 \<and> tm_year t = int y - 1900"
proof -
  have u: "uint x = int (unat x)" for x :: u8 by simp
  have c: "dt_century e \<noteq> 0" using assms(1,2) by (auto simp: dt_is_def)
  have full: "int (y div 100) * 100 + int (y mod 100) = int y" by (metis div_mult_mod_eq of_nat_add of_nat_mult of_nat_numeral)
  show ?thesis
    using assms c full unfolding DateTimeGetTM_def Let_def dt_getters dt_get_def u
    by (simp add: dt_is_def)
qed

lemma io_clock_keeps [simp]:
  "clk_count (IO_PortOut p v s) = clk_count s" "clk_inited (IO_PortOut p v s) = clk_inited s"
  "sys_timestamp (IO_PortOut p v s) = sys_timestamp s" "sys_milliseconds (IO_PortOut p v s) = sys_milliseconds s"
  "clk_count (snd (IO_PortIn dev p s)) = clk_count s" "clk_inited (snd (IO_PortIn dev p s)) = clk_inited s"
  "sys_timestamp (snd (IO_PortIn dev p s)) = sys_timestamp s" "sys_milliseconds (snd (IO_PortIn dev p s)) = sys_milliseconds s"
  by (simp_all add: io_simps)

lemma same_more:
  "io.more s = io.more t \<Longrightarrow> clk_count (s :: 'a clock_scheme) = clk_count t \<and> clk_inited s = clk_inited t"
  by (cases s; cases t) simp

text \<open>A date and time: year, month, day, hour, minute and second.\<close>

type_synonym date = "nat \<times> nat \<times> nat \<times> nat \<times> nat \<times> nat"

fun date_shown :: "(u8 \<Rightarrow> u8) \<Rightarrow> date \<Rightarrow> bool" where
  "date_shown f (y, mon, d, h, mi, se) = clock_shows f y mon d h mi se"

fun date_ok :: "arch \<Rightarrow> date \<Rightarrow> bool" where
  "date_ok A (y, mon, d, h, mi, se) \<longleftrightarrow> 1970 \<le> y \<and> y < 10000 \<and> 1 \<le> mon \<and> mon \<le> 12 \<and> 1 \<le> d \<and> d \<le> 31 \<and> h < 24 \<and> mi < 60 \<and> se < 60 \<and>
     calendar_seconds y (mon - 1) (int d) (int h) (int mi) (int se) < 2 ^ (ptr_bits A - 1)"

fun date_seconds :: "date \<Rightarrow> int" where
  "date_seconds (y, mon, d, h, mi, se) = calendar_seconds y (mon - 1) (int d) (int h) (int mi) (int se)"

text \<open>
  A clock that runs: whenever no update is in progress it shows some date, which changes with the
  time, as long as its century and its mode are left alone.  It is in 24 hour mode.
\<close>

definition mode_kept :: "(u8 \<Rightarrow> u8) \<Rightarrow> (u8 \<Rightarrow> u8) \<Rightarrow> bool" where
  "mode_kept c f \<longleftrightarrow> f 0x32 = c 0x32 \<and> f 0x0B AND 0x06 = c 0x0B AND 0x06"

definition clock_runs :: "arch \<Rightarrow> (u8 \<Rightarrow> u8) \<Rightarrow> (io_event list \<Rightarrow> u8 \<Rightarrow> u8) \<Rightarrow> (io_event list \<Rightarrow> date) \<Rightarrow> bool" where
  "clock_runs A c r date \<longleftrightarrow> c 0x0B AND 0x02 \<noteq> 0 \<and>
     (\<forall>t. \<not> updating r t \<and> mode_kept c (cmos_settings c t) \<longrightarrow> date_ok A (date t) \<and> date_shown (r t) (date t))"

lemma mode_bits: "(x :: u8) AND 0x06 = y AND 0x06 \<Longrightarrow> x AND 0x02 = y AND 0x02 \<and> x AND 0x04 = y AND 0x04"
proof -
  assume e: "x AND 0x06 = y AND 0x06"
  have m: "z AND 0x02 = (z AND 0x06) AND 0x02" "z AND 0x04 = (z AND 0x06) AND 0x04" for z :: u8
    by (simp_all add: and.assoc)
  show ?thesis using e m by metis
qed

lemma first_tick:
  assumes "cmos_device c r dev" "\<not> clk_inited s" "clock_runs A c r date" "mode_kept c (cmos_regs c s)"
  shows "\<exists>s' t. IRQ_RealTimeClock A dev s = Some s' \<and> \<not> updating r t \<and> (\<exists>u w. t = io_trace s @ u \<and> io_trace s' = t @ w) \<and>
    System_GetTime s' = date_seconds (date t) \<and> System_GetTimeMilliSeconds s' = 0 \<and> clk_inited s' \<and> clk_count s' = 0"
proof -
  define s1 where "s1 = s\<lparr>clk_count := 0, clk_inited := True\<rparr>"
  have regs: "cmos_regs c s1 = cmos_regs c s" "io_trace s1 = io_trace s" by (simp_all add: s1_def cmos_regs_def)
  have "c 0x0B AND 0x02 \<noteq> 0" using assms(3) by (simp add: clock_runs_def)
  then have B: "cmos_regs c s 0x0B AND 0x02 \<noteq> 0"
    using assms(4) mode_bits [of "cmos_regs c s 0x0B" "c 0x0B"] by (auto simp: mode_kept_def)
  obtain s2 t n u w where s2: "DateTimeGetSystemTime dev s1 =
      Some (if cmos_regs c s 0x0B AND 0x04 = 0 then from_bcd (dt_of_regs (r t)) else dt_of_regs (r t), s2)"
    "cmos_reads n s1 s2" "\<not> updating r t" "t = io_trace s @ u" "io_trace s2 = t @ w" "cmos_settings c t = cmos_regs c s"
    using GetSystemTime_eq [OF assms(1), of s1] B unfolding regs by (auto simp: Let_def)
  define e where "e = (if cmos_regs c s 0x0B AND 0x04 = 0 then from_bcd (dt_of_regs (r t)) else dt_of_regs (r t))"
  have "r t 0x0B = cmos_settings c t 0x0B" using cmos_deviceD(2) [OF assms(1)] by (simp add: memory_cell_def)
  then have e2: "e = (if r t 0x0B AND 0x04 = 0 then from_bcd (dt_of_regs (r t)) else dt_of_regs (r t))"
    by (simp add: e_def s2(6))
  obtain y mon d h mi se where D: "date t = (y, mon, d, h, mi, se)" by (cases "date t")
  have "date_ok A (date t)" "date_shown (r t) (date t)"
    using assms(3,4) s2(3,6) by (simp_all add: clock_runs_def)
  then have shown: "clock_shows (r t) y mon d h mi se" and ok: "1970 \<le> y" "y < 10000" "1 \<le> mon" "mon \<le> 12" "1 \<le> d" "d \<le> 31" "h < 24"
    "mi < 60" "se < 60" "calendar_seconds y (mon - 1) (int d) (int h) (int mi) (int se) < 2 ^ (ptr_bits A - 1)"
    by (simp_all add: D)
  have dt: "dt_is e y mon d h mi se" unfolding e2 using shown ok by (intro decode_shown) auto
  define tm where "tm = DateTimeGetTM (Some e)"
  have tm: "tm_sec tm = int se" "tm_min tm = int mi" "tm_hour tm = int h" "tm_mday tm = int d" "tm_mon tm = int mon - 1" "tm_year tm = int y - 1900"
    using GetTM_of_dt [OF dt ok(1,3)] by (simp_all add: tm_def Let_def)
  have m: "tm_mon tm mod 12 = int (mon - 1)" "tm_mon tm div 12 = 0" using tm(5) ok(3,4) by simp_all
  have "mktime A (Some tm) = Some (date_seconds (date t))"
    using mktime_fits [of tm "mon - 1" y A] m tm ok(1,5,10) by (simp add: D)
  moreover have "clk_inited s2" "clk_count s2 = 0"
    using same_more [of s2 s1] s2(2) by (simp_all add: cmos_reads_def s1_def)
  ultimately show ?thesis
    using assms(2) s2(1,3-5) unfolding IRQ_RealTimeClock_def rtc_start_def s1_def [symmetric] e_def [symmetric]
    by (intro exI [of _ "snd (IO_PortIn dev CMOS_RegisterData (IO_PortOut CMOS_RegisterAddress 0x0C
          (s2\<lparr>sys_milliseconds := 0, sys_timestamp := date_seconds (date t)\<rparr>)))"] exI [of _ t])
      (auto simp: Let_def System_GetTime_def System_GetTimeMilliSeconds_def simp flip: tm_def, auto simp: io_simps)
qed

text \<open>
  The first interrupt of the clock sets the time of the system to the seconds of the calendar
  for the date and time that the clock shows at a moment while the interrupt is handled, in binary or
  in decimal digits, when the clock is in 24 hour mode and shows a date from 1970 on that fits a long.
\<close>

theorem rtc_timestamp:
  assumes "cmos_device c r dev" "\<not> clk_inited s" "clock_runs A c r date" "mode_kept c (cmos_regs c s)"
  shows "\<exists>s' t. IRQ_RealTimeClock A dev s = Some s' \<and> \<not> updating r t \<and> (\<exists>u w. t = io_trace s @ u \<and> io_trace s' = t @ w) \<and>
    System_GetTime s' = date_seconds (date t) \<and> System_GetTimeMilliSeconds s' = 0 \<and> clk_inited s' \<and> clk_count s' = 0"
  using assms by (rule first_tick)


text \<open>
  A clock of this kind: its time advances with the accesses, and in 24 of 64 of them an update is in
  progress.
\<close>

definition clock_sim :: "(u8 \<Rightarrow> u8) \<Rightarrow> (nat \<Rightarrow> date) \<Rightarrow> io_event list \<Rightarrow> u8 \<Rightarrow> u8" where
  "clock_sim c date t i =
     (let st = snd (cmos_state c t); code = clock_code (st 0x0B); (y, mon, d, h, mi, se) = date (length t div 64)
      in if i = 0x0A then (st i AND 0x7F) OR (if length t mod 64 < 40 then 0 else 0x80)
         else if i < 0x0A
         then if i = 0x00 then code se else if i = 0x02 then code mi else if i = 0x04 then code h else if i = 0x07 then code d
              else if i = 0x08 then code mon else if i = 0x09 then code (y mod 100) else 0
         else st i)"

definition cmos_sim :: "(u8 \<Rightarrow> u8) \<Rightarrow> (nat \<Rightarrow> date) \<Rightarrow> device" where
  "cmos_sim c date t p = clock_sim c date t (fst (cmos_state c t))"

lemma clock_sim_updating: "updating (clock_sim c date) t \<longleftrightarrow> \<not> length t mod 64 < 40"
proof -
  have "((x AND 0x7F) OR 0x80) AND 0x80 \<noteq> (0 :: u8)" for x
    by (simp add: bit.conj_disj_distrib2)
  moreover have "(x AND 0x7F) AND 0x80 = (0 :: u8)" for x by (simp add: and.assoc)
  ultimately show ?thesis by (auto simp: updating_def clock_sim_def Let_def split: prod.split)
qed

lemma uip_poll_length: "length (uip_poll dev t n) = length t + 1 + 2 * n"
  by (induction n) simp_all

lemma access_state: "list_all cmos_access u \<Longrightarrow> snd (cmos_state c (t @ u)) = snd (cmos_state c t)"
proof -
  assume "list_all cmos_access u"
  then have "snd (indexed_regs 0x70 0x71 0x7F x u) = snd x" for x
    by (induction u arbitrary: x rule: port_writes.induct) (auto simp: cmos_access_def cmos_consts split: io_event.splits)
  then show ?thesis by (simp add: cmos_state_def cmos_consts)
qed

lemma clock_sim_cells:
  "\<not> i < 0x0A \<Longrightarrow> i \<noteq> 0x0A \<Longrightarrow> clock_sim c date t i = snd (cmos_state c t) i"
  "clock_sim c date t 0x0A AND 0x7F = snd (cmos_state c t) 0x0A AND 0x7F"
  by (auto simp: clock_sim_def Let_def bit.conj_disj_distrib2 and.assoc split: prod.split)

lemma clock_sim_window:
  assumes "length t mod 64 < 40" "length u \<le> 17" "list_all cmos_access u" "i < 0x0A"
  shows "clock_sim c date (t @ u) i = clock_sim c date t i"
proof -
  have "length t mod 64 + length u < 64" using assms(1,2) by simp
  moreover have "(64 * q + k) div 64 = q" if "k < 64" for q k :: nat using that by simp
  moreover have "length (t @ u) = 64 * (length t div 64) + (length t mod 64 + length u)" by simp
  ultimately have "length (t @ u) div 64 = length t div 64" by metis
  moreover have "i \<noteq> 0x0A" using assms(4) by auto
  ultimately show ?thesis using assms(4) unfolding clock_sim_def access_state [OF assms(3)] Let_def by simp
qed

lemma cmos_sim: "cmos_device c (clock_sim c date) (cmos_sim c date)"
  unfolding cmos_device_def
proof (intro conjI allI impI)
  fix t u and i :: u8
  show "cmos_sim c date t CMOS_RegisterData = clock_sim c date t (fst (cmos_state c t))" by (simp add: cmos_sim_def)
  show "clock_sim c date t 0x0A AND 0x7F = snd (cmos_state c t) 0x0A AND 0x7F" by (rule clock_sim_cells)
  show "clock_sim c date t i = snd (cmos_state c t) i" if "memory_cell i"
  proof -
    have "\<not> i < 0x0A" "i \<noteq> 0x0A" using that order.strict_trans1 [of "0x0E" i "0x0A"] by (auto simp: memory_cell_def)
    then show ?thesis by (rule clock_sim_cells)
  qed
  show "\<exists>n. \<not> updating (clock_sim c date) (uip_poll (cmos_sim c date) t n)"
  proof (cases "(length t + 1) mod 64 < 40")
    case True
    then show ?thesis unfolding clock_sim_updating uip_poll_length by (intro exI [of _ 0]) simp
  next
    case False
    then have "((length t + 1) mod 64 + 24) mod 64 < 40" by (subst mod_if) auto
    then show ?thesis unfolding clock_sim_updating uip_poll_length by (intro exI [of _ 12]) (simp add: mod_simps)
  qed
  show "clock_sim c date (t @ u) i = clock_sim c date t i"
    if "\<not> updating (clock_sim c date) t \<and> length u \<le> 17 \<and> list_all cmos_access u \<and> i < 0x0A"
    using that by (intro clock_sim_window) (simp_all add: clock_sim_updating)
qed

text \<open>2013-01-31 from 08:00:00 on, in decimal digits, with the 24 hour bit set.\<close>

definition cmos_2013 :: "u8 \<Rightarrow> u8" where
  "cmos_2013 i = (if i = 0x32 then 0x20 else if i = 0x0B then 0x02 else 0)"

definition date_2013 :: "nat \<Rightarrow> date" where
  "date_2013 n = (2013, 1, 31, 8 + n div 3600 mod 16, n div 60 mod 60, n mod 60)"

lemma seconds_2013: "1359619200 \<le> date_seconds (date_2013 n)" "date_seconds (date_2013 n) < 1359676800"
proof -
  have y: "days_of_years 43 = 15706" using days_of_years_formula [of 42] by simp
  define h m s where "h = n div 3600 mod 16" and "m = n div 60 mod 60" and "s = n mod 60"
  have "int h < 16" "int m < 60" "int s < 60" "0 \<le> int h" "0 \<le> int m" "0 \<le> int s" by (simp_all add: h_def m_def s_def)
  moreover have "date_seconds (date_2013 n) = ((15706 + 30) * 24 + (8 + int h)) * 3600 + int m * 60 + int s"
    by (simp add: date_2013_def calendar_seconds_def calendar_days_def y h_def m_def s_def)
  ultimately have "1359619200 \<le> date_seconds (date_2013 n) \<and> date_seconds (date_2013 n) < 1359676800" by simp
  then show "1359619200 \<le> date_seconds (date_2013 n)" "date_seconds (date_2013 n) < 1359676800" by blast+
qed

lemma runs_2013: "clock_runs A cmos_2013 (clock_sim cmos_2013 date_2013) (\<lambda>t. date_2013 (length t div 64))"
  unfolding clock_runs_def
proof (intro conjI allI impI)
  show "cmos_2013 0x0B AND 0x02 \<noteq> 0" by (simp add: cmos_2013_def)
  fix t
  assume "\<not> updating (clock_sim cmos_2013 date_2013) t \<and> mode_kept cmos_2013 (cmos_settings cmos_2013 t)"
  then have B: "snd (cmos_state cmos_2013 t) 0x32 = 0x20" "snd (cmos_state cmos_2013 t) 0x0B AND 0x06 = 0x02"
    by (simp_all add: mode_kept_def cmos_settings_def cmos_2013_def)
  then have mode: "snd (cmos_state cmos_2013 t) 0x0B AND 0x04 = 0"
    using mode_bits [of "snd (cmos_state cmos_2013 t) 0x0B" "0x02"] by simp
  define n where "n = length t div 64"
  have "2 ^ 31 \<le> (2::int) ^ (ptr_bits A - 1)" by (cases A) (simp_all add: ptr_bits_def)
  then have fits: "date_seconds (date_2013 n) < 2 ^ (ptr_bits A - 1)" using seconds_2013(2) [of n] by simp
  then show "date_ok A (date_2013 (length t div 64))"
    unfolding n_def [symmetric] by (simp add: date_2013_def)
  show "date_shown (clock_sim cmos_2013 date_2013 t) (date_2013 (length t div 64))"
    using B mode unfolding n_def [symmetric]
    by (simp add: date_2013_def clock_shows_def clock_sim_def clock_code_def Let_def flip: n_def)
qed

lemma kept_2013: "io_trace s = [] \<Longrightarrow> mode_kept cmos_2013 (cmos_regs cmos_2013 s)"
  by (simp add: mode_kept_def cmos_regs_def cmos_settings_def cmos_state_def)

theorem rtc_timestamp_witness:
  "\<exists>s'. IRQ_RealTimeClock I386 (cmos_sim cmos_2013 date_2013) clock_boot = Some s' \<and> 1359619200 \<le> System_GetTime s'"
proof -
  have "\<not> clk_inited clock_boot" "mode_kept cmos_2013 (cmos_regs cmos_2013 clock_boot)"
    by (simp_all add: clock_boot_def kept_2013)
  from rtc_timestamp [OF cmos_sim this(1) runs_2013 this(2), where A = I386] obtain s' and t :: "io_event list" where
    "IRQ_RealTimeClock I386 (cmos_sim cmos_2013 date_2013) clock_boot = Some s'"
    "System_GetTime s' = date_seconds (date_2013 (length t div 64))" by (elim exE conjE) (rule that)
  then show ?thesis using seconds_2013(1) by auto
qed


section \<open>The rate of the clock\<close>

text \<open>A number of further interrupts of the clock.\<close>

primrec clock_run :: "arch \<Rightarrow> device \<Rightarrow> nat \<Rightarrow> 'a clock_scheme \<Rightarrow> 'a clock_scheme option" where
  "clock_run A dev 0 s = Some s"
| "clock_run A dev (Suc n) s = do { s1 \<leftarrow> clock_run A dev n s; IRQ_RealTimeClock A dev s1 }"

lemma mod_1025_Suc: "Suc n mod 1025 = (if n mod 1025 = 1024 then 0 else n mod 1025 + 1)"
  "Suc n div 1025 = (if n mod 1025 = 1024 then n div 1025 + 1 else n div 1025)"
  by (simp_all add: mod_Suc div_Suc)

text \<open>
  C38. After the first interrupt, n further interrupts advance the time of the system by n div 1025
  seconds, and the milliseconds are those of n mod 1025 ticks at 1024 Hertz.  The clock interrupts
  1024 times in a second, so that the system clock loses one second in 1025.
\<close>

theorem clock_rate:
  assumes "clk_inited s" "clk_count s = 0" "sys_milliseconds s = 0" "long_ok A (sys_timestamp s)"
    "long_ok A (sys_timestamp s + int (n div 1025))"
  shows "\<exists>s'. clock_run A dev n s = Some s' \<and> System_GetTime s' = System_GetTime s + int (n div 1025) \<and>
    System_GetTimeMilliSeconds s' = of_nat (n mod 1025) * 1000 / 1024 \<and> clk_count s' = int (n mod 1025) \<and> clk_inited s'"
  using assms(5)
proof (induction n)
  case 0
  show ?case using assms(1-3) by (simp add: System_GetTime_def System_GetTimeMilliSeconds_def)
next
  case (Suc n)
  have "int (n div 1025) \<le> int (Suc n div 1025)" unfolding of_nat_le_iff by (rule div_le_mono) simp
  then have "long_ok A (sys_timestamp s + int (n div 1025))"
    using Suc.prems assms(4) unfolding long_ok_def by linarith
  from Suc.IH [OF this] obtain s1 where s1: "clock_run A dev n s = Some s1"
    "sys_timestamp s1 = sys_timestamp s + int (n div 1025)" "clk_count s1 = int (n mod 1025)" "clk_inited s1"
    unfolding System_GetTime_def by blast
  show ?case
  proof (cases "n mod 1025 = 1024")
    case True
    then have "lng A (sys_timestamp s1 + 1) = Some (sys_timestamp s + int (Suc n div 1025))"
      using Suc.prems s1(2) by (simp add: lng_Some mod_1025_Suc ac_simps)
    then show ?thesis
      using True s1 by (simp add: IRQ_RealTimeClock_def rtc_tick_def RTC_FREQUENCY_def mod_1025_Suc
          System_GetTime_def System_GetTimeMilliSeconds_def)
  next
    case False
    moreover have "int (n mod 1025) \<noteq> 1024" using False by linarith
    ultimately show ?thesis
      using s1 by (simp add: IRQ_RealTimeClock_def rtc_tick_def RTC_FREQUENCY_def Let_def mod_1025_Suc
          System_GetTime_def System_GetTimeMilliSeconds_def)
  qed
qed

theorem clock_rate_witness:
  "\<exists>s'. clock_run X86_64 (cmos_sim cmos_2013 date_2013) (1024 * 86400) (clock_boot\<lparr>clk_inited := True\<rparr>) = Some s' \<and> System_GetTime s' = 86315"
  using clock_rate [of "clock_boot\<lparr>clk_inited := True\<rparr>" X86_64 "1024 * 86400" "cmos_sim cmos_2013 date_2013"]
  by (auto simp: clock_boot_def long_ok_def ptr_bits_def System_GetTime_def)

end
