(* ===== verification/XEOS_PIC.thy ===== *)
theory XEOS_PIC
  imports XEOS_IO
begin

text \<open>
  The two interrupt controllers (source/core/xeos/hal/pic).
\<close>

datatype PIC_Controller = Controller1 | Controller2

datatype PIC_Register = RegisterCommand | RegisterStatus | RegisterData

datatype PIC_IRQ = IRQ0 | IRQ1 | IRQ2 | IRQ3 | IRQ4 | IRQ5 | IRQ6 | IRQ7
  | IRQ8 | IRQ9 | IRQ10 | IRQ11 | IRQ12 | IRQ13 | IRQ14 | IRQ15

fun irq_value :: "PIC_IRQ \<Rightarrow> nat" where
  "irq_value IRQ0 = 0" | "irq_value IRQ1 = 1" | "irq_value IRQ2 = 2" | "irq_value IRQ3 = 3"
| "irq_value IRQ4 = 4" | "irq_value IRQ5 = 5" | "irq_value IRQ6 = 6" | "irq_value IRQ7 = 7"
| "irq_value IRQ8 = 8" | "irq_value IRQ9 = 9" | "irq_value IRQ10 = 10" | "irq_value IRQ11 = 11"
| "irq_value IRQ12 = 12" | "irq_value IRQ13 = 13" | "irq_value IRQ14 = 14" | "irq_value IRQ15 = 15"

definition ICW1IC4 :: u8 where "ICW1IC4 = 0x01"
definition ICW1Init :: u8 where "ICW1Init = 0x10"
definition ICW4UPM :: u8 where "ICW4UPM = 0x01"

fun PIC_GetRegister :: "PIC_Controller \<Rightarrow> PIC_Register \<Rightarrow> u16" where
  "PIC_GetRegister Controller1 RegisterCommand = 0x20"
| "PIC_GetRegister Controller1 RegisterStatus = 0x20"
| "PIC_GetRegister Controller1 RegisterData = 0x21"
| "PIC_GetRegister Controller2 RegisterCommand = 0xA0"
| "PIC_GetRegister Controller2 RegisterStatus = 0xA0"
| "PIC_GetRegister Controller2 RegisterData = 0xA1"

definition PIC_SendCommand :: "PIC_Controller \<Rightarrow> u8 \<Rightarrow> 'a io_scheme \<Rightarrow> 'a io_scheme" where
  "PIC_SendCommand c command s = IO_PortOut (PIC_GetRegister c RegisterCommand) command s"

definition PIC_SendData :: "PIC_Controller \<Rightarrow> u8 \<Rightarrow> 'a io_scheme \<Rightarrow> 'a io_scheme" where
  "PIC_SendData c data s = IO_PortOut (PIC_GetRegister c RegisterData) data s"

definition PIC_ReadData :: "device \<Rightarrow> PIC_Controller \<Rightarrow> 'a io_scheme \<Rightarrow> u8 \<times> 'a io_scheme" where
  "PIC_ReadData dev c s = IO_PortIn dev (PIC_GetRegister c RegisterData) s"

definition PIC_SendEOI :: "PIC_Controller \<Rightarrow> 'a io_scheme \<Rightarrow> 'a io_scheme" where
  "PIC_SendEOI c s = IO_PortOut (PIC_GetRegister c RegisterCommand) 0x20 s"

definition PIC_Remap :: "device \<Rightarrow> u8 \<Rightarrow> u8 \<Rightarrow> 'a io_scheme \<Rightarrow> 'a io_scheme" where
  "PIC_Remap dev masterBase slaveBase s =
     (let (mask1, s1) = IO_PortIn dev (PIC_GetRegister Controller1 RegisterData) s;
          (mask2, s2) = IO_PortIn dev (PIC_GetRegister Controller2 RegisterData) s1;
          s3 = IO_Wait (PIC_SendCommand Controller1 (ICW1Init OR ICW1IC4) s2);
          s4 = IO_Wait (PIC_SendCommand Controller2 (ICW1Init OR ICW1IC4) s3);
          s5 = IO_Wait (PIC_SendData Controller1 masterBase s4);
          s6 = IO_Wait (PIC_SendData Controller2 slaveBase s5);
          s7 = IO_Wait (PIC_SendData Controller1 0x04 s6);
          s8 = IO_Wait (PIC_SendData Controller2 0x02 s7);
          s9 = IO_Wait (PIC_SendData Controller1 ICW4UPM s8);
          s10 = IO_Wait (PIC_SendData Controller2 ICW4UPM s9);
          s11 = IO_PortOut (PIC_GetRegister Controller1 RegisterData) mask1 s10
      in IO_PortOut (PIC_GetRegister Controller2 RegisterData) mask2 s11)"

text \<open>The switch of the three functions on the lines: the controller and the line on it.\<close>

definition irq_controller :: "PIC_IRQ \<Rightarrow> PIC_Controller" where
  "irq_controller irq = (if irq_value irq < 8 then Controller1 else Controller2)"

definition irq_line :: "PIC_IRQ \<Rightarrow> nat" where
  "irq_line irq = (if irq_value irq < 8 then irq_value irq else irq_value irq - 8)"

definition PIC_MaskIRQLine :: "device \<Rightarrow> PIC_IRQ \<Rightarrow> 'a io_scheme \<Rightarrow> 'a io_scheme" where
  "PIC_MaskIRQLine dev irq s =
     (let port = PIC_GetRegister (irq_controller irq) RegisterData;
          (v, s1) = IO_PortIn dev port s
      in IO_PortOut port (v OR push_bit (irq_line irq) 1) s1)"

definition PIC_UnmaskIRQLine :: "device \<Rightarrow> PIC_IRQ \<Rightarrow> 'a io_scheme \<Rightarrow> 'a io_scheme" where
  "PIC_UnmaskIRQLine dev irq s =
     (let port = PIC_GetRegister (irq_controller irq) RegisterData;
          (v, s1) = IO_PortIn dev port s
      in IO_PortOut port (v AND NOT (push_bit (irq_line irq) 1)) s1)"

text \<open>The test of the line shifts by the number of the request, not by the line of the controller.\<close>

definition PIC_IRQLineMasked :: "device \<Rightarrow> PIC_IRQ \<Rightarrow> 'a io_scheme \<Rightarrow> bool \<times> 'a io_scheme" where
  "PIC_IRQLineMasked dev irq s =
     (let port = PIC_GetRegister (irq_controller irq) RegisterData;
          (v, s1) = IO_PortIn dev port s
      in ((ucast v :: u32) AND push_bit (irq_value irq) 1 \<noteq> 0, s1))"


section \<open>The mask registers\<close>

text \<open>
  The mask register of a controller shows what was last written to its data port (the words of an
  initialisation go there as well, but Remap ends with the masks).
\<close>

fun last_write :: "u16 \<Rightarrow> u8 \<Rightarrow> io_event list \<Rightarrow> u8" where
  "last_write p d [] = d"
| "last_write p d (PortWrite q v # t) = last_write p (if p = q then v else d) t"
| "last_write p d (_ # t) = last_write p d t"

lemma last_write_append [simp]: "last_write p d (t @ u) = last_write p (last_write p d t) u"
  by (induction t arbitrary: d rule: port_writes.induct) simp_all

definition pic_device :: "u8 \<Rightarrow> u8 \<Rightarrow> device \<Rightarrow> bool" where
  "pic_device m1 m2 dev \<longleftrightarrow> (\<forall>t. dev t 0x21 = last_write 0x21 m1 t \<and> dev t 0xA1 = last_write 0xA1 m2 t)"

definition pic_sim :: "u8 \<Rightarrow> u8 \<Rightarrow> device" where
  "pic_sim m1 m2 t p = last_write p (if p = 0x21 then m1 else m2) t"

lemma pic_sim: "pic_device m1 m2 (pic_sim m1 m2)"
  by (simp add: pic_device_def pic_sim_def)

text \<open>Whether a line is masked at the controllers, after a trace.\<close>

definition line_masked :: "u8 \<Rightarrow> u8 \<Rightarrow> PIC_IRQ \<Rightarrow> 'a io_scheme \<Rightarrow> bool" where
  "line_masked m1 m2 irq s \<longleftrightarrow>
     bit (case irq_controller irq of Controller1 \<Rightarrow> last_write 0x21 m1 (io_trace s)
          | Controller2 \<Rightarrow> last_write 0xA1 m2 (io_trace s)) (irq_line irq)"

lemma irq_value_less: "irq_value irq < 16" by (cases irq) simp_all

text \<open>The lines are ordered by their numbers, the order of the C enumeration.\<close>

lemma irq_value_inject: "irq_value a = irq_value b \<longleftrightarrow> a = b"
  by (cases a; cases b) simp_all

instantiation PIC_IRQ :: linorder
begin

definition less_eq_PIC_IRQ :: "PIC_IRQ \<Rightarrow> PIC_IRQ \<Rightarrow> bool" where
  "a \<le> b \<longleftrightarrow> irq_value a \<le> irq_value b"

definition less_PIC_IRQ :: "PIC_IRQ \<Rightarrow> PIC_IRQ \<Rightarrow> bool" where
  "a < b \<longleftrightarrow> irq_value a < irq_value b"

instance
  by standard (auto simp: less_eq_PIC_IRQ_def less_PIC_IRQ_def irq_value_inject)

end

lemma irq_second_controller: "irq_controller irq = Controller2 \<longleftrightarrow> IRQ8 \<le> irq"
  by (simp add: irq_controller_def less_eq_PIC_IRQ_def)
lemma irq_line_less: "irq_line irq < 8" by (cases irq) (simp_all add: irq_line_def)
lemma irq_inj: "irq_controller i = irq_controller j \<Longrightarrow> irq_line i = irq_line j \<Longrightarrow> i = j"
  by (cases i; cases j; simp add: irq_controller_def irq_line_def)

lemma mask_line:
  assumes "pic_device m1 m2 dev"
  shows "line_masked m1 m2 j (PIC_MaskIRQLine dev irq s) \<longleftrightarrow> j = irq \<or> line_masked m1 m2 j s"
    "line_masked m1 m2 j (PIC_UnmaskIRQLine dev irq s) \<longleftrightarrow> j \<noteq> irq \<and> line_masked m1 m2 j s"
  using assms irq_line_less [of j] irq_inj [of j irq]
  by (cases "irq_controller j"; cases "irq_controller irq";
      auto simp: line_masked_def PIC_MaskIRQLine_def PIC_UnmaskIRQLine_def pic_device_def Let_def io_simps bit_simps)+

text \<open>Remap leaves all lines as they were and gives the controllers the bases of their vectors.\<close>

lemma Remap_keeps_masks:
  assumes "pic_device m1 m2 dev"
  shows "line_masked m1 m2 j (PIC_Remap dev b1 b2 s) \<longleftrightarrow> line_masked m1 m2 j s"
    "port_writes (io_trace (PIC_Remap dev b1 b2 s)) = port_writes (io_trace s) @
       [(0x20, 0x11), (0xA0, 0x11), (0x21, b1), (0xA1, b2), (0x21, 0x04), (0xA1, 0x02), (0x21, 0x01), (0xA1, 0x01),
        (0x21, last_write 0x21 m1 (io_trace s)), (0xA1, last_write 0xA1 m2 (io_trace s))]"
  using assms
  by (auto simp: line_masked_def PIC_Remap_def PIC_SendCommand_def PIC_SendData_def pic_device_def Let_def io_simps
      ICW1Init_def ICW1IC4_def ICW4UPM_def split: PIC_Controller.splits)

lemma line_test:
  assumes "pic_device m1 m2 dev"
  shows "fst (PIC_IRQLineMasked dev irq s) \<longleftrightarrow> irq_value irq < 8 \<and> line_masked m1 m2 irq s"
proof -
  have bit: "(x AND push_bit n 1 \<noteq> 0) = bit x n" if "n < 32" for x :: u32 and n
    using that by (simp add: and_exp_eq_0_iff_not_bit push_bit_eq_mult)
  have "irq_value irq < 32" using irq_value_less [of irq] by simp
  note bit = bit [OF this]
  have big: "\<not> bit (v :: u8) (irq_value irq)" if "\<not> irq_value irq < 8" for v
    using that bit_imp_le_length [of v "irq_value irq"] by auto
  show ?thesis
    using assms unfolding PIC_IRQLineMasked_def Let_def case_prod_beta fst_conv bit
    by (auto simp: line_masked_def pic_device_def io_simps bit_simps irq_controller_def irq_line_def big)
qed

text \<open>
  C39. Masking a line masks this line at its controller, unmasking it unmasks it, and no other of
  the sixteen lines changes.  The test whether a line is masked is right for the lines of the first
  controller, and always false for those of the second.
\<close>

theorem pic_mask_lines:
  assumes "pic_device m1 m2 dev"
  shows "(\<forall>j. line_masked m1 m2 j (PIC_MaskIRQLine dev irq s) \<longleftrightarrow> j = irq \<or> line_masked m1 m2 j s) \<and>
    (\<forall>j. line_masked m1 m2 j (PIC_UnmaskIRQLine dev irq s) \<longleftrightarrow> j \<noteq> irq \<and> line_masked m1 m2 j s) \<and>
    (fst (PIC_IRQLineMasked dev irq s) \<longleftrightarrow> irq_value irq < 8 \<and> line_masked m1 m2 irq s)"
  by (simp add: mask_line [OF assms] line_test [OF assms])

definition pic_boot :: io where "pic_boot = \<lparr>io_trace = [], io_if = True\<rparr>"

theorem pic_mask_lines_witness:
  "line_masked 0 0 IRQ9 (PIC_MaskIRQLine (pic_sim 0 0) IRQ9 pic_boot) \<and>
   \<not> fst (PIC_IRQLineMasked (pic_sim 0xFF 0xFF) IRQ8 pic_boot)"
  using pic_mask_lines [OF pic_sim, of 0 0 IRQ9 pic_boot] pic_mask_lines [OF pic_sim, of "0xFF" "0xFF" IRQ8 pic_boot]
  by simp

end
