(* ===== verification/XEOS_IRQ.thy ===== *)
theory XEOS_IRQ
  imports XEOS_PIC "HOL-Library.Multiset"
begin

text \<open>
  The handlers of the sixteen interrupt requests (source/core/xeos/irq) and the service routine that
  runs them (source/core/xeos/isr/XEOS_ISR_IRQ.c).

  A handler is an element of a type of function pointers, and None is NULL.  What a handler does is
  a parameter of the operations that call one: it gets the request, the address of the saved
  registers and the state, which includes the table of handlers, and may not return.
\<close>

definition MAX_HANDLERS :: nat where "MAX_HANDLERS = 32"

record 'h irqs = io +
  irq_Inited :: bool
  irq_Handlers :: "PIC_IRQ \<Rightarrow> 'h option list"

definition irq_Init :: "('h, 'a) irqs_scheme \<Rightarrow> ('h, 'a) irqs_scheme" where
  "irq_Init s =
     (if \<not> irq_Inited s then s\<lparr>irq_Inited := True, irq_Handlers := \<lambda>_. replicate MAX_HANDLERS None\<rparr> else s)"

text \<open>The loop that puts a handler in the first free slot; None when there is no free slot.\<close>

fun add_slot :: "'h option \<Rightarrow> 'h option list \<Rightarrow> 'h option list option" where
  "add_slot h [] = None"
| "add_slot h (None # xs) = Some (h # xs)"
| "add_slot h (Some x # xs) = map_option ((#) (Some x)) (add_slot h xs)"

definition AddIRQHandler :: "PIC_IRQ \<Rightarrow> 'h option \<Rightarrow> ('h, 'a) irqs_scheme \<Rightarrow> bool \<times> ('h, 'a) irqs_scheme" where
  "AddIRQHandler irq handler s =
     (let s1 = irq_Init s
      in case add_slot handler (irq_Handlers s1 irq) of
           Some hs \<Rightarrow> (True, s1\<lparr>irq_Handlers := (irq_Handlers s1)(irq := hs)\<rparr>)
         | None \<Rightarrow> (False, s1))"

definition remove_slots :: "'h option \<Rightarrow> 'h option list \<Rightarrow> 'h option list" where
  "remove_slots handler hs = map (\<lambda>x. if x = handler then None else x) hs"

definition RemoveIRQHandler :: "PIC_IRQ \<Rightarrow> 'h option \<Rightarrow> ('h, 'a) irqs_scheme \<Rightarrow> ('h, 'a) irqs_scheme" where
  "RemoveIRQHandler irq handler s =
     (let s1 = irq_Init s
      in s1\<lparr>irq_Handlers := (irq_Handlers s1)(irq := remove_slots handler (irq_Handlers s1 irq))\<rparr>)"

text \<open>The loop over the slots reads the table anew for each slot.\<close>

type_synonym ('h, 's) irq_call = "'h \<Rightarrow> PIC_IRQ \<Rightarrow> u64 \<Rightarrow> 's \<Rightarrow> 's option"

fun exec_slots :: "('h, ('h, 'a) irqs_scheme) irq_call \<Rightarrow> PIC_IRQ \<Rightarrow> u64 \<Rightarrow> nat list \<Rightarrow> ('h, 'a) irqs_scheme
    \<Rightarrow> ('h, 'a) irqs_scheme option" where
  "exec_slots call irq regs [] s = Some s"
| "exec_slots call irq regs (i # is) s =
     do { s1 \<leftarrow> (case irq_Handlers s irq ! i of None \<Rightarrow> Some s | Some h \<Rightarrow> call h irq regs s);
          exec_slots call irq regs is s1 }"

definition ExecuteIRQHandlers :: "('h, ('h, 'a) irqs_scheme) irq_call \<Rightarrow> PIC_IRQ \<Rightarrow> u64 \<Rightarrow> ('h, 'a) irqs_scheme
    \<Rightarrow> ('h, 'a) irqs_scheme option" where
  "ExecuteIRQHandlers call irq regs s = exec_slots call irq regs [0..<MAX_HANDLERS] (irq_Init s)"

fun isr_irq :: "u8 \<Rightarrow> PIC_IRQ option" where
  "isr_irq isr =
     (if isr = 0x20 then Some IRQ0 else if isr = 0x21 then Some IRQ1 else if isr = 0x22 then Some IRQ2
      else if isr = 0x23 then Some IRQ3 else if isr = 0x24 then Some IRQ4 else if isr = 0x25 then Some IRQ5
      else if isr = 0x26 then Some IRQ6 else if isr = 0x27 then Some IRQ7 else if isr = 0x28 then Some IRQ8
      else if isr = 0x29 then Some IRQ9 else if isr = 0x2A then Some IRQ10 else if isr = 0x2B then Some IRQ11
      else if isr = 0x2C then Some IRQ12 else if isr = 0x2D then Some IRQ13 else if isr = 0x2E then Some IRQ14
      else if isr = 0x2F then Some IRQ15 else None)"

definition ISR_IRQ :: "('h, ('h, 'a) irqs_scheme) irq_call \<Rightarrow> u8 \<Rightarrow> u64 \<Rightarrow> ('h, 'a) irqs_scheme
    \<Rightarrow> ('h, 'a) irqs_scheme option" where
  "ISR_IRQ call isr regs s =
     (case isr_irq isr of
        None \<Rightarrow> Some s
      | Some irq \<Rightarrow>
          do { s1 \<leftarrow> ExecuteIRQHandlers call irq regs s;
               let s2 = (if 0x28 \<le> isr then PIC_SendEOI Controller2 s1 else s1);
               Some (PIC_SendEOI Controller1 s2) })"


section \<open>The table as a bounded collection\<close>

text \<open>
  What clients of the table rely on: a handler is added unless the table is full, and removing one
  removes all its copies.  The collection is a multiset, as a handler can be added twice.
\<close>

locale handler_collection =
  fixes add :: "'h \<Rightarrow> 't \<Rightarrow> 't option" and remove :: "'h \<Rightarrow> 't \<Rightarrow> 't"
    and handlers :: "'t \<Rightarrow> 'h multiset" and ok :: "'t \<Rightarrow> bool" and capacity :: nat
  assumes add_full: "ok t \<Longrightarrow> add h t = None \<longleftrightarrow> capacity \<le> size (handlers t)"
    and add_handlers: "ok t \<Longrightarrow> add h t = Some u \<Longrightarrow> handlers u = add_mset h (handlers t) \<and> ok u"
    and remove_handlers: "ok t \<Longrightarrow> handlers (remove h t) = filter_mset (\<lambda>x. x \<noteq> h) (handlers t) \<and> ok (remove h t)"
begin

lemma remove_then_add: "ok t \<Longrightarrow> h \<in># handlers t \<Longrightarrow> size (handlers t) \<le> capacity \<Longrightarrow>
    \<exists>u. add h (remove h t) = Some u \<and> count (handlers u) h = 1"
proof -
  assume t: "ok t" "h \<in># handlers t" "size (handlers t) \<le> capacity"
  have r: "ok (remove h t)" "handlers (remove h t) = filter_mset (\<lambda>x. x \<noteq> h) (handlers t)"
    using remove_handlers [OF t(1)] by simp_all
  obtain M where M: "handlers t = add_mset h M" using t(2) by (rule mset_add)
  have "size (handlers (remove h t)) < capacity"
    using t(3) order.strict_trans1 [OF size_filter_mset_lesseq [of "\<lambda>x. x \<noteq> h" M], of capacity]
    unfolding r(2) M by simp
  then obtain u where u: "add h (remove h t) = Some u"
    using add_full [OF r(1), of h] by (cases "add h (remove h t)") auto
  then show ?thesis using add_handlers [OF r(1) u] r(2) by simp
qed

lemma add_then_remove: "ok t \<Longrightarrow> add h t = Some u \<Longrightarrow> handlers (remove h u) = handlers (remove h t)"
  using add_handlers remove_handlers by fastforce

end

definition slot_handlers :: "'h option list \<Rightarrow> 'h multiset" where
  "slot_handlers hs = mset (List.map_filter id hs)"

lemma slot_handlers_simps [simp]:
  "slot_handlers [] = {#}" "slot_handlers (None # hs) = slot_handlers hs"
  "slot_handlers (Some h # hs) = add_mset h (slot_handlers hs)"
  by (simp_all add: slot_handlers_def List.map_filter_def)

lemma size_slot_handlers: "size (slot_handlers hs) \<le> length hs"
proof (induction hs)
  case (Cons a hs)
  then show ?case by (cases a) simp_all
qed simp

lemma add_slot_None: "add_slot h hs = None \<longleftrightarrow> length hs \<le> size (slot_handlers hs)"
proof (induction h hs rule: add_slot.induct)
  case (2 h xs)
  show ?case using size_slot_handlers [of xs] by simp
qed simp_all

lemma add_slot_Some: "add_slot (Some h) hs = Some us \<Longrightarrow>
  slot_handlers us = add_mset h (slot_handlers hs) \<and> length us = length hs"
  by (induction "Some h" hs arbitrary: us rule: add_slot.induct) auto

lemma remove_slots_handlers: "slot_handlers (remove_slots (Some h) hs) = filter_mset (\<lambda>x. x \<noteq> h) (slot_handlers hs)"
proof (induction hs)
  case (Cons a hs)
  then show ?case by (cases a) (auto simp: remove_slots_def)
qed (simp add: remove_slots_def)

lemma length_remove_slots [simp]: "length (remove_slots h hs) = length hs"
  by (simp add: remove_slots_def)

interpretation slots: handler_collection "\<lambda>h. add_slot (Some h)" "\<lambda>h. remove_slots (Some h)" slot_handlers
  "\<lambda>hs. length hs = MAX_HANDLERS" MAX_HANDLERS
  by unfold_locales (auto simp: add_slot_None add_slot_Some remove_slots_handlers)


section \<open>Handlers of a request\<close>

definition irq_ok :: "('h, 'a) irqs_scheme \<Rightarrow> bool" where
  "irq_ok s \<longleftrightarrow> (\<forall>irq. length (irq_Handlers s irq) = MAX_HANDLERS)"

definition irq_handlers :: "('h, 'a) irqs_scheme \<Rightarrow> PIC_IRQ \<Rightarrow> 'h multiset" where
  "irq_handlers s irq = slot_handlers (irq_Handlers (irq_Init s) irq)"

lemma irq_Init_idem [simp]: "irq_Init (irq_Init s) = irq_Init s" "irq_Inited (irq_Init s)"
  by (simp_all add: irq_Init_def)

lemma irq_Init_ok: "irq_ok s \<Longrightarrow> irq_ok (irq_Init s)"
  by (simp add: irq_ok_def irq_Init_def)

lemma inited_Init: "irq_Inited s \<Longrightarrow> irq_Init s = s"
  by (simp add: irq_Init_def)

lemma irq_Handlers_upd [simp]: "irq_Inited (s\<lparr>irq_Handlers := f\<rparr>) = irq_Inited s"
  by simp

lemma add_remove_handlers:
  assumes "irq_ok s"
  shows "(let (r, t) = AddIRQHandler irq (Some h) s
     in r = (size (irq_handlers s irq) < MAX_HANDLERS) \<and> irq_ok t \<and>
        irq_handlers t = (if r then (irq_handlers s)(irq := add_mset h (irq_handlers s irq)) else irq_handlers s)) \<and>
    (let t = RemoveIRQHandler irq (Some h) s
     in irq_ok t \<and> irq_handlers t = (irq_handlers s)(irq := filter_mset (\<lambda>x. x \<noteq> h) (irq_handlers s irq)))"
proof -
  define s1 where "s1 = irq_Init s"
  have len: "length (irq_Handlers s1 i) = MAX_HANDLERS" for i
    using irq_Init_ok [OF assms] by (simp add: irq_ok_def s1_def)
  have hs: "irq_handlers s i = slot_handlers (irq_Handlers s1 i)" for i by (simp add: irq_handlers_def s1_def)
  have upd: "irq_handlers (s1\<lparr>irq_Handlers := (irq_Handlers s1)(irq := us)\<rparr>) = (irq_handlers s)(irq := slot_handlers us)" for us
    by (auto simp: irq_handlers_def inited_Init s1_def fun_eq_iff)
  have same: "irq_handlers s1 = irq_handlers s" by (auto simp: irq_handlers_def s1_def)
  show ?thesis
  proof (cases "add_slot (Some h) (irq_Handlers s1 irq)")
    case None
    then show ?thesis
      using slots.add_full [OF len, of h irq] slots.remove_handlers [OF len, of h irq] len
      by (auto simp: AddIRQHandler_def RemoveIRQHandler_def Let_def same upd hs irq_ok_def not_less simp flip: s1_def)
  next
    case (Some us)
    then show ?thesis
      using slots.add_full [OF len, of h irq] slots.add_handlers [OF len Some] slots.remove_handlers [OF len, of h irq] len
      by (auto simp: AddIRQHandler_def RemoveIRQHandler_def Let_def upd hs irq_ok_def not_less simp flip: s1_def)
  qed
qed

text \<open>
  C19. The table refines sixteen multisets of handlers of at most 32 elements: adding a handler adds
  one copy, or returns false and changes nothing when there are 32; removing one removes all its
  copies; both leave the other requests alone and keep the tables well formed.
\<close>

theorem irq_handlers_refine:
  assumes "irq_ok s"
  shows "(let (r, t) = AddIRQHandler irq (Some h) s
     in r = (size (irq_handlers s irq) < MAX_HANDLERS) \<and> irq_ok t \<and>
        irq_handlers t = (if r then (irq_handlers s)(irq := add_mset h (irq_handlers s irq)) else irq_handlers s)) \<and>
    (let t = RemoveIRQHandler irq (Some h) s
     in irq_ok t \<and> irq_handlers t = (irq_handlers s)(irq := filter_mset (\<lambda>x. x \<noteq> h) (irq_handlers s irq)))"
  using assms by (rule add_remove_handlers)

definition irqs_boot :: "nat irqs" where
  "irqs_boot = \<lparr> io_trace = [], io_if = False, irq_Inited = False, irq_Handlers = \<lambda>_. replicate MAX_HANDLERS None \<rparr>"

theorem irq_handlers_refine_witness:
  "fst (AddIRQHandler IRQ8 (Some 5) irqs_boot) \<and> irq_handlers (snd (AddIRQHandler IRQ8 (Some 5) irqs_boot)) IRQ8 = {#5#}"
proof -
  have ok: "irq_ok irqs_boot" by (simp add: irq_ok_def irqs_boot_def)
  have "irq_handlers irqs_boot IRQ8 = {#}"
    by (simp add: irq_handlers_def irqs_boot_def irq_Init_def MAX_HANDLERS_def numeral_eq_Suc)
  then show ?thesis
    using irq_handlers_refine [OF ok, of IRQ8 5] by (simp add: case_prod_beta Let_def MAX_HANDLERS_def)
qed

end
