(* ===== verification/XEOS_IDT.thy ===== *)
theory XEOS_IDT
  imports XEOS_IRQ
begin

text \<open>
  The interrupt descriptor table (source/core/xeos/hal/idt), the dispatch of an interrupt to its
  service routine, and the routines that the main function of the kernel installs.

  The descriptors of the two targets share their first four fields, which the operations use: the
  operations are polymorphic in the rest.  A reference to a descriptor is its index in the table, or
  None for NULL.
\<close>

definition MAX_DESCRIPTORS :: nat where "MAX_DESCRIPTORS = 256"

record ISREntry =
  ise_baseLow :: u16
  ise_selector :: u16
  ise_reserved0 :: u8
  ise_flags :: u8

record ISREntry32 = ISREntry +
  ise_baseHigh32 :: u16

record ISREntry64 = ISREntry +
  ise_baseMiddle :: u16
  ise_baseHigh64 :: u32
  ise_reserved1 :: u32

datatype ISREntryType = TypeUnknown | TypeTask32 | TypeInterrupt16 | TypeTrap16 | TypeInterrupt32 | TypeTrap32

fun type_value :: "ISREntryType \<Rightarrow> u8" where
  "type_value TypeUnknown = 0x00" | "type_value TypeTask32 = 0x05" | "type_value TypeInterrupt16 = 0x06"
| "type_value TypeTrap16 = 0x07" | "type_value TypeInterrupt32 = 0x0E" | "type_value TypeTrap32 = 0x0F"

datatype PrivilegeLevel = Ring0 | Ring1 | Ring2 | Ring3

fun level_value :: "PrivilegeLevel \<Rightarrow> u8" where
  "level_value Ring0 = 0x00" | "level_value Ring1 = 0x01" | "level_value Ring2 = 0x02" | "level_value Ring3 = 0x03"

text \<open>
  The table, the service routines (function pointers of a type of the model's choice), and the
  pointer that the processor loads: the size of the table less one, and its address.
\<close>

record ('h, 'g, 'e) idt = "'h irqs" +
  idt_ISREntries :: "'e list"
  idt_ISRHandlers :: "'g option list"
  idt_limit :: u16
  idt_base :: u64
  idt_loaded :: "(u16 \<times> u64) option"


section \<open>The accessors\<close>

definition IDT_GetISREntry :: "u8 \<Rightarrow> nat option" where
  "IDT_GetISREntry isr = Some (unat isr)"

definition ISREntryGetIndex :: "nat option \<Rightarrow> int" where
  "ISREntryGetIndex e = (case e of None \<Rightarrow> - 1 | Some i \<Rightarrow> if MAX_DESCRIPTORS \<le> i then - 1 else int i)"

definition ISREntryGetHandler :: "nat option \<Rightarrow> ('h, 'g, 'e, 'a) idt_scheme \<Rightarrow> 'g option" where
  "ISREntryGetHandler e s =
     (if e = None then None
      else let isr = ISREntryGetIndex e
           in if isr < 0 \<or> int MAX_DESCRIPTORS \<le> isr then None else idt_ISRHandlers s ! nat isr)"

definition ISREntryGetPresent :: "nat option \<Rightarrow> ('h, 'g, 'b ISREntry_scheme, 'a) idt_scheme \<Rightarrow> bool" where
  "ISREntryGetPresent e s =
     (case e of None \<Rightarrow> False
      | Some i \<Rightarrow> (ucast (ise_flags (idt_ISREntries s ! i)) :: u32) AND 0x8000 \<noteq> 0)"

definition ISREntryGetPrivilegeLevel :: "nat option \<Rightarrow> ('h, 'g, 'b ISREntry_scheme, 'a) idt_scheme \<Rightarrow> u8" where
  "ISREntryGetPrivilegeLevel e s =
     (case e of None \<Rightarrow> level_value Ring0
      | Some i \<Rightarrow> drop_bit 5 (ise_flags (idt_ISREntries s ! i)) AND 0x03)"

definition ISREntryGetSelector :: "nat option \<Rightarrow> ('h, 'g, 'b ISREntry_scheme, 'a) idt_scheme \<Rightarrow> u16" where
  "ISREntryGetSelector e s = (case e of None \<Rightarrow> 0 | Some i \<Rightarrow> ise_selector (idt_ISREntries s ! i))"

definition ISREntryGetType :: "nat option \<Rightarrow> ('h, 'g, 'b ISREntry_scheme, 'a) idt_scheme \<Rightarrow> u8" where
  "ISREntryGetType e s =
     (case e of None \<Rightarrow> type_value TypeUnknown | Some i \<Rightarrow> ise_flags (idt_ISREntries s ! i) AND 0x0F)"

definition entry_update :: "('e \<Rightarrow> 'e) \<Rightarrow> nat option \<Rightarrow> ('h, 'g, 'e, 'a) idt_scheme \<Rightarrow> ('h, 'g, 'e, 'a) idt_scheme" where
  "entry_update f e s =
     (case e of None \<Rightarrow> s
      | Some i \<Rightarrow> s\<lparr>idt_ISREntries := (idt_ISREntries s)[i := f (idt_ISREntries s ! i)]\<rparr>)"

definition ISREntrySetSelector :: "nat option \<Rightarrow> u16 \<Rightarrow> ('h, 'g, 'b ISREntry_scheme, 'a) idt_scheme
    \<Rightarrow> ('h, 'g, 'b ISREntry_scheme, 'a) idt_scheme" where
  "ISREntrySetSelector e v = entry_update (\<lambda>x. x\<lparr>ise_selector := v\<rparr>) e"

definition ISREntrySetType :: "nat option \<Rightarrow> ISREntryType \<Rightarrow> ('h, 'g, 'b ISREntry_scheme, 'a) idt_scheme
    \<Rightarrow> ('h, 'g, 'b ISREntry_scheme, 'a) idt_scheme" where
  "ISREntrySetType e t =
     (let flags = type_value t AND 0x0F
      in entry_update (\<lambda>x. x\<lparr>ise_flags := (ise_flags x AND 0xF0) OR flags\<rparr>) e)"

definition ISREntrySetPrivilegeLevel :: "nat option \<Rightarrow> PrivilegeLevel \<Rightarrow> ('h, 'g, 'b ISREntry_scheme, 'a) idt_scheme
    \<Rightarrow> ('h, 'g, 'b ISREntry_scheme, 'a) idt_scheme" where
  "ISREntrySetPrivilegeLevel e l =
     (let flags = push_bit 5 (level_value l) AND 0x60
      in entry_update (\<lambda>x. x\<lparr>ise_flags := (ise_flags x AND 0x9F) OR flags\<rparr>) e)"

definition ISREntrySetPresent :: "nat option \<Rightarrow> bool \<Rightarrow> ('h, 'g, 'b ISREntry_scheme, 'a) idt_scheme
    \<Rightarrow> ('h, 'g, 'b ISREntry_scheme, 'a) idt_scheme" where
  "ISREntrySetPresent e present =
     entry_update (\<lambda>x. x\<lparr>ise_flags := if present then ise_flags x OR 0x80 else ise_flags x AND 0x7F\<rparr>) e"

definition ISREntrySetHandler :: "nat option \<Rightarrow> 'g option \<Rightarrow> ('h, 'g, 'e, 'a) idt_scheme \<Rightarrow> ('h, 'g, 'e, 'a) idt_scheme" where
  "ISREntrySetHandler e handler s =
     (if e = None then s
      else let isr = ISREntryGetIndex e
           in if 0 \<le> isr \<and> isr < int MAX_DESCRIPTORS
              then s\<lparr>idt_ISRHandlers := (idt_ISRHandlers s)[nat isr := handler]\<rparr> else s)"

definition IDT_SetISREntry :: "u8 \<Rightarrow> u16 \<Rightarrow> ISREntryType \<Rightarrow> PrivilegeLevel \<Rightarrow> bool \<Rightarrow> 'g option
    \<Rightarrow> ('h, 'g, 'b ISREntry_scheme, 'a) idt_scheme \<Rightarrow> ('h, 'g, 'b ISREntry_scheme, 'a) idt_scheme" where
  "IDT_SetISREntry isr selector t level present handler s =
     (let e = IDT_GetISREntry isr
      in if e \<noteq> None
         then ISREntrySetHandler e handler (ISREntrySetPresent e present (ISREntrySetPrivilegeLevel e level
                (ISREntrySetType e t (ISREntrySetSelector e selector s))))
         else s)"

definition IDT_Reload :: "('h, 'g, 'e, 'a) idt_scheme \<Rightarrow> ('h, 'g, 'e, 'a) idt_scheme" where
  "IDT_Reload s = s\<lparr>idt_loaded := Some (idt_limit s, idt_base s)\<rparr>"


section \<open>Initialisation\<close>

text \<open>
  The stubs are assembly code: their addresses are a parameter, as is the address of the table.  The
  macros for the two targets set the address of one descriptor.
\<close>

definition init_isr32 :: "u64 \<Rightarrow> ISREntry32 \<Rightarrow> ISREntry32" where
  "init_isr32 isr e = e\<lparr>ise_baseLow := ucast (isr AND 0x0000FFFF), ise_baseHigh32 := ucast (drop_bit 16 isr AND 0x0000FFFF)\<rparr>"

definition init_isr64 :: "u64 \<Rightarrow> ISREntry64 \<Rightarrow> ISREntry64" where
  "init_isr64 isr e = e\<lparr>ise_baseLow := ucast (isr AND 0x0000FFFF), ise_baseMiddle := ucast (drop_bit 16 isr AND 0x0000FFFF),
     ise_baseHigh64 := ucast (drop_bit 32 isr AND 0xFFFFFFFF)\<rparr>"

definition zero32 :: ISREntry32 where
  "zero32 = \<lparr> ise_baseLow = 0, ise_selector = 0, ise_reserved0 = 0, ise_flags = 0, ise_baseHigh32 = 0 \<rparr>"

definition zero64 :: ISREntry64 where
  "zero64 = \<lparr> ise_baseLow = 0, ise_selector = 0, ise_reserved0 = 0, ise_flags = 0, ise_baseMiddle = 0,
     ise_baseHigh64 = 0, ise_reserved1 = 0 \<rparr>"

fun init_loop :: "nat list \<Rightarrow> ('h, 'g, 'b ISREntry_scheme, 'a) idt_scheme \<Rightarrow> ('h, 'g, 'b ISREntry_scheme, 'a) idt_scheme" where
  "init_loop [] s = s"
| "init_loop (i # is) s =
     (let e = IDT_GetISREntry (of_nat i)
      in init_loop is (ISREntrySetHandler e None (ISREntrySetPresent e True (ISREntrySetPrivilegeLevel e Ring3
           (ISREntrySetType e TypeInterrupt32 (ISREntrySetSelector e 0x08 s))))))"

definition idt_init :: "nat \<Rightarrow> 'b ISREntry_scheme \<Rightarrow> (u64 \<Rightarrow> 'b ISREntry_scheme \<Rightarrow> 'b ISREntry_scheme) \<Rightarrow> (nat \<Rightarrow> u64) \<Rightarrow> u64
    \<Rightarrow> ('h, 'g, 'b ISREntry_scheme, 'a) idt_scheme \<Rightarrow> ('h, 'g, 'b ISREntry_scheme, 'a) idt_scheme" where
  "idt_init esize zero init_isr stub table s =
     (let s1 = s\<lparr>idt_limit := 0, idt_base := 0, idt_ISREntries := replicate MAX_DESCRIPTORS zero,
                 idt_ISRHandlers := replicate MAX_DESCRIPTORS None\<rparr>;
          s2 = s1\<lparr>idt_ISREntries := map (\<lambda>i. init_isr (stub i) (idt_ISREntries s1 ! i)) [0..<MAX_DESCRIPTORS]\<rparr>;
          s3 = init_loop [0..<MAX_DESCRIPTORS] s2;
          s4 = s3\<lparr>idt_limit := of_nat (esize * MAX_DESCRIPTORS) - 1, idt_base := table\<rparr>
      in IDT_Reload s4)"

text \<open>A descriptor has 8 bytes on i386 and 16 bytes on x86-64.\<close>

definition IDT_Init32 :: "(nat \<Rightarrow> u64) \<Rightarrow> u64 \<Rightarrow> ('h, 'g, ISREntry32, 'a) idt_scheme \<Rightarrow> ('h, 'g, ISREntry32, 'a) idt_scheme" where
  "IDT_Init32 stub table = idt_init 8 zero32 init_isr32 stub (table AND 0xFFFFFFFF)"

definition IDT_Init64 :: "(nat \<Rightarrow> u64) \<Rightarrow> u64 \<Rightarrow> ('h, 'g, ISREntry64, 'a) idt_scheme \<Rightarrow> ('h, 'g, ISREntry64, 'a) idt_scheme" where
  "IDT_Init64 stub table = idt_init 16 zero64 init_isr64 stub table"


section \<open>Dispatch\<close>

type_synonym ('g, 's) isr_call = "'g \<Rightarrow> u8 \<Rightarrow> u64 \<Rightarrow> 's \<Rightarrow> 's option"

definition IDT_HandleISR :: "('g, ('h, 'g, 'e, 'a) idt_scheme) isr_call \<Rightarrow> u8 \<Rightarrow> u64 \<Rightarrow> ('h, 'g, 'e, 'a) idt_scheme
    \<Rightarrow> ('h, 'g, 'e, 'a) idt_scheme option" where
  "IDT_HandleISR call isr regs s =
     (let e = IDT_GetISREntry isr
      in if e = None then Some s
         else case ISREntryGetHandler e s of None \<Rightarrow> Some s | Some h \<Rightarrow> call h isr regs s)"

text \<open>The service routines of the kernel, and the loops of XEOS_Main that install them.\<close>

datatype kernel_isr = KIsr_Exception | KIsr_IRQ | KIsr_SysCall

primrec install_loop :: "kernel_isr \<Rightarrow> nat \<Rightarrow> nat \<Rightarrow> ('h, kernel_isr, 'b ISREntry_scheme, 'a) idt_scheme
    \<Rightarrow> ('h, kernel_isr, 'b ISREntry_scheme, 'a) idt_scheme" where
  "install_loop g i 0 s = s"
| "install_loop g i (Suc k) s =
     install_loop g (i + 1) k (IDT_SetISREntry (of_nat i) 0x08 TypeInterrupt32 Ring0 True (Some g) s)"

definition Main_install_handlers :: "('h, kernel_isr, 'b ISREntry_scheme, 'a) idt_scheme
    \<Rightarrow> ('h, kernel_isr, 'b ISREntry_scheme, 'a) idt_scheme" where
  "Main_install_handlers s =
     (let s1 = install_loop KIsr_Exception 0x00 (0x14 - 0x00) s;
          s2 = install_loop KIsr_IRQ 0x20 (0x2F - 0x20) s1;
          s3 = IDT_SetISREntry 0x80 0x08 TypeInterrupt32 Ring0 True (Some KIsr_SysCall) s2
      in IDT_Reload s3)"

text \<open>
  What the routines do: interrupt requests run the handlers of the request; exceptions and system
  calls are parameters.
\<close>

definition kernel_call :: "(u8 \<Rightarrow> u64 \<Rightarrow> 's \<Rightarrow> 's option) \<Rightarrow> (u8 \<Rightarrow> u64 \<Rightarrow> 's \<Rightarrow> 's option)
    \<Rightarrow> (u8 \<Rightarrow> u64 \<Rightarrow> 's \<Rightarrow> 's option) \<Rightarrow> (kernel_isr, 's) isr_call" where
  "kernel_call exception irq syscall g =
     (case g of KIsr_Exception \<Rightarrow> exception | KIsr_IRQ \<Rightarrow> irq | KIsr_SysCall \<Rightarrow> syscall)"

end
