(* ===== verification/XEOS_IDTProps.thy ===== *)
theory XEOS_IDTProps
  imports XEOS_IDT
begin

text \<open>
  Properties of the interrupt table: what is set in a descriptor is read back, the descriptors after
  the start of the kernel lead to the stubs and to the service routines, and an interrupt request
  runs its handlers in order and is acknowledged at the controllers.
\<close>

section \<open>Descriptors\<close>

definition idt_ok :: "('h, 'g, 'e, 'a) idt_scheme \<Rightarrow> bool" where
  "idt_ok s \<longleftrightarrow> length (idt_ISREntries s) = MAX_DESCRIPTORS \<and> length (idt_ISRHandlers s) = MAX_DESCRIPTORS"

text \<open>SetISREntry in one step.\<close>

definition entry_flags :: "u8 \<Rightarrow> ISREntryType \<Rightarrow> PrivilegeLevel \<Rightarrow> bool \<Rightarrow> u8" where
  "entry_flags f t l p =
     (let g = ((((f AND 0xF0) OR (type_value t AND 0x0F)) AND 0x9F) OR (push_bit 5 (level_value l) AND 0x60))
      in if p then g OR 0x80 else g AND 0x7F)"

lemma unat_isr: "unat (isr :: u8) < MAX_DESCRIPTORS"
  using unat_u8 [of isr] by (simp add: MAX_DESCRIPTORS_def)

lemma SetISREntry_eq:
  assumes "idt_ok s"
  shows "IDT_SetISREntry isr sel t l p h s =
    s\<lparr>idt_ISREntries := (idt_ISREntries s)[unat isr := (idt_ISREntries s ! unat isr)
         \<lparr>ise_selector := sel, ise_flags := entry_flags (ise_flags (idt_ISREntries s ! unat isr)) t l p\<rparr>],
      idt_ISRHandlers := (idt_ISRHandlers s)[unat isr := h]\<rparr>"
proof -
  define i where "i = unat isr"
  have "i < length (idt_ISREntries s)" "i < MAX_DESCRIPTORS"
    using assms unat_isr [of isr] by (simp_all add: idt_ok_def i_def)
  then show ?thesis
    by (simp add: IDT_SetISREntry_def IDT_GetISREntry_def ISREntrySetHandler_def ISREntrySetPresent_def
        ISREntrySetPrivilegeLevel_def ISREntrySetType_def ISREntrySetSelector_def ISREntryGetIndex_def
        entry_update_def Let_def entry_flags_def flip: i_def)
qed

lemma SetISREntry_ok: "idt_ok s \<Longrightarrow> idt_ok (IDT_SetISREntry isr sel t l p h s)"
  by (simp add: SetISREntry_eq) (simp add: idt_ok_def)

lemma entry_flags_parts:
  "entry_flags f t l p AND 0x0F = type_value t"
  "drop_bit 5 (entry_flags f t l p) AND 0x03 = level_value l"
  "bit (entry_flags f t l p) 7 = p"
  by (cases t; cases l; cases p;
      simp add: entry_flags_def Let_def bit.conj_disj_distrib2 and.assoc drop_bit_and drop_bit_or bit_and_iff bit_or_iff)+


text \<open>
  SetISREntry with a selector, type, privilege level, presence and handler makes these the
  values of the descriptor and of its handler, and changes no other descriptor; but the test for
  presence looks at bit 15 of the flags, which have eight bits, and is always false.
\<close>

theorem idt_entry_set_get:
  assumes "idt_ok s"
  shows "let s1 = IDT_SetISREntry isr sel t l p h s; e = IDT_GetISREntry isr in
    ISREntryGetSelector e s1 = sel \<and> ISREntryGetType e s1 = type_value t \<and>
    ISREntryGetPrivilegeLevel e s1 = level_value l \<and> ISREntryGetHandler e s1 = h \<and>
    bit (ise_flags (idt_ISREntries s1 ! unat isr)) 7 = p \<and> \<not> ISREntryGetPresent e s1 \<and>
    (\<forall>j. j \<noteq> unat isr \<longrightarrow> idt_ISREntries s1 ! j = idt_ISREntries s ! j \<and> idt_ISRHandlers s1 ! j = idt_ISRHandlers s ! j)"
proof -
  define i where "i = unat isr"
  have i: "i < length (idt_ISREntries s)" "i < length (idt_ISRHandlers s)" "i < MAX_DESCRIPTORS"
    using assms unat_isr [of isr] by (simp_all add: idt_ok_def i_def)
  have "(ucast (f :: u8) :: u32) AND 0x8000 = 0" for f
  proof -
    have "(0x8000 :: u32) = 2 ^ 15" by simp
    then show ?thesis by (simp only: and_exp_eq_0_iff_not_bit) (use bit_imp_le_length [of f 15] in \<open>auto simp: bit_simps\<close>)
  qed
  then show ?thesis
    using i assms by (simp add: Let_def SetISREntry_eq IDT_GetISREntry_def ISREntryGetSelector_def ISREntryGetType_def
        ISREntryGetPrivilegeLevel_def ISREntryGetHandler_def ISREntryGetPresent_def ISREntryGetIndex_def
        entry_flags_parts flip: i_def)
qed

text \<open>The tables before the kernel has started.\<close>

definition idt_boot :: "(nat, kernel_isr, ISREntry64) idt" where
  "idt_boot = \<lparr> io_trace = [], io_if = False, irq_Inited = False, irq_Handlers = \<lambda>_. replicate MAX_HANDLERS None,
     idt_ISREntries = replicate MAX_DESCRIPTORS zero64, idt_ISRHandlers = replicate MAX_DESCRIPTORS None,
     idt_limit = 0, idt_base = 0, idt_loaded = None \<rparr>"

theorem idt_entry_set_get_witness:
  "let s = IDT_SetISREntry 0x21 0x08 TypeInterrupt32 Ring3 True (Some KIsr_IRQ) idt_boot
   in ISREntryGetHandler (IDT_GetISREntry 0x21) s = Some KIsr_IRQ \<and> \<not> ISREntryGetPresent (IDT_GetISREntry 0x21) s"
proof -
  have "idt_ok idt_boot" by (simp add: idt_ok_def idt_boot_def)
  from idt_entry_set_get [OF this, of "0x21" "0x08" TypeInterrupt32 Ring3 True "Some KIsr_IRQ"]
  show ?thesis by (simp add: Let_def)
qed


section \<open>The table after the start of the kernel\<close>

text \<open>The address in a descriptor, as the processor assembles it.\<close>

definition gate_offset32 :: "ISREntry32 \<Rightarrow> u64" where
  "gate_offset32 e = ucast (ise_baseLow e) OR push_bit 16 (ucast (ise_baseHigh32 e))"

definition gate_offset64 :: "ISREntry64 \<Rightarrow> u64" where
  "gate_offset64 e = ucast (ise_baseLow e) OR push_bit 16 (ucast (ise_baseMiddle e)) OR push_bit 32 (ucast (ise_baseHigh64 e))"

lemma mask16: "(0xFFFF :: u64) = mask 16" by (simp add: mask_eq_exp_minus_1)
lemma mask32: "(0xFFFFFFFF :: u64) = mask 32" by (simp add: mask_eq_exp_minus_1)

lemma gate_offset64_init: "gate_offset64 (init_isr64 isr e) = isr"
proof (rule bit_word_eqI)
  fix n :: nat
  consider "n < 16" | "16 \<le> n" "n < 32" | "32 \<le> n" by linarith
  then show "bit (gate_offset64 (init_isr64 isr e)) n \<longleftrightarrow> bit isr n"
    unfolding gate_offset64_def init_isr64_def mask16 mask32
    by cases (auto simp: bit_simps dest: bit_imp_le_length)
qed

lemma gate_offset32_init:
  assumes "drop_bit 32 isr = 0"
  shows "gate_offset32 (init_isr32 isr e) = isr"
proof (rule bit_word_eqI)
  fix n :: nat
  have z: "\<not> bit isr n" if "32 \<le> n"
  proof -
    have "bit (drop_bit 32 isr) (n - 32) = bit isr n" using that by (simp add: bit_simps)
    then show ?thesis using assms by simp
  qed
  consider "n < 16" | "16 \<le> n" "n < 32" | "32 \<le> n" by linarith
  then show "bit (gate_offset32 (init_isr32 isr e)) n \<longleftrightarrow> bit isr n"
    by cases (simp_all add: gate_offset32_def init_isr32_def mask16 bit_simps less_diff_conv2 z)
qed

text \<open>Setting a descriptor keeps all addresses, and the ones that are ready stay ready.\<close>

definition same_base :: "'b ISREntry_scheme \<Rightarrow> 'b ISREntry_scheme \<Rightarrow> bool" where
  "same_base e f \<longleftrightarrow> ise_baseLow e = ise_baseLow f \<and> ISREntry.more e = ISREntry.more f"

definition gate_ready :: "'b ISREntry_scheme \<Rightarrow> bool" where
  "gate_ready e \<longleftrightarrow> ise_selector e = 0x08 \<and> ise_flags e AND 0x0F = type_value TypeInterrupt32 \<and> bit (ise_flags e) 7"

lemma Set_base:
  "idt_ok s \<Longrightarrow> v < MAX_DESCRIPTORS \<Longrightarrow> same_base (idt_ISREntries (IDT_SetISREntry isr sel t l p h s) ! v) (idt_ISREntries s ! v)"
  by (cases "v = unat isr") (simp_all add: SetISREntry_eq same_base_def idt_ok_def)

lemma Set_ready:
  "idt_ok s \<Longrightarrow> v < MAX_DESCRIPTORS \<Longrightarrow> v = unat isr \<or> gate_ready (idt_ISREntries s ! v) \<Longrightarrow>
    gate_ready (idt_ISREntries (IDT_SetISREntry isr 0x08 TypeInterrupt32 l True h s) ! v)"
  by (cases "v = unat isr") (simp_all add: SetISREntry_eq gate_ready_def idt_ok_def entry_flags_parts)

lemma Set_handlers:
  "idt_ok s \<Longrightarrow> v < MAX_DESCRIPTORS \<Longrightarrow>
    idt_ISRHandlers (IDT_SetISREntry isr sel t l p h s) ! v = (if v = unat isr then h else idt_ISRHandlers s ! v)"
  by (simp add: SetISREntry_eq idt_ok_def)

lemma same_base_trans: "same_base e f \<Longrightarrow> same_base f g \<Longrightarrow> same_base e g"
  by (simp add: same_base_def)

lemma unat_vector: "i < MAX_DESCRIPTORS \<Longrightarrow> unat (of_nat i :: u8) = i"
  by (rule unat_of_nat_u8) (simp add: MAX_DESCRIPTORS_def)

lemma init_loop_Set: "init_loop (i # is) s =
  init_loop is (IDT_SetISREntry (of_nat i) 0x08 TypeInterrupt32 Ring3 True None s)"
  by (simp add: IDT_SetISREntry_def IDT_GetISREntry_def Let_def)

lemma init_loop_entries:
  assumes "idt_ok s" "\<forall>i\<in>set is. i < MAX_DESCRIPTORS" "v < MAX_DESCRIPTORS"
  shows "idt_ok (init_loop is s) \<and> same_base (idt_ISREntries (init_loop is s) ! v) (idt_ISREntries s ! v) \<and>
    (v \<in> set is \<or> gate_ready (idt_ISREntries s ! v) \<longrightarrow> gate_ready (idt_ISREntries (init_loop is s) ! v)) \<and>
    (idt_ISRHandlers s ! v = None \<longrightarrow> idt_ISRHandlers (init_loop is s) ! v = None)"
  using assms(1,2)
proof (induction "is" arbitrary: s)
  case Nil
  then show ?case by (simp add: same_base_def)
next
  case (Cons i js)
  define s1 where "s1 = IDT_SetISREntry (of_nat i) 0x08 TypeInterrupt32 Ring3 True None s"
  have i: "unat (of_nat i :: u8) = i" using Cons.prems by (intro unat_vector) simp
  have "idt_ok s1" unfolding s1_def by (rule SetISREntry_ok [OF Cons.prems(1)])
  note IH = Cons.IH [OF this]
  have "same_base (idt_ISREntries s1 ! v) (idt_ISREntries s ! v)"
    unfolding s1_def by (rule Set_base [OF Cons.prems(1) assms(3)])
  moreover have "v = i \<or> gate_ready (idt_ISREntries s ! v) \<Longrightarrow> gate_ready (idt_ISREntries s1 ! v)"
    unfolding s1_def by (rule Set_ready [OF Cons.prems(1) assms(3)]) (simp add: i)
  moreover have "idt_ISRHandlers s ! v = None \<Longrightarrow> idt_ISRHandlers s1 ! v = None"
    unfolding s1_def by (simp add: Set_handlers [OF Cons.prems(1) assms(3)])
  ultimately show ?case
    using IH Cons.prems(2) unfolding init_loop_Set s1_def [symmetric] by (auto intro: same_base_trans)
qed

lemma install_loop_entries:
  assumes "idt_ok s" "i + k \<le> MAX_DESCRIPTORS" "v < MAX_DESCRIPTORS"
  shows "idt_ok (install_loop g i k s) \<and> same_base (idt_ISREntries (install_loop g i k s) ! v) (idt_ISREntries s ! v) \<and>
    (gate_ready (idt_ISREntries s ! v) \<longrightarrow> gate_ready (idt_ISREntries (install_loop g i k s) ! v)) \<and>
    idt_ISRHandlers (install_loop g i k s) ! v = (if i \<le> v \<and> v < i + k then Some g else idt_ISRHandlers s ! v)"
  using assms(1,2)
proof (induction k arbitrary: i s)
  case 0
  then show ?case by (auto simp: same_base_def)
next
  case (Suc k)
  define s1 where "s1 = IDT_SetISREntry (of_nat i) 0x08 TypeInterrupt32 Ring0 True (Some g) s"
  have i: "unat (of_nat i :: u8) = i" using Suc.prems by (intro unat_vector) simp
  have "idt_ok s1" unfolding s1_def by (rule SetISREntry_ok [OF Suc.prems(1)])
  note IH = Suc.IH [OF this, of "i + 1"]
  have "same_base (idt_ISREntries s1 ! v) (idt_ISREntries s ! v)"
    unfolding s1_def by (rule Set_base [OF Suc.prems(1) assms(3)])
  moreover have "gate_ready (idt_ISREntries s ! v) \<Longrightarrow> gate_ready (idt_ISREntries s1 ! v)"
    unfolding s1_def by (rule Set_ready [OF Suc.prems(1) assms(3)]) simp
  moreover have "idt_ISRHandlers s1 ! v = (if v = i then Some g else idt_ISRHandlers s ! v)"
    unfolding s1_def by (simp add: Set_handlers [OF Suc.prems(1) assms(3)] i)
  ultimately show ?case
    using IH Suc.prems(2) unfolding install_loop.simps s1_def [symmetric] by (auto intro: same_base_trans)
qed


text \<open>The service routine of a vector after the main function has installed them.\<close>

definition kernel_vector :: "nat \<Rightarrow> kernel_isr option" where
  "kernel_vector v =
     (if v < 0x14 then Some KIsr_Exception else if 0x20 \<le> v \<and> v < 0x2F then Some KIsr_IRQ
      else if v = 0x80 then Some KIsr_SysCall else None)"

lemma Reload_keeps [simp]:
  "idt_ISREntries (IDT_Reload s) = idt_ISREntries s" "idt_ISRHandlers (IDT_Reload s) = idt_ISRHandlers s"
  "idt_ok (IDT_Reload s) = idt_ok s" "idt_loaded (IDT_Reload s) = Some (idt_limit s, idt_base s)"
  by (simp_all add: IDT_Reload_def idt_ok_def)

lemma Set_pointer [simp]:
  "idt_ok s \<Longrightarrow> idt_limit (IDT_SetISREntry isr sel t l p h s) = idt_limit s"
  "idt_ok s \<Longrightarrow> idt_base (IDT_SetISREntry isr sel t l p h s) = idt_base s"
  by (simp_all add: SetISREntry_eq)

lemma install_pointer:
  "idt_ok s \<Longrightarrow> idt_ok (install_loop g i k s) \<and> idt_limit (install_loop g i k s) = idt_limit s \<and>
    idt_base (install_loop g i k s) = idt_base s"
  by (induction k arbitrary: i s) (simp_all add: SetISREntry_ok)

lemma idt_init_result:
  assumes "v < MAX_DESCRIPTORS" and s1_def: "s1 = idt_init esize zero init_isr stub table s"
  shows "idt_ok s1 \<and> same_base (idt_ISREntries s1 ! v) (init_isr (stub v) zero) \<and> gate_ready (idt_ISREntries s1 ! v) \<and>
    idt_ISRHandlers s1 ! v = None \<and> idt_limit s1 = of_nat (esize * MAX_DESCRIPTORS) - 1 \<and> idt_base s1 = table"
proof -
  define s0 where "s0 = s\<lparr>idt_limit := 0, idt_base := 0, idt_ISRHandlers := replicate MAX_DESCRIPTORS None,
    idt_ISREntries := map (\<lambda>i. init_isr (stub i) (replicate MAX_DESCRIPTORS zero ! i)) [0..<MAX_DESCRIPTORS]\<rparr>"
  have s1: "s1 = IDT_Reload ((init_loop [0..<MAX_DESCRIPTORS] s0)\<lparr>idt_limit := of_nat (esize * MAX_DESCRIPTORS) - 1, idt_base := table\<rparr>)"
    by (simp add: s1_def idt_init_def Let_def s0_def)
  have "idt_ok s0" by (simp add: s0_def idt_ok_def)
  moreover have "idt_ISREntries s0 ! v = init_isr (stub v) zero" "idt_ISRHandlers s0 ! v = None"
    using assms(1) by (simp_all add: s0_def)
  ultimately show ?thesis
    using init_loop_entries [of s0 "[0..<MAX_DESCRIPTORS]" v] assms(1) unfolding s1
    by (simp add: idt_ok_def) (simp add: IDT_Reload_def)
qed

lemma Main_install_result:
  assumes "idt_ok s" "v < MAX_DESCRIPTORS" "gate_ready (idt_ISREntries s ! v)" "idt_ISRHandlers s ! v = None"
    and s1_def: "s1 = Main_install_handlers s"
  shows "same_base (idt_ISREntries s1 ! v) (idt_ISREntries s ! v) \<and> gate_ready (idt_ISREntries s1 ! v) \<and>
    idt_ISRHandlers s1 ! v = kernel_vector v \<and> idt_loaded s1 = Some (idt_limit s, idt_base s)"
proof -
  define t1 where "t1 = install_loop KIsr_Exception 0 20 s"
  define t2 where "t2 = install_loop KIsr_IRQ 32 15 t1"
  have t1: "idt_ok t1" "same_base (idt_ISREntries t1 ! v) (idt_ISREntries s ! v)" "gate_ready (idt_ISREntries t1 ! v)"
    "idt_ISRHandlers t1 ! v = (if v < 20 then Some KIsr_Exception else None)"
    using install_loop_entries [OF assms(1) _ assms(2), of 0 20 KIsr_Exception] assms(3,4)
    by (simp_all add: t1_def MAX_DESCRIPTORS_def)
  have t2: "idt_ok t2" "same_base (idt_ISREntries t2 ! v) (idt_ISREntries t1 ! v)" "gate_ready (idt_ISREntries t2 ! v)"
    "idt_ISRHandlers t2 ! v = (if 32 \<le> v \<and> v < 47 then Some KIsr_IRQ else idt_ISRHandlers t1 ! v)"
    using install_loop_entries [OF t1(1) _ assms(2), of 32 15 KIsr_IRQ] t1(3) by (simp_all add: t2_def MAX_DESCRIPTORS_def)
  have p: "idt_limit t2 = idt_limit s" "idt_base t2 = idt_base s"
    using install_pointer [OF assms(1)] install_pointer [OF t1(1)] by (simp_all add: t1_def t2_def)
  define t3 where "t3 = IDT_SetISREntry 0x80 0x08 TypeInterrupt32 Ring0 True (Some KIsr_SysCall) t2"
  have s1: "s1 = IDT_Reload t3"
    by (simp add: s1_def Main_install_handlers_def Let_def t1_def t2_def t3_def)
  have "same_base (idt_ISREntries t3 ! v) (idt_ISREntries t2 ! v)"
    unfolding t3_def by (rule Set_base [OF t2(1) assms(2)])
  moreover have "gate_ready (idt_ISREntries t3 ! v)"
    unfolding t3_def by (rule Set_ready [OF t2(1) assms(2)]) (simp add: t2(3))
  moreover have "idt_ISRHandlers t3 ! v = kernel_vector v"
    unfolding t3_def Set_handlers [OF t2(1) assms(2)] t2(4) t1(4) by (simp add: kernel_vector_def)
  moreover have "idt_limit t3 = idt_limit s" "idt_base t3 = idt_base s" using t2(1) p by (simp_all add: t3_def)
  ultimately show ?thesis using t1(2) t2(2) unfolding s1 by (auto intro: same_base_trans)
qed

text \<open>
  C10. After the table is initialised and the main function has installed its handlers, on both
  targets every one of the 256 descriptors is a present interrupt gate with selector 8 and the
  address of its own stub, the processor has got the size and the address of the table, and the
  handlers are those for exceptions at 0 to 19, for interrupt requests at 32 to 46 and for system
  calls at 128.  The vector 47 of request 15 has none, because the loop in the main function ends
  one too early.
\<close>

theorem kernel_idt:
  assumes "v < MAX_DESCRIPTORS"
  shows "(let s1 = Main_install_handlers (IDT_Init64 stub table s)
     in gate_ready (idt_ISREntries s1 ! v) \<and> gate_offset64 (idt_ISREntries s1 ! v) = stub v \<and>
        idt_ISRHandlers s1 ! v = kernel_vector v \<and> idt_loaded s1 = Some (0x0FFF, table)) \<and>
    (drop_bit 32 (stub v) = 0 \<longrightarrow>
     (let s1 = Main_install_handlers (IDT_Init32 stub table s')
      in gate_ready (idt_ISREntries s1 ! v) \<and> gate_offset32 (idt_ISREntries s1 ! v) = stub v \<and>
         idt_ISRHandlers s1 ! v = kernel_vector v \<and> idt_loaded s1 = Some (0x07FF, table AND 0xFFFFFFFF)))"
proof -
  define a b where "a = IDT_Init64 stub table s" and "b = IDT_Init32 stub table s'"
  have a: "idt_ok a" "same_base (idt_ISREntries a ! v) (init_isr64 (stub v) zero64)" "gate_ready (idt_ISREntries a ! v)"
    "idt_ISRHandlers a ! v = None" "idt_limit a = 0x0FFF" "idt_base a = table"
    using idt_init_result [OF assms, of a 16 zero64 init_isr64 stub table s]
    by (simp_all add: a_def IDT_Init64_def MAX_DESCRIPTORS_def)
  have b: "idt_ok b" "same_base (idt_ISREntries b ! v) (init_isr32 (stub v) zero32)" "gate_ready (idt_ISREntries b ! v)"
    "idt_ISRHandlers b ! v = None" "idt_limit b = 0x07FF" "idt_base b = table AND 0xFFFFFFFF"
    using idt_init_result [OF assms, of b 8 zero32 init_isr32 stub "table AND 0xFFFFFFFF" s']
    by (simp_all add: b_def IDT_Init32_def MAX_DESCRIPTORS_def)
  have off64: "same_base e f \<Longrightarrow> gate_offset64 e = gate_offset64 f" for e f
    by (cases e; cases f) (simp add: same_base_def gate_offset64_def)
  have off32: "same_base e f \<Longrightarrow> gate_offset32 e = gate_offset32 f" for e f
    by (cases e; cases f) (simp add: same_base_def gate_offset32_def)
  show ?thesis
    using Main_install_result [OF a(1) assms a(3,4) refl] Main_install_result [OF b(1) assms b(3,4) refl] a b
      off64 [OF same_base_trans, of _ "idt_ISREntries a ! v" "init_isr64 (stub v) zero64"]
      off32 [OF same_base_trans, of _ "idt_ISREntries b ! v" "init_isr32 (stub v) zero32"]
    by (simp add: Let_def gate_offset64_init gate_offset32_init flip: a_def b_def)
qed

theorem kernel_idt_witness:
  "let s1 = Main_install_handlers (IDT_Init64 (\<lambda>v. 0xFFFF800000100000 + 0x40 * of_nat v) 0x200000 idt_boot)
   in gate_offset64 (idt_ISREntries s1 ! 0x28) = 0xFFFF800000100A00 \<and> idt_ISRHandlers s1 ! 0x28 = Some KIsr_IRQ \<and>
      idt_ISRHandlers s1 ! 0x2F = None"
proof -
  have v: "0x28 < MAX_DESCRIPTORS" "0x2F < MAX_DESCRIPTORS" by (simp_all add: MAX_DESCRIPTORS_def)
  show ?thesis
    using kernel_idt [OF v(1), of "\<lambda>v. 0xFFFF800000100000 + 0x40 * of_nat v" "0x200000" idt_boot]
      kernel_idt [OF v(2), of "\<lambda>v. 0xFFFF800000100000 + 0x40 * of_nat v" "0x200000" idt_boot]
    by (simp add: Let_def kernel_vector_def)
qed


section \<open>Dispatch of interrupt requests\<close>

text \<open>Handlers that are called in the order of a list.\<close>

fun run_handlers :: "('h, 's) irq_call \<Rightarrow> PIC_IRQ \<Rightarrow> u64 \<Rightarrow> 'h list \<Rightarrow> 's \<Rightarrow> 's option" where
  "run_handlers call irq regs [] s = Some s"
| "run_handlers call irq regs (h # hs) s = do { s1 \<leftarrow> call h irq regs s; run_handlers call irq regs hs s1 }"

definition keeps_table :: "('h, ('h, 'a) irqs_scheme) irq_call \<Rightarrow> bool" where
  "keeps_table call \<longleftrightarrow> (\<forall>h irq regs s s1. call h irq regs s = Some s1 \<longrightarrow>
     irq_Handlers s1 = irq_Handlers s \<and> irq_Inited s1 = irq_Inited s)"

lemma exec_slots_run:
  assumes "keeps_table call" "\<forall>i\<in>set is. i < length (irq_Handlers s irq)"
  shows "exec_slots call irq regs is s = run_handlers call irq regs (List.map_filter (\<lambda>i. irq_Handlers s irq ! i) is) s"
  using assms(2)
proof (induction "is" arbitrary: s)
  case (Cons i js)
  show ?case
  proof (cases "irq_Handlers s irq ! i")
    case None
    then show ?thesis using Cons by (simp add: List.map_filter_simps)
  next
    case (Some h)
    have "irq_Handlers s1 = irq_Handlers s" if "call h irq regs s = Some s1" for s1
      using assms(1) that by (auto simp: keeps_table_def)
    then show ?thesis
      using Cons Some by (cases "call h irq regs s") (simp_all add: List.map_filter_simps)
  qed
qed (simp add: List.map_filter_simps)

lemma map_filter_nth: "List.map_filter (\<lambda>i. xs ! i) [0..<length xs] = List.map_filter id xs"
proof -
  have "List.map_filter id xs = List.map_filter id (map (\<lambda>i. xs ! i) [0..<length xs])" by (simp add: map_nth)
  also have "\<dots> = List.map_filter (\<lambda>i. xs ! i) [0..<length xs]" by (simp add: List.map_filter_def filter_map comp_def)
  finally show ?thesis by simp
qed

lemma Execute_run:
  assumes "keeps_table call" "irq_ok s" "irq_Inited s"
  shows "ExecuteIRQHandlers call irq regs s = run_handlers call irq regs (List.map_filter id (irq_Handlers s irq)) s"
proof -
  have len: "length (irq_Handlers s irq) = MAX_HANDLERS" using assms(2) by (simp add: irq_ok_def)
  show ?thesis
    using exec_slots_run [OF assms(1), of "[0..<MAX_HANDLERS]" s irq regs] map_filter_nth [of "irq_Handlers s irq"]
    by (simp add: ExecuteIRQHandlers_def inited_Init [OF assms(3)] len)
qed

text \<open>The vectors of the requests, as the controllers are set up by Remap.\<close>

definition irq_vector :: "PIC_IRQ \<Rightarrow> u8" where
  "irq_vector irq = 0x20 + of_nat (irq_value irq)"

lemma isr_irq_vector: "isr_irq (irq_vector irq) = Some irq"
  by (cases irq) (simp_all add: irq_vector_def)

lemma irq_vector_eoi: "0x28 \<le> irq_vector irq \<longleftrightarrow> 8 \<le> irq_value irq"
  by (cases irq) (simp_all add: irq_vector_def word_le_nat_alt)

text \<open>
  C9. An interrupt request other than 15 runs the handlers that are registered for it, each once
  and in the order of their slots, and then tells the end of the interrupt to the second controller
  if the request belongs to it, and always to the first.  Request 15 runs nothing, and no controller
  is told that it has ended.
\<close>

theorem irq_dispatch:
  assumes "keeps_table call" "irq_ok s" "irq_Inited s"
    "\<forall>v<MAX_DESCRIPTORS. idt_ISRHandlers s ! v = kernel_vector v"
  shows "(irq \<noteq> IRQ15 \<longrightarrow>
     IDT_HandleISR (kernel_call exc (ISR_IRQ call) sys) (irq_vector irq) regs s =
       do { s1 \<leftarrow> run_handlers call irq regs (List.map_filter id (irq_Handlers s irq)) s;
            let s2 = (if 8 \<le> irq_value irq then IO_PortOut 0xA0 0x20 s1 else s1);
            Some (IO_PortOut 0x20 0x20 s2) }) \<and>
    IDT_HandleISR (kernel_call exc (ISR_IRQ call) sys) (irq_vector IRQ15) regs s = Some s"
proof -
  have u: "unat (irq_vector irq) = 0x20 + irq_value irq" for irq
    by (cases irq) (simp_all add: irq_vector_def)
  have vec: "irq_value irq < 15 \<longleftrightarrow> irq \<noteq> IRQ15" for irq by (cases irq) simp_all
  have h: "ISREntryGetHandler (IDT_GetISREntry (irq_vector irq)) s = (if irq = IRQ15 then None else Some KIsr_IRQ)" for irq
    using assms(4) irq_value_less [of irq] vec [of irq]
    by (auto simp: ISREntryGetHandler_def IDT_GetISREntry_def ISREntryGetIndex_def u MAX_DESCRIPTORS_def kernel_vector_def Let_def)
  have "ISR_IRQ call (irq_vector irq) regs s =
    do { s1 \<leftarrow> run_handlers call irq regs (List.map_filter id (irq_Handlers s irq)) s;
         let s2 = (if 8 \<le> irq_value irq then IO_PortOut 0xA0 0x20 s1 else s1);
         Some (IO_PortOut 0x20 0x20 s2) }"
    unfolding ISR_IRQ_def isr_irq_vector option.case Execute_run [OF assms(1-3)] irq_vector_eoi
      PIC_SendEOI_def PIC_GetRegister.simps
    by (rule refl)
  then show ?thesis
    using h [of irq] h [of IRQ15] by (simp add: IDT_HandleISR_def Let_def kernel_call_def IDT_GetISREntry_def)
qed

text \<open>A handler that writes its number to port 1, registered for request 8.\<close>

definition trace_call :: "(nat, (nat, 'a) irqs_scheme) irq_call" where
  "trace_call h irq regs s = Some (IO_PortOut 1 (of_nat h) s)"

definition idt_started :: "(nat, kernel_isr, ISREntry64) idt" where
  "idt_started = idt_boot\<lparr>irq_Inited := True,
     irq_Handlers := (\<lambda>_. replicate MAX_HANDLERS None)(IRQ8 := Some 5 # replicate 31 None),
     idt_ISRHandlers := map kernel_vector [0..<MAX_DESCRIPTORS]\<rparr>"

theorem irq_dispatch_witness:
  "\<exists>s. IDT_HandleISR (kernel_call (\<lambda>_ _. Some) (ISR_IRQ trace_call) (\<lambda>_ _. Some)) (irq_vector IRQ8) 0 idt_started = Some s \<and>
     port_writes (io_trace s) = [(1, 5), (0xA0, 0x20), (0x20, 0x20)]"
proof -
  have 1: "keeps_table (trace_call :: (nat, (nat, kernel_isr, ISREntry64) idt) irq_call)"
    by (auto simp: keeps_table_def trace_call_def io_simps)
  have slots: "irq_Handlers idt_started IRQ8 = Some 5 # replicate 31 None" "irq_Inited idt_started" "io_trace idt_started = []"
    by (simp_all add: idt_started_def idt_boot_def)
  have 2: "irq_ok idt_started" by (simp add: irq_ok_def idt_started_def MAX_HANDLERS_def)
  have 3: "\<forall>v<MAX_DESCRIPTORS. idt_ISRHandlers idt_started ! v = kernel_vector v"
    by (simp add: idt_started_def)
  have "List.map_filter id (irq_Handlers idt_started IRQ8) = [5]"
    by (simp add: slots List.map_filter_def)
  then show ?thesis
    using irq_dispatch [OF 1 2 slots(2) 3, of IRQ8 "\<lambda>_ _. Some" "\<lambda>_ _. Some" 0] slots(3)
    by (simp add: trace_call_def Let_def io_simps)
qed

end
