(* ===== verification/XEOS_ELF.thy ===== *)
theory XEOS_ELF
  imports XEOS_StringSpec
begin

text \<open>
  The ELF library (source/lib/elf): the structures of a 64-bit ELF image and their accessors.

  An image is in memory and the structures of it are read where they are.  A record collects the
  fields of a structure; header_at, segment_at, section_at and symbol_at read it at an address, with
  the offsets of the compiler (all fields are at their natural alignment on both targets).  A
  reference is an address, and 0 is NULL.  The functions on whole files are in XEOS_ELFFile.
\<close>


section \<open>Enumerations\<close>

datatype ELF64_ObjectFileClass =
    ELF64_ObjectFileClassUnknown | ELF64_ObjectFileClass32 | ELF64_ObjectFileClass64

datatype ELF64_DataEncoding =
    ELF64_DataEncodingUnknown | ELF64_DataEncodingLSB | ELF64_DataEncodingMSB

datatype ELF64_OSABI =
    ELF64_OSABIUnknown | ELF64_OSABISysV | ELF64_OSABIHPUX | ELF64_OSABIStandalone

datatype ELF64_ObjectFileType =
    ELF64_ObjectFileTypeNone | ELF64_ObjectFileTypeRelocatableObjectFile |
    ELF64_ObjectFileTypeExecutableFile | ELF64_ObjectFileTypeSharedObjectFile |
    ELF64_ObjectFileTypeCoreFile

datatype (plugins only:) ELF64_MachineType =
    ELF64_MachineTypeUnknown | ELF64_MachineTypeM32 | ELF64_MachineTypeSPARC |
    ELF64_MachineType386 | ELF64_MachineType68K | ELF64_MachineType88K | ELF64_MachineType860 |
    ELF64_MachineTypeMIPS | ELF64_MachineTypeS370 | ELF64_MachineTypeMIPSRS3LE |
    ELF64_MachineTypePARISC | ELF64_MachineTypeVPP500 | ELF64_MachineTypeSPARC32Plus |
    ELF64_MachineType960 | ELF64_MachineTypePPC | ELF64_MachineTypePPC64 | ELF64_MachineTypeV800 |
    ELF64_MachineTypeFR20 | ELF64_MachineTypeRH32 | ELF64_MachineTypeRCE | ELF64_MachineTypeARM |
    ELF64_MachineTypeAlpha | ELF64_MachineTypeSH | ELF64_MachineTypeSPARCV9 |
    ELF64_MachineTypeTricore | ELF64_MachineTypeARC | ELF64_MachineTypeH8300 |
    ELF64_MachineTypeH8300H | ELF64_MachineTypeH8S | ELF64_MachineTypeH8500 |
    ELF64_MachineTypeIA64 | ELF64_MachineTypeMIPSX | ELF64_MachineTypeColdFire |
    ELF64_MachineType68HC12 | ELF64_MachineTypeMMA | ELF64_MachineTypePCP | ELF64_MachineTypeNCPU |
    ELF64_MachineTypeNDR1 | ELF64_MachineTypeStarCore | ELF64_MachineTypeME16 |
    ELF64_MachineTypeST100 | ELF64_MachineTypeTinyJ | ELF64_MachineTypeFX66 |
    ELF64_MachineTypeST9Plus | ELF64_MachineTypeST7 | ELF64_MachineType68HC16 |
    ELF64_MachineType68HC11 | ELF64_MachineType68HC08 | ELF64_MachineType68HC05 |
    ELF64_MachineTypeSVX | ELF64_MachineTypeST19 | ELF64_MachineTypeVAX | ELF64_MachineTypeCRIS |
    ELF64_MachineTypeJavelin | ELF64_MachineTypeFirePath | ELF64_MachineTypeZSP |
    ELF64_MachineTypeMMIX | ELF64_MachineTypeHUANY | ELF64_MachineTypePrism

datatype ELF64_SegmentType =
    ELF64_SegmentTypeUnused | ELF64_SegmentTypeLoadable | ELF64_SegmentTypeDynamicLinkingTables |
    ELF64_SegmentTypeProgramInterpreterPathName | ELF64_SegmentTypeNoteSections |
    ELF64_SegmentTypeProgramHeaderTable

datatype ELF64_SectionType =
    ELF64_SectionTypeUnused | ELF64_SectionTypeProgBits | ELF64_SectionTypeLinkerSymbolTable |
    ELF64_SectionTypeStringTable | ELF64_SectionTypeRelaRelocationEntries |
    ELF64_SectionTypeSymbolHashTable | ELF64_SectionTypeDynamicLinkingTables |
    ELF64_SectionTypeNoteInformation | ELF64_SectionTypeUninitializedSpace |
    ELF64_SectionTypeRelRelocationEntries | ELF64_SectionTypeDynamicLoaderSymbolTable

datatype ELF64_SymbolType =
    ELF64_SymbolTypeNone | ELF64_SymbolTypeDataObject | ELF64_SymbolTypeFunctionEntryPoint |
    ELF64_SymbolTypeSection | ELF64_SymbolTypeFile

datatype ELF64_SymbolBinding =
    ELF64_SymbolBindingLocal | ELF64_SymbolBindingGlobal | ELF64_SymbolBindingWeak

definition ELF64_SegmentAttributeExecute :: nat where "ELF64_SegmentAttributeExecute = 1"
definition ELF64_SegmentAttributeWrite :: nat where "ELF64_SegmentAttributeWrite = 2"
definition ELF64_SegmentAttributeRead :: nat where "ELF64_SegmentAttributeRead = 4"
definition ELF64_SectionAttributeWrite :: nat where "ELF64_SectionAttributeWrite = 1"
definition ELF64_SectionAttributeAlloc :: nat where "ELF64_SectionAttributeAlloc = 2"
definition ELF64_SectionAttributeExecute :: nat where "ELF64_SectionAttributeExecute = 4"

text \<open>The attribute values are of type int, and widen to the type of the flags they are tested on.\<close>

lemmas elf_attribute_defs = ELF64_SegmentAttributeExecute_def ELF64_SegmentAttributeWrite_def
  ELF64_SegmentAttributeRead_def ELF64_SectionAttributeWrite_def ELF64_SectionAttributeAlloc_def
  ELF64_SectionAttributeExecute_def


section \<open>Structures\<close>

record ELF64_Header =
  e_ident :: "u8 list"
  e_type :: u16
  e_machine :: u16
  e_version :: u32
  e_entry :: u64
  e_phoff :: u64
  e_shoff :: u64
  e_flags :: u32
  e_ehsize :: u16
  e_phentsize :: u16
  e_phnum :: u16
  e_shentsize :: u16
  e_shnum :: u16
  e_shstrndx :: u16

record ELF64_ProgramHeaderEntry =
  p_type :: u32
  p_flags :: u32
  p_offset :: u64
  p_vaddr :: u64
  p_paddr :: u64
  p_filesz :: u64
  p_memsz :: u64
  p_align :: u64

record ELF64_SectionHeaderEntry =
  sh_name :: u32
  sh_type :: u32
  sh_flags :: u64
  sh_addr :: u64
  sh_offset :: u64
  sh_size :: u64
  sh_link :: u32
  sh_info :: u32
  sh_addralign :: u64
  sh_entsize :: u64

record ELF64_SymbolTableEntry =
  st_name :: u32
  st_info :: u8
  st_other :: u8
  st_shndx :: u16
  st_value :: u64
  st_size :: u64

definition header_at :: "bytes \<Rightarrow> nat \<Rightarrow> ELF64_Header" where
  "header_at m a =
     \<lparr>e_ident = map (\<lambda>i. m (a + i)) [0..<16], e_type = rd16 m (a + 16),
      e_machine = rd16 m (a + 18), e_version = rd32 m (a + 20), e_entry = rd64 m (a + 24),
      e_phoff = rd64 m (a + 32), e_shoff = rd64 m (a + 40), e_flags = rd32 m (a + 48),
      e_ehsize = rd16 m (a + 52), e_phentsize = rd16 m (a + 54), e_phnum = rd16 m (a + 56),
      e_shentsize = rd16 m (a + 58), e_shnum = rd16 m (a + 60), e_shstrndx = rd16 m (a + 62)\<rparr>"

lemma header_at_sel [simp]:
  "e_ident (header_at m a) = map (\<lambda>i. m (a + i)) [0..<16]"
  "e_type (header_at m a) = rd16 m (a + 16)"
  "e_machine (header_at m a) = rd16 m (a + 18)"
  "e_version (header_at m a) = rd32 m (a + 20)"
  "e_entry (header_at m a) = rd64 m (a + 24)"
  "e_phoff (header_at m a) = rd64 m (a + 32)"
  "e_shoff (header_at m a) = rd64 m (a + 40)"
  "e_flags (header_at m a) = rd32 m (a + 48)"
  "e_ehsize (header_at m a) = rd16 m (a + 52)"
  "e_phentsize (header_at m a) = rd16 m (a + 54)"
  "e_phnum (header_at m a) = rd16 m (a + 56)"
  "e_shentsize (header_at m a) = rd16 m (a + 58)"
  "e_shnum (header_at m a) = rd16 m (a + 60)"
  "e_shstrndx (header_at m a) = rd16 m (a + 62)"
  by (simp_all add: header_at_def)

definition segment_at :: "bytes \<Rightarrow> nat \<Rightarrow> ELF64_ProgramHeaderEntry" where
  "segment_at m a =
     \<lparr>p_type = rd32 m a, p_flags = rd32 m (a + 4), p_offset = rd64 m (a + 8),
      p_vaddr = rd64 m (a + 16), p_paddr = rd64 m (a + 24), p_filesz = rd64 m (a + 32),
      p_memsz = rd64 m (a + 40), p_align = rd64 m (a + 48)\<rparr>"

lemma segment_at_sel [simp]:
  "p_type (segment_at m a) = rd32 m a"
  "p_flags (segment_at m a) = rd32 m (a + 4)"
  "p_offset (segment_at m a) = rd64 m (a + 8)"
  "p_vaddr (segment_at m a) = rd64 m (a + 16)"
  "p_paddr (segment_at m a) = rd64 m (a + 24)"
  "p_filesz (segment_at m a) = rd64 m (a + 32)"
  "p_memsz (segment_at m a) = rd64 m (a + 40)"
  "p_align (segment_at m a) = rd64 m (a + 48)"
  by (simp_all add: segment_at_def)

definition section_at :: "bytes \<Rightarrow> nat \<Rightarrow> ELF64_SectionHeaderEntry" where
  "section_at m a =
     \<lparr>sh_name = rd32 m a, sh_type = rd32 m (a + 4), sh_flags = rd64 m (a + 8),
      sh_addr = rd64 m (a + 16), sh_offset = rd64 m (a + 24), sh_size = rd64 m (a + 32),
      sh_link = rd32 m (a + 40), sh_info = rd32 m (a + 44), sh_addralign = rd64 m (a + 48),
      sh_entsize = rd64 m (a + 56)\<rparr>"

lemma section_at_sel [simp]:
  "sh_name (section_at m a) = rd32 m a"
  "sh_type (section_at m a) = rd32 m (a + 4)"
  "sh_flags (section_at m a) = rd64 m (a + 8)"
  "sh_addr (section_at m a) = rd64 m (a + 16)"
  "sh_offset (section_at m a) = rd64 m (a + 24)"
  "sh_size (section_at m a) = rd64 m (a + 32)"
  "sh_link (section_at m a) = rd32 m (a + 40)"
  "sh_info (section_at m a) = rd32 m (a + 44)"
  "sh_addralign (section_at m a) = rd64 m (a + 48)"
  "sh_entsize (section_at m a) = rd64 m (a + 56)"
  by (simp_all add: section_at_def)

definition symbol_at :: "bytes \<Rightarrow> nat \<Rightarrow> ELF64_SymbolTableEntry" where
  "symbol_at m a =
     \<lparr>st_name = rd32 m a, st_info = m (a + 4), st_other = m (a + 5), st_shndx = rd16 m (a + 6),
      st_value = rd64 m (a + 8), st_size = rd64 m (a + 16)\<rparr>"

lemma symbol_at_sel [simp]:
  "st_name (symbol_at m a) = rd32 m a"
  "st_info (symbol_at m a) = m (a + 4)"
  "st_other (symbol_at m a) = m (a + 5)"
  "st_shndx (symbol_at m a) = rd16 m (a + 6)"
  "st_value (symbol_at m a) = rd64 m (a + 8)"
  "st_size (symbol_at m a) = rd64 m (a + 16)"
  by (simp_all add: symbol_at_def)


section \<open>Accessors of the file header\<close>

definition ELF64_HeaderGetObjectFileClass :: "bytes \<Rightarrow> nat \<Rightarrow> ELF64_ObjectFileClass" where
  "ELF64_HeaderGetObjectFileClass m header =
     (if header = 0 then ELF64_ObjectFileClassUnknown
      else let v = e_ident (header_at m header) ! 4 in
        if v = 1 then ELF64_ObjectFileClass32
        else if v = 2 then ELF64_ObjectFileClass64
        else ELF64_ObjectFileClassUnknown)"

primrec class_string :: "ELF64_ObjectFileClass \<Rightarrow> string" where
  "class_string ELF64_ObjectFileClassUnknown = ''Unknown''"
| "class_string ELF64_ObjectFileClass32 = ''32 bits''"
| "class_string ELF64_ObjectFileClass64 = ''64 bits''"

definition ELF64_HeaderGetObjectFileClassString :: "bytes \<Rightarrow> nat \<Rightarrow> string" where
  "ELF64_HeaderGetObjectFileClassString m header = class_string (ELF64_HeaderGetObjectFileClass m header)"

definition ELF64_HeaderGetDataEncoding :: "bytes \<Rightarrow> nat \<Rightarrow> ELF64_DataEncoding" where
  "ELF64_HeaderGetDataEncoding m header =
     (if header = 0 then ELF64_DataEncodingUnknown
      else let v = e_ident (header_at m header) ! 5 in
        if v = 1 then ELF64_DataEncodingLSB
        else if v = 2 then ELF64_DataEncodingMSB
        else ELF64_DataEncodingUnknown)"

primrec encoding_string :: "ELF64_DataEncoding \<Rightarrow> string" where
  "encoding_string ELF64_DataEncodingUnknown = ''LSB''"
| "encoding_string ELF64_DataEncodingLSB = ''LSB''"
| "encoding_string ELF64_DataEncodingMSB = ''MSB''"

definition ELF64_HeaderGetDataEncodingString :: "bytes \<Rightarrow> nat \<Rightarrow> string" where
  "ELF64_HeaderGetDataEncodingString m header = encoding_string (ELF64_HeaderGetDataEncoding m header)"

definition ELF64_HeaderGetFileVersion :: "bytes \<Rightarrow> nat \<Rightarrow> u8" where
  "ELF64_HeaderGetFileVersion m header = (if header = 0 then 0 else e_ident (header_at m header) ! 6)"

definition ELF64_HeaderGetOSABI :: "bytes \<Rightarrow> nat \<Rightarrow> ELF64_OSABI" where
  "ELF64_HeaderGetOSABI m header =
     (if header = 0 then ELF64_OSABIUnknown
      else let v = e_ident (header_at m header) ! 8 in
        if v = 0 then ELF64_OSABISysV
        else if v = 1 then ELF64_OSABIHPUX
        else if v = 255 then ELF64_OSABIStandalone
        else ELF64_OSABIUnknown)"

primrec abi_string :: "ELF64_OSABI \<Rightarrow> string" where
  "abi_string ELF64_OSABIUnknown = ''Unknown''"
| "abi_string ELF64_OSABISysV = ''System V''"
| "abi_string ELF64_OSABIHPUX = ''HP/UX''"
| "abi_string ELF64_OSABIStandalone = ''Standalone''"

definition ELF64_HeaderGetOSABIString :: "bytes \<Rightarrow> nat \<Rightarrow> string" where
  "ELF64_HeaderGetOSABIString m header = abi_string (ELF64_HeaderGetOSABI m header)"

definition ELF64_HeaderGetObjectFileType :: "bytes \<Rightarrow> nat \<Rightarrow> ELF64_ObjectFileType" where
  "ELF64_HeaderGetObjectFileType m header =
     (if header = 0 then ELF64_ObjectFileTypeNone
      else let v = e_type (header_at m header) in
        if v = 0 then ELF64_ObjectFileTypeNone
        else if v = 1 then ELF64_ObjectFileTypeRelocatableObjectFile
        else if v = 2 then ELF64_ObjectFileTypeExecutableFile
        else if v = 3 then ELF64_ObjectFileTypeSharedObjectFile
        else if v = 4 then ELF64_ObjectFileTypeCoreFile
        else ELF64_ObjectFileTypeNone)"

primrec file_type_string :: "ELF64_ObjectFileType \<Rightarrow> string" where
  "file_type_string ELF64_ObjectFileTypeNone = ''None''"
| "file_type_string ELF64_ObjectFileTypeRelocatableObjectFile = ''Relocatable object file''"
| "file_type_string ELF64_ObjectFileTypeExecutableFile = ''Executable file''"
| "file_type_string ELF64_ObjectFileTypeSharedObjectFile = ''Shared object file''"
| "file_type_string ELF64_ObjectFileTypeCoreFile = ''Core file''"

definition ELF64_HeaderGetObjectFileTypeString :: "bytes \<Rightarrow> nat \<Rightarrow> string" where
  "ELF64_HeaderGetObjectFileTypeString m header = file_type_string (ELF64_HeaderGetObjectFileType m header)"

definition ELF64_HeaderGetMachine :: "bytes \<Rightarrow> nat \<Rightarrow> u16" where
  "ELF64_HeaderGetMachine m header = (if header = 0 then 0 else e_machine (header_at m header))"

definition machine_types :: "(nat \<times> ELF64_MachineType) list" where
  "machine_types =
     [(0, ELF64_MachineTypeUnknown), (1, ELF64_MachineTypeM32), (2, ELF64_MachineTypeSPARC),
      (3, ELF64_MachineType386), (4, ELF64_MachineType68K), (5, ELF64_MachineType88K),
      (7, ELF64_MachineType860), (8, ELF64_MachineTypeMIPS), (9, ELF64_MachineTypeS370),
      (10, ELF64_MachineTypeMIPSRS3LE), (15, ELF64_MachineTypePARISC),
      (17, ELF64_MachineTypeVPP500), (18, ELF64_MachineTypeSPARC32Plus), (19, ELF64_MachineType960),
      (20, ELF64_MachineTypePPC), (21, ELF64_MachineTypePPC64), (36, ELF64_MachineTypeV800),
      (37, ELF64_MachineTypeFR20), (38, ELF64_MachineTypeRH32), (39, ELF64_MachineTypeRCE),
      (40, ELF64_MachineTypeARM), (41, ELF64_MachineTypeAlpha), (42, ELF64_MachineTypeSH),
      (43, ELF64_MachineTypeSPARCV9), (44, ELF64_MachineTypeTricore), (45, ELF64_MachineTypeARC),
      (46, ELF64_MachineTypeH8300), (47, ELF64_MachineTypeH8300H), (48, ELF64_MachineTypeH8S),
      (49, ELF64_MachineTypeH8500), (50, ELF64_MachineTypeIA64), (51, ELF64_MachineTypeMIPSX),
      (52, ELF64_MachineTypeColdFire), (53, ELF64_MachineType68HC12), (54, ELF64_MachineTypeMMA),
      (55, ELF64_MachineTypePCP), (56, ELF64_MachineTypeNCPU), (57, ELF64_MachineTypeNDR1),
      (58, ELF64_MachineTypeStarCore), (59, ELF64_MachineTypeME16), (60, ELF64_MachineTypeST100),
      (61, ELF64_MachineTypeTinyJ), (66, ELF64_MachineTypeFX66), (67, ELF64_MachineTypeST9Plus),
      (68, ELF64_MachineTypeST7), (69, ELF64_MachineType68HC16), (70, ELF64_MachineType68HC11),
      (71, ELF64_MachineType68HC08), (72, ELF64_MachineType68HC05), (73, ELF64_MachineTypeSVX),
      (74, ELF64_MachineTypeST19), (75, ELF64_MachineTypeVAX), (76, ELF64_MachineTypeCRIS),
      (77, ELF64_MachineTypeJavelin), (78, ELF64_MachineTypeFirePath), (79, ELF64_MachineTypeZSP),
      (80, ELF64_MachineTypeMMIX), (81, ELF64_MachineTypeHUANY), (82, ELF64_MachineTypePrism)]"

definition ELF64_HeaderGetMachineType :: "bytes \<Rightarrow> nat \<Rightarrow> ELF64_MachineType" where
  "ELF64_HeaderGetMachineType m header =
     (if header = 0 then ELF64_MachineTypeUnknown
      else case map_of machine_types (unat (ELF64_HeaderGetMachine m header)) of Some t \<Rightarrow> t | None \<Rightarrow> ELF64_MachineTypeUnknown)"

primrec machine_string :: "ELF64_MachineType \<Rightarrow> string" where
  "machine_string ELF64_MachineTypeUnknown = ''Unknown''"
| "machine_string ELF64_MachineTypeM32 = ''AT&T WE 32100''"
| "machine_string ELF64_MachineTypeSPARC = ''SPARC''"
| "machine_string ELF64_MachineType386 = ''Intel 80386''"
| "machine_string ELF64_MachineType68K = ''Motorola 68000''"
| "machine_string ELF64_MachineType88K = ''Motorola 88000''"
| "machine_string ELF64_MachineType860 = ''Intel 80860''"
| "machine_string ELF64_MachineTypeMIPS = ''MIPS I Architecture''"
| "machine_string ELF64_MachineTypeS370 = ''IBM System/370 Processor''"
| "machine_string ELF64_MachineTypeMIPSRS3LE = ''MIPS RS3000 Little-endian''"
| "machine_string ELF64_MachineTypePARISC = ''Hewlett-Packard PA-RISC''"
| "machine_string ELF64_MachineTypeVPP500 = ''Fujitsu VPP500''"
| "machine_string ELF64_MachineTypeSPARC32Plus = ''Enhanced instruction set SPARC''"
| "machine_string ELF64_MachineType960 = ''Intel 80960''"
| "machine_string ELF64_MachineTypePPC = ''PowerPC''"
| "machine_string ELF64_MachineTypePPC64 = ''64-bit PowerPC''"
| "machine_string ELF64_MachineTypeV800 = ''NEC V800''"
| "machine_string ELF64_MachineTypeFR20 = ''Fujitsu FR20''"
| "machine_string ELF64_MachineTypeRH32 = ''TRW RH-32''"
| "machine_string ELF64_MachineTypeRCE = ''Motorola RCE''"
| "machine_string ELF64_MachineTypeARM = ''Advanced RISC Machines ARM''"
| "machine_string ELF64_MachineTypeAlpha = ''Digital Alpha''"
| "machine_string ELF64_MachineTypeSH = ''Hitachi SH''"
| "machine_string ELF64_MachineTypeSPARCV9 = ''SPARC Version 9''"
| "machine_string ELF64_MachineTypeTricore = ''Siemens Tricore embedded processor''"
| "machine_string ELF64_MachineTypeARC = ''Argonaut RISC Core, Argonaut Technologies Inc.''"
| "machine_string ELF64_MachineTypeH8300 = ''Hitachi H8/300''"
| "machine_string ELF64_MachineTypeH8300H = ''Hitachi H8/300H''"
| "machine_string ELF64_MachineTypeH8S = ''Hitachi H8S''"
| "machine_string ELF64_MachineTypeH8500 = ''Hitachi H8/500''"
| "machine_string ELF64_MachineTypeIA64 = ''Intel IA-64 processor architecture''"
| "machine_string ELF64_MachineTypeMIPSX = ''Stanford MIPS-X''"
| "machine_string ELF64_MachineTypeColdFire = ''Motorola ColdFire''"
| "machine_string ELF64_MachineType68HC12 = ''Motorola M68HC12''"
| "machine_string ELF64_MachineTypeMMA = ''Fujitsu MMA Multimedia Accelerator''"
| "machine_string ELF64_MachineTypePCP = ''Siemens PCP''"
| "machine_string ELF64_MachineTypeNCPU = ''Sony nCPU embedded RISC processor''"
| "machine_string ELF64_MachineTypeNDR1 = ''Denso NDR1 microprocessor''"
| "machine_string ELF64_MachineTypeStarCore = ''Motorola Star*Core processor''"
| "machine_string ELF64_MachineTypeME16 = ''Toyota ME16 processor''"
| "machine_string ELF64_MachineTypeST100 = ''STMicroelectronics ST100 processor''"
| "machine_string ELF64_MachineTypeTinyJ = ''Advanced Logic Corp. TinyJ embedded processor family''"
| "machine_string ELF64_MachineTypeFX66 = ''Siemens FX66 microcontroller''"
| "machine_string ELF64_MachineTypeST9Plus = ''STMicroelectronics ST9+ 8/16 bit microcontroller''"
| "machine_string ELF64_MachineTypeST7 = ''STMicroelectronics ST7 8-bit microcontroller''"
| "machine_string ELF64_MachineType68HC16 = ''Motorola MC68HC16 Microcontroller''"
| "machine_string ELF64_MachineType68HC11 = ''Motorola MC68HC11 Microcontroller''"
| "machine_string ELF64_MachineType68HC08 = ''Motorola MC68HC08 Microcontroller''"
| "machine_string ELF64_MachineType68HC05 = ''Motorola MC68HC05 Microcontroller''"
| "machine_string ELF64_MachineTypeSVX = ''Silicon Graphics SVx''"
| "machine_string ELF64_MachineTypeST19 = ''STMicroelectronics ST19 8-bit microcontroller''"
| "machine_string ELF64_MachineTypeVAX = ''Digital VAX''"
| "machine_string ELF64_MachineTypeCRIS = ''Axis Communications 32-bit embedded processor''"
| "machine_string ELF64_MachineTypeJavelin = ''Infineon Technologies 32-bit embedded processor''"
| "machine_string ELF64_MachineTypeFirePath = ''Element 14 64-bit DSP Processor''"
| "machine_string ELF64_MachineTypeZSP = ''LSI Logic 16-bit DSP Processor''"
| "machine_string ELF64_MachineTypeMMIX = ''Donald Knuth's educational 64-bit processor''"
| "machine_string ELF64_MachineTypeHUANY = ''Harvard University machine-independent object files''"
| "machine_string ELF64_MachineTypePrism = ''SiTera Prism''"

definition ELF64_HeaderGetMachineTypeString :: "bytes \<Rightarrow> nat \<Rightarrow> string" where
  "ELF64_HeaderGetMachineTypeString m header = machine_string (ELF64_HeaderGetMachineType m header)"

definition ELF64_HeaderGetVersion :: "bytes \<Rightarrow> nat \<Rightarrow> u32" where
  "ELF64_HeaderGetVersion m header = (if header = 0 then 0 else e_version (header_at m header))"

definition ELF64_HeaderGetEntryPointAddress :: "bytes \<Rightarrow> nat \<Rightarrow> u64" where
  "ELF64_HeaderGetEntryPointAddress m header = (if header = 0 then 0 else e_entry (header_at m header))"

definition ELF64_HeaderGetProgramHeaderOffset :: "bytes \<Rightarrow> nat \<Rightarrow> u64" where
  "ELF64_HeaderGetProgramHeaderOffset m header = (if header = 0 then 0 else e_phoff (header_at m header))"

definition ELF64_HeaderGetSectionHeaderOffset :: "bytes \<Rightarrow> nat \<Rightarrow> u64" where
  "ELF64_HeaderGetSectionHeaderOffset m header = (if header = 0 then 0 else e_shoff (header_at m header))"

definition ELF64_HeaderGetProcessorSpecificFlags :: "bytes \<Rightarrow> nat \<Rightarrow> u32" where
  "ELF64_HeaderGetProcessorSpecificFlags m header = (if header = 0 then 0 else e_flags (header_at m header))"

definition ELF64_HeaderGetHeaderSize :: "bytes \<Rightarrow> nat \<Rightarrow> u16" where
  "ELF64_HeaderGetHeaderSize m header = (if header = 0 then 0 else e_ehsize (header_at m header))"

definition ELF64_HeaderGetProgramHeaderEntrySize :: "bytes \<Rightarrow> nat \<Rightarrow> u16" where
  "ELF64_HeaderGetProgramHeaderEntrySize m header = (if header = 0 then 0 else e_phentsize (header_at m header))"

definition ELF64_HeaderGetProgramHeaderEntryCount :: "bytes \<Rightarrow> nat \<Rightarrow> u16" where
  "ELF64_HeaderGetProgramHeaderEntryCount m header = (if header = 0 then 0 else e_phnum (header_at m header))"

definition ELF64_HeaderGetSectionHeaderEntrySize :: "bytes \<Rightarrow> nat \<Rightarrow> u16" where
  "ELF64_HeaderGetSectionHeaderEntrySize m header = (if header = 0 then 0 else e_shentsize (header_at m header))"

definition ELF64_HeaderGetSectionHeaderEntryCount :: "bytes \<Rightarrow> nat \<Rightarrow> u16" where
  "ELF64_HeaderGetSectionHeaderEntryCount m header = (if header = 0 then 0 else e_shnum (header_at m header))"

definition ELF64_HeaderGetSectionNameStringTableIndex :: "bytes \<Rightarrow> nat \<Rightarrow> u16" where
  "ELF64_HeaderGetSectionNameStringTableIndex m header = (if header = 0 then 0 else e_shstrndx (header_at m header))"


section \<open>Accessors of program header entries\<close>

definition ELF64_ProgramHeaderEntryGetType :: "bytes \<Rightarrow> nat \<Rightarrow> ELF64_SegmentType" where
  "ELF64_ProgramHeaderEntryGetType m entry =
     (if entry = 0 then ELF64_SegmentTypeUnused
      else let v = p_type (segment_at m entry) in
        if v = 0 then ELF64_SegmentTypeUnused
        else if v = 1 then ELF64_SegmentTypeLoadable
        else if v = 2 then ELF64_SegmentTypeDynamicLinkingTables
        else if v = 3 then ELF64_SegmentTypeProgramInterpreterPathName
        else if v = 4 then ELF64_SegmentTypeNoteSections
        else if v = 6 then ELF64_SegmentTypeProgramHeaderTable
        else ELF64_SegmentTypeUnused)"

primrec segment_string :: "ELF64_SegmentType \<Rightarrow> string" where
  "segment_string ELF64_SegmentTypeUnused = ''Unused entry''"
| "segment_string ELF64_SegmentTypeLoadable = ''Loadable segment''"
| "segment_string ELF64_SegmentTypeDynamicLinkingTables = ''Dynamic linking tables''"
| "segment_string ELF64_SegmentTypeProgramInterpreterPathName = ''Program interpreter path name''"
| "segment_string ELF64_SegmentTypeNoteSections = ''Note sections''"
| "segment_string ELF64_SegmentTypeProgramHeaderTable = ''Program header table''"

definition ELF64_ProgramHeaderEntryGetTypeString :: "bytes \<Rightarrow> nat \<Rightarrow> string" where
  "ELF64_ProgramHeaderEntryGetTypeString m entry = segment_string (ELF64_ProgramHeaderEntryGetType m entry)"

definition ELF64_ProgramHeaderEntryGetAttributes :: "bytes \<Rightarrow> nat \<Rightarrow> u32" where
  "ELF64_ProgramHeaderEntryGetAttributes m entry = (if entry = 0 then 0 else p_flags (segment_at m entry))"

definition ELF64_ProgramHeaderEntryGetAttributesString :: "bytes \<Rightarrow> nat \<Rightarrow> string" where
  "ELF64_ProgramHeaderEntryGetAttributesString m entry =
     (let flags = ELF64_ProgramHeaderEntryGetAttributes m entry;
          has = (\<lambda>a :: nat. flags AND of_nat a \<noteq> 0) in
      if has ELF64_SegmentAttributeRead \<and> has ELF64_SegmentAttributeWrite \<and> has ELF64_SegmentAttributeExecute
        then ''rwx''
      else if has ELF64_SegmentAttributeRead \<and> has ELF64_SegmentAttributeWrite
        then ''rw-''
      else if has ELF64_SegmentAttributeRead \<and> has ELF64_SegmentAttributeExecute
        then ''r-x''
      else if has ELF64_SegmentAttributeWrite \<and> has ELF64_SegmentAttributeExecute
        then ''-wx''
      else if has ELF64_SegmentAttributeRead
        then ''r--''
      else if has ELF64_SegmentAttributeWrite
        then ''-w-''
      else if has ELF64_SegmentAttributeExecute
        then ''--x''
      else ''---'')"

definition ELF64_ProgramHeaderEntryGetFileOffset :: "bytes \<Rightarrow> nat \<Rightarrow> u64" where
  "ELF64_ProgramHeaderEntryGetFileOffset m entry = (if entry = 0 then 0 else p_offset (segment_at m entry))"

definition ELF64_ProgramHeaderEntryGetMemoryVirtualAddress :: "bytes \<Rightarrow> nat \<Rightarrow> u64" where
  "ELF64_ProgramHeaderEntryGetMemoryVirtualAddress m entry = (if entry = 0 then 0 else p_vaddr (segment_at m entry))"

definition ELF64_ProgramHeaderEntryGetFileSize :: "bytes \<Rightarrow> nat \<Rightarrow> u64" where
  "ELF64_ProgramHeaderEntryGetFileSize m entry = (if entry = 0 then 0 else p_filesz (segment_at m entry))"

definition ELF64_ProgramHeaderEntryGetMemorySize :: "bytes \<Rightarrow> nat \<Rightarrow> u64" where
  "ELF64_ProgramHeaderEntryGetMemorySize m entry = (if entry = 0 then 0 else p_memsz (segment_at m entry))"

definition ELF64_ProgramHeaderEntryGetAlignment :: "bytes \<Rightarrow> nat \<Rightarrow> u64" where
  "ELF64_ProgramHeaderEntryGetAlignment m entry = (if entry = 0 then 0 else p_align (segment_at m entry))"


section \<open>Accessors of section header entries\<close>

definition ELF64_SectionHeaderEntryGetNameOffset :: "bytes \<Rightarrow> nat \<Rightarrow> u32" where
  "ELF64_SectionHeaderEntryGetNameOffset m entry = (if entry = 0 then 0 else sh_name (section_at m entry))"

definition section_types :: "(nat \<times> ELF64_SectionType) list" where
  "section_types =
     [(0, ELF64_SectionTypeUnused), (1, ELF64_SectionTypeProgBits),
      (2, ELF64_SectionTypeLinkerSymbolTable), (3, ELF64_SectionTypeStringTable),
      (4, ELF64_SectionTypeRelaRelocationEntries), (5, ELF64_SectionTypeSymbolHashTable),
      (6, ELF64_SectionTypeDynamicLinkingTables), (7, ELF64_SectionTypeNoteInformation),
      (8, ELF64_SectionTypeUninitializedSpace), (9, ELF64_SectionTypeRelRelocationEntries),
      (11, ELF64_SectionTypeDynamicLoaderSymbolTable)]"

definition ELF64_SectionHeaderEntryGetType :: "bytes \<Rightarrow> nat \<Rightarrow> ELF64_SectionType" where
  "ELF64_SectionHeaderEntryGetType m entry =
     (if entry = 0 then ELF64_SectionTypeUnused
      else case map_of section_types (unat (sh_type (section_at m entry))) of Some t \<Rightarrow> t | None \<Rightarrow> ELF64_SectionTypeUnused)"

primrec section_string :: "ELF64_SectionType \<Rightarrow> string" where
  "section_string ELF64_SectionTypeUnused = ''Unused section''"
| "section_string ELF64_SectionTypeProgBits = ''Program information''"
| "section_string ELF64_SectionTypeLinkerSymbolTable = ''Linker symbol table''"
| "section_string ELF64_SectionTypeStringTable = ''String table''"
| "section_string ELF64_SectionTypeRelaRelocationEntries = ''\"Rela\" type relocation entries''"
| "section_string ELF64_SectionTypeSymbolHashTable = ''Symbol hash table''"
| "section_string ELF64_SectionTypeDynamicLinkingTables = ''Dynamic linking tables''"
| "section_string ELF64_SectionTypeNoteInformation = ''Note information''"
| "section_string ELF64_SectionTypeUninitializedSpace = ''Uninitialized space''"
| "section_string ELF64_SectionTypeRelRelocationEntries = ''\"Rel\" type relocation entries''"
| "section_string ELF64_SectionTypeDynamicLoaderSymbolTable = ''Dynamic loader symbol table''"

definition ELF64_SectionHeaderEntryGetTypeString :: "bytes \<Rightarrow> nat \<Rightarrow> string" where
  "ELF64_SectionHeaderEntryGetTypeString m entry = section_string (ELF64_SectionHeaderEntryGetType m entry)"

definition ELF64_SectionHeaderEntryGetAttributes :: "bytes \<Rightarrow> nat \<Rightarrow> u64" where
  "ELF64_SectionHeaderEntryGetAttributes m entry = (if entry = 0 then 0 else sh_flags (section_at m entry))"

definition ELF64_SectionHeaderEntryGetAttributesString :: "bytes \<Rightarrow> nat \<Rightarrow> string" where
  "ELF64_SectionHeaderEntryGetAttributesString m entry =
     (let flags = ELF64_SectionHeaderEntryGetAttributes m entry;
          has = (\<lambda>a :: nat. flags AND of_nat a \<noteq> 0) in
      if has ELF64_SectionAttributeWrite \<and> has ELF64_SectionAttributeAlloc \<and> has ELF64_SectionAttributeExecute
        then ''wax''
      else if has ELF64_SectionAttributeWrite \<and> has ELF64_SectionAttributeAlloc
        then ''wa-''
      else if has ELF64_SectionAttributeWrite \<and> has ELF64_SegmentAttributeExecute
        then ''w-x''
      else if has ELF64_SectionAttributeAlloc \<and> has ELF64_SegmentAttributeExecute
        then ''-ax''
      else if has ELF64_SectionAttributeWrite
        then ''w--''
      else if has ELF64_SectionAttributeAlloc
        then ''-a-''
      else if has ELF64_SectionAttributeExecute
        then ''--x''
      else ''---'')"

definition ELF64_SectionHeaderEntryGetMemoryVirtualAddress :: "bytes \<Rightarrow> nat \<Rightarrow> u64" where
  "ELF64_SectionHeaderEntryGetMemoryVirtualAddress m entry = (if entry = 0 then 0 else sh_addr (section_at m entry))"

definition ELF64_SectionHeaderEntryGetFileOffset :: "bytes \<Rightarrow> nat \<Rightarrow> u64" where
  "ELF64_SectionHeaderEntryGetFileOffset m entry = (if entry = 0 then 0 else sh_offset (section_at m entry))"

definition ELF64_SectionHeaderEntryGetSectionSize :: "bytes \<Rightarrow> nat \<Rightarrow> u64" where
  "ELF64_SectionHeaderEntryGetSectionSize m entry = (if entry = 0 then 0 else sh_size (section_at m entry))"

definition ELF64_SectionHeaderEntryGetLinkedSectionIndex :: "bytes \<Rightarrow> nat \<Rightarrow> u32" where
  "ELF64_SectionHeaderEntryGetLinkedSectionIndex m entry = (if entry = 0 then 0 else sh_link (section_at m entry))"

definition ELF64_SectionHeaderEntryGetMiscInfo :: "bytes \<Rightarrow> nat \<Rightarrow> u32" where
  "ELF64_SectionHeaderEntryGetMiscInfo m entry = (if entry = 0 then 0 else sh_info (section_at m entry))"

definition ELF64_SectionHeaderEntryGetAddressAlignmentBoundary :: "bytes \<Rightarrow> nat \<Rightarrow> u64" where
  "ELF64_SectionHeaderEntryGetAddressAlignmentBoundary m entry = (if entry = 0 then 0 else sh_addralign (section_at m entry))"

definition ELF64_SectionHeaderEntryGetEntrySize :: "bytes \<Rightarrow> nat \<Rightarrow> u64" where
  "ELF64_SectionHeaderEntryGetEntrySize m entry = (if entry = 0 then 0 else sh_entsize (section_at m entry))"

definition ELF64_SectionHeaderEntryGetSymbolTableEntryCount :: "bytes \<Rightarrow> nat \<Rightarrow> u32" where
  "ELF64_SectionHeaderEntryGetSymbolTableEntryCount m section =
     (if ELF64_SectionHeaderEntryGetType m section \<noteq> ELF64_SectionTypeLinkerSymbolTable then 0
      else let entrySize = ELF64_SectionHeaderEntryGetEntrySize m section;
               sectionSize = ELF64_SectionHeaderEntryGetSectionSize m section
           in if entrySize = 0 then 0 else ucast (sectionSize div entrySize))"


section \<open>Accessors of symbol table entries\<close>

definition ELF64_SymbolTableEntryGetNameOffset :: "bytes \<Rightarrow> nat \<Rightarrow> u32" where
  "ELF64_SymbolTableEntryGetNameOffset m symb = (if symb = 0 then 0 else st_name (symbol_at m symb))"

definition ELF64_SymbolTableEntryGetInfo :: "bytes \<Rightarrow> nat \<Rightarrow> u8" where
  "ELF64_SymbolTableEntryGetInfo m symb = (if symb = 0 then 0 else st_info (symbol_at m symb))"

definition ELF64_SymbolTableEntryGetType :: "bytes \<Rightarrow> nat \<Rightarrow> ELF64_SymbolType" where
  "ELF64_SymbolTableEntryGetType m symb =
     (if symb = 0 then ELF64_SymbolTypeNone
      else let v = ELF64_SymbolTableEntryGetInfo m symb AND 0x0F in
        if v = 0 then ELF64_SymbolTypeNone
        else if v = 1 then ELF64_SymbolTypeDataObject
        else if v = 2 then ELF64_SymbolTypeFunctionEntryPoint
        else if v = 3 then ELF64_SymbolTypeSection
        else if v = 4 then ELF64_SymbolTypeFile
        else ELF64_SymbolTypeNone)"

primrec symbol_string :: "ELF64_SymbolType \<Rightarrow> string" where
  "symbol_string ELF64_SymbolTypeNone = ''No type specified''"
| "symbol_string ELF64_SymbolTypeDataObject = ''Data object''"
| "symbol_string ELF64_SymbolTypeFunctionEntryPoint = ''Function entry point''"
| "symbol_string ELF64_SymbolTypeSection = ''Symbol associated with a section''"
| "symbol_string ELF64_SymbolTypeFile = ''Source file associated with the object file''"

definition ELF64_SymbolTableEntryGetTypeString :: "bytes \<Rightarrow> nat \<Rightarrow> string" where
  "ELF64_SymbolTableEntryGetTypeString m symb = symbol_string (ELF64_SymbolTableEntryGetType m symb)"

definition ELF64_SymbolTableEntryGetBinding :: "bytes \<Rightarrow> nat \<Rightarrow> ELF64_SymbolBinding" where
  "ELF64_SymbolTableEntryGetBinding m symb =
     (if symb = 0 then ELF64_SymbolBindingLocal
      else let v = ELF64_SymbolTableEntryGetInfo m symb AND 0xF0 in
        if v = 0 then ELF64_SymbolBindingLocal
        else if v = 1 then ELF64_SymbolBindingGlobal
        else if v = 2 then ELF64_SymbolBindingWeak
        else ELF64_SymbolBindingLocal)"

primrec binding_string :: "ELF64_SymbolBinding \<Rightarrow> string" where
  "binding_string ELF64_SymbolBindingLocal = ''Local''"
| "binding_string ELF64_SymbolBindingGlobal = ''Global''"
| "binding_string ELF64_SymbolBindingWeak = ''Weak''"

definition ELF64_SymbolTableEntryGetBindingString :: "bytes \<Rightarrow> nat \<Rightarrow> string" where
  "ELF64_SymbolTableEntryGetBindingString m symb = binding_string (ELF64_SymbolTableEntryGetBinding m symb)"

definition ELF64_SymbolTableEntryGetSectionTableIndex :: "bytes \<Rightarrow> nat \<Rightarrow> u16" where
  "ELF64_SymbolTableEntryGetSectionTableIndex m symb = (if symb = 0 then 0 else st_shndx (symbol_at m symb))"

definition ELF64_SymbolTableEntryGetSymbolValue :: "bytes \<Rightarrow> nat \<Rightarrow> u64" where
  "ELF64_SymbolTableEntryGetSymbolValue m symb = (if symb = 0 then 0 else st_value (symbol_at m symb))"

definition ELF64_SymbolTableEntryGetObjectSize :: "bytes \<Rightarrow> nat \<Rightarrow> u64" where
  "ELF64_SymbolTableEntryGetObjectSize m symb = (if symb = 0 then 0 else st_size (symbol_at m symb))"

end
