(* ===== verification/XEOS_ELFFile.thy ===== *)
theory XEOS_ELFFile
  imports XEOS_ELF
begin

text \<open>
  The ELF library (source/lib/elf): the functions on a whole image in memory, and the hash function.

  A pointer is the file's address plus offsets that the image states, and the addition wraps at the
  width of a pointer.  The name of a symbol without a name is a string literal of the library, and
  lit is its address.  A string search may run past a string that is not terminated: the functions
  that compare names give None when a comparison does not end.  The loops run along the list of
  their indices; an index is of type ELF64_Half or unsigned int and below a count of this type.
\<close>

definition ptr_add :: "arch \<Rightarrow> nat \<Rightarrow> nat \<Rightarrow> nat" where
  "ptr_add A p n = (p + n) mod 2 ^ ptr_bits A"

definition ELF64_ReadFromData :: "nat \<Rightarrow> nat" where
  "ELF64_ReadFromData data = data"

definition ELF64_FileIsValid :: "bytes \<Rightarrow> nat \<Rightarrow> bool" where
  "ELF64_FileIsValid m file \<longleftrightarrow>
     file \<noteq> 0 \<and>
     (let ident = e_ident (header_at m file) in
      ident ! 0 = 0x7F \<and> ident ! 1 = 0x45 \<and> ident ! 2 = 0x4C \<and> ident ! 3 = 0x46)"

definition ELF64_FileGetHeader :: "nat \<Rightarrow> nat" where
  "ELF64_FileGetHeader file = (if file = 0 then 0 else file)"


section \<open>Entries of the header tables\<close>

definition ELF64_FileGetProgramHeaderEntry :: "arch \<Rightarrow> bytes \<Rightarrow> nat \<Rightarrow> u32 \<Rightarrow> nat" where
  "ELF64_FileGetProgramHeaderEntry A m file index =
     (if file = 0 then 0
      else let header = ELF64_FileGetHeader file in
        if header = 0 \<or> ucast (ELF64_HeaderGetProgramHeaderEntryCount m header) \<le> index then 0
        else let offset = ELF64_HeaderGetProgramHeaderOffset m header;
                 entrySize = ELF64_HeaderGetProgramHeaderEntrySize m header
             in ptr_add A (ptr_add A file (unat offset)) (unat (ucast entrySize * index)))"

definition ELF64_FileGetSectionHeaderEntry :: "arch \<Rightarrow> bytes \<Rightarrow> nat \<Rightarrow> u32 \<Rightarrow> nat" where
  "ELF64_FileGetSectionHeaderEntry A m file index =
     (if file = 0 then 0
      else let header = ELF64_FileGetHeader file in
        if header = 0 \<or> ucast (ELF64_HeaderGetSectionHeaderEntryCount m header) \<le> index then 0
        else let offset = ELF64_HeaderGetSectionHeaderOffset m header;
                 entrySize = ELF64_HeaderGetSectionHeaderEntrySize m header
             in ptr_add A (ptr_add A file (unat offset)) (unat (ucast entrySize * index)))"

definition ELF64_FileGetStringTableHeaderEntry :: "arch \<Rightarrow> bytes \<Rightarrow> nat \<Rightarrow> nat" where
  "ELF64_FileGetStringTableHeaderEntry A m file =
     (if file = 0 then 0
      else let header = ELF64_FileGetHeader file in
        if header = 0 then 0
        else let stringTableIndex = ELF64_HeaderGetSectionNameStringTableIndex m header
             in ELF64_FileGetSectionHeaderEntry A m file (ucast stringTableIndex))"

definition ELF64_FileGetDataForSection :: "arch \<Rightarrow> bytes \<Rightarrow> nat \<Rightarrow> nat \<Rightarrow> nat" where
  "ELF64_FileGetDataForSection A m file section =
     (if section = 0 then 0
      else ptr_add A file (unat (ELF64_SectionHeaderEntryGetFileOffset m section)))"

definition ELF64_FileGetDataForSectionAtIndex :: "arch \<Rightarrow> bytes \<Rightarrow> nat \<Rightarrow> u32 \<Rightarrow> nat" where
  "ELF64_FileGetDataForSectionAtIndex A m file index =
     ELF64_FileGetDataForSection A m file (ELF64_FileGetSectionHeaderEntry A m file index)"

definition ELF64_FileGetNameOfSection :: "arch \<Rightarrow> bytes \<Rightarrow> nat \<Rightarrow> nat \<Rightarrow> nat" where
  "ELF64_FileGetNameOfSection A m file section =
     (if file = 0 \<or> section = 0 then 0
      else let header = ELF64_FileGetHeader file in
        if header = 0 then 0
        else let stringTable = ELF64_FileGetStringTableHeaderEntry A m file;
                 nameOffset = ELF64_SectionHeaderEntryGetNameOffset m section
             in ptr_add A (ELF64_FileGetDataForSection A m file stringTable) (unat nameOffset))"

definition ELF64_FileGetNameOfSectionAtIndex :: "arch \<Rightarrow> bytes \<Rightarrow> nat \<Rightarrow> u32 \<Rightarrow> nat" where
  "ELF64_FileGetNameOfSectionAtIndex A m file index =
     ELF64_FileGetNameOfSection A m file (ELF64_FileGetSectionHeaderEntry A m file index)"


section \<open>Symbols\<close>

definition ELF64_FileGetSymbolTableEntryForSection :: "arch \<Rightarrow> bytes \<Rightarrow> nat \<Rightarrow> nat \<Rightarrow> u32 \<Rightarrow> nat" where
  "ELF64_FileGetSymbolTableEntryForSection A m file section index =
     (if ELF64_SectionHeaderEntryGetType m section \<noteq> ELF64_SectionTypeLinkerSymbolTable then 0
      else if ELF64_SectionHeaderEntryGetSymbolTableEntryCount m section \<le> index then 0
      else let entrySize = ELF64_SectionHeaderEntryGetEntrySize m section
           in ptr_add A (ELF64_FileGetDataForSection A m file section) (unat (ucast index * entrySize)))"

definition ELF64_FileGetSymbolTableEntryNameForSection :: "arch \<Rightarrow> nat \<Rightarrow> bytes \<Rightarrow> nat \<Rightarrow> nat \<Rightarrow> nat \<Rightarrow> nat option" where
  "ELF64_FileGetSymbolTableEntryNameForSection A lit m file symb section =
     (if file = 0 \<or> symb = 0 \<or> section = 0 then Some 0
      else let stringTableIndex = ELF64_SectionHeaderEntryGetLinkedSectionIndex m section;
               stringTable = ELF64_FileGetSectionHeaderEntry A m file stringTableIndex in
        if stringTable = 0 then Some 0
        else let nameOffset = ELF64_SymbolTableEntryGetNameOffset m symb;
                 name = ptr_add A (ELF64_FileGetDataForSection A m file stringTable) (unat nameOffset)
             in do { n \<leftarrow> strlen (A = X86_64) m name; Some (if n = 0 then lit else name) })"


section \<open>Searches\<close>

text \<open>A loop gives Some when its body returns, and None when it has run along its indices.\<close>

fun section_name_loop :: "arch \<Rightarrow> bytes \<Rightarrow> nat \<Rightarrow> nat \<Rightarrow> nat list \<Rightarrow> nat option option" where
  "section_name_loop A m file name [] = Some None"
| "section_name_loop A m file name (i # is) =
     (let section = ELF64_FileGetSectionHeaderEntry A m file (of_nat i);
          sName = ELF64_FileGetNameOfSection A m file section
      in do { c \<leftarrow> strcmp m name sName;
              if c = 0 then Some (Some section) else section_name_loop A m file name is })"

definition ELF64_FileGetSectionHeaderEntryWithName :: "arch \<Rightarrow> bytes \<Rightarrow> nat \<Rightarrow> nat \<Rightarrow> nat option" where
  "ELF64_FileGetSectionHeaderEntryWithName A m file name =
     (if file = 0 then Some 0
      else let header = ELF64_FileGetHeader file in
        if header = 0 then Some 0
        else do { r \<leftarrow> section_name_loop A m file name
                         [0..<unat (ELF64_HeaderGetSectionHeaderEntryCount m header)];
                  Some (case r of Some section \<Rightarrow> section | None \<Rightarrow> 0) })"

fun symbol_address_loop :: "arch \<Rightarrow> bytes \<Rightarrow> nat \<Rightarrow> u64 \<Rightarrow> nat \<Rightarrow> nat list \<Rightarrow> nat option" where
  "symbol_address_loop A m file address sHeader [] = None"
| "symbol_address_loop A m file address sHeader (j # js) =
     (let symb = ELF64_FileGetSymbolTableEntryForSection A m file sHeader (of_nat j);
          symAddress = ELF64_SymbolTableEntryGetSymbolValue m symb
      in if address = symAddress then Some symb else symbol_address_loop A m file address sHeader js)"

fun section_address_loop :: "arch \<Rightarrow> bytes \<Rightarrow> nat \<Rightarrow> u64 \<Rightarrow> nat list \<Rightarrow> nat option" where
  "section_address_loop A m file address [] = None"
| "section_address_loop A m file address (i # is) =
     (let sHeader = ELF64_FileGetSectionHeaderEntry A m file (of_nat i) in
      if ELF64_SectionHeaderEntryGetType m sHeader \<noteq> ELF64_SectionTypeLinkerSymbolTable
      then section_address_loop A m file address is
      else let symCount = ELF64_SectionHeaderEntryGetSymbolTableEntryCount m sHeader in
        case symbol_address_loop A m file address sHeader [0..<unat symCount] of
          Some symb \<Rightarrow> Some symb
        | None \<Rightarrow> section_address_loop A m file address is)"

definition ELF64_FileGetSymbolTableEntryWithAddress :: "arch \<Rightarrow> bytes \<Rightarrow> nat \<Rightarrow> u64 \<Rightarrow> nat" where
  "ELF64_FileGetSymbolTableEntryWithAddress A m file address =
     (if file = 0 then 0
      else let header = ELF64_FileGetHeader file in
        if header = 0 then 0
        else case section_address_loop A m file address
                    [0..<unat (ELF64_HeaderGetSectionHeaderEntryCount m header)] of
               Some symb \<Rightarrow> symb | None \<Rightarrow> 0)"

fun symbol_name_loop :: "arch \<Rightarrow> nat \<Rightarrow> bytes \<Rightarrow> nat \<Rightarrow> nat \<Rightarrow> nat \<Rightarrow> nat list \<Rightarrow> nat option option" where
  "symbol_name_loop A lit m file name sHeader [] = Some None"
| "symbol_name_loop A lit m file name sHeader (j # js) =
     (let symb = ELF64_FileGetSymbolTableEntryForSection A m file sHeader (of_nat j) in
      do { symName \<leftarrow> ELF64_FileGetSymbolTableEntryNameForSection A lit m file symb sHeader;
           c \<leftarrow> strcmp m name symName;
           if c = 0 then Some (Some symb) else symbol_name_loop A lit m file name sHeader js })"

fun section_symbol_loop :: "arch \<Rightarrow> nat \<Rightarrow> bytes \<Rightarrow> nat \<Rightarrow> nat \<Rightarrow> nat list \<Rightarrow> nat option option" where
  "section_symbol_loop A lit m file name [] = Some None"
| "section_symbol_loop A lit m file name (i # is) =
     (let sHeader = ELF64_FileGetSectionHeaderEntry A m file (of_nat i) in
      if ELF64_SectionHeaderEntryGetType m sHeader \<noteq> ELF64_SectionTypeLinkerSymbolTable
      then section_symbol_loop A lit m file name is
      else let symCount = ELF64_SectionHeaderEntryGetSymbolTableEntryCount m sHeader in
        do { r \<leftarrow> symbol_name_loop A lit m file name sHeader [0..<unat symCount];
             case r of Some symb \<Rightarrow> Some (Some symb)
             | None \<Rightarrow> section_symbol_loop A lit m file name is })"

definition ELF64_FileGetSymbolTableEntryWithName :: "arch \<Rightarrow> nat \<Rightarrow> bytes \<Rightarrow> nat \<Rightarrow> nat \<Rightarrow> nat option" where
  "ELF64_FileGetSymbolTableEntryWithName A lit m file name =
     (if file = 0 then Some 0
      else let header = ELF64_FileGetHeader file in
        if header = 0 then Some 0
        else do { r \<leftarrow> section_symbol_loop A lit m file name
                         [0..<unat (ELF64_HeaderGetSectionHeaderEntryCount m header)];
                  Some (case r of Some symb \<Rightarrow> symb | None \<Rightarrow> 0) })"


section \<open>The hash function\<close>

text \<open>
  The type unsigned long has 32 bits on i386 and 64 bits on x86-64; the state of the loop is a word
  of this width.
\<close>

definition hash_step :: "'w::len word \<Rightarrow> u8 \<Rightarrow> 'w word" where
  "hash_step h c =
     (let h1 = push_bit 4 h + ucast c;
          g = h1 AND 0xF0000000;
          h2 = (if g \<noteq> 0 then h1 XOR drop_bit 24 g else h1)
      in h2 AND 0x0FFFFFFF)"

partial_function (option) hash_loop :: "bytes \<Rightarrow> nat \<Rightarrow> 'w::len word \<Rightarrow> 'w word option" where
  "hash_loop m name h = (if m name \<noteq> 0 then hash_loop m (name + 1) (hash_step h (m name)) else Some h)"

definition ELF64_Hash :: "bytes \<Rightarrow> nat \<Rightarrow> 'w::len word option" where
  "ELF64_Hash m name = hash_loop m name 0"

end
