(* ===== verification/XEOS_ELFProps.thy ===== *)
theory XEOS_ELFProps
  imports XEOS_ELFFile
begin

text \<open>
  The properties of the ELF library: the tables of an image are addressed within their bounds, the
  searches find the first section or symbol with a name or an address, the accessors that decode a
  field wrongly, and the hash function.
\<close>


section \<open>Addresses in an image\<close>

text \<open>The addresses that an image means, as numbers, and the images that end below the last address.\<close>

definition sec_count :: "bytes \<Rightarrow> nat \<Rightarrow> nat" where
  "sec_count m file = unat (e_shnum (header_at m file))"

definition sec_addr :: "bytes \<Rightarrow> nat \<Rightarrow> nat \<Rightarrow> nat" where
  "sec_addr m file i =
     file + unat (e_shoff (header_at m file)) + unat (e_shentsize (header_at m file)) * i"

definition is_symtab :: "bytes \<Rightarrow> nat \<Rightarrow> nat \<Rightarrow> bool" where
  "is_symtab m file i \<longleftrightarrow>
     ELF64_SectionHeaderEntryGetType m (sec_addr m file i) = ELF64_SectionTypeLinkerSymbolTable"

definition sym_count :: "bytes \<Rightarrow> nat \<Rightarrow> nat \<Rightarrow> nat" where
  "sym_count m file i = unat (ELF64_SectionHeaderEntryGetSymbolTableEntryCount m (sec_addr m file i))"

definition sec_data :: "bytes \<Rightarrow> nat \<Rightarrow> nat \<Rightarrow> nat" where
  "sec_data m file i = file + unat (sh_offset (section_at m (sec_addr m file i)))"

definition sym_addr :: "bytes \<Rightarrow> nat \<Rightarrow> nat \<times> nat \<Rightarrow> nat" where
  "sym_addr m file = (\<lambda>(i, j). sec_data m file i + unat (sh_entsize (section_at m (sec_addr m file i))) * j)"

definition elf_fits :: "arch \<Rightarrow> bytes \<Rightarrow> nat \<Rightarrow> bool" where
  "elf_fits A m file \<longleftrightarrow>
     0 < file \<and> sec_addr m file (sec_count m file) < 2 ^ ptr_bits A \<and>
     (\<forall>i < sec_count m file. is_symtab m file i \<longrightarrow>
        sec_data m file i + unat (sh_size (section_at m (sec_addr m file i))) < 2 ^ ptr_bits A)"

lemma unat_widen:
  "unat (ucast (x :: u16) :: u32) = unat x" "unat (ucast (y :: u32) :: u64) = unat y"
  "unat (ucast (z :: u64) :: u32) = unat z mod 4294967296"
  using unat_u16 [of x] unat_u32 [of y] by (simp_all add: unsigned_ucast_eq take_bit_eq_mod)

lemma ptr_add_fits: "p + n < 2 ^ ptr_bits A \<Longrightarrow> ptr_add A p n = p + n"
  by (simp add: ptr_add_def)

lemma unat_entry_offset: "unat (ucast (x :: u16) * (y :: u32)) = unat x * unat y" if "unat y < 65536"
proof -
  have "unat x * unat y \<le> 65535 * 65535" by (rule mult_le_mono) (use that unat_u16 [of x] in simp_all)
  then show ?thesis by (simp add: unat_word_ariths unat_widen)
qed

lemma section_entry:
  assumes "elf_fits A m file"
  shows "ELF64_FileGetSectionHeaderEntry A m file index =
     (if unat index < sec_count m file then sec_addr m file (unat index) else 0)"
proof (cases "unat index < sec_count m file")
  case True
  have cnt: "sec_count m file < 65536" unfolding sec_count_def by (rule unat_u16)
  have mono: "sec_addr m file (unat index) \<le> sec_addr m file (sec_count m file)"
    using True by (simp add: sec_addr_def)
  have fit: "sec_addr m file (unat index) < 2 ^ ptr_bits A"
    using mono assms by (simp add: elf_fits_def)
  have nz: "0 < file" using assms by (simp add: elf_fits_def)
  have sel: "\<not> ucast (e_shnum (header_at m file)) \<le> index"
    using True by (simp add: word_le_nat_alt sec_count_def unat_widen)
  have off: "unat (ucast (e_shentsize (header_at m file)) * index) = unat (e_shentsize (header_at m file)) * unat index"
    by (rule unat_entry_offset) (use True cnt in simp)
  have "ptr_add A (ptr_add A file (unat (e_shoff (header_at m file)))) (unat (ucast (e_shentsize (header_at m file)) * index))
      = sec_addr m file (unat index)"
    unfolding off using fit by (simp add: ptr_add_fits sec_addr_def)
  then show ?thesis
    using nz sel True
    by (simp add: ELF64_FileGetSectionHeaderEntry_def ELF64_FileGetHeader_def Let_def
        ELF64_HeaderGetSectionHeaderEntryCount_def ELF64_HeaderGetSectionHeaderOffset_def
        ELF64_HeaderGetSectionHeaderEntrySize_def del: header_at_sel)
next
  case False
  have "ucast (e_shnum (header_at m file)) \<le> index"
    using False by (simp add: word_le_nat_alt sec_count_def unat_widen)
  then show ?thesis using assms False
    by (simp add: ELF64_FileGetSectionHeaderEntry_def ELF64_FileGetHeader_def Let_def elf_fits_def
        ELF64_HeaderGetSectionHeaderEntryCount_def del: header_at_sel)
qed

lemma section_entry_nat:
  "elf_fits A m file \<Longrightarrow> i < sec_count m file \<Longrightarrow> ELF64_FileGetSectionHeaderEntry A m file (of_nat i) = sec_addr m file i"
  using unat_u16 [of "e_shnum (header_at m file)"]
  by (simp add: section_entry sec_count_def unat_of_nat_u32 del: header_at_sel)

lemma sec_addr_pos: "elf_fits A m file \<Longrightarrow> sec_addr m file i \<noteq> 0"
  by (simp add: elf_fits_def sec_addr_def)

lemma section_data:
  "elf_fits A m file \<Longrightarrow> sec_data m file i < 2 ^ ptr_bits A \<Longrightarrow>
   ELF64_FileGetDataForSection A m file (sec_addr m file i) = sec_data m file i"
  by (simp add: ELF64_FileGetDataForSection_def sec_addr_pos ELF64_SectionHeaderEntryGetFileOffset_def
      sec_data_def ptr_add_fits del: section_at_sel)

text \<open>A symbol of a table ends within the table, and the offset of an entry is exact.\<close>

lemma sym_within:
  assumes "j < sym_count m file i" "is_symtab m file i" "sec_addr m file i \<noteq> 0"
  shows "unat (sh_entsize (section_at m (sec_addr m file i))) * Suc j \<le> unat (sh_size (section_at m (sec_addr m file i)))"
proof -
  define s where "s = section_at m (sec_addr m file i)"
  have j: "j < unat (sh_size s div sh_entsize s)"
  proof -
    have "unat (ucast (sh_size s div sh_entsize s) :: u32) \<le> unat (sh_size s div sh_entsize s)"
      by (simp add: unat_widen)
    then show ?thesis
      using assms unfolding s_def
      by (simp add: sym_count_def ELF64_SectionHeaderEntryGetSymbolTableEntryCount_def is_symtab_def Let_def
          ELF64_SectionHeaderEntryGetEntrySize_def ELF64_SectionHeaderEntryGetSectionSize_def
          del: section_at_sel split: if_splits)
  qed
  have "unat (sh_entsize s) * Suc j \<le> unat (sh_entsize s) * (unat (sh_size s) div unat (sh_entsize s))"
    using j by (intro mult_le_mono2) (simp add: unat_div)
  also have "\<dots> \<le> unat (sh_size s)" by simp
  finally show ?thesis unfolding s_def .
qed

lemma symbol_entry:
  assumes fits: "elf_fits A m file" and i: "i < sec_count m file" "is_symtab m file i"
  shows "ELF64_FileGetSymbolTableEntryForSection A m file (sec_addr m file i) index =
     (if unat index < sym_count m file i then sym_addr m file (i, unat index) else 0)"
proof (cases "unat index < sym_count m file i")
  case True
  let ?e = "unat (sh_entsize (section_at m (sec_addr m file i)))"
  let ?z = "unat (sh_size (section_at m (sec_addr m file i)))"
  have pos: "sec_addr m file i \<noteq> 0" using fits by (rule sec_addr_pos)
  have in_tab: "?e * Suc (unat index) \<le> ?z" by (rule sym_within [OF True i(2) pos])
  have end_fits: "sec_data m file i + ?z < 2 ^ ptr_bits A" using fits i by (simp add: elf_fits_def)
  have prod: "?e * unat index \<le> ?z" using in_tab by simp
  then have "unat (ucast index * sh_entsize (section_at m (sec_addr m file i))) = ?e * unat index"
    using unat_u64 [of "sh_size (section_at m (sec_addr m file i))"]
    by (simp add: unat_word_ariths unat_widen mult.commute del: section_at_sel)
  then show ?thesis
    using True i(2) pos prod end_fits section_data [OF fits, of i]
    by (simp add: ELF64_FileGetSymbolTableEntryForSection_def is_symtab_def Let_def sym_addr_def
        sym_count_def word_le_nat_alt ELF64_SectionHeaderEntryGetEntrySize_def ptr_add_fits del: section_at_sel)
next
  case False
  then show ?thesis using i(2)
    by (simp add: ELF64_FileGetSymbolTableEntryForSection_def is_symtab_def sym_count_def word_le_nat_alt)
qed

text \<open>
  C33. In an image that ends below the last address, the entries of the section table and of its
  symbol tables are addressed exactly and lie within their tables, for every index below the count
  that the image states; for any other index the result is NULL.  The 32-bit product of the index
  and the size of an entry does not wrap.
\<close>

theorem elf_entry_bounds:
  assumes "elf_fits A m file"
  shows "(let a = ELF64_FileGetSectionHeaderEntry A m file index in
      if unat index < sec_count m file
      then a = sec_addr m file (unat index) \<and>
           a + unat (e_shentsize (header_at m file)) \<le> sec_addr m file (sec_count m file)
      else a = 0) \<and>
    (\<forall>i < sec_count m file. is_symtab m file i \<longrightarrow>
      (let a = ELF64_FileGetSymbolTableEntryForSection A m file (sec_addr m file i) index;
           s = section_at m (sec_addr m file i)
       in if unat index < sym_count m file i
          then a = sym_addr m file (i, unat index) \<and> sec_data m file i \<le> a \<and>
               a + unat (sh_entsize s) \<le> sec_data m file i + unat (sh_size s)
          else a = 0))"
proof (intro conjI allI impI)
  have "unat index < sec_count m file \<longrightarrow>
     unat (e_shentsize (header_at m file)) * Suc (unat index) \<le> unat (e_shentsize (header_at m file)) * sec_count m file"
    by (intro impI mult_le_mono2) simp
  then show "let a = ELF64_FileGetSectionHeaderEntry A m file index in
      if unat index < sec_count m file
      then a = sec_addr m file (unat index) \<and>
           a + unat (e_shentsize (header_at m file)) \<le> sec_addr m file (sec_count m file)
      else a = 0"
    by (simp add: section_entry [OF assms] Let_def sec_addr_def add.commute del: header_at_sel)
  fix i assume i: "i < sec_count m file" "is_symtab m file i"
  show "let a = ELF64_FileGetSymbolTableEntryForSection A m file (sec_addr m file i) index;
           s = section_at m (sec_addr m file i)
       in if unat index < sym_count m file i
          then a = sym_addr m file (i, unat index) \<and> sec_data m file i \<le> a \<and>
               a + unat (sh_entsize s) \<le> sec_data m file i + unat (sh_size s)
          else a = 0"
    using sym_within [OF _ i(2) sec_addr_pos [OF assms], of "unat index"]
    by (auto simp: symbol_entry [OF assms i] Let_def sym_addr_def add.commute simp del: section_at_sel)
qed

text \<open>
  An image with a symbol table and a string table, at 0x1000: its second symbol has the name main
  and the value 0x100000.  The literal for symbols without a name is at 0x800, and a name to search
  for at 0x900.
\<close>

definition example_elf :: bytes where
  "example_elf = (\<lambda>_. 0)(
     0x0800 := 0x3C, 0x0801 := 0x75, 0x0802 := 0x6E, 0x0803 := 0x6E, 0x0804 := 0x61, 0x0805 := 0x6D,
     0x0806 := 0x65, 0x0807 := 0x64, 0x0808 := 0x2D, 0x0809 := 0x73, 0x080A := 0x79, 0x080B := 0x6D,
     0x080C := 0x62, 0x080D := 0x6F, 0x080E := 0x6C, 0x080F := 0x3E,
     0x0900 := 0x6D, 0x0901 := 0x61, 0x0902 := 0x69, 0x0903 := 0x6E,
     0x1000 := 0x7F, 0x1001 := 0x45, 0x1002 := 0x4C, 0x1003 := 0x46,
     0x1028 := 0x40, 0x103A := 0x40, 0x103C := 0x03, 0x103E := 0x02,
     0x1080 := 0x01, 0x1084 := 0x02, 0x1099 := 0x01, 0x10A0 := 0x30, 0x10A8 := 0x02, 0x10B8 := 0x18,
     0x10C0 := 0x03, 0x10C4 := 0x03, 0x10D8 := 0x30, 0x10D9 := 0x01, 0x10E0 := 0x10,
     0x1118 := 0x05, 0x111C := 0x12, 0x1122 := 0x10,
     0x1131 := 0x73, 0x1133 := 0x74, 0x1135 := 0x6D, 0x1136 := 0x61, 0x1137 := 0x69, 0x1138 := 0x6E)"

lemma rd16_bytes: "rd16 m a = of_nat (unat (m a) + 256 * unat (m (a + 1)))"
  by (simp add: rd16_def numeral_2_eq_2)

lemma example_sections:
  "sec_count example_elf 0x1000 = 3"
  "sec_addr example_elf 0x1000 i = 0x1040 + 64 * i"
  "is_symtab example_elf 0x1000 0 = False" "is_symtab example_elf 0x1000 (Suc 0) = True"
  "is_symtab example_elf 0x1000 2 = False"
  "sec_data example_elf 0x1000 (Suc 0) = 0x1100" "sec_data example_elf 0x1000 2 = 0x1130"
proof -
  show addr: "sec_addr example_elf 0x1000 i = 0x1040 + 64 * i" for i
    by (simp add: sec_addr_def rd16_bytes rd64_bytes example_elf_def)
  show "sec_count example_elf 0x1000 = 3" by (simp add: sec_count_def rd16_bytes example_elf_def)
  show "is_symtab example_elf 0x1000 0 = False" "is_symtab example_elf 0x1000 (Suc 0) = True"
    "is_symtab example_elf 0x1000 2 = False"
    unfolding is_symtab_def addr
    by (simp_all add: ELF64_SectionHeaderEntryGetType_def section_types_def rd32_bytes example_elf_def)
  show "sec_data example_elf 0x1000 (Suc 0) = 0x1100" "sec_data example_elf 0x1000 2 = 0x1130"
    unfolding sec_data_def addr by (simp_all add: rd64_bytes example_elf_def)
qed

lemma less_3: "(\<forall>i<3. P i) \<longleftrightarrow> P 0 \<and> P (Suc 0) \<and> P (2::nat)"
proof -
  have "i = 0 \<or> i = Suc 0 \<or> i = 2" if "i < 3" for i :: nat using that by arith
  then show ?thesis by auto
qed

lemma example_fits: "elf_fits I386 example_elf 0x1000"
  unfolding elf_fits_def example_sections(1) less_3
  by (simp add: example_sections ptr_bits_def) (simp add: rd64_bytes example_elf_def)

theorem elf_entry_bounds_witness:
  "ELF64_FileGetSectionHeaderEntry I386 example_elf 0x1000 2 = 0x10C0 \<and>
   ELF64_FileGetSectionHeaderEntry I386 example_elf 0x1000 3 = 0"
  using elf_entry_bounds [OF example_fits, of 2] elf_entry_bounds [OF example_fits, of 3]
  by (simp add: example_sections Let_def)


section \<open>Searching symbols\<close>

text \<open>The symbols of an image in the order in which they are searched.\<close>

definition sec_symbols :: "bytes \<Rightarrow> nat \<Rightarrow> nat \<Rightarrow> (nat \<times> nat) list" where
  "sec_symbols m file i = (if is_symtab m file i then map (Pair i) [0..<sym_count m file i] else [])"

definition sym_positions :: "bytes \<Rightarrow> nat \<Rightarrow> (nat \<times> nat) list" where
  "sym_positions m file = concat (map (sec_symbols m file) [0..<sec_count m file])"

definition found :: "('p \<Rightarrow> nat) \<Rightarrow> 'p option \<Rightarrow> nat" where
  "found addr r = (case r of Some p \<Rightarrow> addr p | None \<Rightarrow> 0)"

lemma find_append: "find P (xs @ ys) = (case find P xs of Some x \<Rightarrow> Some x | None \<Rightarrow> find P ys)"
  by (induction xs) simp_all

lemma sym_addr_pos: "elf_fits A m file \<Longrightarrow> sym_addr m file p \<noteq> 0"
  by (cases p) (simp add: elf_fits_def sym_addr_def sec_data_def)

lemma symbol_entry_nat:
  assumes "elf_fits A m file" "i < sec_count m file" "is_symtab m file i" "j < sym_count m file i"
  shows "ELF64_FileGetSymbolTableEntryForSection A m file (sec_addr m file i) (of_nat j) = sym_addr m file (i, j)"
proof -
  have "j < 4294967296" using assms(4) unat_u32 unfolding sym_count_def by (rule less_trans)
  then show ?thesis using assms by (simp add: symbol_entry unat_of_nat_u32)
qed

abbreviation sym_value :: "bytes \<Rightarrow> nat \<Rightarrow> nat \<times> nat \<Rightarrow> u64" where
  "sym_value m file p \<equiv> st_value (symbol_at m (sym_addr m file p))"

lemma symbol_address_loop:
  assumes "elf_fits A m file" "i < sec_count m file" "is_symtab m file i"
  shows "\<forall>j \<in> set js. j < sym_count m file i \<Longrightarrow>
    symbol_address_loop A m file address (sec_addr m file i) js =
    map_option (sym_addr m file) (find (\<lambda>p. sym_value m file p = address) (map (Pair i) js))"
  by (induction js)
    (auto simp: symbol_entry_nat [OF assms] sym_addr_pos [OF assms(1)] Let_def
      ELF64_SymbolTableEntryGetSymbolValue_def simp del: symbol_at_sel)

lemma section_address_loop:
  assumes "elf_fits A m file"
  shows "\<forall>i \<in> set is. i < sec_count m file \<Longrightarrow>
    section_address_loop A m file address is =
    map_option (sym_addr m file)
      (find (\<lambda>p. sym_value m file p = address) (concat (map (sec_symbols m file) is)))"
proof (induction "is")
  case (Cons i "is")
  have i: "i < sec_count m file" using Cons.prems by simp
  note IH = Cons.IH [OF ballI, OF Cons.prems [THEN bspec], OF list.set_intros(2)]
  show ?case
  proof (cases "is_symtab m file i")
    case True
    then show ?thesis
      using symbol_address_loop [OF assms i True, of "[0..<sym_count m file i]" address] IH
      by (simp add: section_entry_nat [OF assms i] is_symtab_def [symmetric] Let_def sec_symbols_def
          sym_count_def [symmetric] find_append del: symbol_at_sel split: option.splits)
  next
    case False
    then show ?thesis using IH
      by (simp add: section_entry_nat [OF assms i] is_symtab_def [symmetric] Let_def sec_symbols_def del: symbol_at_sel)
  qed
qed simp

lemma header_count: "file \<noteq> 0 \<Longrightarrow> unat (ELF64_HeaderGetSectionHeaderEntryCount m (ELF64_FileGetHeader file)) = sec_count m file"
  by (simp add: ELF64_HeaderGetSectionHeaderEntryCount_def ELF64_FileGetHeader_def sec_count_def)

text \<open>
  The search for an address gives the first symbol with this value, in the order of the
  sections and of the entries in a symbol table, and NULL if no symbol has it.
\<close>

theorem elf_symbol_with_address:
  assumes "elf_fits A m file"
  shows "ELF64_FileGetSymbolTableEntryWithAddress A m file address =
    found (sym_addr m file) (find (\<lambda>p. sym_value m file p = address) (sym_positions m file))"
proof -
  have nz: "file \<noteq> 0" using assms by (simp add: elf_fits_def)
  show ?thesis
    using section_address_loop [OF assms, of "[0..<sec_count m file]" address] nz
    by (simp add: ELF64_FileGetSymbolTableEntryWithAddress_def Let_def header_count
        sym_positions_def [symmetric] found_def del: symbol_at_sel split: option.splits)
      (simp add: ELF64_FileGetHeader_def)
qed

lemma example_symbols: "sym_positions example_elf 0x1000 = [(Suc 0, 0), (Suc 0, Suc 0)]"
  "sym_addr example_elf 0x1000 (Suc 0, 0) = 0x1100" "sym_addr example_elf 0x1000 (Suc 0, Suc 0) = 0x1118"
proof -
  have "sym_count example_elf 0x1000 (Suc 0) = 2"
    unfolding sym_count_def example_sections
    by (simp add: ELF64_SectionHeaderEntryGetSymbolTableEntryCount_def ELF64_SectionHeaderEntryGetType_def
        section_types_def ELF64_SectionHeaderEntryGetEntrySize_def ELF64_SectionHeaderEntryGetSectionSize_def
        rd32_bytes rd64_bytes example_elf_def)
  moreover have "[0..<3] = [0, Suc 0, 2::nat]" "[0..<2] = [0, Suc 0]" by (simp_all add: upt_conv_Cons)
  ultimately show "sym_positions example_elf 0x1000 = [(Suc 0, 0), (Suc 0, Suc 0)]"
    unfolding sym_positions_def sec_symbols_def example_sections by (simp add: example_sections)
  show "sym_addr example_elf 0x1000 (Suc 0, 0) = 0x1100" "sym_addr example_elf 0x1000 (Suc 0, Suc 0) = 0x1118"
    unfolding sym_addr_def by (simp_all add: example_sections) (simp add: rd64_bytes example_elf_def)
qed

theorem elf_symbol_with_address_witness:
  "ELF64_FileGetSymbolTableEntryWithAddress I386 example_elf 0x1000 0x100000 = 0x1118"
  unfolding elf_symbol_with_address [OF example_fits] example_symbols
  by (simp add: example_symbols found_def) (simp add: rd64_bytes example_elf_def)

text \<open>
  The names: the name of a symbol is in the string table that its section is linked to, and the name
  of a section in the one the header states.  A symbol with the empty name is shown with the literal.
\<close>

definition sec_link :: "bytes \<Rightarrow> nat \<Rightarrow> nat \<Rightarrow> nat" where
  "sec_link m file i = unat (sh_link (section_at m (sec_addr m file i)))"

definition sym_name_addr :: "bytes \<Rightarrow> nat \<Rightarrow> nat \<times> nat \<Rightarrow> nat" where
  "sym_name_addr m file p =
     sec_data m file (sec_link m file (fst p)) + unat (st_name (symbol_at m (sym_addr m file p)))"

definition unnamed_symbol :: "u8 list" where
  "unnamed_symbol = map (\<lambda>c. of_nat (of_char c)) ''<unnamed-symbol>''"

definition elf_sym_names :: "arch \<Rightarrow> nat \<Rightarrow> bytes \<Rightarrow> nat \<Rightarrow> (nat \<times> nat \<Rightarrow> u8 list) \<Rightarrow> bool" where
  "elf_sym_names A lit m file nm \<longleftrightarrow> cstr m lit unnamed_symbol \<and>
     (\<forall>p \<in> set (sym_positions m file). sec_link m file (fst p) < sec_count m file \<and>
        sym_name_addr m file p < 2 ^ ptr_bits A \<and> cstr m (sym_name_addr m file p) (nm p))"

definition shown_name :: "u8 list \<Rightarrow> u8 list" where
  "shown_name xs = (if xs = [] then unnamed_symbol else xs)"

lemma sym_positions_iff:
  "(i, j) \<in> set (sym_positions m file) \<longleftrightarrow> i < sec_count m file \<and> is_symtab m file i \<and> j < sym_count m file i"
proof -
  have "(i, j) \<in> set (sec_symbols m file k) \<longleftrightarrow> k = i \<and> is_symtab m file i \<and> j < sym_count m file i" for k
    by (auto simp: sec_symbols_def)
  then show ?thesis by (auto simp: sym_positions_def)
qed

text \<open>The name of a symbol, as the library gives it, is a string in memory with the shown name.\<close>

lemma symbol_name_cstr:
  assumes fits: "elf_fits A m file" and names: "elf_sym_names A lit m file nm" and p: "(i, j) \<in> set (sym_positions m file)"
  obtains a where "ELF64_FileGetSymbolTableEntryNameForSection A lit m file (sym_addr m file (i, j)) (sec_addr m file i) = Some a"
    "cstr m a (shown_name (nm (i, j)))"
proof -
  let ?k = "sec_link m file i" and ?n = "sym_name_addr m file (i, j)"
  have k: "?k < sec_count m file" and n: "?n < 2 ^ ptr_bits A" and str: "cstr m ?n (nm (i, j))"
    using names p by (auto simp: elf_sym_names_def simp del: symbol_at_sel)
  have lit: "cstr m lit unnamed_symbol" using names by (simp add: elf_sym_names_def)
  have nz: "file \<noteq> 0" using fits by (simp add: elf_fits_def)
  have tab: "ELF64_FileGetSectionHeaderEntry A m file (ELF64_SectionHeaderEntryGetLinkedSectionIndex m (sec_addr m file i))
      = sec_addr m file ?k"
    using k by (simp add: section_entry [OF fits] ELF64_SectionHeaderEntryGetLinkedSectionIndex_def
        sec_addr_pos [OF fits] sec_link_def del: section_at_sel)
  have data: "ELF64_FileGetDataForSection A m file (sec_addr m file ?k) = sec_data m file ?k"
    by (rule section_data [OF fits]) (use n in \<open>simp add: sym_name_addr_def\<close>)
  have name: "ptr_add A (sec_data m file ?k) (unat (ELF64_SymbolTableEntryGetNameOffset m (sym_addr m file (i, j)))) = ?n"
    using n by (simp add: ELF64_SymbolTableEntryGetNameOffset_def sym_addr_pos [OF fits] ptr_add_fits sym_name_addr_def
        del: symbol_at_sel)
  have "ELF64_FileGetSymbolTableEntryNameForSection A lit m file (sym_addr m file (i, j)) (sec_addr m file i) =
      Some (if nm (i, j) = [] then lit else ?n)"
    using nz by (simp add: ELF64_FileGetSymbolTableEntryNameForSection_def sym_addr_pos [OF fits] sec_addr_pos [OF fits]
        Let_def tab data name strlen_cstr [OF str])
  then show ?thesis
    by (rule that) (use lit str in \<open>simp add: shown_name_def\<close>)
qed

lemma list_cmp_0: "list_cmp xs ys = 0 \<longleftrightarrow> xs = ys"
  by (simp add: list_cmp_def)

lemma symbol_name_loop:
  assumes fits: "elf_fits A m file" and names: "elf_sym_names A lit m file nm" and str: "cstr m name xs"
    and i: "i < sec_count m file" "is_symtab m file i"
  shows "\<forall>j \<in> set js. j < sym_count m file i \<Longrightarrow>
    symbol_name_loop A lit m file name (sec_addr m file i) js =
    Some (map_option (sym_addr m file) (find (\<lambda>p. shown_name (nm p) = xs) (map (Pair i) js)))"
proof (induction js)
  case (Cons j js)
  have p: "(i, j) \<in> set (sym_positions m file)" using Cons.prems i by (simp add: sym_positions_iff)
  obtain a where a: "ELF64_FileGetSymbolTableEntryNameForSection A lit m file (sym_addr m file (i, j)) (sec_addr m file i) = Some a"
    "cstr m a (shown_name (nm (i, j)))" using symbol_name_cstr [OF fits names p] .
  have "xs = shown_name (nm (i, j)) \<longleftrightarrow> shown_name (nm (i, j)) = xs" by blast
  then show ?case
    using Cons symbol_entry_nat [OF fits i, of j]
    by (simp add: a(1) strcmp_cstr [OF str a(2)] list_cmp_0 Let_def)
qed simp

lemma section_symbol_loop:
  assumes fits: "elf_fits A m file" and names: "elf_sym_names A lit m file nm" and str: "cstr m name xs"
  shows "\<forall>i \<in> set is. i < sec_count m file \<Longrightarrow>
    section_symbol_loop A lit m file name is =
    Some (map_option (sym_addr m file) (find (\<lambda>p. shown_name (nm p) = xs) (concat (map (sec_symbols m file) is))))"
proof (induction "is")
  case (Cons i "is")
  have i: "i < sec_count m file" using Cons.prems by simp
  note IH = Cons.IH [OF ballI, OF Cons.prems [THEN bspec], OF list.set_intros(2)]
  show ?case
  proof (cases "is_symtab m file i")
    case True
    then show ?thesis
      using symbol_name_loop [OF fits names str i True, of "[0..<sym_count m file i]"] IH
      by (simp add: section_entry_nat [OF fits i] is_symtab_def [symmetric] Let_def sec_symbols_def
          sym_count_def [symmetric] find_append split: option.splits)
  next
    case False
    then show ?thesis using IH
      by (simp add: section_entry_nat [OF fits i] is_symtab_def [symmetric] Let_def sec_symbols_def)
  qed
qed simp

text \<open>
  C20. In an image whose symbols have terminated names, the search for a name ends, and gives the
  first symbol that is shown with this name, NULL if there is none.  A symbol without a name is
  shown as <unnamed-symbol>, so the search for the empty name finds nothing.
\<close>

theorem elf_symbol_with_name:
  assumes "elf_fits A m file" "elf_sym_names A lit m file nm" "cstr m name xs"
  shows "ELF64_FileGetSymbolTableEntryWithName A lit m file name =
     Some (found (sym_addr m file) (find (\<lambda>p. shown_name (nm p) = xs) (sym_positions m file))) \<and>
    (xs = [] \<longrightarrow> ELF64_FileGetSymbolTableEntryWithName A lit m file name = Some 0)"
proof -
  have nz: "file \<noteq> 0" using assms(1) by (simp add: elf_fits_def)
  have main: "ELF64_FileGetSymbolTableEntryWithName A lit m file name =
     Some (found (sym_addr m file) (find (\<lambda>p. shown_name (nm p) = xs) (sym_positions m file)))"
    using section_symbol_loop [OF assms, of "[0..<sec_count m file]"] nz
    by (simp add: ELF64_FileGetSymbolTableEntryWithName_def Let_def header_count
        sym_positions_def [symmetric] found_def split: option.splits)
      (simp add: ELF64_FileGetHeader_def)
  moreover have "find (\<lambda>p. shown_name (nm p) = xs) ps = None" if "xs = []" for ps
    using that by (simp add: find_None_iff shown_name_def unnamed_symbol_def)
  ultimately show ?thesis by (simp add: found_def)
qed

lemma example_names:
  "elf_sym_names A 0x800 example_elf 0x1000 (\<lambda>p. if snd p = 0 then [] else [0x6D, 0x61, 0x69, 0x6E])"
proof -
  have link: "sec_link example_elf 0x1000 (Suc 0) = 2"
    unfolding sec_link_def example_sections by (simp add: rd32_bytes example_elf_def)
  have "sym_name_addr example_elf 0x1000 (Suc 0, 0) = 0x1130" "sym_name_addr example_elf 0x1000 (Suc 0, Suc 0) = 0x1135"
    unfolding sym_name_addr_def example_symbols fst_conv link example_sections
    by (simp_all add: rd32_bytes example_elf_def)
  moreover have "cstr example_elf 0x800 unnamed_symbol" "cstr example_elf 0x1130 []"
    "cstr example_elf 0x1135 [0x6D, 0x61, 0x69, 0x6E]"
    by (simp_all add: unnamed_symbol_def example_elf_def)
  ultimately show ?thesis
    by (simp add: elf_sym_names_def example_symbols example_sections link ptr_bits_def split: arch.splits)
qed

theorem elf_symbol_with_name_witness:
  "ELF64_FileGetSymbolTableEntryWithName I386 0x800 example_elf 0x1000 0x900 = Some 0x1118"
proof -
  have "cstr example_elf 0x900 [0x6D, 0x61, 0x69, 0x6E]" by (simp add: example_elf_def)
  from elf_symbol_with_name [OF example_fits example_names this] show ?thesis
    by (simp add: example_symbols found_def shown_name_def unnamed_symbol_def)
qed


section \<open>Searching sections\<close>

definition sec_name_addr :: "bytes \<Rightarrow> nat \<Rightarrow> nat \<Rightarrow> nat" where
  "sec_name_addr m file i =
     sec_data m file (unat (e_shstrndx (header_at m file))) + unat (sh_name (section_at m (sec_addr m file i)))"

definition elf_sec_names :: "arch \<Rightarrow> bytes \<Rightarrow> nat \<Rightarrow> (nat \<Rightarrow> u8 list) \<Rightarrow> bool" where
  "elf_sec_names A m file nm \<longleftrightarrow> unat (e_shstrndx (header_at m file)) < sec_count m file \<and>
     (\<forall>i < sec_count m file. sec_name_addr m file i < 2 ^ ptr_bits A \<and> cstr m (sec_name_addr m file i) (nm i))"

lemma section_name_addr:
  assumes fits: "elf_fits A m file" and names: "elf_sec_names A m file nm" and i: "i < sec_count m file"
  shows "ELF64_FileGetNameOfSection A m file (sec_addr m file i) = sec_name_addr m file i"
proof -
  let ?k = "unat (e_shstrndx (header_at m file))"
  have nz: "file \<noteq> 0" using fits by (simp add: elf_fits_def)
  have k: "?k < sec_count m file" and n: "sec_name_addr m file i < 2 ^ ptr_bits A"
    using names i by (simp_all add: elf_sec_names_def)
  have tab: "ELF64_FileGetStringTableHeaderEntry A m file = sec_addr m file ?k"
    using k nz by (simp add: ELF64_FileGetStringTableHeaderEntry_def ELF64_FileGetHeader_def Let_def section_entry [OF fits]
        ELF64_HeaderGetSectionNameStringTableIndex_def unat_widen del: header_at_sel)
  have data: "ELF64_FileGetDataForSection A m file (sec_addr m file ?k) = sec_data m file ?k"
    by (rule section_data [OF fits]) (use n in \<open>simp add: sec_name_addr_def\<close>)
  have off: "ELF64_SectionHeaderEntryGetNameOffset m (sec_addr m file i) = sh_name (section_at m (sec_addr m file i))"
    by (simp add: ELF64_SectionHeaderEntryGetNameOffset_def sec_addr_pos [OF fits])
  show ?thesis
    using nz n unfolding ELF64_FileGetNameOfSection_def Let_def tab data off
    by (simp add: ELF64_FileGetHeader_def sec_addr_pos [OF fits] ptr_add_fits sec_name_addr_def
        del: section_at_sel header_at_sel)
qed

lemma section_name_loop:
  assumes fits: "elf_fits A m file" and names: "elf_sec_names A m file nm" and str: "cstr m name xs"
  shows "\<forall>i \<in> set is. i < sec_count m file \<Longrightarrow>
    section_name_loop A m file name is = Some (map_option (sec_addr m file) (find (\<lambda>i. nm i = xs) is))"
proof (induction "is")
  case (Cons i "is")
  have i: "i < sec_count m file" using Cons.prems by simp
  have c: "cstr m (sec_name_addr m file i) (nm i)" using names i by (simp add: elf_sec_names_def)
  have "xs = nm i \<longleftrightarrow> nm i = xs" by blast
  then show ?case
    using Cons section_entry_nat [OF fits i] section_name_addr [OF fits names i]
    by (simp add: strcmp_cstr [OF str c] list_cmp_0 Let_def)
qed simp

text \<open>
  In an image whose sections have terminated names, the search for a section gives the first
  section with the name, NULL if no section has it.
\<close>

theorem elf_section_with_name:
  assumes "elf_fits A m file" "elf_sec_names A m file nm" "cstr m name xs"
  shows "ELF64_FileGetSectionHeaderEntryWithName A m file name =
    Some (found (sec_addr m file) (find (\<lambda>i. nm i = xs) [0..<sec_count m file]))"
proof -
  have nz: "file \<noteq> 0" using assms(1) by (simp add: elf_fits_def)
  show ?thesis
    using section_name_loop [OF assms, of "[0..<sec_count m file]"] nz
    by (simp add: ELF64_FileGetSectionHeaderEntryWithName_def Let_def header_count found_def split: option.splits)
      (simp add: ELF64_FileGetHeader_def)
qed

lemma example_sec_names:
  "elf_sec_names A example_elf 0x1000 (\<lambda>i. if i = 0 then [] else if i = 1 then [0x73] else [0x74])"
proof -
  have tab: "unat (e_shstrndx (header_at example_elf 0x1000)) = 2" by (simp add: rd16_bytes example_elf_def)
  have "sec_name_addr example_elf 0x1000 0 = 0x1130" "sec_name_addr example_elf 0x1000 (Suc 0) = 0x1131"
    "sec_name_addr example_elf 0x1000 2 = 0x1133"
    unfolding sec_name_addr_def tab example_sections by (simp_all add: rd32_bytes example_elf_def)
  moreover have "cstr example_elf 0x1130 []" "cstr example_elf 0x1131 [0x73]" "cstr example_elf 0x1133 [0x74]"
    by (simp_all add: example_elf_def)
  ultimately show ?thesis
    unfolding elf_sec_names_def tab example_sections less_3 by (simp add: ptr_bits_def split: arch.splits)
qed

theorem elf_section_with_name_witness:
  "ELF64_FileGetSectionHeaderEntryWithName I386 example_elf 0x1000 0x1133 = Some 0x10C0"
proof -
  have "cstr example_elf 0x1133 [0x74]" by (simp add: example_elf_def)
  moreover have "[0..<3] = [0, Suc 0, 2::nat]" by (simp add: upt_conv_Cons)
  ultimately show ?thesis
    using elf_section_with_name [OF example_fits example_sec_names, of "0x1133" "[0x74]"]
    by (simp add: example_sections found_def)
qed


section \<open>Fields that are decoded wrongly\<close>

lemma flag_bit: "(w AND 1 \<noteq> 0) = bit w 0" "(w AND 2 \<noteq> 0) = bit w 1" "(w AND 4 \<noteq> 0) = bit w 2" for w :: u64
  using and_exp_eq_0_iff_not_bit [of w 0] and_exp_eq_0_iff_not_bit [of w 1] and_exp_eq_0_iff_not_bit [of w 2]
  by simp_all

text \<open>
  The binding of a symbol is in the high four bits of its information; they are masked but not
  shifted, so that every symbol has local binding.  The attributes of a section are tested with the
  execution flag of a segment, which is the write flag of a section: a section that is written
  without being allocated is shown as executable, and one with allocated code as not.
\<close>

theorem elf_decoding_errors:
  "ELF64_SymbolTableEntryGetBinding m symb = ELF64_SymbolBindingLocal \<and>
   (let flags = ELF64_SectionHeaderEntryGetAttributes m entry;
        W = bit flags 0; A = bit flags 1; X = bit flags 2
    in ELF64_SectionHeaderEntryGetAttributesString m entry =
       (if W \<and> A then (if X then ''wax'' else ''wa-'')
        else if W then ''w-x''
        else if A then ''-a-''
        else if X then ''--x'' else ''---''))"
proof
  have "v AND 0xF0 \<noteq> 1" "v AND 0xF0 \<noteq> 2" for v :: u8
  proof
    assume "v AND 0xF0 = 1"
    from arg_cong [OF this, of "\<lambda>x. bit x 0"] show False by (simp add: bit_and_iff)
  next
    show "v AND 0xF0 \<noteq> 2"
    proof
      assume "v AND 0xF0 = 2"
      from arg_cong [OF this, of "\<lambda>x. bit x 1"] show False by (simp add: bit_and_iff)
    qed
  qed
  then show "ELF64_SymbolTableEntryGetBinding m symb = ELF64_SymbolBindingLocal"
    by (simp add: ELF64_SymbolTableEntryGetBinding_def Let_def)
  show "let flags = ELF64_SectionHeaderEntryGetAttributes m entry;
        W = bit flags 0; A = bit flags 1; X = bit flags 2
    in ELF64_SectionHeaderEntryGetAttributesString m entry =
       (if W \<and> A then (if X then ''wax'' else ''wa-'')
        else if W then ''w-x''
        else if A then ''-a-''
        else if X then ''--x'' else ''---'')"
    by (simp add: ELF64_SectionHeaderEntryGetAttributesString_def Let_def elf_attribute_defs flag_bit)
qed


section \<open>The hash function\<close>

text \<open>
  The reference is the hash function of the System V ABI, on 32-bit words: the high bits are removed
  with the complement of their value.
\<close>

definition sysv_step :: "u32 \<Rightarrow> u8 \<Rightarrow> u32" where
  "sysv_step h c =
     (let h1 = push_bit 4 h + ucast c; g = h1 AND 0xF0000000
      in (h1 XOR drop_bit 24 g) AND NOT g)"

definition fold_high :: "'w::len word \<Rightarrow> 'w word" where
  "fold_high h = (let g = h AND 0xF0000000; h2 = (if g \<noteq> 0 then h XOR drop_bit 24 g else h) in h2 AND 0x0FFFFFFF)"

lemma hash_step_fold: "hash_step h c = fold_high (push_bit 4 h + ucast c)"
  by (simp only: hash_step_def fold_high_def Let_def)

lemma hash_masks: "(0xF0000000 :: 'w::len word) = push_bit 28 (mask 4)" "(0x0FFFFFFF :: 'w word) = mask 28"
  by (simp_all add: push_bit_eq_mult mask_eq_exp_minus_1)

lemma fold_high_bit:
  fixes h :: "'w::len word"
  assumes "32 \<le> LENGTH('w)"
  shows "bit (fold_high h) n \<longleftrightarrow> n < 28 \<and> bit h n \<noteq> (4 \<le> n \<and> n < 8 \<and> bit h (n + 24))"
proof -
  have eq: "fold_high h = (h XOR drop_bit 24 (h AND push_bit 28 (mask 4))) AND mask 28"
  proof (cases "h AND push_bit 28 (mask 4) = 0")
    case True
    show ?thesis unfolding fold_high_def Let_def hash_masks True by simp
  next
    case False
    then show ?thesis unfolding fold_high_def Let_def hash_masks by simp
  qed
  have "24 + n < LENGTH('w)" if "n < 8" using that assms by simp
  then show ?thesis using assms unfolding eq by (auto simp: bit_simps add.commute)
qed

lemma sysv_step_fold: "sysv_step h c = fold_high (push_bit 4 h + ucast c)"
proof (rule bit_word_eqI)
  fix n assume "n < LENGTH(32)"
  then show "bit (sysv_step h c) n = bit (fold_high (push_bit 4 h + ucast c)) n"
    by (auto simp: sysv_step_def Let_def fold_high_bit hash_masks bit_simps add.commute)
qed

lemma hash_step_32: "hash_step h c = sysv_step h c"
  by (simp add: hash_step_fold sysv_step_fold)

lemma hash_step_64: "hash_step (ucast (h :: u32) :: u64) c = ucast (hash_step h c)"
proof -
  let ?x = "push_bit 4 (ucast h) + ucast c :: u64" and ?y = "push_bit 4 h + ucast c :: u32"
  have low: "ucast ?x = ?y"
    by (rule word_unat_eq_iff [THEN iffD2])
      (simp add: push_bit_eq_mult unat_word_ariths unat_widen unsigned_ucast_eq take_bit_eq_mod mod_simps mod_mod_cancel)
  have bits: "bit ?x n = bit ?y n" if "n < 32" for n
    using that unfolding low [symmetric] by (simp add: bit_ucast_iff)
  show ?thesis
    unfolding hash_step_fold
    by (rule bit_word_eqI) (auto simp: fold_high_bit bit_ucast_iff bits)
qed

lemma hash_step_range: "unat (hash_step (h :: u32) c) < 2 ^ 28"
proof -
  have "hash_step h c = hash_step h c AND mask 28"
    by (simp add: hash_step_def Let_def hash_masks ac_simps)
  then have "unat (hash_step h c) = take_bit 28 (unat (hash_step h c))"
    by (metis take_bit_eq_mask unsigned_take_bit_eq)
  then show ?thesis by (metis take_bit_nat_less_exp)
qed

lemma hash_loop_32: "cstr m name xs \<Longrightarrow> hash_loop m name (h :: u32) = Some (foldl sysv_step h xs)"
proof (induction xs arbitrary: name h)
  case (Cons x xs)
  then show ?case by (subst hash_loop.simps) (simp add: hash_step_32)
qed (simp add: hash_loop.simps)

lemma hash_loop_64: "cstr m name xs \<Longrightarrow> hash_loop m name (ucast (h :: u32) :: u64) = Some (ucast (foldl sysv_step h xs))"
proof (induction xs arbitrary: name h)
  case (Cons x xs)
  then show ?case by (subst hash_loop.simps) (simp add: hash_step_64 hash_step_32)
qed (simp add: hash_loop.simps)

text \<open>
  The hash of a terminated string is that of the System V ABI, with unsigned long of 32 bits as
  with one of 64 bits (where the shifted sum can exceed 32 bits), and it is below 2^28.
\<close>

theorem elf_hash:
  assumes "cstr m name xs"
  shows "ELF64_Hash m name = Some (foldl sysv_step 0 xs) \<and>
    ELF64_Hash m name = Some (ucast (foldl sysv_step 0 xs) :: u64) \<and>
    unat (foldl sysv_step 0 xs) < 2 ^ 28"
proof -
  have "unat (foldl sysv_step 0 xs) < 2 ^ 28"
    using hash_step_range by (cases xs rule: rev_cases) (simp_all add: hash_step_32)
  then show ?thesis
    using hash_loop_32 [OF assms, of 0] hash_loop_64 [OF assms, of 0] by (simp add: ELF64_Hash_def)
qed

theorem elf_hash_witness: "ELF64_Hash example_elf 0x900 = Some (0x000737FE :: u64)"
proof -
  have "cstr example_elf 0x900 [0x6D, 0x61, 0x69, 0x6E]" by (simp add: example_elf_def)
  from elf_hash [OF this] show ?thesis by (simp add: sysv_step_def Let_def)
qed

end
