(* ===== verification/XEOS_Keyboard.thy ===== *)
theory XEOS_Keyboard
  imports XEOS_PIC
begin

text \<open>
  The PS/2 controller and the keyboard behind it (source/core/xeos/hal/ps2 and hal/keyboard).

  A loop that waits for the controller reads its status until a bit has changed, and never ends if
  the bit does not; it is a partial function.  A command or data byte is sent as a byte, and the
  response is whatever byte is read, also one that is no constant of the enumeration.
\<close>

section \<open>The controller\<close>

definition PS2_GetStatus :: "device \<Rightarrow> 'a io_scheme \<Rightarrow> u8 \<times> 'a io_scheme" where
  "PS2_GetStatus dev s = IO_PortIn dev 0x64 s"

definition PS2_InputBufferEmpty :: "device \<Rightarrow> 'a io_scheme \<Rightarrow> bool \<times> 'a io_scheme" where
  "PS2_InputBufferEmpty dev s = (let (status, s1) = PS2_GetStatus dev s in (status AND push_bit 1 1 = 0, s1))"

definition PS2_OutputBufferEmpty :: "device \<Rightarrow> 'a io_scheme \<Rightarrow> bool \<times> 'a io_scheme" where
  "PS2_OutputBufferEmpty dev s = (let (status, s1) = PS2_GetStatus dev s in (status AND push_bit 0 1 = 0, s1))"

definition PS2_TimeoutError :: "device \<Rightarrow> 'a io_scheme \<Rightarrow> bool \<times> 'a io_scheme" where
  "PS2_TimeoutError dev s = (let (status, s1) = PS2_GetStatus dev s in (status AND push_bit 6 1 \<noteq> 0, s1))"

definition PS2_ParityError :: "device \<Rightarrow> 'a io_scheme \<Rightarrow> bool \<times> 'a io_scheme" where
  "PS2_ParityError dev s = (let (status, s1) = PS2_GetStatus dev s in (status AND push_bit 7 1 \<noteq> 0, s1))"

definition PS2_ReadData :: "device \<Rightarrow> 'a io_scheme \<Rightarrow> u8 \<times> 'a io_scheme" where
  "PS2_ReadData dev s = IO_PortIn dev 0x60 s"

definition PS2_WriteData :: "u8 \<Rightarrow> 'a io_scheme \<Rightarrow> 'a io_scheme" where
  "PS2_WriteData data s = IO_PortOut 0x60 data s"

definition PS2_SendCommand :: "u8 \<Rightarrow> 'a io_scheme \<Rightarrow> 'a io_scheme" where
  "PS2_SendCommand command s = IO_PortOut 0x64 command s"


section \<open>Commands and responses\<close>

datatype Keyboard_Command = CommandSetLED | CommandEcho | CommandScanCode | CommandSetRateAndDelay
  | CommandEnableScan | CommandDisableScan | CommandSetDefaultParameters | CommandResendLastByte | CommandReset

fun command_value :: "Keyboard_Command \<Rightarrow> u8" where
  "command_value CommandSetLED = 0xED"
| "command_value CommandEcho = 0xEE"
| "command_value CommandScanCode = 0xF0"
| "command_value CommandSetRateAndDelay = 0xF3"
| "command_value CommandEnableScan = 0xF4"
| "command_value CommandDisableScan = 0xF5"
| "command_value CommandSetDefaultParameters = 0xF6"
| "command_value CommandResendLastByte = 0xFE"
| "command_value CommandReset = 0xFF"

datatype Keyboard_Response = ResponseACK | ResponseResend | ResponseEcho | ResponseSelfTestPassed | ResponseSelfTestFailed

fun response_value :: "Keyboard_Response \<Rightarrow> u8" where
  "response_value ResponseACK = 0xFA"
| "response_value ResponseResend = 0xFE"
| "response_value ResponseEcho = 0xEE"
| "response_value ResponseSelfTestPassed = 0xAA"
| "response_value ResponseSelfTestFailed = 0xFD"

datatype Keyboard_LEDState = LEDStateScrollLock | LEDStateNumLock | LEDStateCapsLock

fun led_value :: "Keyboard_LEDState \<Rightarrow> u8" where
  "led_value LEDStateScrollLock = 0x01"
| "led_value LEDStateNumLock = 0x02"
| "led_value LEDStateCapsLock = 0x04"

datatype Keyboard_ScanCodeSet = ScanCodeSetUnknown | ScanCodeSet1 | ScanCodeSet2 | ScanCodeSet3

fun set_value :: "Keyboard_ScanCodeSet \<Rightarrow> u8" where
  "set_value ScanCodeSetUnknown = 0x00"
| "set_value ScanCodeSet1 = 0x01"
| "set_value ScanCodeSet2 = 0x02"
| "set_value ScanCodeSet3 = 0x03"


section \<open>Sending and receiving\<close>

partial_function (option) wait_output :: "device \<Rightarrow> 'a io_scheme \<Rightarrow> 'a io_scheme option" where
  "wait_output dev s = (let (e, s1) = PS2_OutputBufferEmpty dev s in if e then wait_output dev s1 else Some s1)"

partial_function (option) wait_input :: "device \<Rightarrow> 'a io_scheme \<Rightarrow> 'a io_scheme option" where
  "wait_input dev s = (let (e, s1) = PS2_InputBufferEmpty dev s in if \<not> e then wait_input dev s1 else Some s1)"

definition Keyboard_ReadData :: "device \<Rightarrow> 'a io_scheme \<Rightarrow> (u8 \<times> 'a io_scheme) option" where
  "Keyboard_ReadData dev s = do { s1 \<leftarrow> wait_output dev s; Some (PS2_ReadData dev s1) }"

definition Keyboard_SendCommand :: "device \<Rightarrow> u8 \<Rightarrow> 'a io_scheme \<Rightarrow> (u8 \<times> 'a io_scheme) option" where
  "Keyboard_SendCommand dev command s =
     do { s1 \<leftarrow> wait_input dev s; Keyboard_ReadData dev (PS2_WriteData command s1) }"

definition Keyboard_SendCommandWithData :: "device \<Rightarrow> u8 \<Rightarrow> u8 \<Rightarrow> 'a io_scheme \<Rightarrow> (u8 \<times> 'a io_scheme) option" where
  "Keyboard_SendCommandWithData dev command data s =
     do { (ret, s1) \<leftarrow> Keyboard_SendCommand dev command s;
          if ret \<noteq> response_value ResponseACK then Some (ret, s1) else Keyboard_SendCommand dev data s1 }"


section \<open>The commands\<close>

text \<open>Each command masks the line of the keyboard while it runs, unless it is masked already.\<close>

definition irq1_masked :: "device \<Rightarrow> ('a io_scheme \<Rightarrow> ('r \<times> 'a io_scheme) option) \<Rightarrow> 'a io_scheme \<Rightarrow> ('r \<times> 'a io_scheme) option" where
  "irq1_masked dev body s =
     do { let (irqMasked, s1) = PIC_IRQLineMasked dev IRQ1 s;
          let s2 = (if \<not> irqMasked then PIC_MaskIRQLine dev IRQ1 s1 else s1);
          (response, s3) \<leftarrow> body s2;
          Some (response, if \<not> irqMasked then PIC_UnmaskIRQLine dev IRQ1 s3 else s3) }"

definition Keyboard_DisableScan :: "device \<Rightarrow> 'a io_scheme \<Rightarrow> (u8 \<times> 'a io_scheme) option" where
  "Keyboard_DisableScan dev = irq1_masked dev (Keyboard_SendCommand dev (command_value CommandDisableScan))"

definition Keyboard_Echo :: "device \<Rightarrow> 'a io_scheme \<Rightarrow> (u8 \<times> 'a io_scheme) option" where
  "Keyboard_Echo dev = irq1_masked dev (Keyboard_SendCommand dev (command_value CommandEcho))"

definition Keyboard_EnableScan :: "device \<Rightarrow> 'a io_scheme \<Rightarrow> (u8 \<times> 'a io_scheme) option" where
  "Keyboard_EnableScan dev = irq1_masked dev (Keyboard_SendCommand dev (command_value CommandEnableScan))"

definition Keyboard_ResendLastByte :: "device \<Rightarrow> 'a io_scheme \<Rightarrow> (u8 \<times> 'a io_scheme) option" where
  "Keyboard_ResendLastByte dev = irq1_masked dev (Keyboard_SendCommand dev (command_value CommandResendLastByte))"

definition Keyboard_Reset :: "device \<Rightarrow> 'a io_scheme \<Rightarrow> (u8 \<times> 'a io_scheme) option" where
  "Keyboard_Reset dev = irq1_masked dev (Keyboard_SendCommand dev (command_value CommandReset))"

definition Keyboard_SetDefaultParameters :: "device \<Rightarrow> 'a io_scheme \<Rightarrow> (u8 \<times> 'a io_scheme) option" where
  "Keyboard_SetDefaultParameters dev = irq1_masked dev (Keyboard_SendCommand dev (command_value CommandSetDefaultParameters))"

definition Keyboard_SetLED :: "device \<Rightarrow> Keyboard_LEDState \<Rightarrow> 'a io_scheme \<Rightarrow> (u8 \<times> 'a io_scheme) option" where
  "Keyboard_SetLED dev st = irq1_masked dev (Keyboard_SendCommandWithData dev (command_value CommandSetLED) (led_value st))"

definition Keyboard_SetRateAndDelay :: "device \<Rightarrow> u8 \<Rightarrow> 'a io_scheme \<Rightarrow> (u8 \<times> 'a io_scheme) option" where
  "Keyboard_SetRateAndDelay dev v = irq1_masked dev (Keyboard_SendCommandWithData dev (command_value CommandSetRateAndDelay) v)"

definition Keyboard_SetScanCodeSet :: "device \<Rightarrow> Keyboard_ScanCodeSet \<Rightarrow> 'a io_scheme \<Rightarrow> (u8 \<times> 'a io_scheme) option" where
  "Keyboard_SetScanCodeSet dev st = irq1_masked dev (Keyboard_SendCommandWithData dev (command_value CommandScanCode) (set_value st))"

definition code_set :: "u8 \<Rightarrow> Keyboard_ScanCodeSet" where
  "code_set v =
     (if v = 0x01 \<or> v = 0x43 then ScanCodeSet1
      else if v = 0x02 \<or> v = 0x41 then ScanCodeSet2
      else if v = 0x03 \<or> v = 0x3F then ScanCodeSet3
      else ScanCodeSetUnknown)"

definition Keyboard_GetScanCodeSet :: "device \<Rightarrow> 'a io_scheme \<Rightarrow> (Keyboard_ScanCodeSet \<times> 'a io_scheme) option" where
  "Keyboard_GetScanCodeSet dev = irq1_masked dev
     (\<lambda>s. do { (response, s1) \<leftarrow> Keyboard_SendCommandWithData dev (command_value CommandScanCode) 0x00 s;
               if response = response_value ResponseACK
               then do { (v, s2) \<leftarrow> Keyboard_ReadData dev s1; Some (code_set v, s2) }
               else Some (ScanCodeSetUnknown, s1) })"


section \<open>Waiting\<close>

text \<open>The trace after n more reads of the status.\<close>

fun poll :: "device \<Rightarrow> io_event list \<Rightarrow> nat \<Rightarrow> io_event list" where
  "poll dev t 0 = t"
| "poll dev t (Suc n) = poll dev (t @ [PortRead 0x64 (dev t 0x64)]) n"

definition first_poll :: "device \<Rightarrow> io_event list \<Rightarrow> nat \<Rightarrow> bool \<Rightarrow> nat \<Rightarrow> bool" where
  "first_poll dev t k b n \<longleftrightarrow> bit (dev (poll dev t n) 0x64) k = b \<and> (\<forall>i < n. bit (dev (poll dev t i) 0x64) k \<noteq> b)"

lemma poll_snoc: "poll dev t (Suc n) = poll dev t n @ [PortRead 0x64 (dev (poll dev t n) 0x64)]"
proof (induction n arbitrary: t)
  case (Suc n)
  show ?case using Suc [of "t @ [PortRead 0x64 (dev t 0x64)]"] by (simp only: poll.simps)
qed simp

lemma status_bit: "(v AND push_bit k 1 = 0) = (\<not> bit v k)" if "k < 8" for v :: u8
  using that by (simp add: and_exp_eq_0_iff_not_bit push_bit_eq_mult)

lemma wait_output_step:
  "wait_output dev s =
     (let s1 = s\<lparr>io_trace := poll dev (io_trace s) 1\<rparr>
      in if bit (dev (io_trace s) 0x64) 0 then Some s1 else wait_output dev s1)"
  using status_bit [of 0 "dev (io_trace s) 0x64"]
  by (subst wait_output.simps) (simp add: PS2_OutputBufferEmpty_def PS2_GetStatus_def io_simps Let_def)

lemma wait_input_step:
  "wait_input dev s =
     (let s1 = s\<lparr>io_trace := poll dev (io_trace s) 1\<rparr>
      in if \<not> bit (dev (io_trace s) 0x64) 1 then Some s1 else wait_input dev s1)"
  using status_bit [of 1 "dev (io_trace s) 0x64"]
  by (subst wait_input.simps) (simp add: PS2_InputBufferEmpty_def PS2_GetStatus_def io_simps Let_def)

lemma first_poll_Suc: "first_poll dev t k b (Suc n) \<longleftrightarrow> bit (dev t 0x64) k \<noteq> b \<and> first_poll dev (poll dev t 1) k b n"
  by (auto simp: first_poll_def less_Suc_eq_0_disj)

lemma first_poll_0: "first_poll dev t k b 0 \<longleftrightarrow> bit (dev t 0x64) k = b"
  by (simp add: first_poll_def)

lemma first_poll_unique: "first_poll dev t k b n \<Longrightarrow> first_poll dev t k b n' \<Longrightarrow> n = n'"
  unfolding first_poll_def by (metis linorder_neqE_nat)

lemma wait_output_first:
  "first_poll dev (io_trace s) 0 True n \<Longrightarrow> wait_output dev s = Some (s\<lparr>io_trace := poll dev (io_trace s) (Suc n)\<rparr>)"
proof (induction n arbitrary: s)
  case 0
  then show ?case by (subst wait_output_step) (simp add: first_poll_0)
next
  case (Suc n)
  then show ?case
    by (subst wait_output_step) (simp add: first_poll_Suc)
qed

lemma wait_input_first:
  "first_poll dev (io_trace s) 1 False n \<Longrightarrow> wait_input dev s = Some (s\<lparr>io_trace := poll dev (io_trace s) (Suc n)\<rparr>)"
proof (induction n arbitrary: s)
  case 0
  then show ?case by (subst wait_input_step) (simp add: first_poll_0)
next
  case (Suc n)
  then show ?case
    by (subst wait_input_step) (simp add: first_poll_Suc)
qed

lemma wait_output_returns:
  fixes s s' :: "'a io_scheme"
  assumes "wait_output dev s = Some s'"
  shows "\<exists>n. first_poll dev (io_trace s) 0 True n \<and> s' = s\<lparr>io_trace := poll dev (io_trace s) (Suc n)\<rparr>"
proof (rule wait_output.raw_induct [rotated, OF assms])
  fix f :: "device \<Rightarrow> 'a io_scheme \<Rightarrow> 'a io_scheme option" and dev and s s' :: "'a io_scheme"
  assume IH: "\<And>dev s s'. f dev s = Some s' \<Longrightarrow>
      \<exists>n. first_poll dev (io_trace s) 0 True n \<and> s' = s\<lparr>io_trace := poll dev (io_trace s) (Suc n)\<rparr>"
    and hyp: "(let (e, s1) = PS2_OutputBufferEmpty dev s in if e then f dev s1 else Some s1) = Some s'"
  let ?t = "io_trace s"
  have step: "(if bit (dev ?t 0x64) 0 then Some (s\<lparr>io_trace := poll dev ?t 1\<rparr>)
      else f dev (s\<lparr>io_trace := poll dev ?t 1\<rparr>)) = Some s'"
    using hyp status_bit [of 0 "dev ?t 0x64"]
    by (simp add: PS2_OutputBufferEmpty_def PS2_GetStatus_def io_simps Let_def split: if_splits)
  show "\<exists>n. first_poll dev (io_trace s) 0 True n \<and> s' = s\<lparr>io_trace := poll dev (io_trace s) (Suc n)\<rparr>"
  proof (cases "bit (dev ?t 0x64) 0")
    case True
    then show ?thesis using step by (intro exI [of _ 0]) (simp add: first_poll_0)
  next
    case False
    then obtain n where "first_poll dev (poll dev ?t 1) 0 True n" "s' = s\<lparr>io_trace := poll dev (poll dev ?t 1) (Suc n)\<rparr>"
      using step IH [of dev "s\<lparr>io_trace := poll dev ?t 1\<rparr>" s'] by auto
    then show ?thesis using False by (intro exI [of _ "Suc n"]) (simp add: first_poll_Suc)
  qed
qed

lemma wait_input_returns:
  fixes s s' :: "'a io_scheme"
  assumes "wait_input dev s = Some s'"
  shows "\<exists>n. first_poll dev (io_trace s) 1 False n \<and> s' = s\<lparr>io_trace := poll dev (io_trace s) (Suc n)\<rparr>"
proof (rule wait_input.raw_induct [rotated, OF assms])
  fix f :: "device \<Rightarrow> 'a io_scheme \<Rightarrow> 'a io_scheme option" and dev and s s' :: "'a io_scheme"
  assume IH: "\<And>dev s s'. f dev s = Some s' \<Longrightarrow>
      \<exists>n. first_poll dev (io_trace s) 1 False n \<and> s' = s\<lparr>io_trace := poll dev (io_trace s) (Suc n)\<rparr>"
    and hyp: "(let (e, s1) = PS2_InputBufferEmpty dev s in if \<not> e then f dev s1 else Some s1) = Some s'"
  let ?t = "io_trace s"
  have step: "(if \<not> bit (dev ?t 0x64) 1 then Some (s\<lparr>io_trace := poll dev ?t 1\<rparr>)
      else f dev (s\<lparr>io_trace := poll dev ?t 1\<rparr>)) = Some s'"
    using hyp status_bit [of 1 "dev ?t 0x64"]
    by (simp add: PS2_InputBufferEmpty_def PS2_GetStatus_def io_simps Let_def split: if_splits)
  show "\<exists>n. first_poll dev (io_trace s) 1 False n \<and> s' = s\<lparr>io_trace := poll dev (io_trace s) (Suc n)\<rparr>"
  proof (cases "bit (dev ?t 0x64) 1")
    case False
    then show ?thesis using step by (intro exI [of _ 0]) (simp add: first_poll_0)
  next
    case True
    then obtain n where "first_poll dev (poll dev ?t 1) 1 False n" "s' = s\<lparr>io_trace := poll dev (poll dev ?t 1) (Suc n)\<rparr>"
      using step IH [of dev "s\<lparr>io_trace := poll dev ?t 1\<rparr>" s'] by auto
    then show ?thesis using True by (intro exI [of _ "Suc n"]) (simp add: first_poll_Suc)
  qed
qed

declare poll.simps(2) [simp del]

lemma wait_iff:
  "wait_output dev s = Some s' \<longleftrightarrow>
     (\<exists>n. first_poll dev (io_trace s) 0 True n \<and> s' = s\<lparr>io_trace := poll dev (io_trace s) (Suc n)\<rparr>)"
  "wait_input dev s = Some s' \<longleftrightarrow>
     (\<exists>n. first_poll dev (io_trace s) 1 False n \<and> s' = s\<lparr>io_trace := poll dev (io_trace s) (Suc n)\<rparr>)"
  using wait_output_first [of dev s] wait_output_returns [of dev s s']
    wait_input_first [of dev s] wait_input_returns [of dev s s'] by blast+

end
