(* ===== verification/XEOS_KeyboardProps.thy ===== *)
theory XEOS_KeyboardProps
  imports XEOS_Keyboard
begin

text \<open>
  Properties of the keyboard: when a command returns and what it sends, the line of the keyboard
  around a command, and the scan code set on a keyboard that behaves as documented.
\<close>

section \<open>One byte and its response\<close>

lemma ReadData_iff:
  "Keyboard_ReadData dev s = Some (r, s') \<longleftrightarrow>
   (\<exists>n. first_poll dev (io_trace s) 0 True n \<and>
      (let t = poll dev (io_trace s) (Suc n) in r = dev t 0x60 \<and> s' = s\<lparr>io_trace := t @ [PortRead 0x60 r]\<rparr>))"
  by (auto simp: Keyboard_ReadData_def PS2_ReadData_def bind_eq_Some_conv wait_iff io_simps Let_def)

text \<open>The trace of the exchange of one byte, after i polls for the input and j polls for the output.\<close>

definition sent :: "device \<Rightarrow> u8 \<Rightarrow> io_event list \<Rightarrow> nat \<Rightarrow> io_event list" where
  "sent dev c t i = poll dev t (Suc i) @ [PortWrite 0x60 c]"

definition exchange :: "device \<Rightarrow> u8 \<Rightarrow> io_event list \<Rightarrow> nat \<Rightarrow> nat \<Rightarrow> io_event list" where
  "exchange dev c t i j = poll dev (sent dev c t i) (Suc j)"

lemma Send_iff:
  "Keyboard_SendCommand dev c s = Some (r, s') \<longleftrightarrow>
   (\<exists>i j. first_poll dev (io_trace s) 1 False i \<and> first_poll dev (sent dev c (io_trace s) i) 0 True j \<and>
      r = dev (exchange dev c (io_trace s) i j) 0x60 \<and>
      s' = s\<lparr>io_trace := exchange dev c (io_trace s) i j @ [PortRead 0x60 r]\<rparr>)"
proof -
  have "Keyboard_SendCommand dev c s = Some (r, s') \<longleftrightarrow>
    (\<exists>i. first_poll dev (io_trace s) 1 False i \<and>
       Keyboard_ReadData dev (s\<lparr>io_trace := sent dev c (io_trace s) i\<rparr>) = Some (r, s'))"
    by (auto simp: Keyboard_SendCommand_def bind_eq_Some_conv wait_iff PS2_WriteData_def io_simps sent_def)
  then show ?thesis by (auto simp: ReadData_iff Let_def exchange_def)
qed

text \<open>
  C24. Sending a byte to the keyboard returns exactly if the controller becomes ready for a byte, and
  has one to read after it was written; whatever the hardware does.  The byte is written once, right
  after the status has shown an empty input buffer, and the response is read right after the status
  has shown a full output buffer.
\<close>

theorem keyboard_send:
  "Keyboard_SendCommand dev c s = Some (r, s') \<longleftrightarrow>
   (\<exists>i j. first_poll dev (io_trace s) 1 False i \<and> first_poll dev (sent dev c (io_trace s) i) 0 True j \<and>
      r = dev (exchange dev c (io_trace s) i j) 0x60 \<and>
      s' = s\<lparr>io_trace := exchange dev c (io_trace s) i j @ [PortRead 0x60 r]\<rparr>)"
  by (rule Send_iff)


section \<open>The line of the keyboard\<close>

text \<open>
  A part of a trace that writes to the keyboard only, and a command that adds such a part and
  changes nothing else.
\<close>

definition quiet :: "io_event list \<Rightarrow> bool" where
  "quiet t \<longleftrightarrow> (\<forall>(p, v) \<in> set (port_writes t). p = 0x60)"

definition quiet_body :: "('a io_scheme \<Rightarrow> ('r \<times> 'a io_scheme) option) \<Rightarrow> bool" where
  "quiet_body body \<longleftrightarrow> (\<forall>s r s'. body s = Some (r, s') \<longrightarrow>
     (\<exists>t. io_trace s' = io_trace s @ t \<and> quiet t) \<and> io_if s' = io_if s \<and> io.more s' = io.more s)"

lemma quiet_append: "quiet (t @ u) \<longleftrightarrow> quiet t \<and> quiet u"
  by (auto simp: quiet_def)

lemma quiet_last_write: "quiet u \<Longrightarrow> p = 0x21 \<or> p = 0xA1 \<Longrightarrow> last_write p d u = d"
  by (induction u arbitrary: d rule: port_writes.induct) (auto simp: quiet_def)

lemma poll_extends: "\<exists>u. poll dev t n = t @ u \<and> quiet u"
proof (induction n)
  case 0
  then show ?case by (simp add: quiet_def)
next
  case (Suc n)
  then show ?case by (auto simp: poll_snoc quiet_def)
qed

lemma quiet_ReadData: "quiet_body (Keyboard_ReadData dev)"
  unfolding quiet_body_def ReadData_iff
proof (intro allI impI, elim exE conjE)
  fix s :: "'a io_scheme" and r s' n
  assume "let t = poll dev (io_trace s) (Suc n) in r = dev t 0x60 \<and> s' = s\<lparr>io_trace := t @ [PortRead 0x60 r]\<rparr>"
  moreover obtain u where "poll dev (io_trace s) (Suc n) = io_trace s @ u" "quiet u" using poll_extends by blast
  ultimately show "(\<exists>t. io_trace s' = io_trace s @ t \<and> quiet t) \<and> io_if s' = io_if s \<and> io.more s' = io.more s"
    by (auto simp: quiet_def Let_def)
qed

lemma quiet_Send: "quiet_body (Keyboard_SendCommand dev c)"
  unfolding quiet_body_def
proof (intro allI impI)
  fix s :: "'a io_scheme" and r s'
  assume "Keyboard_SendCommand dev c s = Some (r, s')"
  then obtain i where "Keyboard_ReadData dev (s\<lparr>io_trace := poll dev (io_trace s) (Suc i) @ [PortWrite 0x60 c]\<rparr>) = Some (r, s')"
    by (auto simp: Keyboard_SendCommand_def bind_eq_Some_conv wait_iff PS2_WriteData_def io_simps)
  moreover obtain u where "poll dev (io_trace s) (Suc i) = io_trace s @ u" "quiet u" using poll_extends by blast
  ultimately show "(\<exists>t. io_trace s' = io_trace s @ t \<and> quiet t) \<and> io_if s' = io_if s \<and> io.more s' = io.more s"
    using quiet_ReadData [of dev, unfolded quiet_body_def, rule_format] by (fastforce simp: quiet_def)
qed

lemma quiet_bind:
  assumes "quiet_body b" "\<And>r. quiet_body (g r)"
  shows "quiet_body (\<lambda>s. do { (r, s1) \<leftarrow> b s; g r s1 })"
  unfolding quiet_body_def
proof (intro allI impI)
  fix s r s' assume "do { (r, s1) \<leftarrow> b s; g r s1 } = Some (r, s')"
  then obtain r1 s1 where "b s = Some (r1, s1)" "g r1 s1 = Some (r, s')" by (auto simp: bind_eq_Some_conv)
  then obtain t u where "io_trace s1 = io_trace s @ t" "quiet t" "io_trace s' = io_trace s1 @ u" "quiet u"
    "io_if s' = io_if s" "io.more s' = io.more s"
    using assms(1) assms(2) [of r1] unfolding quiet_body_def by metis
  moreover from this have "io_trace s' = io_trace s @ (t @ u) \<and> quiet (t @ u)" by (simp add: quiet_append)
  ultimately show "(\<exists>t. io_trace s' = io_trace s @ t \<and> quiet t) \<and> io_if s' = io_if s \<and> io.more s' = io.more s" by blast
qed

lemma quiet_return: "quiet_body (\<lambda>s. Some (r, s))"
  by (auto simp: quiet_body_def quiet_def)

lemma quiet_if: "quiet_body b \<Longrightarrow> quiet_body c \<Longrightarrow> quiet_body (\<lambda>s. if P then b s else c s)"
  by (cases P) simp_all

lemma quiet_SendWithData: "quiet_body (Keyboard_SendCommandWithData dev c d)"
  unfolding Keyboard_SendCommandWithData_def
  by (intro quiet_bind quiet_if quiet_return quiet_Send)

text \<open>The calls of the keyboard commands.\<close>

inductive keyboard_call :: "device \<Rightarrow> 'a io_scheme \<Rightarrow> 'a io_scheme \<Rightarrow> bool" for dev where
  call_DisableScan: "Keyboard_DisableScan dev s = Some (r, s') \<Longrightarrow> keyboard_call dev s s'"
| call_Echo: "Keyboard_Echo dev s = Some (r, s') \<Longrightarrow> keyboard_call dev s s'"
| call_EnableScan: "Keyboard_EnableScan dev s = Some (r, s') \<Longrightarrow> keyboard_call dev s s'"
| call_ResendLastByte: "Keyboard_ResendLastByte dev s = Some (r, s') \<Longrightarrow> keyboard_call dev s s'"
| call_Reset: "Keyboard_Reset dev s = Some (r, s') \<Longrightarrow> keyboard_call dev s s'"
| call_SetDefaultParameters: "Keyboard_SetDefaultParameters dev s = Some (r, s') \<Longrightarrow> keyboard_call dev s s'"
| call_SetLED: "Keyboard_SetLED dev led s = Some (r, s') \<Longrightarrow> keyboard_call dev s s'"
| call_SetRateAndDelay: "Keyboard_SetRateAndDelay dev v s = Some (r, s') \<Longrightarrow> keyboard_call dev s s'"
| call_SetScanCodeSet: "Keyboard_SetScanCodeSet dev st s = Some (r, s') \<Longrightarrow> keyboard_call dev s s'"
| call_GetScanCodeSet: "Keyboard_GetScanCodeSet dev s = Some (st, s') \<Longrightarrow> keyboard_call dev s s'"

lemma quiet_GetBody:
  "quiet_body (\<lambda>s. do { (response, s1) \<leftarrow> Keyboard_SendCommandWithData dev c d s;
     if response = a then do { (v, s2) \<leftarrow> Keyboard_ReadData dev s1; Some (code_set v, s2) }
     else Some (ScanCodeSetUnknown, s1) })"
  by (intro quiet_bind quiet_if quiet_return quiet_SendWithData quiet_ReadData)

text \<open>
  The writes to the data port of the keyboard in a trace t, after the trace t0, happen while its
  line is masked.
\<close>

definition writes_guarded :: "u8 \<Rightarrow> io_event list \<Rightarrow> io_event list \<Rightarrow> bool" where
  "writes_guarded m1 t0 t \<longleftrightarrow>
     (\<forall>k < length t. \<forall>c. t ! k = PortWrite 0x60 c \<longrightarrow> bit (last_write 0x21 m1 (t0 @ take k t)) 1)"

lemma writes_guarded_append:
  "writes_guarded m1 t0 t \<Longrightarrow> writes_guarded m1 (t0 @ t) u \<Longrightarrow> writes_guarded m1 t0 (t @ u)"
  unfolding writes_guarded_def
proof (intro allI impI)
  fix k c
  assume t: "\<forall>k<length t. \<forall>c. t ! k = PortWrite 0x60 c \<longrightarrow> bit (last_write 0x21 m1 (t0 @ take k t)) 1"
    and u: "\<forall>k<length u. \<forall>c. u ! k = PortWrite 0x60 c \<longrightarrow> bit (last_write 0x21 m1 ((t0 @ t) @ take k u)) 1"
    and k: "k < length (t @ u)" "(t @ u) ! k = PortWrite 0x60 c"
  show "bit (last_write 0x21 m1 (t0 @ take k (t @ u))) 1"
  proof (cases "k < length t")
    case True
    then show ?thesis using t k by (simp add: nth_append)
  next
    case False
    then show ?thesis using u [rule_format, of "k - length t" c] k by (simp add: nth_append)
  qed
qed

lemma writes_guarded_quiet:
  assumes "quiet u" "bit (last_write 0x21 m1 t0) 1"
  shows "writes_guarded m1 t0 u"
  unfolding writes_guarded_def
proof (intro allI impI)
  fix k c assume "k < length u"
  have "quiet (take k u @ drop k u)" using assms(1) by simp
  then have "quiet (take k u)" unfolding quiet_append by blast
  from quiet_last_write [OF this, of "0x21"] assms(2)
  show "bit (last_write 0x21 m1 (t0 @ take k u)) 1" by simp
qed

lemma writes_guarded_other: "(\<And>c. PortWrite 0x60 c \<notin> set t) \<Longrightarrow> writes_guarded m1 t0 t"
  unfolding writes_guarded_def by (metis nth_mem)

lemma pic_events:
  "\<exists>t. io_trace (snd (PIC_IRQLineMasked dev IRQ1 s)) = io_trace s @ t \<and> (\<forall>c. PortWrite 0x60 c \<notin> set t)"
  "\<exists>t. io_trace (PIC_MaskIRQLine dev IRQ1 s) = io_trace s @ t \<and> (\<forall>c. PortWrite 0x60 c \<notin> set t)"
  "\<exists>t. io_trace (PIC_UnmaskIRQLine dev IRQ1 s) = io_trace s @ t \<and> (\<forall>c. PortWrite 0x60 c \<notin> set t)"
  by (simp_all add: PIC_IRQLineMasked_def PIC_MaskIRQLine_def PIC_UnmaskIRQLine_def Let_def io_simps irq_controller_def)

lemma line_test_keeps: "line_masked m1 m2 j (snd (PIC_IRQLineMasked dev irq s)) \<longleftrightarrow> line_masked m1 m2 j s"
  by (simp add: line_masked_def PIC_IRQLineMasked_def Let_def io_simps split: PIC_Controller.splits)

lemma line_masked_quiet:
  "io_trace s' = io_trace s @ t \<Longrightarrow> quiet t \<Longrightarrow> line_masked m1 m2 j s' \<longleftrightarrow> line_masked m1 m2 j s"
  by (simp add: line_masked_def quiet_last_write split: PIC_Controller.splits)

lemma line_masked_IRQ1: "line_masked m1 m2 IRQ1 s \<longleftrightarrow> bit (last_write 0x21 m1 (io_trace s)) 1"
  by (simp add: line_masked_def irq_controller_def irq_line_def)

lemma irq1_masked_call:
  assumes pic: "pic_device m1 m2 dev" and body: "quiet_body body" and call: "irq1_masked dev body s = Some (r, s')"
  shows "(\<forall>j. line_masked m1 m2 j s' \<longleftrightarrow> line_masked m1 m2 j s) \<and>
    (\<exists>t. io_trace s' = io_trace s @ t \<and> writes_guarded m1 (io_trace s) t)"
proof -
  define s1 where "s1 = snd (PIC_IRQLineMasked dev IRQ1 s)"
  define masked where "masked = line_masked m1 m2 IRQ1 s"
  define s2 where "s2 = (if \<not> masked then PIC_MaskIRQLine dev IRQ1 s1 else s1)"
  have test: "fst (PIC_IRQLineMasked dev IRQ1 s) = masked"
    by (simp add: line_test [OF pic] masked_def)
  obtain s3 where s3: "body s2 = Some (r, s3)" and s': "s' = (if \<not> masked then PIC_UnmaskIRQLine dev IRQ1 s3 else s3)"
    using call by (auto simp: irq1_masked_def Let_def case_prod_beta test s1_def [symmetric] s2_def [symmetric] bind_eq_Some_conv)
  obtain u where u: "io_trace s3 = io_trace s2 @ u" "quiet u" using body s3 unfolding quiet_body_def by blast
  have s1: "line_masked m1 m2 j s1 = line_masked m1 m2 j s" for j by (simp add: s1_def line_test_keeps)
  have s2: "line_masked m1 m2 j s2 \<longleftrightarrow> j = IRQ1 \<or> line_masked m1 m2 j s" for j
    using s1 by (auto simp: s2_def mask_line [OF pic] masked_def)
  have "line_masked m1 m2 j s' \<longleftrightarrow> line_masked m1 m2 j s" for j
    using s2 line_masked_quiet [OF u] by (auto simp: s' mask_line [OF pic] masked_def)
  moreover have "\<exists>t. io_trace s' = io_trace s @ t \<and> writes_guarded m1 (io_trace s) t"
  proof -
    obtain a where a: "io_trace s1 = io_trace s @ a" "\<And>c. PortWrite 0x60 c \<notin> set a"
      using pic_events(1) unfolding s1_def by blast
    obtain b where b: "io_trace s2 = io_trace s1 @ b" "\<And>c. PortWrite 0x60 c \<notin> set b"
      using pic_events(2) [of dev s1] unfolding s2_def by (cases masked) fastforce+
    obtain d where d: "io_trace s' = io_trace s3 @ d" "\<And>c. PortWrite 0x60 c \<notin> set d"
      using pic_events(3) [of dev s3] unfolding s' by (cases masked) fastforce+
    have "bit (last_write 0x21 m1 (io_trace s2)) 1" using s2 [of IRQ1] by (simp add: line_masked_IRQ1)
    then have "writes_guarded m1 (io_trace s2) u" by (rule writes_guarded_quiet [OF u(2)])
    then have "writes_guarded m1 (io_trace s2) (u @ d)"
      by (intro writes_guarded_append) (use d in \<open>auto intro: writes_guarded_other\<close>)
    moreover have "writes_guarded m1 (io_trace s) (a @ b)" by (rule writes_guarded_other) (use a b in auto)
    ultimately have "writes_guarded m1 (io_trace s) ((a @ b) @ u @ d)"
      using a(1) b(1) writes_guarded_append [of m1 "io_trace s" "a @ b" "u @ d"] by simp
    then show ?thesis using a b d u by auto
  qed
  ultimately show ?thesis by blast
qed

lemma pic_frame:
  "io_if (snd (PIC_IRQLineMasked dev irq s)) = io_if s" "io.more (snd (PIC_IRQLineMasked dev irq s)) = io.more s"
  "io_if (PIC_MaskIRQLine dev irq s) = io_if s" "io.more (PIC_MaskIRQLine dev irq s) = io.more s"
  "io_if (PIC_UnmaskIRQLine dev irq s) = io_if s" "io.more (PIC_UnmaskIRQLine dev irq s) = io.more s"
  by (simp_all add: PIC_IRQLineMasked_def PIC_MaskIRQLine_def PIC_UnmaskIRQLine_def Let_def io_simps)

lemma irq1_masked_frame:
  assumes "quiet_body body" "irq1_masked dev body s = Some (r, s')"
  shows "io_if s' = io_if s" "io.more s' = io.more s"
proof -
  define s2 where "s2 = (if \<not> fst (PIC_IRQLineMasked dev IRQ1 s) then PIC_MaskIRQLine dev IRQ1 (snd (PIC_IRQLineMasked dev IRQ1 s))
    else snd (PIC_IRQLineMasked dev IRQ1 s))"
  obtain s3 where s3: "body s2 = Some (r, s3)"
    "s' = (if \<not> fst (PIC_IRQLineMasked dev IRQ1 s) then PIC_UnmaskIRQLine dev IRQ1 s3 else s3)"
    using assms(2) by (auto simp: irq1_masked_def Let_def case_prod_beta s2_def [symmetric] bind_eq_Some_conv)
  have "io_if s2 = io_if s" "io.more s2 = io.more s" by (simp_all add: s2_def pic_frame)
  moreover have "io_if s3 = io_if s2" "io.more s3 = io.more s2" using assms(1) s3(1) unfolding quiet_body_def by blast+
  ultimately show "io_if s' = io_if s" "io.more s' = io.more s" using s3(2) by (simp_all add: pic_frame)
qed

lemmas keyboard_commands = Keyboard_DisableScan_def Keyboard_Echo_def Keyboard_EnableScan_def
  Keyboard_ResendLastByte_def Keyboard_Reset_def Keyboard_SetDefaultParameters_def Keyboard_SetLED_def
  Keyboard_SetRateAndDelay_def Keyboard_SetScanCodeSet_def Keyboard_GetScanCodeSet_def

text \<open>
  C31. A keyboard command that returns leaves the masks of all sixteen interrupt lines as they were,
  whether the line of the keyboard was masked before or not, and every byte that it sends to the
  keyboard is written while this line is masked.
\<close>

theorem keyboard_masks:
  assumes "pic_device m1 m2 dev" "keyboard_call dev s s'"
  shows "(\<forall>j. line_masked m1 m2 j s' \<longleftrightarrow> line_masked m1 m2 j s) \<and>
    (\<exists>t. io_trace s' = io_trace s @ t \<and> writes_guarded m1 (io_trace s) t)"
  using assms(2)
  by cases (auto simp only: keyboard_commands dest!: irq1_masked_call [OF assms(1) quiet_Send]
    irq1_masked_call [OF assms(1) quiet_SendWithData] irq1_masked_call [OF assms(1) quiet_GetBody])


section \<open>A keyboard that behaves as documented\<close>

text \<open>
  The state of a keyboard is its scan code set, whether it expects the argument of the scan code
  command, and the bytes that it has to send.  It acknowledges the scan code command and its
  arguments, answers an echo with an echo, and an argument 0 of the scan code command with its set,
  as the controller translates it (tr).  Other bytes, and bytes that come while a response is still
  to be read, are outside of this description.
\<close>

type_synonym kbd = "u8 \<times> bool \<times> u8 list"

fun kbd_write :: "(u8 \<Rightarrow> u8) \<Rightarrow> u8 \<Rightarrow> kbd \<Rightarrow> kbd option" where
  "kbd_write tr v (x, e, q) =
     (if q \<noteq> [] then None
      else if e then if v = 0 then Some (x, False, [0xFA, tr x]) else if v \<le> 3 then Some (v, False, [0xFA]) else None
      else if v = 0xF0 then Some (x, True, [0xFA])
      else if v = 0xEE then Some (x, False, [0xEE])
      else None)"

fun kbd_read :: "kbd \<Rightarrow> kbd" where
  "kbd_read (x, e, q) = (x, e, tl q)"

text \<open>
  The controller in front of it is driven by a protocol: a byte is written only after the status has
  shown that the input buffer is empty (bit 1 clear) with no byte written since, and a byte is read
  only after the status has shown that the output buffer is full (bit 0 set) with no byte read
  since.  The two flags keep what the last status has shown.  A program that breaks the protocol, or
  sends a command to the controller itself, can rely on nothing: there is no state then.
\<close>

fun kbd_step :: "(u8 \<Rightarrow> u8) \<Rightarrow> io_event \<Rightarrow> kbd \<times> bool \<times> bool \<Rightarrow> (kbd \<times> bool \<times> bool) option" where
  "kbd_step tr (PortRead p v) (k, ready, full) =
     (if p = 0x64 then Some (k, \<not> bit v 1, bit v 0)
      else if p = 0x60 then if full then Some (kbd_read k, ready, False) else None
      else Some (k, ready, full))"
| "kbd_step tr (PortWrite p v) (k, ready, full) =
     (if p = 0x60 then if ready then map_option (\<lambda>k1. (k1, False, False)) (kbd_write tr v k) else None
      else if p = 0x64 then None
      else Some (k, ready, full))"
| "kbd_step tr _ s = Some s"

fun kbd_run :: "(u8 \<Rightarrow> u8) \<Rightarrow> (kbd \<times> bool \<times> bool) option \<Rightarrow> io_event list \<Rightarrow> (kbd \<times> bool \<times> bool) option" where
  "kbd_run tr s [] = s"
| "kbd_run tr s (e # t) = kbd_run tr (s \<bind> kbd_step tr e) t"

definition kbd_at :: "(u8 \<Rightarrow> u8) \<Rightarrow> kbd \<Rightarrow> io_event list \<Rightarrow> kbd option" where
  "kbd_at tr k0 t = map_option fst (kbd_run tr (Some (k0, False, False)) t)"

definition kbd_queue :: "kbd \<Rightarrow> u8 list" where "kbd_queue k = snd (snd k)"

text \<open>
  What the hardware promises while the program keeps to the protocol.  A byte that the status has
  announced is the next one that the keyboard sends.  A byte that waits to be sent is announced
  after some number of reads of the status, and the input buffer is empty after some number of them;
  there is no bound on these numbers, and the other six bits of the status may have any value.  No
  key is pressed meanwhile.
\<close>

definition kbd_device :: "(u8 \<Rightarrow> u8) \<Rightarrow> kbd \<Rightarrow> device \<Rightarrow> bool" where
  "kbd_device tr k0 dev \<longleftrightarrow>
     (\<forall>t k ready full. kbd_run tr (Some (k0, False, False)) t = Some (k, ready, full) \<longrightarrow>
        (kbd_queue k \<noteq> [] \<and> full \<longrightarrow> dev t 0x60 = hd (kbd_queue k)) \<and>
        (kbd_queue k \<noteq> [] \<longrightarrow> (\<exists>n. bit (dev (poll dev t n) 0x64) 0)) \<and>
        (\<exists>n. \<not> bit (dev (poll dev t n) 0x64) 1))"

text \<open>The two translations of a controller: none, and that of the scan code set 2.\<close>

definition set_translation :: "(u8 \<Rightarrow> u8) \<Rightarrow> bool" where
  "set_translation tr \<longleftrightarrow> tr 1 \<in> {1, 0x43} \<and> tr 2 \<in> {2, 0x41} \<and> tr 3 \<in> {3, 0x3F}"

lemma kbd_run_append [simp]: "kbd_run tr s (t @ u) = kbd_run tr (kbd_run tr s t) u"
  by (induction t arbitrary: s) simp_all

lemma kbd_step_other [simp]:
  "p \<noteq> 0x60 \<Longrightarrow> p \<noteq> 0x64 \<Longrightarrow> kbd_step tr (PortRead p v) = Some" "p \<noteq> 0x60 \<Longrightarrow> p \<noteq> 0x64 \<Longrightarrow> kbd_step tr (PortWrite p v) = Some"
  "kbd_step tr IntDisable = Some" "kbd_step tr IntEnable = Some" "kbd_step tr CpuHalt = Some"
  by (auto simp: fun_eq_iff)

text \<open>
  A controller of this kind: after a byte was written the input buffer is full and nothing can be
  read until the status has been read once; the system flag (bit 2) and the keyboard switch (bit 4)
  are set.
\<close>

fun is_write :: "io_event \<Rightarrow> bool" where
  "is_write (PortWrite p v) = True"
| "is_write _ = False"

definition kbd_sim :: "u8 \<Rightarrow> u8 \<Rightarrow> (u8 \<Rightarrow> u8) \<Rightarrow> kbd \<Rightarrow> device" where
  "kbd_sim m1 m2 tr k0 t p =
     (let q = (case kbd_at tr k0 t of None \<Rightarrow> [] | Some k \<Rightarrow> kbd_queue k)
      in if p = 0x64 then if t \<noteq> [] \<and> is_write (last t) then 0x16 else if q = [] then 0x14 else 0x15
         else if p = 0x60 then if q = [] then 0 else hd q
         else pic_sim m1 m2 t p)"

lemma kbd_sim: "kbd_device tr k0 (kbd_sim m1 m2 tr k0)" "pic_device m1 m2 (kbd_sim m1 m2 tr k0)"
proof -
  let ?dev = "kbd_sim m1 m2 tr k0"
  show "kbd_device tr k0 ?dev"
    unfolding kbd_device_def
  proof (intro allI impI)
    fix t k ready full
    assume run: "kbd_run tr (Some (k0, False, False)) t = Some (k, ready, full)"
    define u where "u = poll ?dev t 1"
    have u: "u = t @ [PortRead 0x64 (?dev t 0x64)]" by (simp add: u_def poll.simps)
    then have "kbd_at tr k0 u = Some k" using run by (simp add: kbd_at_def)
    then have "?dev u 0x64 = (if kbd_queue k = [] then 0x14 else 0x15)" by (simp add: kbd_sim_def u)
    then have "kbd_queue k \<noteq> [] \<Longrightarrow> bit (?dev u 0x64) 0" "\<not> bit (?dev u 0x64) 1"
      by (simp_all add: bit_numeral_rec)
    moreover have "kbd_queue k \<noteq> [] \<Longrightarrow> ?dev t 0x60 = hd (kbd_queue k)"
      using run by (simp add: kbd_sim_def kbd_at_def)
    ultimately show "(kbd_queue k \<noteq> [] \<and> full \<longrightarrow> ?dev t 0x60 = hd (kbd_queue k)) \<and>
        (kbd_queue k \<noteq> [] \<longrightarrow> (\<exists>n. bit (?dev (poll ?dev t n) 0x64) 0)) \<and> (\<exists>n. \<not> bit (?dev (poll ?dev t n) 0x64) 1)"
      unfolding u_def by blast
  qed
  show "pic_device m1 m2 ?dev" by (simp add: pic_device_def kbd_sim_def pic_sim_def Let_def)
qed

lemma first_poll_exists: "\<exists>n. bit (dev (poll dev t n) 0x64) k = b \<Longrightarrow> \<exists>n. first_poll dev t k b n"
  unfolding first_poll_def by (rule exists_least_iff [THEN iffD1])

text \<open>Reading the status changes the flags only.\<close>

lemma kbd_run_poll:
  assumes "kbd_run tr s t = Some (k, ready, full)"
  shows "kbd_run tr s (poll dev t (Suc n)) =
    Some (k, \<not> bit (dev (poll dev t n) 0x64) 1, bit (dev (poll dev t n) 0x64) 0)"
proof -
  have "\<exists>b c. kbd_run tr s (poll dev t n) = Some (k, b, c)"
    by (induction n) (use assms in \<open>auto simp: poll_snoc\<close>)
  then show ?thesis by (auto simp: poll_snoc)
qed

lemma ReadData_ready:
  assumes dev: "kbd_device tr k0 dev" and q: "kbd_at tr k0 (io_trace s) = Some (x, e, r # q)"
  shows "\<exists>s'. Keyboard_ReadData dev s = Some (r, s') \<and> kbd_at tr k0 (io_trace s') = Some (x, e, q)"
proof -
  let ?t = "io_trace s" and ?s0 = "Some (k0, False, False)"
  obtain ready full where run: "kbd_run tr ?s0 ?t = Some ((x, e, r # q), ready, full)" using q by (auto simp: kbd_at_def)
  then obtain n where n: "first_poll dev ?t 0 True n"
    using dev first_poll_exists [of dev ?t 0 True] unfolding kbd_device_def by (fastforce simp: kbd_queue_def)
  define u where "u = poll dev ?t (Suc n)"
  have full: "bit (dev (poll dev ?t n) 0x64) 0" using n by (simp add: first_poll_def)
  obtain b where b: "kbd_run tr ?s0 u = Some ((x, e, r # q), b, True)"
    using kbd_run_poll [OF run, of dev n] full by (simp add: u_def)
  then have "dev u 0x60 = r" using dev unfolding kbd_device_def by (fastforce simp: kbd_queue_def)
  then have "Keyboard_ReadData dev s = Some (r, s\<lparr>io_trace := u @ [PortRead 0x60 r]\<rparr>)"
    unfolding ReadData_iff using n by (intro exI [of _ n]) (simp add: u_def)
  moreover have "kbd_at tr k0 (u @ [PortRead 0x60 r]) = Some (x, e, q)" using b by (simp add: kbd_at_def)
  ultimately show ?thesis by (intro exI [of _ "s\<lparr>io_trace := u @ [PortRead 0x60 r]\<rparr>"]) simp
qed

lemma Send_ready:
  assumes dev: "kbd_device tr k0 dev" and q: "kbd_at tr k0 (io_trace s) = Some k" "kbd_write tr c k = Some (x, e, r # q)"
  shows "\<exists>s'. Keyboard_SendCommand dev c s = Some (r, s') \<and> kbd_at tr k0 (io_trace s') = Some (x, e, q)"
proof -
  let ?t = "io_trace s" and ?s0 = "Some (k0, False, False)"
  obtain ready full where run: "kbd_run tr ?s0 ?t = Some (k, ready, full)" using q(1) by (auto simp: kbd_at_def)
  then obtain n where n: "first_poll dev ?t 1 False n"
    using dev first_poll_exists [of dev ?t 1 False] unfolding kbd_device_def by blast
  then have "wait_input dev s = Some (s\<lparr>io_trace := poll dev ?t (Suc n)\<rparr>)" by (rule wait_input_first)
  then have "Keyboard_SendCommand dev c s = Keyboard_ReadData dev (s\<lparr>io_trace := sent dev c ?t n\<rparr>)"
    by (simp add: Keyboard_SendCommand_def PS2_WriteData_def io_simps sent_def)
  moreover have "kbd_at tr k0 (sent dev c ?t n) = Some (x, e, r # q)"
    using n q(2) by (simp add: sent_def kbd_at_def kbd_run_poll [OF run] first_poll_def)
  ultimately show ?thesis using ReadData_ready [OF dev, of "s\<lparr>io_trace := sent dev c ?t n\<rparr>"] by simp
qed

lemma kbd_at_pic:
  "kbd_at tr k0 (io_trace (snd (PIC_IRQLineMasked dev IRQ1 s))) = kbd_at tr k0 (io_trace s)"
  "kbd_at tr k0 (io_trace (PIC_MaskIRQLine dev IRQ1 s)) = kbd_at tr k0 (io_trace s)"
  "kbd_at tr k0 (io_trace (PIC_UnmaskIRQLine dev IRQ1 s)) = kbd_at tr k0 (io_trace s)"
  by (simp_all add: kbd_at_def PIC_IRQLineMasked_def PIC_MaskIRQLine_def PIC_UnmaskIRQLine_def Let_def io_simps irq_controller_def)

lemma irq1_masked_run:
  assumes "\<And>s :: 'a io_scheme. kbd_at tr k0 (io_trace s) = k \<Longrightarrow> \<exists>s'. body s = Some (r, s') \<and> kbd_at tr k0 (io_trace s') = k'"
    and "kbd_at tr k0 (io_trace s) = k"
  shows "\<exists>s'. irq1_masked dev body s = Some (r, s') \<and> kbd_at tr k0 (io_trace s') = k'"
proof -
  define s1 where "s1 = snd (PIC_IRQLineMasked dev IRQ1 s)"
  define masked where "masked = fst (PIC_IRQLineMasked dev IRQ1 s)"
  define s2 where "s2 = (if \<not> masked then PIC_MaskIRQLine dev IRQ1 s1 else s1)"
  have "kbd_at tr k0 (io_trace s2) = k" using assms(2) by (simp add: s2_def s1_def kbd_at_pic)
  then obtain s3 where s3: "body s2 = Some (r, s3)" "kbd_at tr k0 (io_trace s3) = k'" using assms(1) by blast
  have "irq1_masked dev body s = Some (r, if \<not> masked then PIC_UnmaskIRQLine dev IRQ1 s3 else s3)"
    using s3(1) by (simp add: irq1_masked_def Let_def case_prod_beta s1_def [symmetric] s2_def [symmetric] masked_def [symmetric])
  then show ?thesis using s3(2) by (simp add: kbd_at_pic)
qed

lemma GetScanCodeSet_returns:
  assumes dev: "kbd_device tr k0 dev" and tr: "set_translation tr"
    and idle: "kbd_at tr k0 (io_trace s) = Some (set_value st, False, [])" and st: "st \<noteq> ScanCodeSetUnknown"
  shows "\<exists>s'. Keyboard_GetScanCodeSet dev s = Some (st, s') \<and> kbd_at tr k0 (io_trace s') = Some (set_value st, False, [])"
proof -
  let ?v = "set_value st"
  have v: "code_set (tr ?v) = st" using st tr by (cases st) (auto simp: code_set_def set_translation_def)
  have get_body: "\<exists>s'. do { (response, s1) \<leftarrow> Keyboard_SendCommandWithData dev 0xF0 0 s;
       if response = 0xFA then do { (w, s2) \<leftarrow> Keyboard_ReadData dev s1; Some (code_set w, s2) }
       else Some (ScanCodeSetUnknown, s1) } = Some (st, s') \<and> kbd_at tr k0 (io_trace s') = Some (?v, False, [])"
    if i: "kbd_at tr k0 (io_trace s) = Some (?v, False, [])" for s :: "'a io_scheme"
  proof -
    obtain s1 where s1: "Keyboard_SendCommand dev 0xF0 s = Some (0xFA, s1)" "kbd_at tr k0 (io_trace s1) = Some (?v, True, [])"
      using Send_ready [OF dev i, of "0xF0"] by auto
    moreover obtain s2 where s2: "Keyboard_SendCommand dev 0 s1 = Some (0xFA, s2)" "kbd_at tr k0 (io_trace s2) = Some (?v, False, [tr ?v])"
      using Send_ready [OF dev s1(2), of 0] by auto
    moreover obtain s3 where "Keyboard_ReadData dev s2 = Some (tr ?v, s3)" "kbd_at tr k0 (io_trace s3) = Some (?v, False, [])"
      using ReadData_ready [OF dev s2(2)] by blast
    ultimately show ?thesis using v by (simp add: Keyboard_SendCommandWithData_def)
  qed
  show ?thesis
    using irq1_masked_run [where dev = dev and body = "\<lambda>s. do { (response, s1) \<leftarrow> Keyboard_SendCommandWithData dev 0xF0 0 s;
       if response = 0xFA then do { (w, s2) \<leftarrow> Keyboard_ReadData dev s1; Some (code_set w, s2) }
       else Some (ScanCodeSetUnknown, s1) }", OF get_body idle] by (auto simp: Keyboard_GetScanCodeSet_def)
qed

text \<open>
  C32. On a controller and a keyboard that behave as documented, with any delay, any value of the
  other bits of the status, and while no key is pressed, setting one of the three scan code sets and
  getting it again both return, the first with an acknowledgement and the second with the set that
  was set, whether the controller translates the codes or not.
\<close>

theorem keyboard_scan_code_set:
  assumes dev: "kbd_device tr k0 dev" and tr: "set_translation tr"
    and idle: "kbd_at tr k0 (io_trace s) = Some (x, False, [])" and st: "st \<noteq> ScanCodeSetUnknown"
  shows "\<exists>s1 s2. Keyboard_SetScanCodeSet dev st s = Some (response_value ResponseACK, s1) \<and>
    Keyboard_GetScanCodeSet dev s1 = Some (st, s2)"
proof -
  let ?v = "set_value st"
  have v: "?v \<noteq> 0" "?v \<le> 3" using st by (cases st; simp)+
  have set_body: "\<exists>s'. Keyboard_SendCommandWithData dev 0xF0 ?v s = Some (0xFA, s') \<and> kbd_at tr k0 (io_trace s') = Some (?v, False, [])"
    if i: "kbd_at tr k0 (io_trace s) = Some (x, False, [])" for s :: "'a io_scheme"
  proof -
    obtain s1 where s1: "Keyboard_SendCommand dev 0xF0 s = Some (0xFA, s1)" "kbd_at tr k0 (io_trace s1) = Some (x, True, [])"
      using Send_ready [OF dev i, of "0xF0"] by auto
    moreover obtain s2 where "Keyboard_SendCommand dev ?v s1 = Some (0xFA, s2)" "kbd_at tr k0 (io_trace s2) = Some (?v, False, [])"
      using Send_ready [OF dev s1(2), of ?v] v by auto
    ultimately show ?thesis by (simp add: Keyboard_SendCommandWithData_def)
  qed
  obtain s1 where s1: "Keyboard_SetScanCodeSet dev st s = Some (0xFA, s1)" "kbd_at tr k0 (io_trace s1) = Some (?v, False, [])"
    using irq1_masked_run [where dev = dev and body = "Keyboard_SendCommandWithData dev 0xF0 ?v", OF set_body idle] by (auto simp: Keyboard_SetScanCodeSet_def)
  show ?thesis using s1(1) GetScanCodeSet_returns [OF dev tr s1(2) st] by auto
qed

theorem keyboard_scan_code_set_witness:
  "\<exists>s1 s2. Keyboard_SetScanCodeSet (kbd_sim 0 0 (\<lambda>v. v) (2, False, [])) ScanCodeSet3 pic_boot = Some (0xFA, s1) \<and>
    Keyboard_GetScanCodeSet (kbd_sim 0 0 (\<lambda>v. v) (2, False, [])) s1 = Some (ScanCodeSet3, s2)"
  using keyboard_scan_code_set [OF kbd_sim(1), of "\<lambda>v. v" "(2, False, [])" pic_boot 2 ScanCodeSet3 0 0]
  by (simp add: pic_boot_def set_translation_def kbd_at_def)

lemma echo_returns:
  assumes "kbd_device tr k0 dev" "kbd_at tr k0 (io_trace s) = Some (x, False, [])"
  shows "\<exists>s'. Keyboard_Echo dev s = Some (0xEE, s') \<and> kbd_at tr k0 (io_trace s') = Some (x, False, [])"
  unfolding Keyboard_Echo_def
  by (rule irq1_masked_run [OF _ assms(2)]) (use Send_ready [OF assms(1), of _ "(x, False, [])" "0xEE" x False "0xEE" "[]"] in simp)

theorem keyboard_masks_witness:
  "\<exists>s'. Keyboard_Echo (kbd_sim 0 0 id (2, False, [])) pic_boot = Some (0xEE, s') \<and> \<not> line_masked 0 0 IRQ1 s'"
proof -
  obtain s' where s': "Keyboard_Echo (kbd_sim 0 0 id (2, False, [])) pic_boot = Some (0xEE, s')"
    using echo_returns [OF kbd_sim(1), of id "(2, False, [])" pic_boot 2 0 0] by (auto simp: pic_boot_def kbd_at_def)
  from keyboard_masks [OF kbd_sim(2) call_Echo [OF this]]
  have "line_masked 0 0 IRQ1 s' \<longleftrightarrow> line_masked 0 0 IRQ1 pic_boot" by blast
  then show ?thesis using s' by (simp add: line_masked_IRQ1 pic_boot_def)
qed

end
