(* ===== verification/XEOS_Images.thy ===== *)
theory XEOS_Images
  imports XEOS_StringSpec
begin

text \<open>
  Lists of bytes in memory: loaded tells that a list lies at an address, le_bytes is the list of the
  bytes of an integer in the order of the targets.  Shared by the initial RAM disk and by the
  identification of the processor.
\<close>

primrec le_bytes :: "nat \<Rightarrow> nat \<Rightarrow> u8 list" where
  "le_bytes 0 v = []"
| "le_bytes (Suc n) v = of_nat v # le_bytes n (v div 256)"

definition loaded :: "bytes \<Rightarrow> nat \<Rightarrow> u8 list \<Rightarrow> bool" where
  "loaded m a xs \<longleftrightarrow> map m [a..<a + length xs] = xs"

lemma loaded_append: "loaded m a (xs @ ys) \<longleftrightarrow> loaded m a xs \<and> loaded m (a + length xs) ys"
proof -
  have "map m [a..<a + length (xs @ ys)] = map m [a..<a + length xs] @ map m [a + length xs..<a + length xs + length ys]"
    using upt_add_eq_append [of a "a + length xs" "length ys"] by (simp flip: add.assoc)
  then show ?thesis by (simp add: loaded_def append_eq_append_conv)
qed

lemma loaded_Cons: "loaded m a (x # xs) \<longleftrightarrow> m a = x \<and> loaded m (Suc a) xs"
  by (simp add: loaded_def upt_conv_Cons del: upt_Suc)

lemma loaded_Nil [simp]: "loaded m a []"
  by (simp add: loaded_def)

lemma length_le_bytes [simp]: "length (le_bytes n v) = n"
  by (induction n arbitrary: v) simp_all

lemma le_bytes_4: "le_bytes 4 v = [of_nat v, of_nat (v div 256), of_nat (v div 256 div 256), of_nat (v div 256 div 256 div 256)]"
proof -
  have 4: "4 = Suc (Suc (Suc (Suc 0)))" by simp
  show ?thesis unfolding 4 le_bytes.simps by (rule refl)
qed

lemma loaded_le_bytes: "loaded m a (le_bytes n v) \<Longrightarrow> rd_le n m a = v mod 256 ^ n"
proof (induction n arbitrary: a v)
  case (Suc n)
  have "unat (m a) = v mod 256" using Suc.prems by (simp add: loaded_Cons unat_of_nat)
  moreover have "rd_le n m (Suc a) = v div 256 mod 256 ^ n" using Suc by (simp add: loaded_Cons)
  ultimately show ?case by (simp add: mod_mult2_eq)
qed simp

lemma loaded_rd32: "loaded m a (le_bytes 4 (unat v)) \<Longrightarrow> rd32 m a = v"
  by (simp add: rd32_def loaded_le_bytes)

lemma loaded_cstr: "loaded m a (name @ replicate n 0) \<Longrightarrow> 0 < n \<Longrightarrow> 0 \<notin> set name \<Longrightarrow> cstr m a name"
proof (induction name arbitrary: a)
  case Nil
  then show ?case by (cases n) (simp_all add: loaded_Cons)
next
  case (Cons x name)
  then show ?case by (auto simp: loaded_Cons)
qed

lemma loaded_nth: "loaded m a xs \<Longrightarrow> i < length xs \<Longrightarrow> m (a + i) = xs ! i"
  unfolding loaded_def by (metis add_diff_cancel_left' length_upt nth_map nth_upt nat_add_left_cancel_less)

lemma loaded_cong: "(\<And>b. a \<le> b \<Longrightarrow> b < a + length xs \<Longrightarrow> m' b = m b) \<Longrightarrow> loaded m' a xs = loaded m a xs"
  unfolding loaded_def by (subst map_cong [OF refl, of "[a..<a + length xs]" m' m]) simp_all

lemma loaded_wr_le: "loaded (wr_le n m a v) a (le_bytes n v)"
  by (induction n arbitrary: m a v) (simp_all add: loaded_Cons wr_le_frame)

lemma loaded_wr32: "loaded (wr32 m a v) a (le_bytes 4 (unat v))"
  by (simp add: wr32_def loaded_wr_le)

lemma loaded_wr32_other: "a + 4 \<le> b \<or> b + length xs \<le> a \<Longrightarrow> loaded (wr32 m a v) b xs = loaded m b xs"
  by (rule loaded_cong) (auto intro: wr32_frame)

text \<open>A list with a zero in memory is a string, up to the first zero.\<close>

lemma loaded_string: "loaded m a xs \<Longrightarrow> 0 \<in> set xs \<Longrightarrow> cstr m a (takeWhile (\<lambda>x. x \<noteq> 0) xs)"
  by (induction xs arbitrary: a) (auto simp: loaded_Cons)

end
