(* ===== verification/XEOS_InitRD.thy ===== *)
theory XEOS_InitRD
  imports XEOS_Images
begin

text \<open>
  The initial RAM disk: the tool that packs it (tools/mkinitrd) and the accessors of the kernel that
  read it (source/core/xeos/initrd).

  The tool is a function of its arguments and of the files it can read.  A string is the list of its
  characters before the terminator, fs gives the contents of the files that can be opened, and
  can_write tells whether the output can be.  Opening the output for writing empties it, also when
  it is an input as well.  Undefined behaviour is None: the name of a file that does not fit in its
  array.  What the verbose mode prints is left out, and writes are assumed to succeed.
\<close>

section \<open>Data\<close>

definition INITRD_SIGNATURE :: u32 where "INITRD_SIGNATURE = 0x44525358"
definition INITRD_FILENAME_MAXLENGTH :: nat where "INITRD_FILENAME_MAXLENGTH = 255"

record InitRD_Header =
  hd_signature :: u32
  hd_fileCount :: u32

record InitRD_Entry =
  ent_filename :: "u8 list"
  ent_size :: u32
  ent_offset :: u32

text \<open>The sizes of the two structures, and their bytes in a file.\<close>

definition sizeof_header :: nat where "sizeof_header = 8"
definition sizeof_entry :: nat where "sizeof_entry = INITRD_FILENAME_MAXLENGTH + 1 + 8"

definition header_bytes :: "InitRD_Header \<Rightarrow> u8 list" where
  "header_bytes h = le_bytes 4 (unat (hd_signature h)) @ le_bytes 4 (unat (hd_fileCount h))"

definition entry_bytes :: "InitRD_Entry \<Rightarrow> u8 list" where
  "entry_bytes e = ent_filename e @ le_bytes 4 (unat (ent_size e)) @ le_bytes 4 (unat (ent_offset e))"


section \<open>The tool\<close>

type_synonym files = "u8 list \<Rightarrow> u8 list option"

datatype mk_error = OutOfMemory | NoOutput | OutputNotOpened | NoInput | SameName | InputNotOpened
  | TooBig | EmptyOrTooBig

fun mk_message :: "mk_error \<Rightarrow> string" where
  "mk_message OutOfMemory = ''Error: out of memory.''"
| "mk_message NoOutput = ''Error: no output file specified. Please specify an output file with '-o'.''"
| "mk_message OutputNotOpened = ''Error: cannot open output file for writing.''"
| "mk_message NoInput = ''Error: no input file specified.''"
| "mk_message SameName = ''Error: files cannot have the same name.''"
| "mk_message InputNotOpened = ''Error: cannot open input file for writing.''"
| "mk_message TooBig = ''Error: RAM disk is too big.''"
| "mk_message EmptyOrTooBig = ''Error: file is empty or too big.''"

datatype mk_exit = ExitHelp | ExitFailure mk_error | ExitSuccess

definition mkinitrd_filename :: "u8 list \<Rightarrow> u8 list" where
  "mkinitrd_filename path = (if 0x2F \<in> set path then rev (takeWhile (\<lambda>c. c \<noteq> 0x2F) (rev path)) else path)"

definition mkinitrd_filesize :: "u8 list \<Rightarrow> u32" where
  "mkinitrd_filesize content = (if 2 ^ 32 - 1 < length content then 0 else of_nat (length content))"

record mk_args =
  mk_output :: "u8 list option"
  mk_verbose :: bool
  mk_filepaths :: "u8 list list"

text \<open>The loop over the arguments; None is the exit after the help message.\<close>

function mk_parse :: "u8 list list \<Rightarrow> mk_args \<Rightarrow> mk_args option" where
  "mk_parse [] a = Some a"
| "mk_parse (x # xs) a =
     (if x = [0x2D, 0x68] then None
      else if x = [0x2D, 0x6F] \<and> xs \<noteq> [] then mk_parse (tl xs) (a\<lparr>mk_output := Some (hd xs)\<rparr>)
      else if x = [0x2D, 0x76] then mk_parse xs (a\<lparr>mk_verbose := True\<rparr>)
      else mk_parse xs (a\<lparr>mk_filepaths := mk_filepaths a @ [x]\<rparr>))"
  by pat_completeness auto
termination by (relation "measure (\<lambda>(xs, _). length xs)") auto

text \<open>The loop over the files; names are those of the files before, and off is the next offset.\<close>

fun mk_entries :: "files \<Rightarrow> u8 list list \<Rightarrow> u8 list list \<Rightarrow> u64 \<Rightarrow> (mk_error + InitRD_Entry list) option" where
  "mk_entries fs [] names off = Some (Inr [])"
| "mk_entries fs (p # ps) names off =
     (let name = mkinitrd_filename p in
      if name \<in> set names then Some (Inl SameName)
      else case fs p of
             None \<Rightarrow> Some (Inl InputNotOpened)
           | Some content \<Rightarrow>
               if INITRD_FILENAME_MAXLENGTH < length name then None
               else let size = mkinitrd_filesize content;
                        entry = \<lparr>ent_filename = name @ replicate (INITRD_FILENAME_MAXLENGTH + 1 - length name) 0,
                                 ent_size = size, ent_offset = ucast off\<rparr>
                    in if 0xFFFFFFFF < off then Some (Inl TooBig)
                       else if size = 0 then Some (Inl EmptyOrTooBig)
                       else do { r \<leftarrow> mk_entries fs ps (names @ [name]) (off + ucast size);
                                 case r of Inl e \<Rightarrow> Some (Inl e) | Inr es \<Rightarrow> Some (Inr (entry # es)) })"

text \<open>The copy of a file through the buffer.\<close>

function copy_file :: "u8 list \<Rightarrow> u8 list \<Rightarrow> u8 list" where
  "copy_file content out = (if content = [] then out else copy_file (drop 4096 content) (out @ take 4096 content))"
  by pat_completeness auto
termination by (relation "measure (\<lambda>(c, _). length c)") auto

declare copy_file.simps [simp del]

fun copy_files :: "files \<Rightarrow> u8 list list \<Rightarrow> u8 list \<Rightarrow> u8 list" where
  "copy_files fs [] out = out"
| "copy_files fs (p # ps) out = copy_files fs ps (case fs p of None \<Rightarrow> out | Some content \<Rightarrow> copy_file content out)"

text \<open>
  The main function, with the arguments behind the name of the program.  The two flags tell whether
  the allocations succeed.  The result is the exit and the contents of the output, None if it was not
  opened.
\<close>

definition mkinitrd :: "bool \<Rightarrow> bool \<Rightarrow> (u8 list \<Rightarrow> bool) \<Rightarrow> files \<Rightarrow> u8 list list
    \<Rightarrow> (mk_exit \<times> u8 list option) option" where
  "mkinitrd alloc1 alloc2 can_write fs argv =
     (if \<not> alloc1 then Some (ExitFailure OutOfMemory, None)
      else case mk_parse argv \<lparr>mk_output = None, mk_verbose = False, mk_filepaths = []\<rparr> of
             None \<Rightarrow> Some (ExitHelp, None)
           | Some a \<Rightarrow>
               (case mk_output a of
                  None \<Rightarrow> Some (ExitFailure NoOutput, None)
                | Some output \<Rightarrow>
                    if \<not> can_write output then Some (ExitFailure OutputNotOpened, None)
                    else if mk_filepaths a = [] then Some (ExitFailure NoInput, Some [])
                    else if \<not> alloc2 then Some (ExitFailure OutOfMemory, Some [])
                    else let fs1 = fs(output := Some []);
                             fileCount = length (mk_filepaths a);
                             offset = of_nat sizeof_header + of_nat sizeof_entry * of_nat fileCount
                         in do { r \<leftarrow> mk_entries fs1 (mk_filepaths a) [] offset;
                                 case r of
                                   Inl e \<Rightarrow> Some (ExitFailure e, Some [])
                                 | Inr entries \<Rightarrow>
                                     let header = \<lparr>hd_signature = INITRD_SIGNATURE, hd_fileCount = of_nat fileCount\<rparr>;
                                         out = header_bytes header @ concat (map entry_bytes entries)
                                     in Some (ExitSuccess, Some (copy_files fs1 (mk_filepaths a) out)) }))"


section \<open>The accessors of the kernel\<close>

text \<open>A RAM disk and an entry of it are in memory; a reference is an address, 0 is NULL.\<close>

definition InitRDGetSignature :: "bytes \<Rightarrow> nat \<Rightarrow> u32" where
  "InitRDGetSignature m initrd = (if initrd = 0 then 0 else rd32 m initrd)"

definition InitRDGetEntryCount :: "bytes \<Rightarrow> nat \<Rightarrow> u32" where
  "InitRDGetEntryCount m initrd = (if initrd = 0 then 0 else rd32 m (initrd + 4))"

definition InitRDIsValid :: "bytes \<Rightarrow> nat \<Rightarrow> bool" where
  "InitRDIsValid m initrd \<longleftrightarrow> initrd \<noteq> 0 \<and> InitRDGetSignature m initrd = INITRD_SIGNATURE"

definition InitRD_EntryGetFilename :: "nat \<Rightarrow> nat" where
  "InitRD_EntryGetFilename entry = (if entry = 0 then 0 else entry)"

definition InitRD_EntryGetSize :: "bytes \<Rightarrow> nat \<Rightarrow> u32" where
  "InitRD_EntryGetSize m entry = (if entry = 0 then 0 else rd32 m (entry + 256))"

definition InitRD_EntryGetOffset :: "bytes \<Rightarrow> nat \<Rightarrow> u32" where
  "InitRD_EntryGetOffset m entry = (if entry = 0 then 0 else rd32 m (entry + 260))"

end
