(* ===== verification/XEOS_InitRDProps.thy ===== *)
theory XEOS_InitRDProps
  imports XEOS_InitRD
begin

text \<open>
  What the tool packs is what the kernel reads: the RAM disk of a successful run has the names, sizes
  and contents of all files.  And a run is successful exactly if the files can be packed.
\<close>

section \<open>The entries\<close>

definition file_size :: "files \<Rightarrow> u8 list \<Rightarrow> nat" where
  "file_size fs p = length (the (fs p))"

definition file_offset :: "files \<Rightarrow> u8 list list \<Rightarrow> nat \<Rightarrow> nat" where
  "file_offset fs ps k = sum_list (map (file_size fs) (take k ps))"

definition file_entry :: "files \<Rightarrow> u8 list list \<Rightarrow> nat \<Rightarrow> nat \<Rightarrow> InitRD_Entry" where
  "file_entry fs ps off k =
     (let name = mkinitrd_filename (ps ! k) in
      \<lparr>ent_filename = name @ replicate (INITRD_FILENAME_MAXLENGTH + 1 - length name) 0,
       ent_size = of_nat (file_size fs (ps ! k)), ent_offset = of_nat (off + file_offset fs ps k)\<rparr>)"

text \<open>The k-th file can be packed: it opens, has a size, and its name and offset fit.\<close>

definition packable :: "files \<Rightarrow> u8 list list \<Rightarrow> nat \<Rightarrow> nat \<Rightarrow> bool" where
  "packable fs ps off k \<longleftrightarrow> fs (ps ! k) \<noteq> None \<and> 0 < file_size fs (ps ! k) \<and> file_size fs (ps ! k) < 2 ^ 32 \<and>
     length (mkinitrd_filename (ps ! k)) \<le> INITRD_FILENAME_MAXLENGTH \<and> off + file_offset fs ps k < 2 ^ 32"

lemma file_offset_Cons [simp]:
  "file_offset fs (p # ps) 0 = 0" "file_offset fs (p # ps) (Suc k) = file_size fs p + file_offset fs ps k"
  by (simp_all add: file_offset_def)

lemma all_Suc: "(\<forall>k < Suc n. P k) \<longleftrightarrow> P 0 \<and> (\<forall>k < n. P (Suc k))"
  by (auto simp: less_Suc_eq_0_disj)

lemma file_entry_Cons [simp]:
  "file_entry fs (p # ps) off (Suc k) = file_entry fs ps (off + file_size fs p) k"
  by (simp add: file_entry_def add.assoc)

lemma packable_Cons [simp]:
  "packable fs (p # ps) off (Suc k) \<longleftrightarrow> packable fs ps (off + file_size fs p) k"
  by (simp add: packable_def add.assoc)

lemma filesize_of:
  "mkinitrd_filesize c = (if length c < 2 ^ 32 then of_nat (length c) else 0)"
  "unat (mkinitrd_filesize c) = (if length c < 2 ^ 32 then length c else 0)"
  "mkinitrd_filesize c = 0 \<longleftrightarrow> \<not> (0 < length c \<and> length c < 2 ^ 32)"
proof -
  show eq: "mkinitrd_filesize c = (if length c < 2 ^ 32 then of_nat (length c) else 0)"
    by (auto simp: mkinitrd_filesize_def)
  show un: "unat (mkinitrd_filesize c) = (if length c < 2 ^ 32 then length c else 0)"
    by (simp add: eq unat_of_nat)
  have "mkinitrd_filesize c = 0 \<longleftrightarrow> unat (mkinitrd_filesize c) = 0" by (simp only: unat_eq_0)
  then show "mkinitrd_filesize c = 0 \<longleftrightarrow> \<not> (0 < length c \<and> length c < 2 ^ 32)" by (auto simp: un)
qed

lemma bind_Inr:
  "Option.bind x (\<lambda>r. case r of Inl e \<Rightarrow> Some (Inl e) | Inr es \<Rightarrow> Some (Inr (y # es))) = Some (Inr zs) \<longleftrightarrow>
     (\<exists>es. x = Some (Inr es) \<and> zs = y # es)"
  by (cases x) (auto split: sum.splits)

text \<open>The loop over the files gives the entries exactly if all files can be packed under new names.\<close>

lemma mk_entries_iff:
  "unat off < 2 ^ 40 \<Longrightarrow>
   mk_entries fs ps names off = Some (Inr es) \<longleftrightarrow>
     es = map (file_entry fs ps (unat off)) [0..<length ps] \<and>
     distinct (map mkinitrd_filename ps) \<and> set names \<inter> set (map mkinitrd_filename ps) = {} \<and>
     (\<forall>k < length ps. packable fs ps (unat off) k)"
proof (induction ps arbitrary: names off es)
  case (Cons p ps)
  let ?name = "mkinitrd_filename p"
  show ?case
  proof (cases "?name \<notin> set names \<and> packable fs (p # ps) (unat off) 0")
    case False
    then have "mk_entries fs (p # ps) names off \<noteq> Some (Inr es)"
      by (auto simp: Let_def packable_def file_size_def filesize_of(3) word_less_nat_alt split: option.splits)
    moreover have "\<not> (set names \<inter> set (map mkinitrd_filename (p # ps)) = {} \<and> packable fs (p # ps) (unat off) 0)"
      using False by auto
    ultimately show ?thesis by (auto simp: all_Suc)
  next
    case True
    then obtain c where c: "fs p = Some c" "0 < length c" "length c < 2 ^ 32" "length ?name \<le> INITRD_FILENAME_MAXLENGTH"
      and off: "unat off < 2 ^ 32" by (auto simp: packable_def file_size_def)
    have sz: "mkinitrd_filesize c \<noteq> 0" "unat (mkinitrd_filesize c) = length c" "file_size fs p = length c"
      using c filesize_of(2,3) [of c] by (simp_all add: file_size_def)
    have next_off: "unat (off + ucast (mkinitrd_filesize c)) = unat off + file_size fs p"
      using off c sz by (simp add: unat_word_ariths unsigned_ucast_eq take_bit_eq_mod)
    have e: "\<lparr>ent_filename = ?name @ replicate (INITRD_FILENAME_MAXLENGTH + 1 - length ?name) 0,
        ent_size = mkinitrd_filesize c, ent_offset = ucast off\<rparr> = file_entry fs (p # ps) (unat off) 0"
      using c sz by (simp add: file_entry_def Let_def filesize_of(1) of_nat_unat)
    have small: "\<not> 0xFFFFFFFF < off" using off by (simp add: word_less_nat_alt)
    have IH: "mk_entries fs ps (names @ [?name]) (off + ucast (mkinitrd_filesize c)) = Some (Inr es') \<longleftrightarrow>
        es' = map (file_entry fs ps (unat off + file_size fs p)) [0..<length ps] \<and> distinct (map mkinitrd_filename ps) \<and>
        set (names @ [?name]) \<inter> set (map mkinitrd_filename ps) = {} \<and>
        (\<forall>k < length ps. packable fs ps (unat off + file_size fs p) k)" for es'
      using Cons.IH [of "off + ucast (mkinitrd_filesize c)" "names @ [?name]" es'] off c sz by (simp add: next_off)
    have "mk_entries fs (p # ps) names off = Some (Inr es) \<longleftrightarrow>
        (\<exists>es'. mk_entries fs ps (names @ [?name]) (off + ucast (mkinitrd_filesize c)) = Some (Inr es') \<and>
           es = file_entry fs (p # ps) (unat off) 0 # es')"
      using True c sz small by (simp add: Let_def e [simplified] bind_Inr)
    moreover have "map (file_entry fs (p # ps) (unat off)) [0..<length (p # ps)] =
        file_entry fs (p # ps) (unat off) 0 # map (file_entry fs ps (unat off + file_size fs p)) [0..<length ps]"
      by (simp add: upt_conv_Cons del: upt_Suc) (simp add: map_Suc_upt [symmetric] del: upt_Suc)
    ultimately show ?thesis using True by (auto simp: IH all_Suc)
  qed
qed auto

lemma copy_file_eq: "copy_file c out = out @ c"
  by (induction c out rule: copy_file.induct) (subst copy_file.simps, auto)

lemma copy_files_eq:
  "\<forall>p \<in> set ps. fs p \<noteq> None \<Longrightarrow> copy_files fs ps out = out @ concat (map (\<lambda>p. the (fs p)) ps)"
  by (induction ps arbitrary: out) (auto simp: copy_file_eq)


section \<open>Reading the RAM disk\<close>

lemma entry_length: "length (ent_filename e) = INITRD_FILENAME_MAXLENGTH + 1 \<Longrightarrow> length (entry_bytes e) = sizeof_entry"
  by (simp add: entry_bytes_def sizeof_entry_def)

lemma header_length: "length (header_bytes h) = sizeof_header"
  by (simp add: header_bytes_def sizeof_header_def)

lemma loaded_entry:
  assumes "loaded m e (entry_bytes E)" "length (ent_filename E) = INITRD_FILENAME_MAXLENGTH + 1"
  shows "loaded m e (ent_filename E)" "rd32 m (e + 256) = ent_size E" "rd32 m (e + 260) = ent_offset E"
  using assms loaded_rd32 by (auto simp: entry_bytes_def loaded_append INITRD_FILENAME_MAXLENGTH_def add.assoc)

lemma loaded_concat:
  "loaded m a (concat xss) \<Longrightarrow> k < length xss \<Longrightarrow> loaded m (a + length (concat (take k xss))) (xss ! k)"
proof (induction xss arbitrary: a k)
  case (Cons xs xss)
  then show ?case by (cases k) (auto simp: loaded_append add.assoc [symmetric])
qed simp

lemma concat_same_length: "\<forall>x \<in> set xss. length x = n \<Longrightarrow> length (concat xss) = n * length xss"
  by (induction xss) simp_all

lemma first_offset:
  assumes "n < 2 ^ 31"
  shows "unat (of_nat sizeof_header + of_nat sizeof_entry * of_nat n :: u64) = sizeof_header + sizeof_entry * n"
    "sizeof_header + sizeof_entry * n < 2 ^ 40"
proof -
  show small: "sizeof_header + sizeof_entry * n < 2 ^ 40"
    using assms by (simp add: sizeof_entry_def INITRD_FILENAME_MAXLENGTH_def sizeof_header_def)
  have "unat (of_nat sizeof_header + of_nat sizeof_entry * of_nat n :: u64) = unat (of_nat (sizeof_header + sizeof_entry * n) :: u64)"
    by simp
  also have "\<dots> = sizeof_header + sizeof_entry * n"
    using small by (simp only: unat_of_nat) simp
  finally show "unat (of_nat sizeof_header + of_nat sizeof_entry * of_nat n :: u64) = sizeof_header + sizeof_entry * n" .
qed

lemma mkinitrd_success:
  assumes run: "mkinitrd b1 b2 cw fs argv = Some (ExitSuccess, Some img)"
    and parse: "mk_parse argv \<lparr>mk_output = None, mk_verbose = False, mk_filepaths = []\<rparr> = Some args"
    and out: "mk_output args = Some out"
  obtains es where
    "mk_entries (fs(out := Some [])) (mk_filepaths args) []
       (of_nat sizeof_header + of_nat sizeof_entry * of_nat (length (mk_filepaths args))) = Some (Inr es)"
    "img = copy_files (fs(out := Some [])) (mk_filepaths args)
       (header_bytes \<lparr>hd_signature = INITRD_SIGNATURE, hd_fileCount = of_nat (length (mk_filepaths args))\<rparr> @
        concat (map entry_bytes es))"
proof -
  obtain r where r: "mk_entries (fs(out := Some [])) (mk_filepaths args) []
       (of_nat sizeof_header + of_nat sizeof_entry * of_nat (length (mk_filepaths args))) = Some r"
    using run parse out by (cases b1; cases b2; cases "cw out"; cases "mk_filepaths args = []")
      (simp_all add: mkinitrd_def Let_def bind_eq_Some_conv, blast)
  show thesis
  proof (cases r)
    case (Inl e)
    then show thesis using run parse out r by (simp add: mkinitrd_def Let_def split: if_splits)
  next
    case (Inr es)
    then show thesis using run parse out r by (intro that [of es]) (simp_all add: mkinitrd_def Let_def split: if_splits)
  qed
qed

lemma mk_image:
  assumes run: "mkinitrd b1 b2 cw fs argv = Some (ExitSuccess, Some img)"
    and parse: "mk_parse argv \<lparr>mk_output = None, mk_verbose = False, mk_filepaths = []\<rparr> = Some args"
    and len: "length (mk_filepaths args) < 2 ^ 31"
  defines "ps \<equiv> mk_filepaths args" and "off \<equiv> sizeof_header + sizeof_entry * length (mk_filepaths args)"
  shows "img = header_bytes \<lparr>hd_signature = INITRD_SIGNATURE, hd_fileCount = of_nat (length ps)\<rparr> @
      concat (map entry_bytes (map (file_entry fs ps off) [0..<length ps])) @ concat (map (\<lambda>p. the (fs p)) ps) \<and>
    distinct (map mkinitrd_filename ps) \<and> (\<forall>k < length ps. packable fs ps off k)"
proof -
  obtain out where out: "mk_output args = Some out" using run parse by (auto simp: mkinitrd_def split: if_splits option.splits)
  define fs1 where "fs1 = fs(out := Some [])"
  let ?off = "of_nat sizeof_header + of_nat sizeof_entry * of_nat (length ps) :: u64"
  have off: "unat ?off = off" "unat ?off < 2 ^ 40"
    using first_offset [OF len] by (simp_all add: off_def ps_def)
  obtain es where es: "mk_entries fs1 ps [] ?off = Some (Inr es)"
    and img: "img = copy_files fs1 ps (header_bytes \<lparr>hd_signature = INITRD_SIGNATURE, hd_fileCount = of_nat (length ps)\<rparr> @ concat (map entry_bytes es))"
    using mkinitrd_success [OF run parse out] unfolding fs1_def ps_def by blast
  have all: "es = map (file_entry fs1 ps off) [0..<length ps]" "distinct (map mkinitrd_filename ps)"
    "\<forall>k < length ps. packable fs1 ps off k"
    using mk_entries_iff [OF off(2), THEN iffD1, OF es] unfolding off(1) by - (elim conjE, assumption)+
  have same: "fs1 p = fs p" if member: "p \<in> set ps" for p
  proof -
    obtain k where "k < length ps" "p = ps ! k" using member by (auto simp: in_set_conv_nth)
    then have "fs1 p \<noteq> Some []" using all(3) by (auto simp: packable_def file_size_def)
    then show ?thesis by (auto simp: fs1_def)
  qed
  have size: "map (file_size fs1) (take k ps) = map (file_size fs) (take k ps)" for k
    using same by (auto simp: file_size_def dest: in_set_takeD)
  have offset: "file_offset fs1 ps k = file_offset fs ps k" for k by (simp only: file_offset_def size)
  have entry: "file_entry fs1 ps off k = file_entry fs ps off k" "packable fs1 ps off k = packable fs ps off k" if "k < length ps" for k
    using same [OF nth_mem [OF that]] by (simp_all add: file_entry_def packable_def offset file_size_def)
  have "copy_files fs1 ps o1 = o1 @ concat (map (\<lambda>p. the (fs p)) ps)" for o1
  proof -
    have "\<forall>p \<in> set ps. fs1 p \<noteq> None" using all(3) by (auto simp: packable_def in_set_conv_nth)
    then show ?thesis using same by (simp add: copy_files_eq cong: map_cong)
  qed
  moreover have "map (file_entry fs1 ps off) [0..<length ps] = map (file_entry fs ps off) [0..<length ps]"
    using entry(1) by simp
  ultimately show ?thesis using all(2,3) entry(2) unfolding img all(1) by (simp only: append_assoc) blast
qed

text \<open>The image of some files in memory, and what the accessors of an entry in it return.\<close>

definition image_parts :: "bytes \<Rightarrow> nat \<Rightarrow> (u8 list \<Rightarrow> u8 list option) \<Rightarrow> u8 list list \<Rightarrow> bool" where
  "image_parts m a fs ps \<longleftrightarrow>
     loaded m (a + sizeof_header)
       (concat (map entry_bytes (map (file_entry fs ps (sizeof_header + sizeof_entry * length ps)) [0..<length ps]))) \<and>
     loaded m (a + (sizeof_header + sizeof_entry * length ps)) (concat (map (\<lambda>p. the (fs p)) ps)) \<and>
     (\<forall>k < length ps. packable fs ps (sizeof_header + sizeof_entry * length ps) k)"

lemma image_entry_bytes:
  assumes "\<forall>k < length ps. packable fs ps off k"
  shows "\<forall>x \<in> set (map entry_bytes (map (file_entry fs ps off) [0..<length ps])). length x = sizeof_entry"
proof -
  have "length (entry_bytes (file_entry fs ps off k)) = sizeof_entry" if "k < length ps" for k
  proof -
    have "packable fs ps off k" using assms that by blast
    then show ?thesis by (intro entry_length) (simp add: packable_def file_entry_def Let_def)
  qed
  then show ?thesis by auto
qed

lemma image_entry:
  assumes "image_parts m a fs ps" "k < length ps" "0 < a" "0 \<notin> set (ps ! k)"
  shows "let p = ps ! k; content = the (fs p); e = a + sizeof_header + sizeof_entry * k in
    cstr m (InitRD_EntryGetFilename e) (mkinitrd_filename p) \<and> unat (InitRD_EntryGetSize m e) = length content \<and>
    loaded m (a + unat (InitRD_EntryGetOffset m e)) content"
proof -
  define off where "off = sizeof_header + sizeof_entry * length ps"
  define ents where "ents = map entry_bytes (map (file_entry fs ps off) [0..<length ps])"
  have parts: "loaded m (a + sizeof_header) (concat ents)" "loaded m (a + off) (concat (map (\<lambda>p. the (fs p)) ps))"
    and pack: "\<forall>k < length ps. packable fs ps off k"
    using assms(1) by (simp_all add: image_parts_def ents_def off_def)
  let ?e = "a + sizeof_header + sizeof_entry * k" and ?E = "file_entry fs ps off k"
  have nm: "length (mkinitrd_filename (ps ! k)) \<le> INITRD_FILENAME_MAXLENGTH" and fit: "off + file_offset fs ps k < 2 ^ 32"
    and sz: "file_size fs (ps ! k) < 2 ^ 32" using pack assms(2) by (simp_all add: packable_def)
  have "length (concat (take k ents)) = sizeof_entry * k"
    using image_entry_bytes [OF pack, folded ents_def] assms(2) set_take_subset [of k ents]
    by (subst concat_same_length) (blast, simp add: ents_def)
  then have "loaded m ?e (entry_bytes ?E)" using loaded_concat [OF parts(1), of k] assms(2) by (simp add: ents_def)
  note entry = loaded_entry [OF this]
  have bytes: "loaded m ?e (ent_filename ?E)" and rds: "rd32 m (?e + 256) = ent_size ?E" "rd32 m (?e + 260) = ent_offset ?E"
    using entry nm by (simp_all add: file_entry_def Let_def)
  have "0 \<notin> set (mkinitrd_filename (ps ! k))"
    using assms(4) by (auto simp: mkinitrd_filename_def dest!: set_takeWhileD split: if_splits)
  then have "cstr m ?e (mkinitrd_filename (ps ! k))"
    using bytes nm by (intro loaded_cstr [where n = "INITRD_FILENAME_MAXLENGTH + 1 - length (mkinitrd_filename (ps ! k))"])
      (simp_all add: file_entry_def Let_def)
  moreover have "unat (rd32 m (?e + 256)) = file_size fs (ps ! k)" "unat (rd32 m (?e + 260)) = off + file_offset fs ps k"
    using fit sz unfolding rds by (simp_all add: file_entry_def Let_def unat_of_nat del: of_nat_add)
  moreover have "loaded m (a + off + file_offset fs ps k) (the (fs (ps ! k)))"
    using loaded_concat [OF parts(2), of k] assms(2)
    by (simp add: file_offset_def file_size_def [abs_def] length_concat take_map comp_def)
  ultimately show ?thesis using assms(3)
    by (simp add: Let_def InitRD_EntryGetFilename_def InitRD_EntryGetSize_def InitRD_EntryGetOffset_def file_size_def add.assoc)
qed

text \<open>
  C21. A RAM disk that the tool has packed is valid for the kernel, with as many entries as there are
  files.  The entry of each file has its name without the directories and its size, the contents of
  the file are at its offset, and no two entries have the same name.
\<close>

theorem initrd_roundtrip:
  assumes run: "mkinitrd b1 b2 cw fs argv = Some (ExitSuccess, Some img)"
    and parse: "mk_parse argv \<lparr>mk_output = None, mk_verbose = False, mk_filepaths = []\<rparr> = Some args"
    and len: "length (mk_filepaths args) < 2 ^ 31" and chars: "\<forall>p \<in> set (mk_filepaths args). 0 \<notin> set p"
    and load: "loaded m a img" "0 < a"
  shows "InitRDIsValid m a \<and> unat (InitRDGetEntryCount m a) = length (mk_filepaths args) \<and>
    distinct (map mkinitrd_filename (mk_filepaths args)) \<and>
    (\<forall>k < length (mk_filepaths args).
       let p = mk_filepaths args ! k; content = the (fs p); e = a + sizeof_header + sizeof_entry * k in
       cstr m (InitRD_EntryGetFilename e) (mkinitrd_filename p) \<and>
       unat (InitRD_EntryGetSize m e) = length content \<and>
       loaded m (a + unat (InitRD_EntryGetOffset m e)) content)"
proof -
  define ps where "ps = mk_filepaths args"
  define off where "off = sizeof_header + sizeof_entry * length ps"
  define h where "h = \<lparr>hd_signature = INITRD_SIGNATURE, hd_fileCount = of_nat (length ps)\<rparr>"
  define ents where "ents = map entry_bytes (map (file_entry fs ps off) [0..<length ps])"
  note image = mk_image [OF run parse len, folded ps_def, folded off_def h_def ents_def]
  have pack: "\<forall>k < length ps. packable fs ps off k" using image by blast
  have parts: "loaded m a (header_bytes h)" "image_parts m a fs ps"
    using load(1) image concat_same_length [OF image_entry_bytes [OF pack]] pack
    by (simp_all add: loaded_append header_length off_def ents_def add.assoc image_parts_def)
  have "rd32 m a = INITRD_SIGNATURE" "rd32 m (a + 4) = of_nat (length ps)"
    using parts(1) loaded_rd32 by (auto simp: h_def header_bytes_def loaded_append)
  then show ?thesis
    using image load(2) len image_entry [OF parts(2) _ load(2)] chars unfolding ps_def
    by (auto simp: InitRDIsValid_def InitRDGetSignature_def InitRDGetEntryCount_def unat_of_nat)
qed

text \<open>The tool packs whatever can be packed.\<close>

lemma mkinitrd_packs:
  assumes parse: "mk_parse argv \<lparr>mk_output = None, mk_verbose = False, mk_filepaths = []\<rparr> = Some args"
    and out: "mk_output args = Some out" "cw out" and "ps = mk_filepaths args" "ps \<noteq> []" "length ps < 2 ^ 31"
    and names: "distinct (map mkinitrd_filename ps)"
    and files: "\<forall>k < length ps. packable (fs(out := Some [])) ps (sizeof_header + sizeof_entry * length ps) k"
  shows "\<exists>img. mkinitrd True True cw fs argv = Some (ExitSuccess, Some img)"
proof -
  let ?off = "of_nat sizeof_header + of_nat sizeof_entry * of_nat (length ps) :: u64"
  note off = first_offset [OF assms(6)]
  have "unat ?off < 2 ^ 40" using off by simp
  from mk_entries_iff [OF this, THEN iffD2] obtain es where "mk_entries (fs(out := Some [])) ps [] ?off = Some (Inr es)"
    using names files unfolding off(1) by simp
  then show ?thesis using parse out assms(4,5) by (simp add: mkinitrd_def Let_def)
qed


section \<open>A run\<close>

text \<open>Two files are packed: x, and d/y, whose name in the RAM disk is y.\<close>

definition two_files :: files where
  "two_files p = (if p = [0x78] then Some [1, 2, 3] else if p = [0x64, 0x2F, 0x79] then Some [4] else None)"

definition two_args :: "u8 list list" where
  "two_args = [[0x2D, 0x6F], [0x6F], [0x78], [0x64, 0x2F, 0x79]]"

definition two_image :: "u8 list" where
  "two_image = (case mkinitrd True True (\<lambda>p. True) two_files two_args of Some (_, Some img) \<Rightarrow> img | _ \<Rightarrow> [])"

lemma two_parse: "mk_parse two_args \<lparr>mk_output = None, mk_verbose = False, mk_filepaths = []\<rparr> =
    Some \<lparr>mk_output = Some [0x6F], mk_verbose = False, mk_filepaths = [[0x78], [0x64, 0x2F, 0x79]]\<rparr>"
  by (simp add: two_args_def)

lemma two_run: "mkinitrd True True (\<lambda>p. True) two_files two_args = Some (ExitSuccess, Some two_image)"
proof -
  have "\<exists>img. mkinitrd True True (\<lambda>p. True) two_files two_args = Some (ExitSuccess, Some img)"
    by (rule mkinitrd_packs [OF two_parse, where out = "[0x6F]", OF _ _ refl])
      (simp_all add: mkinitrd_filename_def packable_def two_files_def file_size_def file_offset_def
        INITRD_FILENAME_MAXLENGTH_def sizeof_header_def sizeof_entry_def all_Suc)
  then show ?thesis by (auto simp: two_image_def)
qed

lemma two_loaded: "loaded (\<lambda>i. two_image ! (i - 8)) 8 two_image"
  unfolding loaded_def by (rule nth_equalityI) simp_all

theorem initrd_roundtrip_witness: "InitRDIsValid (\<lambda>i. two_image ! (i - 8)) 8"
  using initrd_roundtrip [OF two_run two_parse _ _ two_loaded] by simp

end
