(* ===== verification/XEOS_Debug.thy ===== *)
theory XEOS_Debug
  imports XEOS_Base "HOL-Library.Sublist"
begin

text \<open>
  The trace of the calls in the kernel (source/core/xeos/debug), as it is compiled by clang, the
  compiler of the build.

  The compiler inserts a call of __cyg_profile_func_enter at the start of each instrumented function
  and one of __cyg_profile_func_exit at its end.  They keep the innermost calls in an array of fixed
  length.  A pointer is its unsigned value, 0 is NULL; a reference to a trace or symbol is an
  option.  The refinement relates the array to the stack of the calls.
\<close>

record Debug_Symbol =
  dbg_function :: nat
  dbg_callSite :: nat

record Debug_Trace =
  dbg_symbols :: "Debug_Symbol list"
  dbg_count :: nat
  dbg_capacity :: nat

record debug =
  KernelTrace :: Debug_Trace
  KernelTraceSymbolsInited :: bool

definition KERNEL_TRACE_MAX_LENGTH :: nat where "KERNEL_TRACE_MAX_LENGTH = 50"

definition null_symbol :: Debug_Symbol where
  "null_symbol = \<lparr>dbg_function = 0, dbg_callSite = 0\<rparr>"

definition debug_boot :: debug where
  "debug_boot = \<lparr>KernelTrace = \<lparr>dbg_symbols = replicate KERNEL_TRACE_MAX_LENGTH null_symbol, dbg_count = 0,
     dbg_capacity = KERNEL_TRACE_MAX_LENGTH\<rparr>, KernelTraceSymbolsInited = False\<rparr>"


section \<open>Entering and leaving a function\<close>

fun clear_symbols :: "nat list \<Rightarrow> Debug_Symbol list \<Rightarrow> Debug_Symbol list" where
  "clear_symbols [] xs = xs"
| "clear_symbols (i # is) xs = clear_symbols is (xs[i := null_symbol])"

fun shift_down :: "nat \<Rightarrow> nat list \<Rightarrow> Debug_Symbol list \<Rightarrow> Debug_Symbol list" where
  "shift_down cap [] xs = xs"
| "shift_down cap (i # is) xs = shift_down cap is (xs[cap - i := xs ! (cap - 1 - i)])"

fun shift_up :: "nat list \<Rightarrow> Debug_Symbol list \<Rightarrow> Debug_Symbol list" where
  "shift_up [] xs = xs"
| "shift_up (i # is) xs = shift_up is (xs[i := xs ! (i + 1)])"

definition cyg_profile_func_enter :: "nat \<Rightarrow> nat \<Rightarrow> debug \<Rightarrow> debug" where
  "cyg_profile_func_enter function caller s =
     (let t = KernelTrace s;
          cap = dbg_capacity t;
          xs1 = (if KernelTraceSymbolsInited s then dbg_symbols t else clear_symbols [0..<cap] (dbg_symbols t));
          xs2 = shift_down cap [1..<cap] xs1;
          xs3 = xs2[0 := \<lparr>dbg_function = function, dbg_callSite = caller\<rparr>];
          n = (if dbg_count t < cap then dbg_count t + 1 else dbg_count t)
      in s\<lparr>KernelTraceSymbolsInited := True, KernelTrace := t\<lparr>dbg_symbols := xs3, dbg_count := n\<rparr>\<rparr>)"

definition cyg_profile_func_exit :: "nat \<Rightarrow> nat \<Rightarrow> debug \<Rightarrow> debug" where
  "cyg_profile_func_exit function caller s =
     (let t = KernelTrace s in
      if dbg_count t = 0 \<or> \<not> KernelTraceSymbolsInited s then s
      else let cap = dbg_capacity t;
               xs1 = shift_up [0..<cap - 1] (dbg_symbols t);
               xs2 = xs1[cap - 1 := null_symbol]
           in s\<lparr>KernelTrace := t\<lparr>dbg_symbols := xs2, dbg_count := dbg_count t - 1\<rparr>\<rparr>)"


section \<open>Accessors\<close>

definition Debug_GetKernelTrace :: "debug \<Rightarrow> Debug_Trace option" where
  "Debug_GetKernelTrace s = Some (KernelTrace s)"

definition Debug_TraceGetSymbolCount :: "Debug_Trace option \<Rightarrow> nat" where
  "Debug_TraceGetSymbolCount tr = (case tr of None \<Rightarrow> 0 | Some t \<Rightarrow> dbg_count t)"

definition Debug_TraceGetSymbolAtIndex :: "Debug_Trace option \<Rightarrow> nat \<Rightarrow> Debug_Symbol option" where
  "Debug_TraceGetSymbolAtIndex tr index =
     (case tr of None \<Rightarrow> None
      | Some t \<Rightarrow> if Debug_TraceGetSymbolCount tr \<le> index then None else Some (dbg_symbols t ! index))"

definition Debug_SymbolGetFunctionAddress :: "Debug_Symbol option \<Rightarrow> nat" where
  "Debug_SymbolGetFunctionAddress symb = (case symb of None \<Rightarrow> 0 | Some x \<Rightarrow> dbg_function x)"

definition Debug_SymbolGetCallSiteAddress :: "Debug_Symbol option \<Rightarrow> nat" where
  "Debug_SymbolGetCallSiteAddress symb = (case symb of None \<Rightarrow> 0 | Some x \<Rightarrow> dbg_callSite x)"

definition Debug_SymbolGetFunctionName :: "Debug_Symbol option \<Rightarrow> string option" where
  "Debug_SymbolGetFunctionName symb = (case symb of None \<Rightarrow> None | Some x \<Rightarrow> Some ''<unknown_function>'')"

definition Debug_SymbolGetCallSiteFunctionName :: "Debug_Symbol option \<Rightarrow> string option" where
  "Debug_SymbolGetCallSiteFunctionName symb = (case symb of None \<Rightarrow> None | Some x \<Rightarrow> Some ''<unknown_function>'')"


section \<open>The loops\<close>

lemma clear_symbols_length [simp]: "length (clear_symbols is xs) = length xs"
  by (induction "is" arbitrary: xs) simp_all

lemma shift_down_length [simp]: "length (shift_down cap is xs) = length xs"
  by (induction "is" arbitrary: xs) simp_all

lemma shift_up_length [simp]: "length (shift_up is xs) = length xs"
  by (induction "is" arbitrary: xs) simp_all

lemma shift_down_append: "shift_down cap (is @ js) xs = shift_down cap js (shift_down cap is xs)"
  by (induction "is" arbitrary: xs) simp_all

lemma shift_up_append: "shift_up (is @ js) xs = shift_up js (shift_up is xs)"
  by (induction "is" arbitrary: xs) simp_all

text \<open>After n steps the last n elements are those in front of them, and the others are as before.\<close>

lemma shift_down_nth:
  assumes "length xs = cap" "0 < cap"
  shows "n < cap \<Longrightarrow> k < cap \<Longrightarrow>
    shift_down cap [1..<Suc n] xs ! k = (if cap - n \<le> k then xs ! (k - 1) else xs ! k)"
proof (induction n arbitrary: k)
  case (Suc n)
  have "[1..<Suc (Suc n)] = [1..<Suc n] @ [Suc n]" by simp
  then show ?case
    using Suc assms by (auto simp: shift_down_append nth_list_update)
qed simp

lemma shift_up_nth:
  assumes "length xs = cap"
  shows "Suc n \<le> cap \<Longrightarrow> k < cap \<Longrightarrow> shift_up [0..<n] xs ! k = (if k < n then xs ! (k + 1) else xs ! k)"
proof (induction n arbitrary: k)
  case (Suc n)
  then show ?case using assms by (auto simp: shift_up_append nth_list_update)
qed simp

lemma enter_symbols:
  assumes "length xs = cap" "0 < cap"
  shows "(shift_down cap [1..<cap] xs)[0 := x] = x # take (cap - 1) xs"
proof (rule nth_equalityI)
  obtain n where n: "cap = Suc n" using assms(2) by (cases cap) simp_all
  fix k assume "k < length ((shift_down cap [1..<cap] xs)[0 := x])"
  then have k: "k < cap" using assms(1) by simp
  show "(shift_down cap [1..<cap] xs)[0 := x] ! k = (x # take (cap - 1) xs) ! k"
  proof (cases k)
    case 0
    then show ?thesis using assms by simp
  next
    case (Suc j)
    then show ?thesis using shift_down_nth [OF assms, of n k] k n assms(1) by simp
  qed
qed (use assms in simp)

lemma exit_symbols:
  assumes "length xs = cap" "0 < cap"
  shows "(shift_up [0..<cap - 1] xs)[cap - 1 := x] = tl xs @ [x]"
proof (rule nth_equalityI)
  fix k assume "k < length ((shift_up [0..<cap - 1] xs)[cap - 1 := x])"
  then have k: "k < cap" using assms(1) by simp
  show "(shift_up [0..<cap - 1] xs)[cap - 1 := x] ! k = (tl xs @ [x]) ! k"
    using shift_up_nth [OF assms(1), of "cap - 1" k] k assms
    by (auto simp: nth_append nth_tl nth_list_update)
qed (use assms in simp)


section \<open>The stack of the calls\<close>

text \<open>The abstraction of the trace: the calls that it holds, innermost first.\<close>

definition trace_calls :: "debug \<Rightarrow> Debug_Symbol list" where
  "trace_calls s = take (dbg_count (KernelTrace s)) (dbg_symbols (KernelTrace s))"

definition trace_ok :: "debug \<Rightarrow> bool" where
  "trace_ok s \<longleftrightarrow> dbg_capacity (KernelTrace s) = KERNEL_TRACE_MAX_LENGTH \<and>
     length (dbg_symbols (KernelTrace s)) = KERNEL_TRACE_MAX_LENGTH \<and>
     dbg_count (KernelTrace s) \<le> KERNEL_TRACE_MAX_LENGTH \<and>
     (KernelTraceSymbolsInited s \<or> dbg_count (KernelTrace s) = 0)"

lemma trace_boot: "trace_ok debug_boot" "trace_calls debug_boot = []"
  by (simp_all add: trace_ok_def trace_calls_def debug_boot_def)

lemma trace_enter:
  assumes "trace_ok s"
  shows "trace_ok (cyg_profile_func_enter f c s)"
    "trace_calls (cyg_profile_func_enter f c s) =
       take KERNEL_TRACE_MAX_LENGTH (\<lparr>dbg_function = f, dbg_callSite = c\<rparr> # trace_calls s)"
proof -
  let ?K = KERNEL_TRACE_MAX_LENGTH
  define xs where "xs = (if KernelTraceSymbolsInited s then dbg_symbols (KernelTrace s)
     else clear_symbols [0..<?K] (dbg_symbols (KernelTrace s)))"
  have len: "length xs = ?K" using assms by (simp add: xs_def trace_ok_def)
  have pos: "0 < ?K" by (simp add: KERNEL_TRACE_MAX_LENGTH_def)
  note syms = enter_symbols [OF len pos, of "\<lparr>dbg_function = f, dbg_callSite = c\<rparr>"]
  have same: "take (dbg_count (KernelTrace s)) xs = trace_calls s"
    using assms by (auto simp: xs_def trace_calls_def trace_ok_def)
  let ?t = "KernelTrace (cyg_profile_func_enter f c s)"
  have new: "dbg_symbols ?t = \<lparr>dbg_function = f, dbg_callSite = c\<rparr> # take (?K - 1) xs"
    "dbg_count ?t = min ?K (Suc (dbg_count (KernelTrace s)))"
    using assms syms unfolding xs_def by (auto simp: trace_ok_def cyg_profile_func_enter_def Let_def)
  show "trace_ok (cyg_profile_func_enter f c s)"
    using assms len by (auto simp: trace_ok_def cyg_profile_func_enter_def Let_def)
  show "trace_calls (cyg_profile_func_enter f c s) =
       take ?K (\<lparr>dbg_function = f, dbg_callSite = c\<rparr> # trace_calls s)"
    using pos unfolding same [symmetric] trace_calls_def [of "cyg_profile_func_enter f c s"] new
    by (simp add: KERNEL_TRACE_MAX_LENGTH_def take_Cons' min_def)
qed

lemma trace_exit:
  assumes "trace_ok s"
  shows "trace_ok (cyg_profile_func_exit f c s)"
    "trace_calls (cyg_profile_func_exit f c s) = tl (trace_calls s)"
proof -
  let ?K = KERNEL_TRACE_MAX_LENGTH and ?xs = "dbg_symbols (KernelTrace s)"
  have len: "length ?xs = ?K" using assms by (simp add: trace_ok_def)
  have pos: "0 < ?K" by (simp add: KERNEL_TRACE_MAX_LENGTH_def)
  note syms = exit_symbols [OF len pos, of null_symbol]
  show "trace_ok (cyg_profile_func_exit f c s)"
    using assms by (auto simp: trace_ok_def cyg_profile_func_exit_def Let_def)
  show "trace_calls (cyg_profile_func_exit f c s) = tl (trace_calls s)"
    using assms syms len pos
    by (auto simp: trace_calls_def trace_ok_def cyg_profile_func_exit_def Let_def tl_take)
qed

text \<open>The calls of a run of the kernel: the stack, and the trace that the two functions keep.\<close>

datatype call_event = Enter nat nat | Leave nat nat

fun stack_step :: "call_event \<Rightarrow> Debug_Symbol list \<Rightarrow> Debug_Symbol list" where
  "stack_step (Enter f c) st = \<lparr>dbg_function = f, dbg_callSite = c\<rparr> # st"
| "stack_step (Leave f c) st = tl st"

fun trace_step :: "call_event \<Rightarrow> debug \<Rightarrow> debug" where
  "trace_step (Enter f c) s = cyg_profile_func_enter f c s"
| "trace_step (Leave f c) s = cyg_profile_func_exit f c s"

abbreviation call_stack :: "call_event list \<Rightarrow> Debug_Symbol list" where
  "call_stack es \<equiv> fold stack_step es []"

abbreviation call_trace :: "call_event list \<Rightarrow> debug" where
  "call_trace es \<equiv> fold trace_step es debug_boot"

lemma trace_ok_step: "trace_ok s \<Longrightarrow> trace_ok (trace_step e s)"
  by (cases e) (simp_all add: trace_enter trace_exit)

lemma trace_ok_run: "trace_ok (call_trace es)"
  by (induction es rule: rev_induct) (simp_all add: trace_boot trace_ok_step)

lemma trace_calls_step:
  "trace_ok s \<Longrightarrow> trace_calls (trace_step e s) = take KERNEL_TRACE_MAX_LENGTH (stack_step e (trace_calls s))"
proof (cases e)
  case (Leave f c)
  assume ok: "trace_ok s"
  have "length (tl (trace_calls s)) \<le> KERNEL_TRACE_MAX_LENGTH"
    using ok by (auto simp: trace_calls_def trace_ok_def)
  then show ?thesis using Leave ok by (simp add: trace_exit)
qed (simp add: trace_enter)

lemma prefix_step: "prefix xs ys \<Longrightarrow> prefix (take n (stack_step e xs)) (stack_step e ys)"
proof -
  assume xy: "prefix xs ys"
  have "prefix (stack_step e xs) (stack_step e ys)"
    using xy by (cases e) (auto simp: prefix_def tl_append split: list.splits)
  then show ?thesis using take_is_prefix prefix_order.trans by blast
qed

text \<open>
  C25. In every run of the kernel the trace holds the innermost calls of the stack, at most 50 of
  them, and exactly the stack as long as it was never deeper than 50.  The symbol at an index is the
  call at this depth, and NULL from the number of symbols on.
\<close>

theorem kernel_trace_stack:
  "prefix (trace_calls (call_trace es)) (call_stack es) \<and>
   length (trace_calls (call_trace es)) \<le> KERNEL_TRACE_MAX_LENGTH \<and>
   ((\<forall>n. length (call_stack (take n es)) \<le> KERNEL_TRACE_MAX_LENGTH) \<longrightarrow> trace_calls (call_trace es) = call_stack es) \<and>
   Debug_TraceGetSymbolAtIndex (Debug_GetKernelTrace (call_trace es)) i =
     (if i < length (trace_calls (call_trace es)) then Some (call_stack es ! i) else None)"
proof -
  let ?K = KERNEL_TRACE_MAX_LENGTH
  have inv: "trace_ok (call_trace es) \<and> prefix (trace_calls (call_trace es)) (call_stack es)"
  proof (induction es rule: rev_induct)
    case (snoc e es)
    then show ?case using prefix_step by (simp add: trace_ok_step trace_calls_step)
  qed (simp add: trace_boot)
  have len: "length (trace_calls (call_trace es)) = dbg_count (KernelTrace (call_trace es))"
    using inv by (simp add: trace_calls_def trace_ok_def)
  have exact: "trace_calls (call_trace es) = call_stack es"
    if "\<forall>n. length (call_stack (take n es)) \<le> ?K" for es
    using that
  proof (induction es rule: rev_induct)
    case (snoc e es)
    have "length (call_stack (take n es)) \<le> ?K" for n
      using snoc.prems [rule_format, of "min n (length es)"] by (simp add: min_def split: if_splits)
    with snoc.IH have "trace_calls (call_trace es) = call_stack es" by simp
    then show ?case
      using snoc.prems [rule_format, of "Suc (length es)"] by (simp add: trace_calls_step [OF trace_ok_run])
  qed (simp add: trace_boot)
  have nth: "trace_calls (call_trace es) ! i = call_stack es ! i" if "i < length (trace_calls (call_trace es))"
    using inv that by (auto simp: prefix_def nth_append)
  have "dbg_symbols (KernelTrace (call_trace es)) ! i = call_stack es ! i" if "i < dbg_count (KernelTrace (call_trace es))"
    using nth that len by (simp add: trace_calls_def)
  then show ?thesis
    using inv exact [of es] len
    by (auto simp: Debug_TraceGetSymbolAtIndex_def Debug_GetKernelTrace_def Debug_TraceGetSymbolCount_def trace_ok_def)
qed

theorem kernel_trace_stack_witness:
  "trace_calls (call_trace [Enter 16 1, Enter 32 2, Leave 32 2]) = [\<lparr>dbg_function = 16, dbg_callSite = 1\<rparr>]"
proof -
  let ?es = "[Enter 16 1, Enter 32 2, Leave 32 2]"
  have "length (call_stack (take n ?es)) \<le> KERNEL_TRACE_MAX_LENGTH" for n
    by (auto simp: take_Cons' KERNEL_TRACE_MAX_LENGTH_def)
  then show ?thesis using kernel_trace_stack [of ?es 0] by simp
qed

end
