(* ===== verification/XEOS_CPUID.thy ===== *)
theory XEOS_CPUID
  imports XEOS_Images
begin

text \<open>
  The identification of the processor (source/core/xeos/hal/cpu): the vendor, the brand name and the
  features, which are read with the instruction cpuid once and kept in static variables.

  The instruction is a parameter: it gives the registers eax, ebx, ecx and edx for a leaf.  The
  arrays of the vendor and of the brand name are in memory, at the addresses vendor and brand.  A
  memcpy from a register variable to an array is a store of four bytes.
\<close>

section \<open>Data\<close>

type_synonym cpuid = "u32 \<Rightarrow> u32 \<times> u32 \<times> u32 \<times> u32"

record cpu_info =
  ci_mem :: bytes
  ci_HasVendorID :: bool
  ci_HasBrandName :: bool
  ci_HasFeatures :: bool
  ci_FeatureLow :: u32
  ci_FeatureHigh :: u32

definition cpu_info_boot :: cpu_info where
  "cpu_info_boot = \<lparr>ci_mem = (\<lambda>_. 0), ci_HasVendorID = False, ci_HasBrandName = False, ci_HasFeatures = False,
     ci_FeatureLow = 0, ci_FeatureHigh = 0\<rparr>"

datatype (plugins only:) CPU_Feature =
    FeatureFPU | FeatureVME | FeatureDE | FeaturePSE | FeatureTSC | FeatureMSR | FeaturePAE
    | FeatureMCE | FeatureCX8 | FeatureAPIC | FeatureSEP | FeatureMTRR | FeaturePGE | FeatureMCA
    | FeatureCMOV | FeaturePAT | FeaturePSE36 | FeaturePN | FeatureCLFlush | FeatureDTS
    | FeatureACPI | FeatureMMX | FeatureFXSR | FeatureSSE | FeatureSSE2 | FeatureSS | FeatureHT
    | FeatureTM | FeatureIA64 | FeaturePBE | FeaturePNI | FeaturePCLMulQDQ | FeatureDTES64
    | FeatureMonitor | FeatureDSCPL | FeatureVMX | FeatureSMX | FeatureEST | FeatureTM2
    | FeatureSSSE3 | FeatureCID | FeatureFMA | FeatureCX16 | FeatureXTPT | FeaturePDCM
    | FeaturePCID | FeatureDCA | FeatureSSE41 | FeatureSSE42 | FeatureX2APIC | FeatureMOVBE
    | FeaturePOPCNT | FeatureTSCDeadLine | FeatureAES | FeatureXSave | FeatureOSXSave | FeatureAVX
    | FeatureF16C | FeatureRDRND | FeatureHypervisor

fun feature_value :: "CPU_Feature \<Rightarrow> u32" where
  "feature_value FeatureFPU = 0x000" | "feature_value FeatureVME = 0x001"
| "feature_value FeatureDE = 0x002" | "feature_value FeaturePSE = 0x003"
| "feature_value FeatureTSC = 0x004" | "feature_value FeatureMSR = 0x005"
| "feature_value FeaturePAE = 0x006" | "feature_value FeatureMCE = 0x007"
| "feature_value FeatureCX8 = 0x008" | "feature_value FeatureAPIC = 0x009"
| "feature_value FeatureSEP = 0x00B" | "feature_value FeatureMTRR = 0x00C"
| "feature_value FeaturePGE = 0x00D" | "feature_value FeatureMCA = 0x00E"
| "feature_value FeatureCMOV = 0x00F" | "feature_value FeaturePAT = 0x010"
| "feature_value FeaturePSE36 = 0x011" | "feature_value FeaturePN = 0x012"
| "feature_value FeatureCLFlush = 0x013" | "feature_value FeatureDTS = 0x015"
| "feature_value FeatureACPI = 0x016" | "feature_value FeatureMMX = 0x017"
| "feature_value FeatureFXSR = 0x018" | "feature_value FeatureSSE = 0x019"
| "feature_value FeatureSSE2 = 0x01A" | "feature_value FeatureSS = 0x01B"
| "feature_value FeatureHT = 0x01C" | "feature_value FeatureTM = 0x01D"
| "feature_value FeatureIA64 = 0x01E" | "feature_value FeaturePBE = 0x01F"
| "feature_value FeaturePNI = 0x100" | "feature_value FeaturePCLMulQDQ = 0x101"
| "feature_value FeatureDTES64 = 0x102" | "feature_value FeatureMonitor = 0x103"
| "feature_value FeatureDSCPL = 0x104" | "feature_value FeatureVMX = 0x105"
| "feature_value FeatureSMX = 0x106" | "feature_value FeatureEST = 0x107"
| "feature_value FeatureTM2 = 0x108" | "feature_value FeatureSSSE3 = 0x109"
| "feature_value FeatureCID = 0x10A" | "feature_value FeatureFMA = 0x10C"
| "feature_value FeatureCX16 = 0x10D" | "feature_value FeatureXTPT = 0x10E"
| "feature_value FeaturePDCM = 0x10F" | "feature_value FeaturePCID = 0x111"
| "feature_value FeatureDCA = 0x112" | "feature_value FeatureSSE41 = 0x113"
| "feature_value FeatureSSE42 = 0x114" | "feature_value FeatureX2APIC = 0x115"
| "feature_value FeatureMOVBE = 0x116" | "feature_value FeaturePOPCNT = 0x117"
| "feature_value FeatureTSCDeadLine = 0x118" | "feature_value FeatureAES = 0x119"
| "feature_value FeatureXSave = 0x11A" | "feature_value FeatureOSXSave = 0x11B"
| "feature_value FeatureAVX = 0x11C" | "feature_value FeatureF16C = 0x11D"
| "feature_value FeatureRDRND = 0x11E" | "feature_value FeatureHypervisor = 0x11F"


section \<open>Operations\<close>

definition CPU_CPUID :: "cpuid \<Rightarrow> u32 \<Rightarrow> u32 \<times> u32 \<times> u32 \<times> u32" where
  "CPU_CPUID cpuid info = cpuid info"

definition CPU_GetVendorID :: "nat \<Rightarrow> bool \<Rightarrow> cpuid \<Rightarrow> 'a cpu_info_scheme \<Rightarrow> nat \<times> 'a cpu_info_scheme" where
  "CPU_GetVendorID vendor lp64 cpuid s =
     (if \<not> ci_HasVendorID s
      then let m = fst (memset lp64 (ci_mem s) vendor 0 13);
               (eax, ebx, ecx, edx) = CPU_CPUID cpuid 0x00;
               m1 = wr32 m vendor ebx;
               m2 = wr32 m1 (vendor + 4) edx;
               m3 = wr32 m2 (vendor + 8) ecx
           in (vendor, s\<lparr>ci_mem := m3, ci_HasVendorID := True\<rparr>)
      else (vendor, s))"

text \<open>The four registers of a leaf, copied to an address.\<close>

definition copy_regs :: "cpuid \<Rightarrow> u32 \<Rightarrow> nat \<Rightarrow> bytes \<Rightarrow> bytes" where
  "copy_regs cpuid leaf a m =
     (let (eax, ebx, ecx, edx) = CPU_CPUID cpuid leaf
      in wr32 (wr32 (wr32 (wr32 m a eax) (a + 0x04) ebx) (a + 0x08) ecx) (a + 0x0C) edx)"

text \<open>The loops behind the leading spaces, and over the characters that move to the front.\<close>

partial_function (option) skip_spaces :: "bytes \<Rightarrow> nat \<Rightarrow> nat \<Rightarrow> nat option" where
  "skip_spaces m a i = (if m (a + i) = 0x20 then skip_spaces m a (i + 1) else Some i)"

partial_function (option) shift_name :: "bool \<Rightarrow> nat \<Rightarrow> nat \<Rightarrow> nat \<Rightarrow> bytes \<Rightarrow> bytes option" where
  "shift_name lp64 a i j m =
     do { n \<leftarrow> strlen lp64 m a;
          if j < n then shift_name lp64 a i (j + 1) (m(a + j := m (a + (i + j)))) else Some m }"

definition CPU_GetBrandName :: "nat \<Rightarrow> bool \<Rightarrow> cpuid \<Rightarrow> 'a cpu_info_scheme \<Rightarrow> (nat \<times> 'a cpu_info_scheme) option" where
  "CPU_GetBrandName brand lp64 cpuid s =
     (if \<not> ci_HasBrandName s
      then do { let m = fst (memset lp64 (ci_mem s) brand 0 13);
                let m1 = copy_regs cpuid 0x80000002 brand m;
                let m2 = copy_regs cpuid 0x80000003 (brand + 0x10) m1;
                let m3 = copy_regs cpuid 0x80000004 (brand + 0x20) m2;
                i \<leftarrow> skip_spaces m3 brand 0;
                m4 \<leftarrow> shift_name lp64 brand i 0 m3;
                Some (brand, s\<lparr>ci_mem := m4, ci_HasBrandName := True\<rparr>) }
      else Some (brand, s))"

definition CPU_HasFeature :: "cpuid \<Rightarrow> CPU_Feature \<Rightarrow> 'a cpu_info_scheme \<Rightarrow> bool \<times> 'a cpu_info_scheme" where
  "CPU_HasFeature cpuid feature s =
     (let v = feature_value feature;
          s1 = (if \<not> ci_HasFeatures s
                then let (eax, ebx, ecx, edx) = CPU_CPUID cpuid 0x01
                     in s\<lparr>ci_FeatureLow := edx, ci_FeatureHigh := ecx, ci_HasFeatures := True\<rparr>
                else s);
          features = (if v AND 0x100 \<noteq> 0 then ci_FeatureHigh s1 else ci_FeatureLow s1);
          v1 = v AND 0xFF
      in (drop_bit (unat v1) features AND 0x01 \<noteq> 0, s1))"


section \<open>The loops on the brand name\<close>

lemma skip_spaces_cstr:
  "cstr m (a + i) xs \<Longrightarrow> skip_spaces m a i = Some (i + length (takeWhile (\<lambda>x. x = 0x20) xs))"
proof (induction xs arbitrary: i)
  case Nil
  then show ?case by (subst skip_spaces.simps) simp
next
  case (Cons x xs)
  then show ?case using Cons.IH [of "i + 1"] by (subst skip_spaces.simps) auto
qed

text \<open>The string while its characters from i on move to the front: j of them have been moved.\<close>

definition shifted :: "u8 list \<Rightarrow> nat \<Rightarrow> nat \<Rightarrow> u8 list" where
  "shifted xs i j = take j (drop i xs) @ drop j xs"

lemma shifted_Suc:
  assumes "i + j < length xs"
  shows "shifted xs i (Suc j) = (shifted xs i j)[j := xs ! (i + j)]"
proof -
  have "j < length xs" "length (take j (drop i xs)) = j" using assms by auto
  moreover have "take (Suc j) (drop i xs) = take j (drop i xs) @ [xs ! (i + j)]"
    using assms by (simp add: take_Suc_conv_app_nth add.commute)
  ultimately show ?thesis
    by (simp add: shifted_def list_update_append Cons_nth_drop_Suc [symmetric])
qed

lemma cstr_write:
  "cstr m a xs \<Longrightarrow> j < length xs \<Longrightarrow> x \<noteq> 0 \<Longrightarrow> cstr (m(a + j := x)) a (xs[j := x])"
proof (induction xs arbitrary: a j)
  case (Cons y xs)
  show ?case
  proof (cases j)
    case 0
    have "cstr (m(a := x)) (a + 1) xs" using Cons.prems(1) by (auto intro: cstr_cong)
    then show ?thesis using 0 Cons.prems by (simp add: fun_upd_def)
  next
    case (Suc k)
    then show ?thesis using Cons.IH [of "a + 1" k] Cons.prems by simp
  qed
qed simp

lemma cstr_cut: "cstr m a xs \<Longrightarrow> j \<le> length xs \<Longrightarrow> cstr (m(a + j := 0)) a (take j xs)"
proof (induction xs arbitrary: a j)
  case (Cons y xs)
  then show ?case using Cons.IH [of "a + 1" "j - 1"] by (cases j) auto
qed simp

lemma shift_name_cstr:
  assumes "cstr m a (shifted xs i j)" "i + j \<le> length xs" "\<forall>k. i + j \<le> k \<longrightarrow> k \<le> length xs \<longrightarrow> m (a + k) = (xs @ [0]) ! k"
    "0 \<notin> set xs"
  shows "\<exists>m'. shift_name lp64 a i j m = Some m' \<and> cstr m' a (drop i xs) \<and>
    (\<forall>b. b < a \<or> a + length xs < b \<longrightarrow> m' b = m b)"
  using assms
proof (induction "length xs - (i + j)" arbitrary: j m)
  case 0
  then have ij: "i + j = length xs" by simp
  have n: "strlen lp64 m a = Some (length (shifted xs i j))" using 0(2) by (rule strlen_cstr)
  have len: "length (shifted xs i j) = length xs" using ij by (simp add: shifted_def)
  have val: "m (a + (i + j)) = 0" using 0(4) ij by simp
  show ?case
  proof (cases "i = 0")
    case True
    then have "shifted xs i j = drop i xs" using ij by (simp add: shifted_def)
    then show ?thesis using n 0(2) len True ij by (subst shift_name.simps) simp
  next
    case False
    define m1 where "m1 = m(a + j := 0)"
    have "take j (shifted xs i j) = drop i xs" using ij by (simp add: shifted_def)
    then have m1: "cstr m1 a (drop i xs)" using cstr_cut [OF 0(2), of j] len ij by (simp add: m1_def)
    have "shift_name lp64 a i (j + 1) m1 = Some m1"
    proof -
      have "\<not> j + 1 < length (drop i xs)" using ij by simp
      then show ?thesis using strlen_cstr [OF m1, of lp64] by (subst shift_name.simps) simp
    qed
    moreover have "shift_name lp64 a i j m = shift_name lp64 a i (j + 1) m1"
      using n len False ij val by (subst shift_name.simps) (simp add: m1_def)
    ultimately show ?thesis using m1 ij by (auto simp: m1_def)
  qed
next
  case (Suc d)
  then have ij: "i + j < length xs" by simp
  have n: "strlen lp64 m a = Some (length (shifted xs i j))" using Suc(3) by (rule strlen_cstr)
  have len: "length (shifted xs i j) = length xs" using ij by (simp add: shifted_def)
  have val: "m (a + (i + j)) = xs ! (i + j)" "xs ! (i + j) \<noteq> 0"
    using Suc(5) ij by (simp add: nth_append) (use Suc(6) nth_mem [OF ij] in metis)
  define m1 where "m1 = m(a + j := xs ! (i + j))"
  have m1: "cstr m1 a (shifted xs i (j + 1))"
    using cstr_write [OF Suc(3), of j] ij val len by (simp add: m1_def shifted_Suc)
  have keep: "\<forall>k. i + (j + 1) \<le> k \<longrightarrow> k \<le> length xs \<longrightarrow> m1 (a + k) = (xs @ [0]) ! k"
    using Suc(5) by (simp add: m1_def)
  have "shift_name lp64 a i j m = shift_name lp64 a i (j + 1) m1"
    using n len ij val by (subst shift_name.simps) (simp add: m1_def)
  moreover have "\<exists>m'. shift_name lp64 a i (j + 1) m1 = Some m' \<and> cstr m' a (drop i xs) \<and>
      (\<forall>b. b < a \<or> a + length xs < b \<longrightarrow> m' b = m1 b)"
    using Suc(2) ij by (intro Suc(1) m1 keep Suc(6)) auto
  ultimately show ?case using ij by (auto simp: m1_def)
qed


section \<open>What is read\<close>

definition leaf_bytes :: "cpuid \<Rightarrow> u32 \<Rightarrow> u8 list" where
  "leaf_bytes cpuid leaf =
     (let (eax, ebx, ecx, edx) = cpuid leaf
      in le_bytes 4 (unat eax) @ le_bytes 4 (unat ebx) @ le_bytes 4 (unat ecx) @ le_bytes 4 (unat edx))"

definition brand_bytes :: "cpuid \<Rightarrow> u8 list" where
  "brand_bytes cpuid = leaf_bytes cpuid 0x80000002 @ leaf_bytes cpuid 0x80000003 @ leaf_bytes cpuid 0x80000004"

definition vendor_bytes :: "cpuid \<Rightarrow> u8 list" where
  "vendor_bytes cpuid =
     (let (eax, ebx, ecx, edx) = cpuid 0 in le_bytes 4 (unat ebx) @ le_bytes 4 (unat edx) @ le_bytes 4 (unat ecx))"

lemma leaf_length [simp]: "length (leaf_bytes cpuid leaf) = 16"
  by (simp add: leaf_bytes_def case_prod_beta)

lemma numeral_last: "numeral n + (a :: nat) = a + numeral n"
  by simp

lemmas loaded_stores = loaded_append loaded_Cons loaded_wr32 loaded_wr32_other numeral_last

lemma copy_regs_loaded: "loaded (copy_regs cpuid leaf a m) a (leaf_bytes cpuid leaf)"
  by (simp add: copy_regs_def leaf_bytes_def CPU_CPUID_def case_prod_beta loaded_stores)

lemma copy_regs_frame: "b < a \<or> a + 16 \<le> b \<Longrightarrow> copy_regs cpuid leaf a m b = m b"
  by (elim disjE) (simp_all add: copy_regs_def case_prod_beta wr32_frame)

lemma copy_regs_other: "b + length xs \<le> a \<or> a + 16 \<le> b \<Longrightarrow> loaded (copy_regs cpuid leaf a m) b xs = loaded m b xs"
  by (rule loaded_cong) (auto intro: copy_regs_frame)

lemma brand_loaded:
  "loaded (copy_regs cpuid 0x80000004 (a + 0x20) (copy_regs cpuid 0x80000003 (a + 0x10) (copy_regs cpuid 0x80000002 a m)))
     a (brand_bytes cpuid)"
  by (simp add: brand_bytes_def loaded_append copy_regs_loaded copy_regs_other numeral_last)

lemma takeWhile_end: "\<not> P y \<Longrightarrow> takeWhile P (xs @ [y]) = takeWhile P xs"
  by (induction xs) simp_all

lemma takeWhile_shorter: "\<exists>x \<in> set xs. \<not> P x \<Longrightarrow> length (takeWhile P xs) < length xs"
  by (induction xs) auto

lemma string_shift:
  assumes "cstr m a xs" "b = length (takeWhile (\<lambda>x. x = 0x20) xs)"
  shows "\<exists>m'. shift_name lp64 a b 0 m = Some m' \<and> cstr m' a (dropWhile (\<lambda>x. x = 0x20) xs) \<and>
    (\<forall>b. b < a \<or> a + length xs < b \<longrightarrow> m' b = m b)"
proof -
  have "0 \<notin> set xs" using cstr_nth [OF assms(1)] by (auto simp: in_set_conv_nth)
  moreover have "\<forall>k \<le> length xs. m (a + k) = (xs @ [0]) ! k"
    using cstr_nth [OF assms(1)] cstr_end [OF assms(1)] by (auto simp: nth_append le_less)
  ultimately show ?thesis
    using shift_name_cstr [of m a xs b 0 lp64] assms length_takeWhile_le [of "\<lambda>x. x = 0x20" xs]
    by (simp add: shifted_def dropWhile_eq_drop)
qed

lemma vendor_string:
  assumes "m (vendor + 12) = 0"
  shows "cstr (wr32 (wr32 (wr32 m vendor x) (vendor + 4) y) (vendor + 8) z) vendor
    (takeWhile (\<lambda>x. x \<noteq> 0) (le_bytes 4 (unat x) @ le_bytes 4 (unat y) @ le_bytes 4 (unat z)))" (is "cstr ?m _ (takeWhile _ ?xs)")
proof -
  have "cstr ?m vendor (takeWhile (\<lambda>x. x \<noteq> 0) (?xs @ [0]))"
    using assms by (intro loaded_string) (simp_all add: loaded_stores wr32_frame)
  then show ?thesis by (simp only: takeWhile_end)
qed

lemma vendor_name:
  assumes "vendor \<noteq> 0" "\<not> ci_HasVendorID s"
  shows "case CPU_GetVendorID vendor lp64 cpuid s of (p, t) \<Rightarrow>
    p = vendor \<and> cstr (ci_mem t) vendor (takeWhile (\<lambda>x. x \<noteq> 0) (vendor_bytes cpuid)) \<and>
    (\<forall>b. b < vendor \<or> vendor + 13 \<le> b \<longrightarrow> ci_mem t b = ci_mem s b) \<and>
    (\<forall>other. CPU_GetVendorID vendor lp64 other t = (vendor, t))"
  using assms vendor_string by (simp add: CPU_GetVendorID_def CPU_CPUID_def vendor_bytes_def case_prod_beta Let_def
      memset_eq wr32_frame mem_fill_out)

lemma brand_name:
  assumes "brand \<noteq> 0" "\<not> ci_HasBrandName s" "0 \<in> set (brand_bytes cpuid)"
  shows "\<exists>t. CPU_GetBrandName brand lp64 cpuid s = Some (brand, t) \<and>
    cstr (ci_mem t) brand (dropWhile (\<lambda>x. x = 0x20) (takeWhile (\<lambda>x. x \<noteq> 0) (brand_bytes cpuid))) \<and>
    (\<forall>b. b < brand \<or> brand + 48 \<le> b \<longrightarrow> ci_mem t b = ci_mem s b) \<and>
    (\<forall>other. CPU_GetBrandName brand lp64 other t = Some (brand, t))"
proof -
  define xs where "xs = takeWhile (\<lambda>x. x \<noteq> 0) (brand_bytes cpuid)"
  define m where "m = copy_regs cpuid 0x80000004 (brand + 0x20) (copy_regs cpuid 0x80000003 (brand + 0x10)
    (copy_regs cpuid 0x80000002 brand (fst (memset lp64 (ci_mem s) brand 0 13))))"
  have m: "cstr m brand xs" unfolding m_def xs_def using brand_loaded assms(3) by (rule loaded_string)
  have len: "length xs < 48"
    unfolding xs_def using assms(3) by (intro less_le_trans [OF takeWhile_shorter]) (auto simp: brand_bytes_def)
  have frame: "b < brand \<or> brand + 48 \<le> b \<Longrightarrow> m b = ci_mem s b" for b
    using assms(1) by (auto simp: m_def copy_regs_frame memset_eq mem_fill_out)
  have "skip_spaces m brand 0 = Some (length (takeWhile (\<lambda>x. x = 0x20) xs))"
    using skip_spaces_cstr [of m brand 0 xs] m by simp
  moreover obtain m' where "shift_name lp64 brand (length (takeWhile (\<lambda>x. x = 0x20) xs)) 0 m = Some m'"
    "cstr m' brand (dropWhile (\<lambda>x. x = 0x20) xs)" "\<forall>b. b < brand \<or> brand + length xs < b \<longrightarrow> m' b = m b"
    using string_shift [OF m refl] by blast
  ultimately show ?thesis
    using assms(2) frame len by (simp add: CPU_GetBrandName_def Let_def xs_def flip: m_def)
qed

text \<open>
  C22. The vendor is the string of the twelve bytes of the registers ebx, edx and ecx of leaf 0, and
  the brand name the string of the three leaves from 0x80000002, without its leading spaces, if
  these 48 bytes contain a terminator.  Only the arrays are written, and once read, neither depends
  on the processor or changes any more.
\<close>

theorem cpu_names:
  assumes "vendor \<noteq> 0" "brand \<noteq> 0" "\<not> ci_HasVendorID s" "\<not> ci_HasBrandName s" "0 \<in> set (brand_bytes cpuid)"
  shows "(let (p, t) = CPU_GetVendorID vendor lp64 cpuid s
     in p = vendor \<and> cstr (ci_mem t) vendor (takeWhile (\<lambda>x. x \<noteq> 0) (vendor_bytes cpuid)) \<and>
        (\<forall>b. b < vendor \<or> vendor + 13 \<le> b \<longrightarrow> ci_mem t b = ci_mem s b) \<and>
        (\<forall>other. CPU_GetVendorID vendor lp64 other t = (vendor, t))) \<and>
    (\<exists>t. CPU_GetBrandName brand lp64 cpuid s = Some (brand, t) \<and>
        cstr (ci_mem t) brand (dropWhile (\<lambda>x. x = 0x20) (takeWhile (\<lambda>x. x \<noteq> 0) (brand_bytes cpuid))) \<and>
        (\<forall>b. b < brand \<or> brand + 48 \<le> b \<longrightarrow> ci_mem t b = ci_mem s b) \<and>
        (\<forall>other. CPU_GetBrandName brand lp64 other t = Some (brand, t)))"
  using vendor_name [OF assms(1,3)] brand_name [OF assms(2,4,5)] by (simp only: Let_def simp_thms)

lemma drop_bit_and_1: "drop_bit n (w :: u32) AND 1 \<noteq> 0 \<longleftrightarrow> bit w n"
  by (simp add: and_one_eq bit_iff_odd_drop_bit odd_iff_mod_2_eq_one)

text \<open>A feature is a bit of one of the registers edx and ecx of leaf 1, and is read once.\<close>

lemma feature_bit:
  assumes "\<not> ci_HasFeatures s" "cpuid 0x01 = (eax, ebx, ecx, edx)" "CPU_HasFeature cpuid f s = (r, t)"
  shows "r = bit (if feature_value f AND 0x100 \<noteq> 0 then ecx else edx) (unat (feature_value f AND 0xFF))"
    "CPU_HasFeature other f t = (r, t)"
  using assms by (auto simp: CPU_HasFeature_def CPU_CPUID_def Let_def drop_bit_and_1)

text \<open>A processor whose brand name is two spaces, XE and zeros.\<close>

definition cpuid_sim :: cpuid where
  "cpuid_sim leaf = (if leaf = 0x80000002 then (0x45582020, 0, 0, 0) else (0, 0x756E6547, 0x6C65746E, 0x49656E69))"

theorem cpu_names_witness:
  "\<exists>t. CPU_GetBrandName 0x2000 True cpuid_sim cpu_info_boot = Some (0x2000, t) \<and> cstr (ci_mem t) 0x2000 [0x58, 0x45]"
proof -
  have b: "takeWhile (\<lambda>x. x \<noteq> 0) (brand_bytes cpuid_sim) = [0x20, 0x20, 0x58, 0x45]"
    by (simp add: brand_bytes_def leaf_bytes_def cpuid_sim_def le_bytes_4)
  have z: "0 \<in> set (brand_bytes cpuid_sim)" by (simp add: brand_bytes_def leaf_bytes_def cpuid_sim_def le_bytes_4)
  have pre: "0x800 \<noteq> (0 :: nat)" "0x2000 \<noteq> (0 :: nat)" "\<not> ci_HasVendorID cpu_info_boot" "\<not> ci_HasBrandName cpu_info_boot"
    by (simp_all add: cpu_info_boot_def)
  show ?thesis using cpu_names [OF pre z, of True, THEN conjunct2] unfolding b by auto
qed

end
