(* ===== verification/XEOS_Messages.thy ===== *)
theory XEOS_Messages
  imports XEOS_VideoProps
begin

text \<open>
  The messages of the kernel: those of its main function (source/core/xeos/__XEOS_Main.c) and the
  panic screens (source/core/xeos/system).  They are built from the operations of the console; the
  two static variables of the first file extend its state.
\<close>

definition ascii :: "string \<Rightarrow> u8 list" where
  "ascii s = map of_char s"

record prompts = video +
  msg_externalInfoLine :: bool
  msg_lastPrompt :: "u8 list option"

definition messages_boot :: "bytes \<Rightarrow> prompts" where
  "messages_boot m = video.extend (video_boot m) \<lparr> msg_externalInfoLine = False, msg_lastPrompt = None \<rparr>"


section \<open>Messages of the main function\<close>

text \<open>The loops that print one space after the other.\<close>

primrec print_spaces :: "nat \<Rightarrow> 'a video_scheme \<Rightarrow> 'a video_scheme" where
  "print_spaces 0 v = v"
| "print_spaces (Suc n) v = print_spaces n (snd (Print [0x20] v))"

definition end_prompt :: "'a prompts_scheme \<Rightarrow> 'a prompts_scheme" where
  "end_prompt v = (if msg_lastPrompt v \<noteq> None then (snd (Print [0x0A] v))\<lparr>msg_lastPrompt := None\<rparr> else v)"

definition status_indent :: "nat \<Rightarrow> 'a video_scheme \<Rightarrow> 'a video_scheme" where
  "status_indent statusLength v =
     (let x = unat (Video_X v); cols = 80; promptLength = nat GetPromptLength
      in if cols - 1 < x + statusLength
         then let v1 = snd (Print [0x0A] v)
              in if statusLength + promptLength < cols then print_spaces (cols - 1 - statusLength) v1
                 else print_spaces promptLength v1
         else print_spaces (cols - 1 - (x + statusLength)) v)"

definition Main_PromptWithStatus :: "u8 list option \<Rightarrow> u8 list \<Rightarrow> Video_Color \<Rightarrow> 'a prompts_scheme \<Rightarrow> 'a prompts_scheme" where
  "Main_PromptWithStatus message status statusColor v =
     (let v1 = (case message of
                  None \<Rightarrow> v
                | Some m \<Rightarrow> snd (Print [0x20] (snd (Print m (snd (PrintPrompt (end_prompt v)))))));
          v2 = status_indent (length status + 4) v1;
          v3 = snd (Print (ascii ''[ '') v2);
          v4 = snd (Print status (Video_SetFG statusColor v3));
          v5 = Video_SetFG ColorWhite v4
      in snd (Print (ascii '' ]'' @ [0x0A]) v5))"

definition Main_PrintInfoLine :: "arch \<Rightarrow> u8 list option \<Rightarrow> va list \<Rightarrow> locale_state \<Rightarrow> 'a prompts_scheme
    \<Rightarrow> (locale_state \<times> 'a prompts_scheme) option" where
  "Main_PrintInfoLine A format args ls v =
     (case format of
        None \<Rightarrow> Some (ls, v)
      | Some f \<Rightarrow>
          do { let v1 = print_spaces (nat GetPromptLength + 2) v;
               let v2 = Video_SetFG ColorGrayLight (snd (Print [0x1A, 0x20] v1));
               (n, p, v3) \<leftarrow> VPrintf A f args ls v2;
               Some (pf_ls p, snd (Print [0x0A] (Video_SetFG ColorWhite v3))) })"

definition Main_VPrintExternalInfoLine :: "arch \<Rightarrow> u8 list \<Rightarrow> va list \<Rightarrow> locale_state \<Rightarrow> 'a prompts_scheme
    \<Rightarrow> (int \<times> pf_state \<times> 'a prompts_scheme) option" where
  "Main_VPrintExternalInfoLine A s args ls v =
     do { let (n, v1) =
            (if \<not> msg_externalInfoLine v
             then let (n1, w1) = (if Video_X v \<noteq> 0 then (1, snd (Print [0x0A] v)) else (0, v));
                      k = nat GetPromptLength + 2;
                      w2 = print_spaces k w1
                  in (n1 + int k + 2, snd (Print [0x1A, 0x20] w2))
             else (0 :: int, v));
          (m, p, v2) \<leftarrow> VPrintf A s args ls (Video_SetFG ColorGrayLight v1);
          let v3 = Video_SetFG ColorWhite v2;
          Some (n + m, p, v3\<lparr>msg_externalInfoLine := 0x0A \<notin> set s\<rparr>) }"

definition Main_PrintExternalInfoLine :: "arch \<Rightarrow> u8 list \<Rightarrow> va list \<Rightarrow> locale_state \<Rightarrow> 'a prompts_scheme
    \<Rightarrow> (int \<times> pf_state \<times> 'a prompts_scheme) option" where
  "Main_PrintExternalInfoLine A s args ls v = Main_VPrintExternalInfoLine A s args ls v"

definition Main_Prompt :: "u8 list option \<Rightarrow> 'a prompts_scheme \<Rightarrow> 'a prompts_scheme" where
  "Main_Prompt message v =
     (case message of
        None \<Rightarrow> v
      | Some m \<Rightarrow>
          (snd (Print [0x20] (snd (Print m (snd (PrintPrompt (end_prompt v)))))))\<lparr>msg_lastPrompt := Some m\<rparr>)"

definition Main_PromptSuccess :: "u8 list option \<Rightarrow> 'a prompts_scheme \<Rightarrow> 'a prompts_scheme" where
  "Main_PromptSuccess m v =
     (Main_PromptWithStatus None (case m of None \<Rightarrow> ascii ''OK'' | Some s \<Rightarrow> s) ColorGreenLight v)\<lparr>msg_lastPrompt := None\<rparr>"

definition Main_PromptFailure :: "u8 list option \<Rightarrow> 'a prompts_scheme \<Rightarrow> 'a prompts_scheme" where
  "Main_PromptFailure m v =
     (Main_PromptWithStatus None (case m of None \<Rightarrow> ascii ''FAIL'' | Some s \<Rightarrow> s) ColorRedLight v)\<lparr>msg_lastPrompt := None\<rparr>"

text \<open>The state in which the function loops forever.\<close>

definition Main_FatalError :: "'a video_scheme \<Rightarrow> 'a video_scheme" where
  "Main_FatalError v =
     (let v1 = Video_SetFG ColorRedLight (snd (PrintPrompt v));
          v2 = Video_SetFG ColorWhite (snd (Print (ascii ''A fatal error occured'') v1));
          v3 = snd (Print (ascii '' - Please reboot your computer'') v2)
      in CPU_Halt v3)"


section \<open>Panic screens\<close>

definition panic_newlines :: "'a video_scheme \<Rightarrow> 'a video_scheme" where
  "panic_newlines v = snd (Print [0x0A] (snd (Print [0x0A] v)))"

definition panic_banner :: "'a video_scheme \<Rightarrow> 'a video_scheme" where
  "panic_banner v =
     (let v1 = Video_Clear (Video_SetBG ColorBlue (Video_SetFG ColorWhite (CPU_DisableInterrupts v)));
          v2 = snd (Print [0x0A] v1);
          v3 = snd (Print (replicate 29 0x20) v2);
          v4 = Video_SetBG ColorWhite (Video_SetFG ColorBlue v3);
          v5 = snd (Print (ascii '' XEOS - KERNEL PANIC '') v4);
          v6 = Video_SetBG ColorBlue (Video_SetFG ColorWhite v5);
          v7 = panic_newlines (snd (Print (replicate 29 0x20) v6));
          v8 = snd (Print (ascii ''A problem has been detected and XEOS has been shut down to prevent damage'' @ [0x0A] @
                           ascii ''to your computer.'') v7);
          v9 = panic_newlines v8;
          v10 = snd (Print (ascii ''Please restart your computer. Any unsaved information will be lost.'') v9)
      in panic_newlines v10)"

text \<open>
  The function to call before halting is None or a step that may not return.  What the functions
  give is the state in which the processor halts.
\<close>

definition System_Panic :: "u8 list \<Rightarrow> ('a video_scheme \<Rightarrow> 'a video_scheme option) option \<Rightarrow> 'a video_scheme
    \<Rightarrow> 'a video_scheme option" where
  "System_Panic message beforeHalt v =
     do { let v1 = snd (Print message (panic_banner v));
          let v2 = snd (Print [0x0A] v1);
          v3 \<leftarrow> (case beforeHalt of None \<Rightarrow> Some v2 | Some f \<Rightarrow> f v2);
          Some (CPU_Halt v3) }"

definition System_Panicf :: "arch \<Rightarrow> u8 list \<Rightarrow> ('a video_scheme \<Rightarrow> 'a video_scheme option) option \<Rightarrow> va list
    \<Rightarrow> locale_state \<Rightarrow> 'a video_scheme \<Rightarrow> 'a video_scheme option" where
  "System_Panicf A format beforeHalt args ls v =
     do { (n, p, v1) \<leftarrow> VPrintf A format args ls (panic_banner v);
          let v2 = snd (Print [0x0A] v1);
          v3 \<leftarrow> (case beforeHalt of None \<Rightarrow> Some v2 | Some f \<Rightarrow> f v2);
          Some (CPU_Halt v3) }"


section \<open>Text that is appended in the line of the cursor\<close>

text \<open>
  The cells cs are written from the cursor on, in its line; no other cell changes.
\<close>

definition appended :: "'a video_scheme \<Rightarrow> (u8 \<times> u8) list \<Rightarrow> 'a video_scheme \<Rightarrow> bool" where
  "appended v cs w \<longleftrightarrow> vid_y w = vid_y v \<and> unat (vid_x w) = unat (vid_x v) + length cs \<and>
     (\<forall>r c. c < 80 \<longrightarrow> vid_cell w r c =
       (if r = unat (vid_y v) \<and> unat (vid_x v) \<le> c \<and> c < unat (vid_x v) + length cs
        then cs ! (c - unat (vid_x v)) else vid_cell v r c))"

definition plain :: "u8 list \<Rightarrow> bool" where
  "plain s \<longleftrightarrow> (\<forall>c \<in> set s. c \<noteq> 0 \<and> c \<noteq> 0x0A)"

lemma appended_trans:
  assumes "appended v cs w" "appended w ds u"
  shows "appended v (cs @ ds) u"
proof -
  have "c < unat (vid_x v) + length cs \<or> c - unat (vid_x w) = c - unat (vid_x v) - length cs" for c
    using assms(1) by (auto simp: appended_def)
  then show ?thesis using assms by (auto simp: appended_def nth_append)
qed

lemma appended_refl: "appended v [] v"
  by (auto simp: appended_def)

lemma vid_cell_MoveCursor [simp]: "vid_cell (MoveCursor a b w) r c = vid_cell w r c"
  by (simp add: vid_cell_def)

lemma print_appended:
  assumes "plain s" "unat (vid_x v) + length s \<le> 80" "unat (vid_y v) < 24"
  shows "appended v (map (\<lambda>c. (c, vid_attr v)) s) (snd (print_loop s n v))" "vid_attr (snd (print_loop s n v)) = vid_attr v"
  using print_loop_in_line [OF assms(1) [unfolded plain_def] assms(2,3), of n]
  by (auto simp: appended_def Let_def)

lemma appended_MoveCursor: "appended v cs w \<Longrightarrow> appended v cs (MoveCursor (vid_x w) (vid_y w) w)"
  by (simp add: appended_def)

lemma Print_appended:
  assumes "plain s" "unat (vid_x v) + length s \<le> 80" "unat (vid_y v) < 24"
  shows "appended v (map (\<lambda>c. (c, vid_attr v)) s) (snd (Print s v))" "vid_attr (snd (Print s v)) = vid_attr v"
  using print_appended [OF assms, of 0]
  by (simp_all add: Print_def case_prod_beta Let_def Video_X_def Video_Y_def appended_MoveCursor)

lemma print_spaces_appended:
  assumes "unat (vid_x v) + n \<le> 80" "unat (vid_y v) < 24"
  shows "appended v (replicate n (0x20, vid_attr v)) (print_spaces n v) \<and> vid_attr (print_spaces n v) = vid_attr v"
  using assms
proof (induction n arbitrary: v)
  case (Suc n)
  note one = Print_appended [of "[0x20]" v]
  have a: "appended v [(0x20, vid_attr v)] (snd (Print [0x20] v))" "vid_attr (snd (Print [0x20] v)) = vid_attr v"
    using one Suc.prems by (simp_all add: plain_def)
  then have "unat (vid_x (snd (Print [0x20] v))) + n \<le> 80" "unat (vid_y (snd (Print [0x20] v))) < 24"
    using Suc.prems by (simp_all add: appended_def)
  note IH = Suc.IH [OF this]
  then show ?case using appended_trans [OF a(1)] a(2) by simp
qed (simp add: appended_refl)

lemma print_loop_append: "0 \<notin> set s \<Longrightarrow>
  print_loop (s @ t) n v = print_loop t (fst (print_loop s n v)) (snd (print_loop s n v))"
  by (induction s n v rule: print_loop.induct) auto

lemma Putc_newline:
  "unat (vid_x v) < 80 \<Longrightarrow> unat (vid_y v) < 24 \<Longrightarrow> Putc 0x0A False v = v\<lparr>vid_y := vid_y v + 1, vid_x := 0\<rparr>"
proof -
  assume "unat (vid_x v) < 80" "unat (vid_y v) < 24"
  then have "vid_x v \<noteq> 80" "vid_y v \<noteq> 24" by auto
  then show ?thesis by (simp add: Putc_def video_consts Let_def)
qed

text \<open>A text with a newline at its end.\<close>

lemma Print_line:
  assumes "plain s" "unat (vid_x v) + length s < 80" "unat (vid_y v) < 24"
  shows "\<exists>w. appended v (map (\<lambda>c. (c, vid_attr v)) s) w \<and>
     (\<forall>r c. vid_cell (snd (Print (s @ [0x0A]) v)) r c = vid_cell w r c) \<and>
     vid_x (snd (Print (s @ [0x0A]) v)) = 0 \<and> unat (vid_y (snd (Print (s @ [0x0A]) v))) = unat (vid_y v) + 1"
proof -
  define w where "w = snd (print_loop s 0 v)"
  have a: "appended v (map (\<lambda>c. (c, vid_attr v)) s) w"
    using print_appended [of s v 0] assms by (simp add: w_def)
  have "0 \<notin> set s" using assms(1) by (auto simp: plain_def)
  moreover have "Putc 0x0A False w = w\<lparr>vid_y := vid_y w + 1, vid_x := 0\<rparr>"
    using a assms(2,3) by (intro Putc_newline) (simp_all add: appended_def)
  ultimately have "snd (print_loop (s @ [0x0A]) 0 v) = w\<lparr>vid_y := vid_y w + 1, vid_x := 0\<rparr>"
    by (simp add: print_loop_append w_def)
  moreover have "unat (vid_y w + 1) = unat (vid_y v) + 1"
    using a assms(3) by (simp add: appended_def u32_unat_eq)
  ultimately show ?thesis
    using a by (intro exI [of _ w]) (simp add: Print_def case_prod_beta Let_def Video_X_def Video_Y_def vid_cell_def)
qed

lemma color_appended: "appended v cs (Video_SetFG c w) = appended v cs w" "appended (Video_SetFG c v) cs w = appended v cs w"
  by (simp_all add: appended_def Video_SetFG_def vid_cell_def)

lemma color_attr: "vid_attr (Video_SetFG c v) = (vid_attr v AND 0xF0) OR color_value c"
  by (simp add: Video_SetFG_def)


section \<open>The status of a message\<close>

text \<open>The cells of a status: the indentation, and the text with its color between brackets.\<close>

definition status_cells :: "nat \<Rightarrow> u8 list \<Rightarrow> Video_Color \<Rightarrow> u8 \<Rightarrow> (u8 \<times> u8) list" where
  "status_cells x status color attr =
     map (\<lambda>c. (c, attr)) (replicate (79 - (x + length status + 4)) 0x20 @ [0x5B, 0x20]) @
     map (\<lambda>c. (c, (attr AND 0xF0) OR color_value color)) status @
     map (\<lambda>c. (c, (attr AND 0xF0) OR color_value ColorWhite)) [0x20, 0x5D]"

lemma ascii_brackets: "ascii ''[ '' = [0x5B, 0x20]" "ascii '' ]'' = [0x20, 0x5D]"
  by (simp_all add: ascii_def)

lemma and_or_high: "(((a :: u8) AND 0xF0) OR color_value c) AND 0xF0 = a AND 0xF0"
proof -
  have "color_value c AND 0xF0 = 0" by (cases c) simp_all
  then show ?thesis by (simp add: bit.conj_disj_distrib2 and.assoc)
qed

lemma status_appended:
  assumes s: "plain status" and x: "unat (vid_x v) + length status + 4 \<le> 79" and y: "unat (vid_y v) < 24"
    and u_def: "u = Main_PromptWithStatus None status color v"
  shows "vid_x u = 0 \<and> unat (vid_y u) = unat (vid_y v) + 1 \<and> (\<exists>w. (\<forall>r c. vid_cell u r c = vid_cell w r c) \<and>
    appended v (status_cells (unat (vid_x v)) status color (vid_attr v)) w)"
proof -
  define n where "n = 79 - (unat (vid_x v) + length status + 4)"
  have indent: "status_indent (length status + 4) v = print_spaces n v"
    using x by (simp add: status_indent_def Video_X_def n_def)
  define v1 where "v1 = print_spaces n v"
  have v1: "appended v (replicate n (0x20, vid_attr v)) v1" "vid_attr v1 = vid_attr v"
    using print_spaces_appended [of v n] x y by (simp_all add: v1_def n_def)
  define v2 where "v2 = snd (Print [0x5B, 0x20] v1)"
  have v2: "appended v1 (map (\<lambda>c. (c, vid_attr v)) [0x5B, 0x20]) v2" "vid_attr v2 = vid_attr v"
    using Print_appended [of "[0x5B, 0x20]" v1] x y v1 by (simp_all add: v2_def plain_def appended_def n_def)
  define v3 where "v3 = snd (Print status (Video_SetFG color v2))"
  have v3: "appended v2 (map (\<lambda>c. (c, (vid_attr v AND 0xF0) OR color_value color)) status) v3"
      "vid_attr v3 = (vid_attr v AND 0xF0) OR color_value color"
    using Print_appended [of status "Video_SetFG color v2"] s x y v1 v2
    by (simp_all add: v3_def color_appended color_attr) (simp_all add: appended_def n_def Video_SetFG_def)
  have here: "unat (vid_x v3) + 2 < 80" "unat (vid_y v3) < 24" using v1(1) v2(1) v3(1) x y by (simp_all add: appended_def n_def)
  have attr: "vid_attr (Video_SetFG ColorWhite v3) = (vid_attr v AND 0xF0) OR color_value ColorWhite"
    by (simp only: color_attr v3(2) and_or_high)
  have u: "u = snd (Print ([0x20, 0x5D] @ [0x0A]) (Video_SetFG ColorWhite v3))"
    by (simp add: u_def Main_PromptWithStatus_def indent ascii_brackets Let_def v1_def v2_def v3_def)
  obtain w where w: "appended v3 (map (\<lambda>c. (c, (vid_attr v AND 0xF0) OR color_value ColorWhite)) [0x20, 0x5D]) w"
    "\<forall>r c. vid_cell u r c = vid_cell w r c" "vid_x u = 0" "unat (vid_y u) = unat (vid_y v3) + 1"
    using Print_line [of "[0x20, 0x5D]" "Video_SetFG ColorWhite v3"] here
    unfolding attr u by (auto simp: plain_def color_appended) (auto simp: Video_SetFG_def)
  have "appended v (status_cells (unat (vid_x v)) status color (vid_attr v)) w"
    using appended_trans [OF appended_trans [OF appended_trans [OF v1(1) v2(1)] v3(1)] w(1)]
    by (simp add: status_cells_def n_def)
  moreover have "vid_y v3 = vid_y v" using v1(1) v2(1) v3(1) by (simp add: appended_def)
  ultimately show ?thesis using w(2-4) by auto
qed

text \<open>
  C23. A status that fits behind the message of its line is printed in brackets up to column 78,
  with blanks between the message and the status; no other cell of the screen changes, and the
  cursor goes to the next line.
\<close>

theorem prompt_status:
  assumes "plain status" "unat (vid_x v) + length status + 4 \<le> 79" "unat (vid_y v) < VIDEO_ROWS - 1"
  shows "let u = Main_PromptWithStatus None status color v; x = unat (vid_x v); y = unat (vid_y v) in
    vid_x u = 0 \<and> unat (vid_y u) = y + 1 \<and>
    (\<forall>r. \<forall>c<VIDEO_COLS. vid_cell u r c =
       (if r = y \<and> x \<le> c \<and> c < 79 then status_cells x status color (vid_attr v) ! (c - x) else vid_cell v r c))"
proof -
  have y: "unat (vid_y v) < 24" using assms(3) by (simp add: video_consts)
  have "length (status_cells (unat (vid_x v)) status color (vid_attr v)) = 79 - unat (vid_x v)"
    using assms(2) by (simp add: status_cells_def)
  then show ?thesis
    using status_appended [OF assms(1,2) y refl, of color] assms(2) by (auto simp: Let_def appended_def video_consts)
qed

definition messages_there :: prompts where
  "messages_there = \<lparr> io_trace = [], io_if = False, vid_mem = (\<lambda>_. 0), vid_attr = 0x0F, vid_x = 20, vid_y = 3, vid_sticky = 0,
     msg_externalInfoLine = False, msg_lastPrompt = None \<rparr>"

theorem prompt_status_witness:
  "vid_cell (Main_PromptWithStatus None [0x4F, 0x4B] ColorGreenLight messages_there) 3 78 = (0x5D, 0x0F)"
  using prompt_status [of "[0x4F, 0x4B]" messages_there ColorGreenLight]
  by (simp add: messages_there_def video_consts Let_def plain_def status_cells_def nth_append)

end
