(* ===== verification/XEOS_Kernel.thy ===== *)
theory XEOS_Kernel
  imports XEOS_Messages XEOS_IDTProps XEOS_ClockProps XEOS_KeyboardProps XEOS_Debug
begin

text \<open>
  The kernel as a whole: its state, which puts the states of the components together, its handlers
  and service routines (source/core/xeos/irq, isr, syscall), and its main function up to the point
  where interrupts are enabled (source/core/xeos/XEOS_Main.c).

  The components were modelled over their own extensions of the trace of port accesses and of the
  interrupt flag.  A component of the kernel runs on the trace and the flag of the kernel.
\<close>

section \<open>State\<close>

datatype kernel_irq = KIrq_SystemTimer | KIrq_Keyboard | KIrq_RealTimeClock

record 'e kernel = "(kernel_irq, kernel_isr, 'e) idt" +
  k_mem :: bytes
  k_messages :: prompts
  k_clock :: clock
  k_debug :: debug
  k_ls :: locale_state

text \<open>The initial values of all variables.\<close>

definition kernel_boot :: "'e kernel" where
  "kernel_boot = \<lparr> io_trace = [], io_if = False, irq_Inited = False, irq_Handlers = \<lambda>_. replicate MAX_HANDLERS None,
     idt_ISREntries = [], idt_ISRHandlers = replicate MAX_DESCRIPTORS None, idt_limit = 0, idt_base = 0, idt_loaded = None,
     k_mem = (\<lambda>_. 0), k_messages = messages_boot (\<lambda>_. 0), k_clock = clock_boot, k_debug = debug_boot, k_ls = locale_boot \<rparr>"

definition on_messages :: "(prompts \<Rightarrow> prompts option) \<Rightarrow> 'e kernel \<Rightarrow> 'e kernel option" where
  "on_messages f k =
     map_option (\<lambda>v. k\<lparr>io_trace := io_trace v, io_if := io_if v, k_messages := v\<rparr>)
       (f ((k_messages k)\<lparr>io_trace := io_trace k, io_if := io_if k\<rparr>))"

definition messages_do :: "(prompts \<Rightarrow> prompts) \<Rightarrow> 'e kernel \<Rightarrow> 'e kernel" where
  "messages_do f k =
     (let v = f ((k_messages k)\<lparr>io_trace := io_trace k, io_if := io_if k\<rparr>)
      in k\<lparr>io_trace := io_trace v, io_if := io_if v, k_messages := v\<rparr>)"

definition on_clock :: "(clock \<Rightarrow> clock option) \<Rightarrow> 'e kernel \<Rightarrow> 'e kernel option" where
  "on_clock f k =
     map_option (\<lambda>c. k\<lparr>io_trace := io_trace c, io_if := io_if c, k_clock := c\<rparr>)
       (f ((k_clock k)\<lparr>io_trace := io_trace k, io_if := io_if k\<rparr>))"


lemma kernel_io [simp]:
  "io_if (k\<lparr>k_messages := w\<rparr>) = io_if (k :: 'e kernel)" "io_trace (k\<lparr>k_messages := w\<rparr>) = io_trace (k :: 'e kernel)"
  "io_if (k\<lparr>k_clock := c\<rparr>) = io_if (k :: 'e kernel)" "io_trace (k\<lparr>k_clock := c\<rparr>) = io_trace (k :: 'e kernel)"
  by (cases k; simp)+


section \<open>Registers\<close>

text \<open>The registers that the entry of an interrupt saves, at an address; see the structures in hal/cpu.h.\<close>

record registers64 =
  r_rax :: u64   r_rbx :: u64   r_rcx :: u64   r_rdx :: u64   r_rsi :: u64   r_rdi :: u64
  r_r8 :: u64    r_r9 :: u64    r_r10 :: u64   r_r11 :: u64   r_r12 :: u64   r_r13 :: u64
  r_r14 :: u64   r_r15 :: u64   r_rsp :: u64   r_rbp :: u64

record registers32 =
  r_eax :: u32   r_ebx :: u32   r_ecx :: u32   r_edx :: u32   r_esi :: u32   r_edi :: u32
  r_esp :: u32   r_ebp :: u32

definition read_registers64 :: "bytes \<Rightarrow> nat \<Rightarrow> registers64" where
  "read_registers64 m a =
     \<lparr>r_rax = rd64 m a, r_rbx = rd64 m (a + 8), r_rcx = rd64 m (a + 16), r_rdx = rd64 m (a + 24),
      r_rsi = rd64 m (a + 32), r_rdi = rd64 m (a + 40), r_r8 = rd64 m (a + 48), r_r9 = rd64 m (a + 56),
      r_r10 = rd64 m (a + 64), r_r11 = rd64 m (a + 72), r_r12 = rd64 m (a + 80), r_r13 = rd64 m (a + 88),
      r_r14 = rd64 m (a + 96), r_r15 = rd64 m (a + 104), r_rsp = rd64 m (a + 112), r_rbp = rd64 m (a + 120)\<rparr>"

definition read_registers32 :: "bytes \<Rightarrow> nat \<Rightarrow> registers32" where
  "read_registers32 m a =
     \<lparr>r_eax = rd32 m a, r_ebx = rd32 m (a + 4), r_ecx = rd32 m (a + 8), r_edx = rd32 m (a + 12),
      r_esi = rd32 m (a + 16), r_edi = rd32 m (a + 20), r_esp = rd32 m (a + 24), r_ebp = rd32 m (a + 28)\<rparr>"


section \<open>Exceptions\<close>

fun exception_text :: "u8 \<Rightarrow> string" where
  "exception_text isr =
     (if isr = 0x00 then ''CPU Exception - 0x00 / #DE: Divide-by-zero Error''
      else if isr = 0x01 then ''CPU Exception - 0x01 / #DB: Debug''
      else if isr = 0x02 then ''CPU Exception - 0x02:       Non-maskable Interrupt''
      else if isr = 0x03 then ''CPU Exception - 0x03 / #BP: Breakpoint''
      else if isr = 0x04 then ''CPU Exception - 0x04 / #OF: Overflow''
      else if isr = 0x05 then ''CPU Exception - 0x05 / #BR: Bound Range Exceeded''
      else if isr = 0x06 then ''CPU Exception - 0x06 / #UD: Invalid Opcode''
      else if isr = 0x07 then ''CPU Exception - 0x07 / #NM: Device Not Available''
      else if isr = 0x08 then ''CPU Exception - 0x08 / #DF: Double Fault''
      else if isr = 0x09 then ''CPU Exception - 0x09:       Coprocessor Segment Overrun''
      else if isr = 0x0A then ''CPU Exception - 0x0A / #TS: Invalid TSS''
      else if isr = 0x0B then ''CPU Exception - 0x0B / #NP: Segment Not Present''
      else if isr = 0x0C then ''CPU Exception - 0x0C / #SS: Stack-Segment Fault''
      else if isr = 0x0D then ''CPU Exception - 0x0D / #GP: General Protection Fault''
      else if isr = 0x0E then ''CPU Exception - 0x0E / #PF: Page Fault''
      else if isr = 0x10 then ''CPU Exception - 0x10 / #MF: x87 Floating-Point Exception''
      else if isr = 0x11 then ''CPU Exception - 0x11 / #AC: Alignment Check''
      else if isr = 0x12 then ''CPU Exception - 0x12 / #MC: Machine Check''
      else if isr = 0x13 then ''CPU Exception - 0x13 / #XM: SIMD Floating-Point Exception''
      else if isr = 0x1E then ''CPU Exception - 0x1E / #SX: Security Exception''
      else ''CPU Exception - Unknown - No information available'')"

declare exception_text.simps [simp del]

text \<open>The loop over the trace of calls, which starts behind the functions of the handler itself.\<close>

fun trace_loop :: "arch \<Rightarrow> locale_state \<Rightarrow> Debug_Trace option \<Rightarrow> nat list \<Rightarrow> 'a video_scheme \<Rightarrow> 'a video_scheme option" where
  "trace_loop A ls trace [] v = Some v"
| "trace_loop A ls trace (i # is) v =
     (if \<not> i < Debug_TraceGetSymbolCount trace \<or> 6 < i then Some v
      else let symb = Debug_TraceGetSymbolAtIndex trace i
           in if symb = None \<or> Debug_SymbolGetFunctionAddress symb = 0 \<or> Debug_SymbolGetCallSiteAddress symb = 0
              then Some v
              else do { let address = Debug_SymbolGetFunctionAddress symb;
                        (n, p, v1) \<leftarrow> Printf A (ascii ''0x%016llX %s'' @ [0x0A])
                          [VaLong (of_nat address), VaStr (map_option ascii (Debug_SymbolGetFunctionName symb))] ls v;
                        trace_loop A (pf_ls p) trace is v1 })"

definition PrintKernelTrace :: "arch \<Rightarrow> locale_state \<Rightarrow> debug \<Rightarrow> 'a video_scheme \<Rightarrow> 'a video_scheme option" where
  "PrintKernelTrace A ls d v =
     trace_loop A ls (Debug_GetKernelTrace d) [5..<KERNEL_TRACE_MAX_LENGTH + 5] v"

definition exception_format64 :: "u8 list" where
  "exception_format64 =
     ascii ''%s'' @ [0x0A, 0x0A] @
     ascii ''RAX: %#016lX RBX: %#016lX RCX: %#016lX'' @ [0x0A] @
     ascii ''RDX: %#016lX RDI: %#016lX RSI: %#016lX'' @ [0x0A] @
     ascii ''R8:  %#016lX R9:  %#016lX R10: %#016lX'' @ [0x0A] @
     ascii ''R11: %#016lX R12: %#016lX R13: %#016lX'' @ [0x0A] @
     ascii ''R14: %#016lX R15: %#016lX'' @ [0x0A] @
     ascii ''RSP: %#016lX RBP: %#016lX'' @ [0x0A]"

definition exception_format32 :: "u8 list" where
  "exception_format32 =
     ascii ''%s'' @ [0x0A, 0x0A] @
     ascii ''EAX: %#08X EBX: %#08X ECX: %#08X EDI: %#08X'' @ [0x0A] @
     ascii ''ESI: %#08X ESP: %#08X EAX: %#08X EBP: %#08X'' @ [0x0A]"

definition exception_args :: "arch \<Rightarrow> u8 list \<Rightarrow> bytes \<Rightarrow> nat \<Rightarrow> va list" where
  "exception_args A text m regs =
     VaStr (Some text) #
     (case A of
        X86_64 \<Rightarrow>
          (let r = read_registers64 m regs
           in map VaLong [r_rax r, r_rbx r, r_rcx r, r_rdx r, r_rdi r, r_rsi r, r_r8 r, r_r9 r, r_r10 r,
                r_r11 r, r_r12 r, r_r13 r, r_r14 r, r_r15 r, r_rsp r, r_rbp r])
      | I386 \<Rightarrow>
          (let r = read_registers32 m regs
           in map VaInt [r_eax r, r_ebx r, r_ecx r, r_edx r, r_edi r, r_esi r, r_esp r, r_ebp r]))"

definition ISR_Exception :: "arch \<Rightarrow> u8 \<Rightarrow> u64 \<Rightarrow> 'e kernel \<Rightarrow> 'e kernel option" where
  "ISR_Exception A isr regs k =
     (let text = ascii (exception_text isr);
          format = (case A of X86_64 \<Rightarrow> exception_format64 | I386 \<Rightarrow> exception_format32)
      in on_messages (System_Panicf A format (Some (PrintKernelTrace A (k_ls k) (k_debug k)))
           (exception_args A text (k_mem k) (unat regs)) (k_ls k)) k)"


section \<open>System calls\<close>

definition SYS_munmap :: u16 where "SYS_munmap = 73"
definition SYS_mmap :: u16 where "SYS_mmap = 197"

definition SysCall_munmap :: "u64 \<Rightarrow> u64 \<Rightarrow> u64" where
  "SysCall_munmap addr len = 0"

definition SysCall_mmap :: "u64 \<Rightarrow> u64 \<Rightarrow> u32 \<Rightarrow> u32 \<Rightarrow> u32 \<Rightarrow> u64 \<Rightarrow> u64" where
  "SysCall_mmap addr len prot flags fildes off = 0"

definition syscall_result :: "u16 \<Rightarrow> u64 list \<Rightarrow> u64" where
  "syscall_result sys args =
     (if sys = SYS_munmap then SysCall_munmap (args ! 0) (args ! 1)
      else if sys = SYS_mmap
           then SysCall_mmap (args ! 0) (args ! 1) (ucast (args ! 2)) (ucast (args ! 3)) (ucast (args ! 4)) (args ! 5)
      else 0)"

definition ISR_SysCall :: "arch \<Rightarrow> u8 \<Rightarrow> u64 \<Rightarrow> 'e kernel \<Rightarrow> 'e kernel option" where
  "ISR_SysCall A isr regs k =
     (case A of
        X86_64 \<Rightarrow>
          (let r = read_registers64 (k_mem k) (unat regs);
               rsp = unat (r_rsp r);
               sys = ucast (r_rdi r);
               ret = syscall_result sys [r_rsi r, r_rdx r, r_rcx r, r_r8 r, r_r9 r, rd64 (k_mem k) (rsp + 8 * 8)]
           in Some (k\<lparr>k_mem := wr64 (k_mem k) (unat regs) ret\<rparr>))
      | I386 \<Rightarrow>
          (let r = read_registers32 (k_mem k) (unat regs);
               esp = unat (r_esp r);
               arg = (\<lambda>i. rd32 (k_mem k) (esp + 4 * i));
               sys = ucast (arg 5);
               ret = syscall_result sys [ucast (arg 6), ucast (arg 7), ucast (arg 8), ucast (arg 9), ucast (arg 10), ucast (arg 11)]
           in Some (k\<lparr>k_mem := wr32 (k_mem k) (unat regs) (ucast ret)\<rparr>)))"


section \<open>Interrupt requests\<close>

text \<open>The loop reads all codes that the keyboard has.\<close>

partial_function (option) IRQ_Keyboard :: "arch \<Rightarrow> device \<Rightarrow> PIC_IRQ \<Rightarrow> locale_state \<Rightarrow> prompts \<Rightarrow> prompts option" where
  "IRQ_Keyboard A dev irq ls v =
     (let (status, v1) = IO_PortIn dev 0x64 v
      in if status AND 1 \<noteq> 0
         then let (code, v2) = IO_PortIn dev 0x60 v1;
                  format = (if code AND 0x80 = 0 then ascii ''IRQ #%i: received key event %#02X - press''
                            else ascii ''IRQ #%i: received key event %#02X - release'')
              in (case Promptf A format [VaInt (of_nat (irq_value irq)), VaInt (ucast code)] ls v2 of
                    None \<Rightarrow> None
                  | Some (n, p, v3) \<Rightarrow> IRQ_Keyboard A dev irq (pf_ls p) v3)
         else Some v1)"

definition IRQ_SystemTimer :: "'e kernel \<Rightarrow> 'e kernel" where
  "IRQ_SystemTimer k = k"

definition kernel_irq_call :: "arch \<Rightarrow> device \<Rightarrow> (kernel_irq, 'e kernel) irq_call" where
  "kernel_irq_call A dev h irq regs k =
     (case h of
        KIrq_SystemTimer \<Rightarrow> Some (IRQ_SystemTimer k)
      | KIrq_Keyboard \<Rightarrow> on_messages (IRQ_Keyboard A dev irq (k_ls k)) k
      | KIrq_RealTimeClock \<Rightarrow> on_clock (IRQ_RealTimeClock A dev) k)"

text \<open>What the processor runs for a vector, with the address of the saved registers.\<close>

definition kernel_interrupt :: "arch \<Rightarrow> device \<Rightarrow> u8 \<Rightarrow> u64 \<Rightarrow> 'e kernel \<Rightarrow> 'e kernel option" where
  "kernel_interrupt A dev =
     IDT_HandleISR (kernel_call (ISR_Exception A) (ISR_IRQ (kernel_irq_call A dev)) (ISR_SysCall A))"


section \<open>The main function\<close>

datatype 'k start = Running 'k | Fatal 'k

definition init_section :: "string \<Rightarrow> string option \<Rightarrow> ('e kernel \<Rightarrow> 'e kernel start option) \<Rightarrow> 'e kernel start
    \<Rightarrow> 'e kernel start option" where
  "init_section msg status code st =
     (case st of
        Fatal k \<Rightarrow> Some (Fatal k)
      | Running k \<Rightarrow>
          do { r \<leftarrow> code (messages_do (Main_Prompt (Some (ascii msg))) k);
               Some (case r of Fatal k1 \<Rightarrow> Fatal k1
                     | Running k1 \<Rightarrow> Running (messages_do (Main_PromptSuccess (map_option ascii status)) k1)) })"

definition main_screen :: "prompts \<Rightarrow> prompts" where
  "main_screen v =
     (let v1 = Video_Clear (Video_SetBG ColorBlack (Video_SetFG ColorWhite v));
          v2 = Video_SetBG ColorBlue (SetStickyLines 1 v1);
          v3 = snd (Print (ascii ''XEOS Operating System                                                      0.2.0'') v2)
      in Main_PromptWithStatus (Some (ascii ''Entering the kernel:'')) (ascii ''XEOS-0.2.0'') ColorGreenLight
           (Video_SetBG ColorBlack v3))"

definition main_keyboard :: "device \<Rightarrow> 'e kernel \<Rightarrow> 'e kernel start option" where
  "main_keyboard dev k =
     do { let k1 = PIC_UnmaskIRQLine dev IRQ1 (snd (AddIRQHandler IRQ1 (Some KIrq_Keyboard) k));
          (st, k2) \<leftarrow> Keyboard_GetScanCodeSet dev k1;
          Some (if st \<noteq> ScanCodeSet2
                then Fatal (messages_do (\<lambda>v. Main_FatalError (Main_PromptFailure (Some (ascii ''IRQ:1 - FAIL'')) v)) k2)
                else Running k2) }"

definition main_activate :: "device \<Rightarrow> 'e kernel \<Rightarrow> 'e kernel" where
  "main_activate dev k = NMI_Enable dev (CPU_EnableInterrupts (RTC_EnablePeriodicInterrupts dev k))"

text \<open>The parts of the function: the interrupt table, and the handlers.\<close>

definition Main_idt :: "device \<Rightarrow> ('b ISREntry_scheme kernel \<Rightarrow> 'b ISREntry_scheme kernel) \<Rightarrow> 'b ISREntry_scheme kernel
    \<Rightarrow> 'b ISREntry_scheme kernel start option" where
  "Main_idt dev init k =
     do { let k0 = messages_do main_screen (NMI_Disable dev (CPU_DisableInterrupts k));
          s1 \<leftarrow> init_section ''Initializing the IDT:'' None (Some o Running o init) (Running k0);
          s2 \<leftarrow> init_section ''Remapping IRQs:'' None (Some o Running o PIC_Remap dev 0x20 0x28) s1;
          s3 \<leftarrow> init_section ''Installing the exception handlers:'' None
                 (Some o Running o install_loop KIsr_Exception 0x00 (0x14 - 0x00)) s2;
          s4 \<leftarrow> init_section ''Installing the IRQs handlers:'' None
                 (Some o Running o install_loop KIsr_IRQ 0x20 (0x2F - 0x20)) s3;
          s5 \<leftarrow> init_section ''Registering the system call ISR:'' None
                 (Some o Running o IDT_SetISREntry 0x80 0x08 TypeInterrupt32 Ring0 True (Some KIsr_SysCall)) s4;
          init_section ''Activating the IDT:'' None (Some o Running o IDT_Reload) s5 }"

definition Main_start :: "device \<Rightarrow> ('b ISREntry_scheme kernel \<Rightarrow> 'b ISREntry_scheme kernel) \<Rightarrow> 'b ISREntry_scheme kernel
    \<Rightarrow> 'b ISREntry_scheme kernel start option" where
  "Main_start dev init k =
     do { s1 \<leftarrow> Main_idt dev init k;
          s2 \<leftarrow> init_section ''Registering the system timer IRQ:'' (Some ''IRQ:0'')
                 (\<lambda>k. Some (Running (PIC_UnmaskIRQLine dev IRQ0 (snd (AddIRQHandler IRQ0 (Some KIrq_SystemTimer) k))))) s1;
          s3 \<leftarrow> init_section ''Registering the keyboard IRQ:'' (Some ''IRQ:1'') (main_keyboard dev) s2;
          s4 \<leftarrow> init_section ''Registering the RTC IRQ:'' (Some ''IRQ:8'')
                 (\<lambda>k. Some (Running (RTC_SetRate dev 6
                    (PIC_UnmaskIRQLine dev IRQ8 (snd (AddIRQHandler IRQ8 (Some KIrq_RealTimeClock) k)))))) s3;
          init_section ''Activating all interrupts:'' None (Some o Running o main_activate dev) s4 }"

end
