(* ===== verification/XEOS_PrintfFields.thy ===== *)
theory XEOS_PrintfFields
  imports XEOS_PrintfProps
begin

text \<open>
  Hexadecimal conversions with a width, as the screens of the kernel use them for registers and
  addresses: what one conversion prints, and what a row of labelled fields prints.
\<close>

section \<open>The width\<close>

lemma skip_digits_value:
  "locale_reach ls \<Longrightarrow> list_all is_digit ds \<Longrightarrow> xs = [] \<or> \<not> is_digit (hd xs) \<Longrightarrow>
   \<exists>ls'. skip_digits ls (ds @ xs) = Some (ls', xs) \<and> locale_reach ls'"
proof (induction ds arbitrary: ls)
  case Nil
  show ?case
  proof (cases xs)
    case Nil
    then show ?thesis using digit_reach [OF \<open>locale_reach ls\<close>, of 0] by simp
  next
    case (Cons x ys)
    then show ?thesis using digit_reach [OF \<open>locale_reach ls\<close>, of "sint x"] \<open>xs = [] \<or> \<not> is_digit (hd xs)\<close>
      by (simp add: sint_digit)
  qed
next
  case (Cons d ds)
  have "\<exists>ls'. skip_digits (fst (isdigit (sint d) ls)) (ds @ xs) = Some (ls', xs) \<and> locale_reach ls'"
    using Cons.prems digit_reach [OF Cons.prems(1), of "sint d"] by (intro Cons.IH) simp_all
  then show ?case using digit_reach [OF Cons.prems(1), of "sint d"] Cons.prems(2) by (simp add: sint_digit)
qed

lemma fmt_number_value:
  assumes "locale_reach (pf_ls s)" "pf_fmt s = ds @ x # xs" "list_all is_digit ds" "ds \<noteq> []" "\<not> is_digit x"
    "decimal 0 ds < 0x80000000"
  shows "\<exists>ls'. fmt_number s = Some (decimal 0 ds, s\<lparr>pf_fmt := x # xs, pf_ls := ls'\<rparr>) \<and> locale_reach ls'"
proof -
  obtain ls1 where 1: "atoi (pf_ls s) ([] @ ds @ x # xs) = Some (ls1, decimal 0 ds)" "locale_reach ls1"
    using atoi_value [OF assms(1), of "[]" ds "x # xs"] assms(3-6) by auto
  obtain ls2 where "skip_digits ls1 (ds @ x # xs) = Some (ls2, x # xs)" "locale_reach ls2"
    using skip_digits_value [OF 1(2) assms(3), of "x # xs"] assms(5) by auto
  then show ?thesis using 1(1) assms(2) by (auto simp: fmt_number_def)
qed

text \<open>The flags and the width, one pass through the switch each.\<close>

lemma pf_conv_step: "pf_step A h sp s = Some (False, sp1, s1) \<Longrightarrow> pf_conv A h sp s = pf_conv A h sp1 s1"
  by (subst pf_conv.simps) simp

lemma step_flag:
  assumes "pf_fmt s = c # f" "(c, sp') \<in> {(0x23, sp\<lparr>sp_sharp := True\<rparr>), (0x30, sp\<lparr>sp_pad := 0x30\<rparr>),
     (0x6C, sp\<lparr>sp_intLength := long_length A (sp_intLength sp)\<rparr>)}"
  shows "pf_conv A h sp s = pf_conv A h sp' (s\<lparr>pf_fmt := f\<rparr>)"
  by (rule pf_conv_step) (use assms in \<open>auto simp: pf_step_def chr_at_def fmt_next_def\<close>)

lemma step_width:
  assumes "locale_reach (pf_ls s)" "pf_fmt s = d # ds @ x # xs" "0x31 \<le> d" "list_all is_digit (d # ds)" "\<not> is_digit x"
    "decimal 0 (d # ds) < 0x80000000"
  shows "\<exists>ls'. locale_reach ls' \<and> pf_conv A h sp s =
    pf_conv A h (sp\<lparr>sp_minimumWidth := decimal 0 (d # ds)\<rparr>) (s\<lparr>pf_fmt := x # xs, pf_ls := ls'\<rparr>)"
proof -
  obtain ls' where "fmt_number s = Some (decimal 0 (d # ds), s\<lparr>pf_fmt := x # xs, pf_ls := ls'\<rparr>)" "locale_reach ls'"
    using fmt_number_value [of s "d # ds" x xs] assms by auto
  moreover have "d \<notin> {0x6E, 0x2D, 0x2B, 0x20, 0x30, 0x23}" "d \<le> 0x39"
    using assms(3,4) by (auto simp: is_digit_def)
  ultimately show ?thesis
    using assms(2,3) by (intro exI [of _ ls'] conjI pf_conv_step) (simp_all add: pf_step_def chr_at_def)
qed


section \<open>Hexadecimal conversions\<close>

definition hex_digits :: "nat \<Rightarrow> u8 list" where
  "hex_digits n = numeral_of (TypeHexadecimal OR TypeUppercase) 16 n"

definition hex_field :: "nat \<Rightarrow> nat \<Rightarrow> u8 list" where
  "hex_field w n = replicate (w - length (hex_digits n)) 0x30 @ hex_digits n"

lemma digit_no_newline: "d < 16 \<Longrightarrow> digit_nat t d \<noteq> 0x0A"
proof -
  assume "d < 16"
  then have "d \<in> {0, 1, 2, 3, 4, 5, 6, 7, 8, 9, 10, 11, 12, 13, 14, 15}"
    unfolding insert_iff empty_iff by presburger
  then show ?thesis by (auto simp: digit_nat_def digit_char_def)
qed

lemma hex_no_newline: "0x0A \<notin> set (numeral_of t 16 n)"
proof (induction n rule: less_induct)
  case (less n)
  then show ?case
    using digit_no_newline [of n t] digit_no_newline [of "n mod 16" t]
    by (subst numeral_of.simps) (auto simp: less.IH)
qed

lemma main_type_X: "main_type (0 OR type_flags 0x58) = TypeHexadecimal OR TypeUppercase"
  by (simp add: main_type_def type_flags_def int_types Let_def)

lemma conv_int_hex:
  assumes "sp_pad sp = 0x30" "\<not> sp_align sp" "sp_sign sp = SignNormal" "sp_intType sp = 0" "sp_minimumWidth sp = int w" "w < 30"
    and "int_arg A sp (TypeHexadecimal OR TypeUppercase) s = Some (n, TypeHexadecimal OR TypeUppercase, sp_sharp sp, s1)"
  shows "conv_int A True 0x58 sp s =
    Some (put_all True ((if sp_sharp sp then [0x30, 0x78] else []) @ hex_field w (unat n)) s1)"
proof -
  let ?t = "TypeHexadecimal OR TypeUppercase"
  have sign: "put_sign True (sp_sign sp) ?t n s1 = (n, s1)" using assms(3) by (simp add: put_sign_def int_types)
  have prefix: "put_prefix True (sp_sharp sp) ?t n s1 = (16, put_all True (if sp_sharp sp then [0x30, 0x78] else []) s1)"
    by (simp add: put_prefix_def int_types put_all_def)
  have arg: "int_arg A sp (main_type (sp_intType sp OR type_flags 0x58)) s = Some (n, ?t, sp_sharp sp, s1)"
    using assms(4,7) main_type_X by simp
  show ?thesis
    using conv_int_text [OF _ arg sign prefix] assms(1,2,5,6)
    by (simp add: pad_to_def hex_field_def hex_digits_def put_all_append)
qed

lemma scast_mask32: "(scast (x :: u32) :: u64) AND 0xFFFFFFFF = ucast x"
proof (rule bit_word_eqI)
  fix n :: nat assume "n < LENGTH(64)"
  then show "bit ((scast x :: u64) AND 0xFFFFFFFF) n = bit (ucast x :: u64) n"
    using bit_imp_le_length [of x n] by (cases "n < 32") (auto simp: bit_simps mask32_eq min_absorb2)
qed

text \<open>A conversion of the loop, from its percent sign on.\<close>

lemma pf_loop_hex:
  assumes conv: "pf_conv A True spec0 (s\<lparr>pf_fmt := f\<rparr>) = pf_conv A True sp (s\<lparr>pf_fmt := 0x58 # rest, pf_ls := ls'\<rparr>)"
    and s: "pf_fmt s = 0x25 # f" "chr_at f \<noteq> 0x25"
    and arg: "conv_int A True 0x58 sp (s\<lparr>pf_fmt := 0x58 # rest, pf_ls := ls'\<rparr>) =
       Some (put_all True text (s\<lparr>pf_fmt := 0x58 # rest, pf_ls := ls', pf_args := args\<rparr>))"
  shows "pf_loop A True s = pf_loop A True (put_all True text (s\<lparr>pf_fmt := rest, pf_ls := ls', pf_args := args\<rparr>))"
proof -
  have "pf_conv A True sp (s\<lparr>pf_fmt := 0x58 # rest, pf_ls := ls'\<rparr>) =
      Some (put_all True text (s\<lparr>pf_fmt := rest, pf_ls := ls', pf_args := args\<rparr>))"
    using pf_conv_int [of "0x58" "s\<lparr>pf_fmt := 0x58 # rest, pf_ls := ls'\<rparr>" rest A True sp] arg
    by (simp add: int_convs_def put_all_eq)
  then show ?thesis using pf_loop_conv [OF s(2,1), of A True] conv by simp
qed

definition spec_hex :: "bool \<Rightarrow> nat \<Rightarrow> int_length \<Rightarrow> pf_spec" where
  "spec_hex sharp w len = spec0\<lparr>sp_sharp := sharp, sp_pad := 0x30, sp_minimumWidth := int w, sp_intLength := len\<rparr>"

text \<open>The conversions #016lX of x86-64, #08X of i386, and 016llX of both.\<close>

lemma digits_16: "list_all is_digit [0x31, 0x36]" "decimal 0 [0x31, 0x36] = 16" "list_all is_digit [0x38]" "decimal 0 [0x38] = 8"
    "\<not> is_digit 0x6C" "\<not> is_digit 0x58"
  by (simp_all add: is_digit_def decimal_def digit_value_def)

lemma loop_hex64:
  assumes "locale_reach (pf_ls s)" "pf_fmt s = [0x25, 0x23, 0x30, 0x31, 0x36, 0x6C, 0x58] @ rest" "pf_args s = VaLong v # args"
  shows "\<exists>ls'. locale_reach ls' \<and> pf_loop X86_64 True s =
    pf_loop X86_64 True (put_all True ([0x30, 0x78] @ hex_field 16 (unat v)) (s\<lparr>pf_fmt := rest, pf_ls := ls', pf_args := args\<rparr>))"
proof -
  let ?A = X86_64 and ?s = "\<lambda>f. s\<lparr>pf_fmt := f\<rparr>"
  have 1: "pf_conv ?A True spec0 (?s ([0x23, 0x30, 0x31, 0x36, 0x6C, 0x58] @ rest)) =
      pf_conv ?A True (spec0\<lparr>sp_sharp := True, sp_pad := 0x30\<rparr>) (?s ([0x31, 0x36, 0x6C, 0x58] @ rest))"
    by (subst step_flag [where c = "0x23"], simp, simp, subst step_flag [where c = "0x30"], simp_all)
  obtain ls' where ls': "locale_reach ls'" and 2: "pf_conv ?A True (spec0\<lparr>sp_sharp := True, sp_pad := 0x30\<rparr>) (?s ([0x31, 0x36, 0x6C, 0x58] @ rest)) =
      pf_conv ?A True (spec0\<lparr>sp_sharp := True, sp_pad := 0x30, sp_minimumWidth := 16\<rparr>) (s\<lparr>pf_fmt := [0x6C, 0x58] @ rest, pf_ls := ls'\<rparr>)"
    using step_width [of "?s ([0x31, 0x36, 0x6C, 0x58] @ rest)" "0x31" "[0x36]" "0x6C" "0x58 # rest" ?A True
      "spec0\<lparr>sp_sharp := True, sp_pad := 0x30\<rparr>"] assms(1) digits_16 by auto
  have 3: "pf_conv ?A True (spec0\<lparr>sp_sharp := True, sp_pad := 0x30, sp_minimumWidth := 16\<rparr>) (s\<lparr>pf_fmt := [0x6C, 0x58] @ rest, pf_ls := ls'\<rparr>) =
      pf_conv ?A True (spec_hex True 16 Length64) (s\<lparr>pf_fmt := 0x58 # rest, pf_ls := ls'\<rparr>)"
    by (subst step_flag [where c = "0x6C"]) (cases s; simp add: spec_hex_def long_length_def spec0_def)+
  have "conv_int ?A True 0x58 (spec_hex True 16 Length64) (s\<lparr>pf_fmt := 0x58 # rest, pf_ls := ls'\<rparr>) =
      Some (put_all True ([0x30, 0x78] @ hex_field 16 (unat v)) (s\<lparr>pf_fmt := 0x58 # rest, pf_ls := ls', pf_args := args\<rparr>))"
    using conv_int_hex [of "spec_hex True 16 Length64" 16 ?A "s\<lparr>pf_fmt := 0x58 # rest, pf_ls := ls'\<rparr>" v] assms(3)
    by (simp add: spec_hex_def spec0_def int_arg_def TypeNormal_def)
  with trans [OF trans [OF 1 2] 3] ls' show ?thesis
    using assms(2) by (intro exI [of _ ls'] conjI pf_loop_hex [where f = "[0x23, 0x30, 0x31, 0x36, 0x6C, 0x58] @ rest"]) (simp_all add: chr_at_def)
qed

lemma loop_hex32:
  assumes "locale_reach (pf_ls s)" "pf_fmt s = [0x25, 0x23, 0x30, 0x38, 0x58] @ rest" "pf_args s = VaInt v # args"
  shows "\<exists>ls'. locale_reach ls' \<and> pf_loop I386 True s =
    pf_loop I386 True (put_all True ([0x30, 0x78] @ hex_field 8 (unat v)) (s\<lparr>pf_fmt := rest, pf_ls := ls', pf_args := args\<rparr>))"
proof -
  let ?A = I386 and ?s = "\<lambda>f. s\<lparr>pf_fmt := f\<rparr>"
  have 1: "pf_conv ?A True spec0 (?s ([0x23, 0x30, 0x38, 0x58] @ rest)) =
      pf_conv ?A True (spec0\<lparr>sp_sharp := True, sp_pad := 0x30\<rparr>) (?s ([0x38, 0x58] @ rest))"
    by (subst step_flag [where c = "0x23"], simp, simp, subst step_flag [where c = "0x30"], simp_all)
  obtain ls' where ls': "locale_reach ls'" and 2: "pf_conv ?A True (spec0\<lparr>sp_sharp := True, sp_pad := 0x30\<rparr>) (?s ([0x38, 0x58] @ rest)) =
      pf_conv ?A True (spec_hex True 8 LengthNormal) (s\<lparr>pf_fmt := 0x58 # rest, pf_ls := ls'\<rparr>)"
    using step_width [of "?s ([0x38, 0x58] @ rest)" "0x38" "[]" "0x58" rest ?A True "spec0\<lparr>sp_sharp := True, sp_pad := 0x30\<rparr>"] assms(1) digits_16
    by (auto simp: spec_hex_def spec0_def)
  have u: "unat (ucast v :: u64) = unat v" using unat_u32 [of v] by (simp add: unsigned_ucast_eq take_bit_eq_mod)
  have "conv_int ?A True 0x58 (spec_hex True 8 LengthNormal) (s\<lparr>pf_fmt := 0x58 # rest, pf_ls := ls'\<rparr>) =
      Some (put_all True ([0x30, 0x78] @ hex_field 8 (unat v)) (s\<lparr>pf_fmt := 0x58 # rest, pf_ls := ls', pf_args := args\<rparr>))"
    using conv_int_hex [of "spec_hex True 8 LengthNormal" 8 ?A "s\<lparr>pf_fmt := 0x58 # rest, pf_ls := ls'\<rparr>" "ucast v"] assms(3)
    by (simp add: spec_hex_def spec0_def int_arg_def TypeNormal_def scast_mask32 u int_types)
  with trans [OF 1 2] ls' show ?thesis
    using assms(2) by (intro exI [of _ ls'] conjI pf_loop_hex [where f = "[0x23, 0x30, 0x38, 0x58] @ rest"]) (simp_all add: chr_at_def)
qed

lemma loop_hex_address:
  assumes "locale_reach (pf_ls s)" "pf_fmt s = [0x25, 0x30, 0x31, 0x36, 0x6C, 0x6C, 0x58] @ rest" "pf_args s = VaLong v # args"
  shows "\<exists>ls'. locale_reach ls' \<and> pf_loop A True s =
    pf_loop A True (put_all True (hex_field 16 (unat v)) (s\<lparr>pf_fmt := rest, pf_ls := ls', pf_args := args\<rparr>))"
proof -
  let ?s = "\<lambda>f. s\<lparr>pf_fmt := f\<rparr>"
  have 1: "pf_conv A True spec0 (?s ([0x30, 0x31, 0x36, 0x6C, 0x6C, 0x58] @ rest)) =
      pf_conv A True (spec0\<lparr>sp_pad := 0x30\<rparr>) (?s ([0x31, 0x36, 0x6C, 0x6C, 0x58] @ rest))"
    by (subst step_flag [where c = "0x30"]) simp_all
  obtain ls' where ls': "locale_reach ls'" and 2: "pf_conv A True (spec0\<lparr>sp_pad := 0x30\<rparr>) (?s ([0x31, 0x36, 0x6C, 0x6C, 0x58] @ rest)) =
      pf_conv A True (spec0\<lparr>sp_pad := 0x30, sp_minimumWidth := 16\<rparr>) (s\<lparr>pf_fmt := [0x6C, 0x6C, 0x58] @ rest, pf_ls := ls'\<rparr>)"
    using step_width [of "?s ([0x31, 0x36, 0x6C, 0x6C, 0x58] @ rest)" "0x31" "[0x36]" "0x6C" "[0x6C, 0x58] @ rest" A True
      "spec0\<lparr>sp_pad := 0x30\<rparr>"] assms(1) digits_16 by auto
  have 3: "pf_conv A True (spec0\<lparr>sp_pad := 0x30, sp_minimumWidth := 16\<rparr>) (s\<lparr>pf_fmt := [0x6C, 0x6C, 0x58] @ rest, pf_ls := ls'\<rparr>) =
      pf_conv A True (spec_hex False 16 Length64) (s\<lparr>pf_fmt := 0x58 # rest, pf_ls := ls'\<rparr>)"
    by (subst step_flag [where c = "0x6C"], simp, simp, subst step_flag [where c = "0x6C"])
      (cases s; cases A; simp add: spec_hex_def long_length_def spec0_def)+
  have "conv_int A True 0x58 (spec_hex False 16 Length64) (s\<lparr>pf_fmt := 0x58 # rest, pf_ls := ls'\<rparr>) =
      Some (put_all True (hex_field 16 (unat v)) (s\<lparr>pf_fmt := 0x58 # rest, pf_ls := ls', pf_args := args\<rparr>))"
    using conv_int_hex [of "spec_hex False 16 Length64" 16 A "s\<lparr>pf_fmt := 0x58 # rest, pf_ls := ls'\<rparr>" v] assms(3)
    by (simp add: spec_hex_def spec0_def int_arg_def TypeNormal_def)
  with trans [OF trans [OF 1 2] 3] ls' show ?thesis
    using assms(2) by (intro exI [of _ ls'] conjI pf_loop_hex [where f = "[0x30, 0x31, 0x36, 0x6C, 0x6C, 0x58] @ rest"]) (simp_all add: chr_at_def)
qed


section \<open>Rows of fields\<close>

text \<open>
  A conversion that takes one argument of a kind and prints it; the formatter then goes on with the
  rest of the format in a reachable state of the locale.
\<close>

locale conversion =
  fixes A :: arch
    and conv :: "u8 list"
    and arg :: "'w \<Rightarrow> va"
    and shown :: "'w \<Rightarrow> u8 list"
  assumes loop_conv: "locale_reach (pf_ls s) \<Longrightarrow> pf_fmt s = conv @ rest \<Longrightarrow> pf_args s = arg v # args \<Longrightarrow>
    \<exists>ls'. locale_reach ls' \<and>
      pf_loop A True s = pf_loop A True (put_all True (shown v) (s\<lparr>pf_fmt := rest, pf_ls := ls', pf_args := args\<rparr>))"
begin

definition row_format :: "(u8 list \<times> 'w) list \<Rightarrow> u8 list" where
  "row_format fs = concat (map (\<lambda>(label, v). label @ conv) fs)"

definition row_text :: "(u8 list \<times> 'w) list \<Rightarrow> u8 list" where
  "row_text fs = concat (map (\<lambda>(label, v). label @ shown v) fs)"

lemma loop_row:
  assumes "locale_reach (pf_ls s)" "pf_fmt s = row_format fs @ rest" "pf_args s = map (arg \<circ> snd) fs @ args"
    "\<forall>(label, v) \<in> set fs. list_all (\<lambda>c. c \<noteq> 0x25) label"
  shows "\<exists>ls'. locale_reach ls' \<and>
    pf_loop A True s = pf_loop A True (put_all True (row_text fs) (s\<lparr>pf_fmt := rest, pf_ls := ls', pf_args := args\<rparr>))"
  using assms
proof (induction fs arbitrary: s)
  case Nil
  then show ?case by (intro exI [of _ "pf_ls s"]) (cases s; simp add: row_format_def row_text_def put_all_def)
next
  case (Cons f fs)
  obtain label v where f: "f = (label, v)" by (cases f)
  let ?rest = "row_format fs @ rest" and ?args = "map (arg \<circ> snd) fs @ args"
  define s1 where "s1 = put_all True label (s\<lparr>pf_fmt := conv @ ?rest\<rparr>)"
  have "s = s\<lparr>pf_fmt := label @ conv @ ?rest\<rparr>"
    using Cons.prems(2) by (cases s) (simp add: f row_format_def)
  moreover have "list_all (\<lambda>c. c \<noteq> 0x25) label" using Cons.prems(4) by (simp add: f)
  ultimately have 1: "pf_loop A True s = pf_loop A True s1"
    using pf_loop_plain [of label A True "conv @ ?rest" s] by (simp add: s1_def)
  obtain ls1 where ls1: "locale_reach ls1" and
    2: "pf_loop A True s1 = pf_loop A True (put_all True (shown v) (s1\<lparr>pf_fmt := ?rest, pf_ls := ls1, pf_args := ?args\<rparr>))"
    using loop_conv [of s1 ?rest v ?args] Cons.prems(1,3) by (auto simp: s1_def put_all_eq f)
  define s2 where "s2 = put_all True (shown v) (s1\<lparr>pf_fmt := ?rest, pf_ls := ls1, pf_args := ?args\<rparr>)"
  obtain ls' where "locale_reach ls'" and
    3: "pf_loop A True s2 = pf_loop A True (put_all True (row_text fs) (s2\<lparr>pf_fmt := rest, pf_ls := ls', pf_args := args\<rparr>))"
    using Cons.IH [of s2] Cons.prems(4) ls1 by (auto simp: s2_def put_all_eq)
  moreover have "put_all True (row_text fs) (s2\<lparr>pf_fmt := rest, pf_ls := ls', pf_args := args\<rparr>) =
      put_all True (row_text (f # fs)) (s\<lparr>pf_fmt := rest, pf_ls := ls', pf_args := args\<rparr>)"
    by (cases s) (simp add: s2_def s1_def put_all_eq row_text_def f)
  ultimately show ?case using 1 2 by (auto simp: s2_def)
qed

text \<open>A text, a row of fields and a text behind it.\<close>

lemma format_row:
  assumes "locale_reach ls" "list_all (\<lambda>c. c \<noteq> 0x25) pre" "list_all (\<lambda>c. c \<noteq> 0x25) post"
    "\<forall>(label, v) \<in> set fs. list_all (\<lambda>c. c \<noteq> 0x25) label"
  shows "\<exists>p. ProcessFormatString A True ls ([0x25, 0x73] @ pre @ row_format fs @ post) (VaStr (Some str) # map (arg \<circ> snd) fs) = Some p \<and>
    pf_out p = str @ pre @ row_text fs @ post \<and> locale_reach (pf_ls p)"
proof -
  let ?rest = "row_format fs @ post" and ?args = "map (arg \<circ> snd) fs"
  define s1 where "s1 = put_all True str (pf_start ls (pre @ ?rest) ?args)"
  define s2 where "s2 = put_all True pre (s1\<lparr>pf_fmt := ?rest\<rparr>)"
  let ?s0 = "pf_start ls ([0x25, 0x73] @ pre @ ?rest) (VaStr (Some str) # ?args)"
  have "pf_loop A True ?s0 = pf_loop A True s1"
    using pf_loop_conv [of "0x73 # pre @ ?rest" ?s0 A True]
      pf_conv_string [of "?s0\<lparr>pf_fmt := 0x73 # pre @ ?rest\<rparr>" "pre @ ?rest" str ?args spec0 A]
    by (simp add: pf_start_def chr_at_def s1_def spec0_def)
  also have "\<dots> = pf_loop A True s2"
    using pf_loop_plain [OF assms(2), of A True ?rest s1] by (simp add: s2_def s1_def pf_start_def put_all_eq)
  finally have 1: "pf_loop A True ?s0 = pf_loop A True s2" .
  have "pf_ls s2 = ls" "pf_fmt s2 = row_format fs @ post" "pf_args s2 = map (arg \<circ> snd) fs @ []"
    by (simp_all add: s2_def s1_def pf_start_def put_all_eq)
  then obtain ls' where ls': "locale_reach ls'" and
    2: "pf_loop A True s2 = pf_loop A True (put_all True (row_text fs) (s2\<lparr>pf_fmt := post, pf_ls := ls', pf_args := []\<rparr>))"
    using loop_row [of s2 fs post "[]"] assms(1,4) by auto
  define s3 where "s3 = put_all True (row_text fs) (s2\<lparr>pf_fmt := [], pf_ls := ls', pf_args := []\<rparr>)"
  have "pf_loop A True (s3\<lparr>pf_fmt := post @ []\<rparr>) = Some (put_all True post s3)"
    unfolding pf_loop_plain [OF assms(3)] by (simp add: pf_loop_end s3_def put_all_eq)
  then have "pf_loop A True ?s0 = Some (put_all True post s3)"
    using 1 2 by (cases s2) (simp add: s3_def put_all_eq)
  then show ?thesis
    using ls' by (simp add: ProcessFormatString_def s3_def s2_def s1_def put_all_eq pf_start_def)
qed

end

interpretation reg64: conversion X86_64 "[0x25, 0x23, 0x30, 0x31, 0x36, 0x6C, 0x58]" VaLong "\<lambda>v. [0x30, 0x78] @ hex_field 16 (unat v)"
  by unfold_locales (rule loop_hex64)

interpretation reg32: conversion I386 "[0x25, 0x23, 0x30, 0x38, 0x58]" VaInt "\<lambda>v. [0x30, 0x78] @ hex_field 8 (unat v)"
  by unfold_locales (rule loop_hex32)

interpretation address: conversion A "[0x25, 0x30, 0x31, 0x36, 0x6C, 0x6C, 0x58]" VaLong "\<lambda>v. hex_field 16 (unat v)" for A
  by unfold_locales (rule loop_hex_address)

text \<open>The line of a call: an address and a name.\<close>

lemma format_call:
  assumes "locale_reach ls"
  shows "\<exists>p. ProcessFormatString A True ls ([0x30, 0x78] @ [0x25, 0x30, 0x31, 0x36, 0x6C, 0x6C, 0x58] @ [0x20, 0x25, 0x73, 0x0A])
      [VaLong v, VaStr (Some name)] = Some p \<and>
    pf_out p = [0x30, 0x78] @ hex_field 16 (unat v) @ [0x20] @ name @ [0x0A] \<and> locale_reach (pf_ls p)"
proof -
  let ?conv = "[0x25, 0x30, 0x31, 0x36, 0x6C, 0x6C, 0x58 :: u8]" and ?args = "[VaLong v, VaStr (Some name)]"
  let ?s0 = "pf_start ls ([0x30, 0x78] @ ?conv @ [0x20, 0x25, 0x73, 0x0A]) ?args"
  define s1 where "s1 = put_all True [0x30, 0x78] (pf_start ls (?conv @ [0x20, 0x25, 0x73, 0x0A]) ?args)"
  have 1: "pf_loop A True ?s0 = pf_loop A True s1"
    using pf_loop_plain [of "[0x30, 0x78]" A True "?conv @ [0x20, 0x25, 0x73, 0x0A]" ?s0] by (simp add: s1_def pf_start_def)
  have "pf_ls s1 = ls" "pf_fmt s1 = ?conv @ [0x20, 0x25, 0x73, 0x0A]" "pf_args s1 = VaLong v # [VaStr (Some name)]"
    by (simp_all add: s1_def pf_start_def put_all_eq)
  then obtain ls' where ls': "locale_reach ls'" and 2: "pf_loop A True s1 = pf_loop A True (put_all True (hex_field 16 (unat v))
      (s1\<lparr>pf_fmt := [0x20, 0x25, 0x73, 0x0A], pf_ls := ls', pf_args := [VaStr (Some name)]\<rparr>))"
    using address.loop_conv [of s1 _ v "[VaStr (Some name)]" A] assms by metis
  define s2 where "s2 = put_all True (hex_field 16 (unat v) @ [0x20]) (s1\<lparr>pf_fmt := [0x25, 0x73, 0x0A], pf_ls := ls', pf_args := [VaStr (Some name)]\<rparr>)"
  have 3: "pf_loop A True (put_all True (hex_field 16 (unat v))
      (s1\<lparr>pf_fmt := [0x20, 0x25, 0x73, 0x0A], pf_ls := ls', pf_args := [VaStr (Some name)]\<rparr>)) = pf_loop A True s2"
    using pf_loop_plain [of "[0x20]" A True "[0x25, 0x73, 0x0A]" "put_all True (hex_field 16 (unat v))
      (s1\<lparr>pf_fmt := [0x20, 0x25, 0x73, 0x0A], pf_ls := ls', pf_args := [VaStr (Some name)]\<rparr>)"]
    by (cases s1) (simp add: s2_def put_all_eq add.assoc add.commute [of 1 "int _"])
  define s3 where "s3 = put_all True (name @ [0x0A]) (s2\<lparr>pf_fmt := [], pf_args := []\<rparr>)"
  have "pf_loop A True s2 = pf_loop A True (put_all True name (s2\<lparr>pf_fmt := [0x0A], pf_args := []\<rparr>))"
    using pf_loop_conv [of "[0x73, 0x0A]" s2 A True]
      pf_conv_string [of "s2\<lparr>pf_fmt := [0x73, 0x0A]\<rparr>" "[0x0A]" name "[]" spec0 A]
    by (simp add: s2_def chr_at_def spec0_def put_all_eq)
  also have "\<dots> = Some s3"
    by (subst pf_loop.simps) (simp add: s3_def put_all_eq put_def pf_loop_end)
  finally have "pf_loop A True ?s0 = Some s3" using 1 2 3 by simp
  then show ?thesis using ls' by (simp add: ProcessFormatString_def s3_def s2_def s1_def put_all_eq pf_start_def)
qed

end
