(* ===== verification/XEOS_VideoLines.thy ===== *)
theory XEOS_VideoLines
  imports XEOS_Messages XEOS_PrintfFields
begin

text \<open>
  Printing whole lines above the last row of the screen, with any number of sticky lines: each line
  goes into its row, the other cells of the row and all of the memory outside of the rows stay.  The
  screens of a panic are such lines, so they never scroll.
\<close>

section \<open>One line\<close>

lemma handler_print_loop: "0 \<notin> set s \<Longrightarrow> fold CharacterHandler s v = snd (print_loop s n v)"
  by (induction s arbitrary: n v) (simp_all add: CharacterHandler_def)

text \<open>The memory of the rows y to z - 1.\<close>

definition in_rows :: "nat \<Rightarrow> nat \<Rightarrow> nat \<Rightarrow> bool" where
  "in_rows y z a \<longleftrightarrow> cell_addr y 0 \<le> a \<and> a < cell_addr z 0"

lemma print_loop_frame:
  assumes "plain s" "unat (vid_x v) + length s \<le> 80" "unat (vid_y v) < 24" "\<not> in_rows (unat (vid_y v)) (unat (vid_y v) + 1) a"
  shows "vid_mem (snd (print_loop s n v)) a = vid_mem v a"
  using assms
proof (induction s arbitrary: n v)
  case (Cons c s)
  have x: "unat (vid_x v) < 80" "unat (vid_y v) < 24" "c \<noteq> 0" "c \<noteq> 0x0A" using Cons.prems by (auto simp: plain_def)
  note put = Putc_in_line [OF x(3,4,1,2)]
  have "a \<noteq> cell_addr (unat (vid_y v)) (unat (vid_x v))" "a \<noteq> cell_addr (unat (vid_y v)) (unat (vid_x v)) + 1"
    using Cons.prems(4) x(1) by (auto simp: in_rows_def cell_addr_def video_consts)
  moreover have "vid_mem (snd (print_loop s (n + 1) (Putc c False v))) a = vid_mem (Putc c False v) a"
    using Cons.prems x(1) by (intro Cons.IH) (simp_all add: put plain_def u32_unat_eq)
  ultimately show ?case using x(3) by (simp add: put)
qed simp

text \<open>The row r has the text l from its first column on, and blank cells behind it.\<close>

definition row_shows :: "'a video_scheme \<Rightarrow> u8 \<Rightarrow> nat \<Rightarrow> u8 list \<Rightarrow> bool" where
  "row_shows v attr r l \<longleftrightarrow> (\<forall>c<80. vid_cell v r c = (if c < length l then l ! c else 0x20, attr))"

text \<open>
  The lines ls are written to rows that are blank, from the row of the cursor on; nothing else of
  the memory changes.
\<close>

definition wrote_lines :: "'a video_scheme \<Rightarrow> u8 list list \<Rightarrow> 'a video_scheme \<Rightarrow> bool" where
  "wrote_lines v ls w \<longleftrightarrow> vid_x w = 0 \<and> unat (vid_y w) = unat (vid_y v) + length ls \<and> vid_attr w = vid_attr v \<and>
     (\<forall>i<length ls. row_shows v (vid_attr v) (unat (vid_y v) + i) [] \<longrightarrow> row_shows w (vid_attr v) (unat (vid_y v) + i) (ls ! i)) \<and>
     (\<forall>a. \<not> in_rows (unat (vid_y v)) (unat (vid_y v) + length ls) a \<longrightarrow> vid_mem w a = vid_mem v a)"

lemma row_shows_frame:
  assumes "\<forall>a. \<not> in_rows y z a \<longrightarrow> vid_mem w a = vid_mem v a" "r < y \<or> z \<le> r"
  shows "row_shows w attr r l = row_shows v attr r l"
proof -
  have "vid_cell w r c = vid_cell v r c" if "c < 80" for c
  proof -
    have "\<not> in_rows y z (cell_addr r c)" "\<not> in_rows y z (cell_addr r c + 1)"
      using assms(2) that by (auto simp: in_rows_def cell_addr_def video_consts)
    with assms(1) show ?thesis unfolding vid_cell_def by simp
  qed
  then show ?thesis by (simp add: row_shows_def)
qed

lemma wrote_line:
  assumes "plain l" "length l < 80" "vid_x v = 0" "unat (vid_y v) < 24"
  shows "wrote_lines v [l] (fold CharacterHandler (l @ [0x0A]) v)"
proof -
  define u where "u = snd (print_loop l 0 v)"
  have u: "unat (vid_x u) = length l" "vid_y u = vid_y v" "vid_attr u = vid_attr v"
    "\<forall>r c. c < 80 \<longrightarrow> vid_cell u r c = (if r = unat (vid_y v) \<and> c < length l then (l ! c, vid_attr v) else vid_cell v r c)"
    using print_loop_in_line [of l v 0] assms by (auto simp: plain_def u_def Let_def)
  have "fold CharacterHandler (l @ [0x0A]) v = Putc 0x0A False u"
    using handler_print_loop [of l v 0] assms(1) by (auto simp: plain_def u_def CharacterHandler_def)
  also have "\<dots> = u\<lparr>vid_y := vid_y u + 1, vid_x := 0\<rparr>"
    using u(1,2) assms(2,4) by (intro Putc_newline) auto
  finally have w: "fold CharacterHandler (l @ [0x0A]) v = u\<lparr>vid_y := vid_y u + 1, vid_x := 0\<rparr>" .
  have frame: "\<not> in_rows (unat (vid_y v)) (unat (vid_y v) + 1) a \<Longrightarrow> vid_mem u a = vid_mem v a" for a
    unfolding u_def using assms by (intro print_loop_frame) simp_all
  show ?thesis
    unfolding w wrote_lines_def using u assms(4) frame
    by (auto simp: u32_unat_eq row_shows_def vid_cell_def)
qed

lemma wrote_lines_trans:
  assumes "wrote_lines v ls u" "wrote_lines u ms w"
  shows "wrote_lines v (ls @ ms) w"
proof -
  let ?y = "unat (vid_y v)" and ?z = "unat (vid_y v) + length ls" and ?e = "unat (vid_y v) + length ls + length ms"
  note u = assms(1) [unfolded wrote_lines_def] and w = assms(2) [unfolded wrote_lines_def]
  have yu: "unat (vid_y u) = ?z" "vid_attr u = vid_attr v" using u by simp_all
  have fu: "\<forall>a. \<not> in_rows ?y ?z a \<longrightarrow> vid_mem u a = vid_mem v a" using u by simp
  have fw: "\<forall>a. \<not> in_rows ?z ?e a \<longrightarrow> vid_mem w a = vid_mem u a" using w yu by simp
  have "row_shows w (vid_attr v) (?y + i) ((ls @ ms) ! i)"
    if i: "i < length ls + length ms" and blank: "row_shows v (vid_attr v) (?y + i) []" for i
  proof (cases "i < length ls")
    case True
    then have "row_shows u (vid_attr v) (?y + i) (ls ! i)" using u blank by blast
    then show ?thesis using True by (simp add: row_shows_frame [OF fw] nth_append)
  next
    case False
    then obtain j where j: "i = length ls + j" "j < length ms" using i by (metis le_add_diff_inverse nat_add_left_cancel_less not_less)
    have "row_shows u (vid_attr v) (?z + j) []"
      using blank by (simp add: row_shows_frame [OF fu] j add.assoc)
    then have "row_shows w (vid_attr v) (?z + j) (ms ! j)" using w yu j(2) by metis
    then show ?thesis by (simp add: j nth_append add.assoc)
  qed
  moreover have "vid_mem w a = vid_mem v a" if "\<not> in_rows ?y (?y + length (ls @ ms)) a" for a
  proof -
    have "\<not> in_rows ?y ?z a" "\<not> in_rows ?z ?e a"
      using that by (auto simp: in_rows_def cell_addr_def video_consts)
    then show ?thesis using fu fw by simp
  qed
  ultimately show ?thesis using u w by (simp add: wrote_lines_def add.assoc)
qed

definition line_text :: "u8 list list \<Rightarrow> u8 list" where
  "line_text ls = concat (map (\<lambda>l. l @ [0x0A]) ls)"

definition short_line :: "u8 list \<Rightarrow> bool" where
  "short_line l \<longleftrightarrow> plain l \<and> length l < 80"

lemma wrote_text:
  assumes "\<forall>l\<in>set ls. short_line l" "vid_x v = 0" "unat (vid_y v) + length ls \<le> 24"
  shows "wrote_lines v ls (fold CharacterHandler (line_text ls) v)"
  using assms
proof (induction ls arbitrary: v)
  case Nil
  then show ?case by (simp add: wrote_lines_def line_text_def)
next
  case (Cons l ls)
  let ?u = "fold CharacterHandler (l @ [0x0A]) v"
  have 1: "wrote_lines v [l] ?u"
    using Cons.prems by (intro wrote_line) (simp_all add: short_line_def)
  moreover have "wrote_lines ?u ls (fold CharacterHandler (line_text ls) ?u)"
    using Cons.prems 1 by (intro Cons.IH) (simp_all add: wrote_lines_def)
  ultimately have "wrote_lines v ([l] @ ls) (fold CharacterHandler (line_text ls) ?u)"
    by (rule wrote_lines_trans)
  then show ?case by (simp add: line_text_def)
qed

lemma wrote_move: "wrote_lines v ls (MoveCursor (vid_x w) (vid_y w) w) = wrote_lines v ls w"
  by (simp add: wrote_lines_def row_shows_def vid_cell_def)

lemma wrote_VPrintf:
  assumes "ProcessFormatString A True ls format args = Some p" "pf_out p = line_text ms"
    "\<forall>l\<in>set ms. short_line l" "vid_x v = 0" "unat (vid_y v) + length ms \<le> 24"
  shows "\<exists>n w. VPrintf A format args ls v = Some (n, p, w) \<and> wrote_lines v ms w"
  using assms(1,2) wrote_text [OF assms(3-5)]
  by (simp add: VPrintf_def Let_def Video_X_def Video_Y_def wrote_move)

lemma wrote_Print:
  assumes "\<forall>l\<in>set ms. short_line l" "vid_x v = 0" "unat (vid_y v) + length ms \<le> 24"
  shows "wrote_lines v ms (snd (Print (line_text ms) v))"
proof -
  have "0 \<notin> set (line_text ms)" using assms(1) by (auto simp: line_text_def short_line_def plain_def)
  then have "snd (print_loop (line_text ms) 0 v) = fold CharacterHandler (line_text ms) v"
    using handler_print_loop by metis
  then show ?thesis
    using wrote_text [OF assms] by (simp add: Print_def case_prod_beta Let_def Video_X_def Video_Y_def wrote_move)
qed


section \<open>The banner of a panic\<close>

text \<open>
  The cursor is in column x of row y, and the memory outside of the eight first rows is that of a
  state v0.
\<close>

definition banner_at :: "'a video_scheme \<Rightarrow> nat \<Rightarrow> nat \<Rightarrow> 'a video_scheme \<Rightarrow> bool" where
  "banner_at v0 x y w \<longleftrightarrow> unat (vid_x w) = x \<and> unat (vid_y w) = y \<and>
     (\<forall>a. \<not> in_rows 0 8 a \<longrightarrow> vid_mem w a = vid_mem v0 a)"

lemma banner_loop:
  assumes "banner_at v0 x y w" "plain s" "x + length s \<le> 80" "y < 8"
  shows "banner_at v0 (x + length s) y (snd (print_loop s n w))"
proof -
  have "unat (vid_x w) + length s \<le> 80" "unat (vid_y w) < 24" "\<forall>c\<in>set s. c \<noteq> 0 \<and> c \<noteq> 0x0A"
    using assms by (auto simp: banner_at_def plain_def)
  note loop = print_loop_in_line [OF this(3,1,2), of n] and frame = print_loop_frame [OF assms(2) this(1,2), of _ n]
  have "\<not> in_rows 0 8 a \<Longrightarrow> \<not> in_rows (unat (vid_y w)) (unat (vid_y w) + 1) a" for a
    using assms(1,4) by (auto simp: banner_at_def in_rows_def cell_addr_def video_consts)
  then show ?thesis using loop frame assms(1) by (auto simp: banner_at_def Let_def)
qed

lemma banner_print: "banner_at v0 x y (snd (Print s w)) = banner_at v0 x y (snd (print_loop s 0 w))"
  by (simp add: banner_at_def Print_def case_prod_beta Let_def Video_X_def Video_Y_def)

lemma banner_text:
  "banner_at v0 x y w \<Longrightarrow> plain s \<Longrightarrow> x + length s \<le> 80 \<Longrightarrow> y < 8 \<Longrightarrow> banner_at v0 (x + length s) y (snd (Print s w))"
  by (simp add: banner_print banner_loop)

lemma banner_putc: "banner_at v0 x y w \<Longrightarrow> x < 80 \<Longrightarrow> y < 8 \<Longrightarrow> banner_at v0 0 (y + 1) (Putc 0x0A False w)"
  by (subst Putc_newline) (auto simp: banner_at_def u32_unat_eq)

lemma banner_newline: "banner_at v0 x y w \<Longrightarrow> x < 80 \<Longrightarrow> y < 8 \<Longrightarrow> banner_at v0 0 (y + 1) (snd (Print [0x0A] w))"
  using banner_putc by (simp add: banner_print)

lemma banner_color: "banner_at v0 x y (Video_SetBG c (Video_SetFG d w)) = banner_at v0 x y w"
  by (simp add: banner_at_def Video_SetBG_def Video_SetFG_def)

lemma print_loop_texts: "0 \<notin> set s \<Longrightarrow> snd (print_loop (s @ t) n w) = snd (print_loop t 0 (snd (print_loop s n w)))"
proof -
  have "snd (print_loop t k u) = snd (print_loop t 0 u)" for k and u :: "'a video_scheme"
    by (induction t arbitrary: k u) (simp_all, metis)
  then show "0 \<notin> set s \<Longrightarrow> ?thesis" by (metis print_loop_append)
qed

lemma banner_lines:
  assumes "banner_at v0 0 y w" "plain s" "plain t" "length s < 80" "length t \<le> 80" "y < 7"
  shows "banner_at v0 (length t) (y + 1) (snd (Print (s @ [0x0A] @ t) w))"
proof -
  have "0 \<notin> set s" using assms(2) by (auto simp: plain_def)
  then have "snd (print_loop (s @ [0x0A] @ t) 0 w) = snd (print_loop t 1 (Putc 0x0A False (snd (print_loop s 0 w))))"
    by (simp add: print_loop_texts)
  moreover have "banner_at v0 (length s) y (snd (print_loop s 0 w))"
    using banner_loop [OF assms(1,2)] assms(4,6) by simp
  ultimately show ?thesis
    unfolding banner_print using banner_loop [OF banner_putc, where s = t and n = 1] assms by force
qed

definition panic_attr :: u8 where "panic_attr = 0x1F"

lemma white_on_blue: "vid_attr (Video_SetBG ColorBlue (Video_SetFG ColorWhite v)) = panic_attr"
proof -
  have "(((x AND 0xF0) OR 0x0F) AND 0x0F :: u8) = 0x0F" for x by (rule word_ao_absorbs)
  then show ?thesis by (simp add: Video_SetBG_def Video_SetFG_def panic_attr_def)
qed

lemma cleared_row:
  assumes "vid_attr v = panic_attr" "r < 25"
  shows "row_shows (Video_Clear v) panic_attr r []"
proof -
  have "vid_mem (Video_Clear v) (cell_addr r c + d) = (if d = 0 then 0x20 else panic_attr)" if "c < 80" "d < 2" for c d
  proof -
    have at: "VIDEO_MEM \<le> cell_addr r c + d" "cell_addr r c + d < VIDEO_MEM + 2 * (0 + VIDEO_COLS * VIDEO_ROWS)"
      using assms(2) that by (simp_all add: cell_addr_def video_consts)
    have "even (cell_addr r c - VIDEO_MEM)" by (simp add: cell_addr_def)
    with at show ?thesis
      using less_2_cases [OF that(2)] by (elim disjE)
        (simp_all add: Video_Clear_def Let_def assms(1) panic_attr_def clear_cells_at [of _ 0] Video_X_def Video_Y_def cell_addr_def)
  qed
  from this [of _ 0] this [of _ 1] show ?thesis by (simp add: row_shows_def vid_cell_def)
qed

lemma Putc_attr [simp]: "vid_attr (Putc c u v) = vid_attr v"
  by (simp add: Putc_def Let_def)

lemma Print_attr [simp]: "vid_attr (snd (Print s v)) = vid_attr v"
proof -
  have "vid_attr (snd (print_loop s n v)) = vid_attr v" for n
    by (induction s n v rule: print_loop.induct) simp_all
  then show ?thesis by (simp add: Print_def case_prod_beta Let_def)
qed

text \<open>The two parts of the banner: the title in row 1, and the three lines of text.\<close>

lemma banner_title:
  assumes "banner_at v0 0 0 v"
  shows "banner_at v0 0 3 (panic_newlines (snd (Print (replicate 29 0x20) (Video_SetBG ColorBlue (Video_SetFG ColorWhite
    (snd (Print (ascii '' XEOS - KERNEL PANIC '') (Video_SetBG ColorWhite (Video_SetFG ColorBlue
      (snd (Print (replicate 29 0x20) (snd (Print [0x0A] v)))))))))))))"
proof -
  let ?t = "ascii '' XEOS - KERNEL PANIC ''" and ?b = "replicate 29 (0x20 :: u8)"
  let ?v = "snd (Print ?b (snd (Print [0x0A] v)))"
  let ?c1 = "\<lambda>w. Video_SetBG ColorWhite (Video_SetFG ColorBlue w)" and ?c2 = "\<lambda>w. Video_SetBG ColorBlue (Video_SetFG ColorWhite w)"
  have t: "length ?t = 21" "plain ?t" "length ?b = 29" "plain ?b" by (simp_all add: ascii_def plain_def)
  have "banner_at v0 (0 + length ?b) 1 ?v"
    using t banner_newline [OF assms] by (intro banner_text) simp_all
  then have "banner_at v0 (29 + length ?t) 1 (snd (Print ?t (?c1 ?v)))"
    using t by (intro banner_text) (simp_all add: banner_color)
  then have "banner_at v0 (50 + length ?b) 1 (snd (Print ?b (?c2 (snd (Print ?t (?c1 ?v))))))"
    using t by (intro banner_text) (simp_all add: banner_color)
  from banner_newline [OF banner_newline [OF this]] show ?thesis using t by (simp add: panic_newlines_def numeral_3_eq_3)
qed

lemma banner_body:
  assumes "banner_at v0 0 3 v"
  shows "banner_at v0 0 8 (panic_newlines (snd (Print (ascii ''Please restart your computer. Any unsaved information will be lost.'')
    (panic_newlines (snd (Print (ascii ''A problem has been detected and XEOS has been shut down to prevent damage'' @ [0x0A] @
      ascii ''to your computer.'') v))))))" (is "banner_at v0 0 8 (panic_newlines (snd (Print ?u (panic_newlines (snd (Print (?s @ [0x0A] @ ?t) v))))))")
proof -
  have l: "plain ?s" "plain ?t" "plain ?u" "length ?s < 80" "length ?t = 17" "length ?u = 67" by (simp_all add: plain_def ascii_def)
  have "banner_at v0 17 4 (snd (Print (?s @ [0x0A] @ ?t) v))"
    using banner_lines [OF assms l(1,2,4)] l by simp
  from banner_newline [OF banner_newline [OF this]]
  have "banner_at v0 0 6 (panic_newlines (snd (Print (?s @ [0x0A] @ ?t) v)))" by (simp add: panic_newlines_def)
  from banner_text [OF this l(3)]
  have "banner_at v0 67 6 (snd (Print ?u (panic_newlines (snd (Print (?s @ [0x0A] @ ?t) v)))))" using l by simp
  from banner_newline [OF banner_newline [OF this]] show ?thesis by (simp add: panic_newlines_def)
qed

text \<open>
  After the banner the cursor is at the start of row 8, the rows from there on are blank, and
  nothing outside of the screen has been written, whatever the console was.
\<close>

lemma panic_banner_at:
  "vid_x (panic_banner v) = 0 \<and> unat (vid_y (panic_banner v)) = 8 \<and> vid_attr (panic_banner v) = panic_attr \<and>
   (\<forall>r. 8 \<le> r \<and> r < 25 \<longrightarrow> row_shows (panic_banner v) panic_attr r []) \<and>
   (\<forall>a. \<not> on_screen a \<longrightarrow> vid_mem (panic_banner v) a = vid_mem v a)"
proof -
  define v0 where "v0 = Video_SetBG ColorBlue (Video_SetFG ColorWhite (CPU_DisableInterrupts v))"
  define v1 where "v1 = Video_Clear v0"
  have v0: "vid_attr v0 = panic_attr" "vid_mem v0 = vid_mem v"
    by (simp_all add: v0_def white_on_blue) (simp add: Video_SetBG_def Video_SetFG_def io_simps Let_def)
  have "banner_at v1 0 0 v1" by (simp add: banner_at_def v1_def)
  from banner_body [OF banner_title [OF this]]
  have b: "banner_at v1 0 8 (panic_banner v)" by (simp only: panic_banner_def Let_def v1_def v0_def)
  then have frame: "\<forall>a. \<not> in_rows 0 8 a \<longrightarrow> vid_mem (panic_banner v) a = vid_mem v1 a" by (simp add: banner_at_def)
  have "\<forall>r. 8 \<le> r \<and> r < 25 \<longrightarrow> row_shows (panic_banner v) panic_attr r []"
    using cleared_row [OF v0(1)] by (simp add: row_shows_frame [OF frame] v1_def)
  moreover have "\<not> on_screen a \<Longrightarrow> \<not> in_rows 0 8 a" for a
    by (auto simp: on_screen_def in_rows_def cell_addr_def video_consts)
  moreover have "vid_attr (panic_banner v) = panic_attr"
    by (simp add: panic_banner_def Let_def panic_newlines_def white_on_blue)
  ultimately show ?thesis using b by (simp add: banner_at_def v1_def v0 unat_eq_zero)
qed

end
