(* ===== verification/XEOS_ExceptionProps.thy ===== *)
theory XEOS_ExceptionProps
  imports XEOS_Kernel XEOS_VideoLines
begin

text \<open>
  Properties of the panic screens and of the service routine of exceptions: what the rows of the
  screen show, that the routine always ends with the processor halted and interrupts disabled, and
  that it writes only the screen, with any number of sticky lines.
\<close>

section \<open>What the screen of an exception shows\<close>

definition nl :: u8 where "nl = 0x0A"

text \<open>The labels of the formats with the registers that are passed for them.\<close>

definition fields64 :: "registers64 \<Rightarrow> (u8 list \<times> u64) list" where
  "fields64 r =
     [(ascii ''RAX: '', r_rax r), (ascii '' RBX: '', r_rbx r), (ascii '' RCX: '', r_rcx r),
      (nl # ascii ''RDX: '', r_rdx r), (ascii '' RDI: '', r_rdi r), (ascii '' RSI: '', r_rsi r),
      (nl # ascii ''R8:  '', r_r8 r), (ascii '' R9:  '', r_r9 r), (ascii '' R10: '', r_r10 r),
      (nl # ascii ''R11: '', r_r11 r), (ascii '' R12: '', r_r12 r), (ascii '' R13: '', r_r13 r),
      (nl # ascii ''R14: '', r_r14 r), (ascii '' R15: '', r_r15 r),
      (nl # ascii ''RSP: '', r_rsp r), (ascii '' RBP: '', r_rbp r)]"

definition fields32 :: "registers32 \<Rightarrow> (u8 list \<times> u32) list" where
  "fields32 r =
     [(ascii ''EAX: '', r_eax r), (ascii '' EBX: '', r_ebx r), (ascii '' ECX: '', r_ecx r), (ascii '' EDI: '', r_edx r),
      (nl # ascii ''ESI: '', r_edi r), (ascii '' ESP: '', r_esi r), (ascii '' EAX: '', r_esp r), (ascii '' EBP: '', r_ebp r)]"

definition screen :: "nat \<Rightarrow> (u8 list \<times> nat) list \<Rightarrow> u8 list" where
  "screen w fs = [nl, nl] @ concat (map (\<lambda>(label, v). label @ ascii ''0x'' @ hex_field w v) fs) @ [nl]"

lemma ascii_0x: "ascii ''0x'' = [0x30, 0x78]"
  by (simp add: ascii_def)

lemma format64_row: "exception_format64 = [0x25, 0x73] @ [nl, nl] @ reg64.row_format (fields64 r) @ [nl]"
  by (simp add: exception_format64_def fields64_def reg64.row_format_def ascii_def nl_def)

lemma format32_row: "exception_format32 = [0x25, 0x73] @ [nl, nl] @ reg32.row_format (fields32 r) @ [nl]"
  by (simp add: exception_format32_def fields32_def reg32.row_format_def ascii_def nl_def)

lemma labels_plain:
  "\<forall>(label, v) \<in> set (fields64 r). list_all (\<lambda>c. c \<noteq> 0x25) label"
  "\<forall>(label, v) \<in> set (fields32 q). list_all (\<lambda>c. c \<noteq> 0x25) label"
  by (simp_all add: fields64_def fields32_def ascii_def nl_def)

lemma exception_text64:
  assumes "locale_reach ls"
  shows "\<exists>p. ProcessFormatString X86_64 True ls exception_format64 (exception_args X86_64 msg m regs) = Some p \<and>
    pf_out p = msg @ screen 16 (map (apsnd unat) (fields64 (read_registers64 m regs))) \<and> locale_reach (pf_ls p)"
proof -
  let ?r = "read_registers64 m regs"
  have args: "exception_args X86_64 msg m regs = VaStr (Some msg) # map (VaLong \<circ> snd) (fields64 ?r)"
    by (simp add: exception_args_def fields64_def Let_def)
  have "screen 16 (map (apsnd unat) (fields64 ?r)) = [nl, nl] @ reg64.row_text (fields64 ?r) @ [nl]"
    unfolding screen_def reg64.row_text_def ascii_0x by (simp add: comp_def split_def)
  then show ?thesis
    using reg64.format_row [OF assms _ _ labels_plain(1), of "[nl, nl]" "[nl]" ?r msg]
    unfolding args format64_row [of ?r] by (simp add: nl_def)
qed

lemma exception_text32:
  assumes "locale_reach ls"
  shows "\<exists>p. ProcessFormatString I386 True ls exception_format32 (exception_args I386 msg m regs) = Some p \<and>
    pf_out p = msg @ screen 8 (map (apsnd unat) (fields32 (read_registers32 m regs))) \<and> locale_reach (pf_ls p)"
proof -
  let ?r = "read_registers32 m regs"
  have args: "exception_args I386 msg m regs = VaStr (Some msg) # map (VaInt \<circ> snd) (fields32 ?r)"
    by (simp add: exception_args_def fields32_def Let_def)
  have "screen 8 (map (apsnd unat) (fields32 ?r)) = [nl, nl] @ reg32.row_text (fields32 ?r) @ [nl]"
    unfolding screen_def reg32.row_text_def ascii_0x by (simp add: comp_def split_def)
  then show ?thesis
    using reg32.format_row [OF assms _ _ labels_plain(2), of "[nl, nl]" "[nl]" ?r msg]
    unfolding args format32_row [of ?r] by (simp add: nl_def)
qed


text \<open>
  The lines of the screen: the name of the exception, an empty line, and the registers.  On i386 the
  labels and the arguments do not match: behind EDI stands edx, behind ESI edi, behind ESP esi, and
  behind a second EAX esp.
\<close>

definition register_line :: "nat \<Rightarrow> (string \<times> nat) list \<Rightarrow> u8 list" where
  "register_line w fs = tl (concat (map (\<lambda>(label, v). 0x20 # ascii label @ hex_field w v) fs))"

definition register_lines64 :: "registers64 \<Rightarrow> u8 list list" where
  "register_lines64 r = map (register_line 16 \<circ> map (apsnd unat))
     [[(''RAX: 0x'', r_rax r), (''RBX: 0x'', r_rbx r), (''RCX: 0x'', r_rcx r)],
      [(''RDX: 0x'', r_rdx r), (''RDI: 0x'', r_rdi r), (''RSI: 0x'', r_rsi r)],
      [(''R8:  0x'', r_r8 r), (''R9:  0x'', r_r9 r), (''R10: 0x'', r_r10 r)],
      [(''R11: 0x'', r_r11 r), (''R12: 0x'', r_r12 r), (''R13: 0x'', r_r13 r)],
      [(''R14: 0x'', r_r14 r), (''R15: 0x'', r_r15 r)],
      [(''RSP: 0x'', r_rsp r), (''RBP: 0x'', r_rbp r)]]"

definition register_lines32 :: "registers32 \<Rightarrow> u8 list list" where
  "register_lines32 r = map (register_line 8 \<circ> map (apsnd unat))
     [[(''EAX: 0x'', r_eax r), (''EBX: 0x'', r_ebx r), (''ECX: 0x'', r_ecx r), (''EDI: 0x'', r_edx r)],
      [(''ESI: 0x'', r_edi r), (''ESP: 0x'', r_esi r), (''EAX: 0x'', r_esp r), (''EBP: 0x'', r_ebp r)]]"

definition exception_lines :: "arch \<Rightarrow> u8 \<Rightarrow> bytes \<Rightarrow> nat \<Rightarrow> u8 list list" where
  "exception_lines A isr m regs = ascii (exception_text isr) # [] #
     (case A of X86_64 \<Rightarrow> register_lines64 (read_registers64 m regs) | I386 \<Rightarrow> register_lines32 (read_registers32 m regs))"

lemma hex_field_short:
  assumes "n < 16 ^ w" "0 < w"
  shows "length (hex_field w n) = w" "plain (hex_field w n)"
proof -
  obtain k where k: "w = Suc k" using assms(2) by (cases w) simp_all
  have "length (hex_digits n) \<le> w"
    using numeral_length [of n 16 k] assms(1) unfolding k hex_digits_def by simp
  then show "length (hex_field w n) = w" by (simp add: hex_field_def)
  have "0 \<notin> set (hex_digits n) \<and> 0x0A \<notin> set (hex_digits n)"
    unfolding hex_digits_def using numeral_nonzero [of 16] hex_no_newline by simp
  then show "plain (hex_field w n)" by (auto simp: hex_field_def plain_def)
qed

lemma hex_words:
  "length (hex_field 16 (unat (x :: u64))) = 16" "plain (hex_field 16 (unat x))"
  "length (hex_field 8 (unat (y :: u32))) = 8" "plain (hex_field 8 (unat y))"
  using hex_field_short [of "unat x" 16] hex_field_short [of "unat y" 8] unat_u64 [of x] unat_u32 [of y] by simp_all

lemma plain_simps [simp]: "plain []" "plain (c # s) \<longleftrightarrow> c \<noteq> 0 \<and> c \<noteq> 0x0A \<and> plain s" "plain (s @ t) \<longleftrightarrow> plain s \<and> plain t"
  by (auto simp: plain_def)

lemma register_lines_short:
  "l \<in> set (register_lines64 r) \<Longrightarrow> short_line l" "l \<in> set (register_lines32 q) \<Longrightarrow> short_line l"
  unfolding register_lines64_def register_lines32_def
  by (auto simp: register_line_def short_line_def hex_words ascii_def)

lemma exception_text_short: "short_line (ascii (exception_text isr))"
  unfolding exception_text.simps [of isr] by (simp add: short_line_def ascii_def)

lemma exception_lines_short: "\<forall>l\<in>set (exception_lines A isr m regs). short_line l" "length (exception_lines A isr m regs) \<le> 8"
  using register_lines_short exception_text_short
  by (auto simp: exception_lines_def short_line_def [of "[]"] register_lines64_def register_lines32_def split: arch.splits)

lemma lines_text:
  "line_text (msg # [] # register_lines64 r) = msg @ screen 16 (map (apsnd unat) (fields64 r))"
  "line_text (msg # [] # register_lines32 q) = msg @ screen 8 (map (apsnd unat) (fields32 q))"
  by (simp_all add: line_text_def screen_def fields64_def fields32_def register_lines64_def register_lines32_def
      register_line_def nl_def ascii_def)

lemma exception_prints:
  assumes "locale_reach ls"
  shows "\<exists>p. ProcessFormatString A True ls (case A of X86_64 \<Rightarrow> exception_format64 | I386 \<Rightarrow> exception_format32)
      (exception_args A (ascii (exception_text isr)) m regs) = Some p \<and>
    pf_out p = line_text (exception_lines A isr m regs) \<and> locale_reach (pf_ls p)"
  using exception_text64 [OF assms, of "ascii (exception_text isr)" m regs]
    exception_text32 [OF assms, of "ascii (exception_text isr)" m regs]
  by (cases A) (simp_all add: exception_lines_def lines_text)


section \<open>The trace of calls\<close>

lemma call_format: "ascii ''0x%016llX %s'' @ [0x0A] =
    [0x30, 0x78] @ [0x25, 0x30, 0x31, 0x36, 0x6C, 0x6C, 0x58] @ [0x20, 0x25, 0x73, 0x0A]"
  by (simp add: ascii_def)

text \<open>The line of a function; the loop prints at most the functions 5 and 6 of the trace.\<close>

definition call_line :: "nat \<Rightarrow> u8 list" where
  "call_line a = ascii ''0x'' @ hex_field 16 (unat (of_nat a :: u64)) @ ascii '' <unknown_function>''"

lemma call_line_short: "short_line (call_line a)"
  by (simp add: short_line_def call_line_def hex_words ascii_def)

lemma trace_loop_lines:
  assumes "locale_reach ls" "vid_x v = 0" "unat (vid_y v) + card (set is \<inter> {..6}) \<le> 24" "distinct is"
  shows "\<exists>w ms. trace_loop A ls tr is v = Some w \<and> wrote_lines v ms w \<and> length ms \<le> card (set is \<inter> {..6})"
  using assms
proof (induction "is" arbitrary: ls v)
  case Nil
  then show ?case by (intro exI [of _ v] exI [of _ "[]"]) (simp add: wrote_lines_def)
next
  case (Cons i js)
  let ?symb = "Debug_TraceGetSymbolAtIndex tr i"
  show ?case
  proof (cases "\<not> i < Debug_TraceGetSymbolCount tr \<or> 6 < i \<or> ?symb = None \<or> Debug_SymbolGetFunctionAddress ?symb = 0 \<or>
      Debug_SymbolGetCallSiteAddress ?symb = 0")
    case True
    then show ?thesis using Cons.prems(2) by (intro exI [of _ v] exI [of _ "[]"]) (auto simp: Let_def wrote_lines_def)
  next
    case False
    then obtain x where symb: "?symb = Some x" by auto
    let ?name = "ascii ''<unknown_function>''" and ?a = "Debug_SymbolGetFunctionAddress ?symb"
    have card: "card (set (i # js) \<inter> {..6}) = Suc (card (set js \<inter> {..6}))" using Cons.prems(4) False by simp
    obtain p where p: "ProcessFormatString A True ls (ascii ''0x%016llX %s'' @ [0x0A]) [VaLong (of_nat ?a), VaStr (Some ?name)] = Some p"
      "locale_reach (pf_ls p)" "pf_out p = line_text [call_line ?a]"
      using format_call [OF Cons.prems(1), of A "of_nat ?a" ?name]
      unfolding call_format line_text_def call_line_def by (auto simp: ascii_def)
    obtain n u where u: "VPrintf A (ascii ''0x%016llX %s'' @ [0x0A]) [VaLong (of_nat ?a), VaStr (Some ?name)] ls v = Some (n, p, u)"
      "wrote_lines v [call_line ?a] u"
      using wrote_VPrintf [OF p(1,3) _ Cons.prems(2)] call_line_short [of ?a] Cons.prems(3) card by auto
    have "unat (vid_y u) + card (set js \<inter> {..6}) \<le> 24" using u(2) Cons.prems(3) card by (simp add: wrote_lines_def)
    then obtain w ms where w: "trace_loop A (pf_ls p) tr js u = Some w" "wrote_lines u ms w" "length ms \<le> card (set js \<inter> {..6})"
      using Cons.IH [OF p(2), of u] u(2) Cons.prems(4) by (auto simp: wrote_lines_def)
    have "trace_loop A ls tr (i # js) v = Some w"
      using False u(1) w(1) symb by (simp add: Let_def Printf_def Debug_SymbolGetFunctionName_def)
    moreover have "wrote_lines v ([call_line ?a] @ ms) w" by (rule wrote_lines_trans [OF u(2) w(2)])
    moreover have "length ([call_line ?a] @ ms) \<le> card (set (i # js) \<inter> {..6})" using w(3) card by simp
    ultimately show ?thesis by blast
  qed
qed

lemma trace_lines:
  assumes "locale_reach ls" "vid_x v = 0" "unat (vid_y v) \<le> 22"
  shows "\<exists>w ms. PrintKernelTrace A ls d v = Some w \<and> wrote_lines v ms w \<and> length ms \<le> 2"
proof -
  have "set [5..<KERNEL_TRACE_MAX_LENGTH + 5] \<inter> {..6} = {5, 6}" by (auto simp: KERNEL_TRACE_MAX_LENGTH_def)
  then show ?thesis
    using trace_loop_lines [OF assms(1,2), of "[5..<KERNEL_TRACE_MAX_LENGTH + 5]"] assms(3) by (simp add: PrintKernelTrace_def numeral_2_eq_2)
qed


section \<open>The service routine\<close>

lemma halted: "\<not> io_if (CPU_Halt s)" "last (io_trace (CPU_Halt s)) = CpuHalt"
  by (simp_all add: io_simps Let_def)

lemma halt_mem: "vid_mem (CPU_Halt v) = vid_mem v"
  by (simp add: io_simps Let_def)

text \<open>
  The panic shows the lines from row 8 on, writes at most two lines behind them, and nothing outside
  of the screen.
\<close>

lemma Panicf_shows:
  assumes "ProcessFormatString A True ls format args = Some p" "pf_out p = line_text ms" "\<forall>l\<in>set ms. short_line l" "length ms \<le> 13"
    and "\<And>v :: 'a video_scheme. vid_x v = 0 \<Longrightarrow> unat (vid_y v) \<le> 22 \<Longrightarrow> \<exists>w ns. f v = Some w \<and> wrote_lines v ns w \<and> length ns \<le> 2"
  shows "\<exists>w. System_Panicf A format (Some f) args ls v = Some w \<and> \<not> io_if w \<and> last (io_trace w) = CpuHalt \<and>
    (\<forall>i<length ms. row_shows w panic_attr (8 + i) (ms ! i)) \<and> (\<forall>a. \<not> on_screen a \<longrightarrow> vid_mem w a = vid_mem v a)"
proof -
  let ?b = "panic_banner v"
  note b = panic_banner_at [of v]
  obtain n u where u: "VPrintf A format args ls ?b = Some (n, p, u)" "wrote_lines ?b ms u"
    using wrote_VPrintf [OF assms(1-3), of ?b] b assms(4) by auto
  have "wrote_lines u [[]] (snd (Print (line_text [[]]) u))"
    using u(2) b assms(4) by (intro wrote_Print) (simp_all add: short_line_def plain_def wrote_lines_def)
  then have 2: "wrote_lines ?b (ms @ [[]]) (snd (Print [0x0A] u))"
    using wrote_lines_trans [OF u(2)] by (simp add: line_text_def)
  then have "vid_x (snd (Print [0x0A] u)) = 0" "unat (vid_y (snd (Print [0x0A] u))) \<le> 22"
    using b assms(4) by (simp_all add: wrote_lines_def)
  from assms(5) [OF this] obtain w ns where w: "f (snd (Print [0x0A] u)) = Some w" "wrote_lines (snd (Print [0x0A] u)) ns w" "length ns \<le> 2"
    by blast
  have all: "wrote_lines ?b (ms @ [] # ns) w" using wrote_lines_trans [OF 2 w(2)] by simp
  have "row_shows w panic_attr (8 + i) (ms ! i)" if i: "i < length ms" for i
  proof -
    have "row_shows w (vid_attr ?b) (unat (vid_y ?b) + i) ((ms @ [] # ns) ! i)"
      using all b assms(4) i unfolding wrote_lines_def by simp
    then show ?thesis using b i by (simp add: nth_append)
  qed
  moreover have "vid_mem w a = vid_mem v a" if "\<not> on_screen a" for a
  proof -
    have "\<not> in_rows 8 (8 + length (ms @ [] # ns)) a"
      using that w(3) assms(4) by (auto simp: on_screen_def in_rows_def cell_addr_def video_consts)
    then show ?thesis using all b that by (simp add: wrote_lines_def)
  qed
  moreover have "System_Panicf A format (Some f) args ls v = Some (CPU_Halt w)"
    using u(1) w(1) by (simp add: System_Panicf_def Let_def)
  ultimately show ?thesis by (simp add: halted row_shows_def vid_cell_def halt_mem)
qed

lemma ISR_Exception_shows:
  assumes "locale_reach (k_ls k)"
  shows "\<exists>k1. ISR_Exception A isr regs k = Some k1 \<and> \<not> io_if k1 \<and> last (io_trace k1) = CpuHalt \<and>
    (\<forall>i<length (exception_lines A isr (k_mem k) (unat regs)).
       row_shows (k_messages k1) panic_attr (8 + i) (exception_lines A isr (k_mem k) (unat regs) ! i)) \<and>
    (\<forall>a. \<not> on_screen a \<longrightarrow> vid_mem (k_messages k1) a = vid_mem (k_messages k) a)"
proof -
  let ?args = "exception_args A (ascii (exception_text isr)) (k_mem k) (unat regs)"
  let ?format = "case A of X86_64 \<Rightarrow> exception_format64 | I386 \<Rightarrow> exception_format32"
  let ?lines = "exception_lines A isr (k_mem k) (unat regs)"
  obtain p where p: "ProcessFormatString A True (k_ls k) ?format ?args = Some p" "pf_out p = line_text ?lines"
    using exception_prints [OF assms] by blast
  define v where "v = (k_messages k)\<lparr>io_trace := io_trace k, io_if := io_if k\<rparr>"
  have "length ?lines \<le> 13" using exception_lines_short(2) [of A isr "k_mem k" "unat regs"] by simp
  from Panicf_shows [OF p exception_lines_short(1) this trace_lines [OF assms, of _ A "k_debug k"], of v]
  obtain w where "System_Panicf A ?format (Some (PrintKernelTrace A (k_ls k) (k_debug k))) ?args (k_ls k) v = Some w"
    "\<not> io_if w" "last (io_trace w) = CpuHalt" "\<forall>i<length ?lines. row_shows w panic_attr (8 + i) (?lines ! i)"
    "\<forall>a. \<not> on_screen a \<longrightarrow> vid_mem w a = vid_mem v a" by blast
  then show ?thesis by (simp add: ISR_Exception_def Let_def on_messages_def v_def row_shows_def vid_cell_def)
qed

text \<open>
  C11. The service routine of an exception shows, from row 8 of the screen on and white on blue, the
  name of the exception, an empty line and the lines of the registers that are saved at regs, each
  padded with blanks to the end of its row.  On x86-64 each label is followed by its register in 16
  hexadecimal digits.  On i386 the labels are wrong from the fourth on: EDI shows edx, ESI shows
  edi, ESP shows esi, a second EAX shows esp, and edx has no label of its own.
\<close>

theorem exception_screen:
  assumes "locale_reach (k_ls k)"
  shows "\<exists>k1. ISR_Exception A isr regs k = Some k1 \<and>
    (\<forall>i<length (exception_lines A isr (k_mem k) (unat regs)).
       row_shows (k_messages k1) 0x1F (8 + i) (exception_lines A isr (k_mem k) (unat regs) ! i))"
  using ISR_Exception_shows [OF assms, of A isr regs] by (auto simp: panic_attr_def)

theorem exception_screen_witness:
  "\<exists>k1. ISR_Exception I386 0x0E 0x2000 (kernel_boot :: ISREntry64 kernel) = Some k1 \<and>
    row_shows (k_messages k1) 0x1F 8 (ascii ''CPU Exception - 0x0E / #PF: Page Fault'')"
proof -
  have "locale_reach (k_ls (kernel_boot :: ISREntry64 kernel))" by (simp add: kernel_boot_def locale_reach.boot)
  from exception_screen [OF this, of I386 "0x0E" "0x2000"] show ?thesis
    by (auto simp: exception_lines_def exception_text.simps)
qed


text \<open>What the table of the kernel gives for a vector.\<close>

lemma installed_handler:
  assumes "\<forall>v < MAX_DESCRIPTORS. idt_ISRHandlers k ! v = kernel_vector v"
  shows "ISREntryGetHandler (IDT_GetISREntry isr) k = kernel_vector (unat isr)"
  using assms unat_isr [of isr] unsigned_less [where ?'a = int, of isr]
  by (auto simp: ISREntryGetHandler_def IDT_GetISREntry_def ISREntryGetIndex_def MAX_DESCRIPTORS_def Let_def split: option.splits)

text \<open>
  C12. Once the main function has installed the handlers, every one of the exceptions 0 to 19 ends with
  the processor halted and interrupts disabled, and no byte outside of the screen has been written,
  whatever the console, its sticky lines and the trace of calls were: the panic clears the screen
  and its lines never reach the last row, so it does not scroll.
\<close>

theorem exception_halts:
  assumes "locale_reach (k_ls k)" "unat isr < 0x14" "\<forall>v < MAX_DESCRIPTORS. idt_ISRHandlers k ! v = kernel_vector v"
  shows "\<exists>k1. kernel_interrupt A dev isr regs k = Some k1 \<and> \<not> io_if k1 \<and> last (io_trace k1) = CpuHalt \<and>
    (\<forall>a. \<not> on_screen a \<longrightarrow> vid_mem (k_messages k1) a = vid_mem (k_messages k) a)"
proof -
  have "ISREntryGetHandler (IDT_GetISREntry isr) k = Some KIsr_Exception"
    using assms(2) by (simp add: installed_handler [OF assms(3)] kernel_vector_def)
  then have "kernel_interrupt A dev isr regs k = ISR_Exception A isr regs k"
    by (simp add: kernel_interrupt_def IDT_HandleISR_def IDT_GetISREntry_def kernel_call_def Let_def)
  then show ?thesis using ISR_Exception_shows [OF assms(1), of A isr regs] by auto
qed

text \<open>A kernel whose handlers are installed, with the sticky line that the main function sets.\<close>

definition kernel_ready :: "ISREntry64 kernel" where
  "kernel_ready = messages_do (SetStickyLines 1) kernel_boot\<lparr>idt_ISRHandlers := map kernel_vector [0..<MAX_DESCRIPTORS]\<rparr>"

theorem exception_halts_witness:
  "vid_sticky (k_messages kernel_ready) = 1 \<and>
   (\<exists>k1. kernel_interrupt X86_64 (\<lambda>_ _. 0) 0x0E 0x2000 kernel_ready = Some k1 \<and> last (io_trace k1) = CpuHalt \<and>
     vid_mem (k_messages k1) (VIDEO_MEM + 4000) = 0)"
proof -
  have "locale_reach (k_ls kernel_ready)" "vid_sticky (k_messages kernel_ready) = 1" "vid_mem (k_messages kernel_ready) = (\<lambda>_. 0)"
    by (simp_all add: kernel_ready_def kernel_boot_def locale_reach.boot messages_do_def SetStickyLines_def video_consts
        messages_boot_def Let_def video.defs video_boot_def)
  moreover have "\<forall>v < MAX_DESCRIPTORS. idt_ISRHandlers kernel_ready ! v = kernel_vector v" by (simp add: kernel_ready_def)
  moreover have "\<not> on_screen (VIDEO_MEM + 4000)" by (simp add: on_screen_def video_consts)
  ultimately show ?thesis using exception_halts [of kernel_ready "0x0E" X86_64 "\<lambda>_ _. 0" "0x2000"] by auto
qed

end
