(* ===== verification/XEOS_KernelProps.thy ===== *)
theory XEOS_KernelProps
  imports XEOS_ExceptionProps
begin

text \<open>
  The start of the kernel as a whole: the main function up to the moment when all interrupts are
  enabled, on hardware that behaves as documented, refines a few steps on an abstract machine; and
  the first interrupt of the clock after it.
\<close>

section \<open>Traces that leave hardware alone\<close>

definition only_ports :: "u16 set \<Rightarrow> io_event list \<Rightarrow> bool" where
  "only_ports P t \<longleftrightarrow> (\<forall>e \<in> set t. case e of PortRead p _ \<Rightarrow> p \<in> P | PortWrite p _ \<Rightarrow> p \<in> P | _ \<Rightarrow> True)"

lemma only_ports_simps [simp]:
  "only_ports P []" "only_ports P (t @ u) \<longleftrightarrow> only_ports P t \<and> only_ports P u"
  "only_ports P (PortRead p v # t) \<longleftrightarrow> p \<in> P \<and> only_ports P t"
  "only_ports P (PortWrite p v # t) \<longleftrightarrow> p \<in> P \<and> only_ports P t"
  "only_ports P (IntDisable # t) \<longleftrightarrow> only_ports P t" "only_ports P (IntEnable # t) \<longleftrightarrow> only_ports P t"
  "only_ports P (CpuHalt # t) \<longleftrightarrow> only_ports P t"
  by (auto simp: only_ports_def)

lemma kbd_other: "only_ports P u \<Longrightarrow> 0x60 \<notin> P \<Longrightarrow> 0x64 \<notin> P \<Longrightarrow> kbd_run tr s u = s"
proof (induction u arbitrary: s)
  case (Cons e u)
  then have "kbd_step tr e = Some" by (cases e) (auto intro!: kbd_step_other)
  then show ?case using Cons by (cases e) simp_all
qed simp

lemma other_ports:
  assumes "only_ports P u"
  shows "p \<notin> P \<Longrightarrow> last_write p d u = d" "pa \<notin> P \<Longrightarrow> pd \<notin> P \<Longrightarrow> indexed_regs pa pd bits r u = r"
  using assms
  by (induction u arbitrary: d r rule: port_writes.induct) auto

lemma kbd_at_other: "only_ports P u \<Longrightarrow> 0x60 \<notin> P \<Longrightarrow> 0x64 \<notin> P \<Longrightarrow> kbd_at tr k0 (t @ u) = kbd_at tr k0 t"
  by (simp add: kbd_at_def kbd_other)

text \<open>A step that accesses some ports and changes nothing else of a state.\<close>

definition port_step :: "u16 set \<Rightarrow> 'a io_scheme \<Rightarrow> 'a io_scheme \<Rightarrow> bool" where
  "port_step P s s' \<longleftrightarrow> (\<exists>u. s' = s\<lparr>io_trace := io_trace s @ u\<rparr> \<and> only_ports P u)"

lemma port_step_trans: "port_step P s s1 \<Longrightarrow> port_step P s1 s2 \<Longrightarrow> port_step P s s2"
  unfolding port_step_def by (elim exE) (rule_tac x = "u @ ua" in exI, simp)

lemma port_step_io:
  "p \<in> P \<Longrightarrow> port_step P s (IO_PortOut p v s)" "p \<in> P \<Longrightarrow> port_step P s (snd (IO_PortIn dev p s))"
  by (auto simp: port_step_def io_simps)


section \<open>Printing\<close>

text \<open>Printing changes the console and programs the cursor, and nothing else of the hardware.\<close>

definition printed :: "'a io_scheme \<Rightarrow> 'a io_scheme \<Rightarrow> bool" where
  "printed v w \<longleftrightarrow> io_if w = io_if v \<and> (\<exists>u. io_trace w = io_trace v @ u \<and> only_ports {0x3D4, 0x3D5} u)"

lemma printed_refl: "printed v v"
  by (simp add: printed_def)

lemma printed_trans: "printed v w \<Longrightarrow> printed w x \<Longrightarrow> printed v x"
  unfolding printed_def by (elim exE conjE) (rule conjI, simp, rule_tac x = "u @ ua" in exI, simp)

lemma printed_simps:
  "printed (Video_SetFG c v) w = printed v w" "printed v (Video_SetFG c w) = printed v w"
  "printed v (Video_SetBG c w) = printed v w" "printed v (SetStickyLines n w) = printed v w"
  "printed v (w\<lparr>vid_mem := m\<rparr>) = printed v w" "printed v (w\<lparr>vid_x := x\<rparr>) = printed v w"
  "printed v (w\<lparr>vid_y := y\<rparr>) = printed v w"
  by (simp_all add: printed_def Video_SetFG_def Video_SetBG_def SetStickyLines_def)

lemma printed_prompt: "printed v (w\<lparr>msg_lastPrompt := l\<rparr>) = printed v w"
  by (simp add: printed_def)

lemma printed_MoveCursor: "printed v w \<Longrightarrow> printed v (MoveCursor x y w)"
  by (auto simp: printed_def MoveCursor_def Let_def io_simps crtc_consts)

lemma printed_Clear: "printed v w \<Longrightarrow> printed v (Video_Clear w)"
  by (simp add: Video_Clear_def Let_def printed_simps printed_MoveCursor)

lemma printed_Scroll: "printed v w \<Longrightarrow> printed v (Scroll n w)"
  by (simp add: Scroll_def Let_def printed_simps printed_MoveCursor printed_Clear)

lemma printed_Putc: "printed v w \<Longrightarrow> printed v (Putc c b w)"
  by (simp add: Putc_def Let_def printed_simps printed_MoveCursor printed_Scroll)

lemma printed_loop: "printed v w \<Longrightarrow> printed v (snd (print_loop s n w))"
  by (induction s n w rule: print_loop.induct) (simp_all add: printed_Putc)

lemma printed_Print: "printed v w \<Longrightarrow> printed v (snd (Print s w))"
  using printed_loop [of v w s 0] by (simp add: Print_def Let_def case_prod_beta printed_MoveCursor)

lemma printed_PrintPrompt: "printed v w \<Longrightarrow> printed v (snd (PrintPrompt w))"
  by (simp add: PrintPrompt_def Let_def printed_simps printed_Print)

lemma printed_spaces: "printed v w \<Longrightarrow> printed v (print_spaces n w)"
  by (induction n arbitrary: w) (simp_all add: printed_Print)

lemmas printed_console = printed_simps printed_prompt printed_MoveCursor printed_Clear printed_Print
  printed_PrintPrompt printed_spaces printed_refl

lemma printed_status: "printed v w \<Longrightarrow> printed v (Main_PromptWithStatus m s c w)"
  by (auto simp: Main_PromptWithStatus_def status_indent_def end_prompt_def Let_def printed_console split: option.split)

lemma printed_messages:
  "printed v (Main_Prompt m v)" "printed v (Main_PromptSuccess m v)" "printed v (Main_PromptFailure m v)"
  "printed v (main_screen v)"
  by (auto simp: Main_Prompt_def Main_PromptSuccess_def Main_PromptFailure_def main_screen_def end_prompt_def Let_def
      printed_console printed_status split: option.split)


section \<open>The abstract machine\<close>

text \<open>
  What the start of the kernel is about: the interrupt flag, the lines that are masked, the
  registers of the clock, the keyboard, the handlers of the requests, the interrupt table, and the
  variables of the system time.  The table is seen alone, without the rest of the state.
\<close>

definition idt_view :: "('h, 'g, 'e, 'a) idt_scheme \<Rightarrow> ('h, 'g, 'e) idt" where
  "idt_view s = \<lparr>io_trace = [], io_if = False, irq_Inited = False, irq_Handlers = \<lambda>_. [], idt_ISREntries = idt_ISREntries s,
     idt_ISRHandlers = idt_ISRHandlers s, idt_limit = idt_limit s, idt_base = idt_base s, idt_loaded = idt_loaded s\<rparr>"

record 'e machine =
  mc_if :: bool
  mc_masked :: "PIC_IRQ \<Rightarrow> bool"
  mc_cmos :: "u8 \<Rightarrow> u8"
  mc_kbd :: "kbd option"
  mc_handlers :: "PIC_IRQ \<Rightarrow> kernel_irq multiset"
  mc_idt :: "(kernel_irq, kernel_isr, 'e) idt"
  mc_clock :: clock

text \<open>The initial masks, the translation and state of the keyboard, and the registers of the clock.\<close>

type_synonym hardware = "(u8 \<times> u8) \<times> ((u8 \<Rightarrow> u8) \<times> kbd) \<times> (u8 \<Rightarrow> u8)"

fun hardware_ok :: "hardware \<Rightarrow> device \<Rightarrow> bool" where
  "hardware_ok ((m1, m2), (tr, k0), c) dev \<longleftrightarrow>
     pic_device m1 m2 dev \<and> kbd_device tr k0 dev \<and> set_translation tr \<and> (\<exists>r. cmos_device c r dev)"

fun machine_of :: "hardware \<Rightarrow> 'e kernel \<Rightarrow> 'e machine" where
  "machine_of ((m1, m2), (tr, k0), c) k =
     \<lparr>mc_if = io_if k, mc_masked = \<lambda>j. line_masked m1 m2 j k, mc_cmos = cmos_regs c k,
      mc_kbd = kbd_at tr k0 (io_trace k), mc_handlers = irq_handlers k, mc_idt = idt_view k, mc_clock = k_clock k\<rparr>"

lemma cmos_other: "only_ports P u \<Longrightarrow> 0x70 \<notin> P \<Longrightarrow> 0x71 \<notin> P \<Longrightarrow> io_trace s' = io_trace s @ u \<Longrightarrow> cmos_regs c s' = cmos_regs c s"
  by (simp add: cmos_regs_def cmos_settings_def cmos_state_def kbd_at_def cmos_consts other_ports)

lemma masked_other: "only_ports P u \<Longrightarrow> 0x21 \<notin> P \<Longrightarrow> 0xA1 \<notin> P \<Longrightarrow> io_trace s' = io_trace s @ u \<Longrightarrow>
    line_masked m1 m2 j s' \<longleftrightarrow> line_masked m1 m2 j s"
  by (simp add: line_masked_def other_ports split: PIC_Controller.split)

text \<open>Printing does not change the machine.\<close>

lemma messages_fields:
  "irq_Inited (messages_do f k) = irq_Inited k" "irq_Handlers (messages_do f k) = irq_Handlers k"
  "idt_view (messages_do f k) = idt_view k" "k_clock (messages_do f k) = k_clock k" "k_ls (messages_do f k) = k_ls k"
  by (cases k; simp add: messages_do_def Let_def idt_view_def)+

lemma messages_irq: "irq_ok (messages_do f k) = irq_ok k" "irq_handlers (messages_do f k) = irq_handlers k"
  by (simp_all add: irq_ok_def irq_handlers_def irq_Init_def messages_fields fun_eq_iff)

lemma messages_io:
  assumes "\<And>v. printed v (f v)"
  shows "io_if (messages_do f k) = io_if k"
    "\<exists>u. io_trace (messages_do f k) = io_trace k @ u \<and> only_ports {0x3D4, 0x3D5} u"
  using assms [of "(k_messages k)\<lparr>io_trace := io_trace k, io_if := io_if k\<rparr>"]
  by (cases k; simp add: messages_do_def Let_def printed_def)+

lemma machine_messages:
  assumes "\<And>v. printed v (f v)"
  shows "machine_of h (messages_do f k) = machine_of h k"
proof -
  obtain m1 m2 tr k0 c where h: "h = ((m1, m2), (tr, k0), c)" by (metis prod.exhaust)
  obtain u where u: "io_trace (messages_do f k) = io_trace k @ u" "only_ports {0x3D4, 0x3D5} u"
    using messages_io(2) [OF assms] by blast
  then show ?thesis
    using cmos_other [OF u(2) _ _ u(1)] masked_other [OF u(2) _ _ u(1)]
    by (simp add: h messages_fields messages_irq messages_io(1) [OF assms] kbd_at_other)
qed

text \<open>The steps on the processor and the devices.\<close>

lemma hardware_cases: obtains m1 m2 tr k0 c where "(h :: hardware) = ((m1, m2), (tr, k0), c)"
  by (metis prod.exhaust)

lemma same_more_fields:
  assumes "io.more k = io.more (k' :: 'e kernel)"
  shows "irq_Inited k = irq_Inited k'" "irq_Handlers k = irq_Handlers k'" "idt_view k = idt_view k'" "k_clock k = k_clock k'"
    "irq_ok k = irq_ok k'" "irq_handlers k = irq_handlers k'" "k_ls k = k_ls k'"
  using assms by (cases k; cases k'; simp add: idt_view_def irq_ok_def irq_handlers_def irq_Init_def fun_eq_iff)+

lemma io_more_simps [simp]:
  "io.more (IO_PortOut p v s) = io.more s" "io.more (snd (IO_PortIn dev p s)) = io.more s"
  "io.more (CPU_DisableInterrupts s) = io.more s" "io.more (CPU_EnableInterrupts s) = io.more s"
  "io.more (NMI_Disable dev s) = io.more s" "io.more (NMI_Enable dev s) = io.more s"
  "io.more (PIC_UnmaskIRQLine dev irq s) = io.more s" "io.more (PIC_Remap dev b1 b2 s) = io.more s"
  "io.more (RTC_SetRate dev rate s) = io.more s" "io.more (RTC_EnablePeriodicInterrupts dev s) = io.more s"
  by (simp_all add: io_simps NMI_Disable_def NMI_Enable_def PIC_UnmaskIRQLine_def PIC_Remap_def PIC_SendCommand_def
      PIC_SendData_def RTC_SetRate_def RTC_EnablePeriodicInterrupts_def Let_def case_prod_beta)

lemma irq_ok_io:
  "irq_ok (PIC_UnmaskIRQLine dev irq k) = irq_ok (k :: 'e kernel)" "irq_ok (RTC_SetRate dev rate k) = irq_ok (k :: 'e kernel)"
  by (simp_all add: same_more_fields(5) [OF io_more_simps(7)] same_more_fields(5) [OF io_more_simps(9)])

lemma machine_io:
  assumes "io.more k' = io.more k"
  shows "machine_of ((m1, m2), (tr, k0), c) k' = (machine_of ((m1, m2), (tr, k0), c) k)\<lparr>mc_if := io_if k',
    mc_masked := \<lambda>j. line_masked m1 m2 j k', mc_cmos := cmos_regs c k', mc_kbd := kbd_at tr k0 (io_trace k')\<rparr>"
  by (simp add: same_more_fields [OF assms])

lemma machine_flag:
  "machine_of h (CPU_DisableInterrupts k) = (machine_of h k)\<lparr>mc_if := False\<rparr>"
  "machine_of h (CPU_EnableInterrupts k) = (machine_of h k)\<lparr>mc_if := True\<rparr>"
proof -
  obtain m1 m2 tr k0 c where h: "h = ((m1, m2), (tr, k0), c)" by (rule hardware_cases)
  show "machine_of h (CPU_DisableInterrupts k) = (machine_of h k)\<lparr>mc_if := False\<rparr>"
    "machine_of h (CPU_EnableInterrupts k) = (machine_of h k)\<lparr>mc_if := True\<rparr>"
    unfolding h by (subst machine_io [of _ k]; simp add: line_masked_def cmos_regs_def cmos_settings_def cmos_state_def kbd_at_def io_simps fun_eq_iff
        split: PIC_Controller.split)+
qed

lemma machine_nmi:
  "machine_of h (NMI_Disable dev k) = machine_of h k" "machine_of h (NMI_Enable dev k) = machine_of h k"
proof -
  obtain m1 m2 tr k0 c where h: "h = ((m1, m2), (tr, k0), c)" by (rule hardware_cases)
  show "machine_of h (NMI_Disable dev k) = machine_of h k" "machine_of h (NMI_Enable dev k) = machine_of h k"
    unfolding h by (subst machine_io [of _ k]; simp add: line_masked_def cmos_regs_def cmos_settings_def cmos_state_def kbd_at_def cmos_consts
        NMI_Disable_def NMI_Enable_def Let_def io_simps fun_eq_iff split: PIC_Controller.split)+
qed

lemma machine_unmask:
  assumes "hardware_ok h dev"
  shows "machine_of h (PIC_UnmaskIRQLine dev irq k) = (machine_of h k)\<lparr>mc_masked := (mc_masked (machine_of h k))(irq := False)\<rparr>"
proof (cases h rule: hardware_cases)
  case (1 m1 m2 tr k0 c)
  then have pic: "pic_device m1 m2 dev" using assms by simp
  have io: "cmos_regs c (PIC_UnmaskIRQLine dev irq k) = cmos_regs c k"
    "kbd_at tr k0 (io_trace (PIC_UnmaskIRQLine dev irq k)) = kbd_at tr k0 (io_trace k)"
    by (cases "irq_controller irq"; simp add: PIC_UnmaskIRQLine_def cmos_regs_def cmos_settings_def cmos_state_def kbd_at_def cmos_consts Let_def io_simps)+
  show ?thesis unfolding 1
    by (subst machine_io [of _ k]) (simp_all add: pic_frame mask_line [OF pic] io fun_eq_iff)
qed

lemma machine_remap:
  assumes "hardware_ok h dev"
  shows "machine_of h (PIC_Remap dev b1 b2 k) = machine_of h k"
proof (cases h rule: hardware_cases)
  case (1 m1 m2 tr k0 c)
  then have pic: "pic_device m1 m2 dev" using assms by simp
  have io: "io_if (PIC_Remap dev b1 b2 k) = io_if k" "cmos_regs c (PIC_Remap dev b1 b2 k) = cmos_regs c k"
    "kbd_at tr k0 (io_trace (PIC_Remap dev b1 b2 k)) = kbd_at tr k0 (io_trace k)"
    by (simp_all add: PIC_Remap_def PIC_SendCommand_def PIC_SendData_def cmos_regs_def cmos_settings_def cmos_state_def kbd_at_def cmos_consts Let_def io_simps)
  show ?thesis unfolding 1
    by (subst machine_io [of _ k]) (simp_all add: Remap_keeps_masks(1) [OF pic] io)
qed

lemma machine_rate:
  assumes "hardware_ok h dev"
  shows "machine_of h (RTC_SetRate dev rate k) = (machine_of h k)\<lparr>mc_cmos := (mc_cmos (machine_of h k))
      (0x0A := (mc_cmos (machine_of h k) 0x0A AND 0xF0) OR (rate AND 0x0F))\<rparr>"
    "machine_of h (RTC_EnablePeriodicInterrupts dev k) = (machine_of h k)\<lparr>mc_cmos := (mc_cmos (machine_of h k))
      (0x0B := mc_cmos (machine_of h k) 0x0B OR 0x40)\<rparr>"
proof -
  obtain m1 m2 tr k0 c where h: "h = ((m1, m2), (tr, k0), c)" by (rule hardware_cases)
  then obtain r where cmos: "cmos_device c r dev" using assms by auto
  have masks: "line_masked m1 m2 j (RTC_SetRate dev rate k) = line_masked m1 m2 j k"
    "line_masked m1 m2 j (RTC_EnablePeriodicInterrupts dev k) = line_masked m1 m2 j k"
    "kbd_at tr k0 (io_trace (RTC_SetRate dev rate k)) = kbd_at tr k0 (io_trace k)"
    "kbd_at tr k0 (io_trace (RTC_EnablePeriodicInterrupts dev k)) = kbd_at tr k0 (io_trace k)" for j
    by (auto simp: RTC_SetRate_def RTC_EnablePeriodicInterrupts_def line_masked_def kbd_at_def Let_def case_prod_beta cmos_consts io_simps
        split: PIC_Controller.split)
  show "machine_of h (RTC_SetRate dev rate k) = (machine_of h k)\<lparr>mc_cmos := (mc_cmos (machine_of h k))
      (0x0A := (mc_cmos (machine_of h k) 0x0A AND 0xF0) OR (rate AND 0x0F))\<rparr>"
    "machine_of h (RTC_EnablePeriodicInterrupts dev k) = (machine_of h k)\<lparr>mc_cmos := (mc_cmos (machine_of h k))
      (0x0B := mc_cmos (machine_of h k) 0x0B OR 0x40)\<rparr>"
    unfolding h by (subst machine_io [of _ k]; simp add: masks rtc_registers_set [OF cmos])+
qed

text \<open>The handlers, the keyboard and the interrupt table.\<close>

lemma AddIRQHandler_frame:
  "io_trace (snd (AddIRQHandler irq g k)) = io_trace k" "io_if (snd (AddIRQHandler irq g k)) = io_if k"
  "idt_view (snd (AddIRQHandler irq g k)) = idt_view k" "k_clock (snd (AddIRQHandler irq g k)) = k_clock (k :: 'e kernel)"
  by (cases k; simp add: AddIRQHandler_def irq_Init_def idt_view_def Let_def split: option.split)+

lemma machine_add:
  assumes "irq_ok k" "size (mc_handlers (machine_of h k) irq) < MAX_HANDLERS"
  shows "machine_of h (snd (AddIRQHandler irq (Some g) k)) = (machine_of h k)\<lparr>mc_handlers := (mc_handlers (machine_of h k))
      (irq := add_mset g (mc_handlers (machine_of h k) irq))\<rparr>"
    "irq_ok (snd (AddIRQHandler irq (Some g) k))"
proof -
  obtain m1 m2 tr k0 c where h: "h = ((m1, m2), (tr, k0), c)" by (rule hardware_cases)
  have "irq_handlers (snd (AddIRQHandler irq (Some g) k)) = (irq_handlers k)(irq := add_mset g (irq_handlers k irq))"
    "irq_ok (snd (AddIRQHandler irq (Some g) k))"
    using add_remove_handlers [OF assms(1), of irq g] assms(2) by (auto simp: h split: prod.splits)
  moreover have "line_masked m1 m2 j (snd (AddIRQHandler irq (Some g) k)) = line_masked m1 m2 j k" for j
    by (simp only: line_masked_def AddIRQHandler_frame)
  ultimately show "machine_of h (snd (AddIRQHandler irq (Some g) k)) = (machine_of h k)\<lparr>mc_handlers := (mc_handlers (machine_of h k))
      (irq := add_mset g (mc_handlers (machine_of h k) irq))\<rparr>" "irq_ok (snd (AddIRQHandler irq (Some g) k))"
    unfolding h by (simp_all add: AddIRQHandler_frame cmos_regs_def)
qed

lemma quiet_cmos: "quiet u \<Longrightarrow> indexed_regs 0x70 0x71 bits x u = x"
  by (induction u arbitrary: x rule: port_writes.induct) (auto simp: quiet_def)

lemma irq1_masked_cmos:
  assumes "quiet_body body" "irq1_masked dev body s = Some (r, s')"
  shows "cmos_regs c s' = cmos_regs c s"
proof -
  define s2 where "s2 = (if \<not> fst (PIC_IRQLineMasked dev IRQ1 s) then PIC_MaskIRQLine dev IRQ1 (snd (PIC_IRQLineMasked dev IRQ1 s))
    else snd (PIC_IRQLineMasked dev IRQ1 s))"
  obtain s3 where s3: "body s2 = Some (r, s3)"
    "s' = (if \<not> fst (PIC_IRQLineMasked dev IRQ1 s) then PIC_UnmaskIRQLine dev IRQ1 s3 else s3)"
    using assms(2) by (auto simp: irq1_masked_def Let_def case_prod_beta s2_def [symmetric] bind_eq_Some_conv)
  obtain u where "io_trace s3 = io_trace s2 @ u" "quiet u" using assms(1) s3(1) unfolding quiet_body_def by blast
  then have "cmos_regs c s3 = cmos_regs c s2" by (simp add: cmos_regs_def cmos_settings_def cmos_state_def kbd_at_def cmos_consts quiet_cmos)
  moreover have "cmos_regs c (snd (PIC_IRQLineMasked dev IRQ1 t)) = cmos_regs c t" "cmos_regs c (PIC_MaskIRQLine dev IRQ1 t) = cmos_regs c t"
    "cmos_regs c (PIC_UnmaskIRQLine dev IRQ1 t) = cmos_regs c t" for t :: "'a io_scheme"
    by (simp_all add: PIC_IRQLineMasked_def PIC_MaskIRQLine_def PIC_UnmaskIRQLine_def cmos_regs_def cmos_settings_def cmos_state_def kbd_at_def cmos_consts
        Let_def io_simps irq_controller_def)
  ultimately show ?thesis using s3(2) by (simp add: s2_def)
qed

lemma machine_keyboard:
  assumes "hardware_ok h dev" "mc_kbd (machine_of h k) = Some (set_value st, False, [])" "st \<noteq> ScanCodeSetUnknown"
  shows "\<exists>k'. Keyboard_GetScanCodeSet dev k = Some (st, k') \<and> machine_of h k' = machine_of h k \<and> irq_ok k' = irq_ok k"
proof (cases h rule: hardware_cases)
  case (1 m1 m2 tr k0 c)
  then have dev: "pic_device m1 m2 dev" "kbd_device tr k0 dev" "set_translation tr" using assms(1) by simp_all
  have idle: "kbd_at tr k0 (io_trace k) = Some (set_value st, False, [])" using assms(2) by (simp add: 1)
  obtain k' where k': "Keyboard_GetScanCodeSet dev k = Some (st, k')" "kbd_at tr k0 (io_trace k') = Some (set_value st, False, [])"
    using GetScanCodeSet_returns [OF dev(2,3) idle assms(3)] by blast
  note call = k'(1) [unfolded Keyboard_GetScanCodeSet_def]
  have more: "io.more k' = io.more k" "io_if k' = io_if k" using irq1_masked_frame [OF quiet_GetBody call] by simp_all
  have masks: "line_masked m1 m2 j k' = line_masked m1 m2 j k" for j
    using irq1_masked_call [OF dev(1) quiet_GetBody call] by blast
  have "machine_of h k' = machine_of h k"
    unfolding 1 by (subst machine_io [OF more(1)]) (simp add: more(2) masks irq1_masked_cmos [OF quiet_GetBody call] k'(2) idle)
  then show ?thesis using k'(1) same_more_fields(5) [OF more(1)] by blast
qed

text \<open>The operations on the interrupt table see the table only, and change nothing else.\<close>

definition rest_view :: "'e kernel \<Rightarrow> io_event list \<times> bool \<times> bool \<times> (PIC_IRQ \<Rightarrow> kernel_irq option list) \<times> clock \<times> locale_state" where
  "rest_view k = (io_trace k, io_if k, irq_Inited k, irq_Handlers k, k_clock k, k_ls k)"

lemma Set_view:
  "idt_view (IDT_SetISREntry isr sel t l p g s) = IDT_SetISREntry isr sel t l p g (idt_view s)"
  by (cases s) (simp add: idt_view_def IDT_SetISREntry_def IDT_GetISREntry_def ISREntrySetHandler_def ISREntrySetPresent_def
      ISREntrySetPrivilegeLevel_def ISREntrySetType_def ISREntrySetSelector_def ISREntryGetIndex_def entry_update_def Let_def)

lemma Set_rest:
  "rest_view (IDT_SetISREntry isr sel t l p g k) = rest_view k"
  by (cases k) (simp add: rest_view_def IDT_SetISREntry_def IDT_GetISREntry_def ISREntrySetHandler_def ISREntrySetPresent_def
      ISREntrySetPrivilegeLevel_def ISREntrySetType_def ISREntrySetSelector_def ISREntryGetIndex_def entry_update_def Let_def)

lemma install_view:
  "idt_view (install_loop g i n s) = install_loop g i n (idt_view s)"
  by (induction n arbitrary: i s) (simp_all add: Set_view)

lemma install_rest: "rest_view (install_loop g i n k) = rest_view k"
  by (induction n arbitrary: i k) (simp_all add: Set_rest)

lemma init_loop_view: "idt_view (init_loop is s) = init_loop is (idt_view s)"
  by (induction "is" arbitrary: s) (simp_all add: init_loop_Set Set_view del: init_loop.simps(2))

lemma init_loop_rest: "rest_view (init_loop is k) = rest_view k"
  by (induction "is" arbitrary: k) (simp_all add: init_loop_Set Set_rest del: init_loop.simps(2))

lemma Reload_view: "idt_view (IDT_Reload s) = IDT_Reload (idt_view s)" "rest_view (IDT_Reload k) = rest_view k"
  by (cases s; simp add: idt_view_def IDT_Reload_def) (cases k; simp add: rest_view_def IDT_Reload_def)

lemma idt_update_view:
  "idt_view (s\<lparr>idt_limit := n, idt_base := b\<rparr>) = (idt_view s)\<lparr>idt_limit := n, idt_base := b\<rparr>"
  "idt_view (s\<lparr>idt_limit := n, idt_base := b, idt_ISRHandlers := gs, idt_ISREntries := es\<rparr>) =
     (idt_view s)\<lparr>idt_limit := n, idt_base := b, idt_ISRHandlers := gs, idt_ISREntries := es\<rparr>"
  by (cases s; simp add: idt_view_def)+

lemma idt_update_rest:
  "rest_view (k\<lparr>idt_limit := n, idt_base := b\<rparr>) = rest_view k"
  "rest_view (k\<lparr>idt_limit := n, idt_base := b, idt_ISRHandlers := gs, idt_ISREntries := es\<rparr>) = rest_view k"
  by (cases k; simp add: rest_view_def)+

lemma idt_init_view:
  "idt_view (idt_init esize zero init_isr stub table s) = idt_init esize zero init_isr stub table (idt_view s)"
  "rest_view (idt_init esize zero init_isr stub table k) = rest_view k"
  by (simp_all add: idt_init_def Let_def Reload_view idt_update_view idt_update_rest init_loop_view init_loop_rest)

lemma machine_rest:
  assumes "rest_view k' = rest_view k"
  shows "machine_of h k' = (machine_of h k)\<lparr>mc_idt := idt_view k'\<rparr>" "irq_ok k' = irq_ok k"
proof -
  obtain m1 m2 tr k0 c where h: "h = ((m1, m2), (tr, k0), c)" by (rule hardware_cases)
  have *: "io_trace k' = io_trace k" "io_if k' = io_if k" "irq_Inited k' = irq_Inited k" "irq_Handlers k' = irq_Handlers k"
    "k_clock k' = k_clock k" using assms by (simp_all add: rest_view_def)
  then have "line_masked m1 m2 j k' = line_masked m1 m2 j k" for j by (simp only: line_masked_def)
  then show "machine_of h k' = (machine_of h k)\<lparr>mc_idt := idt_view k'\<rparr>"
    using * by (simp add: h cmos_regs_def irq_handlers_def irq_Init_def fun_eq_iff)
  show "irq_ok k' = irq_ok k" using * by (simp add: irq_ok_def)
qed


section \<open>The main function\<close>

text \<open>Code that takes the machine from one state to another and goes on.\<close>

definition leads :: "hardware \<Rightarrow> 'e machine \<Rightarrow> ('e kernel \<Rightarrow> 'e kernel start option) \<Rightarrow> 'e machine \<Rightarrow> bool" where
  "leads h mc code mc' \<longleftrightarrow> (\<forall>k. machine_of h k = mc \<and> irq_ok k \<longrightarrow>
     (\<exists>k'. code k = Some (Running k') \<and> machine_of h k' = mc' \<and> irq_ok k'))"

lemma leads_step:
  "(\<And>k. machine_of h k = mc \<Longrightarrow> irq_ok k \<Longrightarrow> machine_of h (f k) = mc' \<and> irq_ok (f k)) \<Longrightarrow> leads h mc (Some o Running o f) mc'"
  by (simp add: leads_def)

lemma leads_section:
  assumes "leads h mc code mc'"
  shows "leads h mc (\<lambda>k. init_section msg status code (Running k)) mc'"
  unfolding leads_def
proof (intro allI impI, elim conjE)
  fix k :: "'a kernel" assume k: "machine_of h k = mc" "irq_ok k"
  define k1 where "k1 = messages_do (Main_Prompt (Some (ascii msg))) k"
  have "machine_of h k1 = mc" "irq_ok k1" using k by (simp_all add: k1_def machine_messages printed_messages messages_irq)
  then obtain k2 where "code k1 = Some (Running k2)" "machine_of h k2 = mc'" "irq_ok k2"
    using assms unfolding leads_def by blast
  then show "\<exists>k'. init_section msg status code (Running k) = Some (Running k') \<and> machine_of h k' = mc' \<and> irq_ok k'"
    by (simp add: init_section_def k1_def [symmetric] machine_messages printed_messages messages_irq)
qed

lemma leads_bind:
  assumes "leads h mc f mc1" "leads h mc1 (\<lambda>k. g (Running k)) mc2"
  shows "leads h mc (\<lambda>k. do { s1 \<leftarrow> f k; g s1 }) mc2"
  using assms unfolding leads_def by fastforce

lemma leads_eq: "leads h mc f mc1 \<Longrightarrow> mc1 = mc' \<Longrightarrow> leads h mc f mc'"
  by simp

lemma leads_idt:
  assumes "\<And>k :: 'e kernel. rest_view (f k) = rest_view k" "\<And>k. idt_view (f k) = g (idt_view k)"
  shows "leads h mc (Some o Running o f) (mc\<lparr>mc_idt := g (mc_idt mc)\<rparr>)"
proof (rule leads_step)
  fix k :: "'e kernel" assume k: "machine_of h k = mc" "irq_ok k"
  have "mc_idt mc = idt_view k" using k(1) by (cases h rule: hardware_cases) auto
  then show "machine_of h (f k) = mc\<lparr>mc_idt := g (mc_idt mc)\<rparr> \<and> irq_ok (f k)"
    using machine_rest(1) [OF assms(1) [of k], of h] machine_rest(2) [OF assms(1) [of k]] k by (simp add: assms(2))
qed

lemma leads_io:
  assumes "\<And>k. io.more (f k) = io.more (k :: 'e kernel)" "\<And>k. machine_of h (f k) = g (machine_of h k)"
  shows "leads h mc (Some o Running o f) (g mc)"
  using assms(2) same_more_fields(5) [OF assms(1)] by (intro leads_step) simp

lemmas leads_messages = machine_messages printed_messages messages_irq

lemma Main_idt_leads:
  assumes "hardware_ok h dev"
  shows "leads h mc (Main_idt dev (idt_init esize zero init_isr stub table))
    (mc\<lparr>mc_if := False, mc_idt := Main_install_handlers (idt_init esize zero init_isr stub table (mc_idt mc))\<rparr>)"
proof -
  have screen: "leads h mc (Some o Running o (\<lambda>k. messages_do main_screen (NMI_Disable dev (CPU_DisableInterrupts k)))) (mc\<lparr>mc_if := False\<rparr>)"
    by (rule leads_step) (simp add: leads_messages machine_nmi machine_flag
        same_more_fields(5) [where k' = k and k = "NMI_Disable dev (CPU_DisableInterrupts k)" for k])
  have parts: "Main_idt dev init = (\<lambda>k. do { s0 \<leftarrow> (Some o Running o (\<lambda>k. messages_do main_screen (NMI_Disable dev (CPU_DisableInterrupts k)))) k;
      s1 \<leftarrow> init_section ''Initializing the IDT:'' None (Some o Running o init) s0;
      s2 \<leftarrow> init_section ''Remapping IRQs:'' None (Some o Running o PIC_Remap dev 0x20 0x28) s1;
      s3 \<leftarrow> init_section ''Installing the exception handlers:'' None (Some o Running o install_loop KIsr_Exception 0 20) s2;
      s4 \<leftarrow> init_section ''Installing the IRQs handlers:'' None (Some o Running o install_loop KIsr_IRQ 32 15) s3;
      s5 \<leftarrow> init_section ''Registering the system call ISR:'' None
        (Some o Running o IDT_SetISREntry 0x80 0x08 TypeInterrupt32 Ring0 True (Some KIsr_SysCall)) s4;
      init_section ''Activating the IDT:'' None (Some o Running o IDT_Reload) s5 })" for init :: "'e ISREntry_scheme kernel \<Rightarrow> 'e ISREntry_scheme kernel"
    by (simp add: Main_idt_def Let_def comp_def fun_eq_iff)
  note idt = leads_idt [OF idt_init_view(2,1)] leads_idt [OF install_rest install_view] leads_idt [OF Set_rest Set_view]
    leads_idt [OF Reload_view(2,1)]
  have remap: "leads h mc1 (Some o Running o PIC_Remap dev 0x20 0x28) mc1" for mc1 :: "'a ISREntry_scheme machine"
    by (rule leads_io [where g = "\<lambda>x. x"]) (simp_all add: machine_remap [OF assms])
  show ?thesis
    unfolding parts
    apply (rule leads_eq)
     apply (rule leads_bind [OF screen])
     apply (rule leads_bind [OF leads_section [OF idt(1)]])
     apply (rule leads_bind [OF leads_section [OF remap]])
     apply (rule leads_bind [OF leads_section [OF idt(2)]])
     apply (rule leads_bind [OF leads_section [OF idt(2)]])
     apply (rule leads_bind [OF leads_section [OF idt(3)]])
     apply (rule leads_section [OF idt(4)])
    apply (simp add: Main_install_handlers_def Let_def)
    done
qed

text \<open>A handler is added for a request, and its line unmasked.\<close>

definition handled :: "PIC_IRQ \<Rightarrow> kernel_irq \<Rightarrow> 'e machine \<Rightarrow> 'e machine" where
  "handled irq g mc = mc\<lparr>mc_handlers := (mc_handlers mc)(irq := add_mset g (mc_handlers mc irq)),
     mc_masked := (mc_masked mc)(irq := False)\<rparr>"

lemma handler_step:
  assumes "hardware_ok h dev" "irq_ok k" "size (mc_handlers (machine_of h k) irq) < MAX_HANDLERS"
  shows "machine_of h (PIC_UnmaskIRQLine dev irq (snd (AddIRQHandler irq (Some g) k))) = handled irq g (machine_of h k) \<and>
    irq_ok (PIC_UnmaskIRQLine dev irq (snd (AddIRQHandler irq (Some g) k)))"
  by (simp add: irq_ok_io machine_unmask [OF assms(1)] machine_add [OF assms(2,3)] handled_def)

lemma leads_handler:
  assumes "hardware_ok h dev" "size (mc_handlers mc irq) < MAX_HANDLERS"
  shows "leads h mc (Some o Running o (\<lambda>k. PIC_UnmaskIRQLine dev irq (snd (AddIRQHandler irq (Some g) k)))) (handled irq g mc)"
  using handler_step [OF assms(1)] assms(2) by (intro leads_step) blast

lemma leads_keyboard:
  assumes "hardware_ok h dev" "size (mc_handlers mc IRQ1) < MAX_HANDLERS" "mc_kbd mc = Some (2, False, [])"
  shows "leads h mc (main_keyboard dev) (handled IRQ1 KIrq_Keyboard mc)"
  unfolding leads_def
proof (intro allI impI, elim conjE)
  fix k :: "'a kernel" assume k: "machine_of h k = mc" "irq_ok k"
  define k1 where "k1 = PIC_UnmaskIRQLine dev IRQ1 (snd (AddIRQHandler IRQ1 (Some KIrq_Keyboard) k))"
  have k1: "machine_of h k1 = handled IRQ1 KIrq_Keyboard mc" "irq_ok k1"
    using handler_step [OF assms(1) k(2), of IRQ1 KIrq_Keyboard] k(1) assms(2) by (simp_all add: k1_def)
  then obtain k2 where "Keyboard_GetScanCodeSet dev k1 = Some (ScanCodeSet2, k2)" "machine_of h k2 = machine_of h k1" "irq_ok k2"
    using machine_keyboard [OF assms(1), of k1 ScanCodeSet2] assms(3) by (auto simp: handled_def)
  then show "\<exists>k'. main_keyboard dev k = Some (Running k') \<and> machine_of h k' = handled IRQ1 KIrq_Keyboard mc \<and> irq_ok k'"
    using k1 by (simp add: main_keyboard_def Let_def flip: k1_def)
qed

text \<open>The machine after the start of the kernel.\<close>

definition started :: "((kernel_irq, kernel_isr, 'e) idt \<Rightarrow> (kernel_irq, kernel_isr, 'e) idt) \<Rightarrow> 'e machine \<Rightarrow> 'e machine" where
  "started table mc =
     mc\<lparr>mc_if := True,
        mc_masked := (mc_masked mc)(IRQ0 := False, IRQ1 := False, IRQ8 := False),
        mc_cmos := (mc_cmos mc)(0x0A := (mc_cmos mc 0x0A AND 0xF0) OR 6, 0x0B := mc_cmos mc 0x0B OR 0x40),
        mc_handlers := (\<lambda>_. {#})(IRQ0 := {#KIrq_SystemTimer#}, IRQ1 := {#KIrq_Keyboard#}, IRQ8 := {#KIrq_RealTimeClock#}),
        mc_idt := table (mc_idt mc)\<rparr>"

lemma Main_start_leads:
  assumes "hardware_ok h dev" "mc_handlers mc = (\<lambda>_. {#})" "mc_kbd mc = Some (2, False, [])"
  shows "leads h mc (Main_start dev (idt_init esize zero init_isr stub table))
    (started (\<lambda>t. Main_install_handlers (idt_init esize zero init_isr stub table t)) mc)"
proof -
  have parts: "Main_start dev init = (\<lambda>k. do { s1 \<leftarrow> Main_idt dev init k;
      s2 \<leftarrow> init_section ''Registering the system timer IRQ:'' (Some ''IRQ:0'')
        (Some o Running o (\<lambda>k. PIC_UnmaskIRQLine dev IRQ0 (snd (AddIRQHandler IRQ0 (Some KIrq_SystemTimer) k)))) s1;
      s3 \<leftarrow> init_section ''Registering the keyboard IRQ:'' (Some ''IRQ:1'') (main_keyboard dev) s2;
      s4 \<leftarrow> init_section ''Registering the RTC IRQ:'' (Some ''IRQ:8'') (Some o Running o (\<lambda>k. RTC_SetRate dev 6
        (PIC_UnmaskIRQLine dev IRQ8 (snd (AddIRQHandler IRQ8 (Some KIrq_RealTimeClock) k))))) s3;
      init_section ''Activating all interrupts:'' None (Some o Running o main_activate dev) s4 })"
    for init :: "'e ISREntry_scheme kernel \<Rightarrow> 'e ISREntry_scheme kernel"
    by (simp add: Main_start_def comp_def fun_eq_iff)
  let ?rate = "\<lambda>mc. (handled IRQ8 KIrq_RealTimeClock mc)\<lparr>mc_cmos := (mc_cmos mc)(0x0A := (mc_cmos mc 0x0A AND 0xF0) OR (6 AND 0x0F))\<rparr>"
  have rtc: "leads h mc1 (Some o Running o (\<lambda>k. RTC_SetRate dev 6
      (PIC_UnmaskIRQLine dev IRQ8 (snd (AddIRQHandler IRQ8 (Some KIrq_RealTimeClock) k))))) (?rate mc1)"
    if "size (mc_handlers mc1 IRQ8) < MAX_HANDLERS" for mc1 :: "'a ISREntry_scheme machine"
  proof (rule leads_step)
    fix k :: "'a ISREntry_scheme kernel" assume k: "machine_of h k = mc1" "irq_ok k"
    show "machine_of h (RTC_SetRate dev 6 (PIC_UnmaskIRQLine dev IRQ8 (snd (AddIRQHandler IRQ8 (Some KIrq_RealTimeClock) k)))) = ?rate mc1 \<and>
      irq_ok (RTC_SetRate dev 6 (PIC_UnmaskIRQLine dev IRQ8 (snd (AddIRQHandler IRQ8 (Some KIrq_RealTimeClock) k))))"
      using handler_step [OF assms(1) k(2), of IRQ8 KIrq_RealTimeClock] that k(1)
      unfolding machine_rate [OF assms(1)] irq_ok_io by (simp add: irq_ok_io) (simp add: handled_def)
  qed
  have activate: "leads h mc1 (Some o Running o main_activate dev)
      (mc1\<lparr>mc_cmos := (mc_cmos mc1)(0x0B := mc_cmos mc1 0x0B OR 0x40), mc_if := True\<rparr>)" for mc1 :: "'a ISREntry_scheme machine"
    by (rule leads_eq, rule leads_io [where g = "\<lambda>x. x\<lparr>mc_cmos := (mc_cmos x)(0x0B := mc_cmos x 0x0B OR 0x40), mc_if := True\<rparr>"])
      (simp_all add: main_activate_def machine_nmi machine_flag machine_rate [OF assms(1)])
  have room: "0 < MAX_HANDLERS" by (simp add: MAX_HANDLERS_def)
  show ?thesis
    unfolding parts
    apply (rule leads_eq)
     apply (rule leads_bind [OF Main_idt_leads [OF assms(1)]])
     apply (rule leads_bind [OF leads_section [OF leads_handler [OF assms(1)]]])
      apply (simp add: assms(2) room)
     apply (rule leads_bind [OF leads_section [OF leads_keyboard [OF assms(1)]]])
       apply (simp add: assms(2) room handled_def)
      apply (simp add: assms(3) handled_def)
     apply (rule leads_bind [OF leads_section [OF rtc]])
      apply (simp add: assms(2) room handled_def)
     apply (rule leads_section [OF activate])
    apply (simp add: started_def handled_def assms(2) fun_upd_twist)
    done
qed

lemma halting_messages:
  "\<not> io_if (messages_do (\<lambda>v. Main_FatalError (f v)) k)" "last (io_trace (messages_do (\<lambda>v. Main_FatalError (f v)) k)) = CpuHalt"
  by (cases k; simp add: messages_do_def Main_FatalError_def Let_def halted)+

lemma keyboard_fails:
  assumes "hardware_ok h dev" "irq_ok k" "size (mc_handlers (machine_of h k) IRQ1) < MAX_HANDLERS"
    "mc_kbd (machine_of h k) = Some (set_value st, False, [])" "st \<noteq> ScanCodeSetUnknown" "st \<noteq> ScanCodeSet2"
  shows "\<exists>k'. main_keyboard dev k = Some (Fatal k') \<and> \<not> io_if k' \<and> last (io_trace k') = CpuHalt"
proof -
  define k1 where "k1 = PIC_UnmaskIRQLine dev IRQ1 (snd (AddIRQHandler IRQ1 (Some KIrq_Keyboard) k))"
  have "machine_of h k1 = handled IRQ1 KIrq_Keyboard (machine_of h k)" "irq_ok k1"
    using handler_step [OF assms(1-3), of KIrq_Keyboard] by (simp_all add: k1_def)
  then obtain k2 where "Keyboard_GetScanCodeSet dev k1 = Some (st, k2)"
    using machine_keyboard [OF assms(1), of k1 st] assms(4,5) by (auto simp: handled_def)
  then show ?thesis using assms(6) by (simp add: main_keyboard_def Let_def halting_messages flip: k1_def)
qed

lemma Main_start_fails:
  assumes "hardware_ok h dev" "irq_ok k" "mc_handlers (machine_of h k) = (\<lambda>_. {#})"
    "mc_kbd (machine_of h k) = Some (set_value st, False, [])" "st \<noteq> ScanCodeSetUnknown" "st \<noteq> ScanCodeSet2"
  shows "\<exists>k'. Main_start dev (idt_init esize zero init_isr stub table) k = Some (Fatal k') \<and> \<not> io_if k' \<and> last (io_trace k') = CpuHalt"
proof -
  obtain k1 where k1: "Main_idt dev (idt_init esize zero init_isr stub table) k = Some (Running k1)" "irq_ok k1"
    "mc_handlers (machine_of h k1) = (\<lambda>_. {#})" "mc_kbd (machine_of h k1) = Some (set_value st, False, [])"
    using Main_idt_leads [OF assms(1), of "machine_of h k" esize zero init_isr stub table] assms(2-4) unfolding leads_def by auto
  let ?timer = "\<lambda>k. Some (Running (PIC_UnmaskIRQLine dev IRQ0 (snd (AddIRQHandler IRQ0 (Some KIrq_SystemTimer) k))))"
  have "leads h (machine_of h k1) (\<lambda>k. init_section ''Registering the system timer IRQ:'' (Some ''IRQ:0'') ?timer (Running k))
      (handled IRQ0 KIrq_SystemTimer (machine_of h k1))"
    using leads_section [OF leads_handler [OF assms(1), of "machine_of h k1" IRQ0 KIrq_SystemTimer]] k1(3)
    by (simp add: comp_def MAX_HANDLERS_def)
  then obtain k2 where k2: "init_section ''Registering the system timer IRQ:'' (Some ''IRQ:0'') ?timer (Running k1) = Some (Running k2)"
    "irq_ok k2" "mc_handlers (machine_of h k2) IRQ1 = {#}" "mc_kbd (machine_of h k2) = Some (set_value st, False, [])"
    using k1 unfolding leads_def by (auto simp: handled_def)
  define k3 where "k3 = messages_do (Main_Prompt (Some (ascii ''Registering the keyboard IRQ:''))) k2"
  have "machine_of h k3 = machine_of h k2" "irq_ok k3" using k2 by (simp_all add: k3_def leads_messages)
  then obtain k4 where k4: "main_keyboard dev k3 = Some (Fatal k4)" "\<not> io_if k4" "last (io_trace k4) = CpuHalt"
    using keyboard_fails [OF assms(1), of k3 st] k2 assms(5,6) by (auto simp: MAX_HANDLERS_def)
  have "init_section ''Registering the keyboard IRQ:'' (Some ''IRQ:1'') (main_keyboard dev) (Running k2) = Some (Fatal k4)"
    using k4 by (simp add: init_section_def flip: k3_def)
  then have "Main_start dev (idt_init esize zero init_isr stub table) k = Some (Fatal k4)"
    by (simp add: Main_start_def k1(1) k2(1)) (simp add: init_section_def)
  then show ?thesis using k4 by blast
qed


section \<open>The kernel after its start\<close>

definition installed_irqs :: "PIC_IRQ \<Rightarrow> kernel_irq multiset" where
  "installed_irqs = (\<lambda>_. {#})(IRQ0 := {#KIrq_SystemTimer#}, IRQ1 := {#KIrq_Keyboard#}, IRQ8 := {#KIrq_RealTimeClock#})"

lemma started_kernel:
  assumes "pic_device m1 m2 dev" "kbd_device tr k0 dev" "set_translation tr" "cmos_device c r dev"
    "irq_ok k" "irq_handlers k = (\<lambda>_. {#})" "kbd_at tr k0 (io_trace k) = Some (2, False, [])"
  shows "\<exists>k'. Main_start dev (idt_init esize zero init_isr stub table) k = Some (Running k') \<and> io_if k' \<and>
    (\<forall>j. line_masked m1 m2 j k' \<longleftrightarrow> j \<notin> {IRQ0, IRQ1, IRQ8} \<and> line_masked m1 m2 j k) \<and>
    cmos_regs c k' = (cmos_regs c k)(0x0A := (cmos_regs c k 0x0A AND 0xF0) OR 6, 0x0B := cmos_regs c k 0x0B OR 0x40) \<and>
    irq_handlers k' = installed_irqs \<and> irq_ok k' \<and> k_clock k' = k_clock k \<and>
    idt_view k' = Main_install_handlers (idt_init esize zero init_isr stub table (idt_view k))"
proof -
  define h :: hardware where "h = ((m1, m2), (tr, k0), c)"
  have "leads h (machine_of h k) (Main_start dev (idt_init esize zero init_isr stub table))
      (started (\<lambda>t. Main_install_handlers (idt_init esize zero init_isr stub table t)) (machine_of h k))"
    by (rule Main_start_leads) (use assms in \<open>auto simp: h_def\<close>)
  then obtain k' where k': "Main_start dev (idt_init esize zero init_isr stub table) k = Some (Running k')" "irq_ok k'"
    "machine_of h k' = started (\<lambda>t. Main_install_handlers (idt_init esize zero init_isr stub table t)) (machine_of h k)"
    using assms(5) unfolding leads_def by blast
  have "line_masked m1 m2 j k' \<longleftrightarrow> j \<notin> {IRQ0, IRQ1, IRQ8} \<and> line_masked m1 m2 j k" for j
    using k'(3) by (auto simp: h_def started_def fun_eq_iff)
  then show ?thesis using k' by (auto simp: h_def started_def installed_irqs_def)
qed

lemma view_fields: "idt_ISREntries (idt_view k) = idt_ISREntries k" "idt_ISRHandlers (idt_view k) = idt_ISRHandlers k"
  "idt_loaded (idt_view k) = idt_loaded k"
  by (simp_all add: idt_view_def)

lemma installed_vector:
  assumes "idt_view k' = Main_install_handlers (idt_init esize zero init_isr stub table s)" "v < MAX_DESCRIPTORS"
  shows "gate_ready (idt_ISREntries k' ! v)" "same_base (idt_ISREntries k' ! v) (init_isr (stub v) zero)"
    "idt_ISRHandlers k' ! v = kernel_vector v" "idt_loaded k' = Some (of_nat (esize * MAX_DESCRIPTORS) - 1, table)"
proof -
  define a where "a = idt_init esize zero init_isr stub table s"
  have a: "idt_ok a" "same_base (idt_ISREntries a ! v) (init_isr (stub v) zero)" "gate_ready (idt_ISREntries a ! v)"
    "idt_ISRHandlers a ! v = None" "idt_limit a = of_nat (esize * MAX_DESCRIPTORS) - 1" "idt_base a = table"
    using idt_init_result [OF assms(2), of a esize zero init_isr stub table s] by (simp_all add: a_def)
  note b = Main_install_result [OF a(1) assms(2) a(3,4) refl, folded a_def]
  have "idt_ISREntries k' = idt_ISREntries (Main_install_handlers a)" "idt_ISRHandlers k' = idt_ISRHandlers (Main_install_handlers a)"
    "idt_loaded k' = idt_loaded (Main_install_handlers a)"
    using assms(1) view_fields [of k'] by (simp_all flip: a_def)
  then show "gate_ready (idt_ISREntries k' ! v)" "same_base (idt_ISREntries k' ! v) (init_isr (stub v) zero)"
    "idt_ISRHandlers k' ! v = kernel_vector v" "idt_loaded k' = Some (of_nat (esize * MAX_DESCRIPTORS) - 1, table)"
    using b a(2,5,6) by (auto intro: same_base_trans)
qed

text \<open>
  C6. On hardware that behaves as documented, with a keyboard that has nothing to send, the main
  function reaches the point where all interrupts are enabled if the keyboard uses scan code set 2.
  Then interrupts are enabled; the lines of the requests 0, 1 and 8 are unmasked and all others as
  before; the three handlers are registered for them, and no other; the clock runs at rate 6 with
  periodic interrupts; and the processor uses the table, in which each descriptor is a present
  interrupt gate to its own stub and each vector has its service routine.  With another set the
  function ends with interrupts disabled and the processor halted.
\<close>

theorem main_starts:
  assumes "pic_device m1 m2 dev" "kbd_device tr k0 dev" "set_translation tr" "cmos_device c r dev"
    "irq_ok k" "irq_handlers k = (\<lambda>_. {#})"
    "kbd_at tr k0 (io_trace k) = Some (set_value st, False, [])" "st \<noteq> ScanCodeSetUnknown"
  shows "(st = ScanCodeSet2 \<longrightarrow>
      (\<exists>k'. Main_start dev (idt_init esize zero init_isr stub table) k = Some (Running k') \<and> io_if k' \<and>
        (\<forall>j. line_masked m1 m2 j k' \<longleftrightarrow> j \<notin> {IRQ0, IRQ1, IRQ8} \<and> line_masked m1 m2 j k) \<and>
        irq_handlers k' = installed_irqs \<and>
        cmos_regs c k' = (cmos_regs c k)(0x0A := (cmos_regs c k 0x0A AND 0xF0) OR 6, 0x0B := cmos_regs c k 0x0B OR 0x40) \<and>
        idt_loaded k' = Some (of_nat (esize * MAX_DESCRIPTORS) - 1, table) \<and>
        (\<forall>v < MAX_DESCRIPTORS. gate_ready (idt_ISREntries k' ! v) \<and>
           same_base (idt_ISREntries k' ! v) (init_isr (stub v) zero) \<and> idt_ISRHandlers k' ! v = kernel_vector v))) \<and>
    (st \<noteq> ScanCodeSet2 \<longrightarrow>
      (\<exists>k'. Main_start dev (idt_init esize zero init_isr stub table) k = Some (Fatal k') \<and> \<not> io_if k' \<and>
        last (io_trace k') = CpuHalt))"
proof (intro conjI impI)
  assume "st = ScanCodeSet2"
  then show "\<exists>k'. Main_start dev (idt_init esize zero init_isr stub table) k = Some (Running k') \<and> io_if k' \<and>
        (\<forall>j. line_masked m1 m2 j k' \<longleftrightarrow> j \<notin> {IRQ0, IRQ1, IRQ8} \<and> line_masked m1 m2 j k) \<and>
        irq_handlers k' = installed_irqs \<and>
        cmos_regs c k' = (cmos_regs c k)(0x0A := (cmos_regs c k 0x0A AND 0xF0) OR 6, 0x0B := cmos_regs c k 0x0B OR 0x40) \<and>
        idt_loaded k' = Some (of_nat (esize * MAX_DESCRIPTORS) - 1, table) \<and>
        (\<forall>v < MAX_DESCRIPTORS. gate_ready (idt_ISREntries k' ! v) \<and>
           same_base (idt_ISREntries k' ! v) (init_isr (stub v) zero) \<and> idt_ISRHandlers k' ! v = kernel_vector v)"
    using started_kernel [OF assms(1-6), of esize zero init_isr stub table] assms(7)
      installed_vector(4) [of _ esize zero init_isr stub table "idt_view k" 0]
    by (auto simp: installed_vector [of _ esize zero init_isr stub table "idt_view k"] MAX_DESCRIPTORS_def)
next
  assume "st \<noteq> ScanCodeSet2"
  then show "\<exists>k'. Main_start dev (idt_init esize zero init_isr stub table) k = Some (Fatal k') \<and> \<not> io_if k' \<and>
        last (io_trace k') = CpuHalt"
    using Main_start_fails [of "((m1, m2), (tr, k0), c)" dev k st esize zero init_isr stub table] assms by auto
qed

text \<open>Hardware of this kind: the simulated devices behind their ports.\<close>

definition hw_sim :: "u8 \<Rightarrow> u8 \<Rightarrow> (u8 \<Rightarrow> u8) \<Rightarrow> kbd \<Rightarrow> (u8 \<Rightarrow> u8) \<Rightarrow> (nat \<Rightarrow> date) \<Rightarrow> device" where
  "hw_sim m1 m2 tr k0 c date t p = (if p = 0x71 then cmos_sim c date t p else kbd_sim m1 m2 tr k0 t p)"

lemma poll_cong: "(\<And>t. dev t 0x64 = dev' t 0x64) \<Longrightarrow> poll dev t n = poll dev' t n"
  by (induction n) (simp_all add: poll_snoc)

lemma uip_poll_cong: "(\<And>t. dev t CMOS_RegisterData = dev' t CMOS_RegisterData) \<Longrightarrow> uip_poll dev t n = uip_poll dev' t n"
  by (induction n) simp_all

lemma hw_sim:
  "pic_device m1 m2 (hw_sim m1 m2 tr k0 c date)" "kbd_device tr k0 (hw_sim m1 m2 tr k0 c date)"
  "cmos_device c (clock_sim c date) (hw_sim m1 m2 tr k0 c date)"
proof -
  let ?dev = "hw_sim m1 m2 tr k0 c date"
  have "?dev t 0x64 = kbd_sim m1 m2 tr k0 t 0x64" "?dev t 0x60 = kbd_sim m1 m2 tr k0 t 0x60" for t
    by (simp_all add: hw_sim_def)
  moreover from this(1) have "poll ?dev t n = poll (kbd_sim m1 m2 tr k0) t n" for t n by (rule poll_cong)
  ultimately show "kbd_device tr k0 ?dev" using kbd_sim(1) by (simp add: kbd_device_def)
  have "?dev t CMOS_RegisterData = cmos_sim c date t CMOS_RegisterData" for t by (simp add: hw_sim_def cmos_consts)
  moreover from this have "uip_poll ?dev t n = uip_poll (cmos_sim c date) t n" for t n by (rule uip_poll_cong)
  ultimately show "cmos_device c (clock_sim c date) ?dev" using cmos_sim by (simp add: cmos_device_def)
  show "pic_device m1 m2 ?dev" using kbd_sim(2) [of m1 m2 tr k0] by (simp add: pic_device_def hw_sim_def)
qed

lemma boot_ready:
  "irq_ok (kernel_boot :: 'e kernel)" "irq_handlers (kernel_boot :: 'e kernel) = (\<lambda>_. {#})" "io_trace (kernel_boot :: 'e kernel) = []"
  "k_clock (kernel_boot :: 'e kernel) = clock_boot"
proof -
  have "slot_handlers (replicate n None) = {#}" for n by (induction n) simp_all
  then show "irq_handlers (kernel_boot :: 'e kernel) = (\<lambda>_. {#})"
    by (simp add: irq_handlers_def irq_Init_def kernel_boot_def fun_eq_iff)
qed (simp_all add: kernel_boot_def irq_ok_def)

lemma boot_keyboard: "kbd_at tr (x, False, []) (io_trace (kernel_boot :: 'e kernel)) = Some (x, False, [])"
  by (simp add: boot_ready kbd_at_def)

theorem main_starts_witness:
  "\<exists>k'. Main_start (hw_sim 0xFF 0xFF id (2, False, []) cmos_2013 date_2013) (IDT_Init64 (\<lambda>v. 0x100000 + of_nat v) 0x200000) kernel_boot =
      Some (Running k') \<and> \<not> line_masked 0xFF 0xFF IRQ8 k' \<and> irq_handlers k' IRQ1 = {#KIrq_Keyboard#}"
proof -
  have "kbd_at id (2, False, []) (io_trace (kernel_boot :: ISREntry64 kernel)) = Some (set_value ScanCodeSet2, False, [])"
    "ScanCodeSet2 \<noteq> ScanCodeSetUnknown" "set_translation id"
    by (simp_all add: boot_keyboard set_translation_def)
  note main = main_starts [OF hw_sim(1,2) this(3) hw_sim(3) boot_ready(1,2) this(1,2), of "0xFF" "0xFF" cmos_2013 date_2013
      16 zero64 init_isr64 "\<lambda>v. 0x100000 + of_nat v" "0x200000"]
  then show ?thesis unfolding IDT_Init64_def by (auto simp: installed_irqs_def)
qed


section \<open>The first interrupt of the clock\<close>

lemma keeps_kernel: "keeps_table (kernel_irq_call A dev)"
proof -
  have "irq_Handlers s1 = irq_Handlers s \<and> irq_Inited s1 = irq_Inited s" if "kernel_irq_call A dev g irq regs s = Some s1"
    for g irq regs and s s1 :: "'e kernel"
    using that by (cases g; cases s)
      (auto simp: kernel_irq_call_def on_messages_def on_clock_def IRQ_SystemTimer_def)
  then show ?thesis unfolding keeps_table_def by blast
qed

lemma run_single:
  assumes "irq_ok s" "irq_handlers s irq = {#g#}" "keeps_table call"
  shows "ExecuteIRQHandlers call irq regs s = call g irq regs (irq_Init s)"
proof -
  have "mset (List.map_filter id (irq_Handlers (irq_Init s) irq)) = {#g#}"
    using assms(2) by (simp add: irq_handlers_def slot_handlers_def)
  then have "List.map_filter id (irq_Handlers (irq_Init s) irq) = [g]" by simp
  moreover have "ExecuteIRQHandlers call irq regs s = ExecuteIRQHandlers call irq regs (irq_Init s)"
    by (simp add: ExecuteIRQHandlers_def)
  ultimately show ?thesis
    using Execute_run [OF assms(3) irq_Init_ok [OF assms(1)]] by (cases "call g irq regs (irq_Init s)") simp_all
qed

lemma clock_interrupt:
  assumes "irq_ok k" "irq_handlers k IRQ8 = {#KIrq_RealTimeClock#}" "\<forall>v < MAX_DESCRIPTORS. idt_ISRHandlers k ! v = kernel_vector v"
    "IRQ_RealTimeClock A dev ((k_clock k)\<lparr>io_trace := io_trace k, io_if := io_if k\<rparr>) = Some c"
  shows "\<exists>k'. kernel_interrupt A dev (irq_vector IRQ8) regs k = Some k' \<and> k_clock k' = c \<and>
    io_trace k' = io_trace c @ [PortWrite 0xA0 0x20, PortWrite 0x20 0x20]"
proof -
  have "ISREntryGetHandler (IDT_GetISREntry (irq_vector IRQ8)) k = Some KIsr_IRQ"
    by (simp add: installed_handler [OF assms(3)] kernel_vector_def irq_vector_def)
  then have "kernel_interrupt A dev (irq_vector IRQ8) regs k = ISR_IRQ (kernel_irq_call A dev) (irq_vector IRQ8) regs k"
    by (simp add: kernel_interrupt_def IDT_HandleISR_def IDT_GetISREntry_def kernel_call_def Let_def)
  moreover have "k_clock (irq_Init k) = k_clock k" "io_trace (irq_Init k) = io_trace k" "io_if (irq_Init k) = io_if k"
    by (cases k; simp add: irq_Init_def)+
  then have "kernel_irq_call A dev KIrq_RealTimeClock IRQ8 regs (irq_Init k) =
      Some ((irq_Init k)\<lparr>io_trace := io_trace c, io_if := io_if c, k_clock := c\<rparr>)"
    using assms(4) by (simp add: kernel_irq_call_def on_clock_def)
  ultimately show ?thesis
    using run_single [OF assms(1,2) keeps_kernel, of A dev regs] irq_vector_eoi [of IRQ8]
    by (cases "irq_Init k") (simp add: ISR_IRQ_def isr_irq_vector PIC_SendEOI_def io_simps del: isr_irq.simps)
qed

lemma rate_keeps_mode:
  fixes f :: "u8 \<Rightarrow> u8"
  assumes "g = f(0x0A := (f 0x0A AND 0xF0) OR 6, 0x0B := f 0x0B OR 0x40)" "mode_kept c f"
  shows "mode_kept c g"
  using assms(2) by (simp add: assms(1) mode_kept_def bit.conj_disj_distrib2)

text \<open>
  C7. When the kernel has started in this way and the clock interrupts it for the first time, the time
  of the system becomes the calendar time that the clock, which goes on meanwhile, shows at a moment
  while the interrupt is handled, and both controllers are told the end of the interrupt: the table,
  the handlers, the registers of the clock and the variables of the time work together.  The clock
  is in 24 hour mode and shows dates from 1970 on that fit a long; an update of it may be in progress
  when the interrupt comes.
\<close>

theorem main_time:
  assumes "pic_device m1 m2 dev" "kbd_device tr k0 dev" "set_translation tr" "cmos_device c r dev"
    "irq_ok k" "irq_handlers k = (\<lambda>_. {#})" "kbd_at tr k0 (io_trace k) = Some (2, False, [])" "\<not> clk_inited (k_clock k)"
    "clock_runs A c r date" "mode_kept c (cmos_regs c k)"
  shows "\<exists>k1 k2 t u w. Main_start dev (idt_init esize zero init_isr stub table) k = Some (Running k1) \<and>
    kernel_interrupt A dev (irq_vector IRQ8) regs k1 = Some k2 \<and>
    System_GetTime (k_clock k2) = date_seconds (date t) \<and> \<not> updating r t \<and>
    t = io_trace k1 @ u \<and> io_trace k2 = t @ w @ [PortWrite 0xA0 0x20, PortWrite 0x20 0x20]"
proof -
  obtain k1 where k1: "Main_start dev (idt_init esize zero init_isr stub table) k = Some (Running k1)"
    "cmos_regs c k1 = (cmos_regs c k)(0x0A := (cmos_regs c k 0x0A AND 0xF0) OR 6, 0x0B := cmos_regs c k 0x0B OR 0x40)"
    "irq_handlers k1 = installed_irqs" "irq_ok k1" "k_clock k1 = k_clock k"
    "idt_view k1 = Main_install_handlers (idt_init esize zero init_isr stub table (idt_view k))"
    using started_kernel [OF assms(1-7), of esize zero init_isr stub table] by (elim exE conjE)
  define s where "s = (k_clock k1)\<lparr>io_trace := io_trace k1, io_if := io_if k1\<rparr>"
  have s: "cmos_regs c s = cmos_regs c k1" "\<not> clk_inited s" "io_trace s = io_trace k1"
    using assms(8) k1(5) by (simp_all add: s_def cmos_regs_def)
  have "mode_kept c (cmos_regs c s)" unfolding s(1) by (rule rate_keeps_mode [OF k1(2) assms(10)])
  from first_tick [OF assms(4) s(2) assms(9) this] obtain s2 t u w where s2: "IRQ_RealTimeClock A dev s = Some s2"
    "System_GetTime s2 = date_seconds (date t)" "\<not> updating r t" "t = io_trace k1 @ u" "io_trace s2 = t @ w"
    unfolding s(3) by blast
  obtain k2 where "kernel_interrupt A dev (irq_vector IRQ8) regs k1 = Some k2" "k_clock k2 = s2"
    "io_trace k2 = io_trace s2 @ [PortWrite 0xA0 0x20, PortWrite 0x20 0x20]"
    using clock_interrupt [OF k1(4) _ _ s2(1) [unfolded s_def], of regs] k1(3) installed_vector(3) [OF k1(6)]
    by (auto simp: installed_irqs_def)
  then show ?thesis using k1(1) s2(2-5) by auto
qed

theorem main_time_witness:
  "\<exists>k1 k2. Main_start (hw_sim 0xFF 0xFF id (2, False, []) cmos_2013 date_2013) (IDT_Init64 (\<lambda>v. 0x100000 + of_nat v) 0x200000) kernel_boot =
      Some (Running k1) \<and>
    kernel_interrupt X86_64 (hw_sim 0xFF 0xFF id (2, False, []) cmos_2013 date_2013) 0x28 0x3000 k1 = Some k2 \<and>
    1359619200 \<le> System_GetTime (k_clock k2)"
proof -
  have vec: "irq_vector IRQ8 = 0x28" by (simp add: irq_vector_def)
  have "\<not> clk_inited (k_clock (kernel_boot :: ISREntry64 kernel))" "set_translation id"
    "mode_kept cmos_2013 (cmos_regs cmos_2013 (kernel_boot :: ISREntry64 kernel))"
    by (simp_all add: boot_ready clock_boot_def set_translation_def kept_2013)
  note main = main_time [OF hw_sim(1,2) this(2) hw_sim(3) boot_ready(1,2) boot_keyboard this(1) runs_2013 this(3),
      where A = X86_64 and esize = 16 and zero = zero64 and init_isr = init_isr64 and stub = "\<lambda>v. 0x100000 + of_nat v"
        and table = "0x200000" and ?m1.0 = "0xFF" and ?m2.0 = "0xFF" and regs = "0x3000"]
  from main obtain k1 k2 and t :: "io_event list" where
    "Main_start (hw_sim 0xFF 0xFF id (2, False, []) cmos_2013 date_2013) (idt_init 16 zero64 init_isr64 (\<lambda>v. 0x100000 + of_nat v) 0x200000) kernel_boot =
      Some (Running k1)"
    "kernel_interrupt X86_64 (hw_sim 0xFF 0xFF id (2, False, []) cmos_2013 date_2013) 0x28 0x3000 k1 = Some k2"
    "System_GetTime (k_clock k2) = date_seconds (date_2013 (length t div 64))"
    unfolding vec by (elim exE conjE) (rule that)
  then show ?thesis unfolding IDT_Init64_def using seconds_2013(1) by auto
qed

end
