(* ===== verification/XEOS_MainRun.thy ===== *)
theory XEOS_MainRun
  imports XEOS_KernelProps
begin

text \<open>
  The main function after it has enabled interrupts (source/core/xeos/XEOS_Main.c): it waits until
  an interrupt of the clock has set the time of the system, prints the time, and starts ACPICA.

  The interrupts that arrive are a parameter: ev n is the vector, with the address of the saved
  registers, of the interrupt in round n of the loop, or None.  The five functions of the
  third-party ACPICA are parameters too; each returns the kernel and whether its status is a
  failure.
\<close>

section \<open>Definitions\<close>

partial_function (option) Main_wait :: "arch \<Rightarrow> device \<Rightarrow> (nat \<Rightarrow> (u8 \<times> u64) option) \<Rightarrow> nat \<Rightarrow> 'e kernel \<Rightarrow> 'e kernel option" where
  "Main_wait A dev ev n k =
     (if System_GetTime (k_clock k) = 0
      then (case ev n of
              None \<Rightarrow> Main_wait A dev ev (n + 1) k
            | Some (isr, regs) \<Rightarrow>
                (case kernel_interrupt A dev isr regs k of
                   None \<Rightarrow> None
                 | Some k1 \<Rightarrow> Main_wait A dev ev (n + 1) k1))
      else Some k)"

definition main_info :: "arch \<Rightarrow> string \<Rightarrow> va list \<Rightarrow> 'e kernel \<Rightarrow> 'e kernel option" where
  "main_info A format args k =
     do { (ls, v) \<leftarrow> Main_PrintInfoLine A (Some (ascii format)) args (k_ls k)
            ((k_messages k)\<lparr>io_trace := io_trace k, io_if := io_if k\<rparr>);
          Some (k\<lparr>io_trace := io_trace v, io_if := io_if v, k_messages := v, k_ls := ls\<rparr>) }"

definition main_clock :: "arch \<Rightarrow> device \<Rightarrow> (nat \<Rightarrow> (u8 \<times> u64) option) \<Rightarrow> 'e kernel \<Rightarrow> 'e kernel start option" where
  "main_clock A dev ev k =
     do { s \<leftarrow> init_section ''Getting the system time:'' None (\<lambda>k. map_option Running (Main_wait A dev ev 0 k)) (Running k);
          (case s of
             Fatal k1 \<Rightarrow> Some (Fatal k1)
           | Running k1 \<Rightarrow> map_option Running
               (main_info A ''System time:  %lu'' [VaLong (of_int (System_GetTime (k_clock k1)))] k1)) }"

type_synonym 'k acpi_call = "'k \<Rightarrow> 'k \<times> bool"

record 'k acpica =
  AcpiInitializeSubsystem :: "'k acpi_call"
  AcpiInitializeTables :: "'k acpi_call"
  AcpiLoadTables :: "'k acpi_call"
  AcpiEnableSubsystem :: "'k acpi_call"
  AcpiInitializeObjects :: "'k acpi_call"

definition acpi_check :: "'e kernel acpi_call \<Rightarrow> 'e kernel start \<Rightarrow> 'e kernel start" where
  "acpi_check call st =
     (case st of
        Fatal k \<Rightarrow> Fatal k
      | Running k \<Rightarrow>
          let (k1, failed) = call k
          in if failed then Fatal (messages_do (\<lambda>v. Main_FatalError (Main_PromptFailure None v)) k1) else Running k1)"

definition main_acpi :: "'e kernel acpica \<Rightarrow> 'e kernel \<Rightarrow> 'e kernel start option" where
  "main_acpi ac k =
     init_section ''Initializing the ACPI subsystem:'' None
       (\<lambda>k. Some (acpi_check (AcpiInitializeObjects ac) (acpi_check (AcpiEnableSubsystem ac)
          (acpi_check (AcpiLoadTables ac) (acpi_check (AcpiInitializeTables ac)
             (acpi_check (AcpiInitializeSubsystem ac) (Running k))))))) (Running k)"


section \<open>The first interrupts\<close>

text \<open>A request with a single handler runs it, and the controllers of the request are told the end.\<close>

definition end_of_request :: "PIC_IRQ \<Rightarrow> io_event list" where
  "end_of_request irq = (if IRQ8 \<le> irq then [PortWrite 0xA0 0x20] else []) @ [PortWrite 0x20 0x20]"

text \<open>What holds of the kernel from its start on: the handlers and the table.\<close>

definition kernel_up :: "'e kernel \<Rightarrow> bool" where
  "kernel_up k \<longleftrightarrow> irq_ok k \<and> irq_handlers k = installed_irqs \<and>
     (\<forall>v < MAX_DESCRIPTORS. idt_ISRHandlers k ! v = kernel_vector v)"

lemma request_interrupt:
  assumes "kernel_up k" "irq_handlers k irq = {#g#}" "irq \<noteq> IRQ15"
  shows "kernel_interrupt A dev (irq_vector irq) regs k =
    map_option (\<lambda>k1. k1\<lparr>io_trace := io_trace k1 @ end_of_request irq\<rparr>) (kernel_irq_call A dev g irq regs (irq_Init k))"
proof -
  have "ISREntryGetHandler (IDT_GetISREntry (irq_vector irq)) k = Some KIsr_IRQ"
    using assms(1,3) by (cases irq) (simp_all add: kernel_up_def installed_handler kernel_vector_def irq_vector_def)
  then have "kernel_interrupt A dev (irq_vector irq) regs k = ISR_IRQ (kernel_irq_call A dev) (irq_vector irq) regs k"
    by (simp add: kernel_interrupt_def IDT_HandleISR_def IDT_GetISREntry_def kernel_call_def Let_def)
  moreover have "irq_ok k" using assms(1) by (simp add: kernel_up_def)
  ultimately show ?thesis
    using run_single [OF _ assms(2) keeps_kernel, of A dev regs] irq_vector_eoi [of irq]
    by (cases "kernel_irq_call A dev g irq regs (irq_Init k)")
      (simp_all add: ISR_IRQ_def isr_irq_vector PIC_SendEOI_def io_simps end_of_request_def less_eq_PIC_IRQ_def del: isr_irq.simps)
qed

text \<open>An interrupt of the system timer changes nothing but the trace.\<close>

lemma timer_interrupt:
  assumes "kernel_up k"
  shows "kernel_interrupt A dev (irq_vector IRQ0) regs k = Some ((irq_Init k)\<lparr>io_trace := io_trace k @ [PortWrite 0x20 0x20]\<rparr>)"
proof -
  have "irq_handlers k IRQ0 = {#KIrq_SystemTimer#}" using assms by (simp add: kernel_up_def installed_irqs_def)
  moreover have "io_trace (irq_Init k) = io_trace k" by (cases k) (simp add: irq_Init_def)
  ultimately show ?thesis
    using request_interrupt [OF assms, of IRQ0] by (simp add: kernel_irq_call_def IRQ_SystemTimer_def end_of_request_def less_eq_PIC_IRQ_def)
qed

lemma timer_keeps:
  assumes "kernel_up k" "kernel_interrupt A dev (irq_vector IRQ0) regs k = Some k1"
  shows "kernel_up k1" "k_clock k1 = k_clock k" "cmos_regs c k1 = cmos_regs c k" "io_trace k1 = io_trace k @ [PortWrite 0x20 0x20]"
proof -
  have k1: "k1 = (irq_Init k)\<lparr>io_trace := io_trace k @ [PortWrite 0x20 0x20]\<rparr>"
    using assms(2) unfolding timer_interrupt [OF assms(1)] by simp
  show "k_clock k1 = k_clock k" by (cases k) (simp add: k1 irq_Init_def)
  show "cmos_regs c k1 = cmos_regs c k" by (simp add: k1 cmos_regs_def cmos_settings_def cmos_state_def cmos_consts)
  show "io_trace k1 = io_trace k @ [PortWrite 0x20 0x20]" by (simp add: k1)
  have "idt_ISRHandlers k1 = idt_ISRHandlers k" by (cases k) (simp add: k1 irq_Init_def)
  moreover have "irq_ok k1" "irq_handlers k1 = irq_handlers k"
    using assms(1) irq_Init_ok [of k] by (simp_all add: k1 kernel_up_def irq_ok_def irq_handlers_def fun_eq_iff irq_Init_def)
  ultimately show "kernel_up k1" using assms(1) by (simp add: kernel_up_def)
qed

lemma clock_keeps:
  assumes "cmos_device c r dev" "kernel_up k" "\<not> clk_inited (k_clock k)" "clock_runs A c r date" "mode_kept c (cmos_regs c k)"
  shows "\<exists>k1 t u w. kernel_interrupt A dev (irq_vector IRQ8) regs k = Some k1 \<and> System_GetTime (k_clock k1) = date_seconds (date t) \<and>
    \<not> updating r t \<and> t = io_trace k @ u \<and> io_trace k1 = t @ w"
proof -
  define s where "s = (k_clock k)\<lparr>io_trace := io_trace k, io_if := io_if k\<rparr>"
  have s: "mode_kept c (cmos_regs c s)" "\<not> clk_inited s" "io_trace s = io_trace k" using assms(3,5) by (simp_all add: s_def cmos_regs_def)
  from first_tick [OF assms(1) s(2) assms(4) s(1)] obtain s2 t u w where s2: "IRQ_RealTimeClock A dev s = Some s2"
    "System_GetTime s2 = date_seconds (date t)" "\<not> updating r t" "t = io_trace k @ u" "io_trace s2 = t @ w"
    unfolding s(3) by blast
  then show ?thesis
    using clock_interrupt [OF _ _ _ s2(1) [unfolded s_def], of regs] assms(2)
    by (fastforce simp: kernel_up_def installed_irqs_def)
qed


section \<open>The wait for the clock\<close>

text \<open>The interrupts that can arrive: those of the two timers.\<close>

definition timer_event :: "(u8 \<times> u64) option \<Rightarrow> bool" where
  "timer_event e \<longleftrightarrow> (case e of None \<Rightarrow> True | Some (isr, regs) \<Rightarrow> isr = irq_vector IRQ0)"

definition clock_event :: "(u8 \<times> u64) option \<Rightarrow> bool" where
  "clock_event e \<longleftrightarrow> (case e of None \<Rightarrow> False | Some (isr, regs) \<Rightarrow> isr = irq_vector IRQ8)"

text \<open>A round without the clock leaves the wait where it was.\<close>

lemma Main_wait_timer:
  assumes "kernel_up k" "System_GetTime (k_clock k) = 0" "timer_event (ev n)"
  shows "\<exists>k1. Main_wait A dev ev n k = Main_wait A dev ev (n + 1) k1 \<and> kernel_up k1 \<and>
    k_clock k1 = k_clock k \<and> cmos_regs c k1 = cmos_regs c k \<and> (\<exists>u. io_trace k1 = io_trace k @ u)"
proof (cases "ev n")
  case None
  then show ?thesis using assms by (intro exI [of _ k]) (simp add: Main_wait.simps [of A dev ev n])
next
  case (Some e)
  then obtain regs where e: "ev n = Some (irq_vector IRQ0, regs)"
    using assms(3) by (cases e) (simp add: timer_event_def)
  obtain k1 where k1: "kernel_interrupt A dev (irq_vector IRQ0) regs k = Some k1" using timer_interrupt [OF assms(1)] by blast
  then show ?thesis
    using timer_keeps [OF assms(1) k1] assms(2) e
    by (intro exI [of _ k1]) (simp add: Main_wait.simps [of A dev ev n])
qed

lemma Main_wait_timers:
  assumes "kernel_up k" "System_GetTime (k_clock k) = 0" "\<forall>i < m. timer_event (ev (n + i))"
  shows "\<exists>k1. Main_wait A dev ev n k = Main_wait A dev ev (n + m) k1 \<and> kernel_up k1 \<and>
    k_clock k1 = k_clock k \<and> cmos_regs c k1 = cmos_regs c k \<and> (\<exists>u. io_trace k1 = io_trace k @ u)"
  using assms
proof (induction m arbitrary: n k)
  case 0
  then show ?case by auto
next
  case (Suc m)
  have "timer_event (ev n)" using Suc.prems(3) by (metis add.right_neutral zero_less_Suc)
  from Main_wait_timer [OF Suc.prems(1,2), of ev n A dev c, OF this] obtain k1 u where
    k1: "Main_wait A dev ev n k = Main_wait A dev ev (n + 1) k1" "kernel_up k1"
    "k_clock k1 = k_clock k" "cmos_regs c k1 = cmos_regs c k" "io_trace k1 = io_trace k @ u"
    by blast
  have "\<forall>i < m. timer_event (ev (n + 1 + i))" using Suc.prems(3) by auto
  then obtain k2 w where "Main_wait A dev ev (n + 1) k1 = Main_wait A dev ev (n + 1 + m) k2" "kernel_up k2"
    "k_clock k2 = k_clock k1" "cmos_regs c k2 = cmos_regs c k1" "io_trace k2 = io_trace k1 @ w"
    using Suc.IH [OF k1(2), of "n + 1"] k1(3) Suc.prems(2) by auto
  then show ?case using k1 by (intro exI [of _ k2]) simp
qed

text \<open>Without the clock there is no result.\<close>

lemma Main_wait_forever:
  assumes "Main_wait A dev ev n k = Some k'"
  shows "(\<forall>i. timer_event (ev i)) \<longrightarrow> kernel_up k \<longrightarrow> System_GetTime (k_clock k) \<noteq> 0"
proof (rule Main_wait.raw_induct [rotated, OF assms], intro impI notI)
  fix wait A dev ev n and k k' :: "'a kernel"
  assume IH: "\<And>A dev ev n (k :: 'a kernel) k'. wait A dev ev n k = Some k' \<Longrightarrow>
        (\<forall>i. timer_event (ev i)) \<longrightarrow> kernel_up k \<longrightarrow> System_GetTime (k_clock k) \<noteq> 0"
    and body: "(if System_GetTime (k_clock k) = 0
      then (case ev n of None \<Rightarrow> wait A dev ev (n + 1) k
            | Some (isr, regs) \<Rightarrow> (case kernel_interrupt A dev isr regs k of None \<Rightarrow> None | Some k1 \<Rightarrow> wait A dev ev (n + 1) k1))
      else Some k) = Some k'"
    and k: "\<forall>i. timer_event (ev i)" "kernel_up k" "System_GetTime (k_clock k) = 0"
  show False
  proof (cases "ev n")
    case None
    then show False using body k IH by auto
  next
    case (Some e)
    then obtain regs where e: "ev n = Some (irq_vector IRQ0, regs)"
      using k(1) by (cases e) (auto simp: timer_event_def dest: spec [of _ n])
    obtain k1 where k1: "kernel_interrupt A dev (irq_vector IRQ0) regs k = Some k1" using timer_interrupt [OF k(2)] by blast
    then show False using body k IH [of A dev ev "n + 1" k1 k'] e timer_keeps(1,2) [OF k(2) k1] by simp
  qed
qed

lemma Main_wait_clock:
  assumes "cmos_device c r dev" "kernel_up k" "\<not> clk_inited (k_clock k)" "System_GetTime (k_clock k) = 0"
    "\<forall>i. timer_event (ev i) \<or> clock_event (ev i)" "clock_event (ev n)"
    "clock_runs A c r date" "mode_kept c (cmos_regs c k)" "\<forall>t. 0 < date_seconds (date t)"
  shows "\<exists>k2 t u w. Main_wait A dev ev 0 k = Some k2 \<and> System_GetTime (k_clock k2) = date_seconds (date t) \<and>
    \<not> updating r t \<and> t = io_trace k @ u \<and> io_trace k2 = t @ w"
proof -
  define m where "m = (LEAST i. clock_event (ev i))"
  have m: "clock_event (ev m)" "\<forall>i < m. timer_event (ev (0 + i))"
    unfolding m_def by (rule LeastI [of "\<lambda>i. clock_event (ev i)", OF assms(6)]) (use assms(5) not_less_Least in fastforce)
  obtain k1 x where k1: "Main_wait A dev ev 0 k = Main_wait A dev ev m k1" "kernel_up k1"
    "k_clock k1 = k_clock k" "cmos_regs c k1 = cmos_regs c k" "io_trace k1 = io_trace k @ x"
    using Main_wait_timers [OF assms(2,4) m(2), of A dev c] by auto
  obtain regs where regs: "ev m = Some (irq_vector IRQ8, regs)"
    using m(1) by (auto simp: clock_event_def split: option.splits)
  obtain k2 t u w where k2: "kernel_interrupt A dev (irq_vector IRQ8) regs k1 = Some k2"
    "System_GetTime (k_clock k2) = date_seconds (date t)" "\<not> updating r t" "t = io_trace k1 @ u" "io_trace k2 = t @ w"
    using clock_keeps [OF assms(1) k1(2) assms(3) [folded k1(3)] assms(7) assms(8) [folded k1(4)], of regs] by blast
  have "Main_wait A dev ev m k1 = Main_wait A dev ev (m + 1) k2"
    using k1(3) assms(4) regs k2(1) by (subst Main_wait.simps) simp
  also have "0 < date_seconds (date t)" using assms(9) by blast
  then have "Main_wait A dev ev (m + 1) k2 = Some k2" using k2(2) by (subst Main_wait.simps) simp
  finally show ?thesis using k1(1,5) k2(2-5) by auto
qed

text \<open>
  C8. After the start of the kernel with the two timers as the only sources of interrupts, the wait
  of the main function ends if and only if the real time clock interrupts it at some time; then the
  time of the system is the calendar time that the clock, which goes on all the time, shows at a
  moment during the wait.  No number of interrupts of the system timer ends it.
\<close>

theorem main_waits:
  assumes "pic_device m1 m2 dev" "kbd_device tr k0 dev" "set_translation tr" "cmos_device c r dev"
    "irq_ok k" "irq_handlers k = (\<lambda>_. {#})" "kbd_at tr k0 (io_trace k) = Some (2, False, [])"
    "\<not> clk_inited (k_clock k)" "System_GetTime (k_clock k) = 0"
    "clock_runs A c r date" "mode_kept c (cmos_regs c k)" "\<forall>t. 0 < date_seconds (date t)"
    "\<forall>i. timer_event (ev i) \<or> clock_event (ev i)"
  shows "\<exists>k1. Main_start dev (idt_init esize zero init_isr stub table) k = Some (Running k1) \<and>
    (if \<exists>n. clock_event (ev n)
     then \<exists>k2 t u w. Main_wait A dev ev 0 k1 = Some k2 \<and> System_GetTime (k_clock k2) = date_seconds (date t) \<and>
       \<not> updating r t \<and> t = io_trace k1 @ u \<and> io_trace k2 = t @ w
     else Main_wait A dev ev 0 k1 = None)"
proof -
  obtain k1 where k1: "Main_start dev (idt_init esize zero init_isr stub table) k = Some (Running k1)"
    "cmos_regs c k1 = (cmos_regs c k)(0x0A := (cmos_regs c k 0x0A AND 0xF0) OR 6, 0x0B := cmos_regs c k 0x0B OR 0x40)"
    "irq_handlers k1 = installed_irqs" "irq_ok k1" "k_clock k1 = k_clock k"
    "idt_view k1 = Main_install_handlers (idt_init esize zero init_isr stub table (idt_view k))"
    using started_kernel [OF assms(1-7), of esize zero init_isr stub table] by (elim exE conjE)
  then have ready: "kernel_up k1" using installed_vector(3) [OF k1(6)] by (simp add: kernel_up_def)
  have clock: "\<not> clk_inited (k_clock k1)" "System_GetTime (k_clock k1) = 0" using assms(8,9) k1(5) by simp_all
  note mode = rate_keeps_mode [OF k1(2) assms(11)]
  show ?thesis
  proof (cases "\<exists>n. clock_event (ev n)")
    case True
    then show ?thesis
      using Main_wait_clock [OF assms(4) ready clock assms(13) _ assms(10) mode assms(12)] k1(1) by auto
  next
    case False
    then have "\<forall>i. timer_event (ev i)" using assms(13) by blast
    then have "Main_wait A dev ev 0 k1 = None" using Main_wait_forever [of A dev ev 0 k1] ready clock by fastforce
    then show ?thesis using False k1(1) by simp
  qed
qed

theorem main_waits_witness:
  "\<exists>k1 k2. Main_start (hw_sim 0xFF 0xFF id (2, False, []) cmos_2013 date_2013) (IDT_Init64 (\<lambda>v. 0x100000 + of_nat v) 0x200000) kernel_boot =
      Some (Running k1) \<and>
    Main_wait X86_64 (hw_sim 0xFF 0xFF id (2, False, []) cmos_2013 date_2013)
      (\<lambda>n. if n = 7 then Some (irq_vector IRQ8, 0x3000) else if even n then Some (irq_vector IRQ0, 0x3000) else None) 0 k1 = Some k2 \<and>
    1359619200 \<le> System_GetTime (k_clock k2)"
proof -
  define ev where "ev = (\<lambda>n :: nat. if n = 7 then Some (irq_vector IRQ8, 0x3000 :: u64)
      else if even n then Some (irq_vector IRQ0, 0x3000) else None)"
  have ev: "\<forall>i. timer_event (ev i) \<or> clock_event (ev i)" "\<exists>n. clock_event (ev n)"
    by (auto simp: ev_def timer_event_def clock_event_def intro!: exI [of _ 7])
  have pos: "\<forall>t :: io_event list. 0 < date_seconds (date_2013 (length t div 64))"
    by (intro allI less_le_trans [OF _ seconds_2013(1)]) simp
  have boot: "\<not> clk_inited (k_clock (kernel_boot :: ISREntry64 kernel))" "System_GetTime (k_clock (kernel_boot :: ISREntry64 kernel)) = 0"
    "set_translation id" "mode_kept cmos_2013 (cmos_regs cmos_2013 (kernel_boot :: ISREntry64 kernel))"
    by (simp_all add: boot_ready clock_boot_def set_translation_def kept_2013 System_GetTime_def)
  note main = main_waits [OF hw_sim(1,2) boot(3) hw_sim(3) boot_ready(1,2) boot_keyboard boot(1,2) runs_2013 boot(4) pos ev(1),
      where A = X86_64 and esize = 16 and zero = zero64 and init_isr = init_isr64 and stub = "\<lambda>v. 0x100000 + of_nat v"
        and table = "0x200000" and ?m1.0 = "0xFF" and ?m2.0 = "0xFF"]
  from main [unfolded if_P [OF ev(2)]] obtain k1 k2 and t :: "io_event list" where
    "Main_start (hw_sim 0xFF 0xFF id (2, False, []) cmos_2013 date_2013) (idt_init 16 zero64 init_isr64 (\<lambda>v. 0x100000 + of_nat v) 0x200000) kernel_boot =
      Some (Running k1)"
    "Main_wait X86_64 (hw_sim 0xFF 0xFF id (2, False, []) cmos_2013 date_2013) ev 0 k1 = Some k2"
    "System_GetTime (k_clock k2) = date_seconds (date_2013 (length t div 64))"
    by (elim exE conjE) (rule that)
  then show ?thesis unfolding IDT_Init64_def ev_def using seconds_2013(1) by auto
qed


section \<open>The start of ACPICA\<close>

text \<open>What the first n calls do, one after the other.\<close>

fun acpi_run :: "'k acpi_call list \<Rightarrow> 'k \<Rightarrow> 'k \<times> bool" where
  "acpi_run [] k = (k, False)"
| "acpi_run (c # cs) k = (let (k1, failed) = c k in if failed then (k1, True) else acpi_run cs k1)"

definition acpi_calls :: "'k acpica \<Rightarrow> 'k acpi_call list" where
  "acpi_calls ac = [AcpiInitializeSubsystem ac, AcpiInitializeTables ac, AcpiLoadTables ac, AcpiEnableSubsystem ac,
     AcpiInitializeObjects ac]"

lemma acpi_check_simps:
  "acpi_check c (Fatal k) = Fatal k"
  "acpi_check c (Running k) = (if snd (c k) then Fatal (messages_do (\<lambda>v. Main_FatalError (Main_PromptFailure None v)) (fst (c k)))
     else Running (fst (c k)))"
  by (simp_all add: acpi_check_def Let_def split: prod.splits)

lemma acpi_check_run:
  "foldl (\<lambda>st c. acpi_check c st) (Running k) cs =
     (let (k1, failed) = acpi_run cs k
      in if failed then Fatal (messages_do (\<lambda>v. Main_FatalError (Main_PromptFailure None v)) k1) else Running k1)"
proof (induction cs arbitrary: k)
  case (Cons c cs)
  have "foldl (\<lambda>st c. acpi_check c st) (Fatal k1) cs = Fatal k1" for k1 by (induction cs) (simp_all add: acpi_check_simps)
  then show ?case by (simp add: Cons.IH acpi_check_simps case_prod_beta Let_def)
qed simp

text \<open>
  The five functions of ACPICA run in their order until one fails.  When all succeed the prompt
  gets its status and the kernel goes on; a failure of any of them ends with interrupts disabled and
  the processor halted, and no later function runs.
\<close>

theorem main_acpi_stops:
  assumes "acpi_run (acpi_calls ac) (messages_do (Main_Prompt (Some (ascii ''Initializing the ACPI subsystem:''))) k) = (k1, failed)"
  shows "if failed then \<exists>k2. main_acpi ac k = Some (Fatal k2) \<and> \<not> io_if k2 \<and> last (io_trace k2) = CpuHalt
     else main_acpi ac k = Some (Running (messages_do (Main_PromptSuccess None) k1))"
  using acpi_check_run [of "messages_do (Main_Prompt (Some (ascii ''Initializing the ACPI subsystem:''))) k" "acpi_calls ac"] assms
  by (auto simp: main_acpi_def init_section_def acpi_calls_def halting_messages)



section \<open>Software interrupts\<close>

text \<open>
  XEOS_HAL_CPU_SoftwareInterrupt has one instruction for each number, in sixteen groups of sixteen
  cases; the processor saves the registers at the address regs and runs the vector.
\<close>

definition gent_int_cases :: "nat list" where
  "gent_int_cases = concat (map (\<lambda>group. map (\<lambda>n. 16 * group + n) [0..<16]) [0..<16])"

definition SoftwareInterrupt :: "arch \<Rightarrow> device \<Rightarrow> u8 \<Rightarrow> u64 \<Rightarrow> 'e kernel \<Rightarrow> 'e kernel option" where
  "SoftwareInterrupt A dev n regs k = (if unat n \<in> set gent_int_cases then kernel_interrupt A dev n regs k else Some k)"

lemma gent_int_case: "g < 16 \<Longrightarrow> i < 16 \<Longrightarrow> 16 * g + i \<in> set gent_int_cases"
  unfolding gent_int_cases_def set_concat set_map set_upt by (auto intro!: bexI [of _ g])

lemma gent_int_cases: "unat (n :: u8) \<in> set gent_int_cases"
proof -
  have "unat n div 16 < 16" using unat_u8 [of n] by (simp add: less_mult_imp_div_less)
  then have "16 * (unat n div 16) + unat n mod 16 \<in> set gent_int_cases" by (intro gent_int_case) simp_all
  then show ?thesis unfolding mult_div_mod_eq .
qed

text \<open>In the kernel the interrupt 0x80 is the system call.\<close>

lemma software_syscall:
  assumes "kernel_up k"
  shows "SoftwareInterrupt A dev 0x80 regs k = ISR_SysCall A 0x80 regs k"
proof -
  have "ISREntryGetHandler (IDT_GetISREntry 0x80) k = Some KIsr_SysCall"
    using assms by (simp add: kernel_up_def installed_handler kernel_vector_def)
  moreover note gent_int_cases [of "0x80"]
  ultimately show ?thesis
    by (simp only: SoftwareInterrupt_def kernel_interrupt_def IDT_HandleISR_def IDT_GetISREntry_def Let_def if_True) (simp add: kernel_call_def)
qed

end
