(* ===== verification/XEOS_GUI.thy ===== *)
theory XEOS_GUI
  imports XEOS_Base
begin

text \<open>
  Graphics (source/core/xeos/gui): the predefined colours, which a program can replace, and the
  bitmap fonts with their glyphs and the search for a font.

  A reference to a font or a glyph is an option, None for NULL.  A function that can read outside of
  a table has another option around its result: None when it does.
\<close>


section \<open>Points, sizes and colours\<close>

record gui_point =
  pt_x :: u32
  pt_y :: u32

record gui_size =
  sz_width :: u32
  sz_height :: u32

record gui_rect =
  rc_origin :: gui_point
  rc_size :: gui_size

definition MakePoint :: "u32 \<Rightarrow> u32 \<Rightarrow> gui_point" where
  "MakePoint x y = \<lparr> pt_x = x, pt_y = y \<rparr>"

definition MakeSize :: "u32 \<Rightarrow> u32 \<Rightarrow> gui_size" where
  "MakeSize w h = \<lparr> sz_width = w, sz_height = h \<rparr>"

definition MakeRect :: "u32 \<Rightarrow> u32 \<Rightarrow> u32 \<Rightarrow> u32 \<Rightarrow> gui_rect" where
  "MakeRect x y w h = \<lparr> rc_origin = \<lparr> pt_x = x, pt_y = y \<rparr>, rc_size = \<lparr> sz_width = w, sz_height = h \<rparr> \<rparr>"

record gui_color =
  co_red :: u8
  co_green :: u8
  co_blue :: u8

datatype predefined_color =
    PredefinedColorBlack | PredefinedColorWhite | PredefinedColorGray | PredefinedColorLightGray |
    PredefinedColorRed | PredefinedColorGreen | PredefinedColorBlue | PredefinedColorMagenta |
    PredefinedColorCyan | PredefinedColorYellow | PredefinedColorScreenBackground |
    PredefinedColorWindowBackground

record gui_colors =
  gc_Black :: gui_color
  gc_White :: gui_color
  gc_Gray :: gui_color
  gc_LightGray :: gui_color
  gc_Red :: gui_color
  gc_Green :: gui_color
  gc_Blue :: gui_color
  gc_Magenta :: gui_color
  gc_Cyan :: gui_color
  gc_Yellow :: gui_color
  gc_ScreenBackground :: gui_color
  gc_WindowBackground :: gui_color

definition rgb :: "u8 \<Rightarrow> u8 \<Rightarrow> u8 \<Rightarrow> gui_color" where
  "rgb r g b = \<lparr> co_red = r, co_green = g, co_blue = b \<rparr>"

definition boot_colors :: gui_colors where
  "boot_colors = \<lparr> gc_Black = rgb 0x1B 0x1E 0x22, gc_White = rgb 0xFF 0xFF 0xFF, gc_Gray = rgb 0x80 0x80 0x80,
     gc_LightGray = rgb 0xCB 0xCB 0xCB, gc_Red = rgb 0xAB 0x48 0x43, gc_Green = rgb 0x7F 0x99 0x60,
     gc_Blue = rgb 0x7A 0x9E 0xBF, gc_Magenta = rgb 0xB1 0x97 0xC9, gc_Cyan = rgb 0x88 0xBD 0xBE,
     gc_Yellow = rgb 0xB3 0xAB 0x4A, gc_ScreenBackground = rgb 0x5F 0x5E 0x7A,
     gc_WindowBackground = rgb 0xDE 0xDE 0xDE \<rparr>"

definition GetPredefinedColor :: "predefined_color \<Rightarrow> gui_colors \<Rightarrow> gui_color" where
  "GetPredefinedColor s k =
     (case s of
        PredefinedColorBlack \<Rightarrow> gc_Black k
      | PredefinedColorWhite \<Rightarrow> gc_White k
      | PredefinedColorGray \<Rightarrow> gc_Gray k
      | PredefinedColorLightGray \<Rightarrow> gc_LightGray k
      | PredefinedColorRed \<Rightarrow> gc_Red k
      | PredefinedColorGreen \<Rightarrow> gc_Green k
      | PredefinedColorBlue \<Rightarrow> gc_Blue k
      | PredefinedColorMagenta \<Rightarrow> gc_Magenta k
      | PredefinedColorCyan \<Rightarrow> gc_Cyan k
      | PredefinedColorYellow \<Rightarrow> gc_Yellow k
      | PredefinedColorScreenBackground \<Rightarrow> gc_ScreenBackground k
      | PredefinedColorWindowBackground \<Rightarrow> gc_WindowBackground k)"

definition SetPredefinedColor :: "predefined_color \<Rightarrow> gui_color \<Rightarrow> gui_colors \<Rightarrow> gui_colors" where
  "SetPredefinedColor s c k =
     (case s of
        PredefinedColorBlack \<Rightarrow> k\<lparr>gc_Black := c\<rparr>
      | PredefinedColorWhite \<Rightarrow> k\<lparr>gc_White := c\<rparr>
      | PredefinedColorGray \<Rightarrow> k\<lparr>gc_Gray := c\<rparr>
      | PredefinedColorLightGray \<Rightarrow> k\<lparr>gc_LightGray := c\<rparr>
      | PredefinedColorRed \<Rightarrow> k\<lparr>gc_Red := c\<rparr>
      | PredefinedColorGreen \<Rightarrow> k\<lparr>gc_Green := c\<rparr>
      | PredefinedColorBlue \<Rightarrow> k\<lparr>gc_Blue := c\<rparr>
      | PredefinedColorMagenta \<Rightarrow> k\<lparr>gc_Magenta := c\<rparr>
      | PredefinedColorCyan \<Rightarrow> k\<lparr>gc_Cyan := c\<rparr>
      | PredefinedColorYellow \<Rightarrow> k\<lparr>gc_Yellow := c\<rparr>
      | PredefinedColorScreenBackground \<Rightarrow> k\<lparr>gc_ScreenBackground := c\<rparr>
      | PredefinedColorWindowBackground \<Rightarrow> k\<lparr>gc_WindowBackground := c\<rparr>)"

lemma SetPredefinedColor_get:
  "GetPredefinedColor s' (SetPredefinedColor s c k) = (if s' = s then c else GetPredefinedColor s' k)"
  by (cases s; cases s') (simp_all add: GetPredefinedColor_def SetPredefinedColor_def)


section \<open>Bitmap fonts\<close>

text \<open>A glyph is a list of columns; bit i of a column is the pixel of row i.\<close>

record bitmap_glyph =
  gl_width :: u32
  gl_reserved :: u32
  gl_data :: "u32 list"

record bitmap_font =
  bf_name :: string
  bf_size :: u32
  bf_glyphHeight :: u32
  bf_traits :: u32
  bf_glyphCount :: u32
  bf_glyphs :: "bitmap_glyph list"

definition BitmapFontTraitsNormal :: u32 where "BitmapFontTraitsNormal = 0"
definition BitmapFontTraitsMonospace :: u32 where "BitmapFontTraitsMonospace = 1"

definition SystemBitmapFontName :: string where "SystemBitmapFontName = ''System''"
definition SystemBitmapFontSize :: u32 where "SystemBitmapFontSize = 10"

text \<open>A row of the tables; the reserved field is 0 in all of them.\<close>

definition gl :: "u32 \<Rightarrow> u32 list \<Rightarrow> bitmap_glyph" where
  "gl w cs = \<lparr> gl_width = w, gl_reserved = 0, gl_data = cs \<rparr>"

definition system_glyphs :: "bitmap_glyph list" where
  "system_glyphs =
    [gl 0 [0], gl 0 [0], gl 0 [0], gl 0 [0], gl 0 [0], gl 0 [0], gl 0 [0], gl 0 [0], gl 0 [0], gl 0 [0], gl 0 [0],
    gl 0 [0], gl 0 [0], gl 0 [0], gl 0 [0], gl 0 [0], gl 0 [0], gl 0 [0], gl 0 [0], gl 0 [0], gl 0 [0], gl 0 [0],
    gl 0 [0], gl 0 [0], gl 0 [0], gl 0 [0], gl 0 [0], gl 0 [0], gl 0 [0], gl 0 [0], gl 0 [0], gl 0 [0],
    gl 7 [0, 0, 0, 0, 0, 0, 0], gl 3 [0, 0x17E, 0], gl 7 [0, 0x16, 0xE, 0, 0x16, 0xE, 0],
    gl 8 [0, 0x48, 0x1C8, 0x7E, 0x1C8, 0x7E, 0x48, 0], gl 7 [0, 0x8C, 0x112, 0x3FF, 0x122, 0xC4, 0],
    gl 8 [0, 0x18C, 0x52, 0x2C, 0xD0, 0x128, 0xC6, 0], gl 8 [0, 0xEC, 0x112, 0x122, 0x144, 0x80, 0x140, 0],
    gl 4 [0, 0x16, 0xE, 0], gl 6 [0, 0xF0, 0x30C, 0x402, 0x801, 0], gl 6 [0, 0x801, 0x402, 0x30C, 0xF0, 0],
    gl 7 [0, 0x24, 0x18, 0x7E, 0x18, 0x24, 0], gl 7 [0, 0x40, 0x40, 0x1F0, 0x40, 0x40, 0],
    gl 4 [0, 0x580, 0x380, 0], gl 7 [0, 0x40, 0x40, 0x40, 0x40, 0x40, 0], gl 4 [0, 0x180, 0x180, 0],
    gl 7 [0, 0x300, 0xC0, 0x20, 0x18, 0x6, 0], gl 7 [0, 0xFC, 0x122, 0x112, 0x10A, 0xFC, 0],
    gl 7 [0, 0x108, 0x104, 0x1FE, 0x100, 0x100, 0], gl 7 [0, 0x184, 0x142, 0x122, 0x112, 0x10C, 0],
    gl 7 [0, 0x84, 0x102, 0x112, 0x112, 0xEC, 0], gl 7 [0, 0x30, 0x28, 0x24, 0x1FE, 0x20, 0],
    gl 7 [0, 0x13E, 0x112, 0x112, 0x112, 0xE2, 0], gl 7 [0, 0xF8, 0x114, 0x112, 0x112, 0xE0, 0],
    gl 7 [0, 0x6, 0x2, 0x1C2, 0x32, 0xE, 0], gl 7 [0, 0xEC, 0x112, 0x112, 0x112, 0xEC, 0],
    gl 7 [0, 0x1C, 0x122, 0x122, 0xA2, 0x7C, 0], gl 4 [0, 0x198, 0x198, 0], gl 4 [0, 0x598, 0x398, 0],
    gl 8 [0, 0x40, 0x40, 0xA0, 0xA0, 0x110, 0x110, 0], gl 7 [0, 0xA0, 0xA0, 0xA0, 0xA0, 0xA0, 0],
    gl 8 [0, 0x110, 0x110, 0xA0, 0xA0, 0x40, 0x40, 0], gl 7 [0, 0x4, 0x2, 0x162, 0x12, 0xC, 0],
    gl 7 [0, 0x78, 0x84, 0x132, 0x14A, 0x17C, 0], gl 7 [0, 0x1C0, 0x70, 0x4E, 0x70, 0x1C0, 0],
    gl 7 [0, 0x1FE, 0x112, 0x112, 0x112, 0xEC, 0], gl 7 [0, 0xFC, 0x102, 0x102, 0x102, 0x84, 0],
    gl 7 [0, 0x1FE, 0x102, 0x102, 0x84, 0x78, 0], gl 7 [0, 0x1FE, 0x112, 0x112, 0x112, 0x102, 0],
    gl 7 [0, 0x1FE, 0x12, 0x12, 0x12, 0x2, 0], gl 7 [0, 0xFC, 0x102, 0x102, 0x122, 0xE4, 0],
    gl 7 [0, 0x1FE, 0x10, 0x10, 0x10, 0x1FE, 0], gl 5 [0, 0x102, 0x1FE, 0x102, 0],
    gl 7 [0, 0xC0, 0x102, 0x102, 0x102, 0xFE, 0], gl 7 [0, 0x1FE, 0x30, 0x48, 0x84, 0x102, 0],
    gl 7 [0, 0x1FE, 0x100, 0x100, 0x100, 0x100, 0], gl 7 [0, 0x1FE, 0xC, 0x10, 0xC, 0x1FE, 0],
    gl 7 [0, 0x1FE, 0xC, 0x30, 0xC0, 0x1FE, 0], gl 7 [0, 0xFC, 0x102, 0x102, 0x102, 0xFC, 0],
    gl 7 [0, 0x1FE, 0x22, 0x22, 0x22, 0x1C, 0], gl 8 [0, 0xFC, 0x102, 0x102, 0x302, 0x4FC, 0x400, 0],
    gl 7 [0, 0x1FE, 0x22, 0x62, 0xA2, 0x11C, 0], gl 7 [0, 0x8C, 0x112, 0x112, 0x112, 0xE4, 0],
    gl 7 [0, 0x2, 0x2, 0x1FE, 0x2, 0x2, 0], gl 7 [0, 0xFE, 0x100, 0x100, 0x100, 0xFE, 0],
    gl 7 [0, 0x1E, 0x60, 0x180, 0x60, 0x1E, 0], gl 7 [0, 0x3E, 0x1C0, 0x38, 0x1C0, 0x3E, 0],
    gl 7 [0, 0x186, 0x48, 0x30, 0x48, 0x186, 0], gl 7 [0, 0x6, 0x18, 0x1E0, 0x18, 0x6, 0],
    gl 7 [0, 0x182, 0x142, 0x132, 0x10A, 0x106, 0], gl 5 [0, 0xFFE, 0x802, 0x802, 0],
    gl 6 [0, 0x6, 0x18, 0x60, 0x180, 0], gl 5 [0, 0x802, 0x802, 0xFFE, 0],
    gl 7 [0, 0x20, 0x18, 0x6, 0x18, 0x20, 0], gl 7 [0, 0x200, 0x200, 0x200, 0x200, 0x200, 0],
    gl 4 [0, 0x4, 0x8, 0], gl 7 [0, 0xF0, 0x108, 0x108, 0x88, 0x1F8, 0],
    gl 7 [0, 0x1FE, 0x110, 0x108, 0x108, 0xF0, 0], gl 7 [0, 0xF0, 0x108, 0x108, 0x108, 0x90, 0],
    gl 7 [0, 0xF0, 0x108, 0x108, 0x88, 0x1FE, 0], gl 7 [0, 0xF0, 0x128, 0x128, 0x128, 0xB0, 0],
    gl 6 [0, 0x8, 0x1FC, 0xA, 0xA, 0], gl 7 [0, 0xF0, 0x508, 0x508, 0x488, 0x3F8, 0],
    gl 7 [0, 0x1FE, 0x10, 0x8, 0x8, 0x1F0, 0], gl 5 [0, 0x8, 0x1FA, 0x100, 0],
    gl 6 [0, 0x400, 0x408, 0x408, 0x3FA, 0], gl 7 [0, 0x1FE, 0x20, 0x50, 0x88, 0x100, 0],
    gl 4 [0, 0x1FE, 0x100, 0], gl 7 [0, 0x1F8, 0x8, 0x1F0, 0x8, 0x1F0, 0],
    gl 7 [0, 0x1F8, 0x10, 0x8, 0x8, 0x1F0, 0], gl 7 [0, 0xF0, 0x108, 0x108, 0x108, 0xF0, 0],
    gl 7 [0, 0x7F8, 0x110, 0x108, 0x108, 0xF0, 0], gl 7 [0, 0xF0, 0x108, 0x108, 0x88, 0x7F8, 0],
    gl 7 [0, 0x108, 0x1F8, 0x110, 0x8, 0x8, 0], gl 7 [0, 0x90, 0x128, 0x128, 0x148, 0x90, 0],
    gl 7 [0, 0x8, 0xFE, 0x108, 0x108, 0x80, 0], gl 7 [0, 0xF8, 0x100, 0x100, 0x80, 0x1F8, 0],
    gl 7 [0, 0x18, 0x60, 0x180, 0x60, 0x18, 0], gl 7 [0, 0x78, 0x180, 0x60, 0x180, 0x78, 0],
    gl 7 [0, 0x108, 0x90, 0x60, 0x90, 0x108, 0], gl 7 [0, 0x418, 0x260, 0x180, 0x60, 0x18, 0],
    gl 7 [0, 0x188, 0x148, 0x128, 0x118, 0x108, 0], gl 7 [0, 0x40, 0x40, 0x7BC, 0x802, 0x802, 0],
    gl 3 [0, 0x3FF, 0], gl 7 [0, 0x802, 0x802, 0x7BC, 0x40, 0x40, 0],
    gl 8 [0, 0x20, 0x10, 0x10, 0x20, 0x20, 0x10, 0], gl 0 [0]]"

definition monospace_glyphs :: "bitmap_glyph list" where
  "monospace_glyphs =
    [gl 0 [0], gl 0 [0], gl 0 [0], gl 0 [0], gl 0 [0], gl 0 [0], gl 0 [0], gl 0 [0], gl 0 [0], gl 0 [0], gl 0 [0],
    gl 0 [0], gl 0 [0], gl 0 [0], gl 0 [0], gl 0 [0], gl 0 [0], gl 0 [0], gl 0 [0], gl 0 [0], gl 0 [0], gl 0 [0],
    gl 0 [0], gl 0 [0], gl 0 [0], gl 0 [0], gl 0 [0], gl 0 [0], gl 0 [0], gl 0 [0], gl 0 [0], gl 0 [0],
    gl 7 [0, 0, 0, 0, 0, 0, 0], gl 7 [0, 0, 0, 0x17E, 0, 0, 0], gl 7 [0, 0x16, 0xE, 0, 0x16, 0xE, 0],
    gl 7 [0, 0x48, 0x1C8, 0x7E, 0x1C8, 0x7E, 0x48], gl 7 [0, 0x8C, 0x112, 0x3FF, 0x122, 0xC4, 0],
    gl 7 [0, 0x18C, 0x52, 0x2C, 0xD0, 0x128, 0xC6], gl 7 [0, 0xEC, 0x112, 0x122, 0x144, 0x80, 0x140],
    gl 7 [0, 0, 0, 0x16, 0xE, 0, 0], gl 7 [0, 0, 0xF0, 0x30C, 0x402, 0x801, 0],
    gl 7 [0, 0, 0x801, 0x402, 0x30C, 0xF0, 0], gl 7 [0, 0x24, 0x18, 0x7E, 0x18, 0x24, 0],
    gl 7 [0, 0x40, 0x40, 0x1F0, 0x40, 0x40, 0], gl 7 [0, 0, 0, 0x580, 0x380, 0, 0],
    gl 7 [0, 0x40, 0x40, 0x40, 0x40, 0x40, 0], gl 7 [0, 0, 0, 0x180, 0x180, 0, 0],
    gl 7 [0, 0x300, 0xC0, 0x20, 0x18, 0x6, 0], gl 7 [0, 0xFC, 0x122, 0x112, 0x10A, 0xFC, 0],
    gl 7 [0, 0x108, 0x104, 0x1FE, 0x100, 0x100, 0], gl 7 [0, 0x184, 0x142, 0x122, 0x112, 0x10C, 0],
    gl 7 [0, 0x84, 0x102, 0x112, 0x112, 0xEC, 0], gl 7 [0, 0x30, 0x28, 0x24, 0x1FE, 0x20, 0],
    gl 7 [0, 0x13E, 0x112, 0x112, 0x112, 0xE2, 0], gl 7 [0, 0xF8, 0x114, 0x112, 0x112, 0xE0, 0],
    gl 7 [0, 0x6, 0x2, 0x1C2, 0x32, 0xE, 0], gl 7 [0, 0xEC, 0x112, 0x112, 0x112, 0xEC, 0],
    gl 7 [0, 0x1C, 0x122, 0x122, 0xA2, 0x7C, 0], gl 7 [0, 0, 0, 0x198, 0x198, 0, 0],
    gl 7 [0, 0, 0, 0x598, 0x398, 0, 0], gl 7 [0, 0x40, 0x40, 0xA0, 0xA0, 0x110, 0x110],
    gl 7 [0, 0xA0, 0xA0, 0xA0, 0xA0, 0xA0, 0], gl 7 [0, 0x110, 0x110, 0xA0, 0xA0, 0x40, 0x40],
    gl 7 [0, 0x4, 0x2, 0x162, 0x12, 0xC, 0], gl 7 [0, 0x78, 0x84, 0x132, 0x14A, 0x17C, 0],
    gl 7 [0, 0x1C0, 0x70, 0x4E, 0x70, 0x1C0, 0], gl 7 [0, 0x1FE, 0x112, 0x112, 0x112, 0xEC, 0],
    gl 7 [0, 0xFC, 0x102, 0x102, 0x102, 0x84, 0], gl 7 [0, 0x1FE, 0x102, 0x102, 0x84, 0x78, 0],
    gl 7 [0, 0x1FE, 0x112, 0x112, 0x112, 0x102, 0], gl 7 [0, 0x1FE, 0x12, 0x12, 0x12, 0x2, 0],
    gl 7 [0, 0xFC, 0x102, 0x102, 0x122, 0xE4, 0], gl 7 [0, 0x1FE, 0x10, 0x10, 0x10, 0x1FE, 0],
    gl 7 [0, 0, 0x102, 0x1FE, 0x102, 0, 0], gl 7 [0, 0xC0, 0x102, 0x102, 0x102, 0xFE, 0],
    gl 7 [0, 0x1FE, 0x30, 0x48, 0x84, 0x102, 0], gl 7 [0, 0x1FE, 0x100, 0x100, 0x100, 0x100, 0],
    gl 7 [0, 0x1FE, 0xC, 0x10, 0xC, 0x1FE, 0], gl 7 [0, 0x1FE, 0xC, 0x30, 0xC0, 0x1FE, 0],
    gl 7 [0, 0xFC, 0x102, 0x102, 0x102, 0xFC, 0], gl 7 [0, 0x1FE, 0x22, 0x22, 0x22, 0x1C, 0],
    gl 7 [0, 0xFC, 0x102, 0x102, 0x302, 0x4FC, 0x400], gl 7 [0, 0x1FE, 0x22, 0x62, 0xA2, 0x11C, 0],
    gl 7 [0, 0x8C, 0x112, 0x112, 0x112, 0xE4, 0], gl 7 [0, 0x2, 0x2, 0x1FE, 0x2, 0x2, 0],
    gl 7 [0, 0xFE, 0x100, 0x100, 0x100, 0xFE, 0], gl 7 [0, 0x1E, 0x60, 0x180, 0x60, 0x1E, 0],
    gl 7 [0, 0x3E, 0x1C0, 0x38, 0x1C0, 0x3E, 0], gl 7 [0, 0x186, 0x48, 0x30, 0x48, 0x186, 0],
    gl 7 [0, 0x6, 0x18, 0x1E0, 0x18, 0x6, 0], gl 7 [0, 0x182, 0x142, 0x132, 0x10A, 0x106, 0],
    gl 7 [0, 0, 0xFFE, 0x802, 0x802, 0, 0], gl 7 [0, 0, 0x6, 0x18, 0x60, 0x180, 0],
    gl 7 [0, 0, 0x802, 0x802, 0xFFE, 0, 0], gl 7 [0, 0x20, 0x18, 0x6, 0x18, 0x20, 0],
    gl 7 [0, 0x200, 0x200, 0x200, 0x200, 0x200, 0], gl 7 [0, 0, 0, 0x4, 0x8, 0, 0],
    gl 7 [0, 0xF0, 0x108, 0x108, 0x88, 0x1F8, 0], gl 7 [0, 0x1FE, 0x110, 0x108, 0x108, 0xF0, 0],
    gl 7 [0, 0xF0, 0x108, 0x108, 0x108, 0x90, 0], gl 7 [0, 0xF0, 0x108, 0x108, 0x88, 0x1FE, 0],
    gl 7 [0, 0xF0, 0x128, 0x128, 0x128, 0xB0, 0], gl 7 [0, 0, 0x8, 0x1FC, 0xA, 0xA, 0],
    gl 7 [0, 0xF0, 0x508, 0x508, 0x488, 0x3F8, 0], gl 7 [0, 0x1FE, 0x10, 0x8, 0x8, 0x1F0, 0],
    gl 7 [0, 0, 0x8, 0x1FA, 0x100, 0, 0], gl 7 [0, 0, 0x400, 0x408, 0x408, 0x3FA, 0],
    gl 7 [0, 0x1FE, 0x20, 0x50, 0x88, 0x100, 0], gl 7 [0, 0, 0, 0x1FE, 0x100, 0, 0],
    gl 7 [0, 0x1F8, 0x8, 0x1F0, 0x8, 0x1F0, 0], gl 7 [0, 0x1F8, 0x10, 0x8, 0x8, 0x1F0, 0],
    gl 7 [0, 0xF0, 0x108, 0x108, 0x108, 0xF0, 0], gl 7 [0, 0x7F8, 0x110, 0x108, 0x108, 0xF0, 0],
    gl 7 [0, 0xF0, 0x108, 0x108, 0x88, 0x7F8, 0], gl 7 [0, 0x108, 0x1F8, 0x110, 0x8, 0x8, 0],
    gl 7 [0, 0x90, 0x128, 0x128, 0x148, 0x90, 0], gl 7 [0, 0x8, 0xFE, 0x108, 0x108, 0x80, 0],
    gl 7 [0, 0xF8, 0x100, 0x100, 0x80, 0x1F8, 0], gl 7 [0, 0x18, 0x60, 0x180, 0x60, 0x18, 0],
    gl 7 [0, 0x78, 0x180, 0x60, 0x180, 0x78, 0], gl 7 [0, 0x108, 0x90, 0x60, 0x90, 0x108, 0],
    gl 7 [0, 0x418, 0x260, 0x180, 0x60, 0x18, 0], gl 7 [0, 0x188, 0x148, 0x128, 0x118, 0x108, 0],
    gl 7 [0, 0x40, 0x40, 0x7BC, 0x802, 0x802, 0], gl 7 [0, 0, 0, 0x3FF, 0, 0, 0],
    gl 7 [0, 0x802, 0x802, 0x7BC, 0x40, 0x40, 0], gl 7 [0, 0x20, 0x10, 0x10, 0x20, 0x20, 0x10], gl 0 [0]]"

definition BitmapFontsArray :: "bitmap_font list" where
  "BitmapFontsArray =
     [\<lparr> bf_name = ''System'', bf_size = 10, bf_glyphHeight = 12, bf_traits = BitmapFontTraitsNormal,
        bf_glyphCount = 127, bf_glyphs = system_glyphs \<rparr>,
      \<lparr> bf_name = ''System'', bf_size = 10, bf_glyphHeight = 12, bf_traits = BitmapFontTraitsMonospace,
        bf_glyphCount = 127, bf_glyphs = monospace_glyphs \<rparr>]"

text \<open>
  The count is the sizeof of the array: its bytes, two pointers and four 32-bit numbers for each
  font.
\<close>

definition sizeof_bitmap_font :: "arch \<Rightarrow> nat" where
  "sizeof_bitmap_font a = 2 * (ptr_bits a div 8) + 4 * 4"

definition BitmapFontsCount :: "arch \<Rightarrow> nat" where
  "BitmapFontsCount a = length BitmapFontsArray * sizeof_bitmap_font a"


subsection \<open>Accessors\<close>

definition BitmapFontGetName :: "bitmap_font option \<Rightarrow> string option" where
  "BitmapFontGetName font = (case font of None \<Rightarrow> None | Some f \<Rightarrow> Some (bf_name f))"
definition BitmapFontGetSize :: "bitmap_font option \<Rightarrow> u32" where
  "BitmapFontGetSize font = (case font of None \<Rightarrow> 0 | Some f \<Rightarrow> bf_size f)"
definition BitmapFontGetTraits :: "bitmap_font option \<Rightarrow> u32" where
  "BitmapFontGetTraits font = (case font of None \<Rightarrow> 0 | Some f \<Rightarrow> bf_traits f)"
definition BitmapFontGetGlyphHeight :: "bitmap_font option \<Rightarrow> u32" where
  "BitmapFontGetGlyphHeight font = (case font of None \<Rightarrow> 0 | Some f \<Rightarrow> bf_glyphHeight f)"
definition BitmapFontGetGlyphCount :: "bitmap_font option \<Rightarrow> u32" where
  "BitmapFontGetGlyphCount font = (case font of None \<Rightarrow> 0 | Some f \<Rightarrow> bf_glyphCount f)"
definition BitmapFontGlyphGetWidth :: "bitmap_glyph option \<Rightarrow> u32" where
  "BitmapFontGlyphGetWidth glyph = (case glyph of None \<Rightarrow> 0 | Some g \<Rightarrow> gl_width g)"
definition BitmapFontGlyphGetData :: "bitmap_glyph option \<Rightarrow> u32 list option" where
  "BitmapFontGlyphGetData glyph = (case glyph of None \<Rightarrow> None | Some g \<Rightarrow> Some (gl_data g))"

definition BitmapFontGetGlyphAtIndex :: "bitmap_font option \<Rightarrow> u32 \<Rightarrow> bitmap_glyph option option" where
  "BitmapFontGetGlyphAtIndex font index =
     (case font of
        None \<Rightarrow> Some None
      | Some f \<Rightarrow>
          if BitmapFontGetGlyphCount font \<le> index then Some None
          else if unat index < length (bf_glyphs f) then Some (Some (bf_glyphs f ! unat index))
          else None)"


subsection \<open>Search\<close>

text \<open>The loop with n rounds left looks at the font i of the table.\<close>

fun font_search :: "bitmap_font list \<Rightarrow> string \<Rightarrow> u32 \<Rightarrow> u32 \<Rightarrow> nat \<Rightarrow> nat \<Rightarrow> bitmap_font option option" where
  "font_search fonts name sz traits i 0 = Some None"
| "font_search fonts name sz traits i (Suc n) =
     (if length fonts \<le> i then None
      else let font = Some (fonts ! i)
           in if BitmapFontGetSize font \<noteq> sz then font_search fonts name sz traits (i + 1) n
              else if BitmapFontGetTraits font AND traits \<noteq> traits then font_search fonts name sz traits (i + 1) n
              else if Some name \<noteq> BitmapFontGetName font then font_search fonts name sz traits (i + 1) n
              else Some font)"

definition BitmapFontGetBitmapFont :: "arch \<Rightarrow> string \<Rightarrow> u32 \<Rightarrow> u32 \<Rightarrow> bitmap_font option option" where
  "BitmapFontGetBitmapFont a name sz traits = font_search BitmapFontsArray name sz traits 0 (BitmapFontsCount a)"

definition BitmapFontGetSystemBitmapFontSize :: u32 where
  "BitmapFontGetSystemBitmapFontSize = SystemBitmapFontSize"

definition BitmapFontGetSystemBitmapFont :: "arch \<Rightarrow> bitmap_font option option" where
  "BitmapFontGetSystemBitmapFont a =
     BitmapFontGetBitmapFont a SystemBitmapFontName BitmapFontGetSystemBitmapFontSize BitmapFontTraitsNormal"

definition BitmapFontGetMonospaceSystemBitmapFont :: "arch \<Rightarrow> bitmap_font option option" where
  "BitmapFontGetMonospaceSystemBitmapFont a =
     BitmapFontGetBitmapFont a SystemBitmapFontName BitmapFontGetSystemBitmapFontSize BitmapFontTraitsMonospace"


section \<open>Properties\<close>

text \<open>A font satisfies a request when it has the name, the size and all the traits.\<close>

definition font_matches :: "string \<Rightarrow> u32 \<Rightarrow> u32 \<Rightarrow> bitmap_font \<Rightarrow> bool" where
  "font_matches name sz traits f \<longleftrightarrow> bf_size f = sz \<and> bf_traits f AND traits = traits \<and> bf_name f = name"

lemma font_search_find:
  "i \<le> length fonts \<Longrightarrow> length fonts < i + n \<Longrightarrow>
   font_search fonts name sz traits i n =
     (case find (font_matches name sz traits) (drop i fonts) of Some f \<Rightarrow> Some (Some f) | None \<Rightarrow> None)"
proof (induction n arbitrary: i)
  case (Suc n)
  have "i < length fonts \<Longrightarrow> drop i fonts = fonts ! i # drop (i + 1) fonts" by (simp add: Cons_nth_drop_Suc)
  with Suc.IH [of "i + 1"] Suc.prems show ?case
    by (auto simp: Let_def BitmapFontGetSize_def BitmapFontGetTraits_def BitmapFontGetName_def font_matches_def)
qed auto

lemma BitmapFontsCount_table: "length BitmapFontsArray < BitmapFontsCount a"
  by (cases a) (simp_all add: BitmapFontsCount_def sizeof_bitmap_font_def ptr_bits_def BitmapFontsArray_def)

text \<open>
  C29. The search returns the first font of the table that has the name, the size and all the traits.
  When there is none it never returns NULL: the count is in bytes, and the search reads behind the
  table.
\<close>

theorem gui_font_search:
  "BitmapFontGetBitmapFont a name sz traits =
     (case find (font_matches name sz traits) BitmapFontsArray of Some f \<Rightarrow> Some (Some f) | None \<Rightarrow> None)"
  using font_search_find [of 0 BitmapFontsArray "BitmapFontsCount a"] BitmapFontsCount_table [of a]
  by (simp add: BitmapFontGetBitmapFont_def)

text \<open>A glyph has a column for each unit of its width, and its pixels are inside of the height.\<close>

definition glyph_ok :: "u32 \<Rightarrow> bitmap_glyph \<Rightarrow> bool" where
  "glyph_ok height g \<longleftrightarrow> length (gl_data g) = unat (gl_width g) \<and> list_all (\<lambda>c. c < push_bit (unat height) 1) (gl_data g)"

lemma system_glyphs_ok: "list_all (glyph_ok 12) (drop 32 (take 127 system_glyphs)) \<and> length system_glyphs = 128"
  by (simp add: system_glyphs_def glyph_ok_def gl_def)

lemma monospace_glyphs_ok:
  "list_all (\<lambda>g. glyph_ok 12 g \<and> gl_width g = 7) (drop 32 (take 127 monospace_glyphs)) \<and> length monospace_glyphs = 128"
  by (simp add: monospace_glyphs_def glyph_ok_def gl_def)

text \<open>The columns of a glyph as one number; different numbers are different glyphs.\<close>

definition glyph_number :: "bitmap_glyph \<Rightarrow> int" where
  "glyph_number g = foldl (\<lambda>n c. n * 0x1000 + uint c) 0 (gl_data g)"

lemma system_glyphs_distinct: "distinct (map glyph_number (drop 32 (take 127 system_glyphs)))"
  by (simp add: system_glyphs_def glyph_number_def gl_def)

lemma monospace_glyphs_distinct: "distinct (map glyph_number (drop 32 (take 127 monospace_glyphs)))"
  by (simp add: monospace_glyphs_def glyph_number_def gl_def)

text \<open>What both fonts of the table satisfy.\<close>

definition font_ok :: "bitmap_font \<Rightarrow> bool" where
  "font_ok f \<longleftrightarrow> bf_glyphCount f = 127 \<and> length (bf_glyphs f) = 128 \<and>
     list_all (glyph_ok (bf_glyphHeight f)) (drop 32 (take 127 (bf_glyphs f))) \<and>
     distinct (map gl_data (drop 32 (take 127 (bf_glyphs f)))) \<and>
     (bf_traits f = BitmapFontTraitsMonospace \<longrightarrow> list_all (\<lambda>g. gl_width g = 7) (drop 32 (take 127 (bf_glyphs f))))"

lemma glyph_number_distinct: "distinct (map glyph_number gs) \<Longrightarrow> distinct (map gl_data gs)"
  by (auto simp: distinct_map glyph_number_def inj_on_def)

lemma BitmapFontsArray_ok: "f \<in> set BitmapFontsArray \<Longrightarrow> font_ok f"
  using system_glyphs_ok monospace_glyphs_ok system_glyphs_distinct monospace_glyphs_distinct
  by (auto simp: BitmapFontsArray_def font_ok_def BitmapFontTraitsNormal_def BitmapFontTraitsMonospace_def
      list.pred_set simp del: set_drop_subset intro: glyph_number_distinct)

lemma BitmapFontGetBitmapFont_ok: "BitmapFontGetBitmapFont a name sz traits = Some (Some f) \<Longrightarrow> font_ok f"
  using font_search_find [of 0 BitmapFontsArray "BitmapFontsCount a"] BitmapFontsCount_table [of a]
  by (auto simp: BitmapFontGetBitmapFont_def find_Some_iff intro!: BitmapFontsArray_ok split: option.splits)

lemma drop_take_nth: "drop m (take n xs) ! i = xs ! (m + i)" if "n \<le> length xs" "m + i < n"
  using that by simp

lemma font_ok_glyph:
  assumes "font_ok f" "unat index < 127"
  shows "BitmapFontGetGlyphAtIndex (Some f) index = Some (Some (bf_glyphs f ! unat index))"
  using assms by (simp add: font_ok_def BitmapFontGetGlyphAtIndex_def BitmapFontGetGlyphCount_def word_le_nat_alt)

lemma font_ok_printable:
  assumes "font_ok f" "32 \<le> i" "i < 127"
  shows "glyph_ok (bf_glyphHeight f) (bf_glyphs f ! i)"
    and "bf_traits f = BitmapFontTraitsMonospace \<Longrightarrow> gl_width (bf_glyphs f ! i) = 7"
    and "32 \<le> j \<Longrightarrow> j < 127 \<Longrightarrow> i \<noteq> j \<Longrightarrow> gl_data (bf_glyphs f ! i) \<noteq> gl_data (bf_glyphs f ! j)"
proof -
  define gs where "gs = drop 32 (take 127 (bf_glyphs f))"
  have gs: "length gs = 95" and nth: "gs ! (k - 32) = bf_glyphs f ! k" if "32 \<le> k" "k < 127" for k
    using that assms(1) by (simp_all add: gs_def font_ok_def)
  show "glyph_ok (bf_glyphHeight f) (bf_glyphs f ! i)"
    using assms gs nth [of i] by (auto simp: font_ok_def list_all_length simp flip: gs_def dest!: spec [of _ "i - 32"])
  show "gl_width (bf_glyphs f ! i) = 7" if "bf_traits f = BitmapFontTraitsMonospace"
    using assms that gs nth [of i] by (auto simp: font_ok_def list_all_length simp flip: gs_def dest!: spec [of _ "i - 32"])
  show "gl_data (bf_glyphs f ! i) \<noteq> gl_data (bf_glyphs f ! j)" if "32 \<le> j" "j < 127" "i \<noteq> j"
    using assms that gs nth [of i] nth [of j] nth_eq_iff_index_eq [of "map gl_data gs" "i - 32" "j - 32"]
    by (simp add: font_ok_def flip: gs_def)
qed

text \<open>
  C30. Every font that a search returns has a glyph for each code below 127 and NULL for others.  The
  glyph of a printable character has as many columns as its width, no pixel outside of the height of
  the font, and in the monospace font a width of 7; different printable characters have different
  glyphs.
\<close>

theorem gui_glyphs:
  assumes "BitmapFontGetBitmapFont a name sz traits = Some (Some f)"
  shows "\<exists>g. BitmapFontGetGlyphAtIndex (Some f) index = Some g \<and> (g = None) = (127 \<le> index) \<and>
     (32 \<le> index \<and> index < 127 \<longrightarrow>
        glyph_ok (BitmapFontGetGlyphHeight (Some f)) (the g) \<and>
        (BitmapFontGetTraits (Some f) = BitmapFontTraitsMonospace \<longrightarrow> BitmapFontGlyphGetWidth g = 7) \<and>
        (\<forall>j g'. 32 \<le> j \<longrightarrow> j \<noteq> index \<longrightarrow> BitmapFontGetGlyphAtIndex (Some f) j = Some (Some g') \<longrightarrow>
           BitmapFontGlyphGetData (Some g') \<noteq> BitmapFontGlyphGetData g))"
proof -
  have f: "font_ok f" by (rule BitmapFontGetBitmapFont_ok [OF assms])
  have out: "BitmapFontGetGlyphAtIndex (Some f) j = Some None" if "127 \<le> j" for j
    using f that by (simp add: font_ok_def BitmapFontGetGlyphAtIndex_def BitmapFontGetGlyphCount_def)
  show ?thesis
  proof (cases "127 \<le> index")
    case True
    then show ?thesis using out by auto
  next
    case False
    then have i: "unat index < 127" by (simp add: word_le_nat_alt)
    have differ: "gl_data g' \<noteq> gl_data (bf_glyphs f ! unat index)"
      if "32 \<le> index" "32 \<le> j" "j \<noteq> index" "BitmapFontGetGlyphAtIndex (Some f) j = Some (Some g')" for j g'
    proof -
      have j: "unat j < 127" using out [of j] that(4) by (fastforce simp: word_le_nat_alt)
      then have "g' = bf_glyphs f ! unat j" using that(4) font_ok_glyph [OF f j] by simp
      moreover have "unat j \<noteq> unat index" using that(3) unsigned_word_eqI by blast
      ultimately show ?thesis
        using font_ok_printable(3) [OF f, of "unat j" "unat index"] that i j by (simp add: word_le_nat_alt)
    qed
    show ?thesis
      using font_ok_glyph [OF f i] False i font_ok_printable(1,2) [OF f _ i] differ
      by (auto simp: word_le_nat_alt BitmapFontGetGlyphHeight_def BitmapFontGetTraits_def BitmapFontGlyphGetWidth_def
          BitmapFontGlyphGetData_def)
  qed
qed

lemma system_fonts:
  "BitmapFontGetSystemBitmapFont a = Some (Some (BitmapFontsArray ! 0))"
  "BitmapFontGetMonospaceSystemBitmapFont a = Some (Some (BitmapFontsArray ! 1))"
  using font_search_find [of 0 BitmapFontsArray "BitmapFontsCount a"] BitmapFontsCount_table [of a]
  by (simp_all add: BitmapFontGetSystemBitmapFont_def BitmapFontGetMonospaceSystemBitmapFont_def BitmapFontGetBitmapFont_def
      font_matches_def BitmapFontsArray_def SystemBitmapFontName_def BitmapFontGetSystemBitmapFontSize_def
      SystemBitmapFontSize_def BitmapFontTraitsNormal_def BitmapFontTraitsMonospace_def)

theorem gui_glyphs_witness:
  "\<exists>g. BitmapFontGetGlyphAtIndex (Some (BitmapFontsArray ! 1)) 0x41 = Some g \<and> BitmapFontGlyphGetWidth g = 7"
  using gui_glyphs [OF system_fonts(2) [of I386, unfolded BitmapFontGetMonospaceSystemBitmapFont_def], of "0x41"]
  by (auto simp: BitmapFontGetTraits_def BitmapFontsArray_def)

end
