(* ===== verification/XEOS_LConv.thy ===== *)
theory XEOS_LConv
  imports XEOS_LocaleProps
begin

text \<open>
  localeconv: the structure with the formats of numbers is a cache of the current locale, which is
  filled again when setlocale has asked for it (System_Locale_GetLConv.c, localeconv.c).
\<close>

text \<open>The pointers of the structure are NULL before it is filled; a char has eight bits with a sign.\<close>

record lconv =
  lv_decimal_point :: "string option"
  lv_thousands_sep :: "string option"
  lv_grouping :: "string option"
  lv_mon_decimal_point :: "string option"
  lv_mon_thousands_sep :: "string option"
  lv_mon_grouping :: "string option"
  lv_positive_sign :: "string option"
  lv_negative_sign :: "string option"
  lv_currency_symbol :: "string option"
  lv_int_curr_symbol :: "string option"
  lv_frac_digits :: int
  lv_p_cs_precedes :: int
  lv_n_cs_precedes :: int
  lv_p_sep_by_space :: int
  lv_n_sep_by_space :: int
  lv_p_sign_posn :: int
  lv_n_sign_posn :: int
  lv_int_frac_digits :: int
  lv_int_p_cs_precedes :: int
  lv_int_n_cs_precedes :: int
  lv_int_p_sep_by_space :: int
  lv_int_n_sep_by_space :: int
  lv_int_p_sign_posn :: int
  lv_int_n_sign_posn :: int

definition lconv_boot :: lconv where
  "lconv_boot = \<lparr> lv_decimal_point = None, lv_thousands_sep = None, lv_grouping = None, lv_mon_decimal_point = None,
     lv_mon_thousands_sep = None, lv_mon_grouping = None, lv_positive_sign = None, lv_negative_sign = None,
     lv_currency_symbol = None, lv_int_curr_symbol = None, lv_frac_digits = 0, lv_p_cs_precedes = 0, lv_n_cs_precedes = 0,
     lv_p_sep_by_space = 0, lv_n_sep_by_space = 0, lv_p_sign_posn = 0, lv_n_sign_posn = 0, lv_int_frac_digits = 0,
     lv_int_p_cs_precedes = 0, lv_int_n_cs_precedes = 0, lv_int_p_sep_by_space = 0, lv_int_n_sep_by_space = 0,
     lv_int_p_sign_posn = 0, lv_int_n_sign_posn = 0 \<rparr>"

definition CHAR_MAX :: int where "CHAR_MAX = 0x7F"

text \<open>The conversion of an int to char keeps the low byte.\<close>

definition lconv_char :: "int \<Rightarrow> int" where
  "lconv_char v = (if v = - 1 then CHAR_MAX else sint (word_of_int v :: u8))"

definition fill_lconv :: "numeric \<Rightarrow> monetary \<Rightarrow> lconv" where
  "fill_lconv n m =
     \<lparr> lv_decimal_point = Some (nu_decimal_point n), lv_thousands_sep = Some (nu_thousands_sep n),
       lv_grouping = Some (nu_grouping n), lv_mon_decimal_point = Some (mo_mon_decimal_point m),
       lv_mon_thousands_sep = Some (mo_mon_thousands_sep m), lv_mon_grouping = Some (mo_mon_grouping m),
       lv_positive_sign = Some (mo_positive_sign m), lv_negative_sign = Some (mo_negative_sign m),
       lv_currency_symbol = Some (mo_currency_symbol m), lv_int_curr_symbol = Some (mo_int_curr_symbol m),
       lv_frac_digits = lconv_char (mo_frac_digits m), lv_p_cs_precedes = lconv_char (mo_p_cs_precedes m),
       lv_n_cs_precedes = lconv_char (mo_n_cs_precedes m), lv_p_sep_by_space = lconv_char (mo_p_sep_by_space m),
       lv_n_sep_by_space = lconv_char (mo_n_sep_by_space m), lv_p_sign_posn = lconv_char (mo_p_sign_posn m),
       lv_n_sign_posn = lconv_char (mo_n_sign_posn m), lv_int_frac_digits = lconv_char (mo_int_frac_digits m),
       lv_int_p_cs_precedes = lconv_char (mo_int_p_cs_precedes m), lv_int_n_cs_precedes = lconv_char (mo_int_n_cs_precedes m),
       lv_int_p_sep_by_space = lconv_char (mo_int_p_sep_by_space m),
       lv_int_n_sep_by_space = lconv_char (mo_int_n_sep_by_space m),
       lv_int_p_sign_posn = lconv_char (mo_int_p_sign_posn m), lv_int_n_sign_posn = lconv_char (mo_int_n_sign_posn m) \<rparr>"

text \<open>A locale without these parts is read through NULL.\<close>

definition GetLConv :: "locale_state \<times> lconv \<Rightarrow> (locale_state \<times> lconv) option" where
  "GetLConv x =
     (let (s, l) = x
      in if ls_lconv_update s
         then let (s1, cur) = GetCurrentLocale (s\<lparr>ls_lconv_update := False\<rparr>)
              in (case (GetNumeric (Some cur), GetMonetary (Some cur)) of
                    (Some n, Some m) \<Rightarrow> Some (s1, fill_lconv n m)
                  | _ \<Rightarrow> None)
         else Some (s, l))"

definition localeconv :: "locale_state \<times> lconv \<Rightarrow> (locale_state \<times> lconv) option" where
  "localeconv = GetLConv"


section \<open>The cache\<close>

text \<open>What a program can do: call setlocale, a function that reads the current locale, and localeconv.\<close>

inductive lconv_step :: "locale_state \<times> lconv \<Rightarrow> locale_state \<times> lconv \<Rightarrow> bool" where
  step_setlocale: "lconv_step (s, l) (fst (SetLocale category name s), l)"
| step_current: "lconv_step (s, l) (fst (GetCurrentLocale s), l)"
| step_lconv: "localeconv x = Some y \<Longrightarrow> lconv_step x y"

inductive_cases lconv_stepE: "lconv_step x y"

text \<open>
  What the structure has to show for the formats of a locale: the ten strings, and for each of the
  fourteen values the value itself, or CHAR_MAX if the locale does not define it.
\<close>

definition value_shown :: "int \<Rightarrow> int \<Rightarrow> bool" where
  "value_shown c v \<longleftrightarrow> (v = - 1 \<longrightarrow> c = CHAR_MAX) \<and> (0 \<le> v \<and> v \<le> CHAR_MAX \<longrightarrow> c = v)"

definition shows_formats :: "numeric \<Rightarrow> monetary \<Rightarrow> lconv \<Rightarrow> bool" where
  "shows_formats n m l \<longleftrightarrow>
     [lv_decimal_point l, lv_thousands_sep l, lv_grouping l] = map Some [nu_decimal_point n, nu_thousands_sep n, nu_grouping n] \<and>
     [lv_mon_decimal_point l, lv_mon_thousands_sep l, lv_mon_grouping l, lv_positive_sign l, lv_negative_sign l,
       lv_currency_symbol l, lv_int_curr_symbol l] =
     map Some [mo_mon_decimal_point m, mo_mon_thousands_sep m, mo_mon_grouping m, mo_positive_sign m, mo_negative_sign m,
       mo_currency_symbol m, mo_int_curr_symbol m] \<and>
     list_all2 value_shown
       [lv_frac_digits l, lv_p_cs_precedes l, lv_n_cs_precedes l, lv_p_sep_by_space l, lv_n_sep_by_space l,
        lv_p_sign_posn l, lv_n_sign_posn l, lv_int_frac_digits l, lv_int_p_cs_precedes l, lv_int_n_cs_precedes l,
        lv_int_p_sep_by_space l, lv_int_n_sep_by_space l, lv_int_p_sign_posn l, lv_int_n_sign_posn l]
       [mo_frac_digits m, mo_p_cs_precedes m, mo_n_cs_precedes m, mo_p_sep_by_space m, mo_n_sep_by_space m,
        mo_p_sign_posn m, mo_n_sign_posn m, mo_int_frac_digits m, mo_int_p_cs_precedes m, mo_int_n_cs_precedes m,
        mo_int_p_sep_by_space m, mo_int_n_sep_by_space m, mo_int_p_sign_posn m, mo_int_n_sign_posn m]"

text \<open>
  The cache is coherent: if no update is asked for, the structure shows the formats of the current
  locale, whatever locale that is.  A current locale that is initialised has both parts.
\<close>

definition coherent :: "locale_state \<times> lconv \<Rightarrow> bool" where
  "coherent x \<longleftrightarrow>
     (let s = fst x; cur = ls_current s
      in (ls_inited s \<longrightarrow> lc_numeric cur \<noteq> None \<and> lc_monetary cur \<noteq> None) \<and>
         (\<not> ls_lconv_update s \<longrightarrow> ls_inited s \<and>
            (\<exists>n m. lc_numeric cur = Some n \<and> lc_monetary cur = Some m \<and> shows_formats n m (snd x))))"

lemma lconv_char_shown: "value_shown (lconv_char v) v"
proof -
  have "sint (word_of_int v :: u8) = v" if "0 \<le> v" "v \<le> 127"
    using that by (simp add: int_word_sint)
  then show ?thesis by (simp add: value_shown_def lconv_char_def CHAR_MAX_def)
qed

lemma fill_shows: "shows_formats n m (fill_lconv n m)"
  by (simp add: shows_formats_def fill_lconv_def lconv_char_shown)

lemma current_inited: "ls_inited s \<Longrightarrow> GetCurrentLocale s = (s, ls_current s)"
  by (simp add: GetCurrentLocale_def)

lemma current_fresh:
  assumes "\<not> ls_inited s"
  shows "\<exists>t. GetCurrentLocale s = (t, ls_current t) \<and> ls_inited t \<and> ls_lconv_update t = ls_lconv_update s \<and>
    lc_numeric (ls_current t) = Some default_numeric \<and> lc_monetary (ls_current t) = Some default_monetary"
  using assms by (simp add: GetCurrentLocale_def GetDefaultLocale_def DefaultLocale_def Let_def)

text \<open>The current locale of a coherent state.\<close>

lemma current_coherent:
  assumes "coherent (s, l)"
  obtains t n m where "GetCurrentLocale s = (t, ls_current t)" "ls_inited t" "ls_lconv_update t = ls_lconv_update s"
    "lc_numeric (ls_current t) = Some n" "lc_monetary (ls_current t) = Some m" "coherent (t, l)"
proof (cases "ls_inited s")
  case True
  moreover from True assms obtain n m where "lc_numeric (ls_current s) = Some n" "lc_monetary (ls_current s) = Some m"
    by (auto simp: coherent_def Let_def)
  ultimately show ?thesis using that assms current_inited by blast
next
  case False
  then obtain t where "GetCurrentLocale s = (t, ls_current t)" "ls_inited t" "ls_lconv_update t = ls_lconv_update s"
    "lc_numeric (ls_current t) = Some default_numeric" "lc_monetary (ls_current t) = Some default_monetary"
    using current_fresh by blast
  moreover from this have "coherent (t, l)" using assms False by (simp add: coherent_def Let_def)
  ultimately show ?thesis using that by blast
qed

lemma default_formats: "lc_numeric DefaultLocale = Some default_numeric" "lc_monetary DefaultLocale = Some default_monetary"
  by (simp_all add: DefaultLocale_def)

lemma setlocale_coherent:
  assumes "coherent (s, l)"
  shows "coherent (fst (SetLocale category name s), l)"
  using assms
proof (rule current_coherent)
  fix t n m
  assume t: "GetCurrentLocale s = (t, ls_current t)" "ls_inited t" "lc_numeric (ls_current t) = Some n"
    "lc_monetary (ls_current t) = Some m" "coherent (t, l)"
  then have shown: "\<not> ls_lconv_update t \<Longrightarrow> shows_formats n m l" by (simp add: coherent_def Let_def)
  have keep: "coherent (t\<lparr>ls_current := c\<rparr>, l)"
    if "lc_numeric c = Some n" "lc_monetary c = Some m" for c
    using that shown t(2) by (simp add: coherent_def Let_def)
  have new: "coherent (t\<lparr>ls_current := c, ls_lconv_update := True\<rparr>, l)"
    if "lc_numeric c \<noteq> None" "lc_monetary c \<noteq> None" for c
    using that by (simp add: coherent_def Let_def)
  show ?thesis
    unfolding SetLocale_def t(1) Let_def prod.case fst_conv
    using t(5) by (simp add: keep new t(3,4) default_formats)
qed

text \<open>A call of localeconv gives a structure that shows the formats of the current locale.\<close>

lemma GetLConv_coherent:
  assumes "coherent (s, l)"
  shows "\<exists>s1 l1 n m. GetLConv (s, l) = Some (s1, l1) \<and> coherent (s1, l1) \<and> \<not> ls_lconv_update s1 \<and>
    lc_numeric (snd (GetCurrentLocale s)) = Some n \<and> lc_monetary (snd (GetCurrentLocale s)) = Some m \<and> shows_formats n m l1"
proof (cases "ls_lconv_update s")
  case True
  define s0 where "s0 = s\<lparr>ls_lconv_update := False\<rparr>"
  have snd: "snd (GetCurrentLocale s0) = snd (GetCurrentLocale s)" "fst (GetCurrentLocale s0) = (fst (GetCurrentLocale s))\<lparr>ls_lconv_update := False\<rparr>"
    by (simp_all add: s0_def GetCurrentLocale_def Let_def)
  from assms show ?thesis
  proof (rule current_coherent)
    fix t n m
    assume t: "GetCurrentLocale s = (t, ls_current t)" "ls_inited t" "lc_numeric (ls_current t) = Some n"
      "lc_monetary (ls_current t) = Some m"
    then have "GetCurrentLocale s0 = (t\<lparr>ls_lconv_update := False\<rparr>, ls_current t)" using snd by (simp add: prod_eq_iff)
    then have "GetLConv (s, l) = Some (t\<lparr>ls_lconv_update := False\<rparr>, fill_lconv n m)"
      using True t(3,4) by (simp add: GetLConv_def GetNumeric_def GetMonetary_def Let_def flip: s0_def)
    then show ?thesis using t fill_shows [of n m] by (simp add: coherent_def Let_def)
  qed
next
  case False
  then have "ls_inited s" using assms by (simp add: coherent_def Let_def)
  then show ?thesis using False assms current_inited by (auto simp: GetLConv_def coherent_def Let_def)
qed

lemma boot_coherent: "coherent (locale_boot, lconv_boot)"
  by (simp add: coherent_def locale_boot_def)

lemma step_coherent: "lconv_step x y \<Longrightarrow> coherent x \<Longrightarrow> coherent y"
proof (erule lconv_stepE)
  fix s l category name
  assume "coherent x" "x = (s, l)" "y = (fst (SetLocale category name s), l)"
  then show ?thesis using setlocale_coherent by blast
next
  fix s l
  assume "coherent x" "x = (s, l)" "y = (fst (GetCurrentLocale s), l)"
  then show ?thesis using current_coherent [of s l] by (metis fst_conv)
next
  assume "coherent x" "localeconv x = Some y"
  then show ?thesis using GetLConv_coherent [of "fst x" "snd x"] by (auto simp: localeconv_def)
qed

lemma steps_coherent: "lconv_step\<^sup>*\<^sup>* x y \<Longrightarrow> coherent x \<Longrightarrow> coherent y"
  by (induction rule: rtranclp_induct) (auto intro: step_coherent)

text \<open>
  C26. The structure of localeconv is a coherent cache of the current locale, for any numeric and
  monetary formats of that locale: the state at boot is coherent, and after any calls of setlocale,
  of functions that read the current locale and of localeconv from a coherent state, a call of
  localeconv returns, and all 24 fields of its structure show the formats of the locale that is
  current then.  A value that the locale does not define is shown as CHAR_MAX.
\<close>

theorem lconv_coherent:
  assumes "coherent x" "lconv_step\<^sup>*\<^sup>* x (s, l)"
  shows "coherent (locale_boot, lconv_boot) \<and>
    (\<exists>s1 l1 n m. localeconv (s, l) = Some (s1, l1) \<and> \<not> ls_lconv_update s1 \<and>
       lc_numeric (snd (GetCurrentLocale s)) = Some n \<and> lc_monetary (snd (GetCurrentLocale s)) = Some m \<and>
       shows_formats n m l1)"
  using GetLConv_coherent [OF steps_coherent [OF assms(2,1)]] boot_coherent unfolding localeconv_def by blast

text \<open>
  A current locale with other formats than the default one, and a structure that shows them.  After
  setlocale for the numbers only, the decimal point is that of the new locale, and the currency is
  that of the old one.
\<close>

definition other_numeric :: numeric where
  "other_numeric = \<lparr> nu_decimal_point = '','', nu_thousands_sep = '' '', nu_grouping = ''3'' \<rparr>"

definition other_state :: locale_state where
  "other_state = \<lparr> ls_inited = True,
     ls_current = DefaultLocale\<lparr>lc_numeric := Some other_numeric,
       lc_monetary := Some (default_monetary\<lparr>mo_currency_symbol := ''EUR'', mo_frac_digits := 2\<rparr>)\<rparr>,
     ls_lconv_update = False \<rparr>"

theorem lconv_coherent_witness:
  "\<exists>s1 l1. localeconv (fst (SetLocale LC_NUMERIC ''C'' other_state),
       fill_lconv other_numeric (default_monetary\<lparr>mo_currency_symbol := ''EUR'', mo_frac_digits := 2\<rparr>)) = Some (s1, l1) \<and>
     lv_decimal_point l1 = Some ''.'' \<and> lv_currency_symbol l1 = Some ''EUR'' \<and> lv_frac_digits l1 = 2 \<and>
     lv_p_cs_precedes l1 = CHAR_MAX"
proof -
  let ?m = "default_monetary\<lparr>mo_currency_symbol := ''EUR'', mo_frac_digits := 2\<rparr>"
  let ?l = "fill_lconv other_numeric ?m"
  have "coherent (other_state, ?l)"
    using fill_shows [of other_numeric ?m] by (simp add: coherent_def other_state_def Let_def)
  moreover have "lconv_step\<^sup>*\<^sup>* (other_state, ?l) (fst (SetLocale LC_NUMERIC ''C'' other_state), ?l)"
    by (rule r_into_rtranclp) (rule step_setlocale)
  moreover have "snd (GetCurrentLocale (fst (SetLocale LC_NUMERIC ''C'' other_state))) =
      DefaultLocale\<lparr>lc_numeric := Some default_numeric, lc_monetary := Some ?m\<rparr>"
    by (simp add: SetLocale_def GetCurrentLocale_def other_state_def default_formats LC_ALL_def LC_COLLATE_def LC_CTYPE_def
        LC_MESSAGES_def LC_MONETARY_def LC_NUMERIC_def Let_def DefaultLocale_def)
  ultimately show ?thesis
    using lconv_coherent [of "(other_state, ?l)" "fst (SetLocale LC_NUMERIC ''C'' other_state)" ?l]
    by (auto simp: other_state_def shows_formats_def value_shown_def default_numeric_def default_monetary_def CHAR_MAX_def)
qed

end
