(* ===== verification/XEOS_LocaleObjects.thy ===== *)
theory XEOS_LocaleObjects
  imports XEOS_LocaleProps
begin

text \<open>
  Locale objects: System_Locale_Create, System_Locale_Duplicate, System_Locale_Free and
  System_Locale_Use, with malloc, calloc and free of this library, which are stubs: the first two
  always return NULL, and free does nothing.

  The store is a partial map from addresses to objects; 0 is NULL, where no object is.  The records
  of XEOS_Locale have the contents of the tables that a part of a locale points to, which a copy
  shares.  The sizes that are passed for structures are those of the compiler, a parameter.
\<close>

section \<open>Store\<close>

record locale_object =
  lo_name :: nat
  lo_collate :: nat
  lo_ctype :: nat
  lo_messages :: nat
  lo_monetary :: nat
  lo_numeric :: nat
  lo_time :: nat

datatype (plugins del: size) lc_object =
    OStr string | OCollate collate | OCType ctype | OMessages messages | OMonetary monetary
  | ONumeric numeric | OTime time_names | OLocale locale_object

type_synonym lc_store = "nat \<Rightarrow> lc_object option"

datatype lc_struct = SLocale | SCollate | SCType | SMessages | SMonetary | SNumeric | STime

definition malloc :: "nat \<Rightarrow> nat" where "malloc n = 0"

definition calloc :: "nat \<Rightarrow> nat \<Rightarrow> nat" where "calloc nmemb n = 0"

definition free :: "nat \<Rightarrow> lc_store \<Rightarrow> lc_store" where "free p s = s"

text \<open>The fields of a locale, and the string of a name; undefined where there is none.\<close>

definition locale_at :: "lc_store \<Rightarrow> nat \<Rightarrow> locale_object option" where
  "locale_at s p = (case s p of Some (OLocale l) \<Rightarrow> Some l | _ \<Rightarrow> None)"

definition string_at :: "lc_store \<Rightarrow> nat \<Rightarrow> string option" where
  "string_at s p = (case s p of Some (OStr x) \<Rightarrow> Some x | _ \<Rightarrow> None)"

text \<open>memcpy and strcpy of a whole object; both addresses must be those of objects.\<close>

definition copy_object :: "nat \<Rightarrow> nat \<Rightarrow> lc_store \<Rightarrow> lc_store option" where
  "copy_object q p s =
     (case (s q, s p) of (Some y, Some x) \<Rightarrow> Some (s(q \<mapsto> x)) | _ \<Rightarrow> None)"

definition copy_string :: "nat \<Rightarrow> nat \<Rightarrow> lc_store \<Rightarrow> lc_store option" where
  "copy_string q p s =
     (case (s q, string_at s p) of (Some y, Some x) \<Rightarrow> Some (s(q \<mapsto> OStr x)) | _ \<Rightarrow> None)"


section \<open>Operations\<close>

text \<open>The seven parts of a locale, in the order in which the functions treat them.\<close>

definition parts :: "locale_object \<Rightarrow> nat list" where
  "parts l = [lo_name l, lo_collate l, lo_ctype l, lo_messages l, lo_monetary l, lo_numeric l, lo_time l]"

fun locale_of :: "nat list \<Rightarrow> locale_object" where
  "locale_of [a, b, c, d, e, f, g] = \<lparr> lo_name = a, lo_collate = b, lo_ctype = c, lo_messages = d, lo_monetary = e,
     lo_numeric = f, lo_time = g \<rparr>"

text \<open>Consecutive statements if( q != NULL and b ) with a copy from p to q.\<close>

fun copy_all :: "(bool \<times> nat \<times> nat) list \<Rightarrow> lc_store \<Rightarrow> lc_store option" where
  "copy_all [] s = Some s"
| "copy_all ((b, q, p) # xs) s =
     (if q \<noteq> 0 \<and> b then (case copy_object q p s of None \<Rightarrow> None | Some s1 \<Rightarrow> copy_all xs s1) else copy_all xs s)"

definition Locale_Free :: "nat \<Rightarrow> lc_store \<Rightarrow> lc_store option" where
  "Locale_Free p s = map_option (\<lambda>l. fold free (parts l @ [p]) s) (locale_at s p)"

definition Locale_Use :: "nat \<Rightarrow> nat" where "Locale_Use p = 0"

definition Locale_Duplicate :: "(lc_struct \<Rightarrow> nat) \<Rightarrow> nat \<Rightarrow> lc_store \<Rightarrow> (lc_store \<times> nat) option" where
  "Locale_Duplicate sz p s =
     (if p = 0 then Some (s, 0)
      else case locale_at s p of
        None \<Rightarrow> None
      | Some l \<Rightarrow>
          (case string_at s (lo_name l) of
             None \<Rightarrow> None
           | Some n \<Rightarrow>
               let newLocale = calloc (sz SLocale) 1;
                   name = calloc (length n + 1) 1;
                   qs = map (\<lambda>st. malloc (sz st)) [SCollate, SCType, SMessages, SMonetary, SNumeric, STime]
               in (case (if name \<noteq> 0 then copy_string name (lo_name l) s else Some s) of
                     None \<Rightarrow> None
                   | Some s1 \<Rightarrow>
                       (case copy_all (zip (replicate 6 True) (zip qs (tl (parts l)))) s1 of
                          None \<Rightarrow> None
                        | Some s2 \<Rightarrow>
                            if newLocale \<noteq> 0 then Some (s2(newLocale \<mapsto> OLocale (locale_of (name # qs))), newLocale)
                            else Some (fold free (name # qs) s2, newLocale)))))"

text \<open>The mask is compared with the numbers of the categories.\<close>

definition has_category :: "int \<Rightarrow> int \<Rightarrow> bool" where
  "has_category categories category \<longleftrightarrow> categories AND category \<noteq> 0"

definition Locale_Create :: "(lc_struct \<Rightarrow> nat) \<Rightarrow> int \<Rightarrow> nat \<Rightarrow> nat \<Rightarrow> lc_store \<Rightarrow> (lc_store \<times> nat) option" where
  "Locale_Create sz categoryMask name base s =
     (if base = 0 then Some (s, calloc (sz SLocale) 1)
      else case locale_at s base of
        None \<Rightarrow> None
      | Some l \<Rightarrow>
          (case (string_at s (lo_name l), string_at s name) of
             (Some b, Some n) \<Rightarrow>
               let categories = (if length b = 0 then LC_ALL else if b = ''C'' then LC_ALL else if b = ''POSIX'' then LC_ALL
                           else categoryMask);
                   newLocale = calloc (sz SLocale) 1;
                   newName = calloc (length n + 1) 1;
                   qs = map (\<lambda>st. calloc (sz st) 1) [SCollate, SCType, SMessages, SMonetary, SNumeric, STime]
               in (case (if name \<noteq> 0 then copy_string newName name s else Some s) of
                     None \<Rightarrow> None
                   | Some s1 \<Rightarrow>
                       (case copy_all (zip (map (has_category categories)
                                [LC_COLLATE, LC_CTYPE, LC_MESSAGES, LC_MONETARY, LC_NUMERIC, LC_TIME])
                              (zip qs (tl (parts l)))) s1 of
                          None \<Rightarrow> None
                        | Some s2 \<Rightarrow>
                            if newLocale \<noteq> 0
                            then Some (s2(newLocale \<mapsto> OLocale (locale_of (name # qs))), newLocale)
                            else Some (fold free (newName # qs) s2, newLocale)))
           | _ \<Rightarrow> None))"


section \<open>What the operations do with this allocator\<close>

lemma fold_free: "fold free ps s = s"
  by (induction ps) (simp_all add: free_def)

text \<open>Freeing a locale changes nothing.\<close>

lemma Locale_Free_keeps: "locale_at s p = Some l \<Longrightarrow> Locale_Free p s = Some s"
  by (simp add: Locale_Free_def fold_free free_def)

text \<open>A duplicate of a locale with a name is always NULL, and nothing is copied.\<close>

lemma Locale_Duplicate_NULL:
  assumes "p = 0 \<or> (\<exists>l n. locale_at s p = Some l \<and> string_at s (lo_name l) = Some n)"
  shows "Locale_Duplicate sz p s = Some (s, 0)"
  using assms
  by (cases "p = 0") (auto simp: Locale_Duplicate_def calloc_def malloc_def fold_free free_def parts_def numeral_eq_Suc)

text \<open>A locale created without a base is NULL; with a base, the name is copied to NULL.\<close>

lemma Locale_Create_NULL: "Locale_Create sz categories name 0 s = Some (s, 0)"
  by (simp add: Locale_Create_def calloc_def)

lemma Locale_Create_undefined:
  assumes "s 0 = None" "base \<noteq> 0"
  shows "Locale_Create sz categories name base s = None"
proof -
  have "string_at s 0 = None" "copy_string 0 name s = None"
    using assms(1) by (simp_all add: string_at_def copy_string_def)
  then show ?thesis
    using assms(2)
    by (cases "name = 0") (auto simp: Locale_Create_def calloc_def Let_def split: option.splits)
qed

text \<open>
  The categories are numbers and not masks: with LC_ALL, which is 0, no part would be copied, and
  LC_CTYPE has a bit in common with LC_MONETARY.
\<close>

lemma has_category_numbers: "\<not> has_category LC_ALL category" "has_category LC_CTYPE LC_MONETARY"
  by (simp_all add: has_category_def LC_ALL_def LC_CTYPE_def LC_MONETARY_def)

end
