(* ===== verification/XEOS_Threads.thy ===== *)
theory XEOS_Threads
  imports XEOS_Base
begin

text \<open>
  The threads of C11 (source/lib/c11/threads), which call the functions of pthread and turn their
  result into one of C11.  The results of the calls of pthread are a parameter; pthread_stubs is the
  library that comes with the source (source/lib/pthread), in which every function returns 0.
\<close>

definition mtx_plain :: int where "mtx_plain = 0x01"
definition mtx_recursive :: int where "mtx_recursive = 0x02"
definition mtx_timed :: int where "mtx_timed = 0x04"
definition thrd_success :: int where "thrd_success = 0x00"
definition thrd_error :: int where "thrd_error = 0x01"
definition thrd_timedout :: int where "thrd_timedout = 0x02"
definition ETIMEDOUT :: int where "ETIMEDOUT = 0x4E"
definition PTHREAD_MUTEX_NORMAL :: int where "PTHREAD_MUTEX_NORMAL = 0x00"
definition PTHREAD_MUTEX_RECURSIVE :: int where "PTHREAD_MUTEX_RECURSIVE = 0x02"

record pthread =
  pthread_cond_broadcast :: int
  pthread_cond_init :: int
  pthread_cond_signal :: int
  pthread_cond_timedwait :: int
  pthread_cond_wait :: int
  pthread_mutex_init :: int
  pthread_mutex_lock :: int
  pthread_mutex_timedlock :: int
  pthread_mutex_trylock :: int
  pthread_create :: int
  pthread_detach :: int
  pthread_equal :: int
  pthread_join :: int
  pthread_key_create :: int
  pthread_setspecific :: int

definition pthread_stubs :: pthread where
  "pthread_stubs = \<lparr> pthread_cond_broadcast = 0, pthread_cond_init = 0, pthread_cond_signal = 0, pthread_cond_timedwait = 0,
     pthread_cond_wait = 0, pthread_mutex_init = 0, pthread_mutex_lock = 0, pthread_mutex_timedlock = 0,
     pthread_mutex_trylock = 0, pthread_create = 0, pthread_detach = 0, pthread_equal = 0, pthread_join = 0,
     pthread_key_create = 0, pthread_setspecific = 0 \<rparr>"


section \<open>Operations\<close>

definition cnd_broadcast :: "pthread \<Rightarrow> int" where
  "cnd_broadcast pt = (if pthread_cond_broadcast pt = 0 then thrd_success else thrd_error)"
definition cnd_init :: "pthread \<Rightarrow> int" where
  "cnd_init pt = (if pthread_cond_init pt = 0 then thrd_success else thrd_error)"
definition cnd_signal :: "pthread \<Rightarrow> int" where
  "cnd_signal pt = (if pthread_cond_signal pt = 0 then thrd_success else thrd_error)"
definition cnd_timedwait :: "pthread \<Rightarrow> int" where
  "cnd_timedwait pt =
     (let res = pthread_cond_timedwait pt
      in if res = ETIMEDOUT then thrd_timedout else if res = 0 then thrd_success else thrd_error)"
definition cnd_wait :: "pthread \<Rightarrow> int" where
  "cnd_wait pt = (if pthread_cond_wait pt \<noteq> 0 then thrd_success else thrd_error)"
definition mtx_lock :: "pthread \<Rightarrow> int" where
  "mtx_lock pt = (if pthread_mutex_lock pt = 0 then thrd_success else thrd_error)"
definition mtx_timedlock :: "pthread \<Rightarrow> int" where
  "mtx_timedlock pt =
     (let res = pthread_mutex_timedlock pt
      in if res = ETIMEDOUT then thrd_timedout else if res = 0 then thrd_success else thrd_error)"
definition mtx_trylock :: "pthread \<Rightarrow> int" where
  "mtx_trylock pt = (if pthread_mutex_trylock pt = 0 then thrd_success else thrd_error)"
definition thrd_create :: "pthread \<Rightarrow> int" where
  "thrd_create pt = (if pthread_create pt \<noteq> 0 then thrd_success else thrd_error)"
definition thrd_detach :: "pthread \<Rightarrow> int" where
  "thrd_detach pt = (if pthread_detach pt = 0 then thrd_success else thrd_error)"
definition thrd_equal :: "pthread \<Rightarrow> int" where
  "thrd_equal pt = pthread_equal pt"
definition thrd_join :: "pthread \<Rightarrow> int" where
  "thrd_join pt = (if pthread_join pt = 0 then thrd_success else thrd_error)"
definition tss_create :: "pthread \<Rightarrow> int" where
  "tss_create pt = (if pthread_key_create pt = 0 then thrd_success else thrd_error)"
definition tss_set :: "pthread \<Rightarrow> int" where
  "tss_set pt = (if pthread_setspecific pt = 0 then thrd_success else thrd_error)"

text \<open>mtx_unlock calls itself; a call that never returns is None.\<close>

partial_function (option) mtx_unlock :: "pthread \<Rightarrow> int option" where
  "mtx_unlock pt = do { r \<leftarrow> mtx_unlock pt; Some (if r = 0 then thrd_success else thrd_error) }"

text \<open>The calls of pthread that mtx_init makes, in their order, with its result.\<close>

datatype mutex_call = MutexattrInit | MutexattrSettype int | MutexattrDestroy | MutexInit

definition mtx_init :: "pthread \<Rightarrow> int \<Rightarrow> mutex_call list \<times> int" where
  "mtx_init pt type =
     (let made = (\<lambda>t. ([MutexattrInit, MutexattrSettype t, MutexattrDestroy, MutexInit],
                       if pthread_mutex_init pt = 0 then thrd_success else thrd_error))
      in if type AND mtx_recursive \<noteq> 0 \<and> type AND mtx_timed \<noteq> 0 then made PTHREAD_MUTEX_RECURSIVE
         else if type = mtx_timed then made PTHREAD_MUTEX_NORMAL
         else if type AND mtx_recursive \<noteq> 0 \<and> type AND mtx_plain \<noteq> 0 then made PTHREAD_MUTEX_RECURSIVE
         else if type = mtx_plain then made PTHREAD_MUTEX_NORMAL
         else ([MutexattrInit, MutexattrDestroy], thrd_error))"



section \<open>What they report\<close>

text \<open>A mutex that is locked can never be unlocked.\<close>

lemma mtx_unlock_never: "mtx_unlock pt = None"
proof (cases "mtx_unlock pt")
  case (Some r)
  have False by (rule mtx_unlock.raw_induct [of "\<lambda>_ _. False", OF _ Some]) (auto simp: bind_eq_Some_conv)
  then show ?thesis by blast
qed simp

text \<open>With a library of pthread that always succeeds these two report an error.\<close>

lemma inverted_results: "cnd_wait pthread_stubs = thrd_error" "thrd_create pthread_stubs = thrd_error"
  by (simp_all add: cnd_wait_def thrd_create_def pthread_stubs_def)

text \<open>
  A mutex is made for the types plain and timed alone, and for recursive with one or both of them,
  always with attributes that were destroyed before.
\<close>

lemma mtx_init_types:
  assumes "0 \<le> type" "type < 8"
  shows "MutexInit \<in> set (fst (mtx_init pt type)) \<longleftrightarrow> type \<in> {1, 3, 4, 6, 7}"
proof -
  have "type \<in> {0, 1, 2, 3, 4, 5, 6, 7}" using assms by auto
  then show ?thesis by (auto simp: mtx_init_def Let_def mtx_plain_def mtx_recursive_def mtx_timed_def)
qed

lemma mtx_init_destroyed:
  "MutexInit \<in> set (fst (mtx_init pt type)) \<Longrightarrow> \<exists>cs. fst (mtx_init pt type) = cs @ [MutexattrDestroy, MutexInit]"
  by (auto simp: mtx_init_def Let_def split: if_splits)

end
