(* ===== verification/XEOS_Errors.thy ===== *)
theory XEOS_Errors
  imports Main
begin

text \<open>
  The error messages of the library (source/lib/system/error): the switch over the error numbers of
  C99 and POSIX, as a list of the cases in their order.
\<close>

definition error_cases :: "(int \<times> string) list" where
  "error_cases = [
    (0x01, ''Mathematics argument out of domain of function''),
    (0x02, ''Illegal byte sequence''),
    (0x03, ''Result too large''),
    (0x04, ''Argument list too long''),
    (0x05, ''Permission denied''),
    (0x06, ''Address in use''),
    (0x07, ''Address not available''),
    (0x08, ''Address family not supported''),
    (0x09, ''Resource unavailable, try again''),
    (0x0A, ''Connection already in progress''),
    (0x0B, ''Bad file descriptor''),
    (0x0C, ''Bad message''),
    (0x0D, ''Device or resource busy''),
    (0x0E, ''Operation canceled''),
    (0x0F, ''No child processes''),
    (0x10, ''Connection aborted''),
    (0x11, ''Connection refused''),
    (0x12, ''Connection reset''),
    (0x13, ''Resource deadlock would occur''),
    (0x14, ''Destination address required''),
    (0x15, ''Reserved''),
    (0x16, ''File exists''),
    (0x17, ''Bad address''),
    (0x18, ''File too large''),
    (0x19, ''Host is unreachable''),
    (0x1A, ''Identifier removed''),
    (0x1B, ''Operation in progress''),
    (0x1C, ''Interrupted function''),
    (0x1D, ''Invalid argument''),
    (0x1E, ''I/O error''),
    (0x1F, ''Socket is connected''),
    (0x20, ''Is a directory''),
    (0x21, ''Too many levels of symbolic links''),
    (0x22, ''File descriptor value too large''),
    (0x23, ''Too many links''),
    (0x24, ''Message too large''),
    (0x25, ''Reserved''),
    (0x26, ''Filename too long''),
    (0x27, ''Network is down''),
    (0x28, ''Connection aborted by network''),
    (0x29, ''Network unreachable''),
    (0x2A, ''Too many files open in system''),
    (0x2B, ''No buffer space available''),
    (0x2C, ''No message is available on the STREAM head read queue''),
    (0x2D, ''No such device''),
    (0x2E, ''No such file or directory''),
    (0x2F, ''Executable file format error''),
    (0x30, ''No locks available''),
    (0x31, ''Reserved''),
    (0x32, ''Not enough space''),
    (0x33, ''No message of the desired type''),
    (0x34, ''Protocol not available''),
    (0x35, ''No space left on device''),
    (0x36, ''No STREAM resources''),
    (0x37, ''Not a STREAM''),
    (0x38, ''Function not supported''),
    (0x39, ''The socket is not connected''),
    (0x3A, ''Not a directory''),
    (0x3B, ''Directory not empty''),
    (0x3C, ''State not recoverable''),
    (0x3D, ''Not a socket''),
    (0x3E, ''Not supported''),
    (0x3F, ''Inappropriate I/O control operation''),
    (0x40, ''No such device or address''),
    (0x41, ''Operation not supported on socket''),
    (0x42, ''Value too large to be stored in data type''),
    (0x43, ''Previous owner died''),
    (0x44, ''Operation not permitted''),
    (0x45, ''Broken pipe''),
    (0x46, ''Protocol error''),
    (0x47, ''Protocol not supported''),
    (0x48, ''Protocol wrong type for socket''),
    (0x49, ''Read-only file system''),
    (0x4A, ''Invalid seek''),
    (0x4B, ''No such process''),
    (0x4C, ''Reserved''),
    (0x4D, ''Stream ioctl ( ) timeout''),
    (0x4E, ''Connection timed out''),
    (0x4F, ''Text file busy''),
    (0x50, ''Operation would block''),
    (0x51, ''Cross-device link'')]"

definition StringFromError :: "int \<Rightarrow> string" where
  "StringFromError errnum = (case map_of error_cases errnum of None \<Rightarrow> ''Unknown error'' | Some err \<Rightarrow> err)"

text \<open>The cases are distinct, as those of a switch have to be, and each number from 1 to 0x51 has one.\<close>

lemma error_cases_distinct: "distinct (map fst error_cases)"
  by (simp add: error_cases_def)

lemma error_cases_keys: "set (map fst error_cases) = {1..0x51}"
proof -
  have "set (map fst error_cases) \<subseteq> {1..0x51}" by (simp add: error_cases_def)
  moreover have "card (set (map fst error_cases)) = 0x51"
    using distinct_card [OF error_cases_distinct] by (simp add: error_cases_def)
  ultimately show ?thesis by (intro card_subset_eq) simp_all
qed

lemma error_cases_known: "\<forall>err \<in> set (map snd error_cases). err \<noteq> ''Unknown error''"
  by (simp add: error_cases_def)

lemma StringFromError_known: "StringFromError n = ''Unknown error'' \<longleftrightarrow> n \<notin> {1..0x51}"
proof (cases "map_of error_cases n")
  case None
  then have "n \<notin> {1..0x51}" using error_cases_keys by (simp add: map_of_eq_None_iff)
  then show ?thesis using None by (simp add: StringFromError_def)
next
  case (Some err)
  then have "(n, err) \<in> set error_cases" by (rule map_of_SomeD)
  then show ?thesis using Some error_cases_keys error_cases_known by (force simp: StringFromError_def)
qed

end
