(* ===== verification/Spec2Isabelle.thy ===== *)
theory Spec2Isabelle
  imports
    XEOS_MemoryStart
    XEOS_StringProps XEOS_PrintfProps XEOS_VideoProps
    XEOS_ClockProps XEOS_IDTProps
    XEOS_ELFProps XEOS_KeyboardProps XEOS_InitRDProps XEOS_Debug
    XEOS_CPUID XEOS_MainRun XEOS_GUI XEOS_LConv
    XEOS_LocaleObjects XEOS_Threads XEOS_Errors
begin

text \<open>
  XEOS is an experimental operating system for x86, written in C with an assembly boot loader.  It
  is built for two targets, i386 and x86-64.  This development models the C code of its kernel
  (source/core/xeos) that keeps state or computes, and the parts of its libraries that have code and
  not only stubs (source/lib).

  \<^bold>\<open>How the parts interact.\<close>  The boot loader passes the BIOS memory map (info).  The physical
  allocator (mem) builds a table of zones and page maps behind the kernel image from it and gives
  out pages of 4 KB.  The virtual memory code (vm) takes pages from there and builds the page
  tables of the system map, using the control registers (hal/cpu).  The interrupt table (hal/idt)
  leads an interrupt to a service routine; the one for interrupt requests (isr) runs the handlers
  registered for the request (irq) and acknowledges it at the controllers (hal/pic).  The handler of
  the real time clock reads the CMOS clock (hal/rtc) and keeps the system time with mktime; that of
  the keyboard (hal/keyboard) prints its codes.  An exception prints the registers and the calls
  that the debug code recorded, and halts.  All of them report on the console (video), whose
  formatter uses the locale and string functions.  The main function puts them together.

  \<^bold>\<open>Conventions\<close> (XEOS_Base, XEOS_Bytes, XEOS_IO).  Machine integers are words of their width;
  memory is a function from addresses to bytes, read and written little endian; a definition whose
  C code depends on the target has an argument of type arch.  Undefined behaviour and loops that do
  not end give None.  Port accesses extend a trace in the state, and the hardware that answers reads
  is a parameter of type device, a function of the trace so far.

  \<^bold>\<open>Hardware.\<close>  What the code relies on is a hypothesis on the device.  pic_device: the mask registers
  of the controllers hold what was written.  kbd_device (XEOS_KeyboardProps): the controller of the
  keyboard answers with any delay and any value of the status bits that it does not define, as long
  as it is written to only when it is ready and read only when it has data, and no key is pressed;
  outside of this protocol nothing is promised.  cmos_device and clock_runs (XEOS_ClockProps): the
  clock goes on after every access and shows some date whenever no update is in progress, which is
  guaranteed for a while after the flag of updates was read as clear, and updates end.  For each of
  them there is a simulated device, with delays and a clock that advances, that the witnesses use.

  \<^bold>\<open>Physical memory\<close> (XEOS_Info; XEOS_Mem; XEOS_MemInit).  The zone records, the page maps as bytes
  in memory, AllocPage, AllocPages, FreePage, FreePages and Initialize.  XEOS_MemSpec has the
  invariant of a consistent memory and the list of free pages; XEOS_MemRuns and XEOS_MemFree the
  lemmas on runs of pages and on giving them back; XEOS_MemProps the refinement of allocation by the
  free list, the first fit of runs, the round trip of allocation and release, and the situations in
  which the code leaves its page maps; XEOS_MemInit the zones that initialisation builds and the
  areas it protects.

  \<^bold>\<open>Virtual memory\<close> (XEOS_CPU; XEOS_VM; XEOS_VMInit).  Paging switches, the accessors of page table
  entries of both widths, and the loops that fill the tables of the system map.  XEOS_VMTables,
  XEOS_VMLevels, XEOS_VMWalk and XEOS_VMMap relate the tables to the page walk of the processor,
  level by level; XEOS_VMProps shows that at most 4 GB are mapped to themselves, and that memory
  above stays unmapped.  XEOS_MemoryStart composes both initialisations as the main function does:
  which addresses of usable memory are mapped, to themselves; the kernel, the zones and the tables
  are among them unless the BIOS map has holes that push them above the sum of its lengths.

  \<^bold>\<open>C library\<close> (XEOS_String, XEOS_MemCopy; XEOS_Locale, XEOS_LConv, XEOS_LocaleObjects; XEOS_Time;
  XEOS_Threads; XEOS_Errors).  The string functions read and write a word at a time;
  XEOS_StringWords has the facts on the bytes of a word, XEOS_StringSpec the byte-wise
  specifications, and XEOS_StringProps the equivalences.  XEOS_Locale has the character tables,
  setlocale and the ctype functions; XEOS_LocaleProps shows that they are those of ASCII in every
  state that is reachable, with the digit that isxdigit lacks.  XEOS_LConv shows that the cache of
  localeconv is coherent, for any formats of the current locale.  XEOS_LocaleObjects has the
  functions on the locales that a program makes, over a store of objects; malloc and calloc of this
  library always return NULL, so that no such locale ever exists.  XEOS_Time compares mktime with a
  calendar, and shows how far it is wrong before 1968.  XEOS_Threads has the
  results of the C11 functions over pthread, XEOS_Errors the error messages.

  \<^bold>\<open>Console and graphics\<close> (XEOS_Printf; XEOS_Video; XEOS_Messages; XEOS_GUI).  The formatter with its
  typed arguments, and the operations on the video memory and the cursor.  XEOS_PrintfProps has the
  results of conversions, XEOS_PrintfFields the hexadecimal fields of the panic screens;
  XEOS_VideoProps the invariant of all reachable states without sticky lines, and scrolling in terms
  of cells, with the bytes that it moves across the end of the screen when lines are sticky, as the
  main function makes one.  XEOS_VideoLines has text above the last row, which does not scroll, and
  the banner of a panic, for any number of sticky lines.  XEOS_Messages has the prompts with their status and both panic functions.  XEOS_GUI has
  the predefined colours and the bitmap fonts, whose glyphs are shown to be well-formed.

  \<^bold>\<open>Interrupts, time and keyboard\<close> (XEOS_PIC; XEOS_IRQ; XEOS_IDT; XEOS_Clock; XEOS_Keyboard).  The
  masks of the controllers, the tables of handlers as multisets, the descriptors and their dispatch,
  the clock from its registers to the system time, and the commands of the keyboard through its
  controller.  The properties are in XEOS_PIC, XEOS_IRQ, XEOS_IDTProps, XEOS_ClockProps and
  XEOS_KeyboardProps.

  \<^bold>\<open>Program images and debugging\<close> (XEOS_ELF, XEOS_ELFFile; XEOS_Images, XEOS_InitRD; XEOS_Debug;
  XEOS_CPUID).  The accessors of the ELF library and its functions on files, where XEOS_ELFProps has
  the search for symbols and the bounds of the tables; the initial RAM disk, which the tool mkinitrd
  writes and the kernel reads, with the round trip in XEOS_InitRDProps; the trace of calls as the
  innermost part of the call stack; the vendor and the brand name of the processor.

  \<^bold>\<open>The kernel\<close> (XEOS_Kernel; XEOS_MainRun).  The record kernel extends that of the interrupt table
  with the states of the console, the clock and the call trace, so that the service routines and
  the main function run the components on one trace.  XEOS_ExceptionProps shows what the
  rows of the screen show after an exception, that it halts, and that it writes only the screen.  XEOS_KernelProps views the kernel through machine_of as the state of
  the hardware behind the trace, and shows that the start of the main function refines started, the
  specification of the machine in which only the lines 0, 1 and 8 are unmasked, with their handlers;
  the first interrupt of the clock then sets the time.  XEOS_MainRun has the wait for this
  interrupt, which ends exactly if it comes, the start of ACPICA, and software interrupts.

  \<^bold>\<open>Interfaces.\<close>  The locales are cell_array (reading back what was written, XEOS_Bytes), page_source
  (the allocator as the table code sees it, XEOS_MemFree), table_level (a level of the page tables,
  XEOS_VMTables), handler_collection (XEOS_IRQ) and conversion (a field of a format string,
  XEOS_PrintfFields); each is interpreted on the definitions of the component that provides it.

  \<^bold>\<open>Loops.\<close>  Loops are structural recursion or functions with a measure.  Those that may run forever
  are partial functions into option: the formatter, the loops over strings, the search for a case
  conversion, the loops that wait for the clock, for the controller of the keyboard and for the first interrupt, the
  handler of the keyboard, and mtx_unlock.  For these the theorems state that they return, or that
  they do not.  No definition uses fuel.

  \<^bold>\<open>Not modelled.\<close>  Assembly code (boot loader, interrupt stubs, atomic operations) and single
  instructions beyond their effect on the registers and the trace; the third-party ACPICA, whose
  five functions that the main function calls are parameters, and its port layer, which consists of
  stubs; the information lines of the main function on the processor; code without logic (the
  accessors of the virtual file system, whose structures nothing fills, and the stubs of pthread,
  dispatch, stdio and other libraries, which return a constant).  An interrupt that arrives while
  other code runs is not modelled, except in the wait of the main function: operations are atomic.
\<close>

end
